(* ===== verification/Prelude.thy ===== *)
theory Prelude
  imports Main "HOL-Library.AList"
begin

text \<open>
  Vocabulary shared by every component: the exceptions the Python code raises, pure
  computations that may raise (\<open>exn + 'a\<close>), stateful computations that may return,
  raise or block for ever (\<open>prog\<close>), and the simulation relation between two runs of
  the same program over different states.
\<close>

named_theorems prog_simps \<open>equations that execute a program step by step\<close>
named_theorems sim_intros \<open>introduction rules for the simulation of programs\<close>

section \<open>Exceptions and results\<close>

text \<open>
  The exception classes of \<^verbatim>\<open>foris_controller/exceptions.py\<close> and the builtin ones the
  code raises or catches. The arguments kept are those the message is built from.
\<close>

datatype exn =
    UciException "string list"
  | UciTypeException string
  | UciRecordNotFound string
  | BackendCommandFailed int "string list"
  | FailedToParseCommandOutput "string list" string
  | FailedToParseFileContent string string
  | ServiceCmdFailed string string
  | GenericError string
  | UnknownAction string
  | ValidationError
  | KeyError string
  | IndexError
  | ValueError
  | AddressValueError
  | AttributeError
  | TypeError
  | StructError
  | OSError int string
  | NotImplementedError
  | SystemExit int

type_synonym 'a res = "exn + 'a"

definition bindE :: "'a res \<Rightarrow> ('a \<Rightarrow> 'b res) \<Rightarrow> 'b res" where
  "bindE m f = (case m of Inl e \<Rightarrow> Inl e | Inr x \<Rightarrow> f x)"

lemma bindE_simps [simp]:
  "bindE (Inl e) f = Inl e" "bindE (Inr x) f = f x"
  by (simp_all add: bindE_def)

lemma bindE_eq_Inr: "bindE m f = Inr y \<longleftrightarrow> (\<exists>x. m = Inr x \<and> f x = Inr y)"
  by (cases m) simp_all

lemma bindE_eq_Inl: "bindE m f = Inl e \<longleftrightarrow> m = Inl e \<or> (\<exists>x. m = Inr x \<and> f x = Inl e)"
  by (cases m) simp_all

lemma bindE_cong [fundef_cong]:
  "m = m' \<Longrightarrow> (\<And>x. m' = Inr x \<Longrightarrow> f x = g x) \<Longrightarrow> bindE m f = bindE m' g"
  by (cases m') (auto simp: bindE_def)

fun mapE :: "('a \<Rightarrow> 'b res) \<Rightarrow> 'a list \<Rightarrow> 'b list res" where
  "mapE f [] = Inr []"
| "mapE f (x # xs) = bindE (f x) (\<lambda>y. bindE (mapE f xs) (\<lambda>ys. Inr (y # ys)))"

fun filterE :: "('a \<Rightarrow> bool res) \<Rightarrow> 'a list \<Rightarrow> 'a list res" where
  "filterE p [] = Inr []"
| "filterE p (x # xs) =
     bindE (p x) (\<lambda>b. bindE (filterE p xs) (\<lambda>ys. Inr (if b then x # ys else ys)))"

lemma update_new: "k \<notin> fst ` set m \<Longrightarrow> AList.update k v m = m @ [(k, v)]"
  by (induction m) auto

lemma filterE_total: "filterE (\<lambda>x. Inr (p x)) xs = Inr (filter p xs)"
  by (induction xs) auto

lemma mapE_total: "mapE (\<lambda>x. Inr (f x)) xs = Inr (map f xs)"
  by (induction xs) auto

text \<open>Python's \<open>and\<close>: the right operand is evaluated only when the left one holds.\<close>

definition andE :: "bool res \<Rightarrow> bool res \<Rightarrow> bool res" where
  "andE a b = bindE a (\<lambda>x. if x then b else Inr False)"

lemma andE_simps [simp]:
  "andE (Inl e) b = Inl e" "andE (Inr True) b = b" "andE (Inr False) b = Inr False"
  by (simp_all add: andE_def)

section \<open>Programs over a state\<close>

text \<open>\<open>Block\<close> is a computation that waits for a lock nobody will release.\<close>

datatype 'a outcome = Ret 'a | Raise exn | Block

type_synonym ('s, 'a) prog = "'s \<Rightarrow> 'a outcome \<times> 's"

definition ret :: "'a \<Rightarrow> ('s, 'a) prog" where
  "ret x s = (Ret x, s)"

definition raise :: "exn \<Rightarrow> ('s, 'a) prog" where
  "raise e s = (Raise e, s)"

definition lift :: "'a res \<Rightarrow> ('s, 'a) prog" where
  "lift m s = (case m of Inl e \<Rightarrow> (Raise e, s) | Inr x \<Rightarrow> (Ret x, s))"

definition bindP :: "('s, 'a) prog \<Rightarrow> ('a \<Rightarrow> ('s, 'b) prog) \<Rightarrow> ('s, 'b) prog" where
  "bindP p f s = (case p s of (Ret x, s') \<Rightarrow> f x s' | (Raise e, s') \<Rightarrow> (Raise e, s')
     | (Block, s') \<Rightarrow> (Block, s'))"

text \<open>A list of statements, executed in order.\<close>

fun block :: "('s, unit) prog list \<Rightarrow> ('s, unit) prog" where
  "block [] = ret ()"
| "block (p # ps) = bindP p (\<lambda>_. block ps)"

definition whenP :: "bool \<Rightarrow> ('s, unit) prog list \<Rightarrow> ('s, unit) prog" where
  "whenP b ps = (if b then block ps else ret ())"

text \<open>\<open>tryP p catches h\<close>: \<^verbatim>\<open>try: p except <catches>: h\<close>.\<close>

definition tryP :: "('s, 'a) prog \<Rightarrow> (exn \<Rightarrow> bool) \<Rightarrow> (exn \<Rightarrow> ('s, 'a) prog) \<Rightarrow> ('s, 'a) prog" where
  "tryP p catches h s =
     (case p s of (Raise e, s') \<Rightarrow> (if catches e then h e s' else (Raise e, s')) | r \<Rightarrow> r)"

fun forP :: "'a list \<Rightarrow> ('a \<Rightarrow> ('s, unit) prog) \<Rightarrow> ('s, unit) prog" where
  "forP [] f = ret ()"
| "forP (x # xs) f = bindP (f x) (\<lambda>_. forP xs f)"

fun is_uci_exception :: "exn \<Rightarrow> bool" where
  "is_uci_exception (UciException _) = True"
| "is_uci_exception _ = False"

fun is_record_not_found :: "exn \<Rightarrow> bool" where
  "is_record_not_found (UciRecordNotFound _) = True"
| "is_record_not_found _ = False"

lemma prog_basic [prog_simps]:
  "ret x s = (Ret x, s)" "raise e s = (Raise e, s)"
  "lift (Inl e) s = (Raise e, s)" "lift (Inr x) s = (Ret x, s)"
  by (simp_all add: ret_def raise_def lift_def)

lemma bindP_Ret [prog_simps]: "p s = (Ret x, s') \<Longrightarrow> bindP p f s = f x s'"
  by (simp add: bindP_def)

lemma bindP_Raise [prog_simps]: "p s = (Raise e, s') \<Longrightarrow> bindP p f s = (Raise e, s')"
  by (simp add: bindP_def)

lemma bindP_Block [prog_simps]: "p s = (Block, s') \<Longrightarrow> bindP p f s = (Block, s')"
  by (simp add: bindP_def)

lemma bindP_RetD:
  assumes "bindP p f s = (Ret y, s')"
  obtains x s1 where "p s = (Ret x, s1)" "f x s1 = (Ret y, s')"
  using assms by (auto simp: bindP_def split: prod.splits outcome.splits)

lemma tryP_Ret [prog_simps]: "p s = (Ret x, s') \<Longrightarrow> tryP p c h s = (Ret x, s')"
  by (simp add: tryP_def)

lemma tryP_Raise [prog_simps]:
  "p s = (Raise e, s') \<Longrightarrow> tryP p c h s = (if c e then h e s' else (Raise e, s'))"
  by (simp add: tryP_def)

lemma block_append: "block (ps @ qs) = bindP (block ps) (\<lambda>_. block qs)"
proof (induction ps)
  case Nil
  then show ?case by (simp add: bindP_def ret_def fun_eq_iff)
next
  case (Cons p ps)
  then show ?case by (simp add: bindP_def fun_eq_iff split: prod.splits outcome.splits)
qed

section \<open>Simulation of programs\<close>

text \<open>
  Two runs of a program over related states give the same outcome and related states. The
  combinators keep it, so a program built from related primitives is simulated.
\<close>

definition sim :: "('s \<Rightarrow> 't \<Rightarrow> bool) \<Rightarrow> ('s, 'a) prog \<Rightarrow> ('t, 'a) prog \<Rightarrow> bool" where
  "sim R p q \<longleftrightarrow> (\<forall>s t. R s t \<longrightarrow> fst (p s) = fst (q t) \<and> R (snd (p s)) (snd (q t)))"

lemma simI:
  "(\<And>s t. R s t \<Longrightarrow> fst (p s) = fst (q t) \<and> R (snd (p s)) (snd (q t))) \<Longrightarrow> sim R p q"
  by (simp add: sim_def)

lemma simD: "sim R p q \<Longrightarrow> R s t \<Longrightarrow> fst (p s) = fst (q t) \<and> R (snd (p s)) (snd (q t))"
  by (simp add: sim_def)

lemma simE:
  assumes "sim R p q" "R s t" "q t = (r, t')"
  obtains s' where "p s = (r, s')" "R s' t'"
proof
  show "p s = (r, snd (p s))"
    using assms by (metis fst_conv prod.collapse sim_def)
  show "R (snd (p s)) t'"
    using assms by (metis snd_conv sim_def)
qed

lemma sim_ret [sim_intros]: "sim R (ret x) (ret x)"
  by (simp add: sim_def ret_def)

lemma sim_raise [sim_intros]: "sim R (raise e) (raise e)"
  by (simp add: sim_def raise_def)

lemma sim_lift [sim_intros]: "sim R (lift m) (lift m)"
  by (cases m) (simp_all add: sim_def lift_def)

lemma sim_bindP [sim_intros]:
  assumes "sim R p q" and "\<And>x. sim R (f x) (g x)"
  shows "sim R (bindP p f) (bindP q g)"
proof (rule simI)
  fix s t
  assume st: "R s t"
  obtain r s' where p: "p s = (r, s')" by (cases "p s")
  obtain r2 t' where q: "q t = (r2, t')" by (cases "q t")
  from st assms(1) p q have "r2 = r" "R s' t'" by (auto simp: sim_def dest!: spec)
  then show "fst (bindP p f s) = fst (bindP q g t) \<and> R (snd (bindP p f s)) (snd (bindP q g t))"
    using p q assms(2) by (cases r) (auto simp: bindP_def sim_def)
qed

lemma sim_block [sim_intros]: "list_all2 (sim R) ps qs \<Longrightarrow> sim R (block ps) (block qs)"
  by (induction rule: list_all2_induct) (auto intro!: sim_intros)

lemma sim_whenP [sim_intros]: "list_all2 (sim R) ps qs \<Longrightarrow> sim R (whenP b ps) (whenP b qs)"
  by (simp add: whenP_def sim_block sim_ret)

lemma sim_tryP [sim_intros]:
  assumes "sim R p q" and "\<And>e. sim R (h e) (k e)"
  shows "sim R (tryP p c h) (tryP q c k)"
proof (rule simI)
  fix s t
  assume st: "R s t"
  obtain r s' where p: "p s = (r, s')" by (cases "p s")
  obtain r2 t' where q: "q t = (r2, t')" by (cases "q t")
  from st assms(1) p q have "r2 = r" "R s' t'" by (auto simp: sim_def dest!: spec)
  then show "fst (tryP p c h s) = fst (tryP q c k t) \<and> R (snd (tryP p c h s)) (snd (tryP q c k t))"
    using p q assms(2) by (cases r) (auto simp: tryP_def sim_def)
qed

lemma sim_forP [sim_intros]:
  "(\<And>x. x \<in> set xs \<Longrightarrow> sim R (f x) (g x)) \<Longrightarrow> sim R (forP xs f) (forP xs g)"
  by (induction xs) (auto intro!: sim_intros)

lemma sim_if [sim_intros]:
  "(b \<Longrightarrow> sim R p q) \<Longrightarrow> (\<not> b \<Longrightarrow> sim R p' q') \<Longrightarrow>
    sim R (if b then p else p') (if b then q else q')"
  by simp

lemma sim_case_option [sim_intros]:
  "(m = None \<Longrightarrow> sim R p q) \<Longrightarrow> (\<And>x. m = Some x \<Longrightarrow> sim R (f x) (g x)) \<Longrightarrow>
    sim R (case m of None \<Rightarrow> p | Some x \<Rightarrow> f x) (case m of None \<Rightarrow> q | Some x \<Rightarrow> g x)"
  by (cases m) simp_all

lemma sim_case_prod [sim_intros]:
  "(\<And>x y. sim R (f x y) (g x y)) \<Longrightarrow> sim R (case m of (x, y) \<Rightarrow> f x y) (case m of (x, y) \<Rightarrow> g x y)"
  by (cases m) simp

lemma sim_list_all2 [sim_intros]:
  "list_all2 (sim R) [] []"
  "sim R p q \<Longrightarrow> list_all2 (sim R) ps qs \<Longrightarrow> list_all2 (sim R) (p # ps) (q # qs)"
  by simp_all

lemma sim_append [sim_intros]:
  "list_all2 (sim R) ps qs \<Longrightarrow> list_all2 (sim R) ps' qs' \<Longrightarrow>
    list_all2 (sim R) (ps @ ps') (qs @ qs')"
  by (rule list_all2_appendI)

text \<open>The same for one pair of states, where a later step depends on an earlier result.\<close>

definition sim_at ::
  "('s \<Rightarrow> 't \<Rightarrow> bool) \<Rightarrow> ('s, 'a) prog \<Rightarrow> ('t, 'a) prog \<Rightarrow> 's \<Rightarrow> 't \<Rightarrow> bool" where
  "sim_at R p q s t \<longleftrightarrow> fst (p s) = fst (q t) \<and> R (snd (p s)) (snd (q t))"

lemma sim_atI: "sim R p q \<Longrightarrow> R s t \<Longrightarrow> sim_at R p q s t"
  by (simp add: sim_at_def sim_def)

lemma sim_at_bindP:
  assumes "sim_at R p q s t"
    and "\<And>x s' t'. q t = (Ret x, t') \<Longrightarrow> R s' t' \<Longrightarrow> sim_at R (f x) (g x) s' t'"
  shows "sim_at R (bindP p f) (bindP q g) s t"
proof -
  obtain r s' where p: "p s = (r, s')" by (cases "p s")
  obtain r2 t' where q: "q t = (r2, t')" by (cases "q t")
  from assms(1) p q have "r2 = r" "R s' t'" by (auto simp: sim_at_def)
  then show ?thesis using p q assms(2) by (cases r) (auto simp: bindP_def sim_at_def)
qed

end
