(* ===== verification/PyStr.thy ===== *)
theory PyStr
  imports Prelude "HOL-Library.Char_ord"
begin

text \<open>
  The string methods of Python that the code uses, on ASCII strings (a \<open>string\<close> is a
  list of characters; the non-ASCII branches of \<^verbatim>\<open>str.isspace\<close>, \<^verbatim>\<open>str.lower\<close> and \<^verbatim>\<open>int\<close>
  are not modelled): stripping, splitting, searching, case conversion, and printing and
  parsing of decimal integers.
\<close>

section \<open>Characters\<close>

definition is_space :: "char \<Rightarrow> bool" where
  "is_space c = (let n = (of_char c :: nat) in (9 \<le> n \<and> n \<le> 13) \<or> (28 \<le> n \<and> n \<le> 32))"

definition is_digit :: "char \<Rightarrow> bool" where
  "is_digit c = (let n = (of_char c :: nat) in 48 \<le> n \<and> n \<le> 57)"

definition digit_val :: "char \<Rightarrow> nat" where
  "digit_val c = of_char c - 48"

definition digit_char :: "nat \<Rightarrow> char" where
  "digit_char n = char_of (48 + n)"

definition to_lower :: "char \<Rightarrow> char" where
  "to_lower c = (let n = (of_char c :: nat) in if 65 \<le> n \<and> n \<le> 90 then char_of (n + 32) else c)"

definition to_upper :: "char \<Rightarrow> char" where
  "to_upper c = (let n = (of_char c :: nat) in if 97 \<le> n \<and> n \<le> 122 then char_of (n - 32) else c)"

definition lower :: "string \<Rightarrow> string" where
  "lower s = map to_lower s"

definition upper :: "string \<Rightarrow> string" where
  "upper s = map to_upper s"

lemma of_char_less_256 [simp]: "(of_char c :: nat) < 256"
  by (metis atLeastLessThan_iff range_nat_of_char rangeI)

lemma of_char_minus_mod [simp]: "((of_char c :: nat) - k) mod 256 = of_char c - k"
  by (rule mod_less) (use of_char_less_256 [of c] in linarith)

lemma digit_char_of: "n < 10 \<Longrightarrow> of_char (digit_char n) = 48 + n"
  by (simp add: digit_char_def)

lemma is_digit_digit_char [simp]: "n < 10 \<Longrightarrow> is_digit (digit_char n)"
  by (simp add: is_digit_def digit_char_of)

lemma digit_val_digit_char [simp]: "n < 10 \<Longrightarrow> digit_val (digit_char n) = n"
  by (simp add: digit_val_def digit_char_of)

lemma digit_not_space: "is_digit c \<Longrightarrow> \<not> is_space c"
  by (auto simp: is_digit_def is_space_def Let_def)

lemma to_upper_idem [simp]: "to_upper (to_upper c) = to_upper c"
  by (auto simp: to_upper_def Let_def)

lemma upper_idem [simp]: "upper (upper s) = upper s"
  by (simp add: upper_def comp_def)

lemma length_upper [simp]: "length (upper s) = length s"
  by (simp add: upper_def)

section \<open>Stripping and searching\<close>

definition lstrip_of :: "(char \<Rightarrow> bool) \<Rightarrow> string \<Rightarrow> string" where
  "lstrip_of p s = dropWhile p s"

definition strip_of :: "(char \<Rightarrow> bool) \<Rightarrow> string \<Rightarrow> string" where
  "strip_of p s = rev (dropWhile p (rev (dropWhile p s)))"

definition strip :: "string \<Rightarrow> string" where
  "strip s = strip_of is_space s"

fun startswith :: "string \<Rightarrow> string \<Rightarrow> bool" where
  "startswith s [] = True"
| "startswith [] (p # ps) = False"
| "startswith (c # s) (p # ps) = (c = p \<and> startswith s ps)"

definition endswith :: "string \<Rightarrow> string \<Rightarrow> bool" where
  "endswith s p = startswith (rev s) (rev p)"

fun contains :: "string \<Rightarrow> string \<Rightarrow> bool" where
  "contains [] p = (p = [])"
| "contains (c # s) p = (startswith (c # s) p \<or> contains s p)"

lemma startswith_iff: "startswith s p \<longleftrightarrow> (\<exists>t. s = p @ t)"
  by (induction s p rule: startswith.induct) auto

lemma contains_iff: "contains s p \<longleftrightarrow> (\<exists>u v. s = u @ p @ v)"
proof (induction s)
  case Nil
  then show ?case by auto
next
  case (Cons c s)
  have "(\<exists>u v. c # s = u @ p @ v) \<longleftrightarrow> (\<exists>v. c # s = p @ v) \<or> (\<exists>u v. s = u @ p @ v)"
    by (auto simp: Cons_eq_append_conv)
  then show ?case using Cons by (simp add: startswith_iff)
qed

lemma strip_of_id: "s = [] \<or> (\<not> p (hd s) \<and> \<not> p (last s)) \<Longrightarrow> strip_of p s = s"
proof (cases s)
  case (Cons a t)
  moreover assume "s = [] \<or> (\<not> p (hd s) \<and> \<not> p (last s))"
  ultimately have "\<not> p a" "\<not> p (last s)" "s \<noteq> []" by auto
  moreover from this have "dropWhile p (rev s) = rev s"
    by (simp add: dropWhile_eq_self_iff hd_rev)
  ultimately show ?thesis using Cons by (simp add: strip_of_def)
qed (simp add: strip_of_def)

section \<open>Splitting and joining\<close>

fun split_on :: "char \<Rightarrow> string \<Rightarrow> string list" where
  "split_on c [] = [[]]"
| "split_on c (x # xs) =
     (if x = c then [] # split_on c xs
      else (case split_on c xs of [] \<Rightarrow> [[x]] | y # ys \<Rightarrow> (x # y) # ys))"

text \<open>\<^verbatim>\<open>s.split(c, maxsplit=1)\<close>.\<close>

definition split_once :: "char \<Rightarrow> string \<Rightarrow> string list" where
  "split_once c s =
     (case dropWhile (\<lambda>x. x \<noteq> c) s of [] \<Rightarrow> [s]
      | _ # rest \<Rightarrow> [takeWhile (\<lambda>x. x \<noteq> c) s, rest])"

fun join :: "string \<Rightarrow> string list \<Rightarrow> string" where
  "join sep [] = []"
| "join sep [s] = s"
| "join sep (s # t # ts) = s @ sep @ join sep (t # ts)"

lemma split_on_nonempty [simp]: "split_on c s \<noteq> []"
  by (induction s) (auto split: list.splits)

lemma split_on_append: "c \<notin> set a \<Longrightarrow> split_on c (a @ c # b) = a # split_on c b"
  by (induction a) auto

lemma split_on_none: "c \<notin> set a \<Longrightarrow> split_on c a = [a]"
  by (induction a) auto

lemma split_on_no_sep: "t \<in> set (split_on c s) \<Longrightarrow> c \<notin> set t"
proof (induction s arbitrary: t)
  case Nil
  then show ?case by simp
next
  case (Cons x xs)
  obtain y ys where "split_on c xs = y # ys" by (metis split_on_nonempty list.exhaust)
  with Cons show ?case by (auto split: if_splits)
qed

lemma join_split_on: "join [c] (split_on c s) = s"
proof (induction s)
  case Nil
  then show ?case by simp
next
  case (Cons x xs)
  obtain y ys where eq: "split_on c xs = y # ys" by (metis split_on_nonempty list.exhaust)
  with Cons have "join [c] (y # ys) = xs" by simp
  then show ?case using eq by (cases ys) auto
qed

lemma split_on_join: "xs \<noteq> [] \<Longrightarrow> \<forall>x\<in>set xs. c \<notin> set x \<Longrightarrow> split_on c (join [c] xs) = xs"
  by (induction "[c]" xs rule: join.induct) (auto simp: split_on_none split_on_append)

text \<open>
  \<^verbatim>\<open>str.splitlines()\<close>: the ASCII line boundaries; \<^verbatim>\<open>\r\n\<close> is one boundary and a final
  boundary opens no further line.
\<close>

definition is_linebreak :: "char \<Rightarrow> bool" where
  "is_linebreak c = (let n = (of_char c :: nat) in (10 \<le> n \<and> n \<le> 13) \<or> (28 \<le> n \<and> n \<le> 30))"

fun splitlines_from :: "string \<Rightarrow> string \<Rightarrow> string list" where
  "splitlines_from cur [] = (if cur = [] then [] else [rev cur])"
| "splitlines_from cur (c # cs) =
     (if is_linebreak c then
        (case cs of [] \<Rightarrow> [rev cur]
         | d # ds \<Rightarrow>
             rev cur # (if of_char c = (13::nat) \<and> of_char d = (10::nat)
                        then splitlines_from [] ds else splitlines_from [] (d # ds)))
      else splitlines_from (c # cur) cs)"

definition splitlines :: "string \<Rightarrow> string list" where
  "splitlines s = splitlines_from [] s"

definition newline :: char where
  "newline = CHR 0x0A"

lemma newline_linebreak [simp]: "is_linebreak newline" "of_char newline = (10::nat)"
  by (simp_all add: is_linebreak_def newline_def)

lemma splitlines_from_line:
  "\<forall>c\<in>set l. \<not> is_linebreak c \<Longrightarrow>
    splitlines_from cur (l @ newline # rest) = (rev cur @ l) # splitlines_from [] rest"
  by (induction l arbitrary: cur) (auto split: list.splits)

definition unlines :: "string list \<Rightarrow> string" where
  "unlines ls = concat (map (\<lambda>l. l @ [newline]) ls)"

lemma splitlines_unlines:
  "\<forall>l\<in>set ls. \<forall>c\<in>set l. \<not> is_linebreak c \<Longrightarrow> splitlines (unlines ls) = ls"
  unfolding splitlines_def unlines_def
  by (induction ls) (auto simp: splitlines_from_line)

section \<open>Decimal integers\<close>

fun show_nat :: "nat \<Rightarrow> string" where
  "show_nat n = (if n < 10 then [digit_char n] else show_nat (n div 10) @ [digit_char (n mod 10)])"

declare show_nat.simps [simp del]

definition show_int :: "int \<Rightarrow> string" where
  "show_int i = (if i < 0 then CHR ''-'' # show_nat (nat (- i)) else show_nat (nat i))"

text \<open>
  The digits of \<^verbatim>\<open>int(s)\<close>: at least one, single underscores allowed between two of them.
  The flag says whether the previous character was a digit.
\<close>

fun digits_val :: "nat \<Rightarrow> bool \<Rightarrow> string \<Rightarrow> nat option" where
  "digits_val acc prev [] = (if prev then Some acc else None)"
| "digits_val acc prev (c # cs) =
     (if is_digit c then digits_val (10 * acc + digit_val c) True cs
      else if c = CHR ''_'' \<and> prev then digits_val acc False cs
      else None)"

definition py_int :: "string \<Rightarrow> int option" where
  "py_int s = (case strip s of
      [] \<Rightarrow> None
    | c # cs \<Rightarrow>
        if c = CHR ''-'' then map_option (\<lambda>n. - int n) (digits_val 0 False cs)
        else if c = CHR ''+'' then map_option int (digits_val 0 False cs)
        else map_option int (digits_val 0 False (c # cs)))"

definition int_of :: "string \<Rightarrow> int res" where
  "int_of s = (case py_int s of None \<Rightarrow> Inl ValueError | Some i \<Rightarrow> Inr i)"

lemma show_nat_digits: "c \<in> set (show_nat n) \<Longrightarrow> is_digit c"
proof (induction n arbitrary: c rule: show_nat.induct)
  case (1 n)
  then show ?case by (subst (asm) show_nat.simps) (auto split: if_splits)
qed

lemma show_nat_nonempty [simp]: "show_nat n \<noteq> []"
  by (subst show_nat.simps) simp

lemma digits_val_show_nat:
  "digits_val acc p (show_nat n @ rest) = digits_val (acc * 10 ^ length (show_nat n) + n) True rest"
proof (induction n arbitrary: acc p rest rule: show_nat.induct)
  case (1 n)
  show ?case
  proof (cases "n < 10")
    case True
    then show ?thesis by (simp add: show_nat.simps [of n] algebra_simps)
  next
    case False
    then show ?thesis
      by (simp add: show_nat.simps [of n] "1.IH" algebra_simps)
  qed
qed

lemma not_digit_sign: "is_digit c \<Longrightarrow> c \<noteq> CHR ''-'' \<and> c \<noteq> CHR ''+''"
  by (auto simp: is_digit_def)

lemma strip_show_nat: "strip (show_nat n) = show_nat n"
  unfolding strip_def
  by (rule strip_of_id) (metis digit_not_space hd_in_set last_in_set show_nat_digits show_nat_nonempty)

lemma py_int_show_nat: "py_int (show_nat n) = Some (int n)"
proof -
  obtain c cs where eq: "show_nat n = c # cs" by (cases "show_nat n") auto
  then have "is_digit c" using show_nat_digits [of c n] by simp
  then show ?thesis
    using strip_show_nat [of n] digits_val_show_nat [of 0 False n "[]"] not_digit_sign
    by (auto simp: py_int_def eq)
qed

lemma strip_minus_show_nat: "strip (CHR ''-'' # show_nat n) = CHR ''-'' # show_nat n"
proof -
  have "\<not> is_space (last (show_nat n))"
    by (rule digit_not_space, rule show_nat_digits [of _ n]) (rule last_in_set, simp)
  then show ?thesis
    unfolding strip_def by (intro strip_of_id) (simp add: is_space_def)
qed

lemma py_int_show_int [simp]: "py_int (show_int i) = Some i"
proof (cases "i < 0")
  case True
  then show ?thesis
    using digits_val_show_nat [of 0 False "nat (- i)" "[]"]
    by (simp add: show_int_def py_int_def strip_minus_show_nat)
next
  case False
  then show ?thesis by (simp add: show_int_def py_int_show_nat)
qed

lemma int_of_show_int [simp]: "int_of (show_int i) = Inr i"
  by (simp add: int_of_def)

lemma show_int_nonempty [simp]: "show_int i \<noteq> []"
  by (simp add: show_int_def)

lemma show_int_inject [simp]: "show_int i = show_int j \<longleftrightarrow> i = j"
  by (metis option.inject py_int_show_int)

lemma show_nat_inject [simp]: "show_nat m = show_nat n \<longleftrightarrow> m = n"
  by (metis of_nat_eq_iff option.inject py_int_show_nat)

text \<open>Digits without a leading zero are what printing their value gives.\<close>

lemma digits_val_snoc:
  "list_all is_digit s \<Longrightarrow> is_digit d \<Longrightarrow> digits_val acc p (s @ [d]) =
     Some (10 * (case digits_val acc True s of Some v \<Rightarrow> v | None \<Rightarrow> 0) + digit_val d)"
  by (induction s arbitrary: acc p) auto

lemma digits_val_all: "list_all is_digit s \<Longrightarrow> \<exists>v. digits_val acc True s = Some v"
  by (induction s arbitrary: acc) auto

lemma digit_char_val: "is_digit d \<Longrightarrow> digit_char (digit_val d) = d"
  by (simp add: is_digit_def digit_char_def digit_val_def Let_def)

lemma digit_val_less: "is_digit d \<Longrightarrow> digit_val d < 10"
  by (simp add: is_digit_def digit_val_def Let_def) linarith

lemma digit_val_0: "is_digit d \<Longrightarrow> digit_val d = 0 \<Longrightarrow> d = CHR ''0''"
  by (subst of_char_eq_iff [symmetric]) (simp add: is_digit_def digit_val_def Let_def)

lemma show_nat_digits_val:
  "list_all is_digit s \<Longrightarrow> s \<noteq> [] \<Longrightarrow> s = ''0'' \<or> hd s \<noteq> CHR ''0'' \<Longrightarrow>
    \<exists>v. digits_val 0 True s = Some v \<and> show_nat v = s \<and> (s \<noteq> ''0'' \<longrightarrow> 0 < v)"
proof (induction s rule: rev_induct)
  case Nil
  then show ?case by simp
next
  case (snoc d s)
  have d: "is_digit d" "digit_val d < 10" using snoc.prems by (auto simp: digit_val_less)
  show ?case
  proof (cases "s = []")
    case True
    with d snoc.prems show ?thesis
      by (auto simp: show_nat.simps [of "digit_val d"] digit_char_val dest: digit_val_0)
  next
    case False
    with snoc.prems have "hd s \<noteq> CHR ''0''" by (auto simp: hd_append)
    with False snoc obtain v where v: "digits_val 0 True s = Some v" "show_nat v = s" "0 < v"
      by fastforce
    have "digits_val 0 True (s @ [d]) = Some (10 * v + digit_val d)"
      using snoc.prems v by (simp add: digits_val_snoc)
    moreover have "show_nat (10 * v + digit_val d) = s @ [d]"
      using v d by (simp add: show_nat.simps [of "10 * v + digit_val d"] digit_char_val)
    ultimately show ?thesis using v by simp
  qed
qed
lemma digits_val_flag: "s \<noteq> [] \<Longrightarrow> list_all is_digit s \<Longrightarrow> digits_val acc p s = digits_val acc q s"
  by (cases s) auto

end
