(* ===== verification/UciData.thy ===== *)
theory UciData
  imports PyStr
begin

text \<open>
  Reading of parsed UCI data: the functions at the top of
  \<^verbatim>\<open>foris_controller_backends/uci/__init__.py\<close>. Parsed data maps a config name to its
  sections in file order; a section holds its options as an association list (an
  \<^verbatim>\<open>OrderedDict\<close> in the code). A looked-up value is a string or a list; the callers'
  defaults may also be numbers or booleans.
\<close>

datatype uval = Str string | Lst "string list" | Num int | Flag bool

record usection =
  sec_type :: string
  sec_name :: string
  sec_data :: "(string \<times> uval) list"
  anonymous :: bool

type_synonym uci_data = "(string \<times> usection list) list"

text \<open>Python's truth value of a looked-up value.\<close>

fun truthy :: "uval \<Rightarrow> bool" where
  "truthy (Str s) = (s \<noteq> [])"
| "truthy (Lst xs) = (xs \<noteq> [])"
| "truthy (Num n) = (n \<noteq> 0)"
| "truthy (Flag b) = b"

fun str_of :: "uval \<Rightarrow> string res" where
  "str_of (Str s) = Inr s"
| "str_of _ = Inl AttributeError"

section \<open>Booleans\<close>

definition parse_bool :: "uval \<Rightarrow> bool res" where
  "parse_bool v = (case v of
      Str s \<Rightarrow>
        if s \<in> {''1'', ''on'', ''true'', ''yes'', ''enabled''} then Inr True
        else if s \<in> {''0'', ''off'', ''false'', ''no'', ''disabled''} then Inr False
        else Inl (UciTypeException s)
    | _ \<Rightarrow> Inl (UciTypeException []))"

definition store_bool_val :: "uval \<Rightarrow> uval res" where
  "store_bool_val v = (case v of
      Flag b \<Rightarrow> Inr (Str (if b then ''1'' else ''0''))
    | _ \<Rightarrow> bindE (parse_bool v) (\<lambda>_. Inr v))"

text \<open>The branch every caller uses: the argument is a Python \<^verbatim>\<open>bool\<close>.\<close>

definition store_bool :: "bool \<Rightarrow> string" where
  "store_bool b = (if b then ''1'' else ''0'')"

lemma store_bool_val_Flag: "store_bool_val (Flag b) = Inr (Str (store_bool b))"
  by (simp add: store_bool_val_def store_bool_def)

lemma parse_store_bool [simp]: "parse_bool (Str (store_bool b)) = Inr b"
  by (simp add: parse_bool_def store_bool_def)

lemma store_bool_nonempty [simp]: "store_bool b \<noteq> []"
  by (simp add: store_bool_def)

lemma parse_bool_01 [simp]:
  "parse_bool (Str ''0'') = Inr False" "parse_bool (Str ''1'') = Inr True"
  by (simp_all add: parse_bool_def)

section \<open>Lookups\<close>

text \<open>The path that \<^verbatim>\<open>UciRecordNotFound\<close> puts into its message.\<close>

definition record_path ::
  "string \<Rightarrow> string option \<Rightarrow> string option \<Rightarrow> int option \<Rightarrow> string option \<Rightarrow> string" where
  "record_path config section section_type section_idx opt =
     config @
     (case section of Some s \<Rightarrow> if s \<noteq> [] then ''.'' @ s else [] | None \<Rightarrow> []) @
     (case section of
        Some s \<Rightarrow> if s \<noteq> [] then [] else
          (case section_type of Some t \<Rightarrow> if t \<noteq> [] then ''.@'' @ t @
             (case section_idx of Some i \<Rightarrow> ''['' @ show_int i @ '']'' | None \<Rightarrow> []) else [] | None \<Rightarrow> [])
      | None \<Rightarrow>
          (case section_type of Some t \<Rightarrow> if t \<noteq> [] then ''.@'' @ t @
             (case section_idx of Some i \<Rightarrow> ''['' @ show_int i @ '']'' | None \<Rightarrow> []) else [] | None \<Rightarrow> [])) @
     (case opt of Some p \<Rightarrow> if p \<noteq> [] then ''.'' @ p else [] | None \<Rightarrow> [])"

definition get_config :: "uci_data \<Rightarrow> string \<Rightarrow> usection list res" where
  "get_config data config = (case map_of data config of
      None \<Rightarrow> Inl (UciRecordNotFound (record_path config None None None None))
    | Some secs \<Rightarrow> Inr secs)"

definition get_section :: "uci_data \<Rightarrow> string \<Rightarrow> string \<Rightarrow> usection res" where
  "get_section data config section =
     bindE (get_config data config) (\<lambda>secs.
       case filter (\<lambda>e. sec_name e = section) secs of
         [] \<Rightarrow> Inl (UciRecordNotFound (record_path config (Some section) None None None))
       | e # _ \<Rightarrow> Inr e)"

definition section_exists :: "uci_data \<Rightarrow> string \<Rightarrow> string \<Rightarrow> bool" where
  "section_exists data config section =
     (case get_section data config section of Inr _ \<Rightarrow> True | Inl _ \<Rightarrow> False)"

definition get_option_named ::
  "uci_data \<Rightarrow> string \<Rightarrow> string \<Rightarrow> string \<Rightarrow> uval option \<Rightarrow> uval res" where
  "get_option_named data config section opt dflt =
     (case bindE (get_section data config section) (\<lambda>e.
             case map_of (sec_data e) opt of None \<Rightarrow> Inl (KeyError opt) | Some v \<Rightarrow> Inr v) of
        Inr v \<Rightarrow> Inr v
      | Inl _ \<Rightarrow> (case dflt of
            None \<Rightarrow> Inl (UciRecordNotFound (record_path config (Some section) None None (Some opt)))
          | Some d \<Rightarrow> Inr d))"

definition get_sections_by_type :: "uci_data \<Rightarrow> string \<Rightarrow> string \<Rightarrow> usection list res" where
  "get_sections_by_type data config section_type =
     bindE (get_config data config) (\<lambda>secs. Inr (filter (\<lambda>e. sec_type e = section_type) secs))"

text \<open>Indexing of a Python list: a negative index counts from the end.\<close>

definition py_index :: "'a list \<Rightarrow> int \<Rightarrow> 'a res" where
  "py_index xs i = (let j = (if i < 0 then i + int (length xs) else i) in
     if 0 \<le> j \<and> j < int (length xs) then Inr (xs ! nat j) else Inl IndexError)"

definition get_section_idx :: "uci_data \<Rightarrow> string \<Rightarrow> string \<Rightarrow> int \<Rightarrow> usection res" where
  "get_section_idx data config section_type idx =
     bindE (get_sections_by_type data config section_type) (\<lambda>secs.
       case py_index secs idx of
         Inr e \<Rightarrow> Inr e
       | Inl _ \<Rightarrow> Inl (UciRecordNotFound (record_path config None (Some section_type) (Some idx) None)))"

text \<open>
  Unlike the named lookup, only the missing option falls back to the default: a missing
  section or config raises even when a default is given.
\<close>

definition get_option_anonymous ::
  "uci_data \<Rightarrow> string \<Rightarrow> string \<Rightarrow> int \<Rightarrow> string \<Rightarrow> uval option \<Rightarrow> uval res" where
  "get_option_anonymous data config section_type idx opt dflt =
     bindE (get_section_idx data config section_type idx) (\<lambda>e.
       case map_of (sec_data e) opt of
         Some v \<Rightarrow> Inr v
       | None \<Rightarrow> (case dflt of
             None \<Rightarrow> Inl (UciRecordNotFound
               (record_path config None (Some section_type) (Some idx) (Some opt)))
           | Some d \<Rightarrow> Inr d))"

section \<open>Lookups seen through one function\<close>

text \<open>
  The option of a named section, if there is one: with it the readers have one equation
  each, whatever the shape of the data.
\<close>

definition find_sec :: "usection list \<Rightarrow> string \<Rightarrow> usection option" where
  "find_sec secs s = find (\<lambda>e. sec_name e = s) secs"

definition lk :: "usection list \<Rightarrow> string \<Rightarrow> string \<Rightarrow> uval option" where
  "lk secs s p = (case find_sec secs s of None \<Rightarrow> None | Some e \<Rightarrow> map_of (sec_data e) p)"

definition has_sec :: "usection list \<Rightarrow> string \<Rightarrow> bool" where
  "has_sec secs s = (find_sec secs s \<noteq> None)"

lemma filter_find: "(case filter p xs of [] \<Rightarrow> None | e # _ \<Rightarrow> Some e) = find p xs"
  by (induction xs) auto

lemma get_section_eq:
  "map_of data c = Some secs \<Longrightarrow>
    get_section data c s = (case find_sec secs s of
       None \<Rightarrow> Inl (UciRecordNotFound (record_path c (Some s) None None None)) | Some e \<Rightarrow> Inr e)"
  by (simp add: get_section_def get_config_def find_sec_def filter_find [symmetric] split: list.split)

lemma section_exists_eq: "map_of data c = Some secs \<Longrightarrow> section_exists data c s = has_sec secs s"
  by (simp add: section_exists_def get_section_eq has_sec_def split: option.split)

lemma get_option_named_eq:
  "map_of data c = Some secs \<Longrightarrow>
    get_option_named data c s p d = (case lk secs s p of
      Some v \<Rightarrow> Inr v
    | None \<Rightarrow> (case d of Some v \<Rightarrow> Inr v
        | None \<Rightarrow> Inl (UciRecordNotFound (record_path c (Some s) None None (Some p)))))"
  by (simp add: get_option_named_def get_section_eq lk_def split: option.split)

lemma get_option_named_missing:
  "map_of data c = None \<Longrightarrow> get_option_named data c s p (Some v) = Inr v"
  by (simp add: get_option_named_def get_section_def get_config_def)

lemma get_option_named_default: "\<exists>v. get_option_named data c s p (Some d) = Inr v"
  by (auto simp: get_option_named_def split: sum.split)

lemma get_sections_by_type_eq:
  "map_of data c = Some secs \<Longrightarrow> get_sections_by_type data c t = Inr (filter (\<lambda>e. sec_type e = t) secs)"
  by (simp add: get_sections_by_type_def get_config_def)

end
