(* ===== verification/UciStore.thy ===== *)
theory UciStore
  imports UciData "HOL-Library.AList"
begin

text \<open>
  What the \<^verbatim>\<open>uci\<close> program is documented to do, as a reference: committed configs, a delta
  directory with one file per changed config, and the commands that read and change them.
  It is not code of the repository. The components are proved against every command-line
  tool that behaves like this reference (\<open>UciBackend.uci_tool\<close>); commands whose effect the
  documentation leaves open are \<open>None\<close> here and nothing is assumed of them.
\<close>

section \<open>Sections of one config\<close>

fun upd_sec :: "string \<Rightarrow> (usection \<Rightarrow> usection) \<Rightarrow> usection list \<Rightarrow> usection list" where
  "upd_sec s f [] = []"
| "upd_sec s f (e # secs) = (if sec_name e = s then f e # secs else e # upd_sec s f secs)"

definition set_sec :: "string \<Rightarrow> string \<Rightarrow> usection list \<Rightarrow> usection list" where
  "set_sec s t secs =
     (if has_sec secs s then upd_sec s (\<lambda>e. e\<lparr>sec_type := t\<rparr>) secs
      else secs @ [\<lparr>sec_type = t, sec_name = s, sec_data = [], anonymous = False\<rparr>])"

definition add_sec :: "string \<Rightarrow> string \<Rightarrow> usection list \<Rightarrow> usection list" where
  "add_sec s t secs = secs @ [\<lparr>sec_type = t, sec_name = s, sec_data = [], anonymous = True\<rparr>]"

definition del_sec :: "string \<Rightarrow> usection list \<Rightarrow> usection list" where
  "del_sec s secs = filter (\<lambda>e. sec_name e \<noteq> s) secs"

definition set_opt :: "string \<Rightarrow> string \<Rightarrow> uval \<Rightarrow> usection list \<Rightarrow> usection list" where
  "set_opt s p v secs = upd_sec s (\<lambda>e. e\<lparr>sec_data := AList.update p v (sec_data e)\<rparr>) secs"

definition del_opt :: "string \<Rightarrow> string \<Rightarrow> usection list \<Rightarrow> usection list" where
  "del_opt s p secs = upd_sec s (\<lambda>e. e\<lparr>sec_data := AList.delete p (sec_data e)\<rparr>) secs"

text \<open>The list an \<^verbatim>\<open>add_list\<close> leaves: a single value becomes the head of a list.\<close>

fun appended :: "uval option \<Rightarrow> string \<Rightarrow> uval" where
  "appended None v = Lst [v]"
| "appended (Some (Str w)) v = Lst [w, v]"
| "appended (Some (Lst ws)) v = Lst (ws @ [v])"
| "appended (Some _) v = Lst [v]"

lemma find_upd_sec:
  assumes "\<And>e. sec_name (f e) = sec_name e"
  shows "find_sec (upd_sec s f secs) s' =
    (if s' = s then map_option f (find_sec secs s) else find_sec secs s')"
  using assms by (induction secs) (auto simp: find_sec_def)

lemma find_sec_append: "find_sec (a @ b) s = (case find_sec a s of Some e \<Rightarrow> Some e | None \<Rightarrow> find_sec b s)"
  by (induction a) (auto simp: find_sec_def)

lemma find_set_opt:
  "find_sec (set_opt s p v secs) s' =
    (if s' = s then map_option (\<lambda>e. e\<lparr>sec_data := AList.update p v (sec_data e)\<rparr>) (find_sec secs s)
     else find_sec secs s')"
  unfolding set_opt_def by (rule find_upd_sec) simp

lemma find_del_opt:
  "find_sec (del_opt s p secs) s' =
    (if s' = s then map_option (\<lambda>e. e\<lparr>sec_data := AList.delete p (sec_data e)\<rparr>) (find_sec secs s)
     else find_sec secs s')"
  unfolding del_opt_def by (rule find_upd_sec) simp

lemma find_set_sec:
  "find_sec (set_sec s t secs) s' =
    (if s' = s then Some (case find_sec secs s of
        Some e \<Rightarrow> e\<lparr>sec_type := t\<rparr>
      | None \<Rightarrow> \<lparr>sec_type = t, sec_name = s, sec_data = [], anonymous = False\<rparr>)
     else find_sec secs s')"
proof -
  have "find_sec (upd_sec s (\<lambda>e. e\<lparr>sec_type := t\<rparr>) secs) s' =
      (if s' = s then map_option (\<lambda>e. e\<lparr>sec_type := t\<rparr>) (find_sec secs s) else find_sec secs s')"
    by (rule find_upd_sec) simp
  then show ?thesis
    by (auto simp: set_sec_def has_sec_def find_sec_append split: option.splits)
       (auto simp: find_sec_def)
qed

lemma find_add_sec:
  "find_sec (add_sec s t secs) s' = (case find_sec secs s' of
      Some e \<Rightarrow> Some e
    | None \<Rightarrow> if s' = s then Some \<lparr>sec_type = t, sec_name = s, sec_data = [], anonymous = True\<rparr> else None)"
  unfolding add_sec_def find_sec_append by (auto simp: find_sec_def split: option.splits)

lemma find_del_sec: "find_sec (del_sec s secs) s' = (if s' = s then None else find_sec secs s')"
  by (induction secs) (auto simp: del_sec_def find_sec_def)

lemma upd_sec_same: "(\<And>e. find_sec secs s = Some e \<Longrightarrow> f e = e) \<Longrightarrow> upd_sec s f secs = secs"
  by (induction secs) (auto simp: find_sec_def split: if_splits)

lemma upd_sec_twice:
  "(\<And>e. sec_name (f e) = sec_name e) \<Longrightarrow> upd_sec s g (upd_sec s f secs) = upd_sec s (\<lambda>e. g (f e)) secs"
  by (induction secs) auto

lemma del_opt_absent: "lk secs s p = None \<Longrightarrow> del_opt s p secs = secs"
  unfolding del_opt_def
  by (rule upd_sec_same) (auto simp: lk_def map_of_eq_None_iff delete_id)

lemma set_opt_twice: "set_opt s p v (set_opt s p w secs) = set_opt s p v secs"
  by (simp add: set_opt_def upd_sec_twice update_last)

named_theorems store_simps \<open>lookups in an updated config\<close>

lemma has_sec_updates [store_simps]:
  "has_sec (set_opt s p v secs) s' = has_sec secs s'"
  "has_sec (del_opt s p secs) s' = has_sec secs s'"
  "has_sec (set_sec s t secs) s' = (s' = s \<or> has_sec secs s')"
  "has_sec (add_sec s t secs) s' = (s' = s \<or> has_sec secs s')"
  "has_sec (del_sec s secs) s' = (s' \<noteq> s \<and> has_sec secs s')"
  by (auto simp: has_sec_def find_set_opt find_del_opt find_set_sec find_add_sec find_del_sec
      split: option.splits)

lemma lk_set_opt [store_simps]:
  "lk (set_opt s p v secs) s' p' =
    (if s' = s \<and> p' = p then if has_sec secs s then Some v else None else lk secs s' p')"
  by (auto simp: lk_def has_sec_def find_set_opt update_conv' split: option.splits)

lemma lk_del_opt [store_simps]:
  "lk (del_opt s p secs) s' p' = (if s' = s \<and> p' = p then None else lk secs s' p')"
  by (auto simp: lk_def find_del_opt delete_conv' split: option.splits)

lemma lk_set_sec [store_simps]: "lk (set_sec s t secs) s' p = lk secs s' p"
  by (auto simp: lk_def find_set_sec split: option.splits)

lemma lk_add_sec [store_simps]: "lk (add_sec s t secs) s' p = lk secs s' p"
  by (auto simp: lk_def find_add_sec split: option.splits)

lemma lk_del_sec [store_simps]:
  "lk (del_sec s secs) s' p = (if s' = s then None else lk secs s' p)"
  by (auto simp: lk_def find_del_sec)

lemma lk_has_sec: "lk secs s p = Some v \<Longrightarrow> has_sec secs s"
  by (auto simp: lk_def has_sec_def split: option.splits)

section \<open>The store\<close>

record store =
  committed :: "string \<rightharpoonup> usection list"
  delta :: "(string \<times> usection list) list"

text \<open>What a command sees: the delta of a config hides its committed form.\<close>

definition staged :: "store \<Rightarrow> string \<rightharpoonup> usection list" where
  "staged \<sigma> c = (case map_of (delta \<sigma>) c of Some secs \<Rightarrow> Some secs | None \<Rightarrow> committed \<sigma> c)"

definition stage :: "string \<Rightarrow> usection list \<Rightarrow> store \<Rightarrow> store" where
  "stage c secs \<sigma> = \<sigma>\<lparr>delta := AList.update c secs (delta \<sigma>)\<rparr>"

definition drop_delta :: "string \<Rightarrow> store \<Rightarrow> store" where
  "drop_delta c \<sigma> = \<sigma>\<lparr>delta := AList.delete c (delta \<sigma>)\<rparr>"

text \<open>As the manual of uci has it, the commit of a config drops its staged changes itself.\<close>

definition commit_config :: "string \<Rightarrow> store \<Rightarrow> store" where
  "commit_config c \<sigma> = drop_delta c (\<sigma>\<lparr>committed := (committed \<sigma>)(c := staged \<sigma> c)\<rparr>)"

lemma staged_stage [store_simps]:
  "staged (stage c secs \<sigma>) = (staged \<sigma>)(c \<mapsto> secs)"
  by (auto simp: fun_eq_iff staged_def stage_def update_conv' split: option.split)

lemma committed_stage [store_simps]: "committed (stage c secs \<sigma>) = committed \<sigma>"
  by (simp add: stage_def)

lemma staged_commit [store_simps]: "staged (commit_config c \<sigma>) = staged \<sigma>"
  by (auto simp: fun_eq_iff staged_def commit_config_def drop_delta_def delete_conv' split: option.splits)

lemma committed_commit [store_simps]:
  "committed (commit_config c \<sigma>) = (committed \<sigma>)(c := staged \<sigma> c)"
  by (simp add: commit_config_def drop_delta_def)

lemma staged_clean [store_simps]: "staged (\<sigma>\<lparr>delta := []\<rparr>) = committed \<sigma>"
  by (simp add: fun_eq_iff staged_def)

section \<open>Commands\<close>

text \<open>
  Names are letters, digits, dashes and underscores; a section may also be given as
  \<^verbatim>\<open>@type[index]\<close>, where a negative index counts from the end.
\<close>

definition name_char :: "char \<Rightarrow> bool" where
  "name_char c = (let n = (of_char c :: nat) in
     (48 \<le> n \<and> n \<le> 57) \<or> (65 \<le> n \<and> n \<le> 90) \<or> (97 \<le> n \<and> n \<le> 122) \<or> n = 95 \<or> n = 45)"

definition valid_name :: "string \<Rightarrow> bool" where
  "valid_name s = (s \<noteq> [] \<and> list_all name_char s)"

definition section_ref :: "string \<Rightarrow> int \<Rightarrow> string" where
  "section_ref t i = ''@'' @ t @ ''['' @ show_int i @ '']''"

definition parse_section_ref :: "string \<Rightarrow> (string \<times> int) option" where
  "parse_section_ref s = (case s of [] \<Rightarrow> None
    | c # r \<Rightarrow>
        if c = CHR ''@'' \<and> r \<noteq> [] \<and> last r = CHR '']'' then
          (case split_once CHR ''['' (butlast r) of
             [t, i] \<Rightarrow> (case py_int i of Some n \<Rightarrow> Some (t, n) | None \<Rightarrow> None)
           | _ \<Rightarrow> None)
        else None)"

definition resolve :: "usection list \<Rightarrow> string \<Rightarrow> string option" where
  "resolve secs s = (case parse_section_ref s of
      None \<Rightarrow> Some s
    | Some (t, i) \<Rightarrow> (case py_index (filter (\<lambda>e. sec_type e = t) secs) i of
          Inr e \<Rightarrow> Some (sec_name e) | Inl _ \<Rightarrow> None))"

definition valid_sec :: "string \<Rightarrow> bool" where
  "valid_sec s = (valid_name s \<or> (list_all (\<lambda>c. c \<noteq> CHR ''.'' \<and> c \<noteq> CHR ''='') s
     \<and> (case parse_section_ref s of Some (t, i) \<Rightarrow> valid_name t | None \<Rightarrow> False)))"

datatype target = Section string string | Option string string string

definition parse_target :: "string \<Rightarrow> target option" where
  "parse_target s = (case split_on CHR ''.'' s of
      [c, sec] \<Rightarrow> if valid_name c \<and> valid_sec sec then Some (Section c sec) else None
    | [c, sec, p] \<Rightarrow>
        if valid_name c \<and> valid_sec sec \<and> valid_name p then Some (Option c sec p) else None
    | _ \<Rightarrow> None)"

definition parse_assignment :: "string \<Rightarrow> (target \<times> string) option" where
  "parse_assignment s = (case split_once CHR ''='' s of
      [t, v] \<Rightarrow> map_option (\<lambda>t'. (t', v)) (parse_target t)
    | _ \<Rightarrow> None)"

text \<open>A command answers with success and its output, and leaves a store.\<close>

type_synonym uci_answer = "(bool \<times> string) \<times> store"

definition failed :: "store \<Rightarrow> uci_answer" where
  "failed \<sigma> = ((False, []), \<sigma>)"

definition succeeded :: "store \<Rightarrow> uci_answer" where
  "succeeded \<sigma> = ((True, []), \<sigma>)"

text \<open>Run \<open>f\<close> on the sections of a config and the name of the section addressed.\<close>

definition on_section ::
  "store \<Rightarrow> string \<Rightarrow> string \<Rightarrow> (usection list \<Rightarrow> string \<Rightarrow> uci_answer) \<Rightarrow> uci_answer" where
  "on_section \<sigma> c s f = (case staged \<sigma> c of
      None \<Rightarrow> failed \<sigma>
    | Some secs \<Rightarrow> (case resolve secs s of None \<Rightarrow> failed \<sigma> | Some s' \<Rightarrow> f secs s'))"

definition ref_set :: "target \<Rightarrow> string \<Rightarrow> store \<Rightarrow> uci_answer option" where
  "ref_set t v \<sigma> = (case t of
      Section c s \<Rightarrow>
        if valid_name v \<and> valid_name s then
          Some (case staged \<sigma> c of None \<Rightarrow> failed \<sigma> | Some secs \<Rightarrow> succeeded (stage c (set_sec s v secs) \<sigma>))
        else None
    | Option c s p \<Rightarrow>
        Some (on_section \<sigma> c s (\<lambda>secs s'.
          if \<not> has_sec secs s' then failed \<sigma>
          else if v = [] then succeeded (stage c (del_opt s' p secs) \<sigma>)
          else succeeded (stage c (set_opt s' p (Str v) secs) \<sigma>))))"

definition ref_delete :: "target \<Rightarrow> store \<Rightarrow> uci_answer" where
  "ref_delete t \<sigma> = (case t of
      Section c s \<Rightarrow> on_section \<sigma> c s (\<lambda>secs s'.
        if has_sec secs s' then succeeded (stage c (del_sec s' secs) \<sigma>) else failed \<sigma>)
    | Option c s p \<Rightarrow> on_section \<sigma> c s (\<lambda>secs s'.
        if lk secs s' p \<noteq> None then succeeded (stage c (del_opt s' p secs) \<sigma>) else failed \<sigma>))"

definition ref_add_list :: "target \<Rightarrow> string \<Rightarrow> store \<Rightarrow> uci_answer option" where
  "ref_add_list t v \<sigma> = (case t of
      Section c s \<Rightarrow> None
    | Option c s p \<Rightarrow>
        Some (on_section \<sigma> c s (\<lambda>secs s'.
          if has_sec secs s' then succeeded (stage c (set_opt s' p (appended (lk secs s' p) v) secs) \<sigma>)
          else failed \<sigma>)))"

definition ref_del_list :: "target \<Rightarrow> string \<Rightarrow> store \<Rightarrow> uci_answer option" where
  "ref_del_list t v \<sigma> = (case t of
      Section c s \<Rightarrow> None
    | Option c s p \<Rightarrow>
        Some (on_section \<sigma> c s (\<lambda>secs s'.
          if \<not> has_sec secs s' then failed \<sigma>
          else (case lk secs s' p of
              Some (Lst vs) \<Rightarrow>
                (let ws = filter (\<lambda>w. w \<noteq> v) vs in
                 succeeded (stage c (if ws = [] then del_opt s' p secs else set_opt s' p (Lst ws) secs) \<sigma>))
            | _ \<Rightarrow> succeeded \<sigma>))))"

text \<open>\<open>nm\<close> names a new anonymous section; \<open>ex\<close> prints a config.\<close>

definition ref_uci ::
  "(usection list \<Rightarrow> string \<Rightarrow> string) \<Rightarrow> (string \<Rightarrow> usection list \<Rightarrow> string) \<Rightarrow>
    string list \<Rightarrow> store \<Rightarrow> uci_answer option" where
  "ref_uci nm ex args \<sigma> = (case args of
      [cmd, a] \<Rightarrow>
        if cmd = ''set'' then (case parse_assignment a of Some (t, v) \<Rightarrow> ref_set t v \<sigma> | None \<Rightarrow> None)
        else if cmd = ''delete'' then map_option (\<lambda>t. ref_delete t \<sigma>) (parse_target a)
        else if cmd = ''add_list'' then (case parse_assignment a of Some (t, v) \<Rightarrow> ref_add_list t v \<sigma> | None \<Rightarrow> None)
        else if cmd = ''del_list'' then (case parse_assignment a of Some (t, v) \<Rightarrow> ref_del_list t v \<sigma> | None \<Rightarrow> None)
        else if \<not> valid_name a then None
        else if cmd = ''commit'' then
          Some (case staged \<sigma> a of None \<Rightarrow> failed \<sigma> | Some _ \<Rightarrow> succeeded (commit_config a \<sigma>))
        else if cmd = ''revert'' then
          Some (case staged \<sigma> a of None \<Rightarrow> failed \<sigma> | Some _ \<Rightarrow> succeeded (drop_delta a \<sigma>))
        else if cmd = ''export'' then
          Some (case staged \<sigma> a of None \<Rightarrow> failed \<sigma> | Some secs \<Rightarrow> ((True, ex a secs), \<sigma>))
        else None
    | [cmd, c, t] \<Rightarrow>
        if cmd = ''add'' \<and> valid_name c \<and> valid_name t then
          Some (case staged \<sigma> c of None \<Rightarrow> failed \<sigma>
            | Some secs \<Rightarrow> ((True, nm secs t @ [newline]), stage c (add_sec (nm secs t) t secs) \<sigma>))
        else None
    | _ \<Rightarrow> None)"

section \<open>Command lines of the write operations\<close>

lemma valid_name_chars: "valid_name s \<Longrightarrow> CHR ''.'' \<notin> set s \<and> CHR ''='' \<notin> set s \<and> CHR ''@'' \<notin> set s"
  by (auto simp: valid_name_def list_all_iff name_char_def)

lemma valid_name_nonempty: "valid_name s \<Longrightarrow> s \<noteq> []"
  by (simp add: valid_name_def)

lemma valid_sec_chars: "valid_sec s \<Longrightarrow> CHR ''.'' \<notin> set s \<and> CHR ''='' \<notin> set s"
  using valid_name_chars [of s] by (auto simp: valid_sec_def list_all_iff)

lemma valid_sec_name: "valid_name s \<Longrightarrow> valid_sec s"
  by (simp add: valid_sec_def)

lemma resolve_name [simp]: "valid_name s \<Longrightarrow> resolve secs s = Some s"
  using valid_name_chars [of s]
  by (cases s) (auto simp: resolve_def parse_section_ref_def)

lemma parse_target_Section:
  "valid_name c \<Longrightarrow> valid_sec s \<Longrightarrow> parse_target (c @ ''.'' @ s) = Some (Section c s)"
  using valid_name_chars [of c] valid_sec_chars [of s]
  by (simp add: parse_target_def split_on_append split_on_none)

lemma parse_target_Option:
  "valid_name c \<Longrightarrow> valid_sec s \<Longrightarrow> valid_name p \<Longrightarrow>
    parse_target (c @ ''.'' @ s @ ''.'' @ p) = Some (Option c s p)"
  using valid_name_chars [of c] valid_sec_chars [of s] valid_name_chars [of p]
  by (simp add: parse_target_def split_on_append split_on_none)

lemma split_once_append: "c \<notin> set a \<Longrightarrow> split_once c (a @ c # b) = [a, b]"
proof -
  assume "c \<notin> set a"
  then have "dropWhile (\<lambda>x. x \<noteq> c) (a @ c # b) = c # b" "takeWhile (\<lambda>x. x \<noteq> c) (a @ c # b) = a"
    by (induction a) auto
  then show ?thesis by (simp add: split_once_def)
qed

lemma parse_assignment_append:
  "CHR ''='' \<notin> set t \<Longrightarrow> parse_assignment (t @ ''='' @ v) = map_option (\<lambda>t'. (t', v)) (parse_target t)"
  by (simp add: parse_assignment_def split_once_append)

lemma parse_assignment_Section:
  assumes "valid_name c" "valid_sec s"
  shows "parse_assignment (c @ ''.'' @ s @ ''='' @ v) = Some (Section c s, v)"
  using parse_assignment_append [of "c @ ''.'' @ s" v] valid_name_chars [OF assms(1)]
    valid_sec_chars [OF assms(2)] parse_target_Section [OF assms] by simp

lemma parse_assignment_Option:
  assumes "valid_name c" "valid_sec s" "valid_name p"
  shows "parse_assignment (c @ ''.'' @ s @ ''.'' @ p @ ''='' @ v) = Some (Option c s p, v)"
  using parse_assignment_append [of "c @ ''.'' @ s @ ''.'' @ p" v] valid_name_chars [OF assms(1)]
    valid_sec_chars [OF assms(2)] valid_name_chars [OF assms(3)] parse_target_Option [OF assms] by simp

lemma ref_uci_set_section:
  "valid_name c \<Longrightarrow> valid_name s \<Longrightarrow> valid_name t \<Longrightarrow>
    ref_uci nm ex [''set'', c @ ''.'' @ s @ ''='' @ t] \<sigma> = Some
      (case staged \<sigma> c of None \<Rightarrow> failed \<sigma> | Some secs \<Rightarrow> succeeded (stage c (set_sec s t secs) \<sigma>))"
  by (simp add: ref_uci_def parse_assignment_Section [OF _ valid_sec_name, simplified] ref_set_def)

lemma ref_uci_set_option:
  "valid_name c \<Longrightarrow> valid_sec s \<Longrightarrow> valid_name p \<Longrightarrow>
    ref_uci nm ex [''set'', c @ ''.'' @ s @ ''.'' @ p @ ''='' @ v] \<sigma> = ref_set (Option c s p) v \<sigma>"
  by (simp add: ref_uci_def parse_assignment_Option [simplified])

lemma ref_uci_delete_section:
  "valid_name c \<Longrightarrow> valid_sec s \<Longrightarrow>
    ref_uci nm ex [''delete'', c @ ''.'' @ s] \<sigma> = Some (ref_delete (Section c s) \<sigma>)"
  by (simp add: ref_uci_def parse_target_Section [simplified])

lemma ref_uci_delete_option:
  "valid_name c \<Longrightarrow> valid_sec s \<Longrightarrow> valid_name p \<Longrightarrow>
    ref_uci nm ex [''delete'', c @ ''.'' @ s @ ''.'' @ p] \<sigma> = Some (ref_delete (Option c s p) \<sigma>)"
  by (simp add: ref_uci_def parse_target_Option [simplified])

lemma ref_uci_add_list:
  "valid_name c \<Longrightarrow> valid_sec s \<Longrightarrow> valid_name p \<Longrightarrow>
    ref_uci nm ex [''add_list'', c @ ''.'' @ s @ ''.'' @ p @ ''='' @ v] \<sigma> = ref_add_list (Option c s p) v \<sigma>"
  by (simp add: ref_uci_def parse_assignment_Option [simplified])

lemma ref_uci_del_list:
  "valid_name c \<Longrightarrow> valid_sec s \<Longrightarrow> valid_name p \<Longrightarrow>
    ref_uci nm ex [''del_list'', c @ ''.'' @ s @ ''.'' @ p @ ''='' @ v] \<sigma> = ref_del_list (Option c s p) v \<sigma>"
  by (simp add: ref_uci_def parse_assignment_Option [simplified])

end
