(* ===== verification/UciParse.thy ===== *)
theory UciParse
  imports UciData
begin

text \<open>
  The parser of \<^verbatim>\<open>uci export\<close> output in \<^verbatim>\<open>foris_controller_backends/uci/__init__.py\<close>
  (\<^verbatim>\<open>_convert_value\<close>, \<^verbatim>\<open>_parse_section\<close>, \<^verbatim>\<open>_parse_package\<close>, \<^verbatim>\<open>_parse_packages\<close>), and its
  correctness against the documented output format: parsing the export of any well-formed
  config gives the config back.
\<close>

section \<open>Values\<close>

definition quote_char :: char where
  "quote_char = CHR 0x27"

definition backslash :: char where
  "backslash = CHR 0x5C"

lemma special_chars [simp]: "quote_char \<noteq> backslash" "backslash \<noteq> quote_char"
  "\<not> is_space quote_char" "\<not> is_linebreak quote_char" "\<not> is_linebreak backslash"
  by (simp_all add: quote_char_def backslash_def is_space_def is_linebreak_def)

text \<open>
  \<^verbatim>\<open>re.split\<close> by a quoted run or an escaped quote: the pieces between matches and the
  matches, alternating. \<open>cur\<close> is the current unmatched piece, reversed.
\<close>

function (sequential) value_tokens :: "string \<Rightarrow> string \<Rightarrow> string list" where
  "value_tokens cur [] = [rev cur]"
| "value_tokens cur (c # cs) =
     (if c = quote_char \<and> quote_char \<in> set cs then
        rev cur # (quote_char # takeWhile (\<lambda>x. x \<noteq> quote_char) cs @ [quote_char])
          # value_tokens [] (tl (dropWhile (\<lambda>x. x \<noteq> quote_char) cs))
      else if c = backslash \<and> cs \<noteq> [] \<and> hd cs = quote_char then
        rev cur # [backslash, quote_char] # value_tokens [] (tl cs)
      else value_tokens (c # cur) cs)"
  by pat_completeness auto
termination
proof (relation "measure (\<lambda>(cur, s). length s)")
  fix c :: char and cs
  show "(([], tl (dropWhile (\<lambda>x. x \<noteq> quote_char) cs)), (cur, c # cs))
      \<in> measure (\<lambda>(cur, s). length s)" for cur
    using length_dropWhile_le [of "\<lambda>x. x \<noteq> quote_char" cs] by simp
qed auto

definition convert_value :: "string \<Rightarrow> string" where
  "convert_value v =
     concat (map (\<lambda>e. if e = [backslash, quote_char] then [quote_char]
                      else strip_of (\<lambda>c. c = quote_char) e)
                 (filter (\<lambda>e. e \<noteq> []) (value_tokens [] v)))"

text \<open>How \<^verbatim>\<open>uci export\<close> writes a value: quoted, each inner quote as \<^verbatim>\<open>'\''\<close>.\<close>

definition quote_value :: "string \<Rightarrow> string" where
  "quote_value v = quote_char #
     concat (map (\<lambda>c. if c = quote_char then [quote_char, backslash, quote_char, quote_char] else [c]) v)
     @ [quote_char]"

lemma strip_quoted: "quote_char \<notin> set p \<Longrightarrow> strip_of (\<lambda>c. c = quote_char) (quote_char # p @ [quote_char]) = p"
proof -
  assume p: "quote_char \<notin> set p"
  then have "dropWhile (\<lambda>c. c = quote_char) (p @ [quote_char]) = (if p = [] then [] else p @ [quote_char])"
    by (cases p) auto
  moreover have "dropWhile (\<lambda>c. c = quote_char) (rev p) = rev p"
    using p by (cases "rev p") (auto simp: dropWhile_eq_self_iff hd_rev)
  ultimately show ?thesis by (auto simp: strip_of_def)
qed

lemma span_quote [simp]:
  "quote_char \<notin> set p \<Longrightarrow> takeWhile (\<lambda>x. x \<noteq> quote_char) (p @ quote_char # r) = p"
  "quote_char \<notin> set p \<Longrightarrow> dropWhile (\<lambda>x. x \<noteq> quote_char) (p @ quote_char # r) = quote_char # r"
  by (induction p) auto

lemma value_tokens_quoted:
  "quote_char \<notin> set p \<Longrightarrow>
    value_tokens [] (quote_char # p @ quote_char # rest)
      = [] # (quote_char # p @ [quote_char]) # value_tokens [] rest"
  by simp

lemma value_tokens_escaped:
  "value_tokens [] (backslash # quote_char # rest) = [] # [backslash, quote_char] # value_tokens [] rest"
  by simp

declare value_tokens.simps [simp del]

lemma convert_value_quoted:
  "quote_char \<notin> set p \<Longrightarrow> convert_value (quote_char # p @ quote_char # rest) = p @ convert_value rest"
  by (simp add: convert_value_def value_tokens_quoted strip_quoted)

lemma convert_value_escaped: "convert_value (backslash # quote_char # rest) = quote_char # convert_value rest"
  by (simp add: convert_value_def value_tokens_escaped)

lemma convert_value_Nil: "convert_value [] = []"
  by (simp add: convert_value_def value_tokens.simps)

text \<open>Induction on the pieces between inner quotes: \<open>p\<close> is the piece read so far.\<close>

lemma convert_value_quote_from:
  "quote_char \<notin> set p \<Longrightarrow>
    convert_value (quote_char # p @
      concat (map (\<lambda>c. if c = quote_char then [quote_char, backslash, quote_char, quote_char] else [c]) v)
      @ [quote_char]) = p @ v"
proof (induction v arbitrary: p)
  case Nil
  then show ?case by (simp add: convert_value_quoted convert_value_Nil)
next
  case (Cons c v)
  show ?case
  proof (cases "c = quote_char")
    case True
    then show ?thesis
      using Cons.IH [of "[]"] Cons.prems by (simp add: convert_value_quoted convert_value_escaped)
  next
    case False
    then show ?thesis using Cons.IH [of "p @ [c]"] Cons.prems by simp
  qed
qed

lemma convert_quote_value [simp]: "convert_value (quote_value v) = v"
  using convert_value_quote_from [of "[]" v] by (simp add: quote_value_def)

section \<open>Lines\<close>

text \<open>\<^verbatim>\<open>re.match(r"^\s*KW ([^\s]+) ('.+')$", line)\<close>: the two groups.\<close>

definition match_option_line :: "string \<Rightarrow> string \<Rightarrow> (string \<times> string) option" where
  "match_option_line kw line =
     (let l = dropWhile is_space line; r = drop (length kw + 1) l;
          name = takeWhile (\<lambda>c. \<not> is_space c) r;
          rest = dropWhile (\<lambda>c. \<not> is_space c) r
      in if startswith l (kw @ '' '') \<and> name \<noteq> [] \<and> rest \<noteq> [] \<and> hd rest = CHR '' ''
            \<and> 3 \<le> length (tl rest) \<and> hd (tl rest) = quote_char \<and> last rest = quote_char
         then Some (name, tl rest) else None)"

text \<open>\<^verbatim>\<open>re.match(r"^config ([^\s]+) '([^\s]+)'$", line)\<close>.\<close>

definition match_config_line :: "string \<Rightarrow> (string \<times> string) option" where
  "match_config_line line =
     (let r = drop 7 line;
          ty = takeWhile (\<lambda>c. \<not> is_space c) r;
          rest = dropWhile (\<lambda>c. \<not> is_space c) r;
          nm = butlast (tl (tl rest))
      in if startswith line ''config '' \<and> ty \<noteq> [] \<and> 4 \<le> length rest \<and> hd rest = CHR '' ''
            \<and> hd (tl rest) = quote_char \<and> last rest = quote_char \<and> list_all (\<lambda>c. \<not> is_space c) nm
         then Some (ty, nm) else None)"

text \<open>\<^verbatim>\<open>re.match(r"^package ([^\s]+)$", line)\<close>.\<close>

definition match_package_line :: "string \<Rightarrow> string option" where
  "match_package_line line =
     (let nm = drop 8 line in
      if startswith line ''package '' \<and> nm \<noteq> [] \<and> list_all (\<lambda>c. \<not> is_space c) nm then Some nm else None)"

definition is_hex_lower :: "char \<Rightarrow> bool" where
  "is_hex_lower c = (let n = (of_char c :: nat) in (48 \<le> n \<and> n \<le> 57) \<or> (97 \<le> n \<and> n \<le> 102))"

text \<open>\<^verbatim>\<open>re.search(r"^cfg[0-9a-f]{6}$", section_name)\<close>.\<close>

definition is_anonymous_name :: "string \<Rightarrow> bool" where
  "is_anonymous_name s = (length s = 9 \<and> startswith s ''cfg'' \<and> list_all is_hex_lower (drop 3 s))"

definition section_start :: "string \<Rightarrow> bool" where
  "section_start line = (startswith line ''package'' \<or> startswith line ''config'')"

section \<open>The parser\<close>

text \<open>
  A line of a section: an option overwrites, a list item is appended; appending to a name
  that was read as an option raises, since a string has no \<^verbatim>\<open>append\<close>.
\<close>

definition parse_line :: "(string \<times> uval) list \<Rightarrow> string \<Rightarrow> (string \<times> uval) list res" where
  "parse_line result line = (case match_option_line ''option'' line of
      Some (n, v) \<Rightarrow> Inr (AList.update n (Str (convert_value v)) result)
    | None \<Rightarrow> (case match_option_line ''list'' line of
          None \<Rightarrow> Inr result
        | Some (n, v) \<Rightarrow> (case map_of result n of
              None \<Rightarrow> Inr (AList.update n (Lst [convert_value v]) result)
            | Some (Lst xs) \<Rightarrow> Inr (AList.update n (Lst (xs @ [convert_value v])) result)
            | Some _ \<Rightarrow> Inl AttributeError)))"

fun parse_section :: "(string \<times> uval) list \<Rightarrow> string list \<Rightarrow> ((string \<times> uval) list \<times> string list) res" where
  "parse_section result [] = Inr (result, [])"
| "parse_section result (line # lines) =
     (if section_start line then Inr (result, line # lines)
      else bindE (parse_line result line) (\<lambda>result'. parse_section result' lines))"

lemma parse_section_shorter: "parse_section d ls = Inr (d', ls') \<Longrightarrow> length ls' \<le> length ls"
  by (induction d ls arbitrary: d' rule: parse_section.induct)
     (auto simp: bindE_eq_Inr split: if_splits intro: le_SucI)

function (sequential) parse_package :: "usection list \<Rightarrow> string list \<Rightarrow> (usection list \<times> string list) res" where
  "parse_package result [] = Inr (result, [])"
| "parse_package result (line # lines) =
     (if startswith line ''config'' then
        (case match_config_line line of
           None \<Rightarrow> Inl AttributeError
         | Some (ty, nm) \<Rightarrow>
             (case parse_section [] lines of
                Inl e \<Rightarrow> Inl e
              | Inr (d, lines') \<Rightarrow>
                  parse_package (result @ [\<lparr>sec_type = ty, sec_name = nm, sec_data = d,
                                            anonymous = is_anonymous_name nm\<rparr>]) lines'))
      else if startswith line ''package'' then Inr (result, line # lines)
      else parse_package result lines)"
  by pat_completeness auto
termination
  by (relation "measure (\<lambda>(r, ls). length ls)") (auto dest!: parse_section_shorter)

declare parse_package.simps [simp del]

lemma parse_package_shorter: "parse_package r ls = Inr (r', ls') \<Longrightarrow> length ls' \<le> length ls"
proof (induction r ls arbitrary: r' rule: parse_package.induct)
  case (1 r)
  then show ?case by (simp add: parse_package.simps)
next
  case (2 r l ls)
  show ?case
  proof (cases "startswith l ''config''")
    case True
    with "2.prems" obtain ty nm d ls1 where m: "match_config_line l = Some (ty, nm)"
      and ps: "parse_section [] ls = Inr (d, ls1)"
      and rec: "parse_package (r @ [\<lparr>sec_type = ty, sec_name = nm, sec_data = d,
          anonymous = is_anonymous_name nm\<rparr>]) ls1 = Inr (r', ls')"
      by (subst (asm) parse_package.simps) (auto split: option.splits sum.splits)
    from "2.IH"(1) [OF True m refl ps refl rec] parse_section_shorter [OF ps] show ?thesis by simp
  next
    case False
    with "2.prems" "2.IH"(2) show ?thesis
      by (auto simp: parse_package.simps(2) [of r l ls] split: if_splits intro: le_SucI)
  qed
qed

function (sequential) parse_packages :: "uci_data \<Rightarrow> string list \<Rightarrow> uci_data res" where
  "parse_packages result [] = Inr result"
| "parse_packages result (line # lines) =
     (if startswith line ''package'' then
        (case match_package_line line of
           None \<Rightarrow> Inl AttributeError
         | Some nm \<Rightarrow>
             (case parse_package [] lines of
                Inl e \<Rightarrow> Inl e
              | Inr (secs, lines') \<Rightarrow> parse_packages (AList.update nm secs result) lines'))
      else parse_packages result lines)"
  by pat_completeness auto
termination
  by (relation "measure (\<lambda>(r, ls). length ls)") (auto dest!: parse_package_shorter)

declare parse_packages.simps [simp del]

definition parse_export :: "string \<Rightarrow> uci_data res" where
  "parse_export output = parse_packages [] (splitlines output)"

section \<open>The export format and the round trip\<close>

text \<open>The documented output of \<^verbatim>\<open>uci export -n\<close>, as lines.\<close>

definition option_line :: "string \<Rightarrow> string \<Rightarrow> string \<Rightarrow> string" where
  "option_line kw n v = CHR 0x09 # kw @ '' '' @ n @ '' '' @ quote_value v"

fun export_option :: "string \<times> uval \<Rightarrow> string list" where
  "export_option (n, Str v) = [option_line ''option'' n v]"
| "export_option (n, Lst vs) = map (option_line ''list'' n) vs"
| "export_option (n, _) = []"

definition export_section :: "usection \<Rightarrow> string list" where
  "export_section e =
     (''config '' @ sec_type e @ '' '' @ [quote_char] @ sec_name e @ [quote_char])
       # concat (map export_option (sec_data e)) @ [[]]"

definition export_lines :: "string \<Rightarrow> usection list \<Rightarrow> string list" where
  "export_lines c secs = (''package '' @ c) # [] # concat (map export_section secs)"

definition export_text :: "string \<Rightarrow> usection list \<Rightarrow> string" where
  "export_text c secs = unlines (export_lines c secs)"

text \<open>What UCI can store: names without spaces, non-empty values on one line.\<close>

definition wf_name :: "string \<Rightarrow> bool" where
  "wf_name s = (s \<noteq> [] \<and> list_all (\<lambda>c. \<not> is_space c) s)"

definition wf_text :: "string \<Rightarrow> bool" where
  "wf_text s = (s \<noteq> [] \<and> list_all (\<lambda>c. \<not> is_linebreak c) s)"

fun wf_value :: "uval \<Rightarrow> bool" where
  "wf_value (Str v) = wf_text v"
| "wf_value (Lst vs) = (vs \<noteq> [] \<and> list_all wf_text vs)"
| "wf_value _ = False"

definition wf_section :: "usection \<Rightarrow> bool" where
  "wf_section e = (wf_name (sec_type e) \<and> wf_name (sec_name e)
     \<and> anonymous e = is_anonymous_name (sec_name e)
     \<and> distinct (map fst (sec_data e)) \<and> list_all (\<lambda>(n, v). wf_name n \<and> wf_value v) (sec_data e))"

definition wf_config :: "usection list \<Rightarrow> bool" where
  "wf_config secs = list_all wf_section secs"

lemma linebreak_space: "is_linebreak c \<Longrightarrow> is_space c"
  by (auto simp: is_linebreak_def is_space_def Let_def)

lemma space_is_space [simp]: "is_space CHR '' ''"
  by (simp add: is_space_def)

lemma quote_value_lines: "list_all (\<lambda>c. \<not> is_linebreak c) v \<Longrightarrow> c \<in> set (quote_value v) \<Longrightarrow> \<not> is_linebreak c"
  by (auto simp: quote_value_def list_all_iff split: if_splits)

lemma span_name [simp]:
  "list_all (\<lambda>c. \<not> is_space c) n \<Longrightarrow> takeWhile (\<lambda>c. \<not> is_space c) (n @ CHR '' '' # r) = n"
  "list_all (\<lambda>c. \<not> is_space c) n \<Longrightarrow> dropWhile (\<lambda>c. \<not> is_space c) (n @ CHR '' '' # r) = CHR '' '' # r"
  by (induction n) (auto simp: is_space_def)

lemma startswith_append [simp]: "startswith (p @ s) p" "startswith (p @ q @ s) (p @ q)"
  by (auto simp: startswith_iff)

lemma quote_value_shape:
  "hd (quote_value v) = quote_char" "last (quote_value v) = quote_char" "quote_value v \<noteq> []"
  "v \<noteq> [] \<Longrightarrow> 3 \<le> length (quote_value v)"
  by (cases v; simp add: quote_value_def)+

lemma drop_kw [simp]: "drop (Suc (length kw)) (kw @ CHR '' '' # r) = r"
  by (induction kw) auto

lemma match_option_line_option_line:
  assumes "wf_name n" "v \<noteq> []" "kw \<noteq> []" "\<not> is_space (hd kw)"
  shows "match_option_line kw (option_line kw n v) = Some (n, quote_value v)"
proof -
  have l: "dropWhile is_space (option_line kw n v) = kw @ CHR '' '' # n @ CHR '' '' # quote_value v"
    using assms(3,4) by (cases kw) (simp_all add: option_line_def is_space_def)
  have "startswith (kw @ CHR '' '' # n @ CHR '' '' # quote_value v) (kw @ '' '')"
    by (auto simp: startswith_iff)
  then show ?thesis
    using assms quote_value_shape [of v]
    by (simp add: match_option_line_def l wf_name_def)
qed

lemma match_option_line_other:
  assumes "kw \<noteq> []" "\<not> is_space (hd kw)" "\<not> startswith (kw @ CHR '' '' # r) (kw' @ '' '')"
  shows "match_option_line kw' (CHR 0x09 # kw @ CHR '' '' # r) = None"
proof -
  have "dropWhile is_space (CHR 0x09 # kw @ CHR '' '' # r) = kw @ CHR '' '' # r"
    using assms(1,2) by (cases kw) (simp_all add: is_space_def)
  then show ?thesis using assms(3) by (simp add: match_option_line_def)
qed

lemma section_start_tab [simp]: "\<not> section_start (CHR 0x09 # l)" "\<not> section_start []"
  by (simp_all add: section_start_def)

lemma parse_line_option:
  "wf_name n \<Longrightarrow> wf_text v \<Longrightarrow> parse_line d (option_line ''option'' n v) = Inr (AList.update n (Str v) d)"
  by (simp add: parse_line_def match_option_line_option_line wf_text_def is_space_def)

lemma parse_line_list:
  assumes "wf_name n" "wf_text v"
  shows "parse_line d (option_line ''list'' n v) = (case map_of d n of
      None \<Rightarrow> Inr (AList.update n (Lst [v]) d)
    | Some (Lst xs) \<Rightarrow> Inr (AList.update n (Lst (xs @ [v])) d)
    | Some _ \<Rightarrow> Inl AttributeError)"
proof -
  have "match_option_line ''option'' (option_line ''list'' n v) = None"
    using match_option_line_other [of "''list''" "n @ CHR '' '' # quote_value v" "''option''"]
    by (simp add: option_line_def is_space_def)
  then show ?thesis
    using assms
    by (simp add: parse_line_def match_option_line_option_line wf_text_def is_space_def
        split: option.split uval.split)
qed

lemma parse_section_lines:
  "wf_name n \<Longrightarrow> list_all wf_text vs \<Longrightarrow> map_of d n = Some (Lst xs) \<Longrightarrow>
    parse_section d (map (option_line ''list'' n) vs @ rest)
      = parse_section (if vs = [] then d else AList.update n (Lst (xs @ vs)) d) rest"
proof (induction vs arbitrary: d xs)
  case (Cons v vs)
  have "parse_section d (map (option_line ''list'' n) (v # vs) @ rest)
      = parse_section (AList.update n (Lst (xs @ [v])) d) (map (option_line ''list'' n) vs @ rest)"
    using Cons.prems parse_line_list [of n v d] by (simp add: option_line_def)
  also have "\<dots> = parse_section (AList.update n (Lst (xs @ v # vs)) d) rest"
    using Cons.IH [of "AList.update n (Lst (xs @ [v])) d" "xs @ [v]"] Cons.prems
    by (auto simp: update_conv')
  finally show ?case by simp
qed simp

lemma update_at_end: "n \<notin> fst ` set d \<Longrightarrow> AList.update n w (d @ [(n, v)]) = d @ [(n, w)]"
  by (induction d) auto

lemma parse_section_option:
  assumes "wf_name n" "wf_value v" "n \<notin> fst ` set d"
  shows "parse_section d (export_option (n, v) @ rest) = parse_section (d @ [(n, v)]) rest"
proof (cases v)
  case (Str x)
  then show ?thesis using assms parse_line_option [of n x d]
    by (simp add: option_line_def update_new)
next
  case (Lst vs)
  then obtain x xs where vs: "vs = x # xs" "wf_text x" "list_all wf_text xs"
    using assms(2) by (cases vs) auto
  have none: "map_of d n = None" using assms(3) by (simp add: map_of_eq_None_iff)
  have "parse_section d (export_option (n, v) @ rest)
      = parse_section (d @ [(n, Lst [x])]) (map (option_line ''list'' n) xs @ rest)"
    using assms vs Lst none parse_line_list [of n x d] by (simp add: option_line_def update_new)
  also have "\<dots> = parse_section (d @ [(n, Lst (x # xs))]) rest"
    using parse_section_lines [OF assms(1) vs(3), of "d @ [(n, Lst [x])]" "[x]" rest] none assms(3)
    by (auto simp: map_add_def update_at_end)
  finally show ?thesis using Lst vs by simp
qed (use assms in auto)

lemma parse_section_options:
  "list_all (\<lambda>(n, v). wf_name n \<and> wf_value v) d \<Longrightarrow> distinct (map fst (a @ d)) \<Longrightarrow>
    parse_section a (concat (map export_option d) @ rest) = parse_section (a @ d) rest"
proof (induction d arbitrary: a)
  case (Cons nv d)
  obtain n v where nv: "nv = (n, v)" by (cases nv)
  with Cons.prems have "parse_section a (export_option nv @ concat (map export_option d) @ rest)
      = parse_section (a @ [nv]) (concat (map export_option d) @ rest)"
    by (simp add: parse_section_option)
  with Cons.IH [of "a @ [nv]"] Cons.prems show ?case by simp
qed simp

lemma parse_line_blank: "parse_line d [] = Inr d"
  by (simp add: parse_line_def match_option_line_def)

lemma parse_section_export:
  assumes "wf_section e" "rest = [] \<or> section_start (hd rest)"
  shows "parse_section [] (concat (map export_option (sec_data e)) @ [] # rest) = Inr (sec_data e, rest)"
  using assms parse_section_options [of "sec_data e" "[]" "[] # rest"]
  by (cases rest) (auto simp: wf_section_def parse_line_blank)

lemma match_config_line_export:
  assumes "wf_name t" "wf_name n"
  shows "match_config_line (''config '' @ t @ '' '' @ [quote_char] @ n @ [quote_char]) = Some (t, n)"
  using assms by (auto simp: match_config_line_def wf_name_def neq_Nil_conv)

lemma export_section_start:
  "concat (map export_section secs) = [] \<or> section_start (hd (concat (map export_section secs)))"
  by (cases secs) (simp_all add: export_section_def section_start_def)

lemma parse_package_export:
  "wf_config secs \<Longrightarrow> parse_package acc (concat (map export_section secs)) = Inr (acc @ secs, [])"
proof (induction secs arbitrary: acc)
  case Nil
  then show ?case by (simp add: parse_package.simps)
next
  case (Cons e secs)
  let ?rest = "concat (map export_section secs)"
  have e: "wf_section e" "wf_name (sec_type e)" "wf_name (sec_name e)"
    using Cons.prems by (auto simp: wf_config_def wf_section_def)
  have "parse_package acc (concat (map export_section (e # secs)))
      = parse_package acc ((''config '' @ sec_type e @ '' '' @ [quote_char] @ sec_name e @ [quote_char])
          # (concat (map export_option (sec_data e)) @ [] # ?rest))"
    by (simp add: export_section_def)
  also have "\<dots> = parse_package (acc @ [e]) ?rest"
  proof -
    have "\<lparr>sec_type = sec_type e, sec_name = sec_name e, sec_data = sec_data e,
        anonymous = is_anonymous_name (sec_name e)\<rparr> = e"
      using e(1) by (simp add: wf_section_def)
    then show ?thesis
      using match_config_line_export [OF e(2,3)] parse_section_export [OF e(1) export_section_start]
      by (simp add: parse_package.simps(2))
  qed
  also have "\<dots> = Inr (acc @ e # secs, [])"
    using Cons by (simp add: wf_config_def)
  finally show ?case by simp
qed

definition unbroken :: "string \<Rightarrow> bool" where
  "unbroken s = list_all (\<lambda>x. \<not> is_linebreak x) s"

lemma unbroken_Nil [simp]: "unbroken []"
  by (simp add: unbroken_def)

lemma unbroken_append [simp]: "unbroken (s @ t) \<longleftrightarrow> unbroken s \<and> unbroken t"
  by (simp add: unbroken_def)

lemma unbroken_Cons: "unbroken (c # t) \<longleftrightarrow> \<not> is_linebreak c \<and> unbroken t"
  by (simp add: unbroken_def)

lemma unbroken_literals [simp]:
  "unbroken ''package ''" "unbroken ''config ''" "unbroken '' ''" "unbroken ''option''"
  "unbroken ''list''" "unbroken [CHR 0x09]" "unbroken [quote_char]"
  by (simp_all add: unbroken_def is_linebreak_def quote_char_def)

lemma unbroken_name: "wf_name n \<Longrightarrow> unbroken n"
  by (auto simp: wf_name_def unbroken_def list_all_iff linebreak_space)

lemma unbroken_quote_value: "wf_text v \<Longrightarrow> unbroken (quote_value v)"
  unfolding wf_text_def unbroken_def list_all_iff [of _ "quote_value v"]
  by (intro ballI quote_value_lines) simp_all

lemma unbroken_option_line:
  assumes "wf_name n" "wf_text v" "unbroken kw"
  shows "unbroken (option_line kw n v)"
proof -
  have "option_line kw n v = [CHR 0x09] @ kw @ '' '' @ n @ '' '' @ quote_value v"
    by (simp add: option_line_def)
  then show ?thesis
    using assms by (simp only: unbroken_append unbroken_literals unbroken_name unbroken_quote_value simp_thms)
qed

lemma unbroken_export_option:
  "wf_name n \<Longrightarrow> wf_value v \<Longrightarrow> l \<in> set (export_option (n, v)) \<Longrightarrow> unbroken l"
  by (cases v) (auto simp: list_all_iff intro: unbroken_option_line)

lemma unbroken_export_section: "wf_section e \<Longrightarrow> l \<in> set (export_section e) \<Longrightarrow> unbroken l"
proof -
  assume e: "wf_section e" and l: "l \<in> set (export_section e)"
  have "unbroken (''config '' @ sec_type e @ '' '' @ [quote_char] @ sec_name e @ [quote_char])"
    using e unfolding wf_section_def by (simp only: unbroken_append unbroken_literals unbroken_name simp_thms)
  then show ?thesis
    using e l unbroken_export_option
    by (auto simp: export_section_def wf_section_def list_all_iff)
qed

lemma export_lines_unbroken:
  assumes "wf_name c" "wf_config secs" "l \<in> set (export_lines c secs)"
  shows "unbroken l"
proof -
  have "unbroken (''package '' @ c)"
    using assms(1) by (simp only: unbroken_append unbroken_literals unbroken_name simp_thms)
  then show ?thesis
    using assms(2,3) unbroken_export_section by (auto simp: export_lines_def wf_config_def list_all_iff)
qed

lemma parse_export_text:
  assumes "wf_name c" "wf_config secs"
  shows "parse_export (export_text c secs) = Inr [(c, secs)]"
proof -
  have "splitlines (export_text c secs) = export_lines c secs"
    unfolding export_text_def using export_lines_unbroken [OF assms]
    by (intro splitlines_unlines) (auto simp: unbroken_def list_all_iff)
  moreover have "parse_packages [] (export_lines c secs) = Inr [(c, secs)]"
    using assms parse_package_export [of secs "[]"]
    by (simp add: export_lines_def parse_packages.simps match_package_line_def wf_name_def
        parse_package.simps(2))
  ultimately show ?thesis by (simp add: parse_export_def)
qed

end
