(* ===== verification/UciBackend.thy ===== *)
theory UciBackend
  imports UciStore UciParse
begin

text \<open>
  \<^verbatim>\<open>UciBackend\<close> of \<^verbatim>\<open>foris_controller_backends/uci/__init__.py\<close>: the \<^verbatim>\<open>uci\<close> command lines it
  runs, its write operations, and the transaction of \<^verbatim>\<open>with UciBackend() as backend\<close>.
  What lies outside of the repository (running a command, the files of the delta
  directory, the iteration order of a Python set, starting a process in the background,
  reading, writing and finding files) is the environment \<open>E\<close>, an argument of
  every definition. The locale \<open>uci_tool\<close> names what is relied on: through the abstraction
  \<open>view\<close> the environment behaves like the reference of \<open>UciStore\<close>.
\<close>

section \<open>Environment and state\<close>

datatype proc = Exited int string string | OsFail int string

record 'e env =
  env_config_dir :: string
  env_execute :: "string list \<Rightarrow> string option \<Rightarrow> 'e \<Rightarrow> proc \<times> 'e"
  env_makedirs :: "string \<Rightarrow> 'e \<Rightarrow> (int \<times> string) option \<times> 'e"
  env_listdir :: "string \<Rightarrow> 'e \<Rightarrow> string list res"
  env_remove :: "string \<Rightarrow> 'e \<Rightarrow> unit res \<times> 'e"
  env_set_order :: "string list \<Rightarrow> string list"
  env_cmdline_root :: string
  env_spawn :: "string list \<Rightarrow> 'e \<Rightarrow> (int \<times> string) option \<times> 'e"
  env_file_root :: string
  env_read_file :: "string \<Rightarrow> 'e \<Rightarrow> string res"
  env_glob :: "string \<Rightarrow> 'e \<Rightarrow> string list"
  env_exists :: "string \<Rightarrow> 'e \<Rightarrow> bool"
  env_write_file :: "string \<Rightarrow> string \<Rightarrow> 'e \<Rightarrow> unit res \<times> 'e"
  env_unlink :: "string \<Rightarrow> 'e \<Rightarrow> unit res \<times> 'e"
  env_rmtree :: "string \<Rightarrow> 'e \<Rightarrow> unit res \<times> 'e"
  env_make_path :: "string \<Rightarrow> 'e \<Rightarrow> unit res \<times> 'e"

text \<open>
  The locks are the class attributes \<^verbatim>\<open>UciBackend.uci_lock\<close> and
  \<^verbatim>\<open>OpenwrtServices.services_lock\<close>; \<open>affected\<close> is the set of the backend in use, without
  duplicates.
\<close>

record 'e st =
  ext :: 'e
  uci_held :: bool
  services_held :: bool
  affected :: "string list"

definition changes_dir :: string where
  "changes_dir = ''/tmp/.uci-foris-controller''"

section \<open>Commands\<close>

definition handle_command ::
  "'e env \<Rightarrow> string list \<Rightarrow> string option \<Rightarrow> ('e st, int \<times> string \<times> string) prog" where
  "handle_command E argv inp s = (case env_execute E argv inp (ext s) of
      (Exited rc out err, e) \<Rightarrow> (Ret (rc, out, err), s\<lparr>ext := e\<rparr>)
    | (OsFail n msg, e) \<Rightarrow> (Raise (OSError n msg), s\<lparr>ext := e\<rparr>))"

definition uci_argv :: "'e env \<Rightarrow> string list \<Rightarrow> string list" where
  "uci_argv E args =
     [''uci''] @ (if hd args = ''export'' then [''-n''] else []) @
     [''-c'', env_config_dir E, if hd args = ''commit'' then ''-p'' else ''-P'', changes_dir] @ args"

definition run_uci_command ::
  "'e env \<Rightarrow> string list \<Rightarrow> bool \<Rightarrow> string option \<Rightarrow> ('e st, string) prog" where
  "run_uci_command E args fail_on_error inp =
     bindP (handle_command E (uci_argv E args) inp) (\<lambda>(rc, out, err).
       if fail_on_error \<and> rc \<noteq> 0 then raise (UciException (uci_argv E args)) else ret out)"

definition uci_cmd :: "'e env \<Rightarrow> string list \<Rightarrow> ('e st, unit) prog" where
  "uci_cmd E args = bindP (run_uci_command E args True None) (\<lambda>_. ret ())"

fun is_os_error :: "exn \<Rightarrow> bool" where
  "is_os_error (OSError _ _) = True"
| "is_os_error _ = False"

definition run_reload_config :: "'e env \<Rightarrow> ('e st, unit) prog" where
  "run_reload_config E =
     tryP (bindP (handle_command E [''reload_config''] None) (\<lambda>_. ret ())) is_os_error (\<lambda>_. ret ())"

section \<open>Write operations\<close>

definition touch :: "string \<Rightarrow> ('e st, unit) prog" where
  "touch c s = (Ret (), s\<lparr>affected := (if c \<in> set (affected s) then affected s else affected s @ [c])\<rparr>)"

definition add_section :: "'e env \<Rightarrow> string \<Rightarrow> string \<Rightarrow> string \<Rightarrow> ('e st, unit) prog" where
  "add_section E c t s = block [uci_cmd E [''set'', c @ ''.'' @ s @ ''='' @ t], touch c]"

definition add_anonymous_section :: "'e env \<Rightarrow> string \<Rightarrow> string \<Rightarrow> ('e st, string) prog" where
  "add_anonymous_section E c t =
     bindP (run_uci_command E [''add'', c, t] False None) (\<lambda>out.
       bindP (touch c) (\<lambda>_. ret (strip out)))"

definition del_section :: "'e env \<Rightarrow> string \<Rightarrow> string \<Rightarrow> ('e st, unit) prog" where
  "del_section E c s = block [uci_cmd E [''delete'', c @ ''.'' @ s], touch c]"

definition set_option :: "'e env \<Rightarrow> string \<Rightarrow> string \<Rightarrow> string \<Rightarrow> string \<Rightarrow> ('e st, unit) prog" where
  "set_option E c s p v =
     block [uci_cmd E [''set'', c @ ''.'' @ s @ ''.'' @ p @ ''='' @ v], touch c]"

definition del_option :: "'e env \<Rightarrow> string \<Rightarrow> string \<Rightarrow> string \<Rightarrow> bool \<Rightarrow> ('e st, unit) prog" where
  "del_option E c s p fail_on_error =
     block [bindP (run_uci_command E [''delete'', c @ ''.'' @ s @ ''.'' @ p] fail_on_error None) (\<lambda>_. ret ()),
            touch c]"

definition add_to_list :: "'e env \<Rightarrow> string \<Rightarrow> string \<Rightarrow> string \<Rightarrow> string list \<Rightarrow> ('e st, unit) prog" where
  "add_to_list E c s p vs =
     block [forP vs (\<lambda>v. uci_cmd E [''add_list'', c @ ''.'' @ s @ ''.'' @ p @ ''='' @ v]), touch c]"

definition del_from_list ::
  "'e env \<Rightarrow> string \<Rightarrow> string \<Rightarrow> string \<Rightarrow> string list option \<Rightarrow> ('e st, unit) prog" where
  "del_from_list E c s p vs =
     block [case vs of
              Some (v # rest) \<Rightarrow>
                forP (v # rest) (\<lambda>v. uci_cmd E [''del_list'', c @ ''.'' @ s @ ''.'' @ p @ ''='' @ v])
            | _ \<Rightarrow> uci_cmd E [''delete'', c @ ''.'' @ s @ ''.'' @ p],
            touch c]"

definition replace_list :: "'e env \<Rightarrow> string \<Rightarrow> string \<Rightarrow> string \<Rightarrow> string list \<Rightarrow> ('e st, unit) prog" where
  "replace_list E c s p vs =
     block [tryP (uci_cmd E [''delete'', c @ ''.'' @ s @ ''.'' @ p]) is_uci_exception (\<lambda>_. ret ()),
            add_to_list E c s p vs,
            touch c]"

section \<open>Reading\<close>

definition export_data :: "'e env \<Rightarrow> string option \<Rightarrow> ('e st, string) prog" where
  "export_data E config = (case config of
      Some (x # c) \<Rightarrow> run_uci_command E [''export'', x # c] True None
    | _ \<Rightarrow> run_uci_command E [''export''] True None)"

definition read_configs :: "'e env \<Rightarrow> string option \<Rightarrow> ('e st, uci_data) prog" where
  "read_configs E config = bindP (export_data E config) (\<lambda>out. lift (parse_export out))"

abbreviation read_uci :: "'e env \<Rightarrow> string \<Rightarrow> ('e st, uci_data) prog" where
  "read_uci E c \<equiv> read_configs E (Some c)"

definition import_data :: "'e env \<Rightarrow> string option \<Rightarrow> string \<Rightarrow> ('e st, unit) prog" where
  "import_data E data c =
     bindP (run_uci_command E [''import'', c] True (Some (case data of Some d \<Rightarrow> d | None \<Rightarrow> [])))
       (\<lambda>_. ret ())"

section \<open>Transactions\<close>

definition commit :: "'e env \<Rightarrow> ('e st, unit) prog" where
  "commit E s =
     block [forP (env_set_order E (affected s)) (\<lambda>c. block [uci_cmd E [''commit'', c], uci_cmd E [''revert'', c]]),
            whenP (affected s \<noteq> []) [run_reload_config E]] s"

definition remove_change :: "'e env \<Rightarrow> string \<Rightarrow> ('e st, unit) prog" where
  "remove_change E f s = (case env_remove E (changes_dir @ ''/'' @ f) (ext s) of
      (Inr _, e) \<Rightarrow> (Ret (), s\<lparr>ext := e\<rparr>)
    | (Inl x, e) \<Rightarrow> (Raise x, s\<lparr>ext := e\<rparr>))"

definition cleanup :: "'e env \<Rightarrow> ('e st, unit) prog" where
  "cleanup E s =
     (let s1 = s\<lparr>ext := snd (env_makedirs E changes_dir (ext s))\<rparr> in
      case env_listdir E changes_dir (ext s1) of
        Inl x \<Rightarrow> (Raise x, s1)
      | Inr fs \<Rightarrow> forP fs (remove_change E) s1)"

definition acquire_uci :: "('e st, unit) prog" where
  "acquire_uci s = (if uci_held s then (Block, s) else (Ret (), s\<lparr>uci_held := True\<rparr>))"

definition release_uci :: "('e st, unit) prog" where
  "release_uci s = (Ret (), s\<lparr>uci_held := False\<rparr>)"

definition uci_enter :: "'e env \<Rightarrow> ('e st, unit) prog" where
  "uci_enter E = block [acquire_uci, \<lambda>s. (Ret (), s\<lparr>affected := []\<rparr>), cleanup E]"

definition uci_exit :: "'e env \<Rightarrow> bool \<Rightarrow> ('e st, unit) prog" where
  "uci_exit E raised = block [\<lambda>s. whenP (\<not> raised \<and> affected s \<noteq> []) [commit E] s, release_uci]"

text \<open>\<^verbatim>\<open>with UciBackend() as backend: body\<close>.\<close>

definition with_uci :: "'e env \<Rightarrow> ('e st, 'a) prog \<Rightarrow> ('e st, 'a) prog" where
  "with_uci E body = bindP (uci_enter E) (\<lambda>_ s. case body s of
      (Ret x, s') \<Rightarrow> bindP (uci_exit E False) (\<lambda>_. ret x) s'
    | (Raise e, s') \<Rightarrow> bindP (uci_exit E True) (\<lambda>_. raise e) s'
    | (Block, s') \<Rightarrow> (Block, s'))"

end
