(* ===== verification/UciTool.thy ===== *)
theory UciTool
  imports UciBackend
begin

text \<open>
  What the backend relies on: the locale \<open>uci_tool\<close>, through which every environment that
  keeps the documented behaviour of \<^verbatim>\<open>uci\<close> is simulated by the reference environment
  \<open>ref_env\<close>, where programs are executed by rewriting. The locale is interpreted on
  \<open>ref_env\<close> itself. On top of it, the properties of the transactions.
\<close>

section \<open>The reference environment\<close>

definition strip_argv :: "string list \<Rightarrow> string list option" where
  "strip_argv argv = (case argv of
      prog # flag # _ \<Rightarrow>
        if prog = ''uci'' then Some (drop (if flag = ''-n'' then 6 else 5) argv) else None
    | _ \<Rightarrow> None)"

definition ref_execute ::
  "(usection list \<Rightarrow> string \<Rightarrow> string) \<Rightarrow> string list \<Rightarrow> string option \<Rightarrow> store \<Rightarrow> proc \<times> store" where
  "ref_execute nm argv inp \<sigma> = (case strip_argv argv of
      None \<Rightarrow> (OsFail 2 ''No such file or directory'', \<sigma>)
    | Some args \<Rightarrow> (case ref_uci nm export_text args \<sigma> of
          None \<Rightarrow> (Exited 255 [] [], \<sigma>)
        | Some ((ok, out), \<sigma>') \<Rightarrow> (Exited (if ok then 0 else 1) out [], \<sigma>')))"

definition ref_env ::
  "(usection list \<Rightarrow> string \<Rightarrow> string) \<Rightarrow> string \<Rightarrow> (string list \<Rightarrow> string list) \<Rightarrow> store env" where
  "ref_env nm cd ord = \<lparr>
     env_config_dir = cd,
     env_execute = ref_execute nm,
     env_makedirs = (\<lambda>_ \<sigma>. (None, \<sigma>)),
     env_listdir = (\<lambda>_ \<sigma>. Inr (remdups (map fst (delta \<sigma>)))),
     env_remove = (\<lambda>path \<sigma>. (Inr (), drop_delta (drop (length changes_dir + 1) path) \<sigma>)),
     env_set_order = ord,
     env_cmdline_root = [],
     env_spawn = (\<lambda>_ \<sigma>. (None, \<sigma>)),
     env_file_root = [],
     env_read_file = (\<lambda>path \<sigma>. Inl (OSError 2 path)),
     env_glob = (\<lambda>_ \<sigma>. []),
     env_exists = (\<lambda>_ \<sigma>. False),
     env_write_file = (\<lambda>_ _ \<sigma>. (Inr (), \<sigma>)),
     env_unlink = (\<lambda>path \<sigma>. (Inl (OSError 2 path), \<sigma>)),
     env_rmtree = (\<lambda>path \<sigma>. (Inl (OSError 2 path), \<sigma>)),
     env_make_path = (\<lambda>_ \<sigma>. (Inr (), \<sigma>))\<rparr>"

lemma ref_env_sel [simp]:
  "env_config_dir (ref_env nm cd ord) = cd" "env_execute (ref_env nm cd ord) = ref_execute nm"
  "env_makedirs (ref_env nm cd ord) d \<sigma> = (None, \<sigma>)"
  "env_listdir (ref_env nm cd ord) d \<sigma> = Inr (remdups (map fst (delta \<sigma>)))"
  "env_remove (ref_env nm cd ord) path \<sigma> = (Inr (), drop_delta (drop (length changes_dir + 1) path) \<sigma>)"
  "env_set_order (ref_env nm cd ord) = ord"
  by (simp_all add: ref_env_def)

lemma strip_uci_argv [simp]: "strip_argv (uci_argv E args) = Some args"
  by (simp add: strip_argv_def uci_argv_def)

lemma keys_drop_delta: "fst ` set (delta (drop_delta f \<sigma>)) = fst ` set (delta \<sigma>) - {f}"
proof -
  have "set (map fst (AList.delete f (delta \<sigma>))) = set (map fst (delta \<sigma>)) - {f}"
    by (simp only: delete_keys set_removeAll)
  then show ?thesis by (simp add: drop_delta_def)
qed

section \<open>The interface\<close>

locale uci_tool =
  fixes E :: "'e env"
    and nm :: "usection list \<Rightarrow> string \<Rightarrow> string"
    and view :: "'e \<Rightarrow> store"
  assumes uci_runs: "ref_uci nm export_text args (view e) = Some ((ok, out), \<sigma>) \<Longrightarrow>
      \<exists>rc err e'. env_execute E (uci_argv E args) None e = (Exited rc out err, e') \<and>
        (rc = 0) = ok \<and> view e' = \<sigma>"
    and reload_keeps: "view (snd (env_execute E [''reload_config''] None e)) = view e"
    and makedirs_keeps: "view (snd (env_makedirs E changes_dir e)) = view e"
    and listdir_lists: "\<exists>fs. env_listdir E changes_dir (snd (env_makedirs E changes_dir e)) = Inr fs \<and>
        distinct fs \<and> set fs = fst ` set (delta (view e))"
    and remove_drops: "f \<in> fst ` set (delta (view e)) \<Longrightarrow>
        \<exists>e'. env_remove E (changes_dir @ ''/'' @ f) e = (Inr (), e') \<and> view e' = drop_delta f (view e)"
    and set_order_set: "set (env_set_order E xs) = set xs"

lemma uci_tool_files:
  assumes "\<And>xs. set (ord xs) = set xs"
  shows "uci_tool ((ref_env nm cd ord)\<lparr>env_read_file := rd, env_glob := gl, env_exists := exs\<rparr>) nm (\<lambda>\<sigma>. \<sigma>)"
proof unfold_locales
  let ?E = "(ref_env nm cd ord)\<lparr>env_read_file := rd, env_glob := gl, env_exists := exs\<rparr>"
  fix args \<sigma> ok out \<sigma>'
  assume "ref_uci nm export_text args \<sigma> = Some ((ok, out), \<sigma>')"
  then show "\<exists>rc err e'. env_execute ?E (uci_argv ?E args) None \<sigma> = (Exited rc out err, e') \<and> (rc = 0) = ok \<and> e' = \<sigma>'"
    by (simp add: ref_execute_def)
qed (simp_all add: ref_execute_def strip_argv_def assms)

lemma uci_tool_ref_env: "(\<And>xs. set (ord xs) = set xs) \<Longrightarrow> uci_tool (ref_env nm cd ord) nm (\<lambda>\<sigma>. \<sigma>)"
  using uci_tool_files [where ord = ord and nm = nm and cd = cd and rd = "env_read_file (ref_env nm cd ord)"
      and gl = "env_glob (ref_env nm cd ord)" and exs = "env_exists (ref_env nm cd ord)"] by simp

interpretation ref: uci_tool "ref_env nm cd (\<lambda>xs. xs)" nm "\<lambda>\<sigma>. \<sigma>"
  by (rule uci_tool_ref_env) simp

text \<open>States related by the abstraction.\<close>

definition rel :: "('e \<Rightarrow> store) \<Rightarrow> 'e st \<Rightarrow> store st \<Rightarrow> bool" where
  "rel view s t \<longleftrightarrow> ext t = view (ext s) \<and> uci_held t = uci_held s \<and>
     services_held t = services_held s \<and> affected t = affected s \<and>
     (\<forall>c\<in>set (affected s). valid_name c)"

definition abs_st :: "('e \<Rightarrow> store) \<Rightarrow> 'e st \<Rightarrow> store st" where
  "abs_st view s = \<lparr>ext = view (ext s), uci_held = uci_held s, services_held = services_held s,
     affected = affected s\<rparr>"

lemma rel_eq: "rel view s t \<longleftrightarrow> t = abs_st view s \<and> (\<forall>c\<in>set (affected s). valid_name c)"
  by (cases t) (auto simp: rel_def abs_st_def)

lemma abs_st_id [simp]: "abs_st (\<lambda>\<sigma>. \<sigma>) s = s"
  by (simp add: abs_st_def)

lemma rel_update:
  "rel view s t \<Longrightarrow> rel view (s\<lparr>ext := e\<rparr>) (t\<lparr>ext := view e\<rparr>)"
  "rel view s t \<Longrightarrow> rel view (s\<lparr>affected := []\<rparr>) (t\<lparr>affected := []\<rparr>)"
  "rel view s t \<Longrightarrow> rel view (s\<lparr>uci_held := b\<rparr>) (t\<lparr>uci_held := b\<rparr>)"
  by (simp_all add: rel_def)

text \<open>A command whose effect the documentation fixes.\<close>

definition documented :: "string list \<Rightarrow> bool" where
  "documented args \<longleftrightarrow> (\<forall>nm \<sigma>. ref_uci nm export_text args \<sigma> \<noteq> None)"

lemma documentedD: "documented args \<Longrightarrow> \<exists>ok out \<sigma>'. ref_uci nm export_text args \<sigma> = Some ((ok, out), \<sigma>')"
  unfolding documented_def by (metis option.exhaust surj_pair)

lemma documented_export: "valid_name c \<Longrightarrow> documented [''export'', c]"
  and documented_commit: "valid_name c \<Longrightarrow> documented [''commit'', c]"
  and documented_revert: "valid_name c \<Longrightarrow> documented [''revert'', c]"
  and documented_add: "valid_name c \<Longrightarrow> valid_name t \<Longrightarrow> documented [''add'', c, t]"
  by (simp_all add: documented_def ref_uci_def)

lemma documented_set_section:
  "valid_name c \<Longrightarrow> valid_name s \<Longrightarrow> valid_name t \<Longrightarrow> documented [''set'', c @ ''.'' @ s @ ''='' @ t]"
  unfolding documented_def by (simp only: ref_uci_set_section) simp

lemma documented_set_option:
  "valid_name c \<Longrightarrow> valid_sec s \<Longrightarrow> valid_name p \<Longrightarrow>
    documented [''set'', c @ ''.'' @ s @ ''.'' @ p @ ''='' @ v]"
  unfolding documented_def by (simp only: ref_uci_set_option) (simp add: ref_set_def)

lemma documented_delete_section:
  "valid_name c \<Longrightarrow> valid_sec s \<Longrightarrow> documented [''delete'', c @ ''.'' @ s]"
  unfolding documented_def by (simp only: ref_uci_delete_section) simp

lemma documented_delete_option:
  "valid_name c \<Longrightarrow> valid_sec s \<Longrightarrow> valid_name p \<Longrightarrow>
    documented [''delete'', c @ ''.'' @ s @ ''.'' @ p]"
  unfolding documented_def by (simp only: ref_uci_delete_option) simp

lemma documented_add_list:
  "valid_name c \<Longrightarrow> valid_sec s \<Longrightarrow> valid_name p \<Longrightarrow>
    documented [''add_list'', c @ ''.'' @ s @ ''.'' @ p @ ''='' @ v]"
  unfolding documented_def by (simp only: ref_uci_add_list) (simp add: ref_add_list_def)

lemma documented_del_list:
  "valid_name c \<Longrightarrow> valid_sec s \<Longrightarrow> valid_name p \<Longrightarrow>
    documented [''del_list'', c @ ''.'' @ s @ ''.'' @ p @ ''='' @ v]"
  unfolding documented_def by (simp only: ref_uci_del_list) (simp add: ref_del_list_def)

section \<open>Simulation of the backend\<close>

lemma sim_touch [sim_intros]: "valid_name c \<Longrightarrow> sim (rel view) (touch c) (touch c)"
  by (simp add: sim_def touch_def rel_def)

context uci_tool
begin

abbreviation R :: "store env" where
  "R \<equiv> ref_env nm (env_config_dir E) (env_set_order E)"

lemma uci_argv_R [simp]: "uci_argv R args = uci_argv E args"
  by (simp add: uci_argv_def)

lemma sim_run_uci_command:
  assumes "documented args"
  shows "sim (rel view) (run_uci_command E args f None) (run_uci_command R args f None)"
proof (rule simI)
  fix s t
  assume st: "rel view s t"
  obtain ok out \<sigma>' where ref: "ref_uci nm export_text args (view (ext s)) = Some ((ok, out), \<sigma>')"
    using documentedD [OF assms] by blast
  from uci_runs [OF ref] obtain rc err e' where
    "env_execute E (uci_argv E args) None (ext s) = (Exited rc out err, e')" "(rc = 0) = ok" "view e' = \<sigma>'"
    by blast
  moreover have "ref_execute nm (uci_argv E args) None (view (ext s)) = (Exited (if ok then 0 else 1) out [], \<sigma>')"
    using ref by (simp add: ref_execute_def)
  ultimately show "fst (run_uci_command E args f None s) = fst (run_uci_command R args f None t) \<and>
      rel view (snd (run_uci_command E args f None s)) (snd (run_uci_command R args f None t))"
    using st by (auto simp: run_uci_command_def handle_command_def bindP_def rel_def raise_def ret_def)
qed

lemma sim_uci_cmd: "documented args \<Longrightarrow> sim (rel view) (uci_cmd E args) (uci_cmd R args)"
  unfolding uci_cmd_def by (intro sim_intros sim_run_uci_command)

lemma sim_add_section:
  "valid_name c \<Longrightarrow> valid_name s \<Longrightarrow> valid_name t \<Longrightarrow>
    sim (rel view) (add_section E c t s) (add_section R c t s)"
  unfolding add_section_def by (intro sim_intros sim_uci_cmd documented_set_section)

lemma sim_add_anonymous_section:
  "valid_name c \<Longrightarrow> valid_name t \<Longrightarrow>
    sim (rel view) (add_anonymous_section E c t) (add_anonymous_section R c t)"
  unfolding add_anonymous_section_def by (intro sim_intros sim_run_uci_command documented_add)

lemma sim_del_section:
  "valid_name c \<Longrightarrow> valid_sec s \<Longrightarrow> sim (rel view) (del_section E c s) (del_section R c s)"
  unfolding del_section_def by (intro sim_intros sim_uci_cmd documented_delete_section)

lemma sim_set_option:
  "valid_name c \<Longrightarrow> valid_sec s \<Longrightarrow> valid_name p \<Longrightarrow>
    sim (rel view) (set_option E c s p v) (set_option R c s p v)"
  unfolding set_option_def by (intro sim_intros sim_uci_cmd documented_set_option)

lemma sim_del_option:
  "valid_name c \<Longrightarrow> valid_sec s \<Longrightarrow> valid_name p \<Longrightarrow>
    sim (rel view) (del_option E c s p f) (del_option R c s p f)"
  unfolding del_option_def by (intro sim_intros sim_run_uci_command documented_delete_option)

lemma sim_add_to_list:
  "valid_name c \<Longrightarrow> valid_sec s \<Longrightarrow> valid_name p \<Longrightarrow>
    sim (rel view) (add_to_list E c s p vs) (add_to_list R c s p vs)"
  unfolding add_to_list_def by (intro sim_intros sim_uci_cmd documented_add_list)

lemma sim_del_from_list:
  "valid_name c \<Longrightarrow> valid_sec s \<Longrightarrow> valid_name p \<Longrightarrow>
    sim (rel view) (del_from_list E c s p vs) (del_from_list R c s p vs)"
  unfolding del_from_list_def
  by (cases vs; cases "the vs")
     (auto simp del: forP.simps append.simps
        intro!: sim_intros sim_uci_cmd documented_del_list documented_delete_option)

lemma sim_replace_list:
  "valid_name c \<Longrightarrow> valid_sec s \<Longrightarrow> valid_name p \<Longrightarrow>
    sim (rel view) (replace_list E c s p vs) (replace_list R c s p vs)"
  unfolding replace_list_def
  by (intro sim_intros sim_uci_cmd sim_add_to_list documented_delete_option)

lemma sim_read_uci: "valid_name c \<Longrightarrow> sim (rel view) (read_uci E c) (read_uci R c)"
  unfolding read_configs_def export_data_def
  by (cases c) (auto simp: valid_name_def [of "[]"] intro!: sim_intros sim_run_uci_command documented_export)

lemma sim_reload_config: "sim (rel view) (run_reload_config E) (run_reload_config R)"
proof (rule simI)
  fix s t
  assume st: "rel view s t"
  obtain r e' where r: "env_execute E [''reload_config''] None (ext s) = (r, e')"
    by (cases "env_execute E [''reload_config''] None (ext s)")
  then have "view e' = view (ext s)" using reload_keeps [of "ext s"] by simp
  with st r show "fst (run_reload_config E s) = fst (run_reload_config R t) \<and>
      rel view (snd (run_reload_config E s)) (snd (run_reload_config R t))"
    by (cases r) (auto simp: run_reload_config_def tryP_def bindP_def handle_command_def rel_def
        ref_execute_def strip_argv_def ret_def)
qed

lemma sim_commit: "sim (rel view) (commit E) (commit R)"
proof (rule simI)
  fix s t
  assume st: "rel view s t"
  have "sim (rel view)
      (block [forP (env_set_order E A) (\<lambda>c. block [uci_cmd E [''commit'', c], uci_cmd E [''revert'', c]]),
              whenP b [run_reload_config E]])
      (block [forP (env_set_order E A) (\<lambda>c. block [uci_cmd R [''commit'', c], uci_cmd R [''revert'', c]]),
              whenP b [run_reload_config R]])"
    if "\<forall>c\<in>set A. valid_name c" for A b
    using that set_order_set [of A]
    by (intro sim_intros sim_uci_cmd sim_reload_config documented_commit documented_revert) auto
  moreover have "affected t = affected s" "\<forall>c\<in>set (affected s). valid_name c"
    using st by (simp_all add: rel_def)
  ultimately show "fst (commit E s) = fst (commit R t) \<and> rel view (snd (commit E s)) (snd (commit R t))"
    using st unfolding commit_def by (simp del: block.simps add: sim_def)
qed

lemma drop_all:
  assumes "distinct fs" "set fs = fst ` set (delta (view (ext s)))"
  shows "\<exists>e'. forP fs (remove_change E) s = (Ret (), s\<lparr>ext := e'\<rparr>) \<and> view e' = (view (ext s))\<lparr>delta := []\<rparr>"
  using assms
proof (induction fs arbitrary: s)
  case Nil
  then have "view (ext s) = (view (ext s))\<lparr>delta := []\<rparr>" by simp
  moreover have "s = s\<lparr>ext := ext s\<rparr>" by simp
  ultimately show ?case unfolding forP.simps ret_def by metis
next
  case (Cons f fs)
  then have "f \<in> fst ` set (delta (view (ext s)))" by auto
  from remove_drops [OF this] obtain e1 where e1:
    "env_remove E (changes_dir @ ''/'' @ f) (ext s) = (Inr (), e1)" "view e1 = drop_delta f (view (ext s))"
    by blast
  have "set fs = fst ` set (delta (view e1))"
    using Cons.prems e1(2) by (auto simp: keys_drop_delta)
  with Cons.IH [of "s\<lparr>ext := e1\<rparr>"] Cons.prems obtain e' where
    "forP fs (remove_change E) (s\<lparr>ext := e1\<rparr>) = (Ret (), s\<lparr>ext := e'\<rparr>)" "view e' = (view e1)\<lparr>delta := []\<rparr>"
    by auto
  moreover have "remove_change E f s = (Ret (), s\<lparr>ext := e1\<rparr>)"
    using e1 by (simp add: remove_change_def)
  ultimately show ?case using e1 by (auto simp: bindP_def drop_delta_def)
qed

lemma cleanup_clears:
  "\<exists>e'. cleanup E s = (Ret (), s\<lparr>ext := e'\<rparr>) \<and> view e' = (view (ext s))\<lparr>delta := []\<rparr>"
proof -
  let ?s = "s\<lparr>ext := snd (env_makedirs E changes_dir (ext s))\<rparr>"
  obtain fs where fs: "env_listdir E changes_dir (ext ?s) = Inr fs" "distinct fs"
      "set fs = fst ` set (delta (view (ext s)))"
    using listdir_lists [of "ext s"] by auto
  moreover have "view (ext ?s) = view (ext s)" using makedirs_keeps [of "ext s"] by simp
  ultimately show ?thesis
    using drop_all [of fs ?s] by (auto simp: cleanup_def)
qed

end

lemma ref_cleanup: "cleanup (ref_env nm cd ord) t = (Ret (), t\<lparr>ext := (ext t)\<lparr>delta := []\<rparr>\<rparr>)"
proof -
  have "cleanup (ref_env nm cd ord) t = cleanup (ref_env nm cd (\<lambda>xs. xs)) t"
    by (simp add: cleanup_def Let_def remove_change_def [abs_def])
  then show ?thesis using ref.cleanup_clears [of nm cd t] by auto
qed

context uci_tool
begin

lemma sim_cleanup: "sim (rel view) (cleanup E) (cleanup R)"
proof (rule simI)
  fix s t
  assume "rel view s t"
  then show "fst (cleanup E s) = fst (cleanup R t) \<and> rel view (snd (cleanup E s)) (snd (cleanup R t))"
    using cleanup_clears [of s] by (auto simp: ref_cleanup rel_def)
qed

lemma sim_enter: "sim (rel view) (uci_enter E) (uci_enter R)"
proof -
  have "sim (rel view) acquire_uci acquire_uci"
    by (auto simp: sim_def acquire_uci_def rel_def)
  moreover have "sim (rel view) (\<lambda>s. (Ret (), s\<lparr>affected := []\<rparr>)) (\<lambda>s. (Ret (), s\<lparr>affected := []\<rparr>))"
    by (auto simp: sim_def rel_def)
  ultimately show ?thesis
    unfolding uci_enter_def by (intro sim_intros sim_cleanup)
qed

lemma sim_exit: "sim (rel view) (uci_exit E b) (uci_exit R b)"
proof -
  have rel: "sim (rel view) release_uci release_uci"
    by (auto simp: sim_def release_uci_def rel_def)
  have "sim (rel view) (\<lambda>s. whenP (\<not> b \<and> affected s \<noteq> []) [commit E] s)
      (\<lambda>s. whenP (\<not> b \<and> affected s \<noteq> []) [commit R] s)"
  proof (rule simI)
    fix s t
    assume st: "rel view s t"
    then have "affected t = affected s" by (simp add: rel_def)
    moreover have "sim (rel view) (whenP c [commit E]) (whenP c [commit R])" for c
      by (intro sim_intros sim_commit)
    ultimately show "fst (whenP (\<not> b \<and> affected s \<noteq> []) [commit E] s)
        = fst (whenP (\<not> b \<and> affected t \<noteq> []) [commit R] t) \<and>
      rel view (snd (whenP (\<not> b \<and> affected s \<noteq> []) [commit E] s))
        (snd (whenP (\<not> b \<and> affected t \<noteq> []) [commit R] t))"
      using st by (simp add: sim_def)
  qed
  then show ?thesis
    unfolding uci_exit_def by (intro sim_intros rel)
qed

lemma sim_at_with_uci:
  assumes "rel view s t" "\<And>s1 t1. uci_enter R t = (Ret (), t1) \<Longrightarrow> rel view s1 t1 \<Longrightarrow> sim_at (rel view) p q s1 t1"
  shows "sim_at (rel view) (with_uci E p) (with_uci R q) s t"
  unfolding with_uci_def
proof (rule sim_at_bindP [OF sim_atI [OF sim_enter assms(1)]])
  fix x s t1
  assume enter: "uci_enter R t = (Ret x, t1)" and st: "rel view s t1"
  obtain r t' where q: "q t1 = (r, t')" by (cases "q t1")
  obtain r2 s' where p: "p s = (r2, s')" by (cases "p s")
  have "r2 = r" "rel view s' t'"
    using assms(2) [OF _ st] enter p q by (auto simp: sim_at_def)
  with p have p: "p s = (r, s')" and rel: "rel view s' t'" by auto
  have ret: "sim (rel view) (bindP (uci_exit E b) (\<lambda>_. ret x)) (bindP (uci_exit R b) (\<lambda>_. ret x))"
    and raise: "sim (rel view) (bindP (uci_exit E b) (\<lambda>_. raise e)) (bindP (uci_exit R b) (\<lambda>_. raise e))"
    for b e and x :: 'b
    by (intro sim_bindP sim_exit sim_ret sim_raise)+
  show "sim_at (rel view) (\<lambda>s. case p s of (Ret x, s') \<Rightarrow> bindP (uci_exit E False) (\<lambda>_. ret x) s'
        | (Raise e, s') \<Rightarrow> bindP (uci_exit E True) (\<lambda>_. raise e) s' | (Block, s') \<Rightarrow> (Block, s'))
      (\<lambda>s. case q s of (Ret x, s') \<Rightarrow> bindP (uci_exit R False) (\<lambda>_. ret x) s'
        | (Raise e, s') \<Rightarrow> bindP (uci_exit R True) (\<lambda>_. raise e) s' | (Block, s') \<Rightarrow> (Block, s')) s t1"
    using q p rel simD [OF ret rel] simD [OF raise rel] by (cases r) (simp_all add: sim_at_def)
qed

lemma sim_with_uci: "sim (rel view) p q \<Longrightarrow> sim (rel view) (with_uci E p) (with_uci R q)"
proof (rule simI)
  fix s t
  assume pq: "sim (rel view) p q" and st: "rel view s t"
  have "sim_at (rel view) (with_uci E p) (with_uci R q) s t"
    by (rule sim_at_with_uci [OF st]) (rule sim_atI [OF pq])
  then show "fst (with_uci E p s) = fst (with_uci R q t) \<and>
      rel view (snd (with_uci E p s)) (snd (with_uci R q t))"
    by (simp add: sim_at_def)
qed

end

end
