(* ===== verification/UciExec.thy ===== *)
theory UciExec
  imports UciTool
begin

text \<open>
  Execution of backend programs in the reference environment by rewriting: one equation
  per operation for the case that it succeeds (\<open>exec_simps\<close>), the well-formedness of the
  configs the operations leave, and the outcome of a whole transaction.
\<close>

named_theorems exec_simps \<open>execution of a successful operation in the reference environment\<close>

definition put :: "string \<Rightarrow> usection list \<Rightarrow> store st \<Rightarrow> store st" where
  "put c secs t = t\<lparr>ext := stage c secs (ext t),
     affected := (if c \<in> set (affected t) then affected t else affected t @ [c])\<rparr>"

lemma put_sel [store_simps]:
  "staged (ext (put c secs t)) = (staged (ext t))(c \<mapsto> secs)"
  "committed (ext (put c secs t)) = committed (ext t)"
  "set (affected (put c secs t)) = insert c (set (affected t))"
  "affected (put c secs t) = (if c \<in> set (affected t) then affected t else affected t @ [c])"
  "uci_held (put c secs t) = uci_held t"
  "services_held (put c secs t) = services_held t"
  by (auto simp: put_def store_simps)

lemma put_put [store_simps]: "put c X (put c Y t) = put c X t"
  by (simp add: put_def stage_def update_last)

section \<open>Operations\<close>

lemma exec_run_ok:
  "ref_uci nm export_text args (ext t) = Some ((True, out), \<sigma>) \<Longrightarrow>
    run_uci_command (ref_env nm cd ord) args f None t = (Ret out, t\<lparr>ext := \<sigma>\<rparr>)"
  by (simp add: run_uci_command_def handle_command_def bindP_def ref_execute_def ret_def)

lemma exec_run_failed:
  "ref_uci nm export_text args (ext t) = Some ((False, out), \<sigma>) \<Longrightarrow>
    run_uci_command (ref_env nm cd ord) args True None t =
      (Raise (UciException (uci_argv (ref_env nm cd ord) args)), t\<lparr>ext := \<sigma>\<rparr>)"
  by (simp add: run_uci_command_def handle_command_def bindP_def ref_execute_def raise_def)

lemma exec_cmd_ok:
  "ref_uci nm export_text args (ext t) = Some (succeeded \<sigma>) \<Longrightarrow>
    uci_cmd (ref_env nm cd ord) args t = (Ret (), t\<lparr>ext := \<sigma>\<rparr>)"
  by (simp add: uci_cmd_def exec_run_ok succeeded_def bindP_def ret_def)

lemma exec_cmd_failed:
  "ref_uci nm export_text args (ext t) = Some (failed \<sigma>) \<Longrightarrow>
    uci_cmd (ref_env nm cd ord) args t =
      (Raise (UciException (uci_argv (ref_env nm cd ord) args)), t\<lparr>ext := \<sigma>\<rparr>)"
  unfolding uci_cmd_def by (rule bindP_Raise) (rule exec_run_failed, simp add: failed_def)

lemma exec_touch:
  "uci_cmd (ref_env nm cd ord) args t = (Ret (), t\<lparr>ext := stage c secs (ext t)\<rparr>) \<Longrightarrow>
    block [uci_cmd (ref_env nm cd ord) args, touch c] t = (Ret (), put c secs t)"
  by (simp add: bindP_def touch_def put_def ret_def)

lemma exec_add_section [exec_simps]:
  "staged (ext t) c = Some secs \<Longrightarrow> valid_name c \<Longrightarrow> valid_name s \<Longrightarrow> valid_name ty \<Longrightarrow>
    add_section (ref_env nm cd ord) c ty s t = (Ret (), put c (set_sec s ty secs) t)"
  unfolding add_section_def
  by (intro exec_touch exec_cmd_ok) (simp only: ref_uci_set_section option.case)

lemma exec_set_option [exec_simps]:
  "staged (ext t) c = Some secs \<Longrightarrow> has_sec secs s \<Longrightarrow> valid_name c \<Longrightarrow> valid_name s \<Longrightarrow> valid_name p \<Longrightarrow>
    v \<noteq> [] \<Longrightarrow> set_option (ref_env nm cd ord) c s p v t = (Ret (), put c (set_opt s p (Str v) secs) t)"
  unfolding set_option_def
  by (intro exec_touch exec_cmd_ok)
     (simp only: ref_uci_set_option valid_sec_name, simp add: ref_set_def on_section_def)

lemma exec_del_section [exec_simps]:
  "staged (ext t) c = Some secs \<Longrightarrow> has_sec secs s \<Longrightarrow> valid_name c \<Longrightarrow> valid_name s \<Longrightarrow>
    del_section (ref_env nm cd ord) c s t = (Ret (), put c (del_sec s secs) t)"
  unfolding del_section_def
  by (intro exec_touch exec_cmd_ok)
     (simp only: ref_uci_delete_section valid_sec_name, simp add: ref_delete_def on_section_def)

lemma exec_del_section_missing:
  "staged (ext t) c = Some secs \<Longrightarrow> \<not> has_sec secs s \<Longrightarrow> valid_name c \<Longrightarrow> valid_name s \<Longrightarrow>
    del_section (ref_env nm cd ord) c s t =
      (Raise (UciException (uci_argv (ref_env nm cd ord) [''delete'', c @ ''.'' @ s])), t)"
  using exec_cmd_failed [of nm "[''delete'', c @ ''.'' @ s]" t "ext t" cd ord]
  unfolding del_section_def
  by (simp del: append.simps add: ref_uci_delete_section valid_sec_name ref_delete_def on_section_def bindP_def)

lemma exec_delete_option:
  "staged (ext t) c = Some secs \<Longrightarrow> valid_name c \<Longrightarrow> valid_name s \<Longrightarrow> valid_name p \<Longrightarrow>
    uci_cmd (ref_env nm cd ord) [''delete'', c @ ''.'' @ s @ ''.'' @ p] t =
      (if lk secs s p \<noteq> None then (Ret (), t\<lparr>ext := stage c (del_opt s p secs) (ext t)\<rparr>)
       else (Raise (UciException (uci_argv (ref_env nm cd ord) [''delete'', c @ ''.'' @ s @ ''.'' @ p])), t))"
  using exec_cmd_failed [of nm "[''delete'', c @ ''.'' @ s @ ''.'' @ p]" t "ext t" cd ord]
    exec_cmd_ok [of nm "[''delete'', c @ ''.'' @ s @ ''.'' @ p]" t "stage c (del_opt s p secs) (ext t)" cd ord]
  by (simp del: append.simps add: ref_uci_delete_option valid_sec_name ref_delete_def on_section_def)

lemma exec_del_option [exec_simps]:
  "staged (ext t) c = Some secs \<Longrightarrow> valid_name c \<Longrightarrow> valid_name s \<Longrightarrow> valid_name p \<Longrightarrow>
    del_option (ref_env nm cd ord) c s p False t =
      (if lk secs s p \<noteq> None then (Ret (), put c (del_opt s p secs) t) else touch c t)"
  unfolding del_option_def run_uci_command_def handle_command_def
  by (simp del: append.simps add: ref_uci_delete_option valid_sec_name ref_delete_def on_section_def bindP_def
      ref_execute_def succeeded_def failed_def ret_def touch_def put_def)

lemma exec_add_list:
  "staged (ext t) c = Some secs \<Longrightarrow> has_sec secs s \<Longrightarrow> valid_name c \<Longrightarrow> valid_name s \<Longrightarrow> valid_name p \<Longrightarrow>
    uci_cmd (ref_env nm cd ord) [''add_list'', c @ ''.'' @ s @ ''.'' @ p @ ''='' @ v] t =
      (Ret (), t\<lparr>ext := stage c (set_opt s p (appended (lk secs s p) v) secs) (ext t)\<rparr>)"
  using exec_cmd_ok [of nm "[''add_list'', c @ ''.'' @ s @ ''.'' @ p @ ''='' @ v]" t
      "stage c (set_opt s p (appended (lk secs s p) v) secs) (ext t)" cd ord]
  by (simp del: append.simps add: ref_uci_add_list valid_sec_name ref_add_list_def on_section_def)

text \<open>Appending a whole list, to nothing or to a list.\<close>

lemma exec_add_lists:
  assumes "valid_name c" "valid_name s" "valid_name p"
  shows "staged (ext t) c = Some secs \<Longrightarrow> has_sec secs s \<Longrightarrow> lk secs s p = Some (Lst ws) \<Longrightarrow>
    forP vs (\<lambda>v. uci_cmd (ref_env nm cd ord) [''add_list'', c @ ''.'' @ s @ ''.'' @ p @ ''='' @ v]) t =
      (Ret (), if vs = [] then t else t\<lparr>ext := stage c (set_opt s p (Lst (ws @ vs)) secs) (ext t)\<rparr>)"
proof (induction vs arbitrary: t secs ws)
  case Nil
  then show ?case by (simp add: ret_def)
next
  case (Cons v vs)
  let ?secs = "set_opt s p (Lst (ws @ [v])) secs"
  let ?t = "t\<lparr>ext := stage c ?secs (ext t)\<rparr>"
  have step: "uci_cmd (ref_env nm cd ord) [''add_list'', c @ ''.'' @ s @ ''.'' @ p @ ''='' @ v] t = (Ret (), ?t)"
    using Cons.prems assms(1-3) by (subst exec_add_list) auto
  have "forP vs (\<lambda>v. uci_cmd (ref_env nm cd ord) [''add_list'', c @ ''.'' @ s @ ''.'' @ p @ ''='' @ v]) ?t
      = (Ret (), if vs = [] then ?t
          else ?t\<lparr>ext := stage c (set_opt s p (Lst ((ws @ [v]) @ vs)) ?secs) (ext ?t)\<rparr>)"
    using Cons.prems by (intro Cons.IH) (simp_all add: store_simps)
  then show ?case
    by (simp only: forP.simps bindP_def step prod.case outcome.case)
       (simp add: set_opt_twice stage_def update_last)
qed

lemma exec_add_to_list:
  assumes "staged (ext t) c = Some secs" "has_sec secs s" "valid_name c" "valid_name s" "valid_name p"
    "vs \<noteq> []" "lk secs s p = None"
  shows "add_to_list (ref_env nm cd ord) c s p vs t = (Ret (), put c (set_opt s p (Lst vs) secs) t)"
proof -
  obtain v ws where vs: "vs = v # ws" using assms(6) by (cases vs) auto
  let ?a = "\<lambda>v. uci_cmd (ref_env nm cd ord) [''add_list'', c @ ''.'' @ s @ ''.'' @ p @ ''='' @ v]"
  let ?t2 = "t\<lparr>ext := stage c (set_opt s p (Lst [v]) secs) (ext t)\<rparr>"
  have first: "?a v t = (Ret (), ?t2)"
    using assms by (subst exec_add_list [OF assms(1)]) auto
  have "forP ws ?a ?t2 = (Ret (), if ws = [] then ?t2
      else ?t2\<lparr>ext := stage c (set_opt s p (Lst ([v] @ ws)) (set_opt s p (Lst [v]) secs)) (ext ?t2)\<rparr>)"
    using assms by (intro exec_add_lists) (auto simp: store_simps)
  then have all: "forP vs ?a t = (Ret (), t\<lparr>ext := stage c (set_opt s p (Lst vs) secs) (ext t)\<rparr>)"
    by (simp only: vs forP.simps bindP_def first prod.case outcome.case)
       (simp add: set_opt_twice stage_def update_last)
  then show ?thesis
    by (simp only: add_to_list_def block.simps bindP_def all prod.case outcome.case)
       (simp add: touch_def put_def ret_def)
qed

lemma touch_put: "touch c (put c secs t) = (Ret (), put c secs t)"
  by (simp add: touch_def put_def)

lemma exec_del_option_put [exec_simps]:
  "valid_name c \<Longrightarrow> valid_name s \<Longrightarrow> valid_name p \<Longrightarrow>
    del_option (ref_env nm cd ord) c s p False (put c secs t) = (Ret (), put c (del_opt s p secs) t)"
  by (simp add: exec_del_option [of _ c secs] store_simps touch_put del_opt_absent)

lemma exec_replace_list [exec_simps]:
  assumes "staged (ext t) c = Some secs" "has_sec secs s" "valid_name c" "valid_name s" "valid_name p"
    "vs \<noteq> []"
  shows "replace_list (ref_env nm cd ord) c s p vs t =
    (Ret (), put c (set_opt s p (Lst vs) (del_opt s p secs)) t)"
proof -
  let ?R = "ref_env nm cd ord" and ?secs = "del_opt s p secs"
  define t1 where "t1 = (if lk secs s p \<noteq> None then t\<lparr>ext := stage c ?secs (ext t)\<rparr> else t)"
  have del: "tryP (uci_cmd ?R [''delete'', c @ ''.'' @ s @ ''.'' @ p]) is_uci_exception (\<lambda>_. ret ()) t = (Ret (), t1)"
    unfolding tryP_def exec_delete_option [OF assms(1,3,4,5)] by (auto simp: t1_def ret_def)
  have t1: "staged (ext t1) c = Some ?secs"
    using assms(1) del_opt_absent [of secs s p] by (auto simp: t1_def store_simps)
  have add: "add_to_list ?R c s p vs t1 = (Ret (), put c (set_opt s p (Lst vs) ?secs) t1)"
    using assms by (intro exec_add_to_list [OF t1]) (auto simp: store_simps)
  have "put c (set_opt s p (Lst vs) ?secs) t1 = put c (set_opt s p (Lst vs) ?secs) t"
    by (simp add: t1_def put_def stage_def update_last)
  then show ?thesis
    by (simp only: replace_list_def block.simps bindP_def del add prod.case outcome.case)
       (simp add: touch_put ret_def)
qed

section \<open>Reading\<close>

lemma name_char_plain: "name_char c \<Longrightarrow> \<not> is_space c"
  by (auto simp: name_char_def is_space_def Let_def)

lemma valid_name_wf: "valid_name c \<Longrightarrow> wf_name c"
  by (auto simp: valid_name_def wf_name_def list_all_iff name_char_plain)

lemma read_uci_eq:
  "valid_name c \<Longrightarrow> read_uci (ref_env nm cd ord) c t = (case staged (ext t) c of
      None \<Rightarrow> (Raise (UciException (uci_argv (ref_env nm cd ord) [''export'', c])), t)
    | Some secs \<Rightarrow> lift (parse_export (export_text c secs)) t)"
proof -
  assume c: "valid_name c"
  then obtain x xs where "c = x # xs" by (cases c) (auto simp: valid_name_def)
  then show ?thesis
    using c by (auto simp: read_configs_def export_data_def run_uci_command_def handle_command_def bindP_def
        ref_execute_def ref_uci_def failed_def raise_def ret_def split: option.split)
qed

lemma exec_read_uci [exec_simps]:
  "staged (ext t) c = Some secs \<Longrightarrow> wf_config secs \<Longrightarrow> valid_name c \<Longrightarrow>
    read_uci (ref_env nm cd ord) c t = (Ret [(c, secs)], t)"
  by (simp only: read_uci_eq option.case parse_export_text [OF valid_name_wf] lift_def sum.case)

lemma exec_read_missing:
  "staged (ext t) c = None \<Longrightarrow> valid_name c \<Longrightarrow>
    read_uci (ref_env nm cd ord) c t = (Raise (UciException (uci_argv (ref_env nm cd ord) [''export'', c])), t)"
  by (simp add: read_uci_eq)

section \<open>Well-formed configs\<close>

named_theorems wf_intros \<open>well-formedness of updated configs\<close>

lemma wf_config_Nil [wf_intros]: "wf_config []"
  by (simp add: wf_config_def)

lemma wf_config_Cons: "wf_config (e # secs) \<longleftrightarrow> wf_section e \<and> wf_config secs"
  by (simp add: wf_config_def)

lemma wf_config_upd_sec:
  "wf_config secs \<Longrightarrow> (\<And>e. wf_section e \<Longrightarrow> wf_section (f e)) \<Longrightarrow> wf_config (upd_sec s f secs)"
  by (induction secs) (auto simp: wf_config_Cons)

lemma set_updateD: "x \<in> set (AList.update p v al) \<Longrightarrow> x = (p, v) \<or> x \<in> set al"
  by (induction al) (auto split: if_splits)

lemma set_deleteD: "x \<in> set (AList.delete p al) \<Longrightarrow> x \<in> set al"
  by (simp add: AList.delete_eq)

lemma wf_set_opt [wf_intros]:
  "wf_name p \<Longrightarrow> wf_value v \<Longrightarrow> wf_config secs \<Longrightarrow> wf_config (set_opt s p v secs)"
  unfolding set_opt_def
  by (rule wf_config_upd_sec)
     (auto simp: wf_section_def distinct_update list_all_iff dest!: set_updateD)

lemma wf_del_opt [wf_intros]: "wf_config secs \<Longrightarrow> wf_config (del_opt s p secs)"
  unfolding del_opt_def
  by (rule wf_config_upd_sec)
     (auto simp: wf_section_def distinct_delete list_all_iff dest!: set_deleteD)

lemma wf_set_sec [wf_intros]:
  "wf_name s \<Longrightarrow> wf_name t \<Longrightarrow> \<not> is_anonymous_name s \<Longrightarrow> wf_config secs \<Longrightarrow> wf_config (set_sec s t secs)"
  by (auto simp: set_sec_def wf_config_def [of "_ @ _"] wf_config_def [symmetric] wf_section_def
      intro!: wf_config_upd_sec)

lemma wf_add_sec [wf_intros]:
  "wf_name s \<Longrightarrow> wf_name t \<Longrightarrow> is_anonymous_name s \<Longrightarrow> wf_config secs \<Longrightarrow> wf_config (add_sec s t secs)"
  by (auto simp: add_sec_def wf_config_def wf_section_def)

lemma wf_del_sec [wf_intros]: "wf_config secs \<Longrightarrow> wf_config (del_sec s secs)"
  by (auto simp: del_sec_def wf_config_def list_all_iff)

lemma digit_no_linebreak: "is_digit c \<Longrightarrow> \<not> is_linebreak c"
  by (auto simp: is_digit_def is_linebreak_def Let_def)

lemma wf_show_int [wf_intros]: "wf_text (show_int i)"
proof -
  have "\<not> is_linebreak CHR ''-''" by (simp add: is_linebreak_def)
  then have "\<forall>c\<in>set (show_int i). \<not> is_linebreak c"
    by (auto simp: show_int_def dest!: show_nat_digits digit_no_linebreak)
  then show ?thesis by (simp add: wf_text_def list_all_iff)
qed

lemma wf_store_bool [wf_intros]: "wf_text (store_bool b)"
  by (simp add: store_bool_def wf_text_def is_linebreak_def)

section \<open>Transactions\<close>

lemma commit_config_drop: "drop_delta c (commit_config c \<sigma>) = commit_config c \<sigma>"
  by (simp add: commit_config_def drop_delta_def delete_idem)

definition commit_all :: "string list \<Rightarrow> store \<Rightarrow> store" where
  "commit_all cs \<sigma> = fold commit_config cs \<sigma>"

lemma staged_commit_all [store_simps]: "staged (commit_all cs \<sigma>) = staged \<sigma>"
  unfolding commit_all_def by (induction cs arbitrary: \<sigma>) (simp_all add: store_simps)

lemma committed_commit_all [store_simps]:
  "committed (commit_all cs \<sigma>) = (\<lambda>c. if c \<in> set cs then staged \<sigma> c else committed \<sigma> c)"
  unfolding commit_all_def by (induction cs arbitrary: \<sigma>) (auto simp: store_simps)

lemma delta_commit_all: "fst ` set (delta (commit_all cs \<sigma>)) = fst ` set (delta \<sigma>) - set cs"
proof (induction cs arbitrary: \<sigma>)
  case (Cons c cs)
  have "fst ` set (delta (commit_config c \<sigma>)) = fst ` set (delta \<sigma>) - {c}"
    unfolding commit_config_def keys_drop_delta by simp
  with Cons [of "commit_config c \<sigma>"] show ?case
    unfolding commit_all_def by auto
qed (simp add: commit_all_def)

lemma exec_commits:
  assumes "\<forall>c\<in>set cs. valid_name c \<and> staged (ext t) c \<noteq> None"
  shows "forP cs (\<lambda>c. block [uci_cmd (ref_env nm cd ord) [''commit'', c], uci_cmd (ref_env nm cd ord) [''revert'', c]]) t
    = (Ret (), t\<lparr>ext := commit_all cs (ext t)\<rparr>)"
  using assms
proof (induction cs arbitrary: t)
  case Nil
  then show ?case by (simp add: ret_def commit_all_def)
next
  case (Cons c cs)
  then obtain secs where c: "valid_name c" "staged (ext t) c = Some secs" by auto
  let ?t = "t\<lparr>ext := commit_config c (ext t)\<rparr>"
  have commit: "uci_cmd (ref_env nm cd ord) [''commit'', c] t = (Ret (), ?t)"
    using c by (intro exec_cmd_ok) (simp add: ref_uci_def)
  have revert: "uci_cmd (ref_env nm cd ord) [''revert'', c] ?t = (Ret (), ?t\<lparr>ext := drop_delta c (ext ?t)\<rparr>)"
    using c by (intro exec_cmd_ok) (simp add: ref_uci_def store_simps)
  have "?t\<lparr>ext := drop_delta c (ext ?t)\<rparr> = ?t" by (simp add: commit_config_drop)
  with revert have revert: "uci_cmd (ref_env nm cd ord) [''revert'', c] ?t = (Ret (), ?t)" by (simp only:)
  have "block [uci_cmd (ref_env nm cd ord) [''commit'', c], uci_cmd (ref_env nm cd ord) [''revert'', c]] t
      = (Ret (), ?t)"
    by (simp only: block.simps bindP_def commit revert prod.case outcome.case ret_def)
  moreover have "forP cs (\<lambda>c. block [uci_cmd (ref_env nm cd ord) [''commit'', c], uci_cmd (ref_env nm cd ord) [''revert'', c]]) ?t
      = (Ret (), ?t\<lparr>ext := commit_all cs (ext ?t)\<rparr>)"
    using Cons.prems by (intro Cons.IH) (simp add: store_simps)
  ultimately show ?case
    by (simp only: forP.simps bindP_def prod.case outcome.case) (simp add: commit_all_def)
qed

lemma exec_reload: "run_reload_config (ref_env nm cd ord) t = (Ret (), t)"
  by (simp add: run_reload_config_def tryP_def bindP_def handle_command_def ref_execute_def
      strip_argv_def ret_def)

definition opened :: "store st \<Rightarrow> store st" where
  "opened t = t\<lparr>ext := (ext t)\<lparr>delta := []\<rparr>, uci_held := True, affected := []\<rparr>"

definition closed :: "(string list \<Rightarrow> string list) \<Rightarrow> store st \<Rightarrow> store st" where
  "closed ord t = t\<lparr>ext := (if affected t = [] then ext t else commit_all (ord (affected t)) (ext t)),
     uci_held := False\<rparr>"

lemma opened_sel [store_simps]:
  "staged (ext (opened t)) = committed (ext t)" "committed (ext (opened t)) = committed (ext t)"
  "affected (opened t) = []" "services_held (opened t) = services_held t" "uci_held (opened t)"
  by (simp_all add: opened_def store_simps)

lemma closed_sel [store_simps]:
  "uci_held (closed ord t) = False" "services_held (closed ord t) = services_held t"
  "affected (closed ord t) = affected t"
  by (simp_all add: closed_def)

lemma committed_closed [store_simps]:
  "(\<And>xs. set (ord xs) = set xs) \<Longrightarrow> committed (ext (closed ord t)) =
    (\<lambda>c. if c \<in> set (affected t) then staged (ext t) c else committed (ext t) c)"
  by (auto simp: closed_def store_simps)

lemma exec_enter: "\<not> uci_held t \<Longrightarrow> uci_enter (ref_env nm cd ord) t = (Ret (), opened t)"
  by (simp add: uci_enter_def bindP_def acquire_uci_def ref_cleanup opened_def ret_def)

lemma exec_with_uci:
  assumes "\<not> uci_held t" "body (opened t) = (Ret x, t')" "\<And>xs. set (ord xs) = set xs"
    "\<forall>c\<in>set (affected t'). valid_name c \<and> staged (ext t') c \<noteq> None"
  shows "with_uci (ref_env nm cd ord) body t = (Ret x, closed ord t')"
proof -
  have "forP (ord (affected t')) (\<lambda>c. block [uci_cmd (ref_env nm cd ord) [''commit'', c],
      uci_cmd (ref_env nm cd ord) [''revert'', c]]) t' = (Ret (), t'\<lparr>ext := commit_all (ord (affected t')) (ext t')\<rparr>)"
    using assms(3,4) by (intro exec_commits) auto
  then have "commit (ref_env nm cd ord) t' = (Ret (), t'\<lparr>ext := commit_all (ord (affected t')) (ext t')\<rparr>)"
    if "affected t' \<noteq> []"
    using that by (simp only: commit_def env.simps ref_env_sel block.simps whenP_def if_True bindP_def
        prod.case outcome.case exec_reload ret_def not_False_eq_True)
  then have "uci_exit (ref_env nm cd ord) False t' = (Ret (), closed ord t')"
    by (simp add: uci_exit_def whenP_def bindP_def release_uci_def closed_def ret_def)
  then show ?thesis
    using assms(2) by (simp add: with_uci_def bindP_def exec_enter [OF assms(1)] ret_def)
qed

lemma exec_with_uci_raise:
  assumes "\<not> uci_held t" "body (opened t) = (Raise e, t')"
  shows "with_uci (ref_env nm cd ord) body t = (Raise e, t'\<lparr>uci_held := False\<rparr>)"
  using assms(2)
  by (simp add: with_uci_def bindP_def exec_enter [OF assms(1)] uci_exit_def whenP_def release_uci_def
      ret_def raise_def)

end
