(* ===== verification/Transactions.thy ===== *)
theory Transactions
  imports UciExec
begin

text \<open>
  The contract of \<^verbatim>\<open>with UciBackend() as backend\<close>: a transaction that raises publishes
  nothing, one that returns publishes the configs it touched and no other, changes staged by
  an earlier run never get in, and the lock is released, except when the commit itself fails.
\<close>

section \<open>Programs that only stage\<close>

text \<open>No published config changes, and the locks are as before.\<close>

definition stages :: "('e \<Rightarrow> store) \<Rightarrow> ('e st, 'a) prog \<Rightarrow> bool" where
  "stages view p \<longleftrightarrow> (\<forall>s. committed (view (ext (snd (p s)))) = committed (view (ext s)) \<and>
     uci_held (snd (p s)) = uci_held s \<and> services_held (snd (p s)) = services_held s)"

named_theorems stages_intros \<open>programs that only stage\<close>

lemma stagesD:
  assumes "stages view p" "p s = (r, s')"
  shows "committed (view (ext s')) = committed (view (ext s))" "uci_held s' = uci_held s"
    "services_held s' = services_held s"
  using assms by (auto simp: stages_def dest!: spec [of _ s])

lemma stages_basic [stages_intros]:
  "stages view (ret x)" "stages view (raise e)" "stages view (lift m)" "stages view (touch c)"
  by (auto simp: stages_def ret_def raise_def lift_def touch_def split: sum.split)

lemma stages_bindP [stages_intros]:
  assumes "stages view p" "\<And>x. stages view (f x)"
  shows "stages view (bindP p f)"
  unfolding stages_def
proof
  fix s
  obtain r s' where p: "p s = (r, s')" by (cases "p s")
  note this' = stagesD [OF assms(1) p]
  show "committed (view (ext (snd (bindP p f s)))) = committed (view (ext s)) \<and>
      uci_held (snd (bindP p f s)) = uci_held s \<and> services_held (snd (bindP p f s)) = services_held s"
    using p this' assms(2) by (cases r) (auto simp: bindP_def stages_def)
qed

lemma stages_block [stages_intros]: "(\<And>p. p \<in> set ps \<Longrightarrow> stages view p) \<Longrightarrow> stages view (block ps)"
  by (induction ps) (auto intro!: stages_intros)

lemma stages_whenP [stages_intros]: "(\<And>p. p \<in> set ps \<Longrightarrow> stages view p) \<Longrightarrow> stages view (whenP b ps)"
  by (simp add: whenP_def stages_block stages_basic)

lemma stages_forP [stages_intros]: "(\<And>x. x \<in> set xs \<Longrightarrow> stages view (f x)) \<Longrightarrow> stages view (forP xs f)"
  by (induction xs) (auto intro!: stages_intros)

lemma stages_tryP [stages_intros]:
  assumes "stages view p" "\<And>e. stages view (h e)"
  shows "stages view (tryP p c h)"
  unfolding stages_def
proof
  fix s
  obtain r s' where p: "p s = (r, s')" by (cases "p s")
  note this' = stagesD [OF assms(1) p]
  show "committed (view (ext (snd (tryP p c h s)))) = committed (view (ext s)) \<and>
      uci_held (snd (tryP p c h s)) = uci_held s \<and> services_held (snd (tryP p c h s)) = services_held s"
    using p this' assms(2) by (cases r) (auto simp: tryP_def stages_def)
qed

lemma on_section_committed:
  "on_section \<sigma> c s f = (r, \<sigma>') \<Longrightarrow> (\<And>secs s'. committed (snd (f secs s')) = committed \<sigma>) \<Longrightarrow>
    committed \<sigma>' = committed \<sigma>"
  by (auto simp: on_section_def failed_def split: option.splits) (metis snd_conv)+

lemma ref_uci_committed:
  assumes "ref_uci nm ex args \<sigma> = Some (r, \<sigma>')" "hd args \<noteq> ''commit''"
  shows "committed \<sigma>' = committed \<sigma>"
proof -
  have upd: "committed (snd (succeeded (stage c secs \<sigma>))) = committed \<sigma>"
      "committed (snd (failed \<sigma>)) = committed \<sigma>" "committed (snd (succeeded \<sigma>)) = committed \<sigma>" for c secs
    by (simp_all add: succeeded_def failed_def store_simps)
  have set_: "ref_set t v \<sigma> = Some (r, \<sigma>') \<Longrightarrow> committed \<sigma>' = committed \<sigma>" for t v
    by (cases t) (auto simp: ref_set_def succeeded_def failed_def store_simps
        split: if_splits option.splits elim!: on_section_committed)
  have del: "ref_delete t \<sigma> = (r, \<sigma>') \<Longrightarrow> committed \<sigma>' = committed \<sigma>" for t
    by (cases t) (auto simp: ref_delete_def elim!: on_section_committed simp: upd)
  have add: "ref_add_list t v \<sigma> = Some (r, \<sigma>') \<Longrightarrow> committed \<sigma>' = committed \<sigma>" for t v
    by (cases t) (auto simp: ref_add_list_def upd split: if_splits elim!: on_section_committed)
  have dell: "ref_del_list t v \<sigma> = Some (r, \<sigma>') \<Longrightarrow> committed \<sigma>' = committed \<sigma>" for t v
    by (cases t) (auto simp: ref_del_list_def upd Let_def elim!: on_section_committed
        split: option.splits uval.splits)
  from assms show ?thesis
    unfolding ref_uci_def
    by (auto split: list.splits if_splits option.splits prod.splits
        simp: succeeded_def failed_def store_simps drop_delta_def
        dest!: set_ del add dell)
qed

context uci_tool
begin

lemma stages_run_uci_command:
  assumes "documented args" "hd args \<noteq> ''commit''"
  shows "stages view (run_uci_command E args f None)"
  unfolding stages_def
proof
  fix s :: "'e st"
  obtain ok out \<sigma>' where ref: "ref_uci nm export_text args (view (ext s)) = Some ((ok, out), \<sigma>')"
    using documentedD [OF assms(1)] by blast
  from uci_runs [OF ref] obtain rc err e' where
    "env_execute E (uci_argv E args) None (ext s) = (Exited rc out err, e')" "view e' = \<sigma>'"
    by blast
  then show "committed (view (ext (snd (run_uci_command E args f None s)))) = committed (view (ext s)) \<and>
      uci_held (snd (run_uci_command E args f None s)) = uci_held s \<and>
      services_held (snd (run_uci_command E args f None s)) = services_held s"
    using ref_uci_committed [OF ref assms(2)]
    by (auto simp: run_uci_command_def handle_command_def bindP_def raise_def ret_def)
qed

lemma stages_uci_cmd: "documented args \<Longrightarrow> hd args \<noteq> ''commit'' \<Longrightarrow> stages view (uci_cmd E args)"
  unfolding uci_cmd_def by (intro stages_intros stages_run_uci_command)

lemma stages_add_section:
  "valid_name c \<Longrightarrow> valid_name s \<Longrightarrow> valid_name t \<Longrightarrow> stages view (add_section E c t s)"
  unfolding add_section_def
  by (intro stages_intros) (auto simp del: append.simps intro!: stages_uci_cmd documented_set_section stages_intros)

lemma stages_add_anonymous_section:
  "valid_name c \<Longrightarrow> valid_name t \<Longrightarrow> stages view (add_anonymous_section E c t)"
  unfolding add_anonymous_section_def
  by (intro stages_intros stages_run_uci_command documented_add) simp_all

lemma stages_set_option:
  "valid_name c \<Longrightarrow> valid_sec s \<Longrightarrow> valid_name p \<Longrightarrow> stages view (set_option E c s p v)"
  unfolding set_option_def
  by (intro stages_intros) (auto simp del: append.simps intro!: stages_uci_cmd documented_set_option stages_intros)

lemma stages_del_section:
  "valid_name c \<Longrightarrow> valid_sec s \<Longrightarrow> stages view (del_section E c s)"
  unfolding del_section_def
  by (intro stages_intros) (auto simp del: append.simps intro!: stages_uci_cmd documented_delete_section stages_intros)

lemma stages_del_option:
  "valid_name c \<Longrightarrow> valid_sec s \<Longrightarrow> valid_name p \<Longrightarrow> stages view (del_option E c s p f)"
  unfolding del_option_def
  by (intro stages_intros)
     (auto simp del: append.simps intro!: stages_run_uci_command documented_delete_option stages_intros)

lemma stages_add_to_list:
  "valid_name c \<Longrightarrow> valid_sec s \<Longrightarrow> valid_name p \<Longrightarrow> stages view (add_to_list E c s p vs)"
  unfolding add_to_list_def
  by (intro stages_intros)
     (auto simp del: append.simps intro!: stages_uci_cmd documented_add_list stages_intros)

lemma stages_replace_list:
  "valid_name c \<Longrightarrow> valid_sec s \<Longrightarrow> valid_name p \<Longrightarrow> stages view (replace_list E c s p vs)"
  unfolding replace_list_def
  by (intro stages_intros)
     (auto simp del: append.simps intro!: stages_uci_cmd documented_delete_option stages_add_to_list stages_intros)

lemma stages_read_uci: "valid_name c \<Longrightarrow> stages view (read_uci E c)"
  unfolding read_configs_def export_data_def
  by (cases c) (auto simp: valid_name_def [of "[]"] intro!: stages_intros stages_run_uci_command documented_export)

lemma enter_free:
  assumes "\<not> uci_held s"
  shows "\<exists>e'. uci_enter E s = (Ret (), s\<lparr>ext := e', uci_held := True, affected := []\<rparr>) \<and>
    view e' = (view (ext s))\<lparr>delta := []\<rparr>"
proof -
  obtain e' where "cleanup E (s\<lparr>uci_held := True, affected := []\<rparr>) =
      (Ret (), s\<lparr>uci_held := True, affected := [], ext := e'\<rparr>)" "view e' = (view (ext s))\<lparr>delta := []\<rparr>"
    using cleanup_clears [of "s\<lparr>uci_held := True, affected := []\<rparr>"] by auto
  then show ?thesis
    using assms by (intro exI [of _ e']) (simp add: uci_enter_def bindP_def acquire_uci_def ret_def)
qed

end

section \<open>The contract\<close>

lemma with_uci_held: "uci_held s \<Longrightarrow> with_uci E body s = (Block, s)"
  by (simp add: with_uci_def bindP_def uci_enter_def acquire_uci_def)

lemma with_uci_RetD:
  assumes "with_uci E body s = (Ret x, s')"
  shows "\<not> uci_held s \<and> \<not> uci_held s'"
proof -
  have "\<not> uci_held s" using assms by (auto simp: with_uci_held)
  moreover have "\<not> uci_held s'"
    using assms by (auto simp: with_uci_def uci_exit_def release_uci_def ret_def raise_def bindP_def
        split: prod.splits outcome.splits)
  ultimately show ?thesis by simp
qed

text \<open>An example: one config with one section, and a naming of anonymous sections.\<close>

definition demo_name :: "usection list \<Rightarrow> string \<Rightarrow> string" where
  "demo_name secs t = ''cfg00000'' @ [digit_char (length secs mod 10)]"

definition demo_env :: "store env" where
  "demo_env = ref_env demo_name ''/etc/config/'' (\<lambda>xs. xs)"

definition demo_section :: "string \<Rightarrow> string \<Rightarrow> usection" where
  "demo_section t s = \<lparr>sec_type = t, sec_name = s, sec_data = [], anonymous = False\<rparr>"

definition demo_state :: "(string \<rightharpoonup> usection list) \<Rightarrow> store st" where
  "demo_state m = \<lparr>ext = \<lparr>committed = m, delta = []\<rparr>, uci_held = False, services_held = False, affected = []\<rparr>"

lemma demo_tool: "uci_tool demo_env demo_name (\<lambda>\<sigma>. \<sigma>)"
  unfolding demo_env_def by (rule uci_tool_ref_env) simp

lemma demo_sel [simp]:
  "committed (ext (demo_state m)) = m" "\<not> uci_held (demo_state m)" "\<not> services_held (demo_state m)"
  "affected (demo_state m) = []" "delta (ext (demo_state m)) = []"
  by (simp_all add: demo_state_def)

lemma demo_order [simp]: "env_set_order demo_env xs = xs"
  by (simp add: demo_env_def)

lemma valid_demo_names: "valid_name ''system''" "valid_name ''main''" "valid_name ''hostname''" "valid_name ''ghost''"
  by (simp_all add: valid_name_def name_char_def)

text \<open>
  C1: a transaction whose body raises publishes nothing of its own. Over every uci tool and every
  body, the exception leaves the transaction, the lock is free again and the services are as the
  body left them; entering published nothing and leaving publishes nothing, so the published
  configs are exactly those the body itself had published before it raised. Only uci import
  publishes by itself (the wireless reset calls it): a body that only stages leaves the published
  configs as they were before the transaction.
\<close>

theorem raising_transaction_publishes_nothing:
  assumes "uci_tool E nm view" "\<not> uci_held s"
    and "uci_enter E s = (Ret (), s1)" "body s1 = (Raise e, s2)"
  shows "\<exists>s'. with_uci E body s = (Raise e, s') \<and> \<not> uci_held s' \<and> services_held s' = services_held s2 \<and>
    committed (view (ext s1)) = committed (view (ext s)) \<and>
    committed (view (ext s')) = committed (view (ext s2)) \<and>
    (stages view body \<longrightarrow>
      committed (view (ext s')) = committed (view (ext s)) \<and> services_held s' = services_held s)"
proof -
  obtain e' where s1: "s1 = s\<lparr>ext := e', uci_held := True, affected := []\<rparr>"
      "view e' = (view (ext s))\<lparr>delta := []\<rparr>"
    using uci_tool.enter_free [OF assms(1,2)] assms(3) by auto
  have "with_uci E body s = (Raise e, s2\<lparr>uci_held := False\<rparr>)"
    using assms(3,4) by (simp add: with_uci_def bindP_def uci_exit_def whenP_def release_uci_def ret_def raise_def)
  moreover have "stages view body \<longrightarrow> committed (view (ext s2)) = committed (view (ext s1)) \<and>
      services_held s2 = services_held s1"
    using stagesD [where p = body and s = s1, OF _ assms(4)] by blast
  ultimately show ?thesis using s1 by auto
qed

lemma raising_transaction_publishes_nothing_witness:
  "\<exists>s'. with_uci demo_env (block [set_option demo_env ''system'' ''main'' ''hostname'' ''x'', raise ValueError])
      (demo_state [''system'' \<mapsto> [demo_section ''system'' ''main'']]) = (Raise ValueError, s') \<and>
    committed (ext s') = [''system'' \<mapsto> [demo_section ''system'' ''main'']] \<and>
    \<not> uci_held s' \<and> services_held s' = False"
proof -
  let ?s = "demo_state [''system'' \<mapsto> [demo_section ''system'' ''main'']]"
  let ?body = "block [set_option demo_env ''system'' ''main'' ''hostname'' ''x'', raise ValueError]"
  have stg: "stages (\<lambda>\<sigma>. \<sigma>) ?body"
    using uci_tool.stages_set_option [OF demo_tool] valid_demo_names
    by (intro stages_intros) (auto intro!: stages_intros valid_sec_name)
  have enter: "uci_enter demo_env ?s = (Ret (), opened ?s)"
    unfolding demo_env_def by (rule exec_enter) simp
  have "has_sec [demo_section ''system'' ''main''] ''main''"
    by (simp add: has_sec_def find_sec_def demo_section_def)
  then have body: "?body (opened ?s) = (Raise ValueError,
      put ''system'' (set_opt ''main'' ''hostname'' (Str ''x'') [demo_section ''system'' ''main'']) (opened ?s))"
    by (simp add: demo_env_def exec_simps store_simps valid_demo_names bindP_def raise_def)
  obtain s' where "with_uci demo_env ?body ?s = (Raise ValueError, s')" "\<not> uci_held s'"
      "committed (ext s') = committed (ext ?s)" "services_held s' = services_held ?s"
    using raising_transaction_publishes_nothing [where body = ?body, OF demo_tool demo_sel(2) enter body] stg by blast
  then show ?thesis by (intro exI [of _ s']) (simp only: demo_sel simp_thms)
qed

text \<open>The outcome of a transaction, from the run of its body in the reference.\<close>

lemma transaction_outcome_at:
  assumes "uci_tool E nm view"
    and "\<And>s1. rel view s1 (opened (abs_st view s)) \<Longrightarrow>
      sim_at (rel view) body (body' (ref_env nm (env_config_dir E) (env_set_order E))) s1 (opened (abs_st view s))"
    and "\<not> uci_held s" "\<forall>c\<in>set (affected s). valid_name c"
    and "body' (ref_env nm (env_config_dir E) (env_set_order E)) (opened (abs_st view s)) = (Ret x, t)"
    and "\<forall>c\<in>set (affected t). valid_name c \<and> staged (ext t) c \<noteq> None"
  shows "\<exists>s'. with_uci E body s = (Ret x, s') \<and> \<not> uci_held s' \<and> services_held s' = services_held t \<and>
    (\<forall>c\<in>set (affected s'). valid_name c) \<and>
    committed (view (ext s')) =
      (\<lambda>c. if c \<in> set (affected t) then staged (ext t) c else committed (ext t) c)"
proof -
  let ?R = "ref_env nm (env_config_dir E) (env_set_order E)"
  have rel: "rel view s (abs_st view s)" using assms(4) by (simp add: rel_eq)
  have ord: "set (env_set_order E xs) = set xs" for xs
    by (rule uci_tool.set_order_set [OF assms(1)])
  have free: "\<not> uci_held (abs_st view s)" using assms(3) by (simp add: abs_st_def)
  have run: "with_uci ?R (body' ?R) (abs_st view s) = (Ret x, closed (env_set_order E) t)"
    using free assms(5,6) ord by (intro exec_with_uci) simp_all
  have "sim_at (rel view) (with_uci E body) (with_uci ?R (body' ?R)) s (abs_st view s)"
    using assms(2) by (intro uci_tool.sim_at_with_uci [OF assms(1) rel]) (simp add: exec_enter [OF free])
  then obtain s' where
    s': "with_uci E body s = (Ret x, s')" "rel view s' (closed (env_set_order E) t)"
    using run by (cases "with_uci E body s") (auto simp: sim_at_def)
  moreover have "uci_held (closed (env_set_order E) t) = False"
    "services_held (closed (env_set_order E) t) = services_held t"
    by (simp_all add: store_simps)
  ultimately show ?thesis
    using committed_closed [of "env_set_order E" t, OF ord] by (intro exI [of _ s']) (auto simp: rel_def)
qed

lemma transaction_outcome:
  assumes "uci_tool E nm view"
    and "sim (rel view) body (body' (ref_env nm (env_config_dir E) (env_set_order E)))"
    and "\<not> uci_held s" "\<forall>c\<in>set (affected s). valid_name c"
    and "body' (ref_env nm (env_config_dir E) (env_set_order E)) (opened (abs_st view s)) = (Ret x, t)"
    and "\<forall>c\<in>set (affected t). valid_name c \<and> staged (ext t) c \<noteq> None"
  shows "\<exists>s'. with_uci E body s = (Ret x, s') \<and> \<not> uci_held s' \<and> services_held s' = services_held t \<and>
    (\<forall>c\<in>set (affected s'). valid_name c) \<and>
    committed (view (ext s')) =
      (\<lambda>c. if c \<in> set (affected t) then staged (ext t) c else committed (ext t) c)"
  by (rule transaction_outcome_at [where body' = body', OF assms(1) sim_atI [OF assms(2)] assms(3-6)])

text \<open>
  C2: changes staged by an earlier, terminated run never get into a transaction. Two states
  whose committed configs agree give the same outcome and publish the same configs, whatever
  delta files either of them holds.
\<close>

theorem stale_changes_never_published:
  assumes "uci_tool E nm view"
    and "sim (rel view) body (p (ref_env nm (env_config_dir E) (env_set_order E)))"
    and "\<not> uci_held s" "\<forall>c\<in>set (affected s). valid_name c"
    and "\<not> uci_held s2" "\<forall>c\<in>set (affected s2). valid_name c"
    and "services_held s2 = services_held s"
    and "committed (view (ext s2)) = committed (view (ext s))"
  shows "fst (with_uci E body s) = fst (with_uci E body s2) \<and>
    committed (view (ext (snd (with_uci E body s)))) = committed (view (ext (snd (with_uci E body s2))))"
proof -
  let ?R = "ref_env nm (env_config_dir E) (env_set_order E)"
  have rel: "rel view s (abs_st view s)" "rel view s2 (abs_st view s2)"
    using assms(4,6) by (simp_all add: rel_eq)
  have "opened (abs_st view s) = opened (abs_st view s2)"
    using assms(7,8) by (simp add: opened_def abs_st_def)
  then have "with_uci ?R (p ?R) (abs_st view s) = with_uci ?R (p ?R) (abs_st view s2)"
    using assms(3,5) by (simp add: with_uci_def bindP_def exec_enter abs_st_def)
  then show ?thesis
    using simD [OF uci_tool.sim_with_uci [OF assms(1,2)] rel(1)]
      simD [OF uci_tool.sim_with_uci [OF assms(1,2)] rel(2)]
    by (auto simp: rel_def)
qed

definition demo_set :: "store env \<Rightarrow> (store st, unit) prog" where
  "demo_set E = set_option E ''system'' ''main'' ''hostname'' ''x''"

definition demo_stale :: "store st" where
  "demo_stale = \<lparr>ext = \<lparr>committed = [''system'' \<mapsto> [demo_section ''system'' ''main'']], delta = [(''system'', [])]\<rparr>,
     uci_held = False, services_held = False, affected = []\<rparr>"

lemma stale_changes_never_published_witness:
  "fst (with_uci demo_env (demo_set demo_env) demo_stale) =
      fst (with_uci demo_env (demo_set demo_env) (demo_state [''system'' \<mapsto> [demo_section ''system'' ''main'']])) \<and>
    committed (ext (snd (with_uci demo_env (demo_set demo_env) demo_stale))) =
      committed (ext (snd (with_uci demo_env (demo_set demo_env)
        (demo_state [''system'' \<mapsto> [demo_section ''system'' ''main'']]))))"
proof -
  have "sim (rel (\<lambda>\<sigma>. \<sigma>)) (demo_set demo_env)
      (demo_set (ref_env demo_name (env_config_dir demo_env) (env_set_order demo_env)))"
    unfolding demo_set_def using valid_demo_names
    by (intro uci_tool.sim_set_option [OF demo_tool] valid_sec_name)
  then show ?thesis
    using stale_changes_never_published
      [OF demo_tool, of "demo_set demo_env" demo_set demo_stale "demo_state [''system'' \<mapsto> [demo_section ''system'' ''main'']]"]
    by (simp add: demo_stale_def)
qed

section \<open>A commit that fails\<close>

lemma handle_command_held: "uci_held (snd (handle_command E argv inp s)) = uci_held s"
  by (simp add: handle_command_def split: prod.split proc.split)

definition keeps_lock :: "('e st, 'a) prog \<Rightarrow> bool" where
  "keeps_lock p \<longleftrightarrow> (\<forall>s. uci_held (snd (p s)) = uci_held s)"

lemma keeps_lock_bindP: "keeps_lock p \<Longrightarrow> (\<And>x. keeps_lock (f x)) \<Longrightarrow> keeps_lock (bindP p f)"
  by (auto simp: keeps_lock_def bindP_def split: prod.split outcome.split) (metis snd_conv)+

lemma keeps_lock_ret: "keeps_lock (ret x)" "keeps_lock (raise e)"
  by (simp_all add: keeps_lock_def ret_def raise_def)

lemma keeps_lock_block: "(\<And>p. p \<in> set ps \<Longrightarrow> keeps_lock p) \<Longrightarrow> keeps_lock (block ps)"
  by (induction ps) (auto intro!: keeps_lock_bindP keeps_lock_ret)

lemma keeps_lock_forP: "(\<And>x. keeps_lock (f x)) \<Longrightarrow> keeps_lock (forP xs f)"
  by (induction xs) (auto intro!: keeps_lock_bindP keeps_lock_ret)

lemma keeps_lock_uci_cmd: "keeps_lock (uci_cmd E args)"
  unfolding uci_cmd_def run_uci_command_def
  by (intro keeps_lock_bindP keeps_lock_ret)
     (auto simp: keeps_lock_def handle_command_held raise_def ret_def split: if_splits)

lemma keeps_lock_reload: "keeps_lock (run_reload_config E)"
  by (auto simp: keeps_lock_def run_reload_config_def tryP_def bindP_def handle_command_def ret_def
      split: prod.split proc.split)

lemma keeps_lock_commit: "keeps_lock (commit E)"
proof -
  have "keeps_lock (block [forP cs (\<lambda>c. block [uci_cmd E [''commit'', c], uci_cmd E [''revert'', c]]),
      whenP b [run_reload_config E]])" for cs b
    by (intro keeps_lock_block) (auto simp: whenP_def intro!: keeps_lock_forP keeps_lock_bindP
        keeps_lock_uci_cmd keeps_lock_reload keeps_lock_ret)
  then show ?thesis by (simp add: keeps_lock_def commit_def)
qed

text \<open>
  C5: the exception of a failing commit leaves \<^verbatim>\<open>__exit__\<close> before the release of the lock,
  so every later transaction waits for ever.
\<close>

theorem failing_commit_keeps_the_lock:
  assumes "uci_enter E s = (Ret (), s1)" "body s1 = (Ret x, s2)" "uci_held s2" "affected s2 \<noteq> []"
    and "commit E s2 = (Raise e, s3)"
  shows "with_uci E body s = (Raise e, s3) \<and> with_uci E body2 s3 = (Block, s3)"
proof -
  have "with_uci E body s = (Raise e, s3)"
    using assms by (simp add: with_uci_def bindP_def uci_exit_def whenP_def)
  moreover have "uci_held s3"
    using assms(3,5) keeps_lock_commit [of E] by (auto simp: keeps_lock_def dest!: spec [of _ s2])
  ultimately show ?thesis by (simp add: with_uci_held)
qed

definition demo_ghost :: "(store st, string) prog" where
  "demo_ghost = add_anonymous_section demo_env ''ghost'' ''system''"

text \<open>
  Adding an anonymous section to a config that does not exist: the failure of \<^verbatim>\<open>uci add\<close> is
  ignored, the config counts as affected, and the commit fails.
\<close>

lemma failing_commit_keeps_the_lock_witness:
  "\<exists>s3. with_uci demo_env demo_ghost (demo_state Map.empty) =
      (Raise (UciException (uci_argv demo_env [''commit'', ''ghost''])), s3) \<and>
    with_uci demo_env demo_ghost s3 = (Block, s3)"
proof -
  let ?s = "demo_state Map.empty" and ?s2 = "(opened (demo_state Map.empty))\<lparr>affected := [''ghost'']\<rparr>"
  have enter: "uci_enter demo_env ?s = (Ret (), opened ?s)"
    unfolding demo_env_def by (rule exec_enter) simp
  have body: "demo_ghost (opened ?s) = (Ret [], ?s2)"
    using valid_demo_names
    by (simp add: demo_ghost_def add_anonymous_section_def bindP_def run_uci_command_def handle_command_def
        demo_env_def ref_execute_def ref_uci_def store_simps failed_def touch_def ret_def strip_def strip_of_def)
  have "uci_cmd demo_env [''commit'', ''ghost''] ?s2 =
      (Raise (UciException (uci_argv demo_env [''commit'', ''ghost''])), ?s2\<lparr>ext := ext ?s2\<rparr>)"
    unfolding demo_env_def using valid_demo_names
    by (intro exec_cmd_failed) (simp add: ref_uci_def store_simps)
  then have commit: "commit demo_env ?s2 = (Raise (UciException (uci_argv demo_env [''commit'', ''ghost''])), ?s2)"
    by (simp add: commit_def bindP_def [of "block _"] bindP_def [of "forP _ _"] bindP_def [of "bindP _ _"]
        bindP_def [of "uci_cmd _ _"] demo_order)
  show ?thesis
    using failing_commit_keeps_the_lock
      [of demo_env ?s "opened ?s" demo_ghost "[]" ?s2 _ ?s2 demo_ghost, OF enter body _ _ commit]
    by (auto simp: store_simps)
qed

end
