(* ===== verification/UciWrites.thy ===== *)
theory UciWrites
  imports Transactions
begin

text \<open>
  Straight-line write sequences of the backends. Where a backend method only writes, its
  statements are a list of \<open>uwrite\<close>s: the list is the model of the code, \<open>writes\<close> executes it,
  \<open>apply_writes\<close> is what it does to the staged configs, and \<open>value_after\<close> tells what an option
  reads afterwards. So the component proofs never execute the statements one by one.
\<close>

section \<open>Writes and their execution\<close>

text \<open>
  \<^verbatim>\<open>backend.add_section\<close>, \<^verbatim>\<open>set_option\<close>, \<^verbatim>\<open>replace_list\<close>, \<^verbatim>\<open>del_option(..., fail_on_error=False)\<close>,
  \<^verbatim>\<open>del_section\<close> and \<^verbatim>\<open>add_to_list\<close>, with their arguments in the code's order.
\<close>

datatype uwrite =
    AddSection string string string
  | SetOption string string string string
  | ReplaceList string string string "string list"
  | DropOption string string string
  | DelSection string string
  | AddToList string string string "string list"

fun write_op :: "'e env \<Rightarrow> uwrite \<Rightarrow> ('e st, unit) prog" where
  "write_op E (AddSection c t s) = add_section E c t s"
| "write_op E (SetOption c s p v) = set_option E c s p v"
| "write_op E (ReplaceList c s p vs) = replace_list E c s p vs"
| "write_op E (DropOption c s p) = del_option E c s p False"
| "write_op E (DelSection c s) = del_section E c s"
| "write_op E (AddToList c s p vs) = add_to_list E c s p vs"

definition writes :: "'e env \<Rightarrow> uwrite list \<Rightarrow> ('e st, unit) prog" where
  "writes E ws = block (map (write_op E) ws)"

lemma writes_simps:
  "writes E [] = ret ()" "writes E (w # ws) = bindP (write_op E w) (\<lambda>_. writes E ws)"
  by (simp_all add: writes_def)

section \<open>Effect on the staged configs\<close>

fun config_of :: "uwrite \<Rightarrow> string" where
  "config_of (AddSection c t s) = c"
| "config_of (SetOption c s p v) = c"
| "config_of (ReplaceList c s p vs) = c"
| "config_of (DropOption c s p) = c"
| "config_of (DelSection c s) = c"
| "config_of (AddToList c s p vs) = c"

text \<open>A value after \<^verbatim>\<open>add_list\<close> of several elements.\<close>

fun extended :: "uval option \<Rightarrow> string list \<Rightarrow> uval" where
  "extended (Some (Str w)) vs = Lst (w # vs)"
| "extended (Some (Lst ws)) vs = Lst (ws @ vs)"
| "extended _ vs = Lst vs"

text \<open>What a write makes of a config, \<open>None\<close> when the section it needs is missing.\<close>

fun effect :: "uwrite \<Rightarrow> usection list \<Rightarrow> usection list option" where
  "effect (AddSection c t s) secs = Some (set_sec s t secs)"
| "effect (SetOption c s p v) secs =
     (if has_sec secs s then Some (if v = [] then del_opt s p secs else set_opt s p (Str v) secs) else None)"
| "effect (ReplaceList c s p vs) secs =
     (if vs = [] then Some (del_opt s p secs)
      else if has_sec secs s then Some (set_opt s p (Lst vs) (del_opt s p secs)) else None)"
| "effect (DropOption c s p) secs = Some (del_opt s p secs)"
| "effect (DelSection c s) secs = (if has_sec secs s then Some (del_sec s secs) else None)"
| "effect (AddToList c s p vs) secs =
     (if vs = [] then Some secs
      else if has_sec secs s then Some (set_opt s p (extended (lk secs s p) vs) secs) else None)"

type_synonym configs = "string \<rightharpoonup> usection list"

fun apply_writes :: "uwrite list \<Rightarrow> configs \<Rightarrow> configs option" where
  "apply_writes [] m = Some m"
| "apply_writes (w # ws) m = (case m (config_of w) of
      None \<Rightarrow> None
    | Some secs \<Rightarrow> (case effect w secs of
          None \<Rightarrow> None | Some secs' \<Rightarrow> apply_writes ws (m(config_of w \<mapsto> secs'))))"

fun write_names_valid :: "uwrite \<Rightarrow> bool" where
  "write_names_valid (AddSection c t s) = (valid_name c \<and> valid_name t \<and> valid_name s)"
| "write_names_valid (SetOption c s p v) = (valid_name c \<and> valid_name s \<and> valid_name p)"
| "write_names_valid (ReplaceList c s p vs) = (valid_name c \<and> valid_name s \<and> valid_name p)"
| "write_names_valid (DropOption c s p) = (valid_name c \<and> valid_name s \<and> valid_name p)"
| "write_names_valid (DelSection c s) = (valid_name c \<and> valid_name s)"
| "write_names_valid (AddToList c s p vs) = (valid_name c \<and> valid_name s \<and> valid_name p)"

lemma apply_writes_append:
  "apply_writes (ws @ vs) m = (case apply_writes ws m of None \<Rightarrow> None | Some m' \<Rightarrow> apply_writes vs m')"
  by (induction ws arbitrary: m) (auto split: option.split)

lemma config_of_valid: "write_names_valid w \<Longrightarrow> valid_name (config_of w)"
  by (cases w) simp_all

text \<open>A state that agrees with another up to the staged configs and the touched ones.\<close>

definition staged_as :: "store st \<Rightarrow> configs \<Rightarrow> string set \<Rightarrow> store st \<Rightarrow> bool" where
  "staged_as t m cs t' \<longleftrightarrow> staged (ext t') = m \<and> committed (ext t') = committed (ext t) \<and>
     set (affected t') = set (affected t) \<union> cs \<and> uci_held t' = uci_held t \<and>
     services_held t' = services_held t \<and> (\<forall>c. c \<notin> cs \<longrightarrow> m c = staged (ext t) c)"

lemma staged_as_trans:
  "staged_as t m cs t' \<Longrightarrow> staged_as t' m' cs' t'' \<Longrightarrow> staged_as t m' (cs \<union> cs') t''"
  by (auto simp: staged_as_def)

lemma staged_as_put:
  "staged_as t ((staged (ext t))(c \<mapsto> X)) {c} (put c X t)"
  by (auto simp: staged_as_def store_simps)

lemma staged_as_touch:
  "staged (ext t) c = Some X \<Longrightarrow> \<exists>t'. touch c t = (Ret (), t') \<and> staged_as t ((staged (ext t))(c \<mapsto> X)) {c} t'"
  by (cases "c \<in> set (affected t)") (simp_all add: touch_def staged_as_def fun_eq_iff insert_absorb)

lemma exec_drop_option:
  assumes "staged (ext t) c = Some X" "valid_name c" "valid_name s" "valid_name p"
  shows "\<exists>t'. del_option (ref_env nm cd ord) c s p False t = (Ret (), t') \<and>
    staged_as t ((staged (ext t))(c \<mapsto> del_opt s p X)) {c} t'"
proof (cases "lk X s p = None")
  case True
  then show ?thesis
    using staged_as_touch [OF assms(1)] by (simp add: exec_del_option [OF assms] del_opt_absent)
next
  case False
  then show ?thesis
    using staged_as_put [of t c "del_opt s p X"] by (simp add: exec_del_option [OF assms])
qed

lemma exec_clear_list:
  assumes "staged (ext t) c = Some X" "valid_name c" "valid_name s" "valid_name p"
  shows "\<exists>t'. replace_list (ref_env nm cd ord) c s p [] t = (Ret (), t') \<and>
    staged_as t ((staged (ext t))(c \<mapsto> del_opt s p X)) {c} t'"
proof -
  let ?R = "ref_env nm cd ord"
  define t1 where "t1 = (if lk X s p \<noteq> None then t\<lparr>ext := stage c (del_opt s p X) (ext t)\<rparr> else t)"
  have del: "tryP (uci_cmd ?R [''delete'', c @ ''.'' @ s @ ''.'' @ p]) is_uci_exception (\<lambda>_. ret ()) t = (Ret (), t1)"
    unfolding tryP_def exec_delete_option [OF assms] by (auto simp: t1_def ret_def)
  have t1: "staged (ext t1) = (staged (ext t))(c \<mapsto> del_opt s p X)" "committed (ext t1) = committed (ext t)"
    "affected t1 = affected t" "uci_held t1 = uci_held t" "services_held t1 = services_held t"
    using assms(1) del_opt_absent [of X s p] by (auto simp: t1_def store_simps fun_eq_iff)
  then show ?thesis
    unfolding replace_list_def add_to_list_def block.simps bindP_def del prod.case outcome.case forP.simps ret_def
    by (auto simp: touch_def staged_as_def)
qed

lemma exec_extend_list:
  assumes "staged (ext t) c = Some secs" "has_sec secs s" "valid_name c" "valid_name s" "valid_name p" "vs \<noteq> []"
  shows "add_to_list (ref_env nm cd ord) c s p vs t =
    (Ret (), put c (set_opt s p (extended (lk secs s p) vs) secs) t)"
proof -
  obtain v ws where vs: "vs = v # ws" using assms(6) by (cases vs) auto
  obtain us where us: "appended (lk secs s p) v = Lst us" "extended (lk secs s p) vs = Lst (us @ ws)"
    by (cases "(lk secs s p, v)" rule: appended.cases) (auto simp: vs)
  let ?a = "\<lambda>v. uci_cmd (ref_env nm cd ord) [''add_list'', c @ ''.'' @ s @ ''.'' @ p @ ''='' @ v]"
  let ?t2 = "t\<lparr>ext := stage c (set_opt s p (Lst us) secs) (ext t)\<rparr>"
  have first: "?a v t = (Ret (), ?t2)"
    using assms(2-5) us(1) by (subst exec_add_list [OF assms(1)]) auto
  have "forP ws ?a ?t2 = (Ret (), if ws = [] then ?t2
      else ?t2\<lparr>ext := stage c (set_opt s p (Lst (us @ ws)) (set_opt s p (Lst us) secs)) (ext ?t2)\<rparr>)"
    using assms by (intro exec_add_lists) (auto simp: store_simps)
  then have all: "forP vs ?a t = (Ret (), t\<lparr>ext := stage c (set_opt s p (Lst (us @ ws)) secs) (ext t)\<rparr>)"
    by (simp only: vs forP.simps bindP_def first prod.case outcome.case)
       (simp add: set_opt_twice stage_def update_last)
  then show ?thesis
    by (simp only: add_to_list_def block.simps bindP_def all prod.case outcome.case us(2))
       (simp add: touch_def put_def ret_def)
qed

lemma exec_write:
  assumes "staged (ext t) (config_of w) = Some X" "effect w X = Some Y" "write_names_valid w"
  shows "\<exists>t'. write_op (ref_env nm cd ord) w t = (Ret (), t') \<and>
    staged_as t ((staged (ext t))(config_of w \<mapsto> Y)) {config_of w} t'"
proof (cases w)
  case (AddSection c ty s)
  then have "add_section (ref_env nm cd ord) c ty s t = (Ret (), put c (set_sec s ty X) t)"
    using assms by (intro exec_add_section) simp_all
  with AddSection assms(2) show ?thesis using staged_as_put by auto
next
  case (SetOption c s p v)
  note set_opt_case = this
  show ?thesis
  proof (cases "v = []")
    case True
    then have "set_option (ref_env nm cd ord) c s p v t = (Ret (), put c (del_opt s p X) t)"
      using assms set_opt_case unfolding set_option_def
      by (intro exec_touch exec_cmd_ok)
         (simp only: ref_uci_set_option valid_sec_name write_names_valid.simps,
          auto simp: ref_set_def on_section_def split: if_splits)
    with True set_opt_case assms(2) show ?thesis
      using staged_as_put by (auto split: if_splits)
  next
    case False
    then have "set_option (ref_env nm cd ord) c s p v t = (Ret (), put c (set_opt s p (Str v) X) t)"
      using assms set_opt_case by (intro exec_set_option) (auto split: if_splits)
    with False set_opt_case assms(2) show ?thesis
      using staged_as_put by (auto split: if_splits)
  qed
next
  case (ReplaceList c s p vs)
  note replace_case = this
  show ?thesis
  proof (cases "vs = []")
    case True
    then show ?thesis using assms replace_case exec_clear_list [of t c X s p] by auto
  next
    case False
    then have "replace_list (ref_env nm cd ord) c s p vs t = (Ret (), put c (set_opt s p (Lst vs) (del_opt s p X)) t)"
      using assms replace_case by (intro exec_replace_list) (auto split: if_splits)
    with False replace_case assms(2) show ?thesis
      using staged_as_put by (auto split: if_splits)
  qed
next
  case (DropOption c s p)
  then show ?thesis using assms exec_drop_option [of t c X s p] by auto
next
  case (DelSection c s)
  then have "del_section (ref_env nm cd ord) c s t = (Ret (), put c (del_sec s X) t)"
    using assms by (intro exec_del_section) (auto split: if_splits)
  with DelSection assms(2) show ?thesis
    using staged_as_put by (auto split: if_splits)
next
  case (AddToList c s p vs)
  note add_case = this
  show ?thesis
  proof (cases "vs = []")
    case True
    then show ?thesis
      using assms add_case staged_as_touch [of t c X] by (auto simp: add_to_list_def bindP_def ret_def)
  next
    case False
    then have "add_to_list (ref_env nm cd ord) c s p vs t = (Ret (), put c (set_opt s p (extended (lk X s p) vs) X) t)"
      using assms add_case by (intro exec_extend_list) (auto split: if_splits)
    with False add_case assms(2) show ?thesis
      using staged_as_put by (auto split: if_splits)
  qed
qed

lemma exec_writes:
  assumes "apply_writes ws (staged (ext t)) = Some m" "list_all write_names_valid ws"
  shows "\<exists>t'. writes (ref_env nm cd ord) ws t = (Ret (), t') \<and> staged_as t m (set (map config_of ws)) t'"
  using assms
proof (induction ws arbitrary: t)
  case Nil
  then show ?case by (auto simp: writes_simps ret_def staged_as_def)
next
  case (Cons w ws)
  then obtain X Y where w: "staged (ext t) (config_of w) = Some X" "effect w X = Some Y"
      and rest: "apply_writes ws ((staged (ext t))(config_of w \<mapsto> Y)) = Some m"
    by (auto split: option.splits)
  obtain t1 where t1: "write_op (ref_env nm cd ord) w t = (Ret (), t1)"
      "staged_as t ((staged (ext t))(config_of w \<mapsto> Y)) {config_of w} t1"
    using exec_write [OF w, of nm cd ord] Cons.prems(2) by auto
  then have "apply_writes ws (staged (ext t1)) = Some m"
    using rest by (simp add: staged_as_def)
  then obtain t2 where "writes (ref_env nm cd ord) ws t1 = (Ret (), t2)" "staged_as t1 m (set (map config_of ws)) t2"
    using Cons.IH Cons.prems(2) by auto
  with t1 show ?case
    using staged_as_trans [of t _ "{config_of w}" t1 m "set (map config_of ws)" t2]
    by (auto simp: writes_simps bindP_def)
qed

section \<open>Lookups after a sequence\<close>

text \<open>
  What a write makes of the value of an option. \<^verbatim>\<open>uci set\<close> with an empty value removes the
  option, and so do replacing a list by an empty one and deleting the section.
\<close>

fun written :: "uwrite \<Rightarrow> string \<Rightarrow> string \<Rightarrow> string \<Rightarrow> uval option \<Rightarrow> uval option" where
  "written (AddSection c' t s') c s p old = old"
| "written (SetOption c' s' p' v) c s p old =
     (if c' = c \<and> s' = s \<and> p' = p then (if v = [] then None else Some (Str v)) else old)"
| "written (ReplaceList c' s' p' vs) c s p old =
     (if c' = c \<and> s' = s \<and> p' = p then (if vs = [] then None else Some (Lst vs)) else old)"
| "written (DropOption c' s' p') c s p old = (if c' = c \<and> s' = s \<and> p' = p then None else old)"
| "written (DelSection c' s') c s p old = (if c' = c \<and> s' = s then None else old)"
| "written (AddToList c' s' p' vs) c s p old =
     (if c' = c \<and> s' = s \<and> p' = p \<and> vs \<noteq> [] then Some (extended old vs) else old)"

fun value_after :: "uwrite list \<Rightarrow> string \<Rightarrow> string \<Rightarrow> string \<Rightarrow> uval option \<Rightarrow> uval option" where
  "value_after [] c s p old = old"
| "value_after (w # ws) c s p old = value_after ws c s p (written w c s p old)"

lemma value_after_append: "value_after (ws @ vs) c s p old = value_after vs c s p (value_after ws c s p old)"
  by (induction ws arbitrary: old) auto

lemma written_other: "c \<noteq> config_of w \<Longrightarrow> written w c s p old = old"
  by (cases w) auto

lemma value_after_other: "c \<notin> set (map config_of ws) \<Longrightarrow> value_after ws c s p old = old"
  by (induction ws arbitrary: old) (auto simp: written_other)

lemma lk_effect:
  assumes "effect w X = Some Y"
  shows "lk Y s p = written w (config_of w) s p (lk X s p)"
  using assms by (cases w) (auto simp: store_simps split: if_splits)

text \<open>How the options of a config read after a sequence of writes.\<close>

definition follows :: "uwrite list \<Rightarrow> string \<Rightarrow> usection list \<Rightarrow> usection list \<Rightarrow> bool" where
  "follows ws c X Y \<longleftrightarrow> (\<forall>s p. lk Y s p = value_after ws c s p (lk X s p))"

lemma follows_lk: "follows ws c X Y \<Longrightarrow> lk Y s p = value_after ws c s p (lk X s p)"
  by (simp add: follows_def)

lemma apply_writes_follows:
  "apply_writes ws m = Some m' \<Longrightarrow> m c = Some X \<Longrightarrow> \<exists>Y. m' c = Some Y \<and> follows ws c X Y"
proof (induction ws arbitrary: m X)
  case Nil
  then show ?case by (simp add: follows_def)
next
  case (Cons w ws)
  then obtain Z Z' where w: "m (config_of w) = Some Z" "effect w Z = Some Z'"
      and rest: "apply_writes ws (m(config_of w \<mapsto> Z')) = Some m'"
    by (auto split: option.splits)
  show ?case
  proof (cases "c = config_of w")
    case True
    have "(m(config_of w \<mapsto> Z')) c = Some Z'" using True by simp
    moreover have "Z = X" using w(1) Cons.prems(2) True by simp
    ultimately show ?thesis
      using Cons.IH [OF rest, of Z'] lk_effect [OF w(2)] True by (simp add: follows_def)
  next
    case False
    then show ?thesis
      using Cons.IH [OF rest, of X] Cons.prems(2) by (simp add: follows_def written_other)
  qed
qed

lemma apply_writes_other:
  "apply_writes ws m = Some m' \<Longrightarrow> c \<notin> set (map config_of ws) \<Longrightarrow> m' c = m c"
  by (induction ws arbitrary: m) (auto split: option.splits)

lemma apply_writes_touched:
  "apply_writes ws m = Some m' \<Longrightarrow> c \<in> set (map config_of ws) \<Longrightarrow> m' c \<noteq> None"
proof (induction ws arbitrary: m)
  case (Cons w ws)
  then obtain Z Z' where w: "m (config_of w) = Some Z" "effect w Z = Some Z'"
      and rest: "apply_writes ws (m(config_of w \<mapsto> Z')) = Some m'"
    by (auto split: option.splits)
  show ?case
  proof (cases "c = config_of w")
    case True
    then show ?thesis using apply_writes_follows [OF rest, of c Z'] by auto
  next
    case False
    then show ?thesis using Cons.IH [OF rest] Cons.prems(2) by simp
  qed
qed simp

text \<open>When a sequence succeeds: its configs exist, and each section exists or was added before.\<close>

fun sections_known :: "uwrite list \<Rightarrow> (string \<Rightarrow> string \<Rightarrow> bool) \<Rightarrow> bool" where
  "sections_known [] known = True"
| "sections_known (AddSection c t s # ws) known = sections_known ws (\<lambda>c' s'. (c' = c \<and> s' = s) \<or> known c' s')"
| "sections_known (SetOption c s p v # ws) known = (known c s \<and> sections_known ws known)"
| "sections_known (ReplaceList c s p vs # ws) known = ((vs = [] \<or> known c s) \<and> sections_known ws known)"
| "sections_known (DropOption c s p # ws) known = sections_known ws known"
| "sections_known (DelSection c s # ws) known =
     (known c s \<and> sections_known ws (\<lambda>c' s'. \<not> (c' = c \<and> s' = s) \<and> known c' s'))"
| "sections_known (AddToList c s p vs # ws) known = ((vs = [] \<or> known c s) \<and> sections_known ws known)"

lemma apply_writes_defined:
  assumes "sections_known ws known" "\<forall>c s. known c s \<longrightarrow> (\<forall>X. m c = Some X \<longrightarrow> has_sec X s)"
    and "\<forall>w\<in>set ws. m (config_of w) \<noteq> None"
  shows "\<exists>m'. apply_writes ws m = Some m'"
  using assms
proof (induction ws known arbitrary: m rule: sections_known.induct)
  case (1 known)
  then show ?case by simp
next
  case (2 c t s ws known)
  then obtain X where X: "m c = Some X" by auto
  have "\<exists>m'. apply_writes ws (m(c \<mapsto> set_sec s t X)) = Some m'"
    using 2 X by (intro "2.IH") (auto simp: store_simps)
  then show ?case using X by simp
next
  case (3 c s p v ws known)
  then obtain X where X: "m c = Some X" "has_sec X s" by fastforce
  let ?Y = "if v = [] then del_opt s p X else set_opt s p (Str v) X"
  have "\<exists>m'. apply_writes ws (m(c \<mapsto> ?Y)) = Some m'"
    using 3 X by (intro "3.IH") (auto simp: store_simps)
  then show ?case using X by simp
next
  case (4 c s p vs ws known)
  then obtain X where X: "m c = Some X" "vs = [] \<or> has_sec X s" by fastforce
  let ?Y = "if vs = [] then del_opt s p X else set_opt s p (Lst vs) (del_opt s p X)"
  have "\<exists>m'. apply_writes ws (m(c \<mapsto> ?Y)) = Some m'"
    using 4 X by (intro "4.IH") (auto simp: store_simps)
  then show ?case using X by auto
next
  case (5 c s p ws known)
  then obtain X where X: "m c = Some X" by auto
  have "\<exists>m'. apply_writes ws (m(c \<mapsto> del_opt s p X)) = Some m'"
    using 5 X by (intro "5.IH") (auto simp: store_simps)
  then show ?case using X by simp
next
  case (6 c s ws known)
  then obtain X where X: "m c = Some X" "has_sec X s" by fastforce
  have "\<exists>m'. apply_writes ws (m(c \<mapsto> del_sec s X)) = Some m'"
    using 6 X by (intro "6.IH") (auto simp: store_simps)
  then show ?case using X by simp
next
  case (7 c s p vs ws known)
  then obtain X where X: "m c = Some X" "vs = [] \<or> has_sec X s" by fastforce
  let ?Y = "if vs = [] then X else set_opt s p (extended (lk X s p) vs) X"
  have "\<exists>m'. apply_writes ws (m(c \<mapsto> ?Y)) = Some m'"
    using 7 X by (intro "7.IH") (auto simp: store_simps)
  then show ?case using X by auto
qed

section \<open>Simulation and transactions\<close>

context uci_tool
begin

lemma sim_writes: "list_all write_names_valid ws \<Longrightarrow> sim (rel view) (writes E ws) (writes R ws)"
proof (induction ws)
  case (Cons w ws)
  have "sim (rel view) (write_op E w) (write_op R w)"
    using Cons.prems
    by (cases w) (auto intro: sim_add_section sim_set_option sim_replace_list sim_del_option sim_del_section sim_add_to_list valid_sec_name)
  with Cons show ?case by (simp add: writes_simps sim_bindP)
qed (simp add: writes_simps sim_ret)

end

text \<open>A transaction publishes what its body staged.\<close>

lemma staged_transaction:
  assumes "uci_tool E nm view" "\<not> uci_held s" "\<forall>c\<in>set (affected s). valid_name c"
    and "sim (rel view) body (body' (ref_env nm (env_config_dir E) (env_set_order E)))"
    and "body' (ref_env nm (env_config_dir E) (env_set_order E)) (opened (abs_st view s)) = (Ret x, t)"
    and "staged_as (opened (abs_st view s)) m cs t"
    and "\<forall>c\<in>cs. valid_name c \<and> m c \<noteq> None"
  shows "\<exists>s'. with_uci E body s = (Ret x, s') \<and> \<not> uci_held s' \<and>
    services_held s' = services_held s \<and> (\<forall>c\<in>set (affected s'). valid_name c) \<and>
    committed (view (ext s')) = m"
proof -
  have "\<exists>s'. with_uci E body s = (Ret x, s') \<and> \<not> uci_held s' \<and> services_held s' = services_held t \<and>
    (\<forall>c\<in>set (affected s'). valid_name c) \<and>
    committed (view (ext s')) =
      (\<lambda>c. if c \<in> set (affected t) then staged (ext t) c else committed (ext t) c)"
    using assms(2,3,6,7)
    by (intro transaction_outcome [where body' = body', OF assms(1,4,2,3,5)]) (auto simp: staged_as_def store_simps)
  moreover have "(\<lambda>c. if c \<in> set (affected t) then staged (ext t) c else committed (ext t) c) = m"
    using assms(6) by (auto simp: staged_as_def store_simps abs_st_def fun_eq_iff)
  ultimately show ?thesis using assms(6) by (simp add: staged_as_def store_simps abs_st_def)
qed

lemma opened_staged: "staged (ext (opened (abs_st view s))) = committed (view (ext s))"
  by (simp add: store_simps abs_st_def)

lemma writes_transaction:
  assumes "uci_tool E nm view" "\<not> uci_held s" "\<forall>c\<in>set (affected s). valid_name c"
    and "list_all write_names_valid ws" "apply_writes ws (committed (view (ext s))) = Some m"
  shows "\<exists>s'. with_uci E (writes E ws) s = (Ret (), s') \<and> \<not> uci_held s' \<and>
    services_held s' = services_held s \<and> (\<forall>c\<in>set (affected s'). valid_name c) \<and>
    committed (view (ext s')) = m"
proof -
  let ?R = "ref_env nm (env_config_dir E) (env_set_order E)" and ?t = "opened (abs_st view s)"
  obtain t where t: "writes ?R ws ?t = (Ret (), t)" "staged_as ?t m (set (map config_of ws)) t"
    using exec_writes [of ws ?t m nm "env_config_dir E" "env_set_order E"] assms(4,5) opened_staged by metis
  show ?thesis
    using assms(4) config_of_valid apply_writes_touched [OF assms(5)]
    by (intro staged_transaction [where body' = "\<lambda>R. writes R ws", OF assms(1-3) _ t]
        uci_tool.sim_writes [OF assms(1)]) (auto simp: list_all_iff)
qed

text \<open>Deleting a section that may be missing.\<close>

lemma exec_try_del_section:
  assumes "staged (ext t) c = Some X" "valid_name c" "valid_name s"
  shows "\<exists>t'. tryP (del_section (ref_env nm cd ord) c s) is_uci_exception (\<lambda>_. ret ()) t = (Ret (), t') \<and>
    staged_as t ((staged (ext t))(c \<mapsto> del_sec s X)) (if has_sec X s then {c} else {}) t'"
proof (cases "has_sec X s")
  case True
  then show ?thesis
    using assms staged_as_put [of t c "del_sec s X"] by (simp add: exec_simps tryP_def)
next
  case False
  then have "del_sec s X = X"
    by (auto simp: del_sec_def has_sec_def find_sec_def find_None_iff filter_id_conv)
  with False show ?thesis
    using assms exec_del_section_missing [OF assms(1) False assms(2,3), of nm cd ord]
    by (simp add: tryP_def ret_def staged_as_def fun_upd_idem)
qed

text \<open>A sequence that adds every section it writes to runs on any configs.\<close>

lemma exec_self_contained:
  assumes "list_all write_names_valid ws" "sections_known ws (\<lambda>_ _. False)"
    and "\<forall>c\<in>set (map config_of ws). staged (ext t) c \<noteq> None"
  shows "\<exists>m t'. writes (ref_env nm cd ord) ws t = (Ret (), t') \<and> staged_as t m (set (map config_of ws)) t' \<and>
    (\<forall>c. c \<notin> set (map config_of ws) \<longrightarrow> m c = staged (ext t) c) \<and>
    (\<forall>c X. staged (ext t) c = Some X \<longrightarrow> (\<exists>Y. m c = Some Y \<and> follows ws c X Y))"
proof -
  obtain m where m: "apply_writes ws (staged (ext t)) = Some m"
    using apply_writes_defined [OF assms(2), of "staged (ext t)"] assms(3) by auto
  obtain t' where "writes (ref_env nm cd ord) ws t = (Ret (), t')" "staged_as t m (set (map config_of ws)) t'"
    using exec_writes [OF m assms(1), of nm cd ord] by blast
  with m show ?thesis
    using apply_writes_other [OF m] apply_writes_follows [OF m] by blast
qed

text \<open>The writes that keep a config readable.\<close>

fun write_wf :: "uwrite \<Rightarrow> bool" where
  "write_wf (AddSection c t s) = (wf_name s \<and> wf_name t \<and> \<not> is_anonymous_name s)"
| "write_wf (SetOption c s p v) = (wf_name p \<and> (v = [] \<or> wf_text v))"
| "write_wf (ReplaceList c s p vs) = (wf_name p \<and> (vs = [] \<or> wf_value (Lst vs)))"
| "write_wf (DropOption c s p) = True"
| "write_wf (DelSection c s) = True"
| "write_wf (AddToList c s p vs) = (wf_name p \<and> (vs = [] \<or> wf_value (Lst vs)))"

lemma wf_lk: "wf_config X \<Longrightarrow> lk X s p = Some v \<Longrightarrow> wf_value v"
proof -
  assume X: "wf_config X" and v: "lk X s p = Some v"
  from v obtain e where e: "find_sec X s = Some e" "map_of (sec_data e) p = Some v"
    by (auto simp: lk_def split: option.splits)
  then have "e \<in> set X" by (auto simp: find_sec_def find_Some_iff)
  with X have "list_all (\<lambda>(n, v). wf_name n \<and> wf_value v) (sec_data e)"
    by (auto simp: wf_config_def wf_section_def list_all_iff)
  with map_of_SomeD [OF e(2)] show ?thesis by (auto simp: list_all_iff)
qed

lemma wf_extended: "wf_value (Lst vs) \<Longrightarrow> (\<And>v. old = Some v \<Longrightarrow> wf_value v) \<Longrightarrow> wf_value (extended old vs)"
  by (cases "(old, vs)" rule: extended.cases) auto

lemma wf_effect: "effect w X = Some Y \<Longrightarrow> write_wf w \<Longrightarrow> wf_config X \<Longrightarrow> wf_config Y"
  by (cases w) (auto split: if_splits intro!: wf_intros wf_extended dest: wf_lk)

section \<open>One config under a sequence of writes\<close>

fun config_after :: "uwrite list \<Rightarrow> string \<Rightarrow> usection list \<Rightarrow> usection list option" where
  "config_after [] c X = Some X"
| "config_after (w # ws) c X =
     (if config_of w = c then (case effect w X of None \<Rightarrow> None | Some Y \<Rightarrow> config_after ws c Y)
      else config_after ws c X)"

lemma apply_writes_config:
  "apply_writes ws m = Some m' \<Longrightarrow> m c = Some X \<Longrightarrow> \<exists>Y. m' c = Some Y \<and> config_after ws c X = Some Y"
  by (induction ws arbitrary: m X) (auto split: option.splits if_splits)

lemma config_after_follows: "config_after ws c X = Some Y \<Longrightarrow> follows ws c X Y"
proof (induction ws arbitrary: X)
  case Nil
  then show ?case by (simp add: follows_def)
next
  case (Cons w ws)
  then show ?case
    using lk_effect written_other
    by (cases "config_of w = c") (fastforce simp: follows_def split: option.splits)+
qed

lemma config_after_wf: "config_after ws c X = Some Y \<Longrightarrow> list_all write_wf ws \<Longrightarrow> wf_config X \<Longrightarrow> wf_config Y"
  by (induction ws arbitrary: X) (auto split: option.splits if_splits dest: wf_effect)

text \<open>Sections of a type that no write names stay as they are, in their order.\<close>

definition of_type :: "string \<Rightarrow> usection list \<Rightarrow> usection list" where
  "of_type t X = filter (\<lambda>e. sec_type e = t) X"

fun spares :: "string \<Rightarrow> string set \<Rightarrow> uwrite \<Rightarrow> bool" where
  "spares t ns (AddSection c t' s) = (t' \<noteq> t \<and> s \<notin> ns)"
| "spares t ns (SetOption c s p v) = (s \<notin> ns)"
| "spares t ns (ReplaceList c s p vs) = (s \<notin> ns)"
| "spares t ns (DropOption c s p) = (s \<notin> ns)"
| "spares t ns (DelSection c s) = (s \<notin> ns)"
| "spares t ns (AddToList c s p vs) = (s \<notin> ns)"

lemma of_type_upd_sec:
  "s \<notin> sec_name ` set (of_type t X) \<Longrightarrow> (\<And>e. sec_type e \<noteq> t \<Longrightarrow> sec_type (f e) \<noteq> t) \<Longrightarrow>
    of_type t (upd_sec s f X) = of_type t X"
  by (induction X) (auto simp: of_type_def split: if_splits)

lemma of_type_del_sec: "s \<notin> sec_name ` set (of_type t X) \<Longrightarrow> of_type t (del_sec s X) = of_type t X"
  unfolding of_type_def del_sec_def filter_filter by (rule filter_cong) (auto simp: image_iff)

lemma of_type_set_sec:
  "t' \<noteq> t \<Longrightarrow> s \<notin> sec_name ` set (of_type t X) \<Longrightarrow> of_type t (set_sec s t' X) = of_type t X"
  using of_type_upd_sec [of s t X "\<lambda>e. e\<lparr>sec_type := t'\<rparr>"] by (auto simp: set_sec_def of_type_def)

lemma of_type_options:
  "s \<notin> sec_name ` set (of_type t X) \<Longrightarrow> of_type t (set_opt s p v X) = of_type t X"
  "s \<notin> sec_name ` set (of_type t X) \<Longrightarrow> of_type t (del_opt s p X) = of_type t X"
  unfolding set_opt_def del_opt_def by (rule of_type_upd_sec; simp)+

lemma of_type_effect:
  "effect w X = Some Y \<Longrightarrow> spares t (sec_name ` set (of_type t X)) w \<Longrightarrow> of_type t Y = of_type t X"
  by (cases w) (auto simp: of_type_options of_type_set_sec of_type_del_sec split: if_splits)

lemma config_after_of_type:
  "config_after ws c X = Some Y \<Longrightarrow>
    list_all (\<lambda>w. config_of w = c \<longrightarrow> spares t (sec_name ` set (of_type t X)) w) ws \<Longrightarrow> of_type t Y = of_type t X"
proof (induction ws arbitrary: X)
  case (Cons w ws)
  show ?case
  proof (cases "config_of w = c")
    case True
    then obtain Z where Z: "effect w X = Some Z" "config_after ws c Z = Some Y"
      using Cons.prems(1) by (auto split: option.splits)
    then have "of_type t Z = of_type t X" using of_type_effect Cons.prems(2) True by simp
    then show ?thesis using Cons.IH [OF Z(2)] Cons.prems(2) by simp
  next
    case False
    then show ?thesis using Cons by simp
  qed
qed simp

text \<open>A sequence whose sections exist or are added runs; each config it leaves is the one above.\<close>

lemma exec_known:
  assumes "list_all write_names_valid ws" "sections_known ws known"
    and "\<forall>c s. known c s \<longrightarrow> (\<forall>X. staged (ext t) c = Some X \<longrightarrow> has_sec X s)"
    and "\<forall>c\<in>set (map config_of ws). staged (ext t) c \<noteq> None"
  shows "\<exists>m t'. writes (ref_env nm cd ord) ws t = (Ret (), t') \<and> staged_as t m (set (map config_of ws)) t' \<and>
    (\<forall>c X. staged (ext t) c = Some X \<longrightarrow> (\<exists>Y. staged (ext t') c = Some Y \<and> config_after ws c X = Some Y))"
proof -
  obtain m where m: "apply_writes ws (staged (ext t)) = Some m"
    using apply_writes_defined [OF assms(2), of "staged (ext t)"] assms(3,4) by auto
  obtain t' where "writes (ref_env nm cd ord) ws t = (Ret (), t')" and sa: "staged_as t m (set (map config_of ws)) t'"
    using exec_writes [OF m assms(1), of nm cd ord] by blast
  moreover have "staged (ext t') = m" using sa by (simp add: staged_as_def)
  ultimately show ?thesis using apply_writes_config [OF m] by blast
qed

end
