(* ===== verification/UciRefinement.thy ===== *)
theory UciRefinement
  imports UciWrites
begin

text \<open>
  The contract of a write transaction: over every uci tool, \<^verbatim>\<open>with UciBackend() as backend\<close>
  around straight-line writes implements \<open>apply_writes\<close> on the published configs, all of it or
  nothing. \<open>UciWrites\<close> has the successful run; here is the failing one, and the refinement.
\<close>

section \<open>A write that fails\<close>

text \<open>A write fails in the reference exactly where \<open>effect\<close> is undefined: its section is missing.\<close>

definition fails :: "(store st, unit) prog \<Rightarrow> store st \<Rightarrow> bool" where
  "fails p t \<longleftrightarrow> (\<exists>args t'. p t = (Raise (UciException args), t'))"

lemma fails_first: "fails p t \<Longrightarrow> fails (block (p # ps)) t"
  by (auto simp: fails_def bindP_def)

lemma fails_then: "p t = (Ret (), t') \<Longrightarrow> fails (block ps) t' \<Longrightarrow> fails (block (p # ps)) t"
  by (auto simp: fails_def bindP_def)

lemma fails_cmd:
  "ref_uci nm export_text args (ext t) = Some (failed \<sigma>) \<Longrightarrow> fails (uci_cmd (ref_env nm cd ord) args) t"
  by (simp add: fails_def exec_cmd_failed)

lemma fails_set_option:
  assumes "staged (ext t) c = Some X" "\<not> has_sec X s" "valid_name c" "valid_name s" "valid_name p"
  shows "fails (set_option (ref_env nm cd ord) c s p v) t"
  unfolding set_option_def
  by (intro fails_first fails_cmd)
     (simp only: ref_uci_set_option valid_sec_name assms, simp add: ref_set_def on_section_def assms)

lemma fails_add_to_list:
  assumes "staged (ext t) c = Some X" "\<not> has_sec X s" "valid_name c" "valid_name s" "valid_name p" "vs \<noteq> []"
  shows "fails (add_to_list (ref_env nm cd ord) c s p vs) t"
proof -
  obtain v us where vs: "vs = v # us" using assms(6) by (cases vs) auto
  have "fails (uci_cmd (ref_env nm cd ord) [''add_list'', c @ ''.'' @ s @ ''.'' @ p @ ''='' @ v]) t"
    by (rule fails_cmd) (simp only: ref_uci_add_list valid_sec_name assms, simp add: ref_add_list_def on_section_def assms)
  then show ?thesis
    unfolding add_to_list_def vs by (intro fails_first) (auto simp: fails_def bindP_def)
qed

lemma fails_replace_list:
  assumes "staged (ext t) c = Some X" "\<not> has_sec X s" "valid_name c" "valid_name s" "valid_name p" "vs \<noteq> []"
  shows "fails (replace_list (ref_env nm cd ord) c s p vs) t"
proof -
  have "lk X s p = None" using assms(2) by (simp add: lk_def has_sec_def)
  then have "tryP (uci_cmd (ref_env nm cd ord) [''delete'', c @ ''.'' @ s @ ''.'' @ p]) is_uci_exception (\<lambda>_. ret ()) t = (Ret (), t)"
    unfolding tryP_def exec_delete_option [OF assms(1,3-5)] by (simp add: ret_def)
  then show ?thesis
    unfolding replace_list_def by (intro fails_then [OF _ fails_first [OF fails_add_to_list [OF assms]]])
qed

lemma fails_bind: "fails p t \<Longrightarrow> fails (bindP p f) t"
  by (auto simp: fails_def bindP_def)

lemma fails_write:
  assumes "staged (ext t) (config_of w) = Some X" "effect w X = None" "write_names_valid w"
  shows "fails (write_op (ref_env nm cd ord) w) t"
  using assms
  by (cases w)
     (auto simp: fails_def exec_del_section_missing split: if_splits
       intro!: fails_set_option [unfolded fails_def] fails_replace_list [unfolded fails_def]
         fails_add_to_list [unfolded fails_def])

lemma fails_writes:
  assumes "apply_writes ws (staged (ext t)) = None" "list_all write_names_valid ws"
    and "\<forall>w\<in>set ws. staged (ext t) (config_of w) \<noteq> None"
  shows "fails (writes (ref_env nm cd ord) ws) t"
  using assms
proof (induction ws arbitrary: t)
  case (Cons w ws)
  then obtain X where X: "staged (ext t) (config_of w) = Some X" by auto
  show ?case
  proof (cases "effect w X")
    case None
    then show ?thesis
      using fails_bind [OF fails_write [OF X None]] Cons.prems(2) by (simp add: writes_simps)
  next
    case (Some Y)
    then obtain t1 where t1: "write_op (ref_env nm cd ord) w t = (Ret (), t1)"
        "staged (ext t1) = (staged (ext t))(config_of w \<mapsto> Y)"
      using exec_write [OF X Some, of nm cd ord] Cons.prems(2) by (auto simp: staged_as_def)
    have "fails (writes (ref_env nm cd ord) ws) t1"
    proof (rule Cons.IH)
      show "apply_writes ws (staged (ext t1)) = None" unfolding t1(2) using Cons.prems(1) X Some by simp
    qed (use Cons.prems(2,3) in \<open>auto simp: t1(2)\<close>)
    then show ?thesis using t1(1) by (auto simp: writes_simps fails_def bindP_def)
  qed
qed simp

section \<open>The refinement\<close>

context uci_tool
begin

lemma stages_writes: "list_all write_names_valid ws \<Longrightarrow> stages view (writes E ws)"
proof (induction ws)
  case (Cons w ws)
  then have "stages view (write_op E w)"
    by (cases w) (auto intro: stages_add_section stages_set_option stages_replace_list stages_del_option
        stages_del_section stages_add_to_list valid_sec_name)
  with Cons show ?case by (simp add: writes_simps stages_bindP)
qed (simp add: writes_simps stages_basic)

end

text \<open>A transaction of the reference whose body fails keeps the published configs.\<close>

lemma failing_reference:
  assumes "\<not> uci_held t" "body (opened t) = (Raise e, t')" "stages (\<lambda>\<sigma>. \<sigma>) body"
  shows "with_uci (ref_env nm cd ord) body t = (Raise e, t'\<lparr>uci_held := False\<rparr>)"
    "committed (ext t') = committed (ext t)" "services_held t' = services_held t"
proof -
  show "with_uci (ref_env nm cd ord) body t = (Raise e, t'\<lparr>uci_held := False\<rparr>)"
    using assms(1,2) exec_enter [of t nm cd ord]
    by (simp add: with_uci_def bindP_def uci_exit_def whenP_def release_uci_def ret_def raise_def)
  show "committed (ext t') = committed (ext t)" "services_held t' = services_held t"
    using stagesD [OF assms(3,2)] by (simp_all add: store_simps)
qed

text \<open>
  C3: a transaction of writes refines the abstract update of the published configs. Over every
  uci tool: when every write has its section, the transaction returns and publishes exactly
  what \<open>apply_writes\<close> makes of the configs; when one has not, it raises a uci exception and the
  published configs are those from before. In both cases the lock is free again.
\<close>

theorem transaction_refines_writes:
  assumes "uci_tool E nm view" "\<not> uci_held s" "\<forall>c\<in>set (affected s). valid_name c"
    and "list_all write_names_valid ws" "\<forall>w\<in>set ws. committed (view (ext s)) (config_of w) \<noteq> None"
  shows "\<exists>r s'. with_uci E (writes E ws) s = (r, s') \<and> \<not> uci_held s' \<and> services_held s' = services_held s \<and>
    (case apply_writes ws (committed (view (ext s))) of
       Some m \<Rightarrow> r = Ret () \<and> committed (view (ext s')) = m
     | None \<Rightarrow> (\<exists>args. r = Raise (UciException args)) \<and> committed (view (ext s')) = committed (view (ext s)))"
proof (cases "apply_writes ws (committed (view (ext s)))")
  case (Some m)
  then show ?thesis using writes_transaction [OF assms(1-4) Some] by auto
next
  case None
  let ?R = "ref_env nm (env_config_dir E) (env_set_order E)" and ?t = "abs_st view s"
  have ref: "uci_tool ?R nm (\<lambda>\<sigma>. \<sigma>)"
    by (rule uci_tool_ref_env) (rule uci_tool.set_order_set [OF assms(1)])
  have st: "rel view s ?t" "\<not> uci_held ?t" using assms(2,3) by (simp add: rel_eq) (simp add: assms(2) abs_st_def)
  obtain args t' where t': "writes ?R ws (opened ?t) = (Raise (UciException args), t')"
    using fails_writes [of ws "opened ?t" nm "env_config_dir E" "env_set_order E"] None assms(4,5)
    by (auto simp: fails_def opened_staged)
  note run = failing_reference [OF st(2) t' uci_tool.stages_writes [OF ref assms(4)]]
  obtain s' where "with_uci E (writes E ws) s = (Raise (UciException args), s')"
      "rel view s' (t'\<lparr>uci_held := False\<rparr>)"
    using simE [OF uci_tool.sim_with_uci [OF assms(1) uci_tool.sim_writes [OF assms(1,4)]] st(1) run(1)] .
  with None run(2,3) show ?thesis by (auto simp: rel_def abs_st_def)
qed

text \<open>The second write finds its section, the third does not.\<close>

lemma transaction_refines_writes_witness:
  "\<exists>s' args. with_uci demo_env (writes demo_env
        [AddSection ''system'' ''system'' ''main'', SetOption ''system'' ''main'' ''hostname'' ''x'',
         SetOption ''system'' ''ghost'' ''hostname'' ''y'']) (demo_state [''system'' \<mapsto> []]) =
      (Raise (UciException args), s') \<and> committed (ext s') = [''system'' \<mapsto> []] \<and> \<not> uci_held s'"
proof -
  let ?ws = "[AddSection ''system'' ''system'' ''main'', SetOption ''system'' ''main'' ''hostname'' ''x'',
    SetOption ''system'' ''ghost'' ''hostname'' ''y'']"
  have "list_all write_names_valid ?ws" by (simp add: valid_demo_names)
  moreover have "apply_writes ?ws [''system'' \<mapsto> []] = None" by code_simp
  ultimately show ?thesis
    using transaction_refines_writes [OF demo_tool, of "demo_state [''system'' \<mapsto> []]" ?ws] by auto
qed

end
