(* ===== verification/Services.thy ===== *)
theory Services
  imports UciExec
begin

text \<open>
  Running commands and services: \<^verbatim>\<open>inject_cmdline_root\<close> and \<^verbatim>\<open>BaseCmdLine\<close> of
  \<^verbatim>\<open>foris_controller_backends/cmdline\<close>, \<^verbatim>\<open>OpenwrtServices\<close> of \<^verbatim>\<open>services\<close>, file
  reading of \<^verbatim>\<open>files\<close>, \<^verbatim>\<open>MaintainCommands\<close> of \<^verbatim>\<open>maintain\<close> and
  \<^verbatim>\<open>SystemUciCommands\<close> of \<^verbatim>\<open>system\<close>.
\<close>

section \<open>Command lines\<close>

definition isabs :: "string \<Rightarrow> bool" where
  "isabs path = startswith path ''/''"

definition path_join :: "string \<Rightarrow> string \<Rightarrow> string" where
  "path_join a b = (if startswith b ''/'' then b
     else if a = [] \<or> last a = CHR ''/'' then a @ b else a @ ''/'' @ b)"

definition inject_root :: "string \<Rightarrow> string \<Rightarrow> string" where
  "inject_root root path =
     (if root \<noteq> [] \<and> isabs path then path_join root (strip_of (\<lambda>c. c = CHR ''/'') path) else path)"

definition inject_cmdline_root :: "'e env \<Rightarrow> string \<Rightarrow> string" where
  "inject_cmdline_root E path = inject_root (env_cmdline_root E) path"

definition inject_file_root :: "'e env \<Rightarrow> string \<Rightarrow> string" where
  "inject_file_root E path = inject_root (env_file_root E) path"

definition run_command_in_background :: "'e env \<Rightarrow> string list \<Rightarrow> ('e st, unit) prog" where
  "run_command_in_background E args s =
     (case env_spawn E (inject_cmdline_root E (hd args) # tl args) (ext s) of
        (None, e) \<Rightarrow> (Ret (), s\<lparr>ext := e\<rparr>)
      | (Some (n, msg), e) \<Rightarrow> (Raise (OSError n msg), s\<lparr>ext := e\<rparr>))"

definition run_command ::
  "'e env \<Rightarrow> string list \<Rightarrow> string option \<Rightarrow> ('e st, int \<times> string \<times> string) prog" where
  "run_command E args inp =
     (let args' = inject_cmdline_root E (hd args) # tl args in
      tryP (handle_command E args' inp) is_os_error
        (\<lambda>e. case e of OSError n _ \<Rightarrow> raise (BackendCommandFailed n args') | _ \<Rightarrow> raise e))"

definition run_command_and_check_retval ::
  "'e env \<Rightarrow> string list \<Rightarrow> int \<Rightarrow> ('e st, string \<times> string) prog" where
  "run_command_and_check_retval E args expected =
     bindP (run_command E args None) (\<lambda>(rc, out, err).
       if rc \<noteq> expected then raise (BackendCommandFailed rc args) else ret (out, err))"

text \<open>\<open>match\<close> is \<^verbatim>\<open>re.search(regex, _, re.MULTILINE)\<close> with the groups taken from it.\<close>

definition trigger_and_parse ::
  "'e env \<Rightarrow> string list \<Rightarrow> (string \<Rightarrow> 'a option) \<Rightarrow> ('e st, 'a) prog" where
  "trigger_and_parse E args match =
     bindP (run_command_and_check_retval E args 0) (\<lambda>(out, _).
       case match out of
         None \<Rightarrow> raise (FailedToParseCommandOutput args out)
       | Some groups \<Rightarrow> ret groups)"

section \<open>Files\<close>

definition file_content :: "'e env \<Rightarrow> string \<Rightarrow> ('e st, string) prog" where
  "file_content E path s = lift (env_read_file E (inject_file_root E path) (ext s)) s"

definition read_and_parse :: "'e env \<Rightarrow> string \<Rightarrow> (string \<Rightarrow> 'a option) \<Rightarrow> ('e st, 'a) prog" where
  "read_and_parse E path match =
     bindP (file_content E path) (\<lambda>content. case match content of
         None \<Rightarrow> raise (FailedToParseFileContent path content)
       | Some groups \<Rightarrow> ret groups)"

text \<open>Effects on the file system; the mode bits and the buffering are not kept.\<close>

definition file_action :: "('e \<Rightarrow> unit res \<times> 'e) \<Rightarrow> ('e st, unit) prog" where
  "file_action act s = (case act (ext s) of
      (Inr _, e) \<Rightarrow> (Ret (), s\<lparr>ext := e\<rparr>)
    | (Inl x, e) \<Rightarrow> (Raise x, s\<lparr>ext := e\<rparr>))"

definition path_exists :: "'e env \<Rightarrow> string \<Rightarrow> ('e st, bool) prog" where
  "path_exists E path s = (Ret (env_exists E (inject_file_root E path) (ext s)), s)"

definition make_dirs :: "'e env \<Rightarrow> string \<Rightarrow> ('e st, unit) prog" where
  "make_dirs E path = file_action (env_make_path E (inject_file_root E path))"

definition store_to_file :: "'e env \<Rightarrow> string \<Rightarrow> string \<Rightarrow> ('e st, string) prog" where
  "store_to_file E path content =
     bindP (file_action (env_write_file E (inject_file_root E path) content)) (\<lambda>_. ret content)"

definition delete_directory :: "'e env \<Rightarrow> string \<Rightarrow> ('e st, unit) prog" where
  "delete_directory E path = file_action (env_rmtree E (inject_file_root E path))"

definition delete_file :: "'e env \<Rightarrow> string \<Rightarrow> ('e st, unit) prog" where
  "delete_file E path = file_action (env_unlink E (inject_file_root E path))"

definition list_files :: "'e env \<Rightarrow> string list \<Rightarrow> ('e st, string list) prog" where
  "list_files E file_matches s =
     (Ret (concat (map (\<lambda>m. env_glob E (inject_file_root E m) (ext s)) file_matches)), s)"

section \<open>Services\<close>

datatype service_cmd = Start | Stop | Restart | Reload | Enable | Disable

fun service_cmd_name :: "service_cmd \<Rightarrow> string" where
  "service_cmd_name Start = ''start''"
| "service_cmd_name Stop = ''stop''"
| "service_cmd_name Restart = ''restart''"
| "service_cmd_name Reload = ''reload''"
| "service_cmd_name Enable = ''enable''"
| "service_cmd_name Disable = ''disable''"

definition script_path :: "'e env \<Rightarrow> string \<Rightarrow> string" where
  "script_path E service = path_join (inject_cmdline_root E ''/etc/init.d/'') service"

definition run_service_command ::
  "'e env \<Rightarrow> string \<Rightarrow> service_cmd \<Rightarrow> bool \<Rightarrow> ('e st, unit) prog" where
  "run_service_command E service cmd fail_on_error =
     bindP (tryP (bindP (handle_command E [script_path E service, service_cmd_name cmd] None) (\<lambda>(rc, _). ret rc))
         is_os_error
         (\<lambda>e. if fail_on_error then raise (ServiceCmdFailed service (service_cmd_name cmd))
              else case e of OSError n _ \<Rightarrow> ret n | _ \<Rightarrow> raise e))
       (\<lambda>rc. if fail_on_error \<and> rc \<noteq> 0 then raise (ServiceCmdFailed service (service_cmd_name cmd))
             else ret ())"

definition run_service_command_in_background ::
  "'e env \<Rightarrow> string \<Rightarrow> service_cmd \<Rightarrow> int \<Rightarrow> ('e st, unit) prog" where
  "run_service_command_in_background E service cmd delay =
     tryP (bindP (run_command E [''/bin/sh'', ''-c'',
             ''( sleep '' @ show_int delay @ ''; '' @ script_path E service @ '' '' @ service_cmd_name cmd @ '' ) &'']
             None) (\<lambda>_. ret ()))
       is_os_error (\<lambda>_. raise (ServiceCmdFailed service (service_cmd_name cmd)))"

text \<open>
  \<^verbatim>\<open>start\<close>, \<^verbatim>\<open>stop\<close>, \<^verbatim>\<open>restart\<close>, \<^verbatim>\<open>reload\<close>, \<^verbatim>\<open>enable\<close> and \<^verbatim>\<open>disable\<close> have one body; a
  delay of zero counts as none.
\<close>

definition service_command ::
  "'e env \<Rightarrow> service_cmd \<Rightarrow> string \<Rightarrow> int option \<Rightarrow> bool \<Rightarrow> ('e st, unit) prog" where
  "service_command E cmd service delay fail_on_error =
     (case delay of
        Some d \<Rightarrow> if d \<noteq> 0 then run_service_command_in_background E service cmd d
                  else run_service_command E service cmd fail_on_error
      | None \<Rightarrow> run_service_command E service cmd fail_on_error)"

definition is_enabled :: "'e env \<Rightarrow> string \<Rightarrow> ('e st, bool) prog" where
  "is_enabled E service =
     bindP (list_files E [''/etc/rc.d/[KS]*'' @ service]) (\<lambda>files. ret (0 < length files))"

definition acquire_services :: "('e st, unit) prog" where
  "acquire_services s = (if services_held s then (Block, s) else (Ret (), s\<lparr>services_held := True\<rparr>))"

definition release_services :: "('e st, unit) prog" where
  "release_services s = (Ret (), s\<lparr>services_held := False\<rparr>)"

text \<open>\<^verbatim>\<open>with OpenwrtServices() as services: body\<close>.\<close>

definition with_services :: "('e st, 'a) prog \<Rightarrow> ('e st, 'a) prog" where
  "with_services body = bindP acquire_services (\<lambda>_ s. case body s of
      (Ret x, s') \<Rightarrow> bindP release_services (\<lambda>_. ret x) s'
    | (Raise e, s') \<Rightarrow> bindP release_services (\<lambda>_. raise e) s'
    | (Block, s') \<Rightarrow> (Block, s'))"

section \<open>Maintenance and hostname\<close>

definition restart_network :: "'e env \<Rightarrow> ('e st, unit) prog" where
  "restart_network E = run_command_in_background E [''/usr/bin/maintain-network-restart'']"

definition reboot :: "'e env \<Rightarrow> ('e st, unit) prog" where
  "reboot E = run_command_in_background E [''/usr/bin/maintain-reboot'']"

definition restart_lighttpd :: "'e env \<Rightarrow> ('e st, unit) prog" where
  "restart_lighttpd E = run_command_in_background E [''/usr/bin/maintain-lighttpd-restart'']"

definition generate_backup :: "'e env \<Rightarrow> ('e st, string) prog" where
  "generate_backup E = bindP (run_command E [''/usr/bin/maintain-config-backup''] None) (\<lambda>(rc, out, _).
     if rc \<noteq> 0 then raise (BackendCommandFailed rc [''/usr/bin/maintain-config-backup''])
     else ret (strip out))"

text \<open>\<open>run_updater\<close> is \<^verbatim>\<open>svupdater.run\<close>; \<open>disabled\<close> recognises its \<^verbatim>\<open>ExceptionUpdaterDisabled\<close>.\<close>

definition restore_backup ::
  "'e env \<Rightarrow> (string list \<Rightarrow> ('e st, unit) prog) \<Rightarrow> (exn \<Rightarrow> bool) \<Rightarrow> string \<Rightarrow> ('e st, bool) prog" where
  "restore_backup E run_updater disabled backup =
     bindP (run_command E [''/usr/bin/maintain-config-restore''] (Some backup)) (\<lambda>(rc, _).
       if rc \<noteq> 0 then ret False
       else bindP (tryP (run_updater [''/usr/bin/maintain-reboot-needed'']) disabled (\<lambda>_. ret ()))
              (\<lambda>_. ret True))"

definition reboot_required :: "'e env \<Rightarrow> ('e st, bool) prog" where
  "reboot_required E s = (Ret (env_exists E ''/tmp/device-reboot-required'' (ext s)), s)"

definition get_hostname :: "'e env \<Rightarrow> ('e st, uval) prog" where
  "get_hostname E = bindP (with_uci E (read_uci E ''system''))
     (\<lambda>data. lift (get_option_anonymous data ''system'' ''system'' 0 ''hostname'' (Some (Str ''turris''))))"

definition set_hostname :: "'e env \<Rightarrow> string \<Rightarrow> ('e st, bool) prog" where
  "set_hostname E hostname =
     bindP (with_uci E (set_option E ''system'' ''@system[0]'' ''hostname'' hostname)) (\<lambda>_. ret True)"

end
