(* ===== verification/Guide.thy ===== *)
theory Guide
  imports Services Transactions
begin

text \<open>
  The first-boot guide: workflows and steps of \<^verbatim>\<open>foris_controller/profiles.py\<close>, the device
  information of \<^verbatim>\<open>about\<close> that selects a workflow, and the part of \<^verbatim>\<open>WebUciCommands\<close> that
  records passed steps and reports the guide.
\<close>

section \<open>Workflows\<close>

definition workflows :: "(string \<times> string list) list" where
  "workflows =
    [(''old'', [''password'', ''wan'', ''time'', ''dns'', ''updater'', ''finished'']),
     (''router'', [''password'', ''profile'', ''networks'', ''wan'', ''time'', ''dns'', ''updater'', ''finished'']),
     (''min'', [''password'', ''profile'', ''finished'']),
     (''shield'', [''password'', ''finished'']),
     (''bridge'', [''password'', ''profile'', ''networks'', ''lan'', ''time'', ''dns'', ''updater'', ''finished'']),
     (''unset'', [''password'', ''profile''])]"

definition workflow_steps :: "string \<Rightarrow> string list res" where
  "workflow_steps w = (case map_of workflows w of None \<Rightarrow> Inl (KeyError w) | Some steps \<Rightarrow> Inr steps)"

text \<open>\<^verbatim>\<open>step in passed\<close> on a string looks for a substring.\<close>

fun py_in :: "string \<Rightarrow> uval \<Rightarrow> bool" where
  "py_in x (Lst xs) = (x \<in> set xs)"
| "py_in x (Str s) = contains s x"
| "py_in x _ = False"

text \<open>A dictionary key has to be hashable: a list raises \<^verbatim>\<open>TypeError\<close>.\<close>

fun workflow_of :: "uval \<Rightarrow> string list res" where
  "workflow_of (Str w) = workflow_steps w"
| "workflow_of (Lst _) = Inl TypeError"
| "workflow_of _ = Inl (KeyError [])"

definition next_step :: "uval \<Rightarrow> uval \<Rightarrow> string option res" where
  "next_step passed workflow =
     bindE (workflow_of workflow) (\<lambda>steps. Inr (find (\<lambda>step. \<not> py_in step passed) steps))"

section \<open>Device information\<close>

definition is_version :: "string \<Rightarrow> bool" where
  "is_version line = list_all (\<lambda>p. p \<noteq> [] \<and> list_all is_digit p) (split_on CHR ''.'' line)"

definition match_version :: "string \<Rightarrow> string option" where
  "match_version content = find is_version (split_on newline content)"

definition is_word_char :: "char \<Rightarrow> bool" where
  "is_word_char c = (is_digit c \<or> to_lower c \<noteq> c \<or> to_upper c \<noteq> c \<or> c = CHR ''_'')"

definition match_model :: "string \<Rightarrow> string option" where
  "match_model content = find (\<lambda>l. l \<noteq> [] \<and> is_word_char (hd l)) (split_on newline content)"

text \<open>
  The contract of the kernel command line: in the first line that has one, the last
  \<^verbatim>\<open>turris_lists=contracts/NAME\<close> whose name is followed by a white-space character.
\<close>

definition contract_at :: "string \<Rightarrow> string option" where
  "contract_at s =
     (let key = ''turris_lists=contracts/''; r = drop (length key) s;
          nm = takeWhile (\<lambda>c. \<not> is_space c) r
      in if startswith s key \<and> nm \<noteq> [] \<and> dropWhile (\<lambda>c. \<not> is_space c) r \<noteq> [] then Some nm else None)"

fun last_contract :: "string \<Rightarrow> string option" where
  "last_contract [] = None"
| "last_contract (c # s) = (case last_contract s of Some n \<Rightarrow> Some n | None \<Rightarrow> contract_at (c # s))"

definition lines_with_ends :: "string \<Rightarrow> string list" where
  "lines_with_ends s = (let ls = split_on newline s in map (\<lambda>l. l @ [newline]) (butlast ls) @ [last ls])"

definition match_contract :: "string \<Rightarrow> string option" where
  "match_contract content =
     (case filter (\<lambda>m. m \<noteq> None) (map last_contract (lines_with_ends content)) of
        [] \<Rightarrow> None | m # _ \<Rightarrow> m)"

fun is_parse_failure :: "exn \<Rightarrow> bool" where
  "is_parse_failure (FailedToParseFileContent _ _) = True"
| "is_parse_failure _ = False"

definition get_os_version :: "'e env \<Rightarrow> ('e st, string) prog" where
  "get_os_version E = read_and_parse E ''/etc/turris-version'' match_version"

definition get_contract :: "'e env \<Rightarrow> ('e st, string option) prog" where
  "get_contract E = tryP (bindP (read_and_parse E ''/proc/cmdline'' match_contract) (\<lambda>c. ret (Some c)))
     is_parse_failure (\<lambda>_. ret None)"

definition get_model_name :: "'e env \<Rightarrow> ('e st, string) prog" where
  "get_model_name E = read_and_parse E ''/tmp/sysinfo/model'' match_model"

definition get_model :: "'e env \<Rightarrow> ('e st, string) prog" where
  "get_model E = bindP (get_model_name E) (\<lambda>m.
     ret (if contains m ''Omnia'' then ''omnia'' else if contains m ''Mox'' then ''mox'' else ''turris''))"

section \<open>Selecting a workflow\<close>

definition os_major :: "'e env \<Rightarrow> ('e st, int) prog" where
  "os_major E = bindP (get_os_version E) (\<lambda>v. lift (int_of (hd (split_once CHR ''.'' v))))"

definition detect_basic_workflow :: "'e env \<Rightarrow> ('e st, string) prog" where
  "detect_basic_workflow E = bindP (os_major E) (\<lambda>major.
     if major < 4 then ret ''old''
     else bindP (get_model E) (\<lambda>model.
       if model = ''turris'' then ret ''old''
       else bindP (get_contract E) (\<lambda>contract.
         if contract = Some ''shield'' then ret ''shield'' else ret ''unset'')))"

text \<open>\<open>ifaces\<close> is \<^verbatim>\<open>turrishw.get_ifaces()\<close>: the interfaces with their types.\<close>

definition configurable_ifaces :: "(string \<times> string) list \<Rightarrow> string list" where
  "configurable_ifaces ifaces = map fst (filter (\<lambda>(k, t). t \<noteq> ''wifi'') ifaces)"

definition detect_recommended_workflow :: "'e env \<Rightarrow> (string \<times> string) list \<Rightarrow> ('e st, string) prog" where
  "detect_recommended_workflow E ifaces = bindP (os_major E) (\<lambda>major.
     if major > 3 then
       bindP (get_model E) (\<lambda>model.
         if model = ''turris'' then ret ''old''
         else if length (configurable_ifaces ifaces) > 1 then ret ''router'' else ret ''bridge'')
     else ret ''old'')"

definition detect_available_workflows :: "'e env \<Rightarrow> (string \<times> string) list \<Rightarrow> ('e st, string list) prog" where
  "detect_available_workflows E ifaces = bindP (get_model E) (\<lambda>model. bindP (os_major E) (\<lambda>major.
     if major \<ge> 4 then
       ret (if model = ''turris'' then [''old'']
            else if length (configurable_ifaces ifaces) > 1 then
              filter (\<lambda>e. e \<notin> {''old'', ''unset'', ''shield''}) (map fst workflows)
            else [''min'', ''bridge''])
     else ret (if model \<in> {''turris'', ''omnia''} then [''old''] else [])))"

section \<open>The guide\<close>

fun uval_int :: "uval \<Rightarrow> int res" where
  "uval_int (Str s) = int_of s"
| "uval_int (Num n) = Inr n"
| "uval_int (Flag b) = Inr (if b then 1 else 0)"
| "uval_int (Lst _) = Inl TypeError"

record guide =
  g_enabled :: bool
  g_workflow :: uval
  g_passed :: uval
  g_next_step :: "string option"

definition get_guide_data :: "'e env \<Rightarrow> uci_data \<Rightarrow> ('e st, guide) prog" where
  "get_guide_data E foris_data =
     bindP (lift (bindE (get_option_named foris_data ''foris'' ''wizard'' ''finished'' (Some (Str ''0''))) parse_bool))
       (\<lambda>finished.
     bindP (lift (bindE (get_option_named foris_data ''foris'' ''wizard'' ''allowed_step_max'' (Some (Str ''0''))) uval_int))
       (\<lambda>step.
     bindP (detect_basic_workflow E) (\<lambda>basic.
     bindP (lift (get_option_named foris_data ''foris'' ''wizard'' ''workflow'' (Some (Str basic)))) (\<lambda>workflow.
     bindP (lift (get_option_named foris_data ''foris'' ''wizard'' ''passed'' (Some (Lst [])))) (\<lambda>passed.
     bindP (lift (next_step passed workflow)) (\<lambda>next.
       let enabled = \<not> finished \<and> step < 7 in
       ret \<lparr>g_enabled = enabled, g_workflow = workflow, g_passed = passed,
            g_next_step = (if enabled then next else None)\<rparr>))))))"

text \<open>\<^verbatim>\<open>passed += [step]\<close>: a string cannot be extended by a list.\<close>

fun append_step :: "uval \<Rightarrow> string \<Rightarrow> string list res" where
  "append_step (Lst xs) step = Inr (xs @ [step])"
| "append_step _ step = Inl TypeError"

text \<open>\<^verbatim>\<open>set(passed)\<close>: the members of a list, or the characters of a string.\<close>

fun members :: "uval \<Rightarrow> string set" where
  "members (Lst xs) = set xs"
| "members (Str s) = (\<lambda>c. [c]) ` set s"
| "members _ = {}"

definition finish_if_passed ::
  "'e env \<Rightarrow> ('e st, string) prog \<Rightarrow> uci_data \<Rightarrow> uval \<Rightarrow> ('e st, unit) prog" where
  "finish_if_passed E detect data passed =
     bindP detect (\<lambda>basic.
     bindP (lift (get_option_named data ''foris'' ''wizard'' ''workflow'' (Some (Str basic)))) (\<lambda>workflow.
     bindP (lift (workflow_of workflow)) (\<lambda>steps.
       whenP (set steps \<subseteq> members passed)
         [add_section E ''foris'' ''config'' ''wizard'',
          set_option E ''foris'' ''wizard'' ''finished'' (store_bool True)])))"

text \<open>
  \<open>detect\<close> is \<^verbatim>\<open>WebUciCommands._detect_basic_workflow\<close>. \<^verbatim>\<open>passed += [step]\<close> changes the list inside of the parsed data as well; nothing reads it
  from there again.
\<close>

definition update_passed_body ::
  "'e env \<Rightarrow> ('e st, string) prog \<Rightarrow> string \<Rightarrow> ('e st, unit) prog" where
  "update_passed_body E detect step =
     bindP (read_uci E ''foris'') (\<lambda>data.
     bindP (lift (get_option_named data ''foris'' ''wizard'' ''passed'' (Some (Lst [])))) (\<lambda>passed.
       if \<not> py_in step passed then
         bindP (lift (append_step passed step)) (\<lambda>passed'.
           block [add_section E ''foris'' ''config'' ''wizard'',
                  replace_list E ''foris'' ''wizard'' ''passed'' passed',
                  finish_if_passed E detect data (Lst passed')])
       else finish_if_passed E detect data passed))"

definition update_passed :: "'e env \<Rightarrow> string \<Rightarrow> ('e st, unit) prog" where
  "update_passed E step = with_uci E (update_passed_body E (detect_basic_workflow E) step)"

text \<open>The best-effort call of the other components: \<^verbatim>\<open>UciException\<close> is swallowed.\<close>

definition try_update_passed :: "'e env \<Rightarrow> string \<Rightarrow> ('e st, unit) prog" where
  "try_update_passed E step = tryP (update_passed E step) is_uci_exception (\<lambda>_. ret ())"

record guide_choice =
  current_workflow :: uval
  recommended_workflow :: string
  available_workflows :: "string list"

definition get_guide :: "'e env \<Rightarrow> (string \<times> string) list \<Rightarrow> ('e st, guide_choice) prog" where
  "get_guide E ifaces =
     bindP (with_uci E (read_uci E ''foris'')) (\<lambda>data.
     bindP (detect_basic_workflow E) (\<lambda>basic.
     bindP (lift (get_option_named data ''foris'' ''wizard'' ''workflow'' (Some (Str basic)))) (\<lambda>current.
     bindP (detect_recommended_workflow E ifaces) (\<lambda>recommended.
     bindP (detect_available_workflows E ifaces) (\<lambda>available.
       ret \<lparr>current_workflow = current, recommended_workflow = recommended, available_workflows = available\<rparr>)))))"

fun is_uci_error :: "exn \<Rightarrow> bool" where
  "is_uci_error (UciException _) = True"
| "is_uci_error (UciRecordNotFound _) = True"
| "is_uci_error _ = False"

definition reset_guide :: "'e env \<Rightarrow> string option \<Rightarrow> ('e st, bool) prog" where
  "reset_guide E new_workflow =
     tryP (bindP (with_uci E
         (bindP (block [del_option E ''foris'' ''wizard'' ''passed'' False,
                        del_option E ''foris'' ''wizard'' ''finished'' False,
                        add_section E ''foris'' ''config'' ''wizard'']) (\<lambda>_.
          bindP (case new_workflow of Some (c # w) \<Rightarrow> ret (c # w) | _ \<Rightarrow> detect_basic_workflow E) (\<lambda>workflow.
            set_option E ''foris'' ''wizard'' ''workflow'' workflow))))
       (\<lambda>_. ret True)) is_uci_error (\<lambda>_. ret False)"

section \<open>Recording a step\<close>

lemma guide_names [simp]:
  "valid_name ''foris''" "valid_name ''config''" "valid_name ''wizard''" "valid_name ''passed''"
  "valid_name ''finished''" "valid_name ''workflow''" "\<not> is_anonymous_name ''wizard''"
  by (simp_all add: valid_name_def name_char_def is_anonymous_name_def)

context uci_tool
begin

lemma sim_finish_if_passed:
  "sim (rel view) d d' \<Longrightarrow>
    sim (rel view) (finish_if_passed E d data passed) (finish_if_passed R d' data passed)"
  unfolding finish_if_passed_def
  by (intro sim_intros sim_add_section sim_set_option valid_sec_name) simp_all

lemma sim_update_passed_body:
  "sim (rel view) d d' \<Longrightarrow>
    sim (rel view) (update_passed_body E d step) (update_passed_body R d' step)"
  unfolding update_passed_body_def
  by (intro sim_intros sim_read_uci sim_add_section sim_replace_list sim_finish_if_passed valid_sec_name)
     simp_all

end

lemma exec_finish_if_passed:
  assumes "staged (ext t) ''foris'' = Some F2" "map_of data ''foris'' = Some F"
    "lk F ''wizard'' ''workflow'' = Some (Str w)" "map_of workflows w = Some steps"
  shows "finish_if_passed (ref_env nm cd ord) (ret b) data passed t =
    (Ret (), if set steps \<subseteq> members passed
      then put ''foris'' (set_opt ''wizard'' ''finished'' (Str (store_bool True)) (set_sec ''wizard'' ''config'' F2)) t
      else t)"
  using assms
  by (simp add: finish_if_passed_def bindP_def get_option_named_eq workflow_steps_def whenP_def
      exec_simps store_simps prog_basic)

lemma exec_update_passed_body:
  assumes "staged (ext t) ''foris'' = Some F" "wf_config F"
    "lk F ''wizard'' ''passed'' = (if xs = [] then None else Some (Lst xs))" "step \<notin> set xs"
    "lk F ''wizard'' ''workflow'' = Some (Str w)" "map_of workflows w = Some steps"
  defines "F1 \<equiv> set_opt ''wizard'' ''passed'' (Lst (xs @ [step]))
    (del_opt ''wizard'' ''passed'' (set_sec ''wizard'' ''config'' F))"
  shows "update_passed_body (ref_env nm cd ord) (ret b) step t =
    (Ret (), put ''foris'' (if set steps \<subseteq> set (xs @ [step])
      then set_opt ''wizard'' ''finished'' (Str (store_bool True)) (set_sec ''wizard'' ''config'' F1) else F1) t)"
proof -
  have get: "get_option_named [(''foris'', F)] ''foris'' ''wizard'' ''passed'' (Some (Lst [])) = Inr (Lst xs)"
    using assms(3) by (simp add: get_option_named_eq)
  have fin: "finish_if_passed (ref_env nm cd ord) (ret b) [(''foris'', F)] (Lst (xs @ [step])) t' =
    (Ret (), if set steps \<subseteq> members (Lst (xs @ [step]))
      then put ''foris'' (set_opt ''wizard'' ''finished'' (Str (store_bool True)) (set_sec ''wizard'' ''config'' F1)) t'
      else t')" if "staged (ext t') ''foris'' = Some F1" for t'
    using exec_finish_if_passed [OF that, of "[(''foris'', F)]" F w steps] assms(5,6) by simp
  show ?thesis
    unfolding update_passed_body_def
    using assms(1-4)
    by (simp add: bindP_def exec_simps store_simps prog_basic get fin F1_def [symmetric] del: set_append)
qed

text \<open>The precondition the write operations of a component share.\<close>

definition ready :: "('e \<Rightarrow> store) \<Rightarrow> 'e st \<Rightarrow> bool" where
  "ready view s \<longleftrightarrow> \<not> uci_held s \<and> (\<forall>c\<in>set (affected s). valid_name c)"

text \<open>The config of the guide after a step was recorded.\<close>

definition recorded :: "string list \<Rightarrow> string list \<Rightarrow> string \<Rightarrow> usection list \<Rightarrow> usection list" where
  "recorded steps xs step F =
     (let F1 = set_opt ''wizard'' ''passed'' (Lst (xs @ [step])) (del_opt ''wizard'' ''passed'' (set_sec ''wizard'' ''config'' F))
      in if set steps \<subseteq> set (xs @ [step])
         then set_opt ''wizard'' ''finished'' (Str (store_bool True)) (set_sec ''wizard'' ''config'' F1) else F1)"

lemma lk_recorded:
  "lk (recorded steps xs step F) ''wizard'' ''passed'' = Some (Lst (xs @ [step]))"
  "lk (recorded steps xs step F) ''wizard'' ''finished'' =
    (if set steps \<subseteq> set (xs @ [step]) then Some (Str (store_bool True)) else lk F ''wizard'' ''finished'')"
  "sec \<noteq> ''wizard'' \<Longrightarrow> lk (recorded steps xs step F) sec p = lk F sec p"
  by (simp_all add: recorded_def Let_def store_simps)

lemma update_passed_outcome:
  assumes "uci_tool E nm view" "ready view s"
    and "sim (rel view) (detect_basic_workflow E) (ret b)"
    and "committed (view (ext s)) ''foris'' = Some F" "wf_config F"
    and "lk F ''wizard'' ''passed'' = (if xs = [] then None else Some (Lst xs))" "step \<notin> set xs"
    and "lk F ''wizard'' ''workflow'' = Some (Str w)" "map_of workflows w = Some steps"
  shows "\<exists>s'. update_passed E step s = (Ret (), s') \<and> ready view s' \<and>
    committed (view (ext s')) = (committed (view (ext s)))(''foris'' \<mapsto> recorded steps xs step F)"
proof -
  let ?F = "recorded steps xs step F"
  let ?R = "ref_env nm (env_config_dir E) (env_set_order E)"
  have "staged (ext (opened (abs_st view s))) ''foris'' = Some F"
    using assms(4) by (simp add: store_simps abs_st_def)
  from exec_update_passed_body [OF this assms(5-9)]
  have run: "update_passed_body ?R (ret b) step (opened (abs_st view s)) = (Ret (), put ''foris'' ?F (opened (abs_st view s)))"
    by (simp only: recorded_def Let_def)
  have "\<exists>s'. with_uci E (update_passed_body E (detect_basic_workflow E) step) s = (Ret (), s') \<and> \<not> uci_held s' \<and>
      services_held s' = services_held (put ''foris'' ?F (opened (abs_st view s))) \<and>
      (\<forall>c\<in>set (affected s'). valid_name c) \<and>
      committed (view (ext s')) = (\<lambda>c. if c \<in> set (affected (put ''foris'' ?F (opened (abs_st view s))))
        then staged (ext (put ''foris'' ?F (opened (abs_st view s)))) c
        else committed (ext (put ''foris'' ?F (opened (abs_st view s)))) c)"
    using assms(2)
    by (intro transaction_outcome [OF assms(1), of _ "\<lambda>R. update_passed_body R (ret b) step"]
        uci_tool.sim_update_passed_body [OF assms(1,3)])
       (simp_all add: run ready_def store_simps)
  then show ?thesis
    by (auto simp: update_passed_def store_simps ready_def abs_st_def fun_eq_iff)
qed


text \<open>A device of the current generation, on which the workflow is not chosen yet.\<close>

definition demo_device :: "store env" where
  "demo_device = demo_env\<lparr>env_read_file := (\<lambda>path \<sigma>. Inr (if path = ''/etc/turris-version'' then ''6.4''
     else if path = ''/tmp/sysinfo/model'' then ''CZ.NIC Turris Omnia'' else []))\<rparr>"

lemma demo_device_tool: "uci_tool demo_device demo_name (\<lambda>\<sigma>. \<sigma>)"
  using uci_tool_files [where ord = "\<lambda>xs. xs" and nm = demo_name and cd = "''/etc/config/''"
      and rd = "env_read_file demo_device" and gl = "env_glob demo_env" and exs = "env_exists demo_env"]
  by (simp add: demo_device_def demo_env_def)

lemma demo_device_detects: "detect_basic_workflow demo_device s = (Ret ''unset'', s)"
proof -
  have fc: "file_content demo_device path s = (Ret (if path = ''/etc/turris-version'' then ''6.4''
     else if path = ''/tmp/sysinfo/model'' then ''CZ.NIC Turris Omnia'' else []), s)" for path
    by (simp add: file_content_def demo_device_def demo_env_def ref_env_def inject_file_root_def inject_root_def lift_def)
  have "match_version ''6.4'' = Some ''6.4''" "hd (split_once CHR ''.'' ''6.4'') = ''6''" "int_of ''6'' = Inr 6"
    "match_model ''CZ.NIC Turris Omnia'' = Some ''CZ.NIC Turris Omnia''"
    "contains ''CZ.NIC Turris Omnia'' ''Omnia''" "match_contract [] = None"
    by code_simp+
  then show ?thesis
    by (simp add: detect_basic_workflow_def os_major_def get_os_version_def get_model_def get_model_name_def
        get_contract_def read_and_parse_def bindP_def tryP_def fc ret_def raise_def lift_def)
qed

definition demo_foris :: "usection list" where
  "demo_foris = [\<lparr>sec_type = ''config'', sec_name = ''wizard'',
     sec_data = [(''workflow'', Str ''min''), (''passed'', Lst [''password'', ''profile''])], anonymous = False\<rparr>]"


end
