(* ===== verification/Utils.thy ===== *)
theory Utils
  imports UciData "HOL-Library.List_Lexorder" "HOL-Library.Multiset"
begin

text \<open>
  Helpers of \<^verbatim>\<open>foris_controller/utils.py\<close> on lists: \<^verbatim>\<open>unwrap_list\<close>, \<^verbatim>\<open>parse_to_list\<close> and the
  natural sorting of interface names, with the proof that its comparisons never mix numbers
  and strings, hence never raise.
\<close>

definition unwrap_list :: "uval \<Rightarrow> uval" where
  "unwrap_list v = (if \<not> truthy v then Str [] else case v of Lst (x # _) \<Rightarrow> Str x | _ \<Rightarrow> v)"

definition parse_to_list :: "uval \<Rightarrow> uval list" where
  "parse_to_list v = (if \<not> truthy v then [Str []] else case v of Lst xs \<Rightarrow> map Str xs | _ \<Rightarrow> [v])"

section \<open>Natural sorting\<close>

datatype key_part = Number nat | Text string

text \<open>
  \<^verbatim>\<open>re.split(r"(\d+)", s)\<close>: text and digits alternate, starting and ending with a text that
  may be empty. A piece of digits becomes a number, any other is lower-cased.
\<close>

function (sequential) split_digits :: "string \<Rightarrow> string list" where
  "split_digits s =
     (let t = takeWhile (\<lambda>c. \<not> is_digit c) s; r = dropWhile (\<lambda>c. \<not> is_digit c) s in
      if r = [] then [t]
      else t # takeWhile is_digit r # split_digits (dropWhile is_digit r))"
  by pat_completeness auto
termination
proof (relation "measure length")
  fix s t and r :: string
  assume r: "r = dropWhile (\<lambda>c. \<not> is_digit c) s" "r \<noteq> []"
  then have "is_digit (hd r)" using hd_dropWhile [of "\<lambda>c. \<not> is_digit c" s] by simp
  with r(2) have "length (dropWhile is_digit r) < length r"
    by (cases r) (auto simp: le_imp_less_Suc length_dropWhile_le)
  also have "length r \<le> length s" unfolding r by (rule length_dropWhile_le)
  finally show "(dropWhile is_digit r, s) \<in> measure length" by simp
qed simp

declare split_digits.simps [simp del]

definition isdigit :: "string \<Rightarrow> bool" where
  "isdigit s = (s \<noteq> [] \<and> list_all is_digit s)"

definition key_of_piece :: "string \<Rightarrow> key_part" where
  "key_of_piece s = (if isdigit s then Number (nat (the (py_int s))) else Text (lower s))"

definition natural_key :: "string \<Rightarrow> key_part list" where
  "natural_key s = map key_of_piece (split_digits s)"

text \<open>Comparison of keys as Python lists: the first differing elements decide.\<close>

fun part_less :: "key_part \<Rightarrow> key_part \<Rightarrow> bool res" where
  "part_less (Number m) (Number n) = Inr (m < n)"
| "part_less (Text s) (Text t) = Inr (s < t)"
| "part_less _ _ = Inl TypeError"

fun key_less :: "key_part list \<Rightarrow> key_part list \<Rightarrow> bool res" where
  "key_less _ [] = Inr False"
| "key_less [] (_ # _) = Inr True"
| "key_less (a # as) (b # bs) = (if a = b then key_less as bs else part_less a b)"

text \<open>\<^verbatim>\<open>sorted\<close> is stable; a stable insertion with the same comparison gives its result.\<close>

fun insert_by_key :: "string \<Rightarrow> string list \<Rightarrow> string list res" where
  "insert_by_key x [] = Inr [x]"
| "insert_by_key x (y # ys) =
     bindE (key_less (natural_key y) (natural_key x)) (\<lambda>b.
       if b then bindE (insert_by_key x ys) (\<lambda>zs. Inr (y # zs)) else Inr (x # y # ys))"

fun sort_by_natural_order :: "string list \<Rightarrow> string list res" where
  "sort_by_natural_order [] = Inr []"
| "sort_by_natural_order (x # xs) = bindE (sort_by_natural_order xs) (insert_by_key x)"

section \<open>Keys are comparable\<close>

text \<open>Even positions hold texts, odd ones numbers.\<close>

fun alternating :: "bool \<Rightarrow> key_part list \<Rightarrow> bool" where
  "alternating txt_first [] = True"
| "alternating txt_first (Text _ # ks) = (txt_first \<and> alternating False ks)"
| "alternating txt_first (Number _ # ks) = (\<not> txt_first \<and> alternating True ks)"

lemma key_of_text: "\<forall>c\<in>set s. \<not> is_digit c \<Longrightarrow> key_of_piece s = Text (lower s)"
  by (cases s) (auto simp: key_of_piece_def isdigit_def)

lemma key_of_digits: "s \<noteq> [] \<Longrightarrow> \<forall>c\<in>set s. is_digit c \<Longrightarrow> \<exists>n. key_of_piece s = Number n"
  by (auto simp: key_of_piece_def isdigit_def list_all_iff)

lemma set_takeWhile_digits: "\<forall>c\<in>set (takeWhile is_digit s). is_digit c"
  by (auto dest: set_takeWhileD)

lemma natural_key_alternating: "alternating True (natural_key s)"
proof (induction s rule: split_digits.induct)
  case (1 s)
  let ?t = "takeWhile (\<lambda>c. \<not> is_digit c) s" and ?r = "dropWhile (\<lambda>c. \<not> is_digit c) s"
  have t: "key_of_piece ?t = Text (lower ?t)"
    by (intro key_of_text) (auto dest: set_takeWhileD)
  show ?case
  proof (cases "?r = []")
    case True
    then have "split_digits s = [?t]" by (subst split_digits.simps) (simp only: Let_def if_True refl)
    with t show ?thesis by (simp only: natural_key_def list.map alternating.simps simp_thms)
  next
    case False
    then have "is_digit (hd ?r)" using hd_dropWhile [of "\<lambda>c. \<not> is_digit c" s] by simp
    with False have "takeWhile is_digit ?r \<noteq> []" by (cases ?r) auto
    then obtain n where n: "key_of_piece (takeWhile is_digit ?r) = Number n"
      using key_of_digits [OF _ set_takeWhile_digits] by blast
    have "alternating True (natural_key (dropWhile is_digit ?r))"
      using "1.IH" [OF refl refl False] .
    moreover have "split_digits s = ?t # takeWhile is_digit ?r # split_digits (dropWhile is_digit ?r)"
      using False by (subst split_digits.simps) (simp only: Let_def if_False)
    ultimately show ?thesis
      using t n by (simp only: natural_key_def list.map alternating.simps simp_thms not_False_eq_True)
  qed
qed

text \<open>On comparable keys the comparison is a strict order.\<close>

fun key_lt :: "key_part list \<Rightarrow> key_part list \<Rightarrow> bool" where
  "key_lt _ [] = False"
| "key_lt [] (_ # _) = True"
| "key_lt (Number m # as) (Number n # bs) = (m < n \<or> m = n \<and> key_lt as bs)"
| "key_lt (Text s # as) (Text t # bs) = (s < t \<or> s = t \<and> key_lt as bs)"
| "key_lt _ _ = False"

lemma key_less_alternating:
  "alternating b as \<Longrightarrow> alternating b bs \<Longrightarrow> key_less as bs = Inr (key_lt as bs)"
proof (induction as bs arbitrary: b rule: key_less.induct)
  case (3 a as c bs)
  then show ?case by (cases a; cases c) auto
qed auto

lemma key_lt_trans:
  "alternating x as \<Longrightarrow> alternating x bs \<Longrightarrow> alternating x cs \<Longrightarrow>
    \<not> key_lt bs as \<Longrightarrow> \<not> key_lt cs bs \<Longrightarrow> \<not> key_lt cs as"
proof (induction as arbitrary: x bs cs)
  case Nil
  then show ?case by (cases bs; cases cs) auto
next
  case (Cons a as)
  obtain b bs' where bs: "bs = b # bs'" using Cons.prems(4) by (cases bs; cases a) auto
  obtain c cs' where cs: "cs = c # cs'" using Cons.prems(5) unfolding bs by (cases cs; cases b) auto
  show ?case
    using Cons.prems Cons.IH [of False bs' cs'] Cons.IH [of True bs' cs'] unfolding bs cs
    by (cases a; cases b; cases c) (simp_all, (metis less_trans not_less_iff_gr_or_eq)+)
qed

lemma key_lt_asym: "alternating x as \<Longrightarrow> alternating x bs \<Longrightarrow> key_lt as bs \<Longrightarrow> \<not> key_lt bs as"
proof (induction as arbitrary: x bs)
  case Nil
  then show ?case by (cases bs) auto
next
  case (Cons a as)
  then show ?case
    by (cases bs; cases a; cases "hd bs") auto
qed

definition natural_le :: "string \<Rightarrow> string \<Rightarrow> bool" where
  "natural_le s t = (\<not> key_lt (natural_key t) (natural_key s))"

lemma natural_le_trans: "natural_le a b \<Longrightarrow> natural_le b c \<Longrightarrow> natural_le a c"
  unfolding natural_le_def
  by (rule key_lt_trans [of True]) (auto simp: natural_key_alternating)

lemma insert_by_key_ok:
  "\<exists>zs. insert_by_key x ys = Inr zs \<and> mset zs = add_mset x (mset ys) \<and>
    (sorted_wrt natural_le ys \<longrightarrow> sorted_wrt natural_le zs)"
proof (induction ys)
  case Nil
  then show ?case by simp
next
  case (Cons y ys)
  then obtain zs where zs: "insert_by_key x ys = Inr zs" "mset zs = add_mset x (mset ys)"
      "sorted_wrt natural_le ys \<longrightarrow> sorted_wrt natural_le zs"
    by blast
  have less: "key_less (natural_key y) (natural_key x) = Inr (key_lt (natural_key y) (natural_key x))"
    by (rule key_less_alternating [of True]) (simp_all add: natural_key_alternating)
  show ?case
  proof (cases "key_lt (natural_key y) (natural_key x)")
    case True
    then have "natural_le y x"
      using key_lt_asym [of True] by (simp add: natural_le_def natural_key_alternating)
    moreover have "set zs = insert x (set ys)"
      using zs(2) by (metis set_mset_add_mset_insert set_mset_mset)
    ultimately show ?thesis using True less zs by auto
  next
    case False
    then have "natural_le x y" by (simp add: natural_le_def)
    with False less show ?thesis by (auto intro: natural_le_trans)
  qed
qed

lemma natural_sort_ok:
  "\<exists>ys. sort_by_natural_order xs = Inr ys \<and> mset ys = mset xs \<and> sorted_wrt natural_le ys"
proof (induction xs)
  case Nil
  then show ?case by simp
next
  case (Cons x xs)
  then obtain ys where "sort_by_natural_order xs = Inr ys" "mset ys = mset xs" "sorted_wrt natural_le ys"
    by blast
  then show ?case using insert_by_key_ok [of x ys] by auto
qed

text \<open>Insertion is stable: only strictly smaller elements are passed over.\<close>

lemma insert_by_key_stable:
  "insert_by_key x ys = Inr zs \<Longrightarrow>
    filter (\<lambda>s. natural_key s = k) zs = filter (\<lambda>s. natural_key s = k) (x # ys)"
proof (induction ys arbitrary: zs)
  case (Cons y ys)
  have less: "key_less (natural_key y) (natural_key x) = Inr (key_lt (natural_key y) (natural_key x))"
    by (rule key_less_alternating [of True]) (simp_all add: natural_key_alternating)
  show ?case
  proof (cases "key_lt (natural_key y) (natural_key x)")
    case True
    then have "natural_key y \<noteq> natural_key x"
      using key_lt_asym [of True "natural_key y" "natural_key x"] natural_key_alternating by auto
    moreover obtain ws where "insert_by_key x ys = Inr ws" "zs = y # ws"
      using Cons.prems less True by (auto simp: bindE_eq_Inr)
    ultimately show ?thesis using Cons.IH [of ws] by auto
  next
    case False
    then show ?thesis using Cons.prems less by simp
  qed
qed simp

text \<open>
  C7: natural sorting never raises, and returns a permutation of its argument in ascending
  order of the keys in which elements of equal keys keep their order, as \<^verbatim>\<open>sorted\<close> promises.
\<close>

theorem sort_by_natural_order_sorts:
  "\<exists>ys. sort_by_natural_order xs = Inr ys \<and> mset ys = mset xs \<and> sorted_wrt natural_le ys \<and>
    (\<forall>k. filter (\<lambda>s. natural_key s = k) ys = filter (\<lambda>s. natural_key s = k) xs)"
proof (induction xs)
  case Nil
  then show ?case by simp
next
  case (Cons x xs)
  then obtain ys where ys: "sort_by_natural_order xs = Inr ys" "mset ys = mset xs" "sorted_wrt natural_le ys"
      "\<forall>k. filter (\<lambda>s. natural_key s = k) ys = filter (\<lambda>s. natural_key s = k) xs" by blast
  obtain zs where zs: "insert_by_key x ys = Inr zs" "mset zs = add_mset x (mset ys)" "sorted_wrt natural_le zs"
    using insert_by_key_ok [of x ys] ys(3) by blast
  show ?case using ys zs insert_by_key_stable [OF zs(1)] by simp
qed

end
