(* ===== verification/IpAddr.thy ===== *)
theory IpAddr
  imports PyStr "HOL-Library.Word"
begin

text \<open>
  IP addresses as the code uses Python's \<^verbatim>\<open>ipaddress\<close> module: parsing of addresses and
  netmasks, networks, and on top of them the dynamic-range checks of
  \<^verbatim>\<open>foris_controller/utils.py\<close>. An address is its integer; the addition of an offset
  raises outside of the 32 bits. Networks are IPv4: the message schemas admit no other
  router address.
\<close>

unbundle bit_operations_syntax

section \<open>Addresses\<close>

datatype ip = V4 int | V6 int

definition all_ones :: int where
  "all_ones = 4294967295"

text \<open>An octet of the dotted form: one to three ASCII digits, no leading zero, at most 255.\<close>

definition parse_octet :: "string \<Rightarrow> int option" where
  "parse_octet s =
     (if s = [] \<or> 3 < length s \<or> \<not> list_all is_digit s \<or> (s \<noteq> ''0'' \<and> hd s = CHR ''0'') then None
      else case digits_val 0 False s of
          None \<Rightarrow> None
        | Some n \<Rightarrow> if n \<le> 255 then Some (int n) else None)"

definition parse_ipv4 :: "string \<Rightarrow> int option" where
  "parse_ipv4 s = (case map parse_octet (split_on CHR ''.'' s) of
      [Some a, Some b, Some c, Some d] \<Rightarrow> Some (((a * 256 + b) * 256 + c) * 256 + d)
    | _ \<Rightarrow> None)"

definition show_ipv4 :: "int \<Rightarrow> string" where
  "show_ipv4 n = join ''.''
     (map show_int [n div 16777216, n div 65536 mod 256, n div 256 mod 256, n mod 256])"

definition hex_val :: "char \<Rightarrow> int option" where
  "hex_val c = (let n = (of_char c :: nat) in
     if 48 \<le> n \<and> n \<le> 57 then Some (int n - 48)
     else if 97 \<le> n \<and> n \<le> 102 then Some (int n - 87)
     else if 65 \<le> n \<and> n \<le> 70 then Some (int n - 55) else None)"

fun hextet_from :: "int \<Rightarrow> string \<Rightarrow> int option" where
  "hextet_from acc [] = Some acc"
| "hextet_from acc (c # cs) = (case hex_val c of None \<Rightarrow> None | Some d \<Rightarrow> hextet_from (16 * acc + d) cs)"

definition parse_hextet :: "string \<Rightarrow> int option" where
  "parse_hextet s = (if s = [] \<or> 4 < length s then None else hextet_from 0 s)"

fun hextets_val :: "int \<Rightarrow> string list \<Rightarrow> int option" where
  "hextets_val acc [] = Some acc"
| "hextets_val acc (p # ps) =
     (case parse_hextet p of None \<Rightarrow> None | Some v \<Rightarrow> hextets_val (acc * 65536 + v) ps)"

text \<open>
  The colon form: a trailing dotted part counts as two groups; at most one empty inner
  group (\<^verbatim>\<open>::\<close>), which stands for at least one group of zeros; without it exactly eight.
\<close>

definition parse_ipv6_groups :: "string list \<Rightarrow> int option" where
  "parse_ipv6_groups parts =
     (let n = length parts;
          skips = filter (\<lambda>i. parts ! i = []) [1..<n - 1]
      in if 9 < n \<or> 1 < length skips then None
         else case skips of
            [] \<Rightarrow> if n = 8 then hextets_val 0 parts else None
          | i # _ \<Rightarrow>
              let hi = (if hd parts = [] then i - 1 else i);
                  lo = (if last parts = [] then n - i - 2 else n - i - 1)
              in if (hd parts = [] \<and> hi \<noteq> 0) \<or> (last parts = [] \<and> lo \<noteq> 0) \<or> 8 < hi + lo + 1 then None
                 else case hextets_val 0 (take hi parts) of None \<Rightarrow> None
                   | Some h \<Rightarrow> hextets_val (h * 65536 ^ (8 - (hi + lo))) (drop (n - lo) parts))"

definition parse_ipv6_addr :: "string \<Rightarrow> int option" where
  "parse_ipv6_addr s =
     (let parts = split_on CHR '':'' s in
      if length parts < 3 then None
      else if CHR ''.'' \<in> set (last parts) then
        (case parse_ipv4 (last parts) of None \<Rightarrow> None
         | Some v4 \<Rightarrow> (case parse_ipv6_groups (butlast parts @ [''0'', ''0'']) of None \<Rightarrow> None
            | Some v \<Rightarrow> Some (v + v4)))
      else parse_ipv6_groups parts)"

text \<open>An optional scope id, \<^verbatim>\<open>addr%scope\<close>, must not be empty.\<close>

definition parse_ipv6 :: "string \<Rightarrow> int option" where
  "parse_ipv6 s = (case split_on CHR ''%'' s of
      [a] \<Rightarrow> parse_ipv6_addr a
    | [a, scope] \<Rightarrow> (if scope = [] then None else parse_ipv6_addr a)
    | _ \<Rightarrow> None)"

definition ip_address :: "string \<Rightarrow> ip res" where
  "ip_address s = (case parse_ipv4 s of Some n \<Rightarrow> Inr (V4 n)
     | None \<Rightarrow> (case parse_ipv6 s of Some n \<Rightarrow> Inr (V6 n) | None \<Rightarrow> Inl ValueError))"

text \<open>\<^verbatim>\<open>IPv4Address(int(self) + offset)\<close>.\<close>

definition addr_add :: "int \<Rightarrow> int \<Rightarrow> int res" where
  "addr_add a k = (if 0 \<le> a + k \<and> a + k \<le> all_ones then Inr (a + k) else Inl AddressValueError)"

section \<open>Networks\<close>

text \<open>The number of trailing zero bits of \<open>n\<close>, at most \<open>k\<close>.\<close>

fun trailing_zeroes :: "nat \<Rightarrow> int \<Rightarrow> nat" where
  "trailing_zeroes 0 n = 0"
| "trailing_zeroes (Suc k) n = (if n mod 2 = 1 then 0 else Suc (trailing_zeroes k (n div 2)))"

definition prefix_from_ip_int :: "int \<Rightarrow> nat option" where
  "prefix_from_ip_int n =
     (let tz = trailing_zeroes 32 n; p = 32 - tz
      in if n div 2 ^ tz = 2 ^ p - 1 then Some p else None)"

text \<open>A netmask text: a prefix length, a netmask or a host mask.\<close>

definition make_netmask :: "string \<Rightarrow> nat option" where
  "make_netmask s =
     (case (if s \<noteq> [] \<and> list_all is_digit s then digits_val 0 False s else None) of
        Some p \<Rightarrow> if p \<le> 32 then Some p else None
      | None \<Rightarrow>
          (case parse_ipv4 s of None \<Rightarrow> None
           | Some n \<Rightarrow> (case prefix_from_ip_int n of Some p \<Rightarrow> Some p
              | None \<Rightarrow> prefix_from_ip_int (all_ones - n))))"

definition netmask_of :: "nat \<Rightarrow> int" where
  "netmask_of p = 2 ^ 32 - 2 ^ (32 - p)"

record network =
  network_address :: int
  prefixlen :: nat

text \<open>\<^verbatim>\<open>ipaddress.ip_network(f"{ip}/{netmask}", strict=False)\<close>.\<close>

definition ip_network :: "ip \<Rightarrow> string \<Rightarrow> network res" where
  "ip_network a netmask = (case a of
      V6 _ \<Rightarrow> Inl ValueError
    | V4 n \<Rightarrow> (case make_netmask netmask of None \<Rightarrow> Inl ValueError
        | Some p \<Rightarrow> Inr \<lparr>network_address = n AND netmask_of p, prefixlen = p\<rparr>))"

definition in_net :: "int \<Rightarrow> network \<Rightarrow> bool" where
  "in_net a nw = (a AND netmask_of (prefixlen nw) = network_address nw)"

definition ip_in_net :: "ip \<Rightarrow> network \<Rightarrow> bool" where
  "ip_in_net a nw = (case a of V4 n \<Rightarrow> in_net n nw | V6 _ \<Rightarrow> False)"

section \<open>Dynamic ranges\<close>

definition check_dynamic_ranges :: "string \<Rightarrow> string \<Rightarrow> int \<Rightarrow> int \<Rightarrow> bool res" where
  "check_dynamic_ranges router_ip netmask start limit =
     bindE (ip_address router_ip) (\<lambda>ip.
     bindE (ip_network ip netmask) (\<lambda>nw.
       case bindE (addr_add (network_address nw) start)
              (\<lambda>first. bindE (addr_add first limit) (\<lambda>last_ip. Inr (first, last_ip))) of
         Inl AddressValueError \<Rightarrow> Inr False
       | Inl e \<Rightarrow> Inl e
       | Inr (first, last_ip) \<Rightarrow>
           Inr (if \<not> in_net first nw \<or> \<not> in_net last_ip nw then False
                else case ip of V4 n \<Rightarrow> \<not> (first \<le> n \<and> n \<le> last_ip) | V6 _ \<Rightarrow> True)))"

definition ip_network_address :: "ip \<Rightarrow> string \<Rightarrow> int res" where
  "ip_network_address a netmask = bindE (ip_network a netmask) (\<lambda>nw. Inr (network_address nw))"

section \<open>Facts about masks and networks\<close>

lemma digits_val_ge: "digits_val acc p s = Some n \<Longrightarrow> acc \<le> n"
  by (induction acc p s arbitrary: n rule: digits_val.induct) (fastforce split: if_splits)+

lemma parse_octet_bounds: "parse_octet s = Some n \<Longrightarrow> 0 \<le> n \<and> n \<le> 255"
  by (auto simp: parse_octet_def split: if_splits option.splits)

lemma parse_ipv4_bounds: "parse_ipv4 s = Some n \<Longrightarrow> 0 \<le> n \<and> n \<le> all_ones"
  by (auto simp: parse_ipv4_def all_ones_def split: list.splits option.splits dest!: parse_octet_bounds)

text \<open>The dotted form is canonical: printing a parsed address gives the text back.\<close>

lemma parse_octet_show: "parse_octet s = Some n \<Longrightarrow> show_int n = s"
proof -
  assume p: "parse_octet s = Some n"
  then have s: "s \<noteq> []" "list_all is_digit s" "s = ''0'' \<or> hd s \<noteq> CHR ''0''"
    by (auto simp: parse_octet_def split: if_splits)
  then obtain v where "digits_val 0 True s = Some v" "show_nat v = s"
    using show_nat_digits_val by blast
  then show ?thesis
    using p digits_val_flag [OF s(1,2), of 0 False True]
    by (auto simp: parse_octet_def show_int_def split: if_splits)
qed

lemma parse_ipv4_show: "parse_ipv4 s = Some n \<Longrightarrow> show_ipv4 n = s"
proof -
  assume p: "parse_ipv4 s = Some n"
  then obtain ws a b c d where sp: "split_on CHR ''.'' s = ws"
    and ws: "map parse_octet ws = [Some a, Some b, Some c, Some d]"
    and n: "n = ((a * 256 + b) * 256 + c) * 256 + d"
    by (auto simp: parse_ipv4_def split: list.splits option.splits)
  from ws obtain w x y z where w: "ws = [w, x, y, z]" "parse_octet w = Some a"
    "parse_octet x = Some b" "parse_octet y = Some c" "parse_octet z = Some d"
    by (auto simp: map_eq_Cons_conv)
  then have bounds: "0 \<le> a" "a \<le> 255" "0 \<le> b" "b \<le> 255" "0 \<le> c" "c \<le> 255" "0 \<le> d" "d \<le> 255"
    by (auto dest!: parse_octet_bounds)
  have "n mod 256 = d mod 256" unfolding n by (rule mod_mult_self3)
  then have "n mod 256 = d" using bounds by simp
  moreover have d1: "n div 256 = (a * 256 + b) * 256 + c" using bounds by (simp add: n)
  moreover have d2: "n div 65536 = a * 256 + b"
    using bounds zdiv_zmult2_eq [of 256 n 256] d1 by simp
  moreover have "n div 16777216 = a"
    using bounds zdiv_zmult2_eq [of 256 n 65536] d2 by simp
  moreover have "n div 256 mod 256 = c mod 256" unfolding d1 by (rule mod_mult_self3)
  then have "n div 256 mod 256 = c" using bounds by simp
  moreover have "n div 65536 mod 256 = b" using bounds d2 by simp
  ultimately have "show_ipv4 n = join ''.'' ws"
    using w by (simp add: show_ipv4_def parse_octet_show)
  then show ?thesis using join_split_on [of "CHR ''.''" s] sp by simp
qed

lemma ip_address_bounds: "ip_address s = Inr (V4 n) \<Longrightarrow> 0 \<le> n \<and> n \<le> all_ones"
  by (auto simp: ip_address_def split: option.splits dest: parse_ipv4_bounds)

lemma make_netmask_le: "make_netmask s = Some p \<Longrightarrow> p \<le> 32"
  by (auto simp: make_netmask_def prefix_from_ip_int_def Let_def split: option.splits if_splits)

text \<open>Masking with a netmask rounds down to a multiple of the network's size.\<close>

lemma and_netmask:
  assumes "0 \<le> n" "n \<le> all_ones" "p \<le> 32"
  shows "n AND netmask_of p = n div 2 ^ (32 - p) * 2 ^ (32 - p)"
proof -
  let ?k = "32 - p"
  have "netmask_of p = push_bit ?k (mask (32 - ?k))"
    using assms(3)
    by (simp add: netmask_of_def push_bit_eq_mult mask_eq_exp_minus_1 algebra_simps flip: power_add)
  moreover have "n AND push_bit ?k (mask (32 - ?k)) = push_bit ?k (drop_bit ?k n)"
  proof (rule bit_eqI)
    fix i
    have "take_bit 32 n = n"
      using assms(1,2) by (simp add: take_bit_int_eq_self all_ones_def)
    then have "bit n i \<Longrightarrow> i < 32" by (metis bit_take_bit_iff)
    then show "bit (n AND push_bit ?k (mask (32 - ?k))) i = bit (push_bit ?k (drop_bit ?k n)) i"
      by (auto simp: bit_simps)
  qed
  ultimately show ?thesis by (simp add: push_bit_eq_mult drop_bit_eq_div)
qed

definition net_size :: "network \<Rightarrow> int" where
  "net_size nw = 2 ^ (32 - prefixlen nw)"

lemma net_size_pos [simp]: "0 < net_size nw"
  by (simp add: net_size_def)

lemma ip_networkD:
  assumes "ip_network (V4 n) m = Inr nw" "0 \<le> n" "n \<le> all_ones"
  shows "prefixlen nw \<le> 32" "network_address nw = n div net_size nw * net_size nw"
  using assms by (auto simp: ip_network_def net_size_def and_netmask make_netmask_le split: option.splits)

lemma div_eq_iff_bounds:
  assumes "0 < (s::int)"
  shows "a div s = q \<longleftrightarrow> q * s \<le> a \<and> a < q * s + s"
proof
  assume "q * s \<le> a \<and> a < q * s + s"
  then show "a div s = q"
    by (intro int_div_pos_eq [where r = "a - s * q"]) (auto simp: algebra_simps)
next
  assume "a div s = q"
  then have "q * s + a mod s = a" using div_mult_mod_eq [of a s] by simp
  then show "q * s \<le> a \<and> a < q * s + s"
    using assms pos_mod_bound [of s a] pos_mod_sign [of s a] by (intro conjI) linarith+
qed

lemma in_net_iff:
  assumes "0 \<le> a" "a \<le> all_ones" "prefixlen nw \<le> 32"
    and base: "network_address nw = n div net_size nw * net_size nw"
  shows "in_net a nw \<longleftrightarrow> network_address nw \<le> a \<and> a < network_address nw + net_size nw"
proof -
  let ?s = "net_size nw"
  have "in_net a nw \<longleftrightarrow> a div ?s * ?s = n div ?s * ?s"
    using assms by (simp add: in_net_def and_netmask net_size_def)
  also have "\<dots> \<longleftrightarrow> a div ?s = n div ?s"
    using net_size_pos [of nw] by auto
  also have "\<dots> \<longleftrightarrow> n div ?s * ?s \<le> a \<and> a < n div ?s * ?s + ?s"
    by (rule div_eq_iff_bounds) simp
  finally show ?thesis using base by simp
qed

text \<open>
  The meaning of an accepted range: it lies in the router's network, no addition leaves the
  32 bits, and the router's own address is outside.
\<close>

lemma check_dynamic_rangesD:
  assumes "check_dynamic_ranges rip m start limit = Inr True"
  obtains n nw where
    "ip_address rip = Inr (V4 n)" "ip_network (V4 n) m = Inr nw" "0 \<le> n" "n \<le> all_ones"
    "0 \<le> network_address nw + start" "network_address nw + start \<le> all_ones"
    "0 \<le> network_address nw + start + limit" "network_address nw + start + limit \<le> all_ones"
    "in_net (network_address nw + start) nw" "in_net (network_address nw + start + limit) nw"
    "\<not> (network_address nw + start \<le> n \<and> n \<le> network_address nw + start + limit)"
proof -
  from assms obtain ip nw where ip: "ip_address rip = Inr ip" and nw: "ip_network ip m = Inr nw"
    by (auto simp: check_dynamic_ranges_def bindE_eq_Inr)
  from nw obtain n where n: "ip = V4 n" by (auto simp: ip_network_def split: ip.splits)
  with ip have "0 \<le> n" "n \<le> all_ones" by (auto dest: ip_address_bounds)
  then show ?thesis
    using that [of n nw] assms ip nw n
    by (auto simp: check_dynamic_ranges_def addr_add_def split: if_splits)
qed

text \<open>
  Addresses between two members of a network are members, so the whole pool is usable.
\<close>

lemma in_net_convex:
  assumes "ip_network (V4 n) m = Inr nw" "0 \<le> n" "n \<le> all_ones"
    and "in_net a nw" "in_net b nw" "0 \<le> a" "a \<le> c" "c \<le> b" "b \<le> all_ones"
  shows "in_net c nw"
proof -
  note nw = ip_networkD [OF assms(1-3)]
  from assms nw show ?thesis
    by (auto simp: in_net_iff [OF _ _ nw(1) nw(2)])
qed

end
