(* ===== verification/Lan.thy ===== *)
theory Lan
  imports Guide Utils IpAddr
begin

text \<open>
  \<^verbatim>\<open>foris_controller_backends/lan\<close>: the DHCP leases of \<^verbatim>\<open>LanFiles\<close> and \<^verbatim>\<open>LanUci\<close> with its
  settings and its registry of static DHCP clients. IPv4 addresses are integers, an absent
  key of a message is \<open>None\<close>. The theorems about it are in \<open>LanRegistry\<close> and
  \<open>LanSettings\<close>.
\<close>

section \<open>Addresses of the configuration\<close>

text \<open>\<^verbatim>\<open>str(ip_interface(text))\<close> and its parts, for \<^verbatim>\<open>address/mask\<close>.\<close>

definition ip_interface :: "string \<Rightarrow> (int \<times> nat) res" where
  "ip_interface s = (case split_on CHR ''/'' s of
      [a, m] \<Rightarrow> (case (parse_ipv4 a, make_netmask m) of
          (Some n, Some p) \<Rightarrow> Inr (n, p) | _ \<Rightarrow> Inl ValueError)
    | [a] \<Rightarrow> (case parse_ipv4 a of Some n \<Rightarrow> Inr (n, 32) | None \<Rightarrow> Inl ValueError)
    | _ \<Rightarrow> Inl ValueError)"

definition get_interface :: "string \<Rightarrow> string \<Rightarrow> string res" where
  "get_interface ip netmask =
     bindE (ip_interface (ip @ ''/'' @ netmask)) (\<lambda>(n, p). Inr (show_ipv4 n @ ''/'' @ show_nat p))"

text \<open>\<^verbatim>\<open>f"{v}"\<close> of a looked-up value.\<close>

fun py_str :: "uval \<Rightarrow> string" where
  "py_str (Str s) = s"
| "py_str (Num n) = show_int n"
| "py_str (Flag b) = (if b then ''True'' else ''False'')"
| "py_str (Lst xs) = ''['' @ join '', '' (map (\<lambda>x. [CHR 0x27] @ x @ [CHR 0x27]) xs) @ '']''"

definition count_char :: "char \<Rightarrow> string \<Rightarrow> nat" where
  "count_char c s = length (filter (\<lambda>x. x = c) s)"

definition default_router_ip :: uval where
  "default_router_ip = Str ''192.168.1.1''"

definition get_network_combo :: "uci_data \<Rightarrow> (string \<times> string \<times> string) res" where
  "get_network_combo network_data =
     bindE (get_option_named network_data ''network'' ''lan'' ''ipaddr'' (Some default_router_ip)) (\<lambda>v.
     bindE (str_of (unwrap_list v)) (\<lambda>ipaddr_option.
     bindE (get_option_named network_data ''network'' ''lan'' ''gateway'' (Some default_router_ip)) (\<lambda>gateway.
       if count_char CHR ''/'' ipaddr_option = 1 then
         bindE (ip_interface ipaddr_option) (\<lambda>(n, p). Inr (show_ipv4 n, show_ipv4 (netmask_of p), py_str gateway))
       else
         bindE (get_option_named network_data ''network'' ''lan'' ''netmask'' (Some (Str ''255.255.255.0'')))
           (\<lambda>netmask. Inr (ipaddr_option, py_str netmask, py_str gateway)))))"

definition in_network :: "string \<Rightarrow> string \<Rightarrow> string \<Rightarrow> bool res" where
  "in_network ip ip_root netmask =
     bindE (if count_char CHR ''/'' ip_root = 1
            then bindE (ip_interface ip_root) (\<lambda>(n, p). ip_network (V4 n) (show_ipv4 (netmask_of p)))
            else bindE (ip_address ip_root) (\<lambda>a. ip_network a netmask)) (\<lambda>network.
     bindE (ip_address ip) (\<lambda>a. Inr (ip_in_net a network)))"

text \<open>Addition to an address of either version, and the comparison, which may not mix them.\<close>

fun ip_add :: "ip \<Rightarrow> int \<Rightarrow> ip res" where
  "ip_add (V4 n) k = bindE (addr_add n k) (\<lambda>m. Inr (V4 m))"
| "ip_add (V6 n) k = (if 0 \<le> n + k \<and> n + k < 2 ^ 128 then Inr (V6 (n + k)) else Inl AddressValueError)"

fun ip_le :: "ip \<Rightarrow> ip \<Rightarrow> bool res" where
  "ip_le (V4 a) (V4 b) = Inr (a \<le> b)"
| "ip_le (V6 a) (V6 b) = Inr (a \<le> b)"
| "ip_le _ _ = Inl TypeError"

definition in_range :: "string \<Rightarrow> string \<Rightarrow> int \<Rightarrow> int \<Rightarrow> bool res" where
  "in_range ip start_ip start limit =
     bindE (ip_address start_ip) (\<lambda>root.
     bindE (ip_add root start) (\<lambda>dynamic_first.
     bindE (ip_add dynamic_first limit) (\<lambda>dynamic_last.
     bindE (ip_address ip) (\<lambda>a. andE (ip_le dynamic_first a) (ip_le a dynamic_last)))))"

section \<open>DHCP leases\<close>

record client =
  c_expires :: int
  c_mac :: string
  c_ip :: string
  c_hostname :: string
  c_active :: bool
  c_static :: bool

definition check_active :: "'e env \<Rightarrow> int \<Rightarrow> ('e st, bool) prog" where
  "check_active E ip =
     bindP (file_content E ''/proc/net/nf_conntrack'') (\<lambda>conntrack.
       ret (contains conntrack (''src='' @ show_ipv4 ip) \<or> contains conntrack (''dst='' @ show_ipv4 ip)))"

definition parse_lease_line :: "string \<Rightarrow> (int \<times> string \<times> string \<times> string) option" where
  "parse_lease_line line = (case split_on CHR '' '' line of
      [timestamp, mac, ip, hostname, _] \<Rightarrow>
        (case py_int timestamp of None \<Rightarrow> None | Some n \<Rightarrow> Some (n, mac, ip, hostname))
    | _ \<Rightarrow> None)"

fun lease_clients :: "'e env \<Rightarrow> string \<Rightarrow> string \<Rightarrow> string list \<Rightarrow> ('e st, client list) prog" where
  "lease_clients E network_ip netmask [] = ret []"
| "lease_clients E network_ip netmask (line # ls) = (case parse_lease_line line of
      None \<Rightarrow> lease_clients E network_ip netmask ls
    | Some (timestamp, mac, ip, hostname) \<Rightarrow>
        bindP (lift (ip_address ip)) (\<lambda>address.
        bindP (lift (bindE (ip_address network_ip) (\<lambda>a. ip_network a netmask))) (\<lambda>network.
        case address of
          V4 n \<Rightarrow>
            if in_net n network then
              bindP (check_active E n) (\<lambda>active.
              bindP (lease_clients E network_ip netmask ls) (\<lambda>rest.
                ret (\<lparr>c_expires = timestamp, c_mac = strip (upper mac), c_ip = ip, c_hostname = hostname,
                      c_active = active, c_static = False\<rparr> # rest)))
            else lease_clients E network_ip netmask ls
        | V6 _ \<Rightarrow> lease_clients E network_ip netmask ls)))"

definition get_dhcp_clients :: "'e env \<Rightarrow> string \<Rightarrow> string \<Rightarrow> ('e st, client list) prog" where
  "get_dhcp_clients E network_ip netmask s =
     (if \<not> env_exists E (inject_file_root E ''/tmp/dhcp.leases'') (ext s) then (Ret [], s)
      else bindP (file_content E ''/tmp/dhcp.leases'') (\<lambda>content.
        lease_clients E network_ip netmask
          (split_on newline (strip_of (\<lambda>c. c = newline \<or> c = CHR '' '' \<or> c = CHR 0x09) content))) s)"

section \<open>Records of static clients\<close>

fun process_uci_mac_addresses :: "uval \<Rightarrow> string list res" where
  "process_uci_mac_addresses (Str s) = Inr (map (\<lambda>e. upper (strip e)) (split_on CHR '' '' s))"
| "process_uci_mac_addresses (Lst xs) = Inr (map (\<lambda>e. upper (strip e)) xs)"
| "process_uci_mac_addresses _ = Inl ValueError"

text \<open>The found section and its addresses, which the code writes back into the section.\<close>

fun find_host :: "string \<Rightarrow> usection list \<Rightarrow> (usection \<times> string list) option res" where
  "find_host mac [] = Inr None"
| "find_host mac (e # secs) = (case map_of (sec_data e) ''mac'' of
      None \<Rightarrow> find_host mac secs
    | Some v \<Rightarrow> bindE (process_uci_mac_addresses v) (\<lambda>macs.
        if upper mac \<in> set macs then Inr (Some (e, macs)) else find_host mac secs))"

definition get_host_record_section :: "uci_data \<Rightarrow> string \<Rightarrow> (usection \<times> string list) option res" where
  "get_host_record_section dhcp_data mac =
     bindE (get_sections_by_type dhcp_data ''dhcp'' ''host'') (find_host mac)"

definition host_record_exists :: "uci_data \<Rightarrow> string \<Rightarrow> bool res" where
  "host_record_exists dhcp_data mac = bindE (get_host_record_section dhcp_data mac) (\<lambda>r. Inr (r \<noteq> None))"

definition minimal_valid_host_section :: "usection \<Rightarrow> bool" where
  "minimal_valid_host_section e =
     (map_of (sec_data e) ''mac'' \<noteq> None \<and> map_of (sec_data e) ''ip'' \<noteq> None)"

definition ip_is_unique :: "uci_data \<Rightarrow> string \<Rightarrow> bool res" where
  "ip_is_unique dhcp_data ip =
     bindE (get_sections_by_type dhcp_data ''dhcp'' ''host'') (\<lambda>secs.
       Inr (\<not> list_ex (\<lambda>e. minimal_valid_host_section e \<and> map_of (sec_data e) ''ip'' = Some (Str ip)) secs))"

definition hostname_is_unique :: "uci_data \<Rightarrow> string \<Rightarrow> bool res" where
  "hostname_is_unique dhcp_data hostname =
     bindE (get_sections_by_type dhcp_data ''dhcp'' ''host'') (\<lambda>secs.
       Inr (\<not> list_ex (\<lambda>e. minimal_valid_host_section e \<and> map_of (sec_data e) ''name'' = Some (Str hostname)) secs))"

definition validate_dhcp_host_ip ::
  "uci_data \<Rightarrow> uci_data \<Rightarrow> string \<Rightarrow> string \<Rightarrow> string \<Rightarrow> string option res" where
  "validate_dhcp_host_ip network_data dhcp_data ip router_ip netmask =
     (if ip = ''ignore'' then Inr None
      else bindE (in_network ip router_ip netmask) (\<lambda>inside.
        if \<not> inside then Inr (Some ''out-of-network'')
        else bindE (get_option_named network_data ''network'' ''lan'' ''_turris_mode'' (Some (Str ''managed'')))
          (\<lambda>turris_mode.
        if turris_mode \<noteq> Str ''managed'' then Inr (Some ''disabled'')
        else bindE (bindE (get_option_named dhcp_data ''dhcp'' ''lan'' ''ignore'' (Some (Str ''0''))) parse_bool)
          (\<lambda>ignore.
        if ignore then Inr (Some ''disabled'')
        else bindE (ip_is_unique dhcp_data ip) (\<lambda>unique.
          Inr (if \<not> unique then Some ''ip-exists'' else None))))))"

text \<open>
  The three operations of the registry. Each is split where the code returns early: the
  check gives the error to report, or what the update needs.
\<close>

definition check_new_client ::
  "uci_data \<Rightarrow> uci_data \<Rightarrow> string \<Rightarrow> string \<Rightarrow> string \<Rightarrow> string option res" where
  "check_new_client dhcp_data network_data ip mac hostname =
     bindE (get_network_combo network_data) (\<lambda>(router_ip, netmask, _).
     bindE (host_record_exists dhcp_data mac) (\<lambda>known.
       if known then Inr (Some ''mac-exists'')
       else bindE (validate_dhcp_host_ip network_data dhcp_data ip router_ip netmask) (\<lambda>err.
         case err of Some m \<Rightarrow> Inr (Some m)
         | None \<Rightarrow> bindE (hostname_is_unique dhcp_data hostname) (\<lambda>unique.
             Inr (if \<not> unique then Some ''hostname-exists'' else None)))))"

definition write_host :: "'e env \<Rightarrow> string \<Rightarrow> string \<Rightarrow> string \<Rightarrow> string \<Rightarrow> ('e st, unit) prog list" where
  "write_host E section_name mac ip hostname =
     [set_option E ''dhcp'' section_name ''mac'' mac,
      set_option E ''dhcp'' section_name ''ip'' ip,
      set_option E ''dhcp'' section_name ''name'' hostname]"

definition store_new_client :: "'e env \<Rightarrow> string \<Rightarrow> string \<Rightarrow> string \<Rightarrow> ('e st, unit) prog" where
  "store_new_client E ip mac hostname =
     bindP (add_anonymous_section E ''dhcp'' ''host'') (\<lambda>section_name.
       block (write_host E section_name mac ip hostname @
         [set_option E ''dhcp'' section_name ''leasetime'' ''infinite'',
          set_option E ''dhcp'' section_name ''dns'' (store_bool True)]))"

definition set_dhcp_client_body ::
  "'e env \<Rightarrow> string \<Rightarrow> string \<Rightarrow> string \<Rightarrow> ('e st, string option) prog" where
  "set_dhcp_client_body E ip mac hostname =
     bindP (read_uci E ''dhcp'') (\<lambda>dhcp_data.
     bindP (read_uci E ''network'') (\<lambda>network_data.
     bindP (lift (check_new_client dhcp_data network_data ip mac hostname)) (\<lambda>err.
       bindP (whenP (err = None) [store_new_client E ip mac hostname]) (\<lambda>_. ret err))))"

definition restart_dnsmasq :: "'e env \<Rightarrow> ('e st, unit) prog" where
  "restart_dnsmasq E = with_services (service_command E Restart ''dnsmasq'' None True)"

text \<open>A returned error leaves the function before the services are restarted.\<close>

definition set_dhcp_client ::
  "'e env \<Rightarrow> string \<Rightarrow> string \<Rightarrow> string \<Rightarrow> ('e st, string option) prog" where
  "set_dhcp_client E ip mac hostname =
     bindP (with_uci E (set_dhcp_client_body E ip (upper mac) hostname)) (\<lambda>err.
       case err of Some m \<Rightarrow> ret (Some m)
       | None \<Rightarrow> bindP (restart_dnsmasq E) (\<lambda>_. ret None))"

text \<open>\<open>Done\<close>: nothing to change; \<open>Change\<close>: the section to update and its addresses.\<close>

datatype update_plan = Refuse string | Done | Change string "string list"

definition option_of :: "usection \<Rightarrow> string \<Rightarrow> uval res" where
  "option_of e p = (case map_of (sec_data e) p of None \<Rightarrow> Inl (KeyError p) | Some v \<Rightarrow> Inr v)"

definition check_changed_client ::
  "uci_data \<Rightarrow> uci_data \<Rightarrow> string \<Rightarrow> string \<Rightarrow> string \<Rightarrow> string \<Rightarrow> update_plan res" where
  "check_changed_client dhcp_data network_data ip old_mac new_mac hostname =
     bindE (get_network_combo network_data) (\<lambda>(router_ip, netmask, _).
     bindE (get_host_record_section dhcp_data old_mac) (\<lambda>found.
     case found of None \<Rightarrow> Inr (Refuse ''mac-not-exists'')
     | Some (sec, macs) \<Rightarrow>
         bindE (option_of sec ''ip'') (\<lambda>cur_ip.
         bindE (option_of sec ''name'') (\<lambda>cur_hostname.
         if cur_hostname = Str hostname \<and> cur_ip = Str ip \<and> new_mac \<in> set macs then Inr Done
         else bindE (validate_dhcp_host_ip network_data dhcp_data ip router_ip netmask) (\<lambda>err.
           if err \<noteq> None \<and> err \<noteq> Some ''ip-exists'' then Inr (Refuse (the err))
           else if err = Some ''ip-exists'' \<and> cur_ip \<noteq> Str ip then Inr (Refuse (the err))
           else bindE (hostname_is_unique dhcp_data hostname) (\<lambda>unique.
             if \<not> unique \<and> cur_hostname \<noteq> Str hostname then Inr (Refuse ''hostname-exists'')
             else bindE (host_record_exists dhcp_data new_mac) (\<lambda>known.
               Inr (if known \<and> new_mac \<notin> set macs then Refuse ''mac-exists''
                    else Change (sec_name sec) macs))))))))"

definition store_changed_client ::
  "'e env \<Rightarrow> string \<Rightarrow> string list \<Rightarrow> string \<Rightarrow> string \<Rightarrow> string \<Rightarrow> ('e st, unit) prog" where
  "store_changed_client E name macs new_mac ip hostname =
     bindP (if length macs > 1
            then bindP (del_section E ''dhcp'' name) (\<lambda>_. add_anonymous_section E ''dhcp'' ''host'')
            else ret name) (\<lambda>section_name.
       block (write_host E section_name new_mac ip hostname))"

definition update_dhcp_client_body ::
  "'e env \<Rightarrow> string \<Rightarrow> string \<Rightarrow> string \<Rightarrow> string \<Rightarrow> ('e st, update_plan) prog" where
  "update_dhcp_client_body E ip old_mac new_mac hostname =
     bindP (read_uci E ''dhcp'') (\<lambda>dhcp_data.
     bindP (read_uci E ''network'') (\<lambda>network_data.
     bindP (lift (check_changed_client dhcp_data network_data ip old_mac new_mac hostname)) (\<lambda>plan.
       bindP (case plan of
           Change name macs \<Rightarrow> store_changed_client E name macs new_mac ip hostname
         | _ \<Rightarrow> ret ()) (\<lambda>_. ret plan))))"

definition update_dhcp_client ::
  "'e env \<Rightarrow> string \<Rightarrow> string \<Rightarrow> string \<Rightarrow> string \<Rightarrow> ('e st, string option) prog" where
  "update_dhcp_client E ip old_mac mac hostname =
     bindP (with_uci E (update_dhcp_client_body E ip (upper old_mac) (upper mac) hostname)) (\<lambda>plan.
       case plan of
         Refuse m \<Rightarrow> ret (Some m)
       | Done \<Rightarrow> ret None
       | Change _ _ \<Rightarrow> bindP (restart_dnsmasq E) (\<lambda>_. ret None))"

definition remove_client :: "'e env \<Rightarrow> string \<Rightarrow> string list \<Rightarrow> string \<Rightarrow> ('e st, unit) prog" where
  "remove_client E name macs mac =
     (if length macs = 1 then del_section E ''dhcp'' name
      else set_option E ''dhcp'' name ''mac'' (join '' '' (filter (\<lambda>e. e \<noteq> mac) macs)))"

definition delete_dhcp_client_body :: "'e env \<Rightarrow> string \<Rightarrow> ('e st, string option) prog" where
  "delete_dhcp_client_body E mac =
     bindP (read_uci E ''dhcp'') (\<lambda>dhcp_data.
     bindP (lift (get_host_record_section dhcp_data mac)) (\<lambda>found.
     case found of None \<Rightarrow> ret (Some ''mac-not-exists'')
     | Some (sec, macs) \<Rightarrow> bindP (remove_client E (sec_name sec) macs mac) (\<lambda>_. ret None)))"

definition delete_dhcp_client :: "'e env \<Rightarrow> string \<Rightarrow> ('e st, string option) prog" where
  "delete_dhcp_client E mac =
     bindP (with_uci E (delete_dhcp_client_body E (upper mac))) (\<lambda>err.
       case err of Some m \<Rightarrow> ret (Some m)
       | None \<Rightarrow> bindP (restart_dnsmasq E) (\<lambda>_. ret None))"

end
