(* ===== verification/Networks.thy ===== *)
theory Networks
  imports Guide Utils
begin

text \<open>
  \<^verbatim>\<open>foris_controller_backends/networks\<close>, the reading side: which detected interface
  belongs to which network, wired (\<^verbatim>\<open>NetworksUci\<close>) and wireless, and which interfaces act as
  WAN (\<^verbatim>\<open>NetworksWanUci\<close>). The interfaces come from \<^verbatim>\<open>turrishw.get_ifaces()\<close>, an argument
  here. The writing side is in \<open>NetworksUpdate\<close>.
\<close>

section \<open>Detected interfaces\<close>

record iface =
  i_id :: string
  i_type :: "string option"
  i_state :: "string option"
  i_slot_path :: "string option"
  i_macaddr :: "string option"
  i_configurable :: bool
  i_ssid :: "string option"

text \<open>
  An interface without a type makes the loop raise; the handler then leaves a pair of lists
  where a list is expected (\<open>None\<close>), on which every caller raises \<^verbatim>\<open>TypeError\<close>.
\<close>

fun split_ifaces :: "iface list \<Rightarrow> iface list \<Rightarrow> iface list \<Rightarrow> iface list option \<times> iface list" where
  "split_ifaces res wireless [] = (Some res, wireless)"
| "split_ifaces res wireless (v # vs) = (case i_type v of
      None \<Rightarrow> (None, wireless)
    | Some t \<Rightarrow>
        let v' = v\<lparr>i_configurable := t \<notin> {''wifi'', ''wwan''}\<rparr> in
        if t = ''wifi'' then split_ifaces res (wireless @ [v']) vs
        else split_ifaces (res @ [v']) wireless vs)"

definition detect_interfaces :: "iface list \<Rightarrow> iface list option \<times> iface list" where
  "detect_interfaces interfaces = split_ifaces [] [] interfaces"

definition detected :: "iface list \<Rightarrow> (iface list \<times> iface list) res" where
  "detected interfaces = (case detect_interfaces interfaces of
      (None, _) \<Rightarrow> Inl TypeError | (Some wired, wireless) \<Rightarrow> Inr (wired, wireless))"

section \<open>Values of the configuration\<close>

definition data_get :: "usection \<Rightarrow> string \<Rightarrow> uval \<Rightarrow> uval" where
  "data_get e p d = (case map_of (sec_data e) p of None \<Rightarrow> d | Some v \<Rightarrow> v)"

text \<open>Iterating over a string yields its characters.\<close>

fun iterate :: "uval \<Rightarrow> string list" where
  "iterate (Lst xs) = xs"
| "iterate (Str s) = map (\<lambda>c. [c]) s"
| "iterate _ = []"

fun hashable :: "uval \<Rightarrow> uval res" where
  "hashable (Lst _) = Inl TypeError"
| "hashable v = Inr v"

definition dash_to_underscore :: "string \<Rightarrow> string" where
  "dash_to_underscore s = map (\<lambda>c. if c = CHR ''-'' then CHR ''_'' else c) s"

section \<open>Wired interfaces\<close>

type_synonym ports_map = "(string \<times> iface) list"

text \<open>\<^verbatim>\<open>if port in ports_map: res.append(ports_map.pop(port))\<close>, for each port in turn.\<close>

fun pop_all :: "string list \<Rightarrow> ports_map \<Rightarrow> iface list \<times> ports_map" where
  "pop_all [] m = ([], m)"
| "pop_all (p # ps) m = (case map_of m p of
      None \<Rightarrow> pop_all ps m
    | Some v \<Rightarrow> (let (vs, m') = pop_all ps (AList.delete p m) in (v # vs, m')))"

definition anonymous_bridge_ports :: "uci_data \<Rightarrow> string \<Rightarrow> uval res" where
  "anonymous_bridge_ports uci_data section =
     bindE (get_sections_by_type uci_data ''network'' ''device'') (\<lambda>devs.
       case filter (\<lambda>dev. startswith (sec_name dev) ''cfg'' \<and>
              map_of (sec_data dev) ''name'' = Some (Str (''br-'' @ section))) devs of
         [] \<Rightarrow> Inr (Lst [])
       | dev # _ \<Rightarrow> Inr (data_get dev ''ports'' (Lst [])))"

fun as_interfaces :: "uval \<Rightarrow> string list res" where
  "as_interfaces (Lst xs) = Inr xs"
| "as_interfaces (Str s) = Inr (split_on CHR '' '' s)"
| "as_interfaces _ = Inl AttributeError"

definition prepare_network :: "uci_data \<Rightarrow> string \<Rightarrow> ports_map \<Rightarrow> (iface list \<times> ports_map) res" where
  "prepare_network data section m =
     bindE (bindE (get_option_named data ''network'' section ''ifname'' (Some (Lst []))) as_interfaces) (\<lambda>interfaces.
     bindE (bindE (get_option_named data ''network'' section ''device'' (Some (Str []))) str_of) (\<lambda>device.
     bindE (get_option_named data ''network'' (dash_to_underscore device) ''ports'' (Some (Lst []))) (\<lambda>ports0.
     bindE (if section \<in> {''lan'', ''guest_turris''} \<and> \<not> truthy ports0 \<and> interfaces = []
            then anonymous_bridge_ports data section else Inr ports0) (\<lambda>ports.
     bindE (if truthy ports then sort_by_natural_order (iterate ports) else Inr [device]) (\<lambda>wanted.
     bindE (sort_by_natural_order interfaces) (\<lambda>sorted_interfaces.
       let (res1, m1) = pop_all wanted m; (res2, m2) = pop_all sorted_interfaces m1
       in Inr (res1 @ res2, m2)))))))"

section \<open>Interfaces that act as WAN\<close>

text \<open>A zone without a name raises \<^verbatim>\<open>KeyError\<close> before a later one is looked at.\<close>

fun wan_zone_name :: "usection list \<Rightarrow> string option res" where
  "wan_zone_name [] = Inr None"
| "wan_zone_name (z # zs) = (case map_of (sec_data z) ''name'' of
      None \<Rightarrow> Inl (KeyError ''name'')
    | Some v \<Rightarrow> if v = Str ''wan'' then Inr (Some (sec_name z)) else wan_zone_name zs)"

definition wan_zone_section_name :: "uci_data \<Rightarrow> string res" where
  "wan_zone_section_name firewall_data =
     bindE (bindE (get_sections_by_type firewall_data ''firewall'' ''zone'') wan_zone_name) (\<lambda>name.
       case name of
         Some (c # cs) \<Rightarrow> Inr (c # cs)
       | _ \<Rightarrow> Inl (UciRecordNotFound (record_path ''firewall'' None (Some ''zone'') None None)))"

definition wan_interfaces_of :: "uci_data \<Rightarrow> uval res" where
  "wan_interfaces_of firewall_data =
     bindE (wan_zone_section_name firewall_data) (\<lambda>zone.
       get_option_named firewall_data ''firewall'' zone ''network'' (Some (Lst [])))"

definition active_wan_interfaces :: "'e env \<Rightarrow> ('e st, uval) prog" where
  "active_wan_interfaces E = bindP (with_uci E (read_uci E ''firewall'')) (\<lambda>data. lift (wan_interfaces_of data))"

text \<open>\<^verbatim>\<open>re.match(r"wwan(\d+)$", s)\<close>; \<^verbatim>\<open>$\<close> also matches before a final newline.\<close>

definition match_wwan :: "string \<Rightarrow> string option" where
  "match_wwan s =
     (let d = drop 4 s; digits = (if d \<noteq> [] \<and> last d = newline then butlast d else d)
      in if startswith s ''wwan'' \<and> digits \<noteq> [] \<and> list_all is_digit digits then Some (''wwan'' @ digits) else None)"

datatype wan_mode = Wired | Wireless

text \<open>\<^verbatim>\<open>len(wan_ifaces) == 1 and re.match(..., wan_ifaces[0])\<close> on a list or a string.\<close>

definition sole_wwan :: "uval \<Rightarrow> string option" where
  "sole_wwan v = (case iterate v of [x] \<Rightarrow> match_wwan x | _ \<Rightarrow> None)"

definition get_wan_mode :: "'e env \<Rightarrow> ('e st, wan_mode) prog" where
  "get_wan_mode E = bindP (active_wan_interfaces E) (\<lambda>ifs.
     ret (if sole_wwan ifs \<noteq> None then Wireless else Wired))"

definition is_designated_as_wan :: "'e env \<Rightarrow> string \<Rightarrow> ('e st, bool) prog" where
  "is_designated_as_wan E if_name = bindP (active_wan_interfaces E) (\<lambda>ifs. ret (truthy ifs \<and> ifs = Lst [if_name]))"

definition set_wan_firewall_zone_interfaces :: "'e env \<Rightarrow> string list \<Rightarrow> ('e st, unit) prog" where
  "set_wan_firewall_zone_interfaces E wan_interfaces =
     bindP (read_uci E ''firewall'') (\<lambda>data.
     bindP (lift (wan_zone_section_name data)) (\<lambda>zone.
       replace_list E ''firewall'' zone ''network''
         (if wan_interfaces = [] then [''wan'', ''wan6''] else wan_interfaces)))"

definition wired_wan_device :: "uci_data \<Rightarrow> uval option res" where
  "wired_wan_device data =
     bindE (get_option_named data ''network'' ''wan'' ''device'' (Some (Str []))) (\<lambda>device.
     if truthy device then Inr (Some device)
     else bindE (get_option_named data ''network'' ''wan'' ''ifname'' (Some (Str []))) (\<lambda>ifname.
       Inr (if truthy ifname then Some ifname else None)))"

definition fetch_active_wan_device :: "'e env \<Rightarrow> uci_data \<Rightarrow> ('e st, uval option) prog" where
  "fetch_active_wan_device E data = bindP (get_wan_mode E) (\<lambda>mode. case mode of
      Wired \<Rightarrow> lift (wired_wan_device data)
    | Wireless \<Rightarrow> bindP (active_wan_interfaces E) (\<lambda>ifs. ret (map_option Str (sole_wwan ifs))))"

text \<open>\<^verbatim>\<open>ports_map.pop(device)\<close> has no default: a device that was not detected raises.\<close>

definition pop_wan :: "uval option \<Rightarrow> ports_map \<Rightarrow> (iface list \<times> ports_map) res" where
  "pop_wan device m = (case device of
      None \<Rightarrow> Inr ([], m)
    | Some (Str d) \<Rightarrow> (case map_of m d of
          None \<Rightarrow> Inl (KeyError d) | Some v \<Rightarrow> Inr ([v], AList.delete d m))
    | Some _ \<Rightarrow> Inl TypeError)"

definition prepare_wan_network :: "'e env \<Rightarrow> uci_data \<Rightarrow> ports_map \<Rightarrow> ('e st, iface list \<times> ports_map) prog" where
  "prepare_wan_network E data m =
     bindP (fetch_active_wan_device E data) (\<lambda>device. lift (pop_wan device m))"

section \<open>Wireless interfaces\<close>

type_synonym ssids = "(uval \<times> uval) list"

definition disabled_flag :: "usection \<Rightarrow> bool res" where
  "disabled_flag e = parse_bool (data_get e ''disabled'' (Str ''0''))"

text \<open>The network and SSID of an interface section, if it has a network.\<close>

definition network_and_ssid :: "usection \<Rightarrow> ssids" where
  "network_and_ssid e = (case map_of (sec_data e) ''network'' of
      Some n \<Rightarrow> if truthy n then [(n, data_get e ''ssid'' (Str []))] else []
    | None \<Rightarrow> [])"

definition networks_by_ifname :: "uci_data \<Rightarrow> string \<Rightarrow> ssids option res" where
  "networks_by_ifname wireless_data ifname =
     bindE (get_sections_by_type wireless_data ''wireless'' ''wifi-iface'') (\<lambda>secs.
       case filter (\<lambda>e. map_of (sec_data e) ''ifname'' = Some (Str ifname) \<and> truthy (data_get e ''device'' (Str []))) secs of
         [] \<Rightarrow> Inr None
       | found \<Rightarrow>
           bindE (mapE (\<lambda>e. bindE (disabled_flag e) (\<lambda>off.
               if off then Inr []
               else bindE (case data_get e ''device'' (Str []) of
                   Str device \<Rightarrow>
                     bindE (get_option_named wireless_data ''wireless'' device ''disabled'' (Some (Str ''0''))) parse_bool
                 | _ \<Rightarrow> Inr False)
                 (\<lambda>dev_off. Inr (if dev_off then [] else network_and_ssid e)))) found)
             (\<lambda>rs. Inr (Some (concat rs))))"

text \<open>The enabled interface sections of a radio that fit the interface's name.\<close>

definition radio_networks :: "uci_data \<Rightarrow> string \<Rightarrow> usection \<Rightarrow> ssids res" where
  "radio_networks wireless_data ifname device =
     bindE (disabled_flag device) (\<lambda>off.
       if off then Inr []
       else bindE (get_sections_by_type wireless_data ''wireless'' ''wifi-iface'') (\<lambda>secs.
         bindE (filterE (\<lambda>e.
             andE (Inr (map_of (sec_data e) ''device'' = Some (Str (sec_name device))))
               (andE (bindE (disabled_flag e) (\<lambda>b. Inr (\<not> b)))
                 (Inr (map_of (sec_data e) ''ifname'' \<in> {Some (Str ifname), None})))) secs)
           (\<lambda>es. Inr (concat (map network_and_ssid es)))))"

definition networks_of_radios :: "uci_data \<Rightarrow> string \<Rightarrow> usection list \<Rightarrow> ssids option res" where
  "networks_of_radios wireless_data ifname radios = (case radios of
      [] \<Rightarrow> Inr None
    | _ \<Rightarrow> bindE (mapE (radio_networks wireless_data ifname) radios) (\<lambda>rs. Inr (Some (concat rs))))"

definition networks_by_macaddr :: "uci_data \<Rightarrow> string option \<Rightarrow> string \<Rightarrow> ssids option res" where
  "networks_by_macaddr wireless_data macaddr ifname = (case macaddr of
      None \<Rightarrow> Inr None
    | Some a \<Rightarrow>
        bindE (get_sections_by_type wireless_data ''wireless'' ''wifi-device'') (\<lambda>secs.
          networks_of_radios wireless_data ifname
            (filter (\<lambda>e. map_of (sec_data e) ''macaddr'' = Some (Str a)) secs)))"

text \<open>A radio without a path has the empty one, which occurs in every slot path.\<close>

fun occurs_in :: "uval \<Rightarrow> string \<Rightarrow> bool res" where
  "occurs_in (Str p) s = Inr (contains s p)"
| "occurs_in _ _ = Inl TypeError"

definition networks_by_path :: "uci_data \<Rightarrow> string option \<Rightarrow> string \<Rightarrow> ssids option res" where
  "networks_by_path wireless_data slot_path ifname = (case slot_path of
      None \<Rightarrow> Inr None
    | Some p \<Rightarrow>
        bindE (get_sections_by_type wireless_data ''wireless'' ''wifi-device'') (\<lambda>secs.
        bindE (filterE (\<lambda>e. occurs_in (data_get e ''path'' (Str [])) p) secs) (\<lambda>radios.
          networks_of_radios wireless_data ifname radios)))"

definition nonempty :: "ssids option \<Rightarrow> bool" where
  "nonempty r = (case r of Some (_ # _) \<Rightarrow> True | _ \<Rightarrow> False)"

definition enabled_wireless_networks :: "uci_data \<Rightarrow> iface \<Rightarrow> ssids res" where
  "enabled_wireless_networks wireless_data v =
     bindE (networks_by_path wireless_data (i_slot_path v) (i_id v)) (\<lambda>r1.
     if nonempty r1 then Inr (the r1)
     else bindE (networks_by_macaddr wireless_data (i_macaddr v) (i_id v)) (\<lambda>r2.
     if nonempty r2 then Inr (the r2)
     else bindE (networks_by_ifname wireless_data (i_id v)) (\<lambda>r3.
     if nonempty r3 then Inr (the r3) else Inr [])))"

text \<open>
  The four groups that the settings report. One record object is appended once per network
  it serves, and \<^verbatim>\<open>record["ssid"] = ssid\<close> changes that one object: all its occurrences show
  the last SSID, here \<open>shared_record\<close>.
\<close>

record groups =
  gr_wan :: "iface list"
  gr_lan :: "iface list"
  gr_guest :: "iface list"
  gr_none :: "iface list"

definition add_to_group :: "uval \<Rightarrow> iface \<Rightarrow> groups \<Rightarrow> groups" where
  "add_to_group n v g =
     (if n = Str ''wan'' then g\<lparr>gr_wan := gr_wan g @ [v]\<rparr>
      else if n = Str ''lan'' then g\<lparr>gr_lan := gr_lan g @ [v]\<rparr>
      else if n = Str ''guest_turris'' then g\<lparr>gr_guest := gr_guest g @ [v]\<rparr>
      else g\<lparr>gr_none := gr_none g @ [v]\<rparr>)"

definition shared_record :: "iface \<Rightarrow> ssids \<Rightarrow> iface" where
  "shared_record v nss = v\<lparr>i_slot_path := None,
     i_ssid := Some (case nss of [] \<Rightarrow> [] | _ \<Rightarrow> (case snd (last nss) of Str s \<Rightarrow> s | _ \<Rightarrow> []))\<rparr>"

fun add_wireless :: "uci_data \<Rightarrow> iface list \<Rightarrow> groups \<Rightarrow> groups res" where
  "add_wireless wireless_data [] g = Inr g"
| "add_wireless wireless_data (v # vs) g =
     bindE (enabled_wireless_networks wireless_data v) (\<lambda>nss.
     bindE (mapE (\<lambda>(n, _). hashable n) nss) (\<lambda>ns.
       let v' = shared_record v nss in
       add_wireless wireless_data vs
         (if nss = [] then g\<lparr>gr_none := gr_none g @ [v']\<rparr>
          else fold (\<lambda>n. add_to_group n v') ns g)))"

section \<open>Settings\<close>

record networks_settings =
  ns_model :: string
  ns_version :: string
  ns_ssh_on_wan :: bool
  ns_http_on_wan :: bool
  ns_https_on_wan :: bool
  ns_groups :: groups

definition firewall_flag :: "uci_data \<Rightarrow> string \<Rightarrow> bool res" where
  "firewall_flag firewall_data rule =
     bindE (get_option_named firewall_data ''firewall'' rule ''enabled'' (Some (Str ''0''))) parse_bool"

text \<open>A missing wireless config is read as an empty one.\<close>

definition read_wireless :: "'e env \<Rightarrow> ('e st, uci_data) prog" where
  "read_wireless E = tryP (read_uci E ''wireless'') is_uci_exception (\<lambda>_. ret [])"

definition wired_groups :: "uci_data \<Rightarrow> iface list \<times> ports_map \<Rightarrow> groups res" where
  "wired_groups network_data wan_m =
     bindE (prepare_network network_data ''lan'' (snd wan_m)) (\<lambda>(lan, m1).
     bindE (prepare_network network_data ''guest_turris'' m1) (\<lambda>(guest, m2).
       Inr \<lparr>gr_wan = fst wan_m, gr_lan = lan, gr_guest = guest, gr_none = map snd m2\<rparr>))"

definition networks_get_settings :: "'e env \<Rightarrow> iface list \<Rightarrow> ('e st, networks_settings) prog" where
  "networks_get_settings E interfaces =
     bindP (lift (detected interfaces)) (\<lambda>(wired, wireless).
     bindP (with_uci E
       (bindP (read_uci E ''network'') (\<lambda>network_data.
        bindP (read_uci E ''firewall'') (\<lambda>firewall_data.
        bindP (read_wireless E) (\<lambda>wireless_data. ret (network_data, firewall_data, wireless_data))))))
       (\<lambda>(network_data, firewall_data, wireless_data).
     bindP (prepare_wan_network E network_data (map (\<lambda>v. (i_id v, v)) wired)) (\<lambda>wan_m.
     bindP (lift (wired_groups network_data wan_m)) (\<lambda>g.
     bindP (lift (add_wireless wireless_data wireless g)) (\<lambda>groups.
     bindP (lift (firewall_flag firewall_data ''wan_ssh_turris_rule'')) (\<lambda>ssh.
     bindP (lift (firewall_flag firewall_data ''wan_http_turris_rule'')) (\<lambda>http.
     bindP (lift (firewall_flag firewall_data ''wan_https_turris_rule'')) (\<lambda>https.
     bindP (get_model E) (\<lambda>model. bindP (get_os_version E) (\<lambda>version.
       ret \<lparr>ns_model = model, ns_version = version, ns_ssh_on_wan = ssh, ns_http_on_wan = http,
            ns_https_on_wan = https, ns_groups = groups\<rparr>))))))))))"

section \<open>Counting the interfaces of a network\<close>

text \<open>Only the lookup of the config itself can miss, before anything is counted.\<close>

definition wifi_iface_count :: "uci_data \<Rightarrow> string \<Rightarrow> nat res" where
  "wifi_iface_count wireless_data network_name =
     (case bindE (get_sections_by_type wireless_data ''wireless'' ''wifi-device'') (\<lambda>radios.
        bindE (filterE (\<lambda>e. bindE (disabled_flag e) (\<lambda>b. Inr (\<not> b))) radios) (\<lambda>enabled.
        bindE (get_sections_by_type wireless_data ''wireless'' ''wifi-iface'') (\<lambda>secs.
        bindE (filterE (\<lambda>e.
            andE (bindE (disabled_flag e) (\<lambda>b. Inr (\<not> b)))
              (andE (bindE (hashable (data_get e ''device'' (Str [])))
                       (\<lambda>d. Inr (d \<in> set (map (\<lambda>r. Str (sec_name r)) enabled))))
                (Inr (data_get e ''network'' (Str []) = Str network_name)))) secs) (\<lambda>es. Inr (length es))))) of
       Inl (UciRecordNotFound p) \<Rightarrow> Inr 0
     | r \<Rightarrow> r)"

text \<open>
  \<open>hw\<close> is \<^verbatim>\<open>turrishw.get_ifaces()\<close> or the exception it raised.
\<close>

definition hw_interfaces :: "iface list res \<Rightarrow> bool \<Rightarrow> string list" where
  "hw_interfaces hw up_only = (case hw of
      Inl _ \<Rightarrow> []
    | Inr vs \<Rightarrow>
        if up_only then (if list_ex (\<lambda>v. i_state v = None) vs then []
          else map i_id (filter (\<lambda>v. i_state v = Some ''up'') vs))
        else map i_id vs)"

definition get_interface_count ::
  "iface list res \<Rightarrow> uci_data \<Rightarrow> uci_data \<Rightarrow> string \<Rightarrow> bool \<Rightarrow> nat res" where
  "get_interface_count hw network_data wireless_data network_name0 up_only =
     (let network_name = (if network_name0 = ''guest'' then ''guest_turris'' else network_name0) in
      bindE (wifi_iface_count wireless_data network_name) (\<lambda>wifi_count.
      bindE (get_option_named network_data ''network'' network_name ''ifname'' (Some (Str []))) (\<lambda>ifname.
      bindE (if ifname \<noteq> Str [] then Inr ifname
        else bindE (bindE (get_option_named network_data ''network'' network_name ''device'' (Some (Str []))) str_of)
          (\<lambda>d. let device = dash_to_underscore d in
            if section_exists network_data ''network'' device
            then get_option_named network_data ''network'' device ''ports'' (Some (Lst []))
            else get_option_named network_data ''network'' network_name ''device'' (Some (Lst []))))
        (\<lambda>config_interfaces.
          let names = (case config_interfaces of Lst xs \<Rightarrow> xs | Str s \<Rightarrow> [s] | _ \<Rightarrow> []) in
          Inr (card (set (hw_interfaces hw up_only) \<inter> set names) + wifi_count)))))"

section \<open>The groups partition the wired interfaces\<close>

lemma mset_delete:
  "distinct (map fst m) \<Longrightarrow> map_of m k = Some v \<Longrightarrow>
    mset (map snd m) = add_mset v (mset (map snd (AList.delete k m)))"
proof (induction m)
  case (Cons a m)
  then show ?case
    by (cases "fst a = k") (auto simp: add_mset_commute delete_id intro: rev_image_eqI)
qed simp

lemma pop_all_mset:
  "distinct (map fst m) \<Longrightarrow> pop_all ps m = (vs, m') \<Longrightarrow>
    distinct (map fst m') \<and> mset (map snd m) = mset vs + mset (map snd m')"
proof (induction ps arbitrary: m vs m')
  case (Cons p ps)
  show ?case
  proof (cases "map_of m p")
    case None
    with Cons show ?thesis by auto
  next
    case (Some v)
    then obtain ws where ws: "pop_all ps (AList.delete p m) = (ws, m')" "vs = v # ws"
      using Cons.prems(2) by (auto split: prod.splits)
    from Cons.IH [OF distinct_delete [OF Cons.prems(1)] ws(1)] mset_delete [OF Cons.prems(1) Some]
    show ?thesis using ws(2) by simp
  qed
qed auto

lemma pop_wan_mset:
  "distinct (map fst m) \<Longrightarrow> pop_wan d m = Inr (vs, m') \<Longrightarrow>
    distinct (map fst m') \<and> mset (map snd m) = mset vs + mset (map snd m')"
proof -
  assume m: "distinct (map fst m)" and pop: "pop_wan d m = Inr (vs, m')"
  show ?thesis
  proof (cases d)
    case None
    with m pop show ?thesis by (auto simp: pop_wan_def)
  next
    case (Some v)
    with pop obtain k x where "map_of m k = Some x" "vs = [x]" "m' = AList.delete k m"
      by (cases v) (auto simp: pop_wan_def split: option.splits)
    then show ?thesis using m mset_delete [OF m, of k x] distinct_delete by auto
  qed
qed

lemma prepare_network_mset:
  assumes "distinct (map fst m)" "prepare_network data section m = Inr (vs, m')"
  shows "distinct (map fst m') \<and> mset (map snd m) = mset vs + mset (map snd m')"
proof -
  obtain wanted sorted_ifs res1 m1 res2 where
    pops: "pop_all wanted m = (res1, m1)" "pop_all sorted_ifs m1 = (res2, m')" "vs = res1 @ res2"
    using assms(2) unfolding prepare_network_def bindE_eq_Inr Let_def
    by (elim exE conjE) (simp split: prod.splits)
  have "distinct (map fst m1) \<and> mset (map snd m) = mset res1 + mset (map snd m1)"
    by (rule pop_all_mset [OF assms(1) pops(1)])
  moreover from this have "distinct (map fst m') \<and> mset (map snd m1) = mset res2 + mset (map snd m')"
    by (intro pop_all_mset [OF _ pops(2)]) simp
  ultimately show ?thesis using pops(3) by simp
qed

text \<open>
  C13: the networks settings show every detected wired interface exactly once: the WAN, LAN,
  guest and unassigned groups together are a permutation of the detected interfaces.
\<close>

theorem wired_groups_partition:
  assumes "distinct (map fst m)" "pop_wan device m = Inr wan_m" "wired_groups network_data wan_m = Inr g"
  shows "mset (gr_wan g @ gr_lan g @ gr_guest g @ gr_none g) = mset (map snd m)"
proof -
  obtain wan m0 where wan: "wan_m = (wan, m0)" by (cases wan_m)
  with assms(1,2) have m0: "distinct (map fst m0) \<and> mset (map snd m) = mset wan + mset (map snd m0)"
    by (intro pop_wan_mset) auto
  from assms(3) obtain lan m1 guest m2 where
    lan: "prepare_network network_data ''lan'' m0 = Inr (lan, m1)"
    and guest: "prepare_network network_data ''guest_turris'' m1 = Inr (guest, m2)"
    and g: "g = \<lparr>gr_wan = wan, gr_lan = lan, gr_guest = guest, gr_none = map snd m2\<rparr>"
    by (auto simp: wired_groups_def wan bindE_eq_Inr split: prod.splits)
  have m1: "distinct (map fst m1) \<and> mset (map snd m0) = mset lan + mset (map snd m1)"
    using m0 by (intro prepare_network_mset [OF _ lan]) simp
  have "mset (map snd m1) = mset guest + mset (map snd m2)"
    using m1 prepare_network_mset [OF _ guest] by simp
  then show ?thesis using m0 m1 g by (simp add: ac_simps)
qed

definition demo_iface :: "string \<Rightarrow> iface" where
  "demo_iface n = \<lparr>i_id = n, i_type = Some ''eth'', i_state = Some ''up'', i_slot_path = None,
     i_macaddr = None, i_configurable = True, i_ssid = None\<rparr>"

definition demo_bridge :: uci_data where
  "demo_bridge = [(''network'',
     [\<lparr>sec_type = ''interface'', sec_name = ''lan'', sec_data = [(''device'', Str ''br-lan'')], anonymous = False\<rparr>,
      \<lparr>sec_type = ''device'', sec_name = ''br_lan'', sec_data = [(''ports'', Lst [''lan11'', ''lan2''])], anonymous = False\<rparr>])]"

lemma wired_groups_partition_witness:
  "\<exists>g. wired_groups demo_bridge
      ([demo_iface ''eth2''], [(''lan2'', demo_iface ''lan2''), (''lan11'', demo_iface ''lan11''), (''sfp'', demo_iface ''sfp'')]) = Inr g \<and>
    gr_lan g = [demo_iface ''lan2'', demo_iface ''lan11''] \<and> gr_none g = [demo_iface ''sfp''] \<and>
    mset (gr_wan g @ gr_lan g @ gr_guest g @ gr_none g) =
      mset [demo_iface ''eth2'', demo_iface ''lan2'', demo_iface ''lan11'', demo_iface ''sfp'']"
proof -
  let ?m = "[(''eth2'', demo_iface ''eth2''), (''lan2'', demo_iface ''lan2''), (''lan11'', demo_iface ''lan11''), (''sfp'', demo_iface ''sfp'')]"
  let ?wm = "([demo_iface ''eth2''], [(''lan2'', demo_iface ''lan2''), (''lan11'', demo_iface ''lan11''), (''sfp'', demo_iface ''sfp'')])"
  let ?g = "\<lparr>gr_wan = [demo_iface ''eth2''], gr_lan = [demo_iface ''lan2'', demo_iface ''lan11''], gr_guest = [], gr_none = [demo_iface ''sfp'']\<rparr>"
  have d: "distinct (map fst ?m)" and w: "pop_wan (Some (Str ''eth2'')) ?m = Inr ?wm"
    by (simp_all add: pop_wan_def)
  have g: "wired_groups demo_bridge ?wm = Inr ?g" by code_simp
  show ?thesis
    using wired_groups_partition [OF d w g] g by simp
qed

text \<open>
  A device configured as WAN that was not detected (a VLAN on top of an interface, say)
  makes the whole request fail with \<^verbatim>\<open>KeyError\<close>.
\<close>

lemma undetected_wan_device_raises:
  assumes "fetch_active_wan_device E data s = (Ret (Some (Str d)), s')" "d \<notin> fst ` set m"
  shows "prepare_wan_network E data m s = (Raise (KeyError d), s')"
proof -
  have "map_of m d = None" using assms(2) by (simp add: map_of_eq_None_iff)
  with assms(1) show ?thesis by (simp add: prepare_wan_network_def bindP_def pop_wan_def lift_def)
qed

definition demo_firewall :: "usection list" where
  "demo_firewall = [\<lparr>sec_type = ''zone'', sec_name = ''cfg03dc81'',
     sec_data = [(''name'', Str ''wan''), (''network'', Lst [''wan'', ''wan6''])], anonymous = True\<rparr>]"

definition demo_vlan :: uci_data where
  "demo_vlan = [(''network'', [\<lparr>sec_type = ''interface'', sec_name = ''wan'',
     sec_data = [(''device'', Str ''eth2.100'')], anonymous = False\<rparr>])]"

lemma demo_firewall_read:
  "\<exists>s'. active_wan_interfaces demo_env (demo_state [''firewall'' \<mapsto> demo_firewall]) = (Ret (Lst [''wan'', ''wan6'']), s')"
proof -
  let ?s = "demo_state [''firewall'' \<mapsto> demo_firewall]"
  have facts: "wf_config demo_firewall" "valid_name ''firewall''"
    "wan_interfaces_of [(''firewall'', demo_firewall)] = Inr (Lst [''wan'', ''wan6''])"
    by code_simp+
  have "read_uci demo_env ''firewall'' (opened ?s) = (Ret [(''firewall'', demo_firewall)], opened ?s)"
    unfolding demo_env_def using facts(1,2) by (intro exec_read_uci) (simp_all add: store_simps)
  then have "with_uci demo_env (read_uci demo_env ''firewall'') ?s =
      (Ret [(''firewall'', demo_firewall)], closed (\<lambda>xs. xs) (opened ?s))"
    unfolding demo_env_def by (intro exec_with_uci) (simp_all add: store_simps)
  then show ?thesis using facts(3) by (simp add: active_wan_interfaces_def bindP_def lift_def)
qed

lemma undetected_wan_device_raises_witness:
  "\<exists>s'. prepare_wan_network demo_env demo_vlan [(''eth2'', demo_iface ''eth2'')]
      (demo_state [''firewall'' \<mapsto> demo_firewall]) = (Raise (KeyError ''eth2.100''), s')"
proof -
  obtain s' where "active_wan_interfaces demo_env (demo_state [''firewall'' \<mapsto> demo_firewall]) =
      (Ret (Lst [''wan'', ''wan6'']), s')"
    using demo_firewall_read by blast
  moreover have "sole_wwan (Lst [''wan'', ''wan6'']) = None" by (simp add: sole_wwan_def)
  moreover have "get_option_named demo_vlan ''network'' ''wan'' ''device'' (Some (Str [])) = Inr (Str ''eth2.100'')"
    by code_simp
  ultimately have "fetch_active_wan_device demo_env demo_vlan (demo_state [''firewall'' \<mapsto> demo_firewall])
      = (Ret (Some (Str ''eth2.100'')), s')"
    by (simp add: fetch_active_wan_device_def wired_wan_device_def get_wan_mode_def bindP_def ret_def lift_def)
  from undetected_wan_device_raises [OF this, of "[(''eth2'', demo_iface ''eth2'')]"] show ?thesis by simp
qed

text \<open>
  A wireless interface that serves two networks is shown with the SSID of the last one in
  both of them: the SSID is written into the one record that both lists hold.
\<close>

lemma shared_wireless_record_shows_last_ssid:
  assumes "enabled_wireless_networks wireless_data v = Inr [(Str ''lan'', Str a), (Str ''guest_turris'', Str b)]"
    and "add_wireless wireless_data [v] g = Inr g'"
  shows "i_ssid (last (gr_lan g')) = Some b \<and> i_ssid (last (gr_guest g')) = Some b \<and>
    length (gr_lan g') = length (gr_lan g) + 1 \<and> length (gr_guest g') = length (gr_guest g) + 1"
  using assms by (auto simp: add_to_group_def shared_record_def)

definition demo_wireless :: uci_data where
  "demo_wireless = [(''wireless'',
     [\<lparr>sec_type = ''wifi-device'', sec_name = ''radio0'', sec_data = [(''path'', Str ''soc/pcie0'')], anonymous = False\<rparr>,
      \<lparr>sec_type = ''wifi-iface'', sec_name = ''default_radio0'',
       sec_data = [(''device'', Str ''radio0''), (''network'', Str ''lan''), (''ssid'', Str ''home'')], anonymous = False\<rparr>,
      \<lparr>sec_type = ''wifi-iface'', sec_name = ''guest_iface_0'',
       sec_data = [(''device'', Str ''radio0''), (''network'', Str ''guest_turris''), (''ssid'', Str ''visitors'')],
       anonymous = False\<rparr>])]"

definition demo_wlan :: iface where
  "demo_wlan = (demo_iface ''wlan0'')\<lparr>i_type := Some ''wifi'', i_slot_path := Some ''soc/pcie0/net/wlan0''\<rparr>"

lemma shared_wireless_record_shows_last_ssid_witness:
  "\<exists>g'. add_wireless demo_wireless [demo_wlan] \<lparr>gr_wan = [], gr_lan = [], gr_guest = [], gr_none = []\<rparr> = Inr g' \<and>
    i_ssid (last (gr_lan g')) = Some ''visitors'' \<and> length (gr_lan g') = 1"
proof -
  let ?g = "\<lparr>gr_wan = [], gr_lan = [], gr_guest = [], gr_none = []\<rparr> :: groups"
  have found: "enabled_wireless_networks demo_wireless demo_wlan =
      Inr [(Str ''lan'', Str ''home''), (Str ''guest_turris'', Str ''visitors'')]"
    by code_simp
  then obtain g' where g': "add_wireless demo_wireless [demo_wlan] ?g = Inr g'" by (simp add: Let_def)
  from shared_wireless_record_shows_last_ssid [OF found g'] g' show ?thesis by simp
qed

end
