(* ===== verification/LanSettings.thy ===== *)
theory LanSettings
  imports Lan Networks
begin

text \<open>
  The settings of \<^verbatim>\<open>LanUci\<close>: what \<^verbatim>\<open>get_settings\<close> reports and \<^verbatim>\<open>update_settings\<close> writes. The
  hooks of the entry point \<^verbatim>\<open>lan_range_changed\<close>, the leases that \<^verbatim>\<open>ubus\<close> reports, the current
  time and the detected interfaces are arguments.
\<close>

section \<open>Leases\<close>

definition normalize_lease :: "uval \<Rightarrow> int res" where
  "normalize_lease v = (case v of
      Lst _ \<Rightarrow> Inl ValueError
    | _ \<Rightarrow> let t = py_str v in
        if t = ''infinite'' then Inr 0
        else if endswith t ''m'' then bindE (int_of (butlast t)) (\<lambda>n. Inr (n * 60))
        else if endswith t ''h'' then bindE (int_of (butlast t)) (\<lambda>n. Inr (n * 60 * 60))
        else if endswith t ''d'' then bindE (int_of (butlast t)) (\<lambda>n. Inr (n * 60 * 60 * 24))
        else int_of t)"

definition lease_text :: "int \<Rightarrow> string" where
  "lease_text n = (if n = 0 then ''infinite'' else show_int n)"

definition make_timestamp_from_dhcpv6_lease_time :: "int \<Rightarrow> int \<Rightarrow> int" where
  "make_timestamp_from_dhcpv6_lease_time now duration = (if duration = 0 then 0 else now + duration)"

definition sanitize_dhcpv6_lease_time :: "uval \<Rightarrow> int option res" where
  "sanitize_dhcpv6_lease_time v = (case uval_int v of
      Inr n \<Rightarrow> Inr (Some (if n \<ge> 0 then n else 0))
    | Inl ValueError \<Rightarrow> Inr None
    | Inl e \<Rightarrow> Inl e)"

record ipv6_lease =
  l_addresses :: "string list option"
  l_valid :: uval
  l_duid :: string
  l_hostname :: string
  l_flags :: "string list"

record ipv6_client =
  v6_expires :: int
  v6_duid :: string
  v6_address :: string
  v6_hostname :: string
  v6_active :: bool

definition lease_ipv6_clients :: "int \<Rightarrow> ipv6_lease \<Rightarrow> ipv6_client list res" where
  "lease_ipv6_clients now l = (case l_addresses l of
      None \<Rightarrow> Inr []
    | Some addresses \<Rightarrow>
        bindE (sanitize_dhcpv6_lease_time (l_valid l)) (\<lambda>expires. Inr (case expires of
            None \<Rightarrow> []
          | Some t \<Rightarrow> map (\<lambda>a. \<lparr>v6_expires = make_timestamp_from_dhcpv6_lease_time now t,
              v6_duid = l_duid l, v6_address = a, v6_hostname = l_hostname l,
              v6_active = (''bound'' \<in> set (l_flags l))\<rparr>) addresses)))"

definition ipv6_client_list ::
  "(string \<times> ipv6_lease list) list option \<Rightarrow> int \<Rightarrow> string \<Rightarrow> ipv6_client list res" where
  "ipv6_client_list lease_data now interface = (case lease_data of
      None \<Rightarrow> Inr []
    | Some devices \<Rightarrow> (case map_of devices interface of
          None \<Rightarrow> Inr []
        | Some leases \<Rightarrow> bindE (mapE (lease_ipv6_clients now) leases) (\<lambda>cs. Inr (concat cs))))"

section \<open>Clients\<close>

text \<open>\<^verbatim>\<open>ipaddress.ip_address\<close> of something that is no string raises \<^verbatim>\<open>ValueError\<close>.\<close>

fun ip_text :: "uval \<Rightarrow> string res" where
  "ip_text (Str s) = Inr s"
| "ip_text _ = Inl ValueError"

text \<open>Only the first of several MAC addresses counts.\<close>

definition with_first_mac :: "usection \<Rightarrow> usection res" where
  "with_first_mac e = (case map_of (sec_data e) ''mac'' of
      None \<Rightarrow> Inr e
    | Some macs \<Rightarrow> bindE (process_uci_mac_addresses macs) (\<lambda>ms.
        bindE (py_index ms 0) (\<lambda>mac. Inr (e\<lparr>sec_data := AList.update ''mac'' (Str mac) (sec_data e)\<rparr>))))"

text \<open>The static hosts inside of the network, by their MAC address; a later one wins.\<close>

fun static_leases :: "string \<Rightarrow> string \<Rightarrow> usection list \<Rightarrow> (string \<times> usection) list \<Rightarrow> (string \<times> usection) list res" where
  "static_leases router_ip netmask [] m = Inr m"
| "static_leases router_ip netmask (e # es) m = (case (map_of (sec_data e) ''mac'', map_of (sec_data e) ''ip'') of
      (Some mac, Some ip) \<Rightarrow>
        bindE (if ip = Str ''ignore'' then Inr True
               else bindE (ip_text ip) (\<lambda>a. in_network a router_ip netmask)) (\<lambda>keep.
          static_leases router_ip netmask es (if keep then AList.update (py_str mac) e m else m))
    | _ \<Rightarrow> static_leases router_ip netmask es m)"

fun merge_clients :: "client list \<Rightarrow> (string \<times> usection) list \<Rightarrow> client list \<times> (string \<times> usection) list" where
  "merge_clients [] m = ([], m)"
| "merge_clients (c # cs) m = (case map_of m (c_mac c) of
      None \<Rightarrow> (let (cs', m') = merge_clients cs m in (c # cs', m'))
    | Some e \<Rightarrow>
        (let name = data_get e ''name'' (Str []);
             c' = c\<lparr>c_ip := py_str (data_get e ''ip'' (Str [])),
                    c_hostname := (if truthy name then py_str name else c_hostname c), c_static := True\<rparr>;
             (cs', m') = merge_clients cs (AList.delete (c_mac c) m)
         in (c' # cs', m')))"

definition static_client :: "string \<times> usection \<Rightarrow> client" where
  "static_client me = \<lparr>c_expires = 0, c_mac = fst me, c_ip = py_str (data_get (snd me) ''ip'' (Str [])),
     c_hostname = py_str (data_get (snd me) ''name'' (Str [])), c_active = False, c_static = True\<rparr>"

definition get_client_list :: "'e env \<Rightarrow> uci_data \<Rightarrow> string \<Rightarrow> string \<Rightarrow> ('e st, client list) prog" where
  "get_client_list E uci_data router_ip netmask =
     bindP (get_dhcp_clients E router_ip netmask) (\<lambda>file_records.
     bindP (lift (bindE (get_sections_by_type uci_data ''dhcp'' ''host'') (\<lambda>hosts.
       bindE (mapE with_first_mac hosts) (\<lambda>records. static_leases router_ip netmask records [])))) (\<lambda>static.
       let (records, rest) = merge_clients file_records static in ret (records @ map static_client rest)))"

section \<open>Reading the settings\<close>

record lan_dhcp_state =
  ld_enabled :: bool
  ld_start :: int
  ld_limit :: int
  ld_lease_time :: int
  ld_clients :: "client list"
  ld_ipv6clients :: "ipv6_client list option"

record qos_settings =
  q_enabled :: bool
  q_upload :: int
  q_download :: int

record lan_state =
  la_mode :: uval
  la_router_ip :: string
  la_netmask :: string
  la_dhcp :: lan_dhcp_state
  la_lan_type :: uval
  la_hostname :: "uval option"
  la_gateway :: string
  la_dns :: "string list"
  la_interface_count :: nat
  la_interface_up_count :: nat
  la_qos :: qos_settings
  la_redirect :: "bool option"

definition option_int :: "uci_data \<Rightarrow> string \<Rightarrow> string \<Rightarrow> string \<Rightarrow> int \<Rightarrow> int res" where
  "option_int data c s p d = bindE (get_option_named data c s p (Some (Num d))) uval_int"

definition option_bool :: "uci_data \<Rightarrow> string \<Rightarrow> string \<Rightarrow> string \<Rightarrow> string \<Rightarrow> bool res" where
  "option_bool data c s p d = bindE (get_option_named data c s p (Some (Str d))) parse_bool"

text \<open>The first two IPv4 name servers, the last written first; one bad address hides all.\<close>

definition lan_dns_servers :: "uci_data \<Rightarrow> string list res" where
  "lan_dns_servers network_data =
     bindE (get_option_named network_data ''network'' ''lan'' ''dns'' (Some (Lst []))) (\<lambda>dns.
     bindE (case dns of Lst xs \<Rightarrow> Inr xs
            | Str s \<Rightarrow> Inr (filter (\<lambda>e. e \<noteq> []) (split_on CHR '' '' s)) | _ \<Rightarrow> Inl AttributeError) (\<lambda>xs.
       Inr (case mapE (\<lambda>e. bindE (ip_address e) (\<lambda>a. Inr (e, a))) (rev xs) of
           Inl _ \<Rightarrow> []
         | Inr es \<Rightarrow> take 2 (map fst (filter (\<lambda>(e, a). case a of V4 _ \<Rightarrow> True | V6 _ \<Rightarrow> False) es)))))"

definition read_qos :: "uci_data \<Rightarrow> string \<Rightarrow> qos_settings res" where
  "read_qos sqm_data section =
     bindE (option_bool sqm_data ''sqm'' section ''enabled'' ''0'') (\<lambda>enabled.
     bindE (option_int sqm_data ''sqm'' section ''download'' 1024) (\<lambda>upload.
     bindE (option_int sqm_data ''sqm'' section ''upload'' 1024) (\<lambda>download.
       Inr \<lparr>q_enabled = enabled, q_upload = upload, q_download = download\<rparr>)))"

text \<open>\<open>ubus\<close> is the decoded answer of \<^verbatim>\<open>ubus call dhcp ipv6leases\<close>, \<open>None\<close> when it is empty or failed.\<close>

definition lan_dhcp_values :: "uci_data \<Rightarrow> (bool \<times> int \<times> int \<times> int) res" where
  "lan_dhcp_values dhcp_data =
     bindE (option_bool dhcp_data ''dhcp'' ''lan'' ''ignore'' ''0'') (\<lambda>ignore.
     bindE (option_int dhcp_data ''dhcp'' ''lan'' ''start'' 100) (\<lambda>start.
     bindE (option_int dhcp_data ''dhcp'' ''lan'' ''limit'' 150) (\<lambda>limit.
     bindE (bindE (get_option_named dhcp_data ''dhcp'' ''lan'' ''leasetime'' (Some (Num 43200))) normalize_lease) (\<lambda>lease.
       Inr (\<not> ignore, start, limit, lease)))))"

definition read_lan_dhcp ::
  "'e env \<Rightarrow> ('e st, (string \<times> ipv6_lease list) list option) prog \<Rightarrow> int \<Rightarrow>
    uci_data \<Rightarrow> string \<Rightarrow> string \<Rightarrow> ('e st, lan_dhcp_state) prog" where
  "read_lan_dhcp E ubus now dhcp_data router_ip netmask =
     bindP (lift (lan_dhcp_values dhcp_data)) (\<lambda>(enabled, start, limit, lease).
       if enabled then
         bindP (get_client_list E dhcp_data router_ip netmask) (\<lambda>clients.
         bindP ubus (\<lambda>leases. bindP (lift (ipv6_client_list leases now ''br-lan'')) (\<lambda>v6.
           ret \<lparr>ld_enabled = True, ld_start = start, ld_limit = limit, ld_lease_time = lease,
                ld_clients = clients, ld_ipv6clients = Some v6\<rparr>)))
       else ret \<lparr>ld_enabled = False, ld_start = start, ld_limit = limit, ld_lease_time = lease,
                 ld_clients = [], ld_ipv6clients = None\<rparr>)"

definition lan_get_settings ::
  "'e env \<Rightarrow> iface list res \<Rightarrow> ('e st, (string \<times> ipv6_lease list) list option) prog \<Rightarrow> int \<Rightarrow> ('e st, lan_state) prog" where
  "lan_get_settings E hw ubus now =
     bindP (with_uci E
       (bindP (read_uci E ''network'') (\<lambda>network_data.
        bindP (read_uci E ''sqm'') (\<lambda>sqm_data.
        bindP (read_uci E ''dhcp'') (\<lambda>dhcp_data.
        bindP (read_uci E ''firewall'') (\<lambda>firewall_data.
        bindP (read_wireless E) (\<lambda>wireless_data.
          ret (network_data, sqm_data, dhcp_data, firewall_data, wireless_data))))))))
       (\<lambda>(network_data, sqm_data, dhcp_data, firewall_data, wireless_data).
     bindP (lift (get_option_named network_data ''network'' ''lan'' ''_turris_mode'' (Some (Str ''managed'')))) (\<lambda>mode.
     bindP (lift (get_network_combo network_data)) (\<lambda>(router_ip, netmask, gateway).
     bindP (read_lan_dhcp E ubus now dhcp_data router_ip netmask) (\<lambda>dhcp.
     bindP (lift (get_option_named network_data ''network'' ''lan'' ''proto'' None)) (\<lambda>lan_type.
     bindP (lift (get_option_named network_data ''network'' ''lan'' ''hostname'' (Some (Str [])))) (\<lambda>hostname.
     bindP (lift (lan_dns_servers network_data)) (\<lambda>dns.
     bindP (lift (read_qos sqm_data ''limit_lan_turris'')) (\<lambda>qos.
     bindP (lift (get_interface_count hw network_data wireless_data ''lan'' False)) (\<lambda>count.
     bindP (lift (get_interface_count hw network_data wireless_data ''lan'' True)) (\<lambda>up_count.
     bindP (lift (if section_exists firewall_data ''firewall'' ''redirect_192_168_1_1''
         then bindE (option_bool firewall_data ''firewall'' ''redirect_192_168_1_1'' ''enabled'' ''1'') (\<lambda>b. Inr (Some b))
         else Inr None)) (\<lambda>redirect.
       ret \<lparr>la_mode = mode, la_router_ip = router_ip, la_netmask = netmask, la_dhcp = dhcp,
            la_lan_type = lan_type, la_hostname = (if truthy hostname then Some hostname else None),
            la_gateway = gateway, la_dns = dns, la_interface_count = count,
            la_interface_up_count = up_count, la_qos = qos, la_redirect = redirect\<rparr>)))))))))))"

section \<open>Writing the settings\<close>

record dhcp_request =
  dr_enabled :: bool
  dr_start :: int
  dr_limit :: int
  dr_lease_time :: int

record managed_request =
  mr_router_ip :: string
  mr_netmask :: string
  mr_dhcp :: dhcp_request

record static_request =
  sr_ip :: string
  sr_netmask :: string
  sr_gateway :: string
  sr_dns1 :: "string option"
  sr_dns2 :: "string option"

datatype unmanaged_request = LanNone | LanDhcp "string option" | LanStatic static_request

datatype lan_request = Managed managed_request | Unmanaged unmanaged_request

definition set_lan :: "'e env \<Rightarrow> string \<Rightarrow> string \<Rightarrow> ('e st, unit) prog" where
  "set_lan E router_ip netmask =
     block [del_option E ''network'' ''lan'' ''ipaddr'' False,
            del_option E ''network'' ''lan'' ''netmask'' False,
            bindP (lift (get_interface router_ip netmask)) (\<lambda>cidr.
              add_to_list E ''network'' ''lan'' ''ipaddr'' (map py_str (parse_to_list (Str cidr))))]"

definition store_lan_redirect :: "'e env \<Rightarrow> bool \<Rightarrow> ('e st, unit) prog" where
  "store_lan_redirect E enabled =
     bindP (read_uci E ''firewall'') (\<lambda>firewall_data.
       whenP (section_exists firewall_data ''firewall'' ''redirect_192_168_1_1'')
         [set_option E ''firewall'' ''redirect_192_168_1_1'' ''enabled'' (store_bool enabled)])"

text \<open>
  Both conditions are tested for every host: a host inside of the new dynamic range that also
  leaves the network is deleted twice.
\<close>

definition filter_host ::
  "'e env \<Rightarrow> string \<Rightarrow> string \<Rightarrow> string \<Rightarrow> string \<Rightarrow> int \<Rightarrow> int \<Rightarrow> usection \<Rightarrow> ('e st, unit) prog" where
  "filter_host E old_router_ip old_netmask new_router_ip new_netmask new_start new_limit e =
     (case map_of (sec_data e) ''ip'' of
        None \<Rightarrow> ret ()
      | Some ip \<Rightarrow>
          if ip = Str ''ignore'' then ret ()
          else bindP (lift (ip_text ip)) (\<lambda>a.
            block [
              bindP (lift (in_range a new_router_ip new_start new_limit)) (\<lambda>inside.
                whenP inside [del_section E ''dhcp'' (sec_name e)]),
              whenP (old_router_ip \<noteq> [] \<and> old_netmask \<noteq> []) [
                bindP (lift (andE (in_network a old_router_ip old_netmask)
                         (bindE (in_network a new_router_ip new_netmask) (\<lambda>b. Inr (\<not> b))))) (\<lambda>left.
                  whenP left [del_section E ''dhcp'' (sec_name e)])]]))"

definition filter_dhcp_client_records ::
  "'e env \<Rightarrow> uci_data \<Rightarrow> string \<Rightarrow> string \<Rightarrow> string \<Rightarrow> string \<Rightarrow> int \<Rightarrow> int \<Rightarrow> ('e st, unit) prog" where
  "filter_dhcp_client_records E dhcp_data old_router_ip old_netmask new_router_ip new_netmask new_start new_limit =
     bindP (lift (get_sections_by_type dhcp_data ''dhcp'' ''host'')) (\<lambda>records.
       forP records (filter_host E old_router_ip old_netmask new_router_ip new_netmask new_start new_limit))"

definition update_managed :: "'e env \<Rightarrow> managed_request \<Rightarrow> ('e st, unit) prog" where
  "update_managed E m =
     bindP (read_uci E ''network'') (\<lambda>network_data.
     bindP (read_uci E ''dhcp'') (\<lambda>dhcp_data.
     let dhcp = mr_dhcp m in
     block [
       set_option E ''network'' ''lan'' ''proto'' ''static'',
       set_lan E (mr_router_ip m) (mr_netmask m),
       add_section E ''dhcp'' ''dhcp'' ''lan'',
       set_option E ''dhcp'' ''lan'' ''ignore'' (store_bool (\<not> dr_enabled dhcp)),
       if dr_enabled dhcp then
         block [
           set_option E ''dhcp'' ''lan'' ''ra'' ''server'',
           set_option E ''dhcp'' ''lan'' ''dhcpv6'' ''server'',
           set_option E ''dhcp'' ''lan'' ''start'' (show_int (dr_start dhcp)),
           set_option E ''dhcp'' ''lan'' ''limit'' (show_int (dr_limit dhcp)),
           set_option E ''dhcp'' ''lan'' ''leasetime'' (lease_text (dr_lease_time dhcp)),
           replace_list E ''dhcp'' ''lan'' ''dhcp_option'' [''6,'' @ mr_router_ip m],
           bindP (lift (get_network_combo network_data)) (\<lambda>(old_router_ip, old_netmask, _).
             filter_dhcp_client_records E dhcp_data old_router_ip old_netmask (mr_router_ip m) (mr_netmask m)
               (dr_start dhcp) (dr_limit dhcp))]
       else
         block [
           set_option E ''dhcp'' ''lan'' ''ra'' ''disabled'',
           set_option E ''dhcp'' ''lan'' ''dhcpv6'' ''disabled'']]))"

fun lan_type_of :: "unmanaged_request \<Rightarrow> string" where
  "lan_type_of LanNone = ''none''"
| "lan_type_of (LanDhcp _) = ''dhcp''"
| "lan_type_of (LanStatic _) = ''static''"

fun given :: "'a option list \<Rightarrow> 'a list" where
  "given [] = []"
| "given (None # xs) = given xs"
| "given (Some x # xs) = x # given xs"

definition update_unmanaged :: "'e env \<Rightarrow> unmanaged_request \<Rightarrow> ('e st, unit) prog" where
  "update_unmanaged E m =
     block [
       set_option E ''network'' ''lan'' ''proto'' (lan_type_of m),
       add_section E ''dhcp'' ''dhcp'' ''lan'',
       set_option E ''dhcp'' ''lan'' ''ignore'' (store_bool True),
       set_option E ''dhcp'' ''lan'' ''ra'' ''disabled'',
       set_option E ''dhcp'' ''lan'' ''dhcpv6'' ''disabled'',
       (case m of
          LanNone \<Rightarrow> ret ()
        | LanDhcp None \<Rightarrow> ret ()
        | LanDhcp (Some hostname) \<Rightarrow> set_option E ''network'' ''lan'' ''hostname'' hostname
        | LanStatic r \<Rightarrow>
            block [
              set_lan E (sr_ip r) (sr_netmask r),
              set_option E ''network'' ''lan'' ''gateway'' (sr_gateway r),
              replace_list E ''network'' ''lan'' ''dns'' (given [sr_dns2 r, sr_dns1 r])])]"

text \<open>
  \<^verbatim>\<open>raise UciException from e\<close> calls the class without its arguments, which raises
  \<^verbatim>\<open>TypeError\<close> instead.
\<close>

definition update_lan_qos :: "'e env \<Rightarrow> qos_settings \<Rightarrow> ('e st, unit) prog" where
  "update_lan_qos E q =
     block [
       tryP (del_section E ''sqm'' ''limit_lan_turris'') is_uci_exception (\<lambda>_. ret ()),
       whenP (q_enabled q) [
         tryP (block [
             add_section E ''sqm'' ''queue'' ''limit_lan_turris'',
             set_option E ''sqm'' ''limit_lan_turris'' ''enabled'' (store_bool (q_enabled q)),
             set_option E ''sqm'' ''limit_lan_turris'' ''interface'' ''br-lan'',
             set_option E ''sqm'' ''limit_lan_turris'' ''qdisc'' ''fq_codel'',
             set_option E ''sqm'' ''limit_lan_turris'' ''script'' ''simple.qos'',
             set_option E ''sqm'' ''limit_lan_turris'' ''link_layer'' ''none'',
             set_option E ''sqm'' ''limit_lan_turris'' ''verbosity'' ''5'',
             set_option E ''sqm'' ''limit_lan_turris'' ''debug_logging'' ''1'',
             set_option E ''sqm'' ''limit_lan_turris'' ''upload'' (show_int (q_download q)),
             set_option E ''sqm'' ''limit_lan_turris'' ''download'' (show_int (q_upload q))])
           is_uci_exception (\<lambda>_. raise TypeError)]]"

definition lan_update_body ::
  "'e env \<Rightarrow> lan_request \<Rightarrow> bool option \<Rightarrow> qos_settings option \<Rightarrow> ('e st, unit) prog" where
  "lan_update_body E req redirect qos =
     block [
       add_section E ''network'' ''interface'' ''lan'',
       set_option E ''network'' ''lan'' ''_turris_mode'' (case req of Managed _ \<Rightarrow> ''managed'' | Unmanaged _ \<Rightarrow> ''unmanaged''),
       (case redirect of None \<Rightarrow> ret () | Some b \<Rightarrow> store_lan_redirect E b),
       (case req of Managed m \<Rightarrow> update_managed E m | Unmanaged m \<Rightarrow> update_unmanaged E m),
       (case qos of None \<Rightarrow> ret () | Some q \<Rightarrow> update_lan_qos E q)]"

definition lan_update_settings ::
  "'e env \<Rightarrow> ('e st, unit) prog list \<Rightarrow> lan_request \<Rightarrow> bool option \<Rightarrow> qos_settings option \<Rightarrow> ('e st, bool) prog" where
  "lan_update_settings E hooks req redirect qos =
     bindP (block [with_uci E (lan_update_body E req redirect qos), block hooks,
                   try_update_passed E ''lan'', restart_network E]) (\<lambda>_. ret True)"

section \<open>What is written is read back\<close>

lemma endswith_digit: "s \<noteq> [] \<Longrightarrow> last s \<noteq> c \<Longrightarrow> \<not> endswith s [c]"
  by (cases s rule: rev_cases) (auto simp: endswith_def)

lemma last_show_int: "is_digit (last (show_int i))"
proof -
  have "is_digit (last (show_nat n))" for n
    by (rule show_nat_digits [OF last_in_set [OF show_nat_nonempty]])
  then show ?thesis by (simp add: show_int_def)
qed

lemma not_digit_suffix: "\<not> is_digit CHR ''m''" "\<not> is_digit CHR ''h''" "\<not> is_digit CHR ''d''" "\<not> is_digit CHR ''e''"
  by (simp_all add: is_digit_def)

lemma normalize_lease_text: "normalize_lease (Str (lease_text n)) = Inr n"
proof (cases "n = 0")
  case True
  then show ?thesis by (simp add: normalize_lease_def lease_text_def)
next
  case False
  have "\<not> endswith (show_int n) [c]" if "\<not> is_digit c" for c
    using endswith_digit [of "show_int n" c] last_show_int [of n] that by auto
  moreover have "show_int n \<noteq> ''infinite''"
    using last_show_int [of n] not_digit_suffix by auto
  ultimately show ?thesis
    using False not_digit_suffix by (simp add: normalize_lease_def lease_text_def Let_def)
qed

lemma digits_no_slash: "c \<in> set (show_nat n) \<Longrightarrow> c \<noteq> CHR ''/''"
  using show_nat_digits by (fastforce simp: is_digit_def)

lemma set_join: "c \<in> set (join sep xs) \<Longrightarrow> c \<in> set sep \<or> (\<exists>x\<in>set xs. c \<in> set x)"
  by (induction sep xs rule: join.induct) auto

lemma parse_octet_digits: "parse_octet s = Some n \<Longrightarrow> c \<in> set s \<Longrightarrow> is_digit c"
  by (auto simp: parse_octet_def list_all_iff split: if_splits)

lemma parse_ipv4_chars:
  assumes "parse_ipv4 s = Some n" "c \<in> set s"
  shows "is_digit c \<or> c = CHR ''.''"
proof -
  have "c \<in> set (join ''.'' (split_on CHR ''.'' s))" using assms(2) by (simp only: join_split_on)
  then consider "c \<in> set ''.''" | x where "x \<in> set (split_on CHR ''.'' s)" "c \<in> set x"
    using set_join by blast
  then show ?thesis
  proof cases
    case 2
    have "parse_octet x \<noteq> None"
      using assms(1) 2(1) by (auto simp: parse_ipv4_def split: list.splits option.splits)
    then show ?thesis using parse_octet_digits 2(2) by blast
  qed simp
qed

lemma parse_ipv4_no_slash: "parse_ipv4 s = Some n \<Longrightarrow> CHR ''/'' \<notin> set s"
  using parse_ipv4_chars [of s n "CHR ''/''"] by (auto simp: is_digit_def)

lemma make_netmask_show_nat: "p \<le> 32 \<Longrightarrow> make_netmask (show_nat p) = Some p"
proof -
  assume p: "p \<le> 32"
  have "list_all is_digit (show_nat p)" by (simp add: list_all_iff show_nat_digits)
  moreover have "digits_val 0 False (show_nat p) = Some p"
    using digits_val_show_nat [of 0 False p "[]"] by simp
  ultimately show ?thesis using p by (simp add: make_netmask_def)
qed

lemma count_char_slash: "CHR ''/'' \<notin> set a \<Longrightarrow> CHR ''/'' \<notin> set b \<Longrightarrow> count_char CHR ''/'' (a @ ''/'' @ b) = 1"
  by (auto simp: count_char_def filter_empty_conv)

text \<open>
  An address and netmask that the code accepts are stored as \<^verbatim>\<open>address/prefix\<close>, and read as
  the same address and the dotted form of the netmask.
\<close>

lemma get_interface_eq:
  assumes "parse_ipv4 ip = Some n" "make_netmask m = Some p" "CHR ''/'' \<notin> set m"
  shows "get_interface ip m = Inr (ip @ ''/'' @ show_nat p)"
  using assms parse_ipv4_no_slash [OF assms(1)]
  by (simp add: get_interface_def ip_interface_def split_on_append split_on_none parse_ipv4_show)

lemma ip_interface_cidr:
  assumes "parse_ipv4 ip = Some n" "p \<le> 32"
  shows "ip_interface (ip @ ''/'' @ show_nat p) = Inr (n, p)" "count_char CHR ''/'' (ip @ ''/'' @ show_nat p) = 1"
proof -
  have "CHR ''/'' \<notin> set (show_nat p)" using digits_no_slash by blast
  then show "ip_interface (ip @ ''/'' @ show_nat p) = Inr (n, p)" "count_char CHR ''/'' (ip @ ''/'' @ show_nat p) = 1"
    using assms parse_ipv4_no_slash [OF assms(1)] count_char_slash
    by (simp_all add: ip_interface_def split_on_append split_on_none make_netmask_show_nat)
qed

lemma get_network_combo_cidr:
  assumes "map_of data ''network'' = Some N" "lk N ''lan'' ''ipaddr'' = Some (Lst [ip @ ''/'' @ show_nat p])"
    and "parse_ipv4 ip = Some n" "p \<le> 32"
  shows "\<exists>gateway. get_network_combo data = Inr (ip, show_ipv4 (netmask_of p), gateway)"
proof -
  obtain g where g: "get_option_named data ''network'' ''lan'' ''gateway'' (Some default_router_ip) = Inr g"
    using get_option_named_default by blast
  have "get_option_named data ''network'' ''lan'' ''ipaddr'' (Some default_router_ip) = Inr (Lst [ip @ ''/'' @ show_nat p])"
    using assms(1,2) by (simp add: get_option_named_eq)
  then show ?thesis
    using g ip_interface_cidr [OF assms(3,4)] parse_ipv4_show [OF assms(3)]
    by (simp add: get_network_combo_def unwrap_list_def)
qed

end
