(* ===== verification/LanRegistry.thy ===== *)
theory LanRegistry
  imports Lan
begin

text \<open>
  The registry of static DHCP clients: what \<^verbatim>\<open>set_dhcp_client\<close>, \<^verbatim>\<open>update_dhcp_client\<close> and
  \<^verbatim>\<open>delete_dhcp_client\<close> of \<^verbatim>\<open>LanUci\<close> make of the hosts in the \<^verbatim>\<open>dhcp\<close> config, over every
  uci tool. The invariant is that no MAC address belongs to two hosts.
\<close>

section \<open>The hosts of a config\<close>

definition hosts :: "usection list \<Rightarrow> usection list" where
  "hosts secs = filter (\<lambda>e. sec_type e = ''host'') secs"

definition host_macs :: "usection \<Rightarrow> string list" where
  "host_macs e = (case map_of (sec_data e) ''mac'' of
      None \<Rightarrow> []
    | Some v \<Rightarrow> (case process_uci_mac_addresses v of Inr macs \<Rightarrow> macs | Inl _ \<Rightarrow> []))"

definition all_macs :: "usection list \<Rightarrow> string list" where
  "all_macs secs = concat (map host_macs (hosts secs))"

lemma wf_value_macs: "wf_value v \<Longrightarrow> \<exists>macs. process_uci_mac_addresses v = Inr macs"
  by (cases v) auto

lemma wf_section_value: "wf_section e \<Longrightarrow> map_of (sec_data e) p = Some v \<Longrightarrow> wf_value v"
  by (auto simp: wf_section_def list_all_iff dest!: map_of_SomeD)

text \<open>The lookup finds the first host that has the address, and none when nobody has it.\<close>

lemma find_host_total:
  assumes "list_all wf_section secs"
  shows "find_host mac secs = Inr (case find (\<lambda>e. upper mac \<in> set (host_macs e)) secs of
    None \<Rightarrow> None | Some e \<Rightarrow> Some (e, host_macs e))"
  using assms
proof (induction secs)
  case (Cons e secs)
  show ?case
  proof (cases "map_of (sec_data e) ''mac''")
    case None
    with Cons show ?thesis by (simp add: host_macs_def)
  next
    case (Some v)
    with Cons.prems obtain macs where "process_uci_mac_addresses v = Inr macs"
      using wf_value_macs [OF wf_section_value [of e]] by auto
    with Cons Some show ?thesis by (simp add: host_macs_def)
  qed
qed simp

lemma get_host_record_section_eq:
  assumes "map_of data ''dhcp'' = Some D" "wf_config D"
  shows "get_host_record_section data mac =
    Inr (case find (\<lambda>e. upper mac \<in> set (host_macs e)) (hosts D) of
      None \<Rightarrow> None | Some e \<Rightarrow> Some (e, host_macs e))"
proof -
  have "list_all wf_section (hosts D)"
    using assms(2) by (auto simp: wf_config_def hosts_def list_all_iff)
  then show ?thesis
    using assms(1) find_host_total by (simp add: get_host_record_section_def get_sections_by_type_eq hosts_def)
qed

lemma host_record_exists_eq:
  assumes "map_of data ''dhcp'' = Some D" "wf_config D"
  shows "host_record_exists data mac = Inr (upper mac \<in> set (all_macs D))"
proof -
  have "find (\<lambda>e. upper mac \<in> set (host_macs e)) (hosts D) = None \<longleftrightarrow> upper mac \<notin> set (all_macs D)"
    by (auto simp: find_None_iff all_macs_def)
  then show ?thesis
    using get_host_record_section_eq [OF assms, of mac]
    by (auto simp: host_record_exists_def split: option.splits)
qed

lemma hosts_append: "hosts (a @ b) = hosts a @ hosts b"
  by (simp add: hosts_def)

lemma all_macs_append: "all_macs (a @ b) = all_macs a @ all_macs b"
  by (simp add: all_macs_def hosts_append)

section \<open>Adding a host\<close>

text \<open>A MAC address as the message schema admits it: no white space.\<close>

definition mac_text :: "string \<Rightarrow> bool" where
  "mac_text m = (m \<noteq> [] \<and> list_all (\<lambda>c. \<not> is_space c) m)"

lemma mac_text_process: "mac_text m \<Longrightarrow> upper m = m \<Longrightarrow> process_uci_mac_addresses (Str m) = Inr [m]"
proof -
  assume m: "mac_text m" "upper m = m"
  then have "CHR '' '' \<notin> set m" by (auto simp: mac_text_def list_all_iff is_space_def)
  moreover have "strip m = m"
    using m(1) unfolding strip_def by (intro strip_of_id) (auto simp: mac_text_def list_all_iff)
  ultimately show ?thesis using m(2) by (simp add: split_on_none)
qed

lemma to_upper_not_space: "is_space (to_upper c) = is_space c"
  by (auto simp: to_upper_def is_space_def Let_def)

definition new_host :: "string \<Rightarrow> string \<Rightarrow> string \<Rightarrow> string \<Rightarrow> usection" where
  "new_host s mac ip hostname = \<lparr>sec_type = ''host'', sec_name = s,
     sec_data = [(''mac'', Str mac), (''ip'', Str ip)] @ (if hostname = [] then [] else [(''name'', Str hostname)]) @
       [(''leasetime'', Str ''infinite''), (''dns'', Str ''1'')],
     anonymous = True\<rparr>"

lemma upd_sec_fresh: "\<not> has_sec secs s \<Longrightarrow> sec_name e = s \<Longrightarrow> upd_sec s f (secs @ [e]) = secs @ [f e]"
  by (induction secs) (auto simp: has_sec_def find_sec_def split: if_splits)

lemma all_macs_new_host:
  "mac_text m \<Longrightarrow> upper m = m \<Longrightarrow> all_macs [new_host s m ip hostname] = [m]"
  by (simp add: all_macs_def hosts_def host_macs_def new_host_def mac_text_process
      del: process_uci_mac_addresses.simps)

lemma registry_names [simp]:
  "valid_name ''dhcp''" "valid_name ''host''" "valid_name ''mac''" "valid_name ''ip''" "valid_name ''name''"
  "valid_name ''leasetime''" "valid_name ''dns''" "valid_name ''network''"
  by (simp_all add: valid_name_def name_char_def)

lemma exec_unset_option [exec_simps]:
  "staged (ext t) c = Some secs \<Longrightarrow> has_sec secs s \<Longrightarrow> valid_name c \<Longrightarrow> valid_name s \<Longrightarrow> valid_name p \<Longrightarrow>
    set_option (ref_env nm cd ord) c s p [] t = (Ret (), put c (del_opt s p secs) t)"
  unfolding set_option_def
  by (intro exec_touch exec_cmd_ok)
     (simp only: ref_uci_set_option valid_sec_name, simp add: ref_set_def on_section_def)

lemma strip_valid_name: "valid_name s \<Longrightarrow> strip (s @ [newline]) = s"
proof -
  assume s: "valid_name s"
  then have ends: "s \<noteq> []" "\<not> is_space (hd s)" "\<not> is_space (last s)"
    by (auto simp: valid_name_def list_all_iff name_char_plain)
  then obtain x xs where "s = x # xs" by (cases s) auto
  with ends(2) have "dropWhile is_space (s @ [newline]) = s @ [newline]" by simp
  moreover have "is_space newline" by (simp add: is_space_def newline_def)
  moreover have "dropWhile is_space (rev s) = rev s"
    using ends by (cases "rev s") (auto simp: last_rev hd_rev)
  ultimately show ?thesis by (simp add: strip_def strip_of_def)
qed

lemma exec_add_anonymous_section [exec_simps]:
  "staged (ext t) c = Some secs \<Longrightarrow> valid_name c \<Longrightarrow> valid_name ty \<Longrightarrow> valid_name (nm secs ty) \<Longrightarrow>
    add_anonymous_section (ref_env nm cd ord) c ty t =
      (Ret (nm secs ty), put c (add_sec (nm secs ty) ty secs) t)"
proof -
  assume a: "staged (ext t) c = Some secs" "valid_name c" "valid_name ty" "valid_name (nm secs ty)"
  then have "run_uci_command (ref_env nm cd ord) [''add'', c, ty] False None t =
      (Ret (nm secs ty @ [newline]), t\<lparr>ext := stage c (add_sec (nm secs ty) ty secs) (ext t)\<rparr>)"
    by (intro exec_run_ok) (simp add: ref_uci_def)
  then show ?thesis
    using a(4) by (simp add: add_anonymous_section_def bindP_def touch_def put_def ret_def strip_valid_name)
qed

text \<open>What the tool promises of the names it gives: valid, anonymous and not in use.\<close>

definition names_fresh :: "(usection list \<Rightarrow> string \<Rightarrow> string) \<Rightarrow> usection list \<Rightarrow> string \<Rightarrow> bool" where
  "names_fresh nm secs t =
     (valid_name (nm secs t) \<and> is_anonymous_name (nm secs t) \<and> \<not> has_sec secs (nm secs t))"

lemma add_host_chain:
  assumes "\<not> has_sec D s"
  shows "set_opt s ''dns'' (Str ''1'') (set_opt s ''leasetime'' (Str ''infinite'')
      ((if hostname = [] then del_opt s ''name'' else set_opt s ''name'' (Str hostname))
        (set_opt s ''ip'' (Str ip) (set_opt s ''mac'' (Str mac) (add_sec s ''host'' D)))))
    = D @ [new_host s mac ip hostname]"
  using upd_sec_fresh [OF assms]
  by (simp add: set_opt_def del_opt_def add_sec_def new_host_def)

lemma exec_set_dhcp_client_body:
  assumes "names_fresh nm D ''host''" "staged (ext t) ''dhcp'' = Some D" "wf_config D"
    and "staged (ext t) ''network'' = Some N" "wf_config N"
    and "check_new_client [(''dhcp'', D)] [(''network'', N)] ip mac hostname = Inr err"
    and "mac \<noteq> []" "ip \<noteq> []"
  shows "set_dhcp_client_body (ref_env nm cd ord) ip mac hostname t =
    (Ret err, case err of Some _ \<Rightarrow> t
      | None \<Rightarrow> put ''dhcp'' (D @ [new_host (nm D ''host'') mac ip hostname]) t)"
proof -
  let ?s = "nm D ''host''"
  have s: "valid_name ?s" "\<not> has_sec D ?s" using assms(1) by (auto simp: names_fresh_def)
  show ?thesis
    using assms(2-8) s add_host_chain [OF s(2), of hostname ip mac]
    by (cases "hostname = []"; cases err)
       (simp_all add: set_dhcp_client_body_def store_new_client_def write_host_def whenP_def bindP_def
         exec_simps store_simps prog_basic store_bool_def)
qed

section \<open>Restarting a service leaves the configs alone\<close>

definition services_keep :: "'e env \<Rightarrow> ('e \<Rightarrow> store) \<Rightarrow> bool" where
  "services_keep E view \<longleftrightarrow> (\<forall>service cmd e.
     committed (view (snd (env_execute E [script_path E service, cmd] None e))) = committed (view e))"

lemma run_service_command_keeps:
  "services_keep E view \<Longrightarrow>
    committed (view (ext (snd (run_service_command E service cmd b s)))) = committed (view (ext s))"
  unfolding services_keep_def
  by (auto simp: run_service_command_def bindP_def tryP_def handle_command_def raise_def ret_def
      split: prod.split proc.split outcome.split)
     (metis snd_conv)+

lemma restart_dnsmasq_keeps:
  assumes "services_keep E view"
  shows "committed (view (ext (snd (restart_dnsmasq E s)))) = committed (view (ext s))"
proof (cases "services_held s")
  case True
  then show ?thesis by (simp add: restart_dnsmasq_def with_services_def bindP_def acquire_services_def)
next
  case False
  obtain r s' where run: "run_service_command E ''dnsmasq'' Restart True (s\<lparr>services_held := True\<rparr>) = (r, s')"
    by (cases "run_service_command E ''dnsmasq'' Restart True (s\<lparr>services_held := True\<rparr>)")
  have "committed (view (ext s')) = committed (view (ext s))"
    using run_service_command_keeps [OF assms, of "''dnsmasq''" Restart True "s\<lparr>services_held := True\<rparr>"] run by simp
  with False run show ?thesis
    by (cases r) (simp_all add: restart_dnsmasq_def with_services_def bindP_def acquire_services_def
        service_command_def release_services_def ret_def raise_def)
qed

section \<open>The effect of adding a client\<close>

lemma check_new_client_unknown:
  assumes "check_new_client data network ip mac hostname = Inr None"
    and "map_of data ''dhcp'' = Some D" "wf_config D"
  shows "upper mac \<notin> set (all_macs D)"
  using assms(1) host_record_exists_eq [OF assms(2,3), of mac]
  by (auto simp: check_new_client_def bindE_eq_Inr split: if_splits)

context uci_tool
begin

lemma sim_write_host:
  "valid_name section_name \<Longrightarrow>
    list_all2 (sim (rel view)) (write_host E section_name mac ip hostname) (write_host R section_name mac ip hostname)"
  unfolding write_host_def by (intro sim_intros sim_set_option valid_sec_name) simp_all

text \<open>The name of the new section is known to be valid once the config exists.\<close>

lemma sim_at_store_new_client:
  assumes "names_fresh nm D ''host''" "staged (ext t) ''dhcp'' = Some D" "rel view s t"
  shows "sim_at (rel view) (store_new_client E ip mac hostname) (store_new_client R ip mac hostname) s t"
proof -
  have name: "valid_name (nm D ''host'')" using assms(1) by (simp add: names_fresh_def)
  show ?thesis
    unfolding store_new_client_def
  proof (rule sim_at_bindP [OF sim_atI [OF sim_add_anonymous_section assms(3)]])
    fix x s' t'
    assume "add_anonymous_section R ''dhcp'' ''host'' t = (Ret x, t')" and rel: "rel view s' t'"
    then have "x = nm D ''host''" using name assms(2) by (simp add: exec_simps)
    then show "sim_at (rel view)
        (block (write_host E x mac ip hostname @
          [set_option E ''dhcp'' x ''leasetime'' ''infinite'', set_option E ''dhcp'' x ''dns'' (store_bool True)]))
        (block (write_host R x mac ip hostname @
          [set_option R ''dhcp'' x ''leasetime'' ''infinite'', set_option R ''dhcp'' x ''dns'' (store_bool True)])) s' t'"
      using name rel
      by (intro sim_atI) (auto intro!: sim_intros sim_write_host sim_set_option valid_sec_name)
  qed simp_all
qed

lemma sim_at_set_dhcp_client_body:
  assumes "names_fresh nm D ''host''" "staged (ext t) ''dhcp'' = Some D" "wf_config D"
    and "staged (ext t) ''network'' = Some N" "wf_config N" "rel view s t"
  shows "sim_at (rel view) (set_dhcp_client_body E ip mac hostname) (set_dhcp_client_body R ip mac hostname) s t"
  unfolding set_dhcp_client_body_def
proof (rule sim_at_bindP [OF sim_atI [OF sim_read_uci assms(6)]], simp, rule sim_at_bindP)
  fix data s1 t1
  assume "read_uci R ''dhcp'' t = (Ret data, t1)" and r1: "rel view s1 t1"
  then have t1: "t1 = t" using assms(2,3) by (simp add: exec_simps)
  show "sim_at (rel view) (read_uci E ''network'') (read_uci R ''network'') s1 t1"
    by (rule sim_atI [OF sim_read_uci r1]) simp
  fix network s2 t2
  assume "read_uci R ''network'' t1 = (Ret network, t2)" and r2: "rel view s2 t2"
  then have t2: "t2 = t" using assms(4,5) t1 by (simp add: exec_simps)
  show "sim_at (rel view)
      (bindP (lift (check_new_client data network ip mac hostname)) (\<lambda>err.
        bindP (whenP (err = None) [store_new_client E ip mac hostname]) (\<lambda>_. ret err)))
      (bindP (lift (check_new_client data network ip mac hostname)) (\<lambda>err.
        bindP (whenP (err = None) [store_new_client R ip mac hostname]) (\<lambda>_. ret err))) s2 t2"
  proof (rule sim_at_bindP, rule sim_atI, rule sim_lift, rule r2)
    fix err s3 t3
    assume "lift (check_new_client data network ip mac hostname) t2 = (Ret err, t3)" and r3: "rel view s3 t3"
    then have t3: "t3 = t" using t2 by (auto simp: lift_def split: sum.splits)
    have st: "sim_at (rel view) (store_new_client E ip mac hostname) (store_new_client R ip mac hostname) s3 t3"
      using sim_at_store_new_client [OF assms(1,2)] r3 t3 by simp
    show "sim_at (rel view) (bindP (whenP (err = None) [store_new_client E ip mac hostname]) (\<lambda>_. ret err))
        (bindP (whenP (err = None) [store_new_client R ip mac hostname]) (\<lambda>_. ret err)) s3 t3"
    proof (rule sim_at_bindP)
      show "sim_at (rel view) (whenP (err = None) [store_new_client E ip mac hostname])
          (whenP (err = None) [store_new_client R ip mac hostname]) s3 t3"
        using r3 by (auto simp: whenP_def intro!: sim_at_bindP [OF st] sim_atI sim_intros)
    qed (auto intro!: sim_atI sim_intros)
  qed
qed

end

text \<open>The run up to the restart of dnsmasq.\<close>

lemma set_dhcp_client_outcome:
  assumes "uci_tool E nm view" "names_fresh nm D ''host''" "services_keep E view" "ready view s"
    and "committed (view (ext s)) ''dhcp'' = Some D" "wf_config D"
    and "committed (view (ext s)) ''network'' = Some N" "wf_config N"
    and "mac_text mac" "ip \<noteq> []"
    and "check_new_client [(''dhcp'', D)] [(''network'', N)] ip (upper mac) hostname = Inr err"
  shows "\<exists>s'. set_dhcp_client E ip mac hostname s =
      (case err of Some m \<Rightarrow> (Ret (Some m), s') | None \<Rightarrow> bindP (restart_dnsmasq E) (\<lambda>_. ret None) s') \<and>
    services_held s' = services_held s \<and> committed (view (ext s')) = (case err of Some m \<Rightarrow> committed (view (ext s))
      | None \<Rightarrow> (committed (view (ext s)))
          (''dhcp'' \<mapsto> D @ [new_host (nm D ''host'') (upper mac) ip hostname]))"
proof -
  let ?t = "opened (abs_st view s)" and ?D' = "D @ [new_host (nm D ''host'') (upper mac) ip hostname]"
  have st: "staged (ext ?t) ''dhcp'' = Some D" "staged (ext ?t) ''network'' = Some N"
    using assms(5,7) by (simp_all add: store_simps abs_st_def)
  have mac: "upper mac \<noteq> []" "mac_text (upper mac)"
    using assms(9) by (auto simp: mac_text_def upper_def list_all_iff to_upper_not_space)
  have "\<exists>s'. with_uci E (set_dhcp_client_body E ip (upper mac) hostname) s = (Ret err, s') \<and> \<not> uci_held s' \<and>
      services_held s' = services_held (case err of Some _ \<Rightarrow> ?t | None \<Rightarrow> put ''dhcp'' ?D' ?t) \<and>
      (\<forall>c\<in>set (affected s'). valid_name c) \<and> committed (view (ext s')) =
        (\<lambda>c. if c \<in> set (affected (case err of Some _ \<Rightarrow> ?t | None \<Rightarrow> put ''dhcp'' ?D' ?t))
          then staged (ext (case err of Some _ \<Rightarrow> ?t | None \<Rightarrow> put ''dhcp'' ?D' ?t)) c
          else committed (ext (case err of Some _ \<Rightarrow> ?t | None \<Rightarrow> put ''dhcp'' ?D' ?t)) c)"
    using assms(4) st mac
    by (intro transaction_outcome_at [OF assms(1), of _ _ "\<lambda>R. set_dhcp_client_body R ip (upper mac) hostname"]
        uci_tool.sim_at_set_dhcp_client_body [OF assms(1,2) _ assms(6) _ assms(8)]
        exec_set_dhcp_client_body [OF assms(2) _ assms(6) _ assms(8,11) _ assms(10)])
       (auto simp: ready_def store_simps split: option.splits)
  then obtain s' where run: "with_uci E (set_dhcp_client_body E ip (upper mac) hostname) s = (Ret err, s')"
    and svc: "services_held s' = services_held s"
    and com: "committed (view (ext s')) = (case err of Some _ \<Rightarrow> committed (view (ext s))
      | None \<Rightarrow> (committed (view (ext s)))(''dhcp'' \<mapsto> ?D'))"
    by (cases err) (auto simp: store_simps abs_st_def fun_eq_iff)
  show ?thesis
    using run svc com by (cases err) (auto simp: set_dhcp_client_def bindP_def ret_def)
qed

text \<open>
  C9: adding a client to the registry. Over every uci tool that names new sections freshly:
  when the check of the request gives an error, that error is returned and nothing is
  published; when it passes, the published \<^verbatim>\<open>dhcp\<close> config is the old one with the new host
  at its end, whatever becomes of the restart of dnsmasq, and no MAC address belongs to two
  hosts if none did before.
\<close>

theorem set_dhcp_client_registers:
  assumes "uci_tool E nm view" "names_fresh nm D ''host''" "services_keep E view" "ready view s"
    and "committed (view (ext s)) ''dhcp'' = Some D" "wf_config D"
    and "committed (view (ext s)) ''network'' = Some N" "wf_config N"
    and "mac_text mac" "ip \<noteq> []"
    and "check_new_client [(''dhcp'', D)] [(''network'', N)] ip (upper mac) hostname = Inr err"
  shows "case err of
      Some m \<Rightarrow> \<exists>s'. set_dhcp_client E ip mac hostname s = (Ret (Some m), s') \<and>
        committed (view (ext s')) = committed (view (ext s))
    | None \<Rightarrow> \<exists>D'. committed (view (ext (snd (set_dhcp_client E ip mac hostname s)))) =
          (committed (view (ext s)))(''dhcp'' \<mapsto> D') \<and>
        D' = D @ [new_host (nm D ''host'') (upper mac) ip hostname] \<and>
        all_macs D' = all_macs D @ [upper mac] \<and> (distinct (all_macs D) \<longrightarrow> distinct (all_macs D'))"
proof -
  from set_dhcp_client_outcome [OF assms] obtain s' where
    run: "set_dhcp_client E ip mac hostname s =
      (case err of Some m \<Rightarrow> (Ret (Some m), s') | None \<Rightarrow> bindP (restart_dnsmasq E) (\<lambda>_. ret None) s')"
    and com: "committed (view (ext s')) = (case err of Some m \<Rightarrow> committed (view (ext s))
      | None \<Rightarrow> (committed (view (ext s)))
          (''dhcp'' \<mapsto> D @ [new_host (nm D ''host'') (upper mac) ip hostname]))" by blast
  show ?thesis
  proof (cases err)
    case (Some m)
    with run com show ?thesis by simp
  next
    case None
    have mac: "upper mac \<noteq> []" "mac_text (upper mac)"
      using assms(9) by (auto simp: mac_text_def upper_def list_all_iff to_upper_not_space)
    obtain r s2 where restart: "restart_dnsmasq E s' = (r, s2)" by (cases "restart_dnsmasq E s'")
    then have "committed (view (ext s2)) = committed (view (ext s'))"
      using restart_dnsmasq_keeps [OF assms(3), of s'] by simp
    moreover have "snd (set_dhcp_client E ip mac hostname s) = s2"
      using run restart None by (cases r) (simp_all add: bindP_def ret_def)
    moreover have "all_macs (D @ [new_host (nm D ''host'') (upper mac) ip hostname]) = all_macs D @ [upper mac]"
      using mac by (simp add: all_macs_append all_macs_new_host)
    moreover have "upper mac \<notin> set (all_macs D)"
      using check_new_client_unknown [OF assms(11)[unfolded None] _ assms(6)] by simp
    ultimately show ?thesis using None com by simp
  qed
qed

definition demo_dhcp :: "usection list" where
  "demo_dhcp = [\<lparr>sec_type = ''host'', sec_name = ''cfg000007'',
     sec_data = [(''mac'', Str ''AA:BB:CC:DD:EE:FF''), (''ip'', Str ''192.168.1.5''), (''name'', Str ''printer'')],
     anonymous = True\<rparr>]"

definition demo_network :: "usection list" where
  "demo_network = [\<lparr>sec_type = ''interface'', sec_name = ''lan'',
     sec_data = [(''proto'', Str ''static''), (''ipaddr'', Str ''192.168.1.1''), (''netmask'', Str ''255.255.255.0'')],
     anonymous = False\<rparr>]"

lemma demo_services_keep: "services_keep demo_env (\<lambda>\<sigma>. \<sigma>)"
proof -
  have "script_path demo_env service \<noteq> ''uci''" for service
    by (cases service) (auto simp: script_path_def path_join_def inject_cmdline_root_def inject_root_def demo_env_def ref_env_def)
  then show ?thesis
    by (simp add: services_keep_def demo_env_def ref_execute_def strip_argv_def)
qed

lemma set_dhcp_client_registers_witness:
  "committed (ext (snd (set_dhcp_client demo_env ''192.168.1.9'' ''00:11:22:33:44:55'' ''nas''
        (demo_state [''dhcp'' \<mapsto> demo_dhcp, ''network'' \<mapsto> demo_network])))) =
      [''dhcp'' \<mapsto> demo_dhcp @ [new_host (demo_name demo_dhcp ''host'') ''00:11:22:33:44:55'' ''192.168.1.9'' ''nas''],
       ''network'' \<mapsto> demo_network]"
proof -
  let ?s = "demo_state [''dhcp'' \<mapsto> demo_dhcp, ''network'' \<mapsto> demo_network]"
  have facts: "names_fresh demo_name demo_dhcp ''host''" "wf_config demo_dhcp" "wf_config demo_network"
    "mac_text ''00:11:22:33:44:55''" "upper ''00:11:22:33:44:55'' = ''00:11:22:33:44:55''"
    "check_new_client [(''dhcp'', demo_dhcp)] [(''network'', demo_network)] ''192.168.1.9''
      (upper ''00:11:22:33:44:55'') ''nas'' = Inr None"
    "all_macs demo_dhcp = [''AA:BB:CC:DD:EE:FF'']"
    by code_simp+
  have r: "ready (\<lambda>\<sigma>. \<sigma>) ?s" by (simp add: ready_def)
  show ?thesis
    using set_dhcp_client_registers [OF demo_tool facts(1) demo_services_keep r _ facts(2) _ facts(3,4) _ facts(6)] facts(5,7)
    by (simp add: fun_upd_twist)
qed

end
