(* ===== verification/LanChanges.thy ===== *)
theory LanChanges
  imports LanRegistry
begin

text \<open>
  Removing a client from the registry, and changing one: the published \<^verbatim>\<open>dhcp\<close> config, and
  the invariant \<open>registry_ok\<close> that every operation keeps.
\<close>

section \<open>The invariant\<close>

definition registry_ok :: "usection list \<Rightarrow> bool" where
  "registry_ok D = (wf_config D \<and> distinct (map sec_name D) \<and> list_all (\<lambda>e. valid_name (sec_name e)) D \<and>
     distinct (all_macs D) \<and> list_all mac_text (all_macs D))"

lemma host_in_config: "e \<in> set (hosts D) \<Longrightarrow> e \<in> set D \<and> sec_type e = ''host''"
  by (simp add: hosts_def)

lemma find_sec_unique: "distinct (map sec_name D) \<Longrightarrow> e \<in> set D \<Longrightarrow> find_sec D (sec_name e) = Some e"
  by (induction D) (auto simp: find_sec_def)

lemma has_sec_member: "distinct (map sec_name D) \<Longrightarrow> e \<in> set D \<Longrightarrow> has_sec D (sec_name e)"
  by (simp add: has_sec_def find_sec_unique)

text \<open>A host splits the config: no other section has its name, no other host its addresses.\<close>

lemma split_at_host:
  assumes "distinct (map sec_name D)" "e \<in> set D"
  obtains pre post where "D = pre @ e # post" "\<forall>x\<in>set (pre @ post). sec_name x \<noteq> sec_name e"
proof -
  obtain pre post where D: "D = pre @ e # post" using assms(2) split_list by metis
  with assms(1) have "\<forall>x\<in>set (pre @ post). sec_name x \<noteq> sec_name e" by (auto simp: image_iff)
  with D show ?thesis using that by blast
qed

lemma upd_sec_split:
  "\<forall>x\<in>set (pre @ post). sec_name x \<noteq> sec_name e \<Longrightarrow>
    upd_sec (sec_name e) f (pre @ e # post) = pre @ f e # post"
  by (induction pre) auto

lemma del_sec_split:
  "\<forall>x\<in>set (pre @ post). sec_name x \<noteq> sec_name e \<Longrightarrow> del_sec (sec_name e) (pre @ e # post) = pre @ post"
  by (auto simp: del_sec_def filter_id_conv)

lemma all_macs_split: "all_macs (pre @ e # post) =
    all_macs pre @ (if sec_type e = ''host'' then host_macs e else []) @ all_macs post"
  by (simp add: all_macs_def hosts_def)

section \<open>Removing a client\<close>

definition without_mac :: "string \<Rightarrow> usection \<Rightarrow> usection list \<Rightarrow> usection list" where
  "without_mac mac e D =
     (if length (host_macs e) = 1 then del_sec (sec_name e) D
      else let rest = join '' '' (filter (\<lambda>m. m \<noteq> mac) (host_macs e)) in
        if rest = [] then del_opt (sec_name e) ''mac'' D else set_opt (sec_name e) ''mac'' (Str rest) D)"

lemma map_strip_macs:
  "list_all mac_text ms \<Longrightarrow> list_all (\<lambda>m. upper m = m) ms \<Longrightarrow> map (\<lambda>e. upper (strip e)) ms = ms"
proof (induction ms)
  case (Cons m ms)
  have "strip m = m"
    using Cons.prems(1) unfolding strip_def by (intro strip_of_id) (auto simp: mac_text_def list_all_iff)
  with Cons show ?case by simp
qed simp

lemma process_joined:
  assumes "list_all mac_text ms" "list_all (\<lambda>m. upper m = m) ms" "ms \<noteq> []"
  shows "process_uci_mac_addresses (Str (join '' '' ms)) = Inr ms"
proof -
  have "\<forall>m\<in>set ms. \<forall>c\<in>set m. \<not> is_space c"
    using assms(1) by (auto simp: list_all_iff mac_text_def)
  then have "\<forall>m\<in>set ms. CHR '' '' \<notin> set m" using space_is_space by blast
  then have "split_on CHR '' '' (join '' '' ms) = ms" by (rule split_on_join [OF assms(3)])
  then show ?thesis using map_strip_macs [OF assms(1,2)] by simp
qed

lemma process_upper: "process_uci_mac_addresses v = Inr ms \<Longrightarrow> list_all (\<lambda>m. upper m = m) ms"
  by (cases v) (auto simp: list_all_iff)

lemma host_macs_upper: "list_all (\<lambda>m. upper m = m) (host_macs e)"
  by (auto simp: host_macs_def process_upper split: option.split sum.split)

lemma filter_neq_id: "m \<notin> set ms \<Longrightarrow> filter (\<lambda>x. x \<noteq> m) ms = ms"
  by (induction ms) auto

lemma mac_text_join_nonempty: "ms \<noteq> [] \<Longrightarrow> list_all mac_text ms \<Longrightarrow> join '' '' ms \<noteq> []"
  by (cases ms; cases "tl ms") (auto simp: mac_text_def)

lemma all_macs_without_mac:
  assumes "registry_ok D" "e \<in> set (hosts D)" "mac \<in> set (host_macs e)"
  shows "all_macs (without_mac mac e D) = filter (\<lambda>m. m \<noteq> mac) (all_macs D)"
proof -
  have e: "e \<in> set D" "sec_type e = ''host''" using host_in_config [OF assms(2)] by auto
  obtain pre post where D: "D = pre @ e # post" and others: "\<forall>x\<in>set (pre @ post). sec_name x \<noteq> sec_name e"
    using split_at_host [OF _ e(1)] assms(1) by (auto simp: registry_ok_def)
  have macs: "all_macs D = all_macs pre @ host_macs e @ all_macs post"
    unfolding D all_macs_split using e(2) by simp
  then have out: "filter (\<lambda>m. m \<noteq> mac) (all_macs D) = all_macs pre @ filter (\<lambda>m. m \<noteq> mac) (host_macs e) @ all_macs post"
  proof -
    have "distinct (all_macs pre @ host_macs e @ all_macs post)"
      using assms(1) macs by (simp add: registry_ok_def)
    with assms(3) have "mac \<notin> set (all_macs pre)" "mac \<notin> set (all_macs post)" by auto
    then show ?thesis unfolding macs by (simp add: filter_neq_id)
  qed
  show ?thesis
  proof (cases "length (host_macs e) = 1")
    case True
    then have "host_macs e = [mac]" using assms(3) by (cases "host_macs e") auto
    with True show ?thesis
      using out by (simp add: without_mac_def D del_sec_split [OF others] all_macs_append)
  next
    case False
    note multi = False
    let ?rest = "filter (\<lambda>m. m \<noteq> mac) (host_macs e)"
    have tx: "list_all mac_text ?rest" "list_all (\<lambda>m. upper m = m) ?rest"
      using assms(1) host_macs_upper [of e] unfolding registry_ok_def macs by (auto simp: list_all_iff)
    show ?thesis
    proof (cases "?rest = []")
      case True
      have "without_mac mac e D = pre @ e\<lparr>sec_data := AList.delete ''mac'' (sec_data e)\<rparr> # post"
        using multi True by (simp add: without_mac_def D del_opt_def upd_sec_split [OF others])
      then show ?thesis
        using out True e(2) by (simp add: all_macs_split host_macs_def delete_conv')
    next
      case False
      then have "without_mac mac e D =
          pre @ e\<lparr>sec_data := AList.update ''mac'' (Str (join '' '' ?rest)) (sec_data e)\<rparr> # post"
        using multi mac_text_join_nonempty [OF False tx(1)]
        by (simp add: without_mac_def D set_opt_def upd_sec_split [OF others] Let_def)
      then show ?thesis
        using out e(2) process_joined [OF tx False]
        by (simp add: all_macs_split host_macs_def [of "_\<lparr>sec_data := _\<rparr>"] update_conv'
            del: process_uci_mac_addresses.simps)
    qed
  qed
qed

lemma upd_sec_names: "(\<And>e. sec_name (f e) = sec_name e) \<Longrightarrow> map sec_name (upd_sec s f D) = map sec_name D"
  by (induction D) auto

lemma set_opt_names [simp]: "map sec_name (set_opt s p v D) = map sec_name D"
  "map sec_name (del_opt s p D) = map sec_name D"
  by (simp_all add: set_opt_def del_opt_def upd_sec_names)

lemma valid_names_map: "list_all (\<lambda>e. valid_name (sec_name e)) D = list_all valid_name (map sec_name D)"
  by (simp add: list_all_iff)

lemma distinct_del_sec: "distinct (map sec_name D) \<Longrightarrow> distinct (map sec_name (del_sec s D))"
  by (induction D) (auto simp: del_sec_def)

lemma wf_joined_macs: "list_all mac_text ms \<Longrightarrow> ms \<noteq> [] \<Longrightarrow> wf_text (join '' '' ms)"
proof -
  assume ms: "list_all mac_text ms" "ms \<noteq> []"
  have "\<not> is_linebreak CHR '' ''" by (simp add: is_linebreak_def)
  then have "x \<in> set (join '' '' ms) \<Longrightarrow> \<not> is_linebreak x" for x
    using ms
    by (induction "'' ''" ms rule: join.induct) (auto simp: mac_text_def list_all_iff linebreak_space)
  then show ?thesis using mac_text_join_nonempty [OF ms(2,1)] by (simp add: wf_text_def list_all_iff)
qed

lemma wf_name_mac: "wf_name ''mac''" "wf_name ''ip''" "wf_name ''name''"
  by (simp_all add: wf_name_def is_space_def)

lemma registry_ok_without_mac:
  assumes "registry_ok D" "e \<in> set (hosts D)" "mac \<in> set (host_macs e)"
  shows "registry_ok (without_mac mac e D)"
proof -
  have macs: "all_macs (without_mac mac e D) = filter (\<lambda>m. m \<noteq> mac) (all_macs D)"
    by (rule all_macs_without_mac [OF assms])
  have "list_all mac_text (host_macs e)"
    using assms(1,2) by (auto simp: registry_ok_def all_macs_def list_all_iff)
  then have rest: "list_all mac_text (filter (\<lambda>m. m \<noteq> mac) (host_macs e))" by (auto simp: list_all_iff)
  have joined: "join '' '' (filter (\<lambda>m. m \<noteq> mac) (host_macs e)) \<noteq> [] \<Longrightarrow>
      wf_text (join '' '' (filter (\<lambda>m. m \<noteq> mac) (host_macs e)))"
    using wf_joined_macs [OF rest] by (cases "filter (\<lambda>m. m \<noteq> mac) (host_macs e) = []") simp_all
  have "wf_config (without_mac mac e D)"
    using assms(1) joined
    by (auto simp: without_mac_def Let_def registry_ok_def wf_name_mac intro!: wf_intros)
  moreover have "distinct (map sec_name (without_mac mac e D))"
    "list_all (\<lambda>e. valid_name (sec_name e)) (without_mac mac e D)"
    using assms(1) distinct_del_sec unfolding valid_names_map
    by (auto simp: without_mac_def Let_def registry_ok_def valid_names_map)
       (auto simp: del_sec_def list_all_iff)
  ultimately show ?thesis
    using assms(1) by (auto simp: registry_ok_def macs list_all_iff)
qed

lemma exec_remove_client:
  assumes "staged (ext t) ''dhcp'' = Some D" "registry_ok D" "e \<in> set (hosts D)"
  shows "remove_client (ref_env nm cd ord) (sec_name e) (host_macs e) mac t =
    (Ret (), put ''dhcp'' (without_mac mac e D) t)"
proof -
  have "e \<in> set D" using assms(3) by (simp add: hosts_def)
  then have "has_sec D (sec_name e)" "valid_name (sec_name e)"
    using assms(2) has_sec_member by (auto simp: registry_ok_def list_all_iff)
  then show ?thesis
    using assms(1) by (simp add: remove_client_def without_mac_def Let_def exec_simps)
qed

text \<open>The host a request is about.\<close>

definition host_of :: "string \<Rightarrow> usection list \<Rightarrow> usection option" where
  "host_of mac D = find (\<lambda>e. mac \<in> set (host_macs e)) (hosts D)"

lemma host_ofD: "host_of mac D = Some e \<Longrightarrow> e \<in> set (hosts D) \<and> mac \<in> set (host_macs e)"
  by (auto simp: host_of_def find_Some_iff)

lemma host_of_None: "host_of mac D = None \<longleftrightarrow> mac \<notin> set (all_macs D)"
  by (auto simp: host_of_def find_None_iff all_macs_def)

lemma exec_delete_dhcp_client_body:
  assumes "staged (ext t) ''dhcp'' = Some D" "registry_ok D" "upper mac = mac"
  shows "delete_dhcp_client_body (ref_env nm cd ord) mac t = (case host_of mac D of
      None \<Rightarrow> (Ret (Some ''mac-not-exists''), t)
    | Some e \<Rightarrow> (Ret None, put ''dhcp'' (without_mac mac e D) t))"
proof -
  have D: "wf_config D" using assms(2) by (simp add: registry_ok_def)
  have "get_host_record_section [(''dhcp'', D)] mac =
      Inr (case host_of mac D of None \<Rightarrow> None | Some e \<Rightarrow> Some (e, host_macs e))"
    using get_host_record_section_eq [of "[(''dhcp'', D)]" D mac] D assms(3) by (simp add: host_of_def)
  then show ?thesis
    using assms(1) D exec_remove_client [OF assms(1,2)]
    by (auto simp: delete_dhcp_client_body_def bindP_def exec_simps prog_basic split: option.split dest: host_ofD)
qed

lemma bindP_lift_Inr: "bindP (lift (Inr x)) f = f x"
  by (simp add: fun_eq_iff bindP_def lift_def)

context uci_tool
begin

lemma sim_remove_client:
  "valid_name name \<Longrightarrow> sim (rel view) (remove_client E name macs mac) (remove_client R name macs mac)"
  unfolding remove_client_def
  by (intro sim_intros sim_del_section sim_set_option valid_sec_name) simp_all

lemma sim_at_delete_dhcp_client_body:
  assumes "staged (ext t) ''dhcp'' = Some D" "registry_ok D" "upper mac = mac" "rel view s t"
  shows "sim_at (rel view) (delete_dhcp_client_body E mac) (delete_dhcp_client_body R mac) s t"
  unfolding delete_dhcp_client_body_def
proof (rule sim_at_bindP [OF sim_atI [OF sim_read_uci assms(4)]], simp)
  fix data s1 t1
  assume "read_uci R ''dhcp'' t = (Ret data, t1)" and r1: "rel view s1 t1"
  then have data: "data = [(''dhcp'', D)]"
    using assms(1,2) by (simp add: exec_simps registry_ok_def)
  have found: "get_host_record_section data mac =
      Inr (case host_of mac D of None \<Rightarrow> None | Some e \<Rightarrow> Some (e, host_macs e))"
    using get_host_record_section_eq [of data D mac] data assms(2,3) by (simp add: host_of_def registry_ok_def)
  have valid: "host_of mac D = Some e \<Longrightarrow> valid_name (sec_name e)" for e
    using assms(2) host_ofD host_in_config by (fastforce simp: registry_ok_def list_all_iff)
  show "sim_at (rel view)
      (bindP (lift (get_host_record_section data mac)) (\<lambda>found.
        case found of None \<Rightarrow> ret (Some ''mac-not-exists'')
        | Some (sec, macs) \<Rightarrow> bindP (remove_client E (sec_name sec) macs mac) (\<lambda>_. ret None)))
      (bindP (lift (get_host_record_section data mac)) (\<lambda>found.
        case found of None \<Rightarrow> ret (Some ''mac-not-exists'')
        | Some (sec, macs) \<Rightarrow> bindP (remove_client R (sec_name sec) macs mac) (\<lambda>_. ret None))) s1 t1"
    using r1 valid unfolding found bindP_lift_Inr
    by (cases "host_of mac D")
       (auto intro!: sim_atI sim_intros sim_remove_client simp del: bindP_lift_Inr)
qed

end

text \<open>
  C8: removing a client. Over every uci tool, a request for an unknown address is refused and
  publishes nothing; otherwise exactly this address leaves the registry, whatever becomes
  of the restart of dnsmasq, and the registry stays well-formed, also when the host had
  several addresses.
\<close>

theorem delete_dhcp_client_removes:
  assumes "uci_tool E nm view" "services_keep E view" "ready view s"
    and "committed (view (ext s)) ''dhcp'' = Some D" "registry_ok D"
  shows "if upper mac \<notin> set (all_macs D)
    then \<exists>s'. delete_dhcp_client E mac s = (Ret (Some ''mac-not-exists''), s') \<and>
      committed (view (ext s')) = committed (view (ext s))
    else \<exists>D'. committed (view (ext (snd (delete_dhcp_client E mac s)))) =
        (committed (view (ext s)))(''dhcp'' \<mapsto> D') \<and>
      all_macs D' = filter (\<lambda>m. m \<noteq> upper mac) (all_macs D) \<and> registry_ok D'"
proof -
  let ?t = "opened (abs_st view s)" and ?m = "upper mac"
  have st: "staged (ext ?t) ''dhcp'' = Some D" using assms(4) by (simp add: store_simps abs_st_def)
  define r where "r = (case host_of ?m D of None \<Rightarrow> Some ''mac-not-exists'' | Some e \<Rightarrow> None)"
  define t' where "t' = (case host_of ?m D of None \<Rightarrow> ?t | Some e \<Rightarrow> put ''dhcp'' (without_mac ?m e D) ?t)"
  have run: "delete_dhcp_client_body (ref_env nm (env_config_dir E) (env_set_order E)) ?m ?t = (Ret r, t')"
    using exec_delete_dhcp_client_body [OF st assms(5)] by (simp add: r_def t'_def split: option.split)
  have "\<forall>c\<in>set (affected t'). valid_name c \<and> staged (ext t') c \<noteq> None"
    using assms(3) st by (auto simp: t'_def store_simps split: option.splits)
  with assms(3) have "\<exists>s'. with_uci E (delete_dhcp_client_body E ?m) s = (Ret r, s') \<and> \<not> uci_held s' \<and>
      services_held s' = services_held t' \<and> (\<forall>c\<in>set (affected s'). valid_name c) \<and>
      committed (view (ext s')) =
        (\<lambda>c. if c \<in> set (affected t') then staged (ext t') c else committed (ext t') c)"
    by (intro transaction_outcome_at [OF assms(1), of _ _ "\<lambda>R. delete_dhcp_client_body R ?m"]
        uci_tool.sim_at_delete_dhcp_client_body [OF assms(1) st assms(5)] run)
       (auto simp: ready_def)
  then obtain s' where tx: "with_uci E (delete_dhcp_client_body E ?m) s = (Ret r, s')"
    and com: "committed (view (ext s')) = (case host_of ?m D of None \<Rightarrow> committed (view (ext s))
      | Some e \<Rightarrow> (committed (view (ext s)))(''dhcp'' \<mapsto> without_mac ?m e D))"
    by (cases "host_of ?m D") (auto simp: t'_def store_simps abs_st_def fun_eq_iff)
  show ?thesis
  proof (cases "host_of ?m D")
    case None
    with tx com show ?thesis
      by (simp add: delete_dhcp_client_def bindP_def r_def ret_def host_of_None)
  next
    case (Some e)
    obtain x s2 where restart: "restart_dnsmasq E s' = (x, s2)" by (cases "restart_dnsmasq E s'")
    then have "committed (view (ext s2)) = committed (view (ext s'))"
      using restart_dnsmasq_keeps [OF assms(2), of s'] by simp
    moreover have "snd (delete_dhcp_client E mac s) = s2"
      using tx restart Some by (cases x) (simp_all add: delete_dhcp_client_def bindP_def r_def ret_def)
    ultimately have "committed (view (ext (snd (delete_dhcp_client E mac s)))) =
        (committed (view (ext s)))(''dhcp'' \<mapsto> without_mac ?m e D)"
      using Some com by simp
    moreover have "\<not> ?m \<notin> set (all_macs D)" using Some host_of_None [of ?m D] by simp
    ultimately show ?thesis
      using host_ofD [OF Some] all_macs_without_mac [OF assms(5)] registry_ok_without_mac [OF assms(5)]
      by (simp only: if_False) blast
  qed
qed

lemma delete_dhcp_client_removes_witness:
  "\<exists>D'. committed (ext (snd (delete_dhcp_client demo_env ''aa:bb:cc:dd:ee:ff''
      (demo_state [''dhcp'' \<mapsto> demo_dhcp])))) = [''dhcp'' \<mapsto> D'] \<and> all_macs D' = [] \<and> registry_ok D'"
proof -
  have facts: "registry_ok demo_dhcp" "upper ''aa:bb:cc:dd:ee:ff'' = ''AA:BB:CC:DD:EE:FF''"
    "all_macs demo_dhcp = [''AA:BB:CC:DD:EE:FF'']"
    by code_simp+
  have "ready (\<lambda>\<sigma>. \<sigma>) (demo_state [''dhcp'' \<mapsto> demo_dhcp])" by (simp add: ready_def)
  from delete_dhcp_client_removes [OF demo_tool demo_services_keep this _ facts(1), of "''aa:bb:cc:dd:ee:ff''"] facts(2,3)
  show ?thesis by simp
qed

end
