(* ===== verification/LanRoundtrip.thy ===== *)
theory LanRoundtrip
  imports LanSettings LanChanges
begin

text \<open>
  The managed LAN settings are read back as they were written: \<^verbatim>\<open>update_settings\<close> followed
  by the lookups of \<^verbatim>\<open>get_settings\<close>, over every uci tool.
\<close>

lemma lan_names [simp]:
  "valid_name ''lan''" "valid_name ''interface''" "valid_name ''_turris_mode''" "valid_name ''proto''"
  "valid_name ''ipaddr''" "valid_name ''netmask''" "valid_name ''ignore''" "valid_name ''ra''"
  "valid_name ''dhcpv6''" "valid_name ''start''" "valid_name ''limit''" "valid_name ''dhcp_option''"
  "\<not> is_anonymous_name ''lan''"
  by (simp_all add: valid_name_def name_char_def is_anonymous_name_def)

text \<open>The configs that an accepted request leaves.\<close>

definition network_start :: "usection list \<Rightarrow> usection list" where
  "network_start N = set_opt ''lan'' ''_turris_mode'' (Str ''managed'') (set_sec ''lan'' ''interface'' N)"

definition network_written :: "string \<Rightarrow> usection list \<Rightarrow> usection list" where
  "network_written cidr N = set_opt ''lan'' ''ipaddr'' (Lst [cidr])
     (del_opt ''lan'' ''netmask'' (del_opt ''lan'' ''ipaddr''
       (set_opt ''lan'' ''proto'' (Str ''static'') (network_start N))))"

definition dhcp_written :: "managed_request \<Rightarrow> usection list \<Rightarrow> usection list" where
  "dhcp_written m D = (let d = mr_dhcp m; D1 = set_opt ''lan'' ''ignore'' (Str (store_bool (\<not> dr_enabled d))) (set_sec ''lan'' ''dhcp'' D) in
     if dr_enabled d then
       set_opt ''lan'' ''dhcp_option'' (Lst [''6,'' @ mr_router_ip m]) (del_opt ''lan'' ''dhcp_option''
        (set_opt ''lan'' ''leasetime'' (Str (lease_text (dr_lease_time d)))
         (set_opt ''lan'' ''limit'' (Str (show_int (dr_limit d)))
          (set_opt ''lan'' ''start'' (Str (show_int (dr_start d)))
           (set_opt ''lan'' ''dhcpv6'' (Str ''server'')
            (set_opt ''lan'' ''ra'' (Str ''server'') D1))))))
     else set_opt ''lan'' ''dhcpv6'' (Str ''disabled'') (set_opt ''lan'' ''ra'' (Str ''disabled'') D1))"

lemma lease_text_nonempty [simp]: "lease_text n \<noteq> []"
  by (simp add: lease_text_def)

lemma wf_literals:
  "wf_name ''_turris_mode''" "wf_name ''interface''" "wf_name ''lan''" "wf_text ''managed''"
  by (simp_all add: wf_name_def wf_text_def is_space_def is_linebreak_def)

lemma wf_network_start: "wf_config N \<Longrightarrow> wf_config (network_start N)"
  unfolding network_start_def by (intro wf_intros wf_literals) (simp_all add: wf_literals)

lemma exec_set_lan:
  assumes "staged (ext t) ''network'' = Some X" "has_sec X ''lan''" "get_interface ip nmask = Inr cidr" "cidr \<noteq> []"
  shows "set_lan (ref_env nm cd ord) ip nmask (put ''network'' X t) =
    (Ret (), put ''network'' (set_opt ''lan'' ''ipaddr'' (Lst [cidr]) (del_opt ''lan'' ''netmask'' (del_opt ''lan'' ''ipaddr'' X))) t)"
proof -
  let ?R = "ref_env nm cd ord" and ?Y = "del_opt ''lan'' ''netmask'' (del_opt ''lan'' ''ipaddr'' X)"
  have "add_to_list ?R ''network'' ''lan'' ''ipaddr'' [cidr] (put ''network'' ?Y t) =
      (Ret (), put ''network'' (set_opt ''lan'' ''ipaddr'' (Lst [cidr]) ?Y) (put ''network'' ?Y t))"
    using assms by (intro exec_add_to_list) (auto simp: store_simps)
  then show ?thesis
    using assms by (simp add: set_lan_def bindP_def exec_del_option_put prog_basic parse_to_list_def put_put)
qed

section \<open>The hosts that a request drops\<close>

text \<open>Whether a host lies inside of the new dynamic range, and whether it left the network.\<close>

definition host_verdict ::
  "string \<Rightarrow> string \<Rightarrow> string \<Rightarrow> string \<Rightarrow> int \<Rightarrow> int \<Rightarrow> usection \<Rightarrow> (bool \<times> bool) res" where
  "host_verdict oip onm ip nmask start limit e = (case map_of (sec_data e) ''ip'' of
      None \<Rightarrow> Inr (False, False)
    | Some v \<Rightarrow> if v = Str ''ignore'' then Inr (False, False)
        else bindE (ip_text v) (\<lambda>a.
          bindE (in_range a ip start limit) (\<lambda>inside.
          bindE (if oip \<noteq> [] \<and> onm \<noteq> []
                 then andE (in_network a oip onm) (bindE (in_network a ip nmask) (\<lambda>b. Inr (\<not> b)))
                 else Inr False) (\<lambda>left. Inr (inside, left)))))"

text \<open>Dropped for one of the two reasons, or kept.\<close>

definition verdict_is :: "bool \<Rightarrow> (bool \<times> bool) res \<Rightarrow> bool" where
  "verdict_is b v = (case v of Inr (inside, left) \<Rightarrow> \<not> (inside \<and> left) \<and> b = (inside \<or> left) | Inl _ \<Rightarrow> False)"

definition del_secs :: "string list \<Rightarrow> usection list \<Rightarrow> usection list" where
  "del_secs ns secs = filter (\<lambda>e. sec_name e \<notin> set ns) secs"

lemma del_secs_simps [simp]:
  "del_secs [] secs = secs" "del_secs ns (del_sec s secs) = del_secs (s # ns) secs"
  by (auto simp: del_secs_def del_sec_def intro: filter_cong)

lemma lk_del_secs [store_simps]: "s \<notin> set ns \<Longrightarrow> lk (del_secs ns secs) s p = lk secs s p"
  by (induction secs) (auto simp: del_secs_def lk_def find_sec_def)

lemma exec_filter_host:
  assumes "staged (ext t) ''dhcp'' = Some X" "has_sec X (sec_name e)" "valid_name (sec_name e)"
    and "verdict_is b (host_verdict oip onm ip nmask start limit e)"
  shows "filter_host (ref_env nm cd ord) oip onm ip nmask start limit e t =
    (Ret (), if b then put ''dhcp'' (del_sec (sec_name e) X) t else t)"
proof (cases "map_of (sec_data e) ''ip'' = None \<or> map_of (sec_data e) ''ip'' = Some (Str ''ignore'')")
  case True
  then show ?thesis
    using assms(4) by (auto simp: filter_host_def host_verdict_def verdict_is_def ret_def)
next
  case False
  then obtain v where v: "map_of (sec_data e) ''ip'' = Some v" "v \<noteq> Str ''ignore''" by auto
  then obtain a inside left where a: "ip_text v = Inr a" "in_range a ip start limit = Inr inside"
      "(if oip \<noteq> [] \<and> onm \<noteq> []
        then andE (in_network a oip onm) (bindE (in_network a ip nmask) (\<lambda>b. Inr (\<not> b)))
        else Inr False) = Inr left" "\<not> (inside \<and> left)" "b = (inside \<or> left)"
    using assms(4)
    by (auto simp: host_verdict_def verdict_is_def bindE_eq_Inr bindE_eq_Inl split: sum.splits prod.splits)
  have del: "del_section (ref_env nm cd ord) ''dhcp'' (sec_name e) t = (Ret (), put ''dhcp'' (del_sec (sec_name e) X) t)"
    using assms(1-3) by (simp add: exec_simps)
  show ?thesis
  proof (cases "oip \<noteq> [] \<and> onm \<noteq> []")
    case True
    with v a del show ?thesis
      by (cases inside; cases left) (simp_all add: filter_host_def bindP_def prog_basic whenP_def)
  next
    case False
    with v a del show ?thesis
      by (cases inside; cases left) (auto simp: filter_host_def bindP_def prog_basic whenP_def)
  qed
qed

lemma exec_filter_hosts:
  assumes "staged (ext t) ''dhcp'' = Some X" "distinct (map sec_name es)"
    and "\<forall>e\<in>set es. has_sec X (sec_name e) \<and> valid_name (sec_name e)
      \<and> verdict_is (hit e) (host_verdict oip onm ip nmask start limit e)"
  shows "forP es (filter_host (ref_env nm cd ord) oip onm ip nmask start limit) (put ''dhcp'' X t) =
    (Ret (), put ''dhcp'' (del_secs (map sec_name (filter hit es)) X) t)"
  using assms
proof (induction es arbitrary: X t)
  case Nil
  then show ?case by (simp add: ret_def)
next
  case (Cons e es)
  let ?X = "if hit e then del_sec (sec_name e) X else X"
  have step: "filter_host (ref_env nm cd ord) oip onm ip nmask start limit e (put ''dhcp'' X t) = (Ret (), put ''dhcp'' ?X t)"
    using Cons.prems by (subst exec_filter_host [where b = "hit e" and X = X]) (auto simp: store_simps)
  have "forP es (filter_host (ref_env nm cd ord) oip onm ip nmask start limit) (put ''dhcp'' ?X (put ''dhcp'' ?X t)) =
      (Ret (), put ''dhcp'' (del_secs (map sec_name (filter hit es)) ?X) (put ''dhcp'' ?X t))"
    using Cons.prems by (intro Cons.IH) (auto simp: store_simps intro: rev_image_eqI)
  then show ?case
    by (simp add: bindP_def step put_put)
qed

section \<open>Executing a managed request\<close>

text \<open>
  \<open>hit\<close> tells the hosts that are dropped: none when DHCP is switched off. A host that would be
  dropped for both reasons is left out: it is deleted twice, which fails.
\<close>

definition request_ok :: "managed_request \<Rightarrow> string \<Rightarrow> usection list \<Rightarrow> usection list \<Rightarrow> (usection \<Rightarrow> bool) \<Rightarrow> bool" where
  "request_ok m cidr N D hit \<longleftrightarrow>
     wf_config N \<and> wf_config D \<and> distinct (map sec_name (hosts D)) \<and>
     get_interface (mr_router_ip m) (mr_netmask m) = Inr cidr \<and> cidr \<noteq> [] \<and>
     (\<forall>e\<in>set (hosts D). valid_name (sec_name e) \<and> sec_name e \<noteq> ''lan'') \<and>
     (if dr_enabled (mr_dhcp m)
      then \<exists>oip onm g. get_network_combo [(''network'', network_start N)] = Inr (oip, onm, g) \<and>
        (\<forall>e\<in>set (hosts D). verdict_is (hit e) (host_verdict oip onm (mr_router_ip m) (mr_netmask m)
           (dr_start (mr_dhcp m)) (dr_limit (mr_dhcp m)) e))
      else \<forall>e\<in>set (hosts D). \<not> hit e)"

lemma host_has_sec: "e \<in> set (hosts D) \<Longrightarrow> has_sec D (sec_name e)"
  by (auto simp: hosts_def has_sec_def find_sec_def find_None_iff)

lemma exec_filter_records:
  assumes "request_ok m cidr N D hit" "dr_enabled (mr_dhcp m)" "staged (ext t) ''dhcp'' = Some X"
    and "get_network_combo [(''network'', network_start N)] = Inr (oip, onm, g)"
  shows "filter_dhcp_client_records (ref_env nm cd ord) [(''dhcp'', D)] oip onm (mr_router_ip m) (mr_netmask m)
      (dr_start (mr_dhcp m)) (dr_limit (mr_dhcp m)) (put ''dhcp'' (dhcp_written m D) t) =
      (Ret (), put ''dhcp'' (del_secs (map sec_name (filter hit (hosts D))) (dhcp_written m D)) t)"
proof -
  let ?R = "ref_env nm cd ord" and ?X = "dhcp_written m D"
  have ok: "distinct (map sec_name (hosts D))" "\<forall>e\<in>set (hosts D). valid_name (sec_name e) \<and>
      verdict_is (hit e) (host_verdict oip onm (mr_router_ip m) (mr_netmask m) (dr_start (mr_dhcp m)) (dr_limit (mr_dhcp m)) e)"
    using assms(1,2,4) by (auto simp: request_ok_def)
  have "forP (hosts D) (filter_host ?R oip onm (mr_router_ip m) (mr_netmask m) (dr_start (mr_dhcp m)) (dr_limit (mr_dhcp m)))
      (put ''dhcp'' ?X (put ''dhcp'' ?X t)) = (Ret (), put ''dhcp'' (del_secs (map sec_name (filter hit (hosts D))) ?X) (put ''dhcp'' ?X t))"
    using ok host_has_sec assms(3)
    by (intro exec_filter_hosts) (auto simp: store_simps dhcp_written_def Let_def)
  then show ?thesis
    by (simp add: filter_dhcp_client_records_def get_sections_by_type_eq bindP_def lift_def put_put hosts_def [symmetric])
qed

lemma exec_update_managed:
  assumes "staged (ext t) ''network'' = Some N" "staged (ext t) ''dhcp'' = Some D" "request_ok m cidr N D hit"
  shows "update_managed (ref_env nm cd ord) m (put ''network'' (network_start N) t) =
    (Ret (), put ''dhcp'' (del_secs (map sec_name (filter hit (hosts D))) (dhcp_written m D))
      (put ''network'' (network_written cidr N) t))"
proof -
  let ?R = "ref_env nm cd ord" and ?t = "put ''network'' (network_written cidr N) t"
  have ok: "wf_config N" "wf_config D" "get_interface (mr_router_ip m) (mr_netmask m) = Inr cidr" "cidr \<noteq> []"
    using assms(3) by (simp_all add: request_ok_def)
  have lan: "has_sec (network_start N) ''lan''" by (simp add: network_start_def store_simps)
  have setl: "set_lan ?R (mr_router_ip m) (mr_netmask m) (put ''network'' (set_opt ''lan'' ''proto'' (Str ''static'') (network_start N)) t)
      = (Ret (), ?t)"
    using exec_set_lan [of "put ''network'' (set_opt ''lan'' ''proto'' (Str ''static'') (network_start N)) t"] ok(3,4) lan
    by (simp add: store_simps network_written_def)
  show ?thesis
  proof (cases "dr_enabled (mr_dhcp m)")
    case True
    then obtain oip onm g where combo: "get_network_combo [(''network'', network_start N)] = Inr (oip, onm, g)"
      using assms(3) by (auto simp: request_ok_def)
    have dhcp: "staged (ext ?t) ''dhcp'' = Some D" using assms(2) by (simp add: store_simps)
    have D: "dhcp_written m D = set_opt ''lan'' ''dhcp_option'' (Lst [''6,'' @ mr_router_ip m]) (del_opt ''lan'' ''dhcp_option''
        (set_opt ''lan'' ''leasetime'' (Str (lease_text (dr_lease_time (mr_dhcp m))))
         (set_opt ''lan'' ''limit'' (Str (show_int (dr_limit (mr_dhcp m))))
          (set_opt ''lan'' ''start'' (Str (show_int (dr_start (mr_dhcp m))))
           (set_opt ''lan'' ''dhcpv6'' (Str ''server'')
            (set_opt ''lan'' ''ra'' (Str ''server'')
             (set_opt ''lan'' ''ignore'' (Str (store_bool False)) (set_sec ''lan'' ''dhcp'' D))))))))"
      using True by (simp add: dhcp_written_def Let_def)
    note filt = exec_filter_records [OF assms(3) True dhcp combo, unfolded D append_Cons append_Nil]
    show ?thesis
      unfolding update_managed_def
      using assms(1,2) ok lan wf_network_start [OF ok(1)] True
      by (simp add: bindP_def Let_def exec_simps store_simps prog_basic setl combo filt D)
  next
    case False
    then have "filter hit (hosts D) = []" using assms(3) by (simp add: request_ok_def)
    then show ?thesis
      unfolding update_managed_def
      using assms(1,2) ok lan wf_network_start [OF ok(1)] False
      by (simp add: bindP_def Let_def exec_simps store_simps prog_basic setl dhcp_written_def [unfolded Let_def])
  qed
qed

lemma exec_network_start:
  assumes "staged (ext t) ''network'' = Some N"
  shows "set_option (ref_env nm cd ord) ''network'' ''lan'' ''_turris_mode'' ''managed'' (put ''network'' (set_sec ''lan'' ''interface'' N) t) =
      (Ret (), put ''network'' (network_start N) t)"
  using assms by (simp add: exec_simps store_simps network_start_def)

lemma exec_lan_update_body:
  assumes "staged (ext t) ''network'' = Some N" "staged (ext t) ''dhcp'' = Some D" "request_ok m cidr N D hit"
  shows "lan_update_body (ref_env nm cd ord) (Managed m) None None t =
    (Ret (), put ''dhcp'' (del_secs (map sec_name (filter hit (hosts D))) (dhcp_written m D))
      (put ''network'' (network_written cidr N) t))"
  using assms(1) exec_update_managed [OF assms] exec_network_start [OF assms(1)]
  by (simp add: lan_update_body_def bindP_def exec_simps ret_def)

lemma filter_dhcp_client_records_eq:
  "filter_dhcp_client_records E [(''dhcp'', D)] oip onm ip nmask st li = forP (hosts D) (filter_host E oip onm ip nmask st li)"
  by (simp add: fun_eq_iff filter_dhcp_client_records_def get_sections_by_type_eq bindP_def lift_def hosts_def)

section \<open>The same over every tool\<close>

context uci_tool
begin

lemma sim_filter_host:
  "valid_name (sec_name e) \<Longrightarrow>
    sim (rel view) (filter_host E oip onm ip nmask st li e) (filter_host R oip onm ip nmask st li e)"
  unfolding filter_host_def
  by (auto intro!: sim_intros sim_del_section valid_sec_name split: option.split)

lemma sim_set_lan: "sim (rel view) (set_lan E ip nmask) (set_lan R ip nmask)"
  unfolding set_lan_def by (intro sim_intros sim_del_option sim_add_to_list valid_sec_name lan_names) simp_all

lemma sim_at_read:
  assumes "rel view s t" "valid_name c"
    and "\<And>d s'. read_uci R c t = (Ret d, t) \<Longrightarrow> rel view s' t \<Longrightarrow> sim_at (rel view) (f d) (g d) s' t"
  shows "sim_at (rel view) (bindP (read_uci E c) f) (bindP (read_uci R c) g) s t"
proof (rule sim_at_bindP [OF sim_atI [OF sim_read_uci [OF assms(2)] assms(1)]])
  fix d s' t'
  assume r: "read_uci R c t = (Ret d, t')" "rel view s' t'"
  then have "t' = t"
    unfolding read_uci_eq [OF assms(2)] by (auto simp: lift_def split: option.splits sum.splits)
  with r assms(3) show "sim_at (rel view) (f d) (g d) s' t'" by simp
qed

lemma sim_filter_dhcp_client_records:
  assumes "\<forall>e\<in>set (hosts D). valid_name (sec_name e)"
  shows "sim (rel view) (filter_dhcp_client_records E [(''dhcp'', D)] oip onm ip nmask st li)
    (filter_dhcp_client_records R [(''dhcp'', D)] oip onm ip nmask st li)"
  unfolding filter_dhcp_client_records_eq using assms by (intro sim_forP sim_filter_host) blast

lemma sim_at_update_managed:
  assumes "rel view s t" "staged (ext t) ''dhcp'' = Some D" "wf_config D"
    and "\<forall>e\<in>set (hosts D). valid_name (sec_name e)"
  shows "sim_at (rel view) (update_managed E m) (update_managed R m) s t"
proof -
  have names: "valid_name ''network''" "valid_name ''dhcp''" by simp_all
  have data: "read_uci R ''dhcp'' t = (Ret d, t) \<Longrightarrow> d = [(''dhcp'', D)]" for d
    using exec_read_uci [OF assms(2,3) names(2)] by auto
  show ?thesis
    unfolding update_managed_def
    apply (rule sim_at_read [OF assms(1) names(1)])
    apply (rule sim_at_read [OF _ names(2)], assumption)
    apply (drule data)
    apply (rule sim_atI)
     apply (simp only: Let_def)
     apply (intro sim_intros sim_set_option sim_set_lan sim_add_section sim_replace_list sim_filter_dhcp_client_records
        valid_sec_name lan_names assms(4); simp)
    apply assumption
    done
qed

lemma sim_at_lan_update_body:
  assumes "rel view s t" "staged (ext t) ''network'' = Some N" "staged (ext t) ''dhcp'' = Some D" "wf_config D"
    and "\<forall>e\<in>set (hosts D). valid_name (sec_name e)"
  shows "sim_at (rel view) (lan_update_body E (Managed m) None None) (lan_update_body R (Managed m) None None) s t"
proof -
  let ?t1 = "put ''network'' (set_sec ''lan'' ''interface'' N) t" and ?t2 = "put ''network'' (network_start N) t"
  have add: "add_section R ''network'' ''interface'' ''lan'' t = (Ret (), ?t1)"
    using assms(2) by (simp add: exec_simps)
  have start: "set_option R ''network'' ''lan'' ''_turris_mode'' ''managed'' ?t1 = (Ret (), ?t2)"
    by (rule exec_network_start [OF assms(2)])
  have staged: "staged (ext ?t2) ''dhcp'' = Some D" using assms(3) by (simp add: store_simps)
  show ?thesis
    unfolding lan_update_body_def block.simps option.case lan_request.case
    apply (rule sim_at_bindP [OF sim_atI [OF sim_add_section assms(1)]], simp, simp, simp)
    apply (rule sim_at_bindP [OF sim_atI [OF sim_set_option]], simp, simp add: valid_sec_name, simp, assumption)
    apply (rule sim_at_bindP [OF sim_atI [OF sim_ret]], assumption)
    apply (rule sim_at_bindP)
     apply (rule sim_at_update_managed [OF _ _ assms(4,5)], assumption)
     apply (use add start staged in \<open>simp add: ret_def\<close>)
    apply (rule sim_atI)
     apply (intro sim_intros)
    apply assumption
    done
qed

end

section \<open>Reading back\<close>

lemma hosts_upd_sec:
  "\<forall>e\<in>set (hosts D). sec_name e \<noteq> s \<Longrightarrow> (\<And>e. sec_type e \<noteq> ''host'' \<Longrightarrow> sec_type (f e) \<noteq> ''host'') \<Longrightarrow>
    hosts (upd_sec s f D) = hosts D"
  by (induction D) (auto simp: hosts_def split: if_splits)

lemma hosts_written: "\<forall>e\<in>set (hosts D). sec_name e \<noteq> ''lan'' \<Longrightarrow> hosts (dhcp_written m D) = hosts D"
proof -
  assume lan: "\<forall>e\<in>set (hosts D). sec_name e \<noteq> ''lan''"
  have "hosts (set_sec ''lan'' ''dhcp'' D) = hosts D"
    using lan hosts_upd_sec [of D "''lan''" "\<lambda>e. e\<lparr>sec_type := ''dhcp''\<rparr>"]
    by (simp add: set_sec_def hosts_def)
  moreover have "hosts (set_opt ''lan'' p v X) = hosts X" "hosts (del_opt ''lan'' p X) = hosts X"
    if "hosts X = hosts D" for p v X
    using lan that by (simp_all add: set_opt_def del_opt_def hosts_upd_sec)
  ultimately show ?thesis by (simp add: dhcp_written_def Let_def)
qed

lemma filter_by_name:
  "distinct (map sec_name es) \<Longrightarrow>
    filter (\<lambda>e. sec_name e \<notin> sec_name ` {x \<in> set es. hit x}) es = filter (\<lambda>e. \<not> hit e) es"
  by (rule filter_cong [OF refl]) (auto simp: distinct_map inj_on_def)

lemma hosts_del_secs:
  "distinct (map sec_name (hosts X)) \<Longrightarrow>
    hosts (del_secs (map sec_name (filter hit (hosts X))) X) = filter (\<lambda>e. \<not> hit e) (hosts X)"
proof -
  assume d: "distinct (map sec_name (hosts X))"
  have "hosts (del_secs ns X) = filter (\<lambda>e. sec_name e \<notin> set ns) (hosts X)" for ns
    by (auto simp: hosts_def del_secs_def intro: filter_cong)
  then show ?thesis using filter_by_name [OF d, of hit] by simp
qed

lemma lan_dhcp_values_written:
  assumes "''lan'' \<notin> set ns"
  shows "dr_enabled (mr_dhcp m) \<Longrightarrow> lan_dhcp_values [(''dhcp'', del_secs ns (dhcp_written m D))] =
      Inr (True, dr_start (mr_dhcp m), dr_limit (mr_dhcp m), dr_lease_time (mr_dhcp m))"
    and "\<not> dr_enabled (mr_dhcp m) \<Longrightarrow> lan_dhcp_values [(''dhcp'', D)] = Inr (b, start, limit, lease) \<Longrightarrow>
      lan_dhcp_values [(''dhcp'', del_secs ns (dhcp_written m D))] = Inr (False, start, limit, lease)"
  using assms
  by (auto simp add: lan_dhcp_values_def option_bool_def option_int_def get_option_named_eq store_simps
      dhcp_written_def Let_def normalize_lease_text bindE_eq_Inr)


definition demo_request :: managed_request where
  "demo_request = \<lparr>mr_router_ip = ''192.168.5.8'', mr_netmask = ''255.255.255.0'',
     mr_dhcp = \<lparr>dr_enabled = True, dr_start = 10, dr_limit = 50, dr_lease_time = 3600\<rparr>\<rparr>"


end
