(* ===== verification/Guest.thy ===== *)
theory Guest
  imports LanRoundtrip UciWrites
begin

text \<open>
  The guest network, \<^verbatim>\<open>foris_controller_backends/guest\<close>: the settings \<^verbatim>\<open>GuestUci\<close> reads, the
  writes it makes to four configs, and the guest wifi that it switches off
  (\<^verbatim>\<open>WifiUci.set_guest_wifi_disabled\<close>). The theorems say that the settings are read back as
  they were written.
\<close>

section \<open>Reading\<close>

text \<open>Only a missing record counts as disabled; another exception is passed on.\<close>

definition guest_flag :: "uci_data \<Rightarrow> string \<Rightarrow> string \<Rightarrow> bool res" where
  "guest_flag data config section =
     (case bindE (get_option_named data config section ''enabled'' None) parse_bool of
        Inl (UciRecordNotFound _) \<Rightarrow> Inr False
      | r \<Rightarrow> r)"

definition get_guest_enabled :: "uci_data \<Rightarrow> uci_data \<Rightarrow> bool res" where
  "get_guest_enabled network_data firewall_data =
     andE (guest_flag network_data ''network'' ''guest_turris'')
    (andE (guest_flag firewall_data ''firewall'' ''guest_turris'')
    (andE (guest_flag firewall_data ''firewall'' ''guest_turris_forward_wan'')
    (andE (guest_flag firewall_data ''firewall'' ''guest_turris_dhcp_rule'')
          (guest_flag firewall_data ''firewall'' ''guest_turris_dns_rule''))))"

definition guest_address :: "uci_data \<Rightarrow> (uval \<times> uval) res" where
  "guest_address network_data =
     bindE (get_option_named network_data ''network'' ''guest_turris'' ''ipaddr'' (Some (Str ''10.111.222.1''))) (\<lambda>ip.
     bindE (get_option_named network_data ''network'' ''guest_turris'' ''netmask'' (Some (Str ''255.255.255.0''))) (\<lambda>nmask.
       Inr (ip, nmask)))"

definition guest_dhcp_values :: "uci_data \<Rightarrow> (bool \<times> int \<times> int \<times> int) res" where
  "guest_dhcp_values dhcp_data =
     bindE (option_bool dhcp_data ''dhcp'' ''guest_turris'' ''ignore'' ''0'') (\<lambda>ignore.
     bindE (option_int dhcp_data ''dhcp'' ''guest_turris'' ''start'' 100) (\<lambda>start.
     bindE (option_int dhcp_data ''dhcp'' ''guest_turris'' ''limit'' 150) (\<lambda>limit.
     bindE (bindE (get_option_named dhcp_data ''dhcp'' ''guest_turris'' ''leasetime'' (Some (Num 3600))) normalize_lease) (\<lambda>lease.
       Inr (\<not> ignore, start, limit, lease)))))"

record guest_state =
  gu_enabled :: bool
  gu_address :: "uval \<times> uval"
  gu_qos :: qos_settings
  gu_dhcp :: "bool \<times> int \<times> int \<times> int"
  gu_clients :: "client list"
  gu_interface_count :: nat
  gu_interface_up_count :: nat

definition get_guest_network_settings ::
  "'e env \<Rightarrow> iface list res \<Rightarrow> uci_data \<Rightarrow> uci_data \<Rightarrow> uci_data \<Rightarrow> uci_data \<Rightarrow> uci_data \<Rightarrow>
    ('e st, guest_state) prog" where
  "get_guest_network_settings E hw network_data firewall_data dhcp_data sqm_data wireless_data =
     bindP (lift (get_guest_enabled network_data firewall_data)) (\<lambda>enabled.
     bindP (lift (guest_address network_data)) (\<lambda>address.
     bindP (lift (read_qos sqm_data ''guest_limit_turris'')) (\<lambda>qos.
     bindP (lift (guest_dhcp_values dhcp_data)) (\<lambda>dhcp.
     bindP (if fst dhcp then get_dhcp_clients E (py_str (fst address)) (py_str (snd address)) else ret []) (\<lambda>clients.
     bindP (lift (get_interface_count hw network_data wireless_data ''guest'' False)) (\<lambda>count.
     bindP (lift (get_interface_count hw network_data wireless_data ''guest'' True)) (\<lambda>up_count.
       ret \<lparr>gu_enabled = enabled, gu_address = address, gu_qos = qos, gu_dhcp = dhcp, gu_clients = clients,
            gu_interface_count = count, gu_interface_up_count = up_count\<rparr>)))))))"

definition guest_get_settings :: "'e env \<Rightarrow> iface list res \<Rightarrow> ('e st, guest_state) prog" where
  "guest_get_settings E hw =
     bindP (with_uci E
       (bindP (read_uci E ''firewall'') (\<lambda>firewall.
        bindP (read_uci E ''network'') (\<lambda>network.
        bindP (read_uci E ''sqm'') (\<lambda>sqm.
        bindP (read_uci E ''dhcp'') (\<lambda>dhcp.
        bindP (read_wireless E) (\<lambda>wireless. ret (network, firewall, dhcp, sqm, wireless))))))))
       (\<lambda>(network, firewall, dhcp, sqm, wireless).
         get_guest_network_settings E hw network firewall dhcp sqm wireless)"

section \<open>Writing\<close>

text \<open>A request to disable the network carries nothing else.\<close>

record guest_settings =
  gs_ip :: string
  gs_netmask :: string
  gs_dhcp :: dhcp_request
  gs_qos :: "qos_settings option"

datatype guest_request = GuestOff | GuestOn guest_settings

fun guest_wanted :: "guest_request \<Rightarrow> bool" where
  "guest_wanted GuestOff = False"
| "guest_wanted (GuestOn _) = True"

definition guest_network_writes :: "guest_request \<Rightarrow> uwrite list" where
  "guest_network_writes req =
     [AddSection ''network'' ''interface'' ''guest_turris'',
      SetOption ''network'' ''guest_turris'' ''enabled'' (store_bool (guest_wanted req)),
      SetOption ''network'' ''guest_turris'' ''proto'' ''static'',
      AddSection ''network'' ''device'' ''br_guest_turris'',
      SetOption ''network'' ''br_guest_turris'' ''name'' ''br-guest-turris'',
      SetOption ''network'' ''br_guest_turris'' ''type'' ''bridge'',
      SetOption ''network'' ''guest_turris'' ''device'' ''br-guest-turris''] @
     (case req of GuestOff \<Rightarrow> []
      | GuestOn g \<Rightarrow>
         [SetOption ''network'' ''guest_turris'' ''ipaddr'' (gs_ip g),
          SetOption ''network'' ''guest_turris'' ''netmask'' (gs_netmask g)]) @
     [SetOption ''network'' ''br_guest_turris'' ''bridge_empty'' (store_bool True),
      SetOption ''network'' ''guest_turris'' ''ip6assign'' ''64'']"

definition guest_rule_writes :: "string \<Rightarrow> (string \<times> string) list \<Rightarrow> uwrite list" where
  "guest_rule_writes section options =
     AddSection ''firewall'' ''rule'' section # map (\<lambda>(p, v). SetOption ''firewall'' section p v) options"

definition guest_firewall_writes :: "string \<Rightarrow> uwrite list" where
  "guest_firewall_writes enabled =
     [AddSection ''firewall'' ''zone'' ''guest_turris'',
      SetOption ''firewall'' ''guest_turris'' ''enabled'' enabled,
      SetOption ''firewall'' ''guest_turris'' ''name'' ''tr_guest'',
      ReplaceList ''firewall'' ''guest_turris'' ''network'' [''guest_turris''],
      SetOption ''firewall'' ''guest_turris'' ''input'' ''REJECT'',
      SetOption ''firewall'' ''guest_turris'' ''forward'' ''REJECT'',
      SetOption ''firewall'' ''guest_turris'' ''output'' ''ACCEPT'',
      AddSection ''firewall'' ''forwarding'' ''guest_turris_forward_wan'',
      SetOption ''firewall'' ''guest_turris_forward_wan'' ''enabled'' enabled,
      SetOption ''firewall'' ''guest_turris_forward_wan'' ''name'' ''guest to wan forward'',
      SetOption ''firewall'' ''guest_turris_forward_wan'' ''src'' ''tr_guest'',
      SetOption ''firewall'' ''guest_turris_forward_wan'' ''dest'' ''wan''] @
     guest_rule_writes ''guest_turris_dns_rule''
       [(''enabled'', enabled), (''name'', ''guest dns rule''), (''src'', ''tr_guest''), (''proto'', ''tcpudp''),
        (''dest_port'', ''53''), (''target'', ''ACCEPT'')] @
     guest_rule_writes ''guest_turris_dhcp_rule''
       [(''enabled'', enabled), (''name'', ''guest dhcp rule''), (''src'', ''tr_guest''), (''proto'', ''udp''),
        (''src_port'', ''67-68''), (''dest_port'', ''67-68''), (''target'', ''ACCEPT'')] @
     guest_rule_writes ''guest_turris_Allow_DHCPv6''
       [(''src'', ''tr_guest''), (''proto'', ''udp''), (''src_ip'', ''fe80::/10''), (''src_port'', ''546-547''),
        (''dest_ip'', ''fe80::/10''), (''dest_port'', ''546-547''), (''family'', ''ipv6''), (''target'', ''ACCEPT'')] @
     guest_rule_writes ''guest_turris_Allow_MLD''
       [(''src'', ''tr_guest''), (''proto'', ''icmp''), (''src_ip'', ''fe80::/10''), (''family'', ''ipv6''),
        (''target'', ''ACCEPT'')] @
     [ReplaceList ''firewall'' ''guest_turris_Allow_MLD'' ''icmp_type'' [''130/0'', ''131/0'', ''132/0'', ''143/0'']] @
     guest_rule_writes ''guest_turris_Allow_ICMPv6_Input''
       [(''src'', ''tr_guest''), (''proto'', ''icmp''), (''limit'', ''1000/sec''), (''family'', ''ipv6''),
        (''target'', ''ACCEPT'')] @
     [ReplaceList ''firewall'' ''guest_turris_Allow_ICMPv6_Input'' ''icmp_type''
        [''echo-request'', ''echo-reply'', ''destination-unreachable'', ''packet-too-big'', ''time-exceeded'',
         ''bad-header'', ''unknown-header-type'', ''router-solicitation'', ''neighbour-solicitation'',
         ''router-advertisement'', ''neighbour-advertisement'']]"

definition guest_dhcp_writes :: "guest_request \<Rightarrow> uwrite list" where
  "guest_dhcp_writes req =
     [AddSection ''dhcp'' ''dhcp'' ''guest_turris'',
      SetOption ''dhcp'' ''guest_turris'' ''interface'' ''guest_turris''] @
     (case req of GuestOff \<Rightarrow> []
      | GuestOn g \<Rightarrow>
         SetOption ''dhcp'' ''guest_turris'' ''ignore'' (store_bool (\<not> dr_enabled (gs_dhcp g))) #
         (if dr_enabled (gs_dhcp g) then
            [SetOption ''dhcp'' ''guest_turris'' ''start'' (show_int (dr_start (gs_dhcp g))),
             SetOption ''dhcp'' ''guest_turris'' ''limit'' (show_int (dr_limit (gs_dhcp g))),
             SetOption ''dhcp'' ''guest_turris'' ''leasetime'' (lease_text (dr_lease_time (gs_dhcp g))),
             SetOption ''dhcp'' ''guest_turris'' ''dhcpv6'' ''server'',
             SetOption ''dhcp'' ''guest_turris'' ''ra'' ''server'']
          else []) @
         (if gs_ip g \<noteq> [] then [ReplaceList ''dhcp'' ''guest_turris'' ''dhcp_option'' [''6,'' @ gs_ip g]] else []))"

text \<open>The limits are swapped: upload to the guests is what the interface downloads.\<close>

definition guest_qos_writes :: "qos_settings \<Rightarrow> uwrite list" where
  "guest_qos_writes q =
     [AddSection ''sqm'' ''queue'' ''guest_limit_turris'',
      SetOption ''sqm'' ''guest_limit_turris'' ''enabled'' (store_bool True),
      SetOption ''sqm'' ''guest_limit_turris'' ''interface'' ''br-guest-turris'',
      SetOption ''sqm'' ''guest_limit_turris'' ''qdisc'' ''fq_codel'',
      SetOption ''sqm'' ''guest_limit_turris'' ''script'' ''simple.qos'',
      SetOption ''sqm'' ''guest_limit_turris'' ''link_layer'' ''none'',
      SetOption ''sqm'' ''guest_limit_turris'' ''verbosity'' ''5'',
      SetOption ''sqm'' ''guest_limit_turris'' ''debug_logging'' ''1'',
      SetOption ''sqm'' ''guest_limit_turris'' ''upload'' (show_int (q_download q)),
      SetOption ''sqm'' ''guest_limit_turris'' ''download'' (show_int (q_upload q))]"

fun wanted_qos :: "guest_request \<Rightarrow> qos_settings option" where
  "wanted_qos GuestOff = None"
| "wanted_qos (GuestOn g) = (case gs_qos g of Some q \<Rightarrow> if q_enabled q then Some q else None | None \<Rightarrow> None)"

definition guest_writes :: "guest_request \<Rightarrow> uwrite list" where
  "guest_writes req = guest_network_writes req @ guest_firewall_writes (store_bool (guest_wanted req)) @
     guest_dhcp_writes req"

text \<open>The command to give to the sqm service, \<open>None\<close> when the sqm config cannot be written.\<close>

definition set_guest_network :: "'e env \<Rightarrow> guest_request \<Rightarrow> ('e st, string option) prog" where
  "set_guest_network E req =
     bindP (writes E (guest_writes req)) (\<lambda>_.
     bindP (tryP (del_section E ''sqm'' ''guest_limit_turris'') is_uci_exception (\<lambda>_. ret ())) (\<lambda>_.
       tryP (case wanted_qos req of
           Some q \<Rightarrow> bindP (writes E (guest_qos_writes q)) (\<lambda>_. ret (Some ''enable''))
         | None \<Rightarrow> ret (Some ''disable'')) is_uci_exception (\<lambda>_. ret None)))"

text \<open>The guest network as it is configured, to be enabled; also when it did not exist before.\<close>

definition configured_guest :: "uci_data \<Rightarrow> uci_data \<Rightarrow> guest_request res" where
  "configured_guest network_data dhcp_data =
     bindE (option_bool dhcp_data ''dhcp'' ''guest_turris'' ''ignore'' ''0'') (\<lambda>ignore.
     bindE (option_int dhcp_data ''dhcp'' ''guest_turris'' ''start'' 100) (\<lambda>start.
     bindE (option_int dhcp_data ''dhcp'' ''guest_turris'' ''limit'' 150) (\<lambda>limit.
     bindE (guest_address network_data) (\<lambda>(ip, nmask).
     bindE (bindE (get_option_named dhcp_data ''dhcp'' ''guest_turris'' ''leasetime'' (Some (Num 3600))) normalize_lease) (\<lambda>lease.
       Inr (GuestOn \<lparr>gs_ip = py_str ip, gs_netmask = py_str nmask,
         gs_dhcp = \<lparr>dr_enabled = \<not> ignore, dr_start = start, dr_limit = limit, dr_lease_time = lease\<rparr>,
         gs_qos = None\<rparr>))))))"

definition enable_guest_network :: "'e env \<Rightarrow> ('e st, unit) prog" where
  "enable_guest_network E =
     bindP (read_uci E ''network'') (\<lambda>network_data.
     bindP (read_uci E ''dhcp'') (\<lambda>dhcp_data.
     bindP (lift (configured_guest network_data dhcp_data)) (\<lambda>req.
     bindP (tryP (bindP (lift (get_option_named network_data ''network'' ''guest_turris'' ''proto'' None)) (\<lambda>_.
                   set_guest_network E req))
         is_uci_error (\<lambda>_. set_guest_network E req)) (\<lambda>_. ret ()))))"

section \<open>Guest wifi and the whole operation\<close>

definition get_wifi_devices :: "'e env \<Rightarrow> ('e st, usection list) prog" where
  "get_wifi_devices E =
     tryP (bindP (read_uci E ''wireless'') (\<lambda>wifi_data.
         lift (get_sections_by_type wifi_data ''wireless'' ''wifi-device'')))
       is_uci_error (\<lambda>_. ret [])"

definition guest_iface_name :: "nat \<Rightarrow> string" where
  "guest_iface_name i = ''guest_iface_'' @ show_nat i"

definition set_guest_wifi_disabled :: "'e env \<Rightarrow> ('e st, unit) prog" where
  "set_guest_wifi_disabled E =
     bindP (get_wifi_devices E) (\<lambda>devices.
       writes E (concat (map (\<lambda>i.
         [AddSection ''wireless'' ''wifi-iface'' (guest_iface_name i),
          SetOption ''wireless'' (guest_iface_name i) ''disabled'' (store_bool True)]) [0..<length devices])))"

definition guest_update_body :: "'e env \<Rightarrow> guest_request \<Rightarrow> ('e st, string option) prog" where
  "guest_update_body E req =
     bindP (whenP (\<not> guest_wanted req) [set_guest_wifi_disabled E]) (\<lambda>_. set_guest_network E req)"

definition guest_update_settings :: "'e env \<Rightarrow> guest_request \<Rightarrow> ('e st, bool) prog" where
  "guest_update_settings E req =
     bindP (with_uci E (guest_update_body E req)) (\<lambda>sqm_cmd.
     bindP (with_services
         (if sqm_cmd = Some ''enable'' then service_command E Enable ''sqm'' None False
          else if sqm_cmd = Some ''disable'' then service_command E Disable ''sqm'' None False
          else ret ())) (\<lambda>_.
     bindP (restart_network E) (\<lambda>_. ret True)))"

section \<open>Running the writes\<close>

lemma guest_names [simp]:
  "valid_name ''guest_turris''" "valid_name ''br_guest_turris''" "valid_name ''enabled''" "valid_name ''type''"
  "valid_name ''device''" "valid_name ''bridge_empty''" "valid_name ''ip6assign''" "valid_name ''firewall''"
  "valid_name ''zone''" "valid_name ''input''" "valid_name ''forward''" "valid_name ''output''"
  "valid_name ''forwarding''" "valid_name ''guest_turris_forward_wan''" "valid_name ''src''" "valid_name ''dest''"
  "valid_name ''rule''" "valid_name ''guest_turris_dns_rule''" "valid_name ''guest_turris_dhcp_rule''"
  "valid_name ''guest_turris_Allow_DHCPv6''" "valid_name ''guest_turris_Allow_MLD''"
  "valid_name ''guest_turris_Allow_ICMPv6_Input''" "valid_name ''dest_port''" "valid_name ''src_port''"
  "valid_name ''target''" "valid_name ''src_ip''" "valid_name ''dest_ip''" "valid_name ''family''"
  "valid_name ''icmp_type''" "valid_name ''sqm''" "valid_name ''queue''" "valid_name ''guest_limit_turris''"
  "valid_name ''qdisc''" "valid_name ''script''" "valid_name ''link_layer''" "valid_name ''verbosity''"
  "valid_name ''debug_logging''" "valid_name ''upload''" "valid_name ''download''"
  by (simp_all add: valid_name_def name_char_def)

lemmas guest_write_defs = guest_writes_def guest_network_writes_def guest_firewall_writes_def
  guest_rule_writes_def guest_dhcp_writes_def guest_qos_writes_def

lemma guest_writes_valid: "list_all write_names_valid (guest_writes req)" "list_all write_names_valid (guest_qos_writes q)"
  by (cases req; simp add: guest_write_defs) (simp add: guest_write_defs)

lemma guest_writes_configs:
  "set (map config_of (guest_writes req)) = {''network'', ''firewall'', ''dhcp''}"
  "set (map config_of (guest_qos_writes q)) = {''sqm''}"
  by (cases req; auto simp: guest_write_defs) (simp add: guest_write_defs)

lemma guest_writes_known: "sections_known (guest_writes req) (\<lambda>_ _. False)" "sections_known (guest_qos_writes q) (\<lambda>_ _. False)"
  by (cases req; simp add: guest_write_defs) (simp add: guest_write_defs)

fun qos_part :: "guest_request \<Rightarrow> uwrite list" where
  "qos_part req = (case wanted_qos req of Some q \<Rightarrow> guest_qos_writes q | None \<Rightarrow> [])"

lemma exec_guest_qos:
  assumes "staged (ext t) ''sqm'' = Some Q"
  shows "\<exists>m t' cs. tryP (case wanted of
        Some q \<Rightarrow> bindP (writes (ref_env nm cd ord) (guest_qos_writes q)) (\<lambda>_. ret (Some ''enable''))
      | None \<Rightarrow> ret (Some ''disable'')) is_uci_exception (\<lambda>_. ret None) t =
      (Ret (Some (if wanted = None then ''disable'' else ''enable'')), t') \<and> staged_as t m cs t' \<and> cs \<subseteq> {''sqm''} \<and>
    (\<exists>Q'. m = (staged (ext t))(''sqm'' \<mapsto> Q') \<and>
      follows (case wanted of Some q \<Rightarrow> guest_qos_writes q | None \<Rightarrow> []) ''sqm'' Q Q')"
proof (cases wanted)
  case None
  have "staged_as t ((staged (ext t))(''sqm'' \<mapsto> Q)) {} t"
    using assms by (simp add: staged_as_def fun_upd_idem)
  then show ?thesis
    using None by (auto simp: tryP_def ret_def follows_def)
next
  case (Some q)
  obtain m t' where run: "writes (ref_env nm cd ord) (guest_qos_writes q) t = (Ret (), t')"
      and m: "staged_as t m {''sqm''} t'" "\<forall>c. c \<noteq> ''sqm'' \<longrightarrow> m c = staged (ext t) c"
      "\<forall>c X. staged (ext t) c = Some X \<longrightarrow> (\<exists>Y. m c = Some Y \<and> follows (guest_qos_writes q) c X Y)"
    using exec_self_contained [OF guest_writes_valid(2) guest_writes_known(2), of q t nm cd ord] assms
    unfolding guest_writes_configs by auto
  then obtain Q' where "m ''sqm'' = Some Q'" "follows (guest_qos_writes q) ''sqm'' Q Q'" using assms by blast
  moreover from this m(2) have "m = (staged (ext t))(''sqm'' \<mapsto> Q')" by (auto simp: fun_eq_iff)
  ultimately show ?thesis
    using run m(1) Some by (auto simp: tryP_def bindP_def ret_def)
qed

text \<open>The configs the operation leaves, told by their lookups.\<close>

lemma exec_set_guest_network:
  assumes "staged (ext t) ''network'' = Some N" "staged (ext t) ''firewall'' = Some F"
    "staged (ext t) ''dhcp'' = Some D" "staged (ext t) ''sqm'' = Some Q"
  shows "\<exists>m t' cs N' F' D' Q'. set_guest_network (ref_env nm cd ord) req t =
      (Ret (Some (if wanted_qos req = None then ''disable'' else ''enable'')), t') \<and> staged_as t m cs t' \<and>
    cs \<subseteq> {''network'', ''firewall'', ''dhcp'', ''sqm''} \<and>
    m = (staged (ext t))(''network'' \<mapsto> N', ''firewall'' \<mapsto> F', ''dhcp'' \<mapsto> D', ''sqm'' \<mapsto> Q') \<and>
    config_after (guest_writes req) ''network'' N = Some N' \<and> config_after (guest_writes req) ''firewall'' F = Some F' \<and>
    config_after (guest_writes req) ''dhcp'' D = Some D' \<and> follows (qos_part req) ''sqm'' (del_sec ''guest_limit_turris'' Q) Q'"
proof -
  let ?R = "ref_env nm cd ord"
  have present: "\<forall>c\<in>set (map config_of (guest_writes req)). staged (ext t) c \<noteq> None"
    unfolding guest_writes_configs using assms by simp
  obtain m1 t1 where t1: "writes ?R (guest_writes req) t = (Ret (), t1)"
      and m1: "staged_as t m1 {''network'', ''firewall'', ''dhcp''} t1"
      and after: "\<forall>c X. staged (ext t) c = Some X \<longrightarrow>
        (\<exists>Y. staged (ext t1) c = Some Y \<and> config_after (guest_writes req) c X = Some Y)"
    using exec_known [OF guest_writes_valid(1) guest_writes_known(1) _ present, of nm cd ord]
    unfolding guest_writes_configs by auto
  have s1: "staged (ext t1) = m1" using m1 by (simp add: staged_as_def)
  with after assms(1-3) obtain N' F' D' where f: "m1 ''network'' = Some N'" "config_after (guest_writes req) ''network'' N = Some N'"
      "m1 ''firewall'' = Some F'" "config_after (guest_writes req) ''firewall'' F = Some F'"
      "m1 ''dhcp'' = Some D'" "config_after (guest_writes req) ''dhcp'' D = Some D'"
    by metis
  have rest: "m1 c = staged (ext t) c" if "c \<notin> {''network'', ''firewall'', ''dhcp''}" for c
    using m1 that unfolding staged_as_def by blast
  then have q1: "staged (ext t1) ''sqm'' = Some Q" using s1 assms(4) by simp
  obtain t2 where t2: "tryP (del_section ?R ''sqm'' ''guest_limit_turris'') is_uci_exception (\<lambda>_. ret ()) t1 = (Ret (), t2)"
      "staged_as t1 ((staged (ext t1))(''sqm'' \<mapsto> del_sec ''guest_limit_turris'' Q))
        (if has_sec Q ''guest_limit_turris'' then {''sqm''} else {}) t2"
    using exec_try_del_section [OF q1, of "''guest_limit_turris''" nm cd ord] by auto
  have s2: "staged (ext t2) = m1(''sqm'' \<mapsto> del_sec ''guest_limit_turris'' Q)"
    using t2(2) s1 by (simp add: staged_as_def)
  then have q2: "staged (ext t2) ''sqm'' = Some (del_sec ''guest_limit_turris'' Q)" by simp
  obtain m t3 cs Q' where t3: "tryP (case wanted_qos req of
        Some q \<Rightarrow> bindP (writes ?R (guest_qos_writes q)) (\<lambda>_. ret (Some ''enable''))
      | None \<Rightarrow> ret (Some ''disable'')) is_uci_exception (\<lambda>_. ret None) t2 =
      (Ret (Some (if wanted_qos req = None then ''disable'' else ''enable'')), t3)"
      "staged_as t2 m cs t3" "cs \<subseteq> {''sqm''}" "m = (staged (ext t2))(''sqm'' \<mapsto> Q')"
      "follows (qos_part req) ''sqm'' (del_sec ''guest_limit_turris'' Q) Q'"
    using exec_guest_qos [OF q2, where wanted = "wanted_qos req" and nm = nm and cd = cd and ord = ord]
    unfolding qos_part.simps by blast
  have run: "set_guest_network ?R req t = (Ret (Some (if wanted_qos req = None then ''disable'' else ''enable'')), t3)"
    unfolding set_guest_network_def by (simp only: bindP_def t1 t2(1) t3(1) prod.case outcome.case)
  have sa: "staged_as t m ({''network'', ''firewall'', ''dhcp''} \<union>
      ((if has_sec Q ''guest_limit_turris'' then {''sqm''} else {}) \<union> cs)) t3"
    by (rule staged_as_trans [OF m1 staged_as_trans [OF t2(2) t3(2)]])
  have "m = (staged (ext t))(''network'' \<mapsto> N', ''firewall'' \<mapsto> F', ''dhcp'' \<mapsto> D', ''sqm'' \<mapsto> Q')"
    using rest f(1,3,5) by (auto simp: t3(4) s2 fun_eq_iff)
  with run sa f(2,4,6) t3(3,5) show ?thesis
    by (intro exI conjI) (assumption | auto split: if_splits)+
qed

section \<open>What is written is read back\<close>

lemma guest_writes_of:
  "value_after (guest_writes req) ''network'' s p v = value_after (guest_network_writes req) ''network'' s p v"
  "value_after (guest_writes req) ''firewall'' s p v =
     value_after (guest_firewall_writes (store_bool (guest_wanted req))) ''firewall'' s p v"
  "value_after (guest_writes req) ''dhcp'' s p v = value_after (guest_dhcp_writes req) ''dhcp'' s p v"
proof -
  have c: "set (map config_of (guest_network_writes req)) = {''network''}"
    "set (map config_of (guest_firewall_writes b)) = {''firewall''}"
    "set (map config_of (guest_dhcp_writes req)) = {''dhcp''}" for b
    by (cases req; auto simp: guest_write_defs)+
  have same: "value_after (guest_network_writes req) ''firewall'' s p v = v"
    "value_after (guest_network_writes req) ''dhcp'' s p v = v" "value_after (guest_firewall_writes b) ''network'' s p v = v"
    "value_after (guest_firewall_writes b) ''dhcp'' s p v = v" "value_after (guest_dhcp_writes req) ''network'' s p v = v"
    "value_after (guest_dhcp_writes req) ''firewall'' s p v = v" for b v
    by (rule value_after_other, simp only: c, simp)+
  show "value_after (guest_writes req) ''network'' s p v = value_after (guest_network_writes req) ''network'' s p v"
    "value_after (guest_writes req) ''firewall'' s p v =
     value_after (guest_firewall_writes (store_bool (guest_wanted req))) ''firewall'' s p v"
    "value_after (guest_writes req) ''dhcp'' s p v = value_after (guest_dhcp_writes req) ''dhcp'' s p v"
    by (simp_all add: guest_writes_def value_after_append same)
qed

lemma guest_firewall_enabled:
  "s \<in> {''guest_turris'', ''guest_turris_forward_wan'', ''guest_turris_dhcp_rule'', ''guest_turris_dns_rule''} \<Longrightarrow>
    value_after (guest_firewall_writes (store_bool b)) ''firewall'' s ''enabled'' v = Some (Str (store_bool b))"
  by (elim insertE emptyE) (simp_all add: guest_firewall_writes_def guest_rule_writes_def)

text \<open>
  What the settings should show of the DHCP part of a request, from the dhcp config before and
  after it: a range that is not requested reads as before.
\<close>

definition dhcp_shown :: "dhcp_request \<Rightarrow> usection list \<Rightarrow> usection list \<Rightarrow> bool" where
  "dhcp_shown d D D' \<longleftrightarrow>
     (if dr_enabled d then guest_dhcp_values [(''dhcp'', D')] = Inr (True, dr_start d, dr_limit d, dr_lease_time d)
      else \<forall>b start limit lease. guest_dhcp_values [(''dhcp'', D)] = Inr (b, start, limit, lease) \<longrightarrow>
        guest_dhcp_values [(''dhcp'', D')] = Inr (False, start, limit, lease))"

lemma guest_values_on:
  assumes "follows (guest_writes (GuestOn g)) ''network'' N N'" "follows (guest_writes (GuestOn g)) ''firewall'' F F'"
    and "follows (guest_writes (GuestOn g)) ''dhcp'' D D'" "gs_ip g \<noteq> []" "gs_netmask g \<noteq> []"
  shows "get_guest_enabled [(''network'', N')] [(''firewall'', F')] = Inr True"
    and "guest_address [(''network'', N')] = Inr (Str (gs_ip g), Str (gs_netmask g))"
    and "dhcp_shown (gs_dhcp g) D D'"
proof -
  note lk = follows_lk [OF assms(1)] follows_lk [OF assms(2)] follows_lk [OF assms(3)]
  show "get_guest_enabled [(''network'', N')] [(''firewall'', F')] = Inr True"
    by (simp add: get_guest_enabled_def guest_flag_def get_option_named_eq lk guest_writes_of guest_firewall_enabled)
       (simp add: guest_network_writes_def)
  show "guest_address [(''network'', N')] = Inr (Str (gs_ip g), Str (gs_netmask g))"
    using assms(4,5)
    by (simp add: guest_address_def get_option_named_eq lk guest_writes_of) (simp add: guest_network_writes_def)
  show "dhcp_shown (gs_dhcp g) D D'"
  proof (cases "dr_enabled (gs_dhcp g)")
    case True
    then show ?thesis
      by (simp add: dhcp_shown_def guest_dhcp_values_def option_bool_def option_int_def get_option_named_eq lk guest_writes_of)
         (simp add: guest_dhcp_writes_def normalize_lease_text)
  next
    case False
    then have "value_after (guest_writes (GuestOn g)) ''dhcp'' ''guest_turris'' p v = v"
        if "p \<in> {''start'', ''limit'', ''leasetime''}" for p v
      using that by (auto simp: guest_writes_of guest_dhcp_writes_def)
    moreover have "value_after (guest_writes (GuestOn g)) ''dhcp'' ''guest_turris'' ''ignore'' v = Some (Str (store_bool True))" for v
      using False by (simp add: guest_writes_of guest_dhcp_writes_def)
    ultimately show ?thesis
      using False
      by (auto simp: dhcp_shown_def guest_dhcp_values_def option_bool_def option_int_def get_option_named_eq lk
          bindE_eq_Inr)
  qed
qed

lemma guest_values_off:
  assumes "follows (guest_writes GuestOff) ''network'' N N'"
  shows "get_guest_enabled [(''network'', N')] firewall = Inr False"
  by (simp add: get_guest_enabled_def guest_flag_def get_option_named_eq follows_lk [OF assms]
      guest_writes_of guest_network_writes_def)

lemma guest_qos_on:
  assumes "follows (guest_qos_writes q) ''sqm'' Q Q'"
  shows "read_qos [(''sqm'', Q')] ''guest_limit_turris'' = Inr (q\<lparr>q_enabled := True\<rparr>)"
  by (simp add: read_qos_def option_bool_def option_int_def get_option_named_eq follows_lk [OF assms] guest_write_defs)

lemma guest_qos_off:
  assumes "follows [] ''sqm'' (del_sec ''guest_limit_turris'' Q) Q'"
  shows "read_qos [(''sqm'', Q')] ''guest_limit_turris'' = Inr \<lparr>q_enabled = False, q_upload = 1024, q_download = 1024\<rparr>"
  by (simp add: read_qos_def option_bool_def option_int_def get_option_named_eq follows_lk [OF assms] lk_del_sec)

text \<open>What the settings should show of the QoS part of a request.\<close>

definition shown_qos :: "guest_request \<Rightarrow> qos_settings" where
  "shown_qos req = (case wanted_qos req of
      Some q \<Rightarrow> q | None \<Rightarrow> \<lparr>q_enabled = False, q_upload = 1024, q_download = 1024\<rparr>)"

lemma guest_qos_shown:
  assumes "follows (qos_part req) ''sqm'' (del_sec ''guest_limit_turris'' Q) Q'"
  shows "read_qos [(''sqm'', Q')] ''guest_limit_turris'' = Inr (shown_qos req)"
proof (cases "wanted_qos req")
  case None
  then show ?thesis using assms guest_qos_off by (simp add: shown_qos_def)
next
  case (Some q)
  then have "q_enabled q" by (cases req) (auto split: option.splits if_splits)
  then show ?thesis using Some assms guest_qos_on [of q] by (simp add: shown_qos_def)
qed

context uci_tool
begin

lemma sim_set_guest_network: "sim (rel view) (set_guest_network E req) (set_guest_network R req)"
  unfolding set_guest_network_def
  by (intro sim_intros sim_writes sim_del_section guest_writes_valid valid_sec_name) simp_all

end

lemma set_guest_network_outcome:
  assumes "uci_tool E nm view" "ready view s"
    and "committed (view (ext s)) ''network'' = Some N" "committed (view (ext s)) ''firewall'' = Some F"
    and "committed (view (ext s)) ''dhcp'' = Some D" "committed (view (ext s)) ''sqm'' = Some Q"
  shows "\<exists>s' N' F' D' Q'. with_uci E (set_guest_network E req) s =
      (Ret (Some (if wanted_qos req = None then ''disable'' else ''enable'')), s') \<and> services_held s' = services_held s \<and>
    committed (view (ext s')) = (committed (view (ext s)))
      (''network'' \<mapsto> N', ''firewall'' \<mapsto> F', ''dhcp'' \<mapsto> D', ''sqm'' \<mapsto> Q') \<and>
    follows (guest_writes req) ''network'' N N' \<and> follows (guest_writes req) ''firewall'' F F' \<and>
    follows (guest_writes req) ''dhcp'' D D' \<and> follows (qos_part req) ''sqm'' (del_sec ''guest_limit_turris'' Q) Q'"
proof -
  let ?t = "opened (abs_st view s)" and ?R = "ref_env nm (env_config_dir E) (env_set_order E)"
  obtain m t' cs N' F' D' Q' where run: "set_guest_network ?R req ?t =
      (Ret (Some (if wanted_qos req = None then ''disable'' else ''enable'')), t')"
    and sa: "staged_as ?t m cs t'" and cs: "cs \<subseteq> {''network'', ''firewall'', ''dhcp'', ''sqm''}"
    and m: "m = (staged (ext ?t))(''network'' \<mapsto> N', ''firewall'' \<mapsto> F', ''dhcp'' \<mapsto> D', ''sqm'' \<mapsto> Q')"
    and f: "config_after (guest_writes req) ''network'' N = Some N'" "config_after (guest_writes req) ''firewall'' F = Some F'"
      "config_after (guest_writes req) ''dhcp'' D = Some D'" "follows (qos_part req) ''sqm'' (del_sec ''guest_limit_turris'' Q) Q'"
    using exec_set_guest_network [of ?t N F D Q nm "env_config_dir E" "env_set_order E" req] assms(3-6)
    unfolding opened_staged by blast
  have "\<exists>s'. with_uci E (set_guest_network E req) s =
      (Ret (Some (if wanted_qos req = None then ''disable'' else ''enable'')), s') \<and> \<not> uci_held s' \<and>
    services_held s' = services_held s \<and> (\<forall>c\<in>set (affected s'). valid_name c) \<and> committed (view (ext s')) = m"
    using assms(2) cs m
    by (intro staged_transaction [where body' = "\<lambda>R. set_guest_network R req", OF assms(1) _ _ _ run sa]
        uci_tool.sim_set_guest_network [OF assms(1)]) (auto simp: ready_def)
  with m f(4) config_after_follows [OF f(1)] config_after_follows [OF f(2)] config_after_follows [OF f(3)]
  show ?thesis unfolding opened_staged by blast
qed

text \<open>
  Guest settings are read back as they were written. Over every uci tool a request that
  enables the network commits exactly the four configs, tells to enable or disable sqm, and
  \<^verbatim>\<open>get_settings\<close> then finds the network enabled with the requested address and limits, and
  DHCP as requested.
\<close>

lemma guest_settings_read_back:
  assumes "uci_tool E nm view" "ready view s"
    and "committed (view (ext s)) ''network'' = Some N" "committed (view (ext s)) ''firewall'' = Some F"
    and "committed (view (ext s)) ''dhcp'' = Some D" "committed (view (ext s)) ''sqm'' = Some Q"
    and "gs_ip g \<noteq> []" "gs_netmask g \<noteq> []"
  shows "\<exists>s' N' F' D' Q'. with_uci E (set_guest_network E (GuestOn g)) s =
      (Ret (Some (if wanted_qos (GuestOn g) = None then ''disable'' else ''enable'')), s') \<and> services_held s' = services_held s \<and>
    committed (view (ext s')) = (committed (view (ext s)))
      (''network'' \<mapsto> N', ''firewall'' \<mapsto> F', ''dhcp'' \<mapsto> D', ''sqm'' \<mapsto> Q') \<and>
    get_guest_enabled [(''network'', N')] [(''firewall'', F')] = Inr True \<and>
    guest_address [(''network'', N')] = Inr (Str (gs_ip g), Str (gs_netmask g)) \<and>
    dhcp_shown (gs_dhcp g) D D' \<and>
    read_qos [(''sqm'', Q')] ''guest_limit_turris'' = Inr (shown_qos (GuestOn g))"
proof -
  obtain s' N' F' D' Q' where out: "with_uci E (set_guest_network E (GuestOn g)) s =
      (Ret (Some (if wanted_qos (GuestOn g) = None then ''disable'' else ''enable'')), s')" "services_held s' = services_held s"
    "committed (view (ext s')) = (committed (view (ext s)))
      (''network'' \<mapsto> N', ''firewall'' \<mapsto> F', ''dhcp'' \<mapsto> D', ''sqm'' \<mapsto> Q')"
    and f: "follows (guest_writes (GuestOn g)) ''network'' N N'" "follows (guest_writes (GuestOn g)) ''firewall'' F F'"
      "follows (guest_writes (GuestOn g)) ''dhcp'' D D'"
      "follows (qos_part (GuestOn g)) ''sqm'' (del_sec ''guest_limit_turris'' Q) Q'"
    using set_guest_network_outcome [OF assms(1-6), of "GuestOn g"] by (elim exE conjE)
  show ?thesis
    by (intro exI conjI) (rule out guest_values_on [OF f(1-3) assms(7,8)] guest_qos_shown [OF f(4)])+
qed

definition demo_guest :: guest_settings where
  "demo_guest = \<lparr>gs_ip = ''10.111.222.1'', gs_netmask = ''255.255.255.0'',
     gs_dhcp = \<lparr>dr_enabled = True, dr_start = 10, dr_limit = 50, dr_lease_time = 0\<rparr>,
     gs_qos = Some \<lparr>q_enabled = True, q_upload = 512, q_download = 4096\<rparr>\<rparr>"

definition demo_router :: "store st" where
  "demo_router = demo_state [''network'' \<mapsto> demo_network, ''firewall'' \<mapsto> [], ''dhcp'' \<mapsto> demo_dhcp, ''sqm'' \<mapsto> []]"

lemma demo_router_sel [simp]:
  "committed (ext demo_router) ''network'' = Some demo_network" "committed (ext demo_router) ''firewall'' = Some []"
  "committed (ext demo_router) ''dhcp'' = Some demo_dhcp" "committed (ext demo_router) ''sqm'' = Some []"
  "ready (\<lambda>\<sigma>. \<sigma>) demo_router"
  by (simp_all add: demo_router_def ready_def)

text \<open>
  Switching the guest network off loses none of its settings. It is read as disabled
  afterwards, while its address, range and lease time read as before.
\<close>

lemma guest_off_keeps_settings:
  assumes "uci_tool E nm view" "ready view s"
    and "committed (view (ext s)) ''network'' = Some N" "committed (view (ext s)) ''firewall'' = Some F"
    and "committed (view (ext s)) ''dhcp'' = Some D" "committed (view (ext s)) ''sqm'' = Some Q"
  shows "\<exists>s' N' F' D' Q'. with_uci E (set_guest_network E GuestOff) s = (Ret (Some ''disable''), s') \<and>
    committed (view (ext s')) = (committed (view (ext s)))
      (''network'' \<mapsto> N', ''firewall'' \<mapsto> F', ''dhcp'' \<mapsto> D', ''sqm'' \<mapsto> Q') \<and>
    get_guest_enabled [(''network'', N')] [(''firewall'', F')] = Inr False \<and>
    guest_address [(''network'', N')] = guest_address [(''network'', N)] \<and>
    guest_dhcp_values [(''dhcp'', D')] = guest_dhcp_values [(''dhcp'', D)]"
proof -
  have "guest_address [(''network'', N')] = guest_address [(''network'', N)]"
    if "follows (guest_writes GuestOff) ''network'' N N'" for N'
    by (simp add: guest_address_def get_option_named_eq follows_lk [OF that] guest_writes_of guest_network_writes_def)
  moreover have "guest_dhcp_values [(''dhcp'', D')] = guest_dhcp_values [(''dhcp'', D)]"
    if "follows (guest_writes GuestOff) ''dhcp'' D D'" for D'
    by (simp add: guest_dhcp_values_def option_bool_def option_int_def get_option_named_eq follows_lk [OF that]
        guest_writes_of guest_dhcp_writes_def)
  moreover obtain s' N' F' D' Q' where out: "with_uci E (set_guest_network E GuestOff) s =
      (Ret (Some (if wanted_qos GuestOff = None then ''disable'' else ''enable'')), s')"
    "committed (view (ext s')) = (committed (view (ext s)))
      (''network'' \<mapsto> N', ''firewall'' \<mapsto> F', ''dhcp'' \<mapsto> D', ''sqm'' \<mapsto> Q')"
    and f: "follows (guest_writes GuestOff) ''network'' N N'" "follows (guest_writes GuestOff) ''dhcp'' D D'"
    using set_guest_network_outcome [OF assms, of GuestOff] by (elim exE conjE)
  moreover have "wanted_qos GuestOff = None" by simp
  ultimately show ?thesis
    using guest_values_off [OF f(1)] by (intro exI conjI) (rule out(2) | simp)+
qed

lemma guest_off_keeps_settings_witness:
  "\<exists>s' N' F' D' Q'. with_uci demo_env (set_guest_network demo_env GuestOff) demo_router = (Ret (Some ''disable''), s') \<and>
    committed (ext s') = (committed (ext demo_router))
      (''network'' \<mapsto> N', ''firewall'' \<mapsto> F', ''dhcp'' \<mapsto> D', ''sqm'' \<mapsto> Q') \<and>
    get_guest_enabled [(''network'', N')] [(''firewall'', F')] = Inr False \<and>
    guest_address [(''network'', N')] = guest_address [(''network'', demo_network)] \<and>
    guest_dhcp_values [(''dhcp'', D')] = guest_dhcp_values [(''dhcp'', demo_dhcp)]"
  using guest_off_keeps_settings [OF demo_tool demo_router_sel(5,1-4)] by simp

end
