(* ===== verification/NetworksUpdate.thy ===== *)
theory NetworksUpdate
  imports Guest
begin

text \<open>
  The writing side of \<^verbatim>\<open>foris_controller_backends/networks\<close>: \<^verbatim>\<open>NetworksUci.update_settings\<close>
  assigns the detected ports to the networks through bridge devices, and \<^verbatim>\<open>NetworksCmd\<close> asks
  \<^verbatim>\<open>ifstatus\<close> about one network.
\<close>

section \<open>Bridges\<close>

text \<open>\<^verbatim>\<open>decorate_guest_net\<close>.\<close>

definition net_key :: "string \<Rightarrow> string" where
  "net_key net = (if net = ''guest'' then ''guest_turris'' else net)"

definition create_bridge :: "string \<Rightarrow> string list \<Rightarrow> uval option \<Rightarrow> uwrite list" where
  "create_bridge net0 ifs mac = (let net = net_key net0 in
     [AddSection ''network'' ''device'' (''br_'' @ net),
      SetOption ''network'' (''br_'' @ net) ''name'' (''br-'' @ net),
      SetOption ''network'' (''br_'' @ net) ''type'' ''bridge'',
      ReplaceList ''network'' (''br_'' @ net) ''ports'' ifs,
      SetOption ''network'' net ''device'' (''br-'' @ net),
      DropOption ''network'' net ''bridge_empty''] @
     (case mac of Some m \<Rightarrow> if truthy m then [SetOption ''network'' (''br_'' @ net) ''macaddr'' (py_str m)] else []
      | None \<Rightarrow> []))"

definition del_bridge :: "uci_data \<Rightarrow> string \<Rightarrow> string list \<Rightarrow> uwrite list res" where
  "del_bridge data net0 devices = (let net = net_key net0 in
     bindE (get_option_named data ''network'' (''br_'' @ net) ''macaddr'' (Some (Flag False))) (\<lambda>mac.
       Inr ((if section_exists data ''network'' (''br_'' @ net) then [DelSection ''network'' (''br_'' @ net)] else []) @
         (case devices of
            d # _ \<Rightarrow> SetOption ''network'' net ''device'' d #
              (if truthy mac then [SetOption ''network'' net ''macaddr'' (py_str mac)] else [])
          | [] \<Rightarrow> [DropOption ''network'' net ''device'', SetOption ''network'' net ''bridge_empty'' (store_bool True)]))))"

definition set_bridge_ports :: "string \<Rightarrow> string list \<Rightarrow> uwrite list" where
  "set_bridge_ports net0 ifs = [ReplaceList ''network'' (''br_'' @ net_key net0) ''ports'' ifs]"

text \<open>The old syntax: ports in \<^verbatim>\<open>ifname\<close>, and a bridge type on the interface itself.\<close>

definition drop_old_syntax :: "uci_data \<Rightarrow> string \<Rightarrow> uwrite list res" where
  "drop_old_syntax data net =
     bindE (get_option_named data ''network'' net ''ifname'' (Some (Str []))) (\<lambda>ifname.
     if ifname = Str [] then Inr []
     else bindE (get_option_named data ''network'' net ''type'' (Some (Str []))) (\<lambda>type.
       Inr (DropOption ''network'' net ''ifname'' #
         (if type = Str ''bridge'' then [DropOption ''network'' net ''type''] else []))))"

text \<open>
  Anonymous devices with the name of the bridge are deleted; the MAC address kept is that of
  the last device with this name.
\<close>

fun drop_anonymous_bridges :: "string \<Rightarrow> usection list \<Rightarrow> uval option \<Rightarrow> uwrite list \<times> uval option" where
  "drop_anonymous_bridges br_name [] mac = ([], mac)"
| "drop_anonymous_bridges br_name (e # es) mac =
     (if map_of (sec_data e) ''name'' = Some (Str br_name) then
        (let (ws, mac') = drop_anonymous_bridges br_name es (map_of (sec_data e) ''macaddr'')
         in ((if startswith (sec_name e) ''cfg'' then [DelSection ''network'' (sec_name e)] else []) @ ws, mac'))
      else drop_anonymous_bridges br_name es mac)"

definition network_writes :: "uci_data \<Rightarrow> string \<Rightarrow> string list \<Rightarrow> uwrite list res" where
  "network_writes data net ifs =
     bindE (drop_old_syntax data net) (\<lambda>old.
     bindE (get_option_named data ''network'' net ''device'' (Some (Str []))) (\<lambda>device.
     bindE (if device = Str (''br-'' @ net) then
              bindE (get_sections_by_type data ''network'' ''device'') (\<lambda>devs.
                Inr (drop_anonymous_bridges (''br-'' @ net) devs None))
            else Inr ([], None)) (\<lambda>(dropped, mac).
     bindE (if length ifs > 1 \<or> net = ''lan'' then
              Inr (if section_exists data ''network'' (''br_'' @ net) then set_bridge_ports net ifs
                   else create_bridge net ifs mac)
            else del_bridge data net ifs) (\<lambda>new.
       Inr (old @ dropped @ new)))))"

section \<open>The whole update\<close>

record firewall_request =
  fr_ssh_on_wan :: bool
  fr_http_on_wan :: bool
  fr_https_on_wan :: bool

record networks_request =
  nr_wan :: "string list"
  nr_lan :: "string list"
  nr_guest :: "string list"
  nr_none :: "string list"

definition firewall_rule_writes :: "string \<Rightarrow> bool \<Rightarrow> int \<Rightarrow> uwrite list" where
  "firewall_rule_writes name enabled port =
     [AddSection ''firewall'' ''rule'' name,
      SetOption ''firewall'' name ''name'' name,
      SetOption ''firewall'' name ''enabled'' (store_bool enabled),
      SetOption ''firewall'' name ''target'' ''ACCEPT'',
      SetOption ''firewall'' name ''dest_port'' (show_int port),
      SetOption ''firewall'' name ''proto'' ''tcp'',
      SetOption ''firewall'' name ''src'' ''wan'']"

definition firewall_writes :: "firewall_request \<Rightarrow> uwrite list" where
  "firewall_writes f =
     firewall_rule_writes ''wan_ssh_turris_rule'' (fr_ssh_on_wan f) 22 @
     firewall_rule_writes ''wan_http_turris_rule'' (fr_http_on_wan f) 80 @
     firewall_rule_writes ''wan_https_turris_rule'' (fr_https_on_wan f) 443"

text \<open>The writes that follow the reading of the network config.\<close>

definition assign_ports :: "'e env \<Rightarrow> uci_data \<Rightarrow> firewall_request \<Rightarrow> networks_request \<Rightarrow> ('e st, unit) prog" where
  "assign_ports E data firewall networks =
     bindP (writes E (set_bridge_ports ''guest'' (nr_guest networks))) (\<lambda>_.
     bindP (bindP (lift (network_writes data ''wan'' (nr_wan networks))) (writes E)) (\<lambda>_.
     bindP (bindP (lift (network_writes data ''lan'' (nr_lan networks))) (writes E)) (\<lambda>_.
       writes E (firewall_writes firewall))))"

definition networks_update_body :: "'e env \<Rightarrow> firewall_request \<Rightarrow> networks_request \<Rightarrow> ('e st, unit) prog" where
  "networks_update_body E firewall networks =
     bindP (enable_guest_network E) (\<lambda>_.
     bindP (read_uci E ''network'') (\<lambda>data. assign_ports E data firewall networks))"

text \<open>The ports named by a request are those detected, no more and no fewer.\<close>

definition ports_match :: "iface list \<Rightarrow> networks_request \<Rightarrow> bool" where
  "ports_match ports networks =
     (set (map i_id (filter i_configurable ports)) =
      set (nr_wan networks @ nr_lan networks @ nr_guest networks @ nr_none networks))"

definition networks_update_settings ::
  "'e env \<Rightarrow> iface list \<Rightarrow> firewall_request \<Rightarrow> networks_request \<Rightarrow> ('e st, bool) prog" where
  "networks_update_settings E interfaces firewall networks =
     bindP (os_major E) (\<lambda>major.
     if major < 4 then ret False
     else bindP (lift (detected interfaces)) (\<lambda>(ports, _).
       if \<not> ports_match ports networks then ret False
       else bindP (block [with_uci E (networks_update_body E firewall networks),
                          try_update_passed E ''networks'', restart_network E]) (\<lambda>_. ret True)))"

section \<open>Status of a network\<close>

text \<open>
  The decoded output of \<^verbatim>\<open>ifstatus\<close>, an object: an address without the key \<^verbatim>\<open>address\<close> is
  \<open>None\<close>. Decoding the JSON text is a parameter.
\<close>

record ifstatus =
  if_ipv4 :: "string option list"
  if_ipv6 :: "string option list"
  if_up :: "bool option"
  if_device :: "string option"
  if_proto :: "string option"

record network_info =
  ni_name :: string
  ni_ipv4 :: "string list"
  ni_ipv6 :: "string list"
  ni_up :: bool
  ni_device :: string
  ni_proto :: string

definition info_of :: "string \<Rightarrow> ifstatus \<Rightarrow> network_info option" where
  "info_of network_name d =
     (if None \<in> set (if_ipv4 d @ if_ipv6 d) then None
      else Some \<lparr>ni_name = network_name, ni_ipv4 = map the (if_ipv4 d), ni_ipv6 = map the (if_ipv6 d),
        ni_up = (case if_up d of Some b \<Rightarrow> b | None \<Rightarrow> False),
        ni_device = (case if_device d of Some x \<Rightarrow> x | None \<Rightarrow> []),
        ni_proto = (case if_proto d of Some x \<Rightarrow> x | None \<Rightarrow> [])\<rparr>)"

definition get_network_info ::
  "'e env \<Rightarrow> (string \<Rightarrow> ifstatus option) \<Rightarrow> string \<Rightarrow> ('e st, network_info option) prog" where
  "get_network_info E loads network_name =
     bindP (run_command E [''/sbin/ifstatus'', network_name] None) (\<lambda>(rc, out, _).
       ret (if rc \<noteq> 0 then None
            else case loads (strip out) of None \<Rightarrow> None | Some d \<Rightarrow> info_of network_name d))"

end
