(* ===== verification/Wan.thy ===== *)
theory Wan
  imports NetworksUpdate
begin

text \<open>
  \<^verbatim>\<open>WanUci\<close> and \<^verbatim>\<open>WanStatusCommands\<close> of \<^verbatim>\<open>foris_controller_backends/wan\<close>: the IPv4 and IPv6
  settings of the uplink, its MAC address, VLAN and limits, as they are read and written.
  The connection test is an asynchronous command, see \<open>AsyncCommands\<close>.
\<close>

section \<open>Reading\<close>

text \<open>\<open>WanOther\<close>: a protocol that the settings only name.\<close>

datatype wan4_shown =
    WanDhcpShown "uval option"
  | WanStaticShown uval uval uval "string list"
  | WanPppoeShown uval uval
  | WanOther uval

text \<open>Name servers: the last two written, the last one first.\<close>

definition two_dns :: "uci_data \<Rightarrow> string \<Rightarrow> string list res" where
  "two_dns data section =
     bindE (get_option_named data ''network'' section ''dns'' (Some (Lst []))) (\<lambda>dns.
     bindE (case dns of Lst xs \<Rightarrow> Inr xs
            | Str s \<Rightarrow> Inr (filter (\<lambda>e. e \<noteq> []) (split_on CHR '' '' s)) | _ \<Rightarrow> Inl AttributeError)
       (\<lambda>xs. Inr (take 2 (rev xs))))"

definition wan4_settings :: "uci_data \<Rightarrow> wan4_shown res" where
  "wan4_settings data =
     bindE (get_option_named data ''network'' ''wan'' ''proto'' None) (\<lambda>wan_type.
     if wan_type = Str ''dhcp'' then
       bindE (get_option_named data ''network'' ''wan'' ''hostname'' (Some (Str []))) (\<lambda>hostname.
         Inr (WanDhcpShown (if truthy hostname then Some hostname else None)))
     else if wan_type = Str ''static'' then
       bindE (get_option_named data ''network'' ''wan'' ''ipaddr'' None) (\<lambda>ip.
       bindE (get_option_named data ''network'' ''wan'' ''netmask'' None) (\<lambda>nmask.
       bindE (get_option_named data ''network'' ''wan'' ''gateway'' None) (\<lambda>gateway.
       bindE (two_dns data ''wan'') (\<lambda>dns. Inr (WanStaticShown ip nmask gateway dns)))))
     else if wan_type = Str ''pppoe'' then
       bindE (get_option_named data ''network'' ''wan'' ''username'' (Some (Str []))) (\<lambda>username.
       bindE (get_option_named data ''network'' ''wan'' ''password'' (Some (Str []))) (\<lambda>password.
         Inr (WanPppoeShown username password)))
     else Inr (WanOther wan_type))"

record sixin4_shown =
  sh_prefix :: uval
  sh_mtu :: int
  sh_server :: uval
  sh_address :: uval
  sh_dynamic :: "(uval \<times> uval \<times> uval) option"

datatype wan6_shown =
    Wan6StaticShown uval uval uval "string list"
  | Wan6DhcpShown uval
  | Wan6to4Shown uval
  | Wan6in4Shown sixin4_shown
  | Wan6Other uval

definition wan6_option :: "uci_data \<Rightarrow> string \<Rightarrow> uval res" where
  "wan6_option data p = get_option_named data ''network'' ''wan6'' p (Some (Str []))"

definition sixin4_settings :: "uci_data \<Rightarrow> sixin4_shown res" where
  "sixin4_settings data =
     bindE (wan6_option data ''ip6prefix'') (\<lambda>prefix.
     bindE (bindE (get_option_named data ''network'' ''wan6'' ''mtu'' (Some (Str ''1480''))) uval_int) (\<lambda>mtu.
     bindE (wan6_option data ''peeraddr'') (\<lambda>server.
     bindE (wan6_option data ''ip6addr'') (\<lambda>address.
     bindE (wan6_option data ''tunnelid'') (\<lambda>tunnel_id.
     bindE (wan6_option data ''username'') (\<lambda>username.
     bindE (wan6_option data ''password'') (\<lambda>password.
       Inr \<lparr>sh_prefix = unwrap_list prefix, sh_mtu = mtu, sh_server = server, sh_address = unwrap_list address,
         sh_dynamic = (if truthy tunnel_id \<and> truthy username \<and> truthy password
           then Some (tunnel_id, username, password) else None)\<rparr>)))))))"

definition wan6_settings :: "uci_data \<Rightarrow> wan6_shown res" where
  "wan6_settings data =
     bindE (get_option_named data ''network'' ''wan6'' ''proto'' (Some (Str ''dhcpv6''))) (\<lambda>wan6_type.
     if wan6_type = Str ''static'' then
       bindE (wan6_option data ''ip6addr'') (\<lambda>ip.
       bindE (wan6_option data ''ip6prefix'') (\<lambda>prefix.
       bindE (wan6_option data ''ip6gw'') (\<lambda>gateway.
       bindE (two_dns data ''wan6'') (\<lambda>dns.
         Inr (Wan6StaticShown ip (unwrap_list prefix) gateway dns)))))
     else if wan6_type = Str ''dhcpv6'' then
       bindE (wan6_option data ''clientid'') (\<lambda>duid. Inr (Wan6DhcpShown duid))
     else if wan6_type = Str ''6to4'' then
       bindE (wan6_option data ''ipaddr'') (\<lambda>ip. Inr (Wan6to4Shown ip))
     else if wan6_type = Str ''6in4'' then
       bindE (sixin4_settings data) (\<lambda>s. Inr (Wan6in4Shown s))
     else Inr (Wan6Other wan6_type))"

definition fetch_mac_address :: "uci_data \<Rightarrow> uval res" where
  "fetch_mac_address network_data =
     (if section_exists network_data ''network'' ''dev_wan''
      then get_option_named network_data ''network'' ''dev_wan'' ''macaddr'' (Some (Str []))
      else get_option_named network_data ''network'' ''wan'' ''macaddr'' (Some (Str [])))"

text \<open>\<^verbatim>\<open>wan[0]["macaddr"]\<close>: no interface is survived, an interface without address is not.\<close>

definition detected_mac :: "iface list \<Rightarrow> string res" where
  "detected_mac wan = (case wan of
      [] \<Rightarrow> Inr []
    | v # _ \<Rightarrow> (case i_macaddr v of None \<Rightarrow> Inl (KeyError ''macaddr'') | Some m \<Rightarrow> Inr m))"

definition vlan_settings :: "uci_data \<Rightarrow> int option res" where
  "vlan_settings network_data =
     bindE (get_option_named network_data ''network'' ''wan'' ''device'' (Some (Str []))) (\<lambda>device.
     case device of
       Str d \<Rightarrow> if CHR ''.'' \<in> set d then bindE (int_of (last (split_on CHR ''.'' d))) (\<lambda>n. Inr (Some n))
                else Inr None
     | Lst ds \<Rightarrow> if ''.'' \<in> set ds then Inl AttributeError else Inr None
     | _ \<Rightarrow> Inl TypeError)"

definition wan_qos :: "uci_data \<Rightarrow> qos_settings res" where
  "wan_qos sqm_data =
     bindE (option_bool sqm_data ''sqm'' ''wan_limit_turris'' ''enabled'' ''0'') (\<lambda>enabled.
     bindE (option_int sqm_data ''sqm'' ''wan_limit_turris'' ''upload'' 1024) (\<lambda>upload.
     bindE (option_int sqm_data ''sqm'' ''wan_limit_turris'' ''download'' 1024) (\<lambda>download.
       Inr \<lparr>q_enabled = enabled, q_upload = upload, q_download = download\<rparr>)))"

record wan_state =
  wa_wan :: wan4_shown
  wa_wan6 :: wan6_shown
  wa_mac :: string
  wa_custom_mac :: "uval option"
  wa_interface_count :: nat
  wa_interface_up_count :: nat
  wa_qos :: qos_settings
  wa_vlan :: "int option"

definition wan_get_settings :: "'e env \<Rightarrow> iface list \<Rightarrow> iface list res \<Rightarrow> ('e st, wan_state) prog" where
  "wan_get_settings E interfaces hw =
     bindP (with_uci E
       (bindP (read_uci E ''network'') (\<lambda>network_data.
        bindP (read_uci E ''sqm'') (\<lambda>sqm_data.
        bindP (read_wireless E) (\<lambda>wireless_data. ret (network_data, sqm_data, wireless_data))))))
       (\<lambda>(network_data, sqm_data, wireless_data).
     bindP (lift (wan4_settings network_data)) (\<lambda>wan.
     bindP (lift (wan6_settings network_data)) (\<lambda>wan6.
     bindP (lift (fetch_mac_address network_data)) (\<lambda>custom_mac.
     bindP (networks_get_settings E interfaces) (\<lambda>networks.
     bindP (lift (detected_mac (gr_wan (ns_groups networks)))) (\<lambda>mac.
     bindP (lift (vlan_settings network_data)) (\<lambda>vlan.
     bindP (lift (wan_qos sqm_data)) (\<lambda>qos.
     bindP (lift (get_interface_count hw network_data wireless_data ''wan'' False)) (\<lambda>count.
     bindP (lift (get_interface_count hw network_data wireless_data ''wan'' True)) (\<lambda>up_count.
       ret \<lparr>wa_wan = wan, wa_wan6 = wan6, wa_mac = mac,
         wa_custom_mac = (if truthy custom_mac then Some custom_mac else None),
         wa_interface_count = count, wa_interface_up_count = up_count, wa_qos = qos, wa_vlan = vlan\<rparr>))))))))))"

section \<open>Writing\<close>

datatype wan4_request = WanNone | WanDhcp "string option" | WanStatic static_request | WanPppoe string string

record wan6_static =
  w6_ip :: string
  w6_network :: string
  w6_gateway :: string
  w6_dns1 :: "string option"
  w6_dns2 :: "string option"

record sixin4_request =
  r6_mtu :: int
  r6_server :: string
  r6_prefix :: string
  r6_address :: "string option"
  r6_dynamic :: "(string \<times> string \<times> string) option"

datatype wan6_request =
    Wan6None
  | Wan6Static wan6_static
  | Wan6Dhcp string
  | Wan6to4 string
  | Wan6in4 sixin4_request

fun wan_type_of :: "wan4_request \<Rightarrow> string" where
  "wan_type_of WanNone = ''none''"
| "wan_type_of (WanDhcp _) = ''dhcp''"
| "wan_type_of (WanStatic _) = ''static''"
| "wan_type_of (WanPppoe _ _) = ''pppoe''"

fun wan6_type_of :: "wan6_request \<Rightarrow> string" where
  "wan6_type_of Wan6None = ''none''"
| "wan6_type_of (Wan6Static _) = ''static''"
| "wan6_type_of (Wan6Dhcp _) = ''dhcpv6''"
| "wan6_type_of (Wan6to4 _) = ''6to4''"
| "wan6_type_of (Wan6in4 _) = ''6in4''"

text \<open>Set an option, or remove it when the value is empty.\<close>

definition set_or_drop :: "string \<Rightarrow> string \<Rightarrow> string \<Rightarrow> string \<Rightarrow> uwrite list" where
  "set_or_drop c s p v = [if v \<noteq> [] then SetOption c s p v else DropOption c s p]"

definition wan4_writes :: "wan4_request \<Rightarrow> uwrite list" where
  "wan4_writes req =
     [AddSection ''network'' ''interface'' ''wan'',
      SetOption ''network'' ''wan'' ''proto'' (wan_type_of req)] @
     (case req of
        WanNone \<Rightarrow> []
      | WanDhcp (Some hostname) \<Rightarrow> [SetOption ''network'' ''wan'' ''hostname'' hostname]
      | WanDhcp None \<Rightarrow> [DropOption ''network'' ''wan'' ''hostname'']
      | WanStatic r \<Rightarrow>
          [SetOption ''network'' ''wan'' ''ipaddr'' (sr_ip r),
           SetOption ''network'' ''wan'' ''netmask'' (sr_netmask r),
           SetOption ''network'' ''wan'' ''gateway'' (sr_gateway r),
           ReplaceList ''network'' ''wan'' ''dns'' (given [sr_dns2 r, sr_dns1 r])]
      | WanPppoe username password \<Rightarrow>
          [SetOption ''network'' ''wan'' ''username'' username,
           SetOption ''network'' ''wan'' ''password'' password])"

definition drop_wan6 :: "string list \<Rightarrow> uwrite list" where
  "drop_wan6 ps = map (\<lambda>p. DropOption ''network'' ''wan6'' p) ps"

definition tunnel_rule_off :: "string \<Rightarrow> uwrite list" where
  "tunnel_rule_off name =
     [AddSection ''firewall'' ''rule'' name, SetOption ''firewall'' name ''enabled'' (store_bool False)]"

definition as_list :: "string \<Rightarrow> string list" where
  "as_list s = map py_str (parse_to_list (Str s))"

definition wan6_static_writes :: "wan6_static \<Rightarrow> uwrite list" where
  "wan6_static_writes r =
     [SetOption ''network'' ''wan6'' ''ip6addr'' (w6_ip r),
      AddToList ''network'' ''wan6'' ''ip6prefix'' (as_list (w6_network r)),
      SetOption ''network'' ''wan6'' ''ip6gw'' (w6_gateway r),
      ReplaceList ''network'' ''wan6'' ''dns'' (given [w6_dns2 r, w6_dns1 r])]"

definition wan6_6to4_writes :: "string \<Rightarrow> uwrite list" where
  "wan6_6to4_writes mapped_ipv4 =
     SetOption ''network'' ''lan'' ''ip6assign'' ''60'' #
     set_or_drop ''network'' ''wan6'' ''ipaddr'' mapped_ipv4 @
     [AddSection ''firewall'' ''rule'' ''turris_wan_6to4_rule'',
      SetOption ''firewall'' ''turris_wan_6to4_rule'' ''enabled'' (store_bool True),
      SetOption ''firewall'' ''turris_wan_6to4_rule'' ''proto'' ''ipv6'',
      SetOption ''firewall'' ''turris_wan_6to4_rule'' ''src_ip'' ''192.88.99.1'',
      SetOption ''firewall'' ''turris_wan_6to4_rule'' ''target'' ''ACCEPT'',
      SetOption ''firewall'' ''turris_wan_6to4_rule'' ''src'' ''wan'']"

definition wan6_6in4_writes :: "sixin4_request \<Rightarrow> uwrite list" where
  "wan6_6in4_writes r =
     [SetOption ''network'' ''wan6'' ''mtu'' (show_int (r6_mtu r)),
      SetOption ''network'' ''wan6'' ''peeraddr'' (r6_server r),
      ReplaceList ''network'' ''wan6'' ''ip6addr'' (as_list (case r6_address r of Some a \<Rightarrow> a | None \<Rightarrow> []))] @
     (if r6_prefix r \<noteq> [] then [AddToList ''network'' ''wan6'' ''ip6prefix'' (as_list (r6_prefix r))]
      else drop_wan6 [''ip6prefix'']) @
     (case r6_dynamic r of
        Some (tunnel_id, username, password) \<Rightarrow>
          [SetOption ''network'' ''wan6'' ''tunnelid'' tunnel_id,
           SetOption ''network'' ''wan6'' ''username'' username,
           SetOption ''network'' ''wan6'' ''password'' password]
      | None \<Rightarrow> drop_wan6 [''tunnelid'', ''username'', ''password'']) @
     [AddSection ''firewall'' ''rule'' ''turris_wan_6in4_rule'',
      SetOption ''firewall'' ''turris_wan_6in4_rule'' ''enabled'' (store_bool True),
      SetOption ''firewall'' ''turris_wan_6in4_rule'' ''family'' ''ipv4'',
      SetOption ''firewall'' ''turris_wan_6in4_rule'' ''proto'' ''41'',
      SetOption ''firewall'' ''turris_wan_6in4_rule'' ''target'' ''ACCEPT'',
      SetOption ''firewall'' ''turris_wan_6in4_rule'' ''src'' ''wan'',
      SetOption ''firewall'' ''turris_wan_6in4_rule'' ''src_ip'' (r6_server r)]"

definition wan6_writes :: "wan6_request \<Rightarrow> uwrite list" where
  "wan6_writes req =
     [AddSection ''network'' ''interface'' ''wan6'',
      SetOption ''network'' ''wan6'' ''device'' ''@wan'',
      SetOption ''network'' ''wan6'' ''proto'' (wan6_type_of req)] @
     drop_wan6 [''ip6prefix''] @
     (if wan6_type_of req \<noteq> ''6in4''
      then drop_wan6 [''tunnelid'', ''username'', ''password'', ''peeraddr'', ''mtu'', ''ip6addr''] @
        tunnel_rule_off ''turris_wan_6in4_rule''
      else []) @
     (if wan6_type_of req \<noteq> ''6to4'' then tunnel_rule_off ''turris_wan_6to4_rule'' else []) @
     (case req of
        Wan6Static r \<Rightarrow> wan6_static_writes r
      | Wan6Dhcp duid \<Rightarrow> set_or_drop ''network'' ''wan6'' ''clientid'' duid
      | Wan6to4 mapped_ipv4 \<Rightarrow> wan6_6to4_writes mapped_ipv4
      | Wan6in4 r \<Rightarrow> wan6_6in4_writes r
      | Wan6None \<Rightarrow> drop_wan6 [''ip6prefix'', ''ip6addr'', ''ip6gw'']) @
     [SetOption ''network'' ''wan'' ''ipv6'' (store_bool (req \<noteq> Wan6None)),
      SetOption ''resolver'' ''common'' ''net_ipv6'' (store_bool (req \<noteq> Wan6None))]"

definition migrate_writes :: "uci_data \<Rightarrow> uwrite list res" where
  "migrate_writes network_data =
     bindE (get_option_named network_data ''network'' ''wan'' ''ifname'' (Some (Str []))) (\<lambda>ifname.
     if \<not> truthy ifname then Inr []
     else bindE (get_option_named network_data ''network'' ''wan'' ''macaddr'' (Some (Str []))) (\<lambda>macaddr.
       Inr ([DropOption ''network'' ''wan'' ''ifname'',
             SetOption ''network'' ''wan'' ''device'' (py_str ifname),
             AddSection ''network'' ''device'' ''dev_wan'',
             SetOption ''network'' ''dev_wan'' ''name'' (py_str ifname)] @
            (if truthy macaddr then
               [DropOption ''network'' ''wan'' ''macaddr'',
                SetOption ''network'' ''dev_wan'' ''macaddr'' (py_str macaddr)]
             else []))))"

definition migrate_old_config :: "'e env \<Rightarrow> ('e st, unit) prog" where
  "migrate_old_config E =
     bindP (read_uci E ''network'') (\<lambda>network_data. bindP (lift (migrate_writes network_data)) (writes E))"

text \<open>\<open>Some None\<close> clears the VLAN; a failure is only logged.\<close>

definition vlan_writes :: "string \<Rightarrow> int option \<Rightarrow> uwrite list" where
  "vlan_writes wan_device vlan =
     (let device = hd (split_once CHR ''.'' wan_device) @ (case vlan of Some n \<Rightarrow> ''.'' @ show_int n | None \<Rightarrow> [])
      in [SetOption ''network'' ''wan'' ''device'' device, SetOption ''network'' ''dev_wan'' ''name'' device])"

definition update_vlan_id :: "'e env \<Rightarrow> uval \<Rightarrow> int option \<Rightarrow> ('e st, unit) prog" where
  "update_vlan_id E wan_device vlan =
     bindP (lift (str_of wan_device)) (\<lambda>d.
       tryP (writes E (vlan_writes d vlan)) is_uci_exception (\<lambda>_. ret ()))"

definition device_writes :: "uval \<Rightarrow> string option \<Rightarrow> uwrite list" where
  "device_writes wan_device custom_mac =
     [AddSection ''network'' ''device'' ''dev_wan'',
      SetOption ''network'' ''dev_wan'' ''name'' (py_str wan_device),
      (case custom_mac of Some m \<Rightarrow> SetOption ''network'' ''dev_wan'' ''macaddr'' m
        | None \<Rightarrow> DropOption ''network'' ''dev_wan'' ''macaddr'')]"

definition wan_qos_writes :: "uval \<Rightarrow> qos_settings \<Rightarrow> uwrite list" where
  "wan_qos_writes wan_device q =
     (if q_enabled q then
        [AddSection ''sqm'' ''queue'' ''wan_limit_turris'',
         SetOption ''sqm'' ''wan_limit_turris'' ''interface'' (py_str wan_device),
         SetOption ''sqm'' ''wan_limit_turris'' ''download'' (show_int (q_download q)),
         SetOption ''sqm'' ''wan_limit_turris'' ''upload'' (show_int (q_upload q)),
         SetOption ''sqm'' ''wan_limit_turris'' ''script'' ''piece_of_cake.qos'']
      else []) @
     [SetOption ''sqm'' ''wan_limit_turris'' ''enabled'' (store_bool (q_enabled q))]"

record wan_request =
  wr_wan :: wan4_request
  wr_wan6 :: wan6_request
  wr_custom_mac :: "string option"
  wr_qos :: "qos_settings option"
  wr_vlan :: "int option option"

definition wan_update_steps :: "'e env \<Rightarrow> wan_request \<Rightarrow> ('e st, unit) prog" where
  "wan_update_steps E req =
     bindP (migrate_old_config E) (\<lambda>_.
     bindP (writes E (wan4_writes (wr_wan req) @ wan6_writes (wr_wan6 req))) (\<lambda>_.
     bindP (read_uci E ''network'') (\<lambda>network_data.
     bindP (lift (get_option_named network_data ''network'' ''wan'' ''device'' None)) (\<lambda>wan_device.
     bindP (writes E (device_writes wan_device (wr_custom_mac req))) (\<lambda>_.
     bindP (case wr_vlan req of None \<Rightarrow> ret () | Some vlan \<Rightarrow> update_vlan_id E wan_device vlan) (\<lambda>_.
       case wr_qos req of None \<Rightarrow> ret ()
       | Some q \<Rightarrow> tryP (writes E (wan_qos_writes wan_device q)) is_uci_exception (\<lambda>_. ret ())))))))"

text \<open>The uplink becomes the wired one.\<close>

definition wan_update_body :: "'e env \<Rightarrow> wan_request \<Rightarrow> ('e st, unit) prog" where
  "wan_update_body E req =
     bindP (wan_update_steps E req) (\<lambda>_. set_wan_firewall_zone_interfaces E [''wan'', ''wan6''])"

definition wan_update_settings :: "'e env \<Rightarrow> wan_request \<Rightarrow> ('e st, bool) prog" where
  "wan_update_settings E req =
     bindP (block [with_uci E (wan_update_body E req), try_update_passed E ''wan'', restart_network E])
       (\<lambda>_. ret True)"

definition update_unconfigured_wan_to_default :: "'e env \<Rightarrow> ('e st, bool) prog" where
  "update_unconfigured_wan_to_default E =
     bindP (with_uci E (bindP (read_uci E ''network'') (\<lambda>data.
       lift (get_option_named data ''network'' ''wan'' ''proto'' None)))) (\<lambda>wan_proto.
     if wan_proto = Str ''none'' then
       bindP (wan_update_settings E \<lparr>wr_wan = WanDhcp None, wr_wan6 = Wan6Dhcp [], wr_custom_mac = None,
         wr_qos = None, wr_vlan = None\<rparr>) (\<lambda>_. ret True)
     else ret False)"

section \<open>Status\<close>

record wan_status =
  wt_info :: network_info
  wt_duid :: string

definition wan_get_status :: "'e env \<Rightarrow> (string \<Rightarrow> ifstatus option) \<Rightarrow> ('e st, wan_status) prog" where
  "wan_get_status E loads =
     bindP (get_network_info E loads ''wan'') (\<lambda>info. case info of
       None \<Rightarrow> raise (GenericError ''Failed to obtain network info'')
     | Some i \<Rightarrow>
         bindP (if ni_device i = [] then ret []
                else tryP (bindP (file_content E (''/var/run/odhcp6c-duid.'' @ ni_device i)) (\<lambda>c. ret (strip c)))
                  is_os_error (\<lambda>_. ret []))
           (\<lambda>duid. ret \<lparr>wt_info = i, wt_duid = duid\<rparr>))"

end
