(* ===== verification/WanRoundtrip.thy ===== *)
theory WanRoundtrip
  imports Wan
begin

text \<open>
  The settings of the uplink are read back as they were written, for every kind of IPv4 and
  IPv6 request: \<^verbatim>\<open>WanUci.update_settings\<close> followed by the lookups of \<^verbatim>\<open>get_settings\<close>.
\<close>

section \<open>What a request should show\<close>

fun wan4_valid :: "wan4_request \<Rightarrow> bool" where
  "wan4_valid (WanStatic r) = (sr_ip r \<noteq> [] \<and> sr_netmask r \<noteq> [] \<and> sr_gateway r \<noteq> [])"
| "wan4_valid (WanDhcp (Some hostname)) = (hostname \<noteq> [])"
| "wan4_valid _ = True"

fun shown4 :: "wan4_request \<Rightarrow> wan4_shown" where
  "shown4 WanNone = WanOther (Str ''none'')"
| "shown4 (WanDhcp hostname) = WanDhcpShown (map_option Str hostname)"
| "shown4 (WanStatic r) =
     WanStaticShown (Str (sr_ip r)) (Str (sr_netmask r)) (Str (sr_gateway r)) (given [sr_dns1 r, sr_dns2 r])"
| "shown4 (WanPppoe username password) = WanPppoeShown (Str username) (Str password)"

fun wan6_valid :: "wan6_request \<Rightarrow> bool" where
  "wan6_valid (Wan6in4 r) = (case r6_dynamic r of
      Some (tunnel_id, username, password) \<Rightarrow> tunnel_id \<noteq> [] \<and> username \<noteq> [] \<and> password \<noteq> [] | None \<Rightarrow> True)"
| "wan6_valid _ = True"

definition sixin4_of :: "sixin4_request \<Rightarrow> sixin4_shown" where
  "sixin4_of r = \<lparr>sh_prefix = Str (r6_prefix r), sh_mtu = r6_mtu r, sh_server = Str (r6_server r),
     sh_address = Str (case r6_address r of Some a \<Rightarrow> a | None \<Rightarrow> []),
     sh_dynamic = map_option (\<lambda>(t, u, p). (Str t, Str u, Str p)) (r6_dynamic r)\<rparr>"

fun shown6 :: "wan6_request \<Rightarrow> wan6_shown" where
  "shown6 Wan6None = Wan6Other (Str ''none'')"
| "shown6 (Wan6Static r) = Wan6StaticShown (Str (w6_ip r)) (Str (w6_network r)) (Str (w6_gateway r))
     (given [w6_dns1 r, w6_dns2 r])"
| "shown6 (Wan6Dhcp duid) = Wan6DhcpShown (Str duid)"
| "shown6 (Wan6to4 ip) = Wan6to4Shown (Str ip)"
| "shown6 (Wan6in4 r) = Wan6in4Shown (sixin4_of r)"

section \<open>Names and sections of the writes\<close>

lemma wan_names [simp]:
  "valid_name ''wan''" "valid_name ''wan6''" "valid_name ''hostname''" "valid_name ''gateway''"
  "valid_name ''username''" "valid_name ''password''" "valid_name ''ip6prefix''" "valid_name ''ip6addr''"
  "valid_name ''ip6gw''" "valid_name ''clientid''" "valid_name ''tunnelid''" "valid_name ''peeraddr''" "valid_name ''mtu''"
  "valid_name ''turris_wan_6in4_rule''" "valid_name ''turris_wan_6to4_rule''" "valid_name ''ipv6''"
  "valid_name ''resolver''" "valid_name ''common''" "valid_name ''net_ipv6''" "valid_name ''dev_wan''"
  "valid_name ''macaddr''" "valid_name ''ifname''" "valid_name ''wan_limit_turris''"
  by (simp_all add: valid_name_def name_char_def)

lemmas wan_write_defs = wan4_writes_def wan6_writes_def drop_wan6_def tunnel_rule_off_def wan6_static_writes_def
  wan6_6to4_writes_def wan6_6in4_writes_def set_or_drop_def

definition wan_writes :: "wan_request \<Rightarrow> uwrite list" where
  "wan_writes req = wan4_writes (wr_wan req) @ wan6_writes (wr_wan6 req)"

lemma wan4_writes_valid: "list_all write_names_valid (wan4_writes req)"
  by (cases req rule: wan4_valid.cases) (simp_all add: wan4_writes_def)

lemma drop_wan6_valid: "list_all write_names_valid (drop_wan6 ps) = list_all valid_name ps"
  by (simp add: drop_wan6_def list_all_iff)

lemma wan6_parts_valid:
  "list_all write_names_valid (wan6_static_writes r)" "list_all write_names_valid (wan6_6to4_writes ip)"
  by (simp_all add: wan6_static_writes_def wan6_6to4_writes_def set_or_drop_def)

lemma wan6_6in4_valid: "list_all write_names_valid (wan6_6in4_writes r)"
  by (cases "r6_dynamic r") (auto simp: wan6_6in4_writes_def drop_wan6_valid)

lemma tunnel_rule_off_valid: "list_all write_names_valid (tunnel_rule_off s) = valid_name s"
  by (simp add: tunnel_rule_off_def)

lemma wan6_writes_valid: "list_all write_names_valid (wan6_writes req)"
  by (cases req) (simp_all add: wan6_writes_def wan6_parts_valid wan6_6in4_valid tunnel_rule_off_valid
    drop_wan6_valid set_or_drop_def)

lemma wan_writes_valid: "list_all write_names_valid (wan_writes req)"
  by (simp add: wan_writes_def wan4_writes_valid wan6_writes_valid)

lemma sections_known_mono:
  "sections_known ws known \<Longrightarrow> \<forall>c s. known c s \<longrightarrow> known' c s \<Longrightarrow> sections_known ws known'"
proof (induction ws known arbitrary: known' rule: sections_known.induct)
  case (2 c t s ws known)
  show ?case
    unfolding sections_known.simps by (rule "2.IH") (use 2 in auto)
next
  case (6 c s ws known)
  have "sections_known ws (\<lambda>c' s'. \<not> (c' = c \<and> s' = s) \<and> known' c' s')"
    by (rule "6.IH") (use 6 in auto)
  with 6 show ?case by simp
qed auto

lemma sections_known_append_known:
  "sections_known ws known \<Longrightarrow> \<forall>c s. DelSection c s \<notin> set ws \<Longrightarrow> sections_known vs known \<Longrightarrow>
    sections_known (ws @ vs) known"
proof (induction ws known rule: sections_known.induct)
  case (2 c t s ws known)
  have "sections_known vs (\<lambda>c' s'. (c' = c \<and> s' = s) \<or> known c' s')"
    by (rule sections_known_mono [OF "2.prems"(3)]) simp
  with 2 show ?case by simp
next
  case (6 c s ws known)
  then show ?case by force
qed auto

definition wan_known :: "string \<Rightarrow> string \<Rightarrow> bool" where
  "wan_known c s \<longleftrightarrow> (c = ''resolver'' \<and> s = ''common'') \<or> (c = ''network'' \<and> s = ''lan'') \<or> (c = ''network'' \<and> s = ''wan'')"

lemma wan4_writes_known: "sections_known (wan4_writes req) wan_known"
  by (cases req rule: wan4_valid.cases) (simp_all add: wan4_writes_def)

lemma wan6_writes_known: "sections_known (wan6_writes req) wan_known"
  by (cases req) (auto simp: wan_write_defs wan_known_def split: option.split)

lemma wan4_no_delete: "DelSection c s \<notin> set (wan4_writes req)"
  by (cases req rule: wan4_valid.cases) (simp_all add: wan4_writes_def)

lemma wan_writes_known: "sections_known (wan_writes req) wan_known"
  unfolding wan_writes_def
  by (intro sections_known_append_known allI wan4_writes_known wan4_no_delete wan6_writes_known)

lemma wan_writes_configs: "set (map config_of (wan_writes req)) = {''network'', ''firewall'', ''resolver''}"
proof -
  have "set (map config_of (wan4_writes r)) = {''network''}" for r
    by (cases r rule: wan4_valid.cases) (simp_all add: wan4_writes_def)
  moreover have "set (map config_of (wan6_writes r)) = {''network'', ''firewall'', ''resolver''}" for r
    by (cases r) (auto simp: wan_write_defs split: option.split)
  ultimately show ?thesis by (auto simp: wan_writes_def)
qed

lemma wan_spares_zones:
  "''turris_wan_6in4_rule'' \<notin> ns \<Longrightarrow> ''turris_wan_6to4_rule'' \<notin> ns \<Longrightarrow>
    list_all (\<lambda>w. config_of w = ''firewall'' \<longrightarrow> spares ''zone'' ns w) (wan_writes req)"
proof -
  assume ns: "''turris_wan_6in4_rule'' \<notin> ns" "''turris_wan_6to4_rule'' \<notin> ns"
  have "list_all (\<lambda>w. config_of w = ''firewall'' \<longrightarrow> spares ''zone'' ns w) (wan4_writes r)" for r
    by (cases r rule: wan4_valid.cases) (simp_all add: wan4_writes_def)
  moreover have "list_all (\<lambda>w. config_of w = ''firewall'' \<longrightarrow> spares ''zone'' ns w) (wan6_writes r)" for r
    using ns by (cases r) (auto simp: wan_write_defs split: option.split)
  ultimately show ?thesis by (simp add: wan_writes_def)
qed

section \<open>Lookups after the writes\<close>

lemma wan4_leaves_wan6: "value_after (wan4_writes r) c ''wan6'' p v = v"
  by (cases r rule: wan4_valid.cases) (simp_all add: wan4_writes_def)

lemma drop_wan6_wan: "value_after (drop_wan6 ps) c ''wan'' p v = v"
  by (induction ps) (simp_all add: drop_wan6_def)

lemma drop_wan6_value: "value_after (drop_wan6 ps) ''network'' ''wan6'' p v = (if p \<in> set ps then None else v)"
  by (induction ps arbitrary: v) (auto simp: drop_wan6_def)

lemma value_after_apart:
  "\<forall>w\<in>set ws. \<forall>old. written w c s p old = old \<Longrightarrow> value_after ws c s p v = v"
  by (induction ws) auto

lemma tunnel_rule_off_value: "s \<noteq> name \<Longrightarrow> value_after (tunnel_rule_off name) c s p v = v"
  by (simp add: tunnel_rule_off_def)

lemma wan6_parts_wan:
  "value_after (wan6_static_writes r) c ''wan'' p v = v" "value_after (wan6_6to4_writes ip) c ''wan'' p v = v"
  by (simp_all add: wan6_static_writes_def wan6_6to4_writes_def set_or_drop_def)

lemma wan6_6in4_wan: "value_after (wan6_6in4_writes r) c ''wan'' p v = v"
  by (auto simp: wan6_6in4_writes_def value_after_append drop_wan6_wan split: option.split)

lemma wan6_leaves_wan: "p \<noteq> ''ipv6'' \<Longrightarrow> value_after (wan6_writes r) c ''wan'' p v = v"
  by (cases r) (simp_all add: wan6_writes_def value_after_append drop_wan6_wan tunnel_rule_off_value
    wan6_parts_wan wan6_6in4_wan set_or_drop_def)

lemma wan_value_wan:
  "p \<noteq> ''ipv6'' \<Longrightarrow> value_after (wan_writes req) ''network'' ''wan'' p v =
    value_after (wan4_writes (wr_wan req)) ''network'' ''wan'' p v"
  by (simp add: wan_writes_def value_after_append wan6_leaves_wan)

lemma wan_value_wan6:
  "value_after (wan_writes req) ''network'' ''wan6'' p v = value_after (wan6_writes (wr_wan6 req)) ''network'' ''wan6'' p v"
  by (simp add: wan_writes_def value_after_append wan4_leaves_wan6)

lemma two_dns_written:
  "lk N' section ''dns'' = (if given [d2, d1] = [] then None else Some (Lst (given [d2, d1]))) \<Longrightarrow>
    two_dns [(''network'', N')] section = Inr (given [d1, d2])"
  by (cases d1; cases d2) (simp_all add: two_dns_def get_option_named_eq)

lemma wan4_shown_as:
  assumes "\<And>p. p \<noteq> ''ipv6'' \<Longrightarrow> p \<noteq> ''device'' \<Longrightarrow> lk N' ''wan'' p = value_after (wan4_writes r) ''network'' ''wan'' p (lk N ''wan'' p)"
    and "wan4_valid r"
  shows "wan4_settings [(''network'', N')] = Inr (shown4 r)"
proof (cases r)
  case (WanStatic q)
  have "two_dns [(''network'', N')] ''wan'' = Inr (given [sr_dns1 q, sr_dns2 q])"
    by (rule two_dns_written) (simp add: assms(1) WanStatic wan4_writes_def)
  then show ?thesis
    using assms(2) WanStatic by (simp add: wan4_settings_def get_option_named_eq assms(1) wan4_writes_def)
next
  case (WanDhcp hostname)
  then show ?thesis
    using assms(2)
    by (cases hostname) (simp_all add: wan4_settings_def get_option_named_eq assms(1) wan4_writes_def)
next
  case WanNone
  then show ?thesis by (simp add: wan4_settings_def get_option_named_eq assms(1) wan4_writes_def)
next
  case (WanPppoe username password)
  then show ?thesis
    by (cases "username = []"; cases "password = []")
       (simp_all add: wan4_settings_def get_option_named_eq assms(1) wan4_writes_def)
qed

lemma tunnel_rules_wan6 [simp]:
  "value_after (tunnel_rule_off ''turris_wan_6in4_rule'') c ''wan6'' p v = v"
  "value_after (tunnel_rule_off ''turris_wan_6to4_rule'') c ''wan6'' p v = v"
  by (simp_all add: tunnel_rule_off_value)

definition wan6_common :: "wan6_request \<Rightarrow> string \<Rightarrow> uval option \<Rightarrow> uval option" where
  "wan6_common r p v = (if p = ''device'' then Some (Str ''@wan'') else if p = ''proto'' then Some (Str (wan6_type_of r))
     else if p = ''ip6prefix'' then None
     else if p \<in> {''tunnelid'', ''username'', ''password'', ''peeraddr'', ''mtu'', ''ip6addr''} \<and> wan6_type_of r \<noteq> ''6in4''
       then None else v)"

definition wan6_own :: "wan6_request \<Rightarrow> uwrite list" where
  "wan6_own req = (case req of
        Wan6Static r \<Rightarrow> wan6_static_writes r
      | Wan6Dhcp duid \<Rightarrow> set_or_drop ''network'' ''wan6'' ''clientid'' duid
      | Wan6to4 mapped_ipv4 \<Rightarrow> wan6_6to4_writes mapped_ipv4
      | Wan6in4 r \<Rightarrow> wan6_6in4_writes r
      | Wan6None \<Rightarrow> drop_wan6 [''ip6prefix'', ''ip6addr'', ''ip6gw''])"

lemma wan6_type_nonempty: "wan6_type_of r \<noteq> []"
  by (cases r) simp_all

lemma wan6_value:
  "value_after (wan6_writes r) ''network'' ''wan6'' p v = value_after (wan6_own r) ''network'' ''wan6'' p (wan6_common r p v)"
  unfolding wan6_writes_def wan6_own_def [symmetric] wan6_common_def
  by (simp add: value_after_append drop_wan6_value wan6_type_nonempty)

lemma wan6_shown_others:
  assumes lk: "\<And>p. lk N' ''wan6'' p = value_after (wan6_own r) ''network'' ''wan6'' p (wan6_common r p (lk N ''wan6'' p))"
    and r: "r = Wan6None \<or> r = Wan6Dhcp duid \<or> r = Wan6to4 ip"
  shows "wan6_settings [(''network'', N')] = Inr (shown6 r)"
  using r
  by (elim disjE; cases "duid = []"; cases "ip = []")
     (simp_all add: wan6_settings_def wan6_option_def get_option_named_eq lk wan6_own_def wan6_common_def
       drop_wan6_value wan6_6to4_writes_def set_or_drop_def)

lemma wan6_shown_static:
  assumes lk: "\<And>p. lk N' ''wan6'' p = value_after (wan6_own r) ''network'' ''wan6'' p (wan6_common r p (lk N ''wan6'' p))"
    and r: "r = Wan6Static q"
  shows "wan6_settings [(''network'', N')] = Inr (shown6 r)"
proof -
  have "two_dns [(''network'', N')] ''wan6'' = Inr (given [w6_dns1 q, w6_dns2 q])"
    by (rule two_dns_written) (simp add: lk r wan6_own_def wan6_static_writes_def)
  then show ?thesis
    by (cases "w6_network q = []"; cases "w6_ip q = []"; cases "w6_gateway q = []")
      (simp_all add: r wan6_settings_def wan6_option_def get_option_named_eq lk wan6_own_def wan6_common_def
        wan6_static_writes_def as_list_def parse_to_list_def unwrap_list_def)
qed

lemma wan6_shown_6in4:
  assumes lk: "\<And>p. lk N' ''wan6'' p = value_after (wan6_own r) ''network'' ''wan6'' p (wan6_common r p (lk N ''wan6'' p))"
    and r: "r = Wan6in4 q" "wan6_valid r"
  shows "wan6_settings [(''network'', N')] = Inr (shown6 r)"
proof -
  note defs = lk r(1) wan6_own_def wan6_common_def wan6_6in4_writes_def value_after_append drop_wan6_value
  have vals: "lk N' ''wan6'' ''proto'' = Some (Str ''6in4'')"
    "lk N' ''wan6'' ''mtu'' = Some (Str (show_int (r6_mtu q)))"
    "lk N' ''wan6'' ''peeraddr'' = (if r6_server q = [] then None else Some (Str (r6_server q)))"
    "lk N' ''wan6'' ''ip6addr'' = Some (Lst [case r6_address q of Some a \<Rightarrow> a | None \<Rightarrow> []])"
    "lk N' ''wan6'' ''ip6prefix'' = (if r6_prefix q = [] then None else Some (Lst [r6_prefix q]))"
    by (cases "r6_dynamic q"; force simp: defs as_list_def parse_to_list_def split: option.split)+
  have dyn: "lk N' ''wan6'' ''tunnelid'' = map_option (\<lambda>(t, u, p). Str t) (r6_dynamic q)"
    "lk N' ''wan6'' ''username'' = map_option (\<lambda>(t, u, p). Str u) (r6_dynamic q)"
    "lk N' ''wan6'' ''password'' = map_option (\<lambda>(t, u, p). Str p) (r6_dynamic q)"
    using r(2) by (cases "r6_dynamic q"; force simp: defs)+
  show ?thesis
    using r(2)
    by (cases "r6_dynamic q"; cases "r6_prefix q = []"; cases "r6_server q = []")
       (auto simp: r(1) wan6_settings_def sixin4_settings_def wan6_option_def get_option_named_eq vals dyn sixin4_of_def
         unwrap_list_def)
qed

lemma wan6_shown_as:
  assumes "\<And>p. lk N' ''wan6'' p = value_after (wan6_writes r) ''network'' ''wan6'' p (lk N ''wan6'' p)" "wan6_valid r"
  shows "wan6_settings [(''network'', N')] = Inr (shown6 r)"
  using assms wan6_shown_others [of N' r N] wan6_shown_static [of N' r N] wan6_shown_6in4 [of N' r N]
  by (cases r) (auto simp: wan6_value)

section \<open>Running the update\<close>

lemma follows_append: "follows ws c X Y \<Longrightarrow> follows vs c Y Z \<Longrightarrow> follows (ws @ vs) c X Z"
  by (simp add: follows_def value_after_append)

definition vlan_part :: "string \<Rightarrow> int option option \<Rightarrow> uwrite list" where
  "vlan_part d v = (case v of None \<Rightarrow> [] | Some vlan \<Rightarrow> vlan_writes d vlan)"

lemma device_writes_facts:
  "list_all write_names_valid (device_writes (Str d) mac)" "sections_known (device_writes (Str d) mac) (\<lambda>c s. False)"
  "set (map config_of (device_writes (Str d) mac)) = {''network''}"
  by (cases mac; simp add: device_writes_def)+

lemma vlan_part_facts:
  "list_all write_names_valid (vlan_part d v)"
  "sections_known (vlan_part d v) (\<lambda>c s. c = ''network'' \<and> (s = ''wan'' \<or> s = ''dev_wan''))"
  "set (map config_of (vlan_part d v)) \<subseteq> {''network''}"
proof -
  have names: "valid_name ''device''" "valid_name ''name''" by (simp_all add: valid_name_def name_char_def)
  show "list_all write_names_valid (vlan_part d v)"
    by (simp add: vlan_part_def vlan_writes_def Let_def names split: option.split)
  show "sections_known (vlan_part d v) (\<lambda>c s. c = ''network'' \<and> (s = ''wan'' \<or> s = ''dev_wan''))"
    by (simp add: vlan_part_def vlan_writes_def Let_def split: option.split)
  show "set (map config_of (vlan_part d v)) \<subseteq> {''network''}"
    by (cases v) (simp_all add: vlan_part_def vlan_writes_def Let_def)
qed

lemma has_sec_effect: "effect w X = Some Y \<Longrightarrow> has_sec X s \<Longrightarrow> (\<forall>c. w \<noteq> DelSection c s) \<Longrightarrow> has_sec Y s"
  by (cases w) (auto simp: store_simps split: if_splits)

lemma config_after_has_sec:
  "config_after ws c X = Some Y \<Longrightarrow> has_sec X s \<Longrightarrow> \<forall>c. DelSection c s \<notin> set ws \<Longrightarrow> has_sec Y s"
  by (induction ws arbitrary: X) (auto split: option.splits if_splits dest: has_sec_effect)

lemma exec_migrate:
  assumes "staged (ext t) ''network'' = Some N" "wf_config N" "lk N ''wan'' ''ifname'' = None"
  shows "migrate_old_config (ref_env nm cd ord) t = (Ret (), t)"
  using assms by (simp add: migrate_old_config_def bindP_def exec_read_uci migrate_writes_def get_option_named_eq
      lift_def writes_simps ret_def)

text \<open>The statements on the device of the uplink.\<close>

lemma exec_device_part:
  assumes "staged (ext t) ''network'' = Some N" "has_sec N ''wan''"
  shows "\<exists>m t' N'. bindP (writes (ref_env nm cd ord) (device_writes (Str d) mac)) (\<lambda>_.
      case v of None \<Rightarrow> ret () | Some vlan \<Rightarrow> update_vlan_id (ref_env nm cd ord) (Str d) vlan) t = (Ret (), t') \<and>
    staged_as t m {''network''} t' \<and> m = (staged (ext t))(''network'' \<mapsto> N') \<and>
    follows (device_writes (Str d) mac @ vlan_part d v) ''network'' N N' \<and> has_sec N' ''dev_wan''"
proof -
  let ?R = "ref_env nm cd ord"
  obtain m1 t1 where t1: "writes ?R (device_writes (Str d) mac) t = (Ret (), t1)"
      and s1: "staged_as t m1 {''network''} t1"
      and "\<forall>c X. staged (ext t) c = Some X \<longrightarrow>
        (\<exists>Y. staged (ext t1) c = Some Y \<and> config_after (device_writes (Str d) mac) c X = Some Y)"
    using exec_known [OF device_writes_facts(1,2), of t d mac nm cd ord] assms(1)
    unfolding device_writes_facts(3) by auto
  then obtain N1 where N1: "staged (ext t1) ''network'' = Some N1"
      "config_after (device_writes (Str d) mac) ''network'' N = Some N1" using assms(1) by blast
  have secs: "has_sec N1 ''wan''" "has_sec N1 ''dev_wan''"
    using config_after_has_sec [OF N1(2) assms(2)]
      config_after_has_sec [of "tl (device_writes (Str d) mac)" "''network''" "set_sec ''dev_wan'' ''device'' N" N1 "''dev_wan''"] N1(2)
    by (cases mac; auto simp: device_writes_def store_simps)+
  obtain m2 t2 where t2: "writes ?R (vlan_part d v) t1 = (Ret (), t2)"
      and s2: "staged_as t1 m2 (set (map config_of (vlan_part d v))) t2"
      and "\<forall>c X. staged (ext t1) c = Some X \<longrightarrow>
        (\<exists>Y. staged (ext t2) c = Some Y \<and> config_after (vlan_part d v) c X = Some Y)"
    using exec_known [OF vlan_part_facts(1,2), of t1 d v nm cd ord] N1(1) secs vlan_part_facts(3) by fastforce
  then obtain N2 where N2: "staged (ext t2) ''network'' = Some N2"
      "config_after (vlan_part d v) ''network'' N1 = Some N2" using N1(1) by blast
  have "update_vlan_id ?R (Str d) vlan t1 = (Ret (), t2)" if "v = Some vlan" for vlan
    using t2 that by (simp add: update_vlan_id_def bindP_def lift_def tryP_def vlan_part_def)
  then have run: "bindP (writes ?R (device_writes (Str d) mac)) (\<lambda>_.
      case v of None \<Rightarrow> ret () | Some vlan \<Rightarrow> update_vlan_id ?R (Str d) vlan) t = (Ret (), t2)"
    using t1 t2 by (cases v) (simp_all add: bindP_def vlan_part_def writes_simps)
  have sa: "staged_as t m2 {''network''} t2"
    using staged_as_trans [OF s1 s2] unfolding Un_absorb2 [OF vlan_part_facts(3)] .
  moreover from sa have "m2 = (staged (ext t))(''network'' \<mapsto> N2)"
    using N2(1) unfolding staged_as_def by (intro ext) auto
  moreover have "has_sec N2 ''dev_wan''"
    by (rule config_after_has_sec [OF N2(2) secs(2)]) (cases v; simp add: vlan_part_def vlan_writes_def Let_def)
  ultimately show ?thesis
    using run follows_append [OF config_after_follows config_after_follows, OF N1(2) N2(2)] by blast
qed

lemma wan_no_delete: "DelSection c s \<notin> set (wan_writes req)"
proof -
  have "DelSection c s \<notin> set (wan6_writes r)" for r
    by (cases r) (auto simp: wan_write_defs split: option.split)
  then show ?thesis by (simp add: wan_writes_def wan4_no_delete)
qed

lemma wan4_device: "value_after (wan4_writes r) ''network'' ''wan'' ''device'' v = v"
  by (cases r rule: wan4_valid.cases) (simp_all add: wan4_writes_def)

text \<open>What the update needs to find.\<close>

definition uplink_ready :: "string \<Rightarrow> usection list \<Rightarrow> usection list \<Rightarrow> usection list \<Rightarrow> bool" where
  "uplink_ready d N F V \<longleftrightarrow> wf_config N \<and> wf_config F \<and> has_sec N ''lan'' \<and> has_sec V ''common'' \<and>
     lk N ''wan'' ''ifname'' = None \<and> lk N ''wan'' ''device'' = Some (Str d) \<and>
     sec_name ` set (of_type ''zone'' F) \<inter> {''turris_wan_6in4_rule'', ''turris_wan_6to4_rule''} = {} \<and>
     (\<exists>z. wan_zone_section_name [(''firewall'', F)] = Inr z \<and> valid_name z)"

definition all_writes :: "wan_request \<Rightarrow> string \<Rightarrow> uwrite list" where
  "all_writes req d = wan_writes req @ device_writes (Str d) (wr_custom_mac req) @ vlan_part d (wr_vlan req)"

lemma exec_wan_steps:
  assumes "staged (ext t) ''network'' = Some N" "staged (ext t) ''firewall'' = Some F"
    "staged (ext t) ''resolver'' = Some V" "uplink_ready d N F V"
    "list_all write_wf (wan_writes req)" "wr_qos req = None"
  shows "\<exists>m t' N' F' V'. wan_update_steps (ref_env nm cd ord) req t = (Ret (), t') \<and>
    staged_as t m {''network'', ''firewall'', ''resolver''} t' \<and>
    m = (staged (ext t))(''network'' \<mapsto> N', ''firewall'' \<mapsto> F', ''resolver'' \<mapsto> V') \<and>
    follows (all_writes req d) ''network'' N N' \<and> has_sec N' ''dev_wan'' \<and>
    config_after (wan_writes req) ''firewall'' F = Some F'"
proof -
  let ?R = "ref_env nm cd ord"
  note ready = assms(4) [unfolded uplink_ready_def]
  have wan: "has_sec N ''wan''" using ready lk_has_sec [of N "''wan''" "''device''"] by simp
  have known: "\<forall>c s. wan_known c s \<longrightarrow> (\<forall>X. staged (ext t) c = Some X \<longrightarrow> has_sec X s)"
    using assms(1,3) ready wan by (auto simp: wan_known_def)
  have present: "\<forall>c\<in>set (map config_of (wan_writes req)). staged (ext t) c \<noteq> None"
    unfolding wan_writes_configs using assms(1-3) by simp
  obtain m1 t1 where t1: "writes ?R (wan_writes req) t = (Ret (), t1)"
      and s1: "staged_as t m1 {''network'', ''firewall'', ''resolver''} t1"
      and "\<forall>c X. staged (ext t) c = Some X \<longrightarrow>
        (\<exists>Y. staged (ext t1) c = Some Y \<and> config_after (wan_writes req) c X = Some Y)"
    using exec_known [OF wan_writes_valid wan_writes_known known present, of nm cd ord] unfolding wan_writes_configs by blast
  then obtain N1 F1 V1 where c1: "staged (ext t1) ''network'' = Some N1" "config_after (wan_writes req) ''network'' N = Some N1"
      "staged (ext t1) ''firewall'' = Some F1" "config_after (wan_writes req) ''firewall'' F = Some F1"
      "staged (ext t1) ''resolver'' = Some V1"
    using assms(1-3) by blast
  have N1: "wf_config N1" using config_after_wf [OF c1(2) assms(5)] ready by blast
  have dev: "lk N1 ''wan'' ''device'' = Some (Str d)"
    using follows_lk [OF config_after_follows, OF c1(2), of "''wan''" "''device''"] ready
    by (simp add: wan_value_wan wan4_device)
  obtain m2 t2 N2 where t2: "bindP (writes ?R (device_writes (Str d) (wr_custom_mac req))) (\<lambda>_.
      case wr_vlan req of None \<Rightarrow> ret () | Some vlan \<Rightarrow> update_vlan_id ?R (Str d) vlan) t1 = (Ret (), t2)"
    and s2: "staged_as t1 m2 {''network''} t2" "m2 = (staged (ext t1))(''network'' \<mapsto> N2)"
    and f2: "follows (device_writes (Str d) (wr_custom_mac req) @ vlan_part d (wr_vlan req)) ''network'' N1 N2"
      "has_sec N2 ''dev_wan''"
    using exec_device_part [OF c1(1) config_after_has_sec [OF c1(2) wan], of nm cd ord d "wr_custom_mac req" "wr_vlan req"]
      wan_no_delete by blast
  have "read_uci ?R ''network'' t1 = (Ret [(''network'', N1)], t1)"
    by (rule exec_read_uci [OF c1(1) N1]) simp
  then have "wan_update_steps ?R req t = (Ret (), t2)"
    using t1 t2 exec_migrate [of t N nm cd ord] assms(1,6) ready dev
    by (simp add: wan_update_steps_def wan_writes_def bindP_def lift_def get_option_named_eq ret_def
        split: prod.splits outcome.splits)
  moreover have sa: "staged_as t m2 {''network'', ''firewall'', ''resolver''} t2"
    using staged_as_trans [OF s1 s2(1)] by (simp add: insert_commute)
  moreover have "m2 c = ((staged (ext t))(''network'' \<mapsto> N2, ''firewall'' \<mapsto> F1, ''resolver'' \<mapsto> V1)) c" for c
    using sa s2(2) c1(3,5) by (cases "c = ''network''"; cases "c = ''firewall''"; cases "c = ''resolver''")
      (auto simp: staged_as_def)
  then have "m2 = (staged (ext t))(''network'' \<mapsto> N2, ''firewall'' \<mapsto> F1, ''resolver'' \<mapsto> V1)" by (rule ext)
  moreover have "follows (all_writes req d) ''network'' N N2"
    unfolding all_writes_def by (rule follows_append [OF config_after_follows [OF c1(2)] f2(1)])
  ultimately show ?thesis using c1(4) f2(2) by blast
qed

lemma device_part_values:
  "value_after (device_writes (Str d) mac @ vlan_part d v) ''network'' ''wan6'' p old = old"
  "p \<noteq> ''device'' \<Longrightarrow> value_after (device_writes (Str d) mac @ vlan_part d v) ''network'' ''wan'' p old = old"
  "value_after (device_writes (Str d) mac @ vlan_part d v) ''network'' ''dev_wan'' ''macaddr'' old =
     (case mac of Some (x # xs) \<Rightarrow> Some (Str (x # xs)) | _ \<Rightarrow> None)"
  by (cases v; cases mac; simp add: device_writes_def vlan_part_def vlan_writes_def Let_def split: list.split)+

lemma update_read_back:
  assumes "follows (all_writes req d) ''network'' N N'" "wan4_valid (wr_wan req)" "wan6_valid (wr_wan6 req)"
  shows "wan4_settings [(''network'', N')] = Inr (shown4 (wr_wan req))"
    and "wan6_settings [(''network'', N')] = Inr (shown6 (wr_wan6 req))"
proof -
  have lk: "lk N' s p = value_after (device_writes (Str d) (wr_custom_mac req) @ vlan_part d (wr_vlan req)) ''network'' s p
      (value_after (wan_writes req) ''network'' s p (lk N s p))" for s p
    using follows_lk [OF assms(1)] by (simp add: all_writes_def value_after_append)
  show "wan6_settings [(''network'', N')] = Inr (shown6 (wr_wan6 req))"
    by (rule wan6_shown_as [OF _ assms(3), of N' N]) (simp only: lk device_part_values wan_value_wan6)
  show "wan4_settings [(''network'', N')] = Inr (shown4 (wr_wan req))"
  proof (rule wan4_shown_as [OF _ assms(2), of N' N])
    fix p assume "p \<noteq> ''ipv6''" "p \<noteq> ''device''"
    then show "lk N' ''wan'' p = value_after (wan4_writes (wr_wan req)) ''network'' ''wan'' p (lk N ''wan'' p)"
      by (simp only: lk device_part_values(2) wan_value_wan not_False_eq_True simp_thms)
  qed
qed

lemma custom_mac_read_back:
  assumes "follows (all_writes req d) ''network'' N N'" "has_sec N' ''dev_wan''" "wr_custom_mac req \<noteq> Some []"
  shows "fetch_mac_address [(''network'', N')] =
    Inr (Str (case wr_custom_mac req of Some m \<Rightarrow> m | None \<Rightarrow> []))"
proof -
  have "lk N' ''dev_wan'' ''macaddr'' = (case wr_custom_mac req of Some (x # xs) \<Rightarrow> Some (Str (x # xs)) | _ \<Rightarrow> None)"
    using follows_lk [OF assms(1)] by (simp add: all_writes_def value_after_append [of "wan_writes req"] device_part_values)
  then show ?thesis
    using assms(2,3) by (auto simp: fetch_mac_address_def section_exists_eq get_option_named_eq split: option.splits list.splits)
qed

section \<open>The zone of the uplink\<close>

lemma wan_zone_name_member: "wan_zone_name zs = Inr (Some z) \<Longrightarrow> z \<in> sec_name ` set zs"
  by (induction zs) (auto split: option.splits if_splits)

lemma has_sec_of_member: "e \<in> set X \<Longrightarrow> has_sec X (sec_name e)"
  by (auto simp: has_sec_def find_sec_def find_None_iff)

lemma wan_zone_of_type:
  "wan_zone_section_name [(''firewall'', X)] = bindE (wan_zone_name (of_type ''zone'' X)) (\<lambda>name.
     case name of Some (c # cs) \<Rightarrow> Inr (c # cs)
     | _ \<Rightarrow> Inl (UciRecordNotFound (record_path ''firewall'' None (Some ''zone'') None None)))"
  by (simp add: wan_zone_section_name_def get_sections_by_type_eq of_type_def)

lemma wan_zone_present:
  assumes "wan_zone_section_name [(''firewall'', X)] = Inr z"
  shows "has_sec X z"
proof -
  from assms have "wan_zone_name (of_type ''zone'' X) = Inr (Some z)"
    unfolding wan_zone_of_type
    by (cases "wan_zone_name (of_type ''zone'' X)") (auto split: option.splits list.splits)
  then show ?thesis using wan_zone_name_member has_sec_of_member by (force simp: of_type_def)
qed

lemma wan_zone_kept:
  assumes "config_after (wan_writes req) ''firewall'' F = Some F'" "uplink_ready d N F V"
  shows "wan_zone_section_name [(''firewall'', F')] = wan_zone_section_name [(''firewall'', F)]"
proof -
  have "of_type ''zone'' F' = of_type ''zone'' F"
    using assms(2) by (intro config_after_of_type [OF assms(1)] wan_spares_zones) (auto simp: uplink_ready_def)
  then show ?thesis by (simp add: wan_zone_of_type)
qed

lemma exec_wan_update_body:
  assumes "staged (ext t) ''network'' = Some N" "staged (ext t) ''firewall'' = Some F"
    "staged (ext t) ''resolver'' = Some V" "uplink_ready d N F V"
    "list_all write_wf (wan_writes req)" "wr_qos req = None" "wan_zone_section_name [(''firewall'', F)] = Inr z"
  shows "\<exists>m t' N' F' V'. wan_update_body (ref_env nm cd ord) req t = (Ret (), t') \<and>
    staged_as t m {''network'', ''firewall'', ''resolver''} t' \<and>
    m = (staged (ext t))(''network'' \<mapsto> N', ''firewall'' \<mapsto> F', ''resolver'' \<mapsto> V') \<and>
    follows (all_writes req d) ''network'' N N' \<and> has_sec N' ''dev_wan'' \<and>
    lk F' z ''network'' = Some (Lst [''wan'', ''wan6''])"
proof -
  let ?R = "ref_env nm cd ord"
  obtain m t1 N' F1 V' where t1: "wan_update_steps ?R req t = (Ret (), t1)"
    and s1: "staged_as t m {''network'', ''firewall'', ''resolver''} t1"
      "m = (staged (ext t))(''network'' \<mapsto> N', ''firewall'' \<mapsto> F1, ''resolver'' \<mapsto> V')"
    and f: "follows (all_writes req d) ''network'' N N'" "config_after (wan_writes req) ''firewall'' F = Some F1"
      "has_sec N' ''dev_wan''"
    using exec_wan_steps [OF assms(1-6), of nm cd ord] by (elim exE conjE)
  have z: "wan_zone_section_name [(''firewall'', F1)] = Inr z" "valid_name z" "wf_config F1" "has_sec F1 z"
    using wan_zone_kept [OF f(2) assms(4)] assms(4,7) config_after_wf [OF f(2) assms(5)] wan_zone_present [of F1 z]
    by (auto simp: uplink_ready_def)
  have staged1: "staged (ext t1) ''firewall'' = Some F1" using s1 by (simp add: staged_as_def)
  let ?F = "set_opt z ''network'' (Lst [''wan'', ''wan6'']) (del_opt z ''network'' F1)"
  have read: "read_uci ?R ''firewall'' t1 = (Ret [(''firewall'', F1)], t1)"
    by (rule exec_read_uci [OF staged1 z(3)]) simp
  have "replace_list ?R ''firewall'' z ''network'' [''wan'', ''wan6''] t1 = (Ret (), put ''firewall'' ?F t1)"
    by (rule exec_replace_list [OF staged1 z(4) _ z(2)]) simp_all
  with t1 read z(1) have "wan_update_body ?R req t = (Ret (), put ''firewall'' ?F t1)"
    by (simp add: wan_update_body_def set_wan_firewall_zone_interfaces_def bindP_def lift_def)
  moreover have "staged_as t (m(''firewall'' \<mapsto> ?F)) {''network'', ''firewall'', ''resolver''} (put ''firewall'' ?F t1)"
    using staged_as_trans [OF s1(1) staged_as_put [of t1 "''firewall''" ?F]] s1(1) by (simp add: staged_as_def insert_commute)
  moreover have "m(''firewall'' \<mapsto> ?F) = (staged (ext t))(''network'' \<mapsto> N', ''firewall'' \<mapsto> ?F, ''resolver'' \<mapsto> V')"
    by (simp add: s1(2) fun_eq_iff)
  moreover have "lk ?F z ''network'' = Some (Lst [''wan'', ''wan6''])" using z(4) by (simp add: store_simps)
  ultimately show ?thesis using f(1,3) by blast
qed

section \<open>The same over every tool\<close>

context uci_tool
begin

lemma migrate_writes_valid: "migrate_writes data = Inr ws \<Longrightarrow> list_all write_names_valid ws"
  by (cases "get_option_named data ''network'' ''wan'' ''ifname'' (Some (Str []))";
      cases "get_option_named data ''network'' ''wan'' ''macaddr'' (Some (Str []))")
     (auto simp: migrate_writes_def split: if_splits)

lemma sim_lift_writes:
  "(\<And>ws. r = Inr ws \<Longrightarrow> list_all write_names_valid ws) \<Longrightarrow>
    sim (rel view) (bindP (lift r) (writes E)) (bindP (lift r) (writes R))"
  using sim_writes by (cases r) (auto simp: sim_def bindP_def lift_def)

lemma sim_migrate: "sim (rel view) (migrate_old_config E) (migrate_old_config R)"
  unfolding migrate_old_config_def
  by (rule sim_bindP [OF sim_read_uci], simp, rule sim_lift_writes, erule migrate_writes_valid)

lemma wan_qos_writes_valid: "list_all write_names_valid (wan_qos_writes v q)"
  by (simp add: wan_qos_writes_def valid_name_def name_char_def)

lemma vlan_writes_valid: "list_all write_names_valid (vlan_writes d v)"
  using vlan_part_facts(1) [of d "Some v"] by (simp add: vlan_part_def)

lemma device_writes_valid: "list_all write_names_valid (device_writes v mac)"
  by (cases mac) (simp_all add: device_writes_def)

lemma sim_wan_update_steps: "sim (rel view) (wan_update_steps E req) (wan_update_steps R req)"
  unfolding wan_update_steps_def update_vlan_id_def wan_writes_def [symmetric]
  by (intro sim_intros sim_migrate sim_writes sim_read_uci wan_writes_valid wan_qos_writes_valid vlan_writes_valid
      device_writes_valid) simp

lemma sim_at_set_wan_zone:
  assumes "rel view s t" "staged (ext t) ''firewall'' = Some F" "wf_config F"
    and "\<And>z. wan_zone_section_name [(''firewall'', F)] = Inr z \<Longrightarrow> valid_name z"
  shows "sim_at (rel view) (set_wan_firewall_zone_interfaces E ifs) (set_wan_firewall_zone_interfaces R ifs) s t"
proof -
  have name: "valid_name ''firewall''" "valid_name ''network''" by simp_all
  have data: "read_uci R ''firewall'' t = (Ret d, t) \<Longrightarrow> d = [(''firewall'', F)]" for d
    using exec_read_uci [OF assms(2,3) name(1)] by auto
  show ?thesis
    unfolding set_wan_firewall_zone_interfaces_def
  proof (rule sim_at_read [OF assms(1) name(1)])
    fix d s' assume "read_uci R ''firewall'' t = (Ret d, t)" "rel view s' t"
    then have "d = [(''firewall'', F)]" "rel view s' t" using data by auto
    then show "sim_at (rel view)
        (bindP (lift (wan_zone_section_name d)) (\<lambda>zone. replace_list E ''firewall'' zone ''network'' (if ifs = [] then [''wan'', ''wan6''] else ifs)))
        (bindP (lift (wan_zone_section_name d)) (\<lambda>zone. replace_list R ''firewall'' zone ''network'' (if ifs = [] then [''wan'', ''wan6''] else ifs))) s' t"
      using assms(4) name
      by (cases "wan_zone_section_name [(''firewall'', F)]")
         (auto simp: sim_at_def bindP_def lift_def dest!: assms(4) intro!: sim_atI [unfolded sim_at_def] sim_replace_list valid_sec_name)
  qed
qed

lemma sim_at_wan_update_body:
  assumes "rel view s t" "staged (ext t) ''network'' = Some N" "staged (ext t) ''firewall'' = Some F"
    "staged (ext t) ''resolver'' = Some V" "uplink_ready d N F V"
    "list_all write_wf (wan_writes req)" "wr_qos req = None"
  shows "sim_at (rel view) (wan_update_body E req) (wan_update_body R req) s t"
proof -
  obtain m t1 N' F1 V' where t1: "wan_update_steps R req t = (Ret (), t1)"
    and s1: "staged_as t m {''network'', ''firewall'', ''resolver''} t1"
      "m = (staged (ext t))(''network'' \<mapsto> N', ''firewall'' \<mapsto> F1, ''resolver'' \<mapsto> V')"
    and f: "config_after (wan_writes req) ''firewall'' F = Some F1"
    using exec_wan_steps [OF assms(2-7), of nm "env_config_dir E" "env_set_order E"] by (elim exE conjE)
  have F1: "staged (ext t1) ''firewall'' = Some F1" "wf_config F1"
    using s1 config_after_wf [OF f assms(6)] assms(5) by (auto simp: staged_as_def uplink_ready_def)
  have valid: "valid_name z" if "wan_zone_section_name [(''firewall'', F1)] = Inr z" for z
    using that wan_zone_kept [OF f assms(5)] assms(5) by (auto simp: uplink_ready_def)
  show ?thesis
    unfolding wan_update_body_def
  proof (rule sim_at_bindP [OF sim_atI [OF sim_wan_update_steps assms(1)]])
    fix x s' t' assume "wan_update_steps R req t = (Ret x, t')" "rel view s' t'"
    then have "rel view s' t1" "t' = t1" using t1 by auto
    then show "sim_at (rel view) (set_wan_firewall_zone_interfaces E [''wan'', ''wan6''])
        (set_wan_firewall_zone_interfaces R [''wan'', ''wan6'']) s' t'"
      using sim_at_set_wan_zone [OF _ F1 valid] by simp
  qed
qed

end

lemma staged_transaction_at:
  assumes "uci_tool E nm view" "ready view s"
    and "\<And>s1. rel view s1 (opened (abs_st view s)) \<Longrightarrow>
      sim_at (rel view) body (body' (ref_env nm (env_config_dir E) (env_set_order E))) s1 (opened (abs_st view s))"
    and "body' (ref_env nm (env_config_dir E) (env_set_order E)) (opened (abs_st view s)) = (Ret x, t)"
    and "staged_as (opened (abs_st view s)) m cs t"
    and "\<forall>c\<in>cs. valid_name c \<and> m c \<noteq> None"
  shows "\<exists>s'. with_uci E body s = (Ret x, s') \<and> committed (view (ext s')) = m"
proof -
  have "\<exists>s'. with_uci E body s = (Ret x, s') \<and> \<not> uci_held s' \<and> services_held s' = services_held t \<and>
    (\<forall>c\<in>set (affected s'). valid_name c) \<and>
    committed (view (ext s')) =
      (\<lambda>c. if c \<in> set (affected t) then staged (ext t) c else committed (ext t) c)"
    using assms(2,5,6)
    by (intro transaction_outcome_at [where body' = body', OF assms(1,3) _ _ assms(4)])
       (auto simp: staged_as_def store_simps ready_def)
  moreover have "(\<lambda>c. if c \<in> set (affected t) then staged (ext t) c else committed (ext t) c) = m"
    using assms(5) by (auto simp: staged_as_def store_simps abs_st_def fun_eq_iff)
  ultimately show ?thesis by auto
qed

section \<open>Reading back\<close>

definition demo_uplink_network :: "usection list" where
  "demo_uplink_network =
     [\<lparr>sec_type = ''interface'', sec_name = ''lan'', sec_data = [(''proto'', Str ''static'')], anonymous = False\<rparr>,
      \<lparr>sec_type = ''interface'', sec_name = ''wan'', sec_data = [(''proto'', Str ''dhcp''), (''device'', Str ''eth2'')],
        anonymous = False\<rparr>]"

definition demo_uplink_firewall :: "usection list" where
  "demo_uplink_firewall =
     [\<lparr>sec_type = ''zone'', sec_name = ''wan'', sec_data = [(''name'', Str ''wan'')], anonymous = False\<rparr>]"

definition demo_resolver :: "usection list" where
  "demo_resolver = [\<lparr>sec_type = ''resolver'', sec_name = ''common'', sec_data = [], anonymous = False\<rparr>]"

definition demo_uplink :: "string \<rightharpoonup> usection list" where
  "demo_uplink = [''network'' \<mapsto> demo_uplink_network, ''firewall'' \<mapsto> demo_uplink_firewall, ''resolver'' \<mapsto> demo_resolver]"

definition demo_wan_request :: wan_request where
  "demo_wan_request = \<lparr>wr_wan = WanPppoe ''user'' ''secret'', wr_wan6 = Wan6to4 ''192.0.2.1'',
     wr_custom_mac = Some ''00:11:22:33:44:55'', wr_qos = None, wr_vlan = Some (Some 7)\<rparr>"



end
