(* ===== verification/NetworksRoundtrip.thy ===== *)
theory NetworksRoundtrip
  imports NetworksUpdate WanRoundtrip
begin

text \<open>
  Assigning ports to networks and reading them back: the transaction of
  \<^verbatim>\<open>NetworksUci.update_settings\<close> and the groups that \<^verbatim>\<open>get_settings\<close> makes of its result.
  The update converts old bridges on the way: an anonymous bridge device is deleted and a named
  one takes its place.
\<close>

section \<open>Anonymous sections under a sequence of writes\<close>

definition anonymous_part :: "usection list \<Rightarrow> usection list" where
  "anonymous_part X = filter (\<lambda>e. startswith (sec_name e) ''cfg'') X"

fun section_of :: "uwrite \<Rightarrow> string" where
  "section_of (AddSection c t s) = s"
| "section_of (SetOption c s p v) = s"
| "section_of (ReplaceList c s p vs) = s"
| "section_of (DropOption c s p) = s"
| "section_of (DelSection c s) = s"
| "section_of (AddToList c s p vs) = s"

text \<open>The writes here change named sections, or delete a section.\<close>

fun names_only :: "uwrite \<Rightarrow> bool" where
  "names_only (DelSection c s) = True"
| "names_only w = (\<not> startswith (section_of w) ''cfg'')"

lemma anonymous_upd_sec:
  "\<not> startswith s ''cfg'' \<Longrightarrow> (\<And>e. sec_name (f e) = sec_name e) \<Longrightarrow> anonymous_part (upd_sec s f X) = anonymous_part X"
  by (induction X) (auto simp: anonymous_part_def)

lemma anonymous_effect:
  assumes "effect w X = Some Y" "names_only w"
  shows "anonymous_part Y = filter (\<lambda>e. w \<noteq> DelSection (config_of w) (sec_name e)) (anonymous_part X)"
proof -
  have opts: "\<not> startswith s ''cfg'' \<Longrightarrow> anonymous_part (set_opt s p v Z) = anonymous_part Z"
    "\<not> startswith s ''cfg'' \<Longrightarrow> anonymous_part (del_opt s p Z) = anonymous_part Z" for s p v Z
    unfolding set_opt_def del_opt_def by (rule anonymous_upd_sec; simp)+
  have sec: "\<not> startswith s ''cfg'' \<Longrightarrow> anonymous_part (set_sec s t Z) = anonymous_part Z" for s t Z
    using anonymous_upd_sec [of s "\<lambda>e. e\<lparr>sec_type := t\<rparr>" Z] by (auto simp: set_sec_def anonymous_part_def)
  show ?thesis
  proof (cases "\<exists>c s. w = DelSection c s")
    case True
    then obtain c s where w: "w = DelSection c s" by blast
    then have "Y = del_sec s X" using assms(1) by (simp split: if_splits)
    then show ?thesis by (simp add: w anonymous_part_def del_sec_def conj_commute eq_commute)
  next
    case False
    then have "anonymous_part Y = anonymous_part X"
      using assms by (cases w) (auto simp: opts sec split: if_splits)
    then show ?thesis using False by simp
  qed
qed

lemma anonymous_after:
  "config_after ws c X = Some Y \<Longrightarrow> list_all names_only ws \<Longrightarrow>
    anonymous_part Y = filter (\<lambda>e. DelSection c (sec_name e) \<notin> set ws) (anonymous_part X)"
proof (induction ws arbitrary: X)
  case (Cons w ws)
  show ?case
  proof (cases "config_of w = c")
    case True
    then obtain Z where Z: "effect w X = Some Z" "config_after ws c Z = Some Y"
      using Cons.prems(1) by (auto split: option.splits)
    then show ?thesis
      using Cons.IH [OF Z(2)] Cons.prems(2) anonymous_effect [OF Z(1)] True by (auto intro!: filter_cong)
  next
    case False
    then have "DelSection c s \<noteq> w" for s by auto
    then show ?thesis using Cons False by (auto intro!: filter_cong)
  qed
qed simp

lemma has_sec_other:
  "effect w X = Some Y \<Longrightarrow> section_of w \<noteq> s \<Longrightarrow> has_sec Y s = has_sec X s"
  by (cases w) (auto simp: store_simps split: if_splits)

lemma config_after_has_sec_other:
  "config_after ws c X = Some Y \<Longrightarrow> s \<notin> section_of ` set ws \<Longrightarrow> has_sec Y s = has_sec X s"
  by (induction ws arbitrary: X) (auto split: option.splits if_splits simp: has_sec_other)

section \<open>Deleting sections\<close>

definition deletions :: "string \<Rightarrow> string list \<Rightarrow> uwrite list" where
  "deletions c ss = map (DelSection c) ss"

lemma deletions_value: "s \<notin> set ss \<Longrightarrow> value_after (deletions c' ss) c s p v = v"
  by (induction ss arbitrary: v) (auto simp: deletions_def)

lemma deletions_known:
  "sections_known (deletions c ss @ ws) known \<longleftrightarrow>
    distinct ss \<and> (\<forall>s\<in>set ss. known c s) \<and> sections_known ws (\<lambda>c' s'. \<not> (c' = c \<and> s' \<in> set ss) \<and> known c' s')"
  unfolding deletions_def by (induction ss arbitrary: known) (auto simp: conj_ac imp_conjR)

lemma deletions_facts:
  "list_all write_names_valid (deletions c ss) = (ss = [] \<or> valid_name c \<and> list_all valid_name ss)"
  "set (map config_of (deletions c ss)) = (if ss = [] then {} else {c})"
  "list_all names_only (deletions c ss)" "DelSection c' s \<in> set (deletions c ss) \<longleftrightarrow> c' = c \<and> s \<in> set ss"
  by (cases ss; auto simp: deletions_def list_all_iff)+

section \<open>The writes of one network\<close>

definition bridge_names :: "string \<Rightarrow> usection list \<Rightarrow> string list" where
  "bridge_names br_name X = map sec_name (filter (\<lambda>e. sec_type e = ''device'' \<and>
     map_of (sec_data e) ''name'' = Some (Str br_name)) (anonymous_part X))"

lemma drop_anonymous_bridges_deletes:
  "fst (drop_anonymous_bridges br_name (filter (\<lambda>e. sec_type e = ''device'') X) mac) =
    deletions ''network'' (bridge_names br_name X)"
  by (induction X arbitrary: mac)
     (auto simp: bridge_names_def anonymous_part_def deletions_def case_prod_beta)

definition dropped_bridges :: "string \<Rightarrow> usection list \<Rightarrow> string list" where
  "dropped_bridges net X = (if lk X net ''device'' = Some (Str (''br-'' @ net)) then bridge_names (''br-'' @ net) X else [])"

text \<open>A network of one port or none, and the LAN, when the config has the current syntax.\<close>

definition wan_part :: "usection list \<Rightarrow> string list \<Rightarrow> uwrite list" where
  "wan_part N ifs = deletions ''network'' (dropped_bridges ''wan'' N) @
     (if has_sec N ''br_wan'' then [DelSection ''network'' ''br_wan''] else []) @
     (case ifs of
        d # _ \<Rightarrow> SetOption ''network'' ''wan'' ''device'' d #
          (case lk N ''br_wan'' ''macaddr'' of
             Some mac \<Rightarrow> if truthy mac then [SetOption ''network'' ''wan'' ''macaddr'' (py_str mac)] else []
           | None \<Rightarrow> [])
      | [] \<Rightarrow> [DropOption ''network'' ''wan'' ''device'', SetOption ''network'' ''wan'' ''bridge_empty'' (store_bool True)])"

definition lan_part :: "usection list \<Rightarrow> string list \<Rightarrow> uval option \<Rightarrow> uwrite list" where
  "lan_part N ifs mac = deletions ''network'' (dropped_bridges ''lan'' N) @
     (if has_sec N ''br_lan'' then set_bridge_ports ''lan'' ifs else create_bridge ''lan'' ifs mac)"

lemma network_writes_wan:
  "lk N ''wan'' ''ifname'' = None \<Longrightarrow> length ifs \<le> 1 \<Longrightarrow>
    network_writes [(''network'', N)] ''wan'' ifs = Inr (wan_part N ifs)"
  using drop_anonymous_bridges_deletes [of "''br-wan''" N None]
  by (cases "drop_anonymous_bridges ''br-wan'' (filter (\<lambda>e. sec_type e = ''device'') N) None")
     (auto simp: network_writes_def drop_old_syntax_def del_bridge_def net_key_def get_option_named_eq section_exists_eq
      get_sections_by_type_eq dropped_bridges_def deletions_def Let_def wan_part_def split: option.splits list.splits)

lemma network_writes_lan:
  "lk N ''lan'' ''ifname'' = None \<Longrightarrow>
    \<exists>mac. network_writes [(''network'', N)] ''lan'' ifs = Inr (lan_part N ifs mac)"
  using drop_anonymous_bridges_deletes [of "''br-lan''" N None]
  by (cases "drop_anonymous_bridges ''br-lan'' (filter (\<lambda>e. sec_type e = ''device'') N) None")
     (auto simp: network_writes_def drop_old_syntax_def get_option_named_eq section_exists_eq
      get_sections_by_type_eq dropped_bridges_def deletions_def lan_part_def split: option.splits)

text \<open>
  What the update needs to find in the config: the current syntax, the bridge of the LAN under its
  usual name or none, and no anonymous bridge \<^verbatim>\<open>br-guest_turris\<close>. The update does not delete such a
  bridge, and the reader falls back to its ports when the guests are left none.
\<close>

definition ports_assignable :: "usection list \<Rightarrow> bool" where
  "ports_assignable N \<longleftrightarrow> wf_config N \<and> has_sec N ''wan'' \<and> has_sec N ''lan'' \<and>
     distinct (map sec_name (anonymous_part N)) \<and> list_all (\<lambda>e. valid_name (sec_name e)) (anonymous_part N) \<and>
     lk N ''wan'' ''ifname'' = None \<and> lk N ''lan'' ''ifname'' = None \<and> lk N ''guest_turris'' ''ifname'' = None \<and>
     (lk N ''lan'' ''device'' = Some (Str ''br-lan'') \<or> \<not> has_sec N ''br_lan'' \<and> bridge_names ''br-lan'' N = []) \<and>
     bridge_names ''br-guest_turris'' N = []"

lemma bridge_names_member:
  "s \<in> set (bridge_names b X) \<Longrightarrow> startswith s ''cfg'' \<and> has_sec X s \<and> s \<in> sec_name ` set (anonymous_part X)"
  by (auto simp: bridge_names_def anonymous_part_def has_sec_of_member)

lemma dropped_member:
  "s \<in> set (dropped_bridges net X) \<Longrightarrow> startswith s ''cfg'' \<and> has_sec X s \<and> s \<in> sec_name ` set (anonymous_part X)"
  using bridge_names_member by (auto simp: dropped_bridges_def split: if_splits)

lemma dropped_device:
  "s \<in> set (dropped_bridges net X) \<Longrightarrow>
    \<exists>e\<in>set (anonymous_part X). sec_name e = s \<and> map_of (sec_data e) ''name'' = Some (Str (''br-'' @ net))"
  by (cases "lk X net ''device'' = Some (Str (''br-'' @ net))") (auto simp: dropped_bridges_def bridge_names_def)

lemma dropped_facts:
  assumes "ports_assignable N"
  shows "distinct (dropped_bridges net N)" "list_all valid_name (dropped_bridges net N)"
    and "set (dropped_bridges ''wan'' N) \<inter> set (dropped_bridges ''lan'' N) = {}"
proof -
  have d: "distinct (map sec_name (anonymous_part N))" and v: "list_all (\<lambda>e. valid_name (sec_name e)) (anonymous_part N)"
    using assms by (simp_all add: ports_assignable_def)
  show "distinct (dropped_bridges net N)"
    using d by (simp add: dropped_bridges_def bridge_names_def distinct_map_filter)
  show "list_all valid_name (dropped_bridges net N)"
    using v by (auto simp: list_all_iff dest!: dropped_member)
  show "set (dropped_bridges ''wan'' N) \<inter> set (dropped_bridges ''lan'' N) = {}"
  proof (rule equals0I)
    fix s assume "s \<in> set (dropped_bridges ''wan'' N) \<inter> set (dropped_bridges ''lan'' N)"
    then have "s \<in> set (dropped_bridges ''wan'' N)" "s \<in> set (dropped_bridges ''lan'' N)" by simp_all
    note both = this
    obtain e where e: "e \<in> set (anonymous_part N)" "sec_name e = s" "map_of (sec_data e) ''name'' = Some (Str (''br-'' @ ''wan''))"
      using dropped_device [OF both(1)] by (elim bexE conjE) (rule that)
    obtain f where f: "f \<in> set (anonymous_part N)" "sec_name f = s" "map_of (sec_data f) ''name'' = Some (Str (''br-'' @ ''lan''))"
      using dropped_device [OF both(2)] by (elim bexE conjE) (rule that)
    have "inj_on sec_name (set (anonymous_part N))" using d by (simp add: distinct_map)
    then have "e = f" by (rule inj_onD) (simp_all only: e f)
    with e(3) f(3) show False by simp
  qed
qed

lemma dropped_not [simp]:
  "\<not> startswith s ''cfg'' \<Longrightarrow> s \<notin> set (dropped_bridges net X)"
  by (rule notI, drule dropped_member) simp

lemma writes_append: "writes E (ws @ vs) = bindP (writes E ws) (\<lambda>_. writes E vs)"
  by (simp add: writes_def block_append)

section \<open>The whole sequence\<close>

definition rest_writes :: "usection list \<Rightarrow> networks_request \<Rightarrow> firewall_request \<Rightarrow> uval option \<Rightarrow> uwrite list" where
  "rest_writes N networks firewall mac = set_bridge_ports ''guest'' (nr_guest networks) @
     wan_part N (nr_wan networks) @ lan_part N (nr_lan networks) mac @ firewall_writes firewall"

lemmas port_write_defs = rest_writes_def wan_part_def lan_part_def set_bridge_ports_def create_bridge_def net_key_def
  firewall_writes_def firewall_rule_writes_def

lemma port_names [simp]:
  "valid_name ''ports''" "valid_name ''br_lan''" "valid_name ''br_wan''" "valid_name ''wan_ssh_turris_rule''"
  "valid_name ''wan_http_turris_rule''" "valid_name ''wan_https_turris_rule''" "valid_name ''macaddr''"
  by (simp_all add: valid_name_def name_char_def)

lemma rest_writes_valid:
  "ports_assignable N \<Longrightarrow> list_all write_names_valid (rest_writes N networks firewall mac)"
  using dropped_facts(2) by (simp add: port_write_defs deletions_facts Let_def split: list.split option.split)

lemma rest_writes_configs:
  "set (map config_of (rest_writes N networks firewall mac)) = {''network'', ''firewall''}"
  by (auto simp: port_write_defs deletions_facts(2) [unfolded set_map] Let_def split: list.split option.split if_splits)

lemma wan_part_known:
  assumes "ports_assignable N" "\<forall>s. has_sec N s \<longrightarrow> known ''network'' s"
    and "sections_known ws (\<lambda>c s. known c s \<and> \<not> (c = ''network'' \<and> (s = ''br_wan'' \<or> s \<in> set (dropped_bridges ''wan'' N))))"
  shows "sections_known (wan_part N ifs @ ws) known"
proof -
  let ?d = "dropped_bridges ''wan'' N"
  have d: "distinct ?d" "\<forall>s\<in>set ?d. known ''network'' s"
    using dropped_facts(1) [OF assms(1)] dropped_member [of _ "''wan''" N] assms(2) by auto
  have w: "known ''network'' ''wan''" "has_sec N ''br_wan'' \<Longrightarrow> known ''network'' ''br_wan''"
    using assms(1,2) by (auto simp: ports_assignable_def)
  have "sections_known ws (\<lambda>c s. \<not> (c = ''network'' \<and> s \<in> set ?d) \<and> known c s)"
    "sections_known ws (\<lambda>c s. \<not> (c = ''network'' \<and> s = ''br_wan'') \<and> \<not> (c = ''network'' \<and> s \<in> set ?d) \<and> known c s)"
    by (rule sections_known_mono [OF assms(3)], simp)+
  with d w show ?thesis
    by (cases ifs; cases "has_sec N ''br_wan''")
       (simp_all add: wan_part_def deletions_known split: option.split)
qed

lemma lan_part_known:
  assumes "ports_assignable N" "\<forall>s\<in>set (dropped_bridges ''lan'' N) \<union> {''lan''}. known ''network'' s"
    and "has_sec N ''br_lan'' \<longrightarrow> known ''network'' ''br_lan''" "sections_known ws (\<lambda>_ _. False)"
  shows "sections_known (lan_part N ifs mac @ ws) known"
proof -
  have ws: "sections_known ws k" for k by (rule sections_known_mono [OF assms(4)]) simp
  show ?thesis
    using assms(2,3) dropped_facts(1) [OF assms(1), of "''lan''"]
    by (cases "has_sec N ''br_lan''")
       (simp_all add: lan_part_def deletions_known set_bridge_ports_def create_bridge_def net_key_def Let_def ws split: option.split)
qed

lemma rest_writes_known:
  assumes "ports_assignable N" "has_sec N ''br_guest_turris''"
  shows "sections_known (rest_writes N networks firewall mac) (\<lambda>c s. c = ''network'' \<and> has_sec N s)"
proof -
  have fw: "sections_known (firewall_writes firewall) (\<lambda>_ _. False)"
    by (simp add: firewall_writes_def firewall_rule_writes_def)
  have lan: "\<forall>s\<in>set (dropped_bridges ''lan'' N) \<union> {''lan''}. has_sec N s \<and> s \<noteq> ''br_wan'' \<and> s \<notin> set (dropped_bridges ''wan'' N)"
    using assms(1) dropped_facts(3) [OF assms(1)] dropped_member [of _ "''lan''" N]
    by (auto simp: ports_assignable_def)
  have "sections_known (wan_part N (nr_wan networks) @ lan_part N (nr_lan networks) mac @ firewall_writes firewall)
      (\<lambda>c s. c = ''network'' \<and> has_sec N s)"
    using lan by (intro wan_part_known [OF assms(1)] lan_part_known [OF assms(1)] fw) auto
  then show ?thesis
    using assms(2) by (simp add: rest_writes_def set_bridge_ports_def net_key_def)
qed

text \<open>Enabling the guest network first does not disturb what the update needs.\<close>

lemma guest_writes_named: "list_all names_only (guest_writes req)" "DelSection c s \<notin> set (guest_writes req)"
  by (cases req; simp add: guest_write_defs)+

lemma guest_sections:
  "section_of ` set (guest_writes req) \<inter> {''wan'', ''lan'', ''br_wan'', ''br_lan''} = {}"
  by (cases req; auto simp: guest_write_defs split: if_splits)

lemma guest_values_kept:
  "s \<in> {''wan'', ''lan'', ''br_wan'', ''br_lan''} \<Longrightarrow> value_after (guest_writes req) ''network'' s p v = v"
  "value_after (guest_writes req) ''network'' ''guest_turris'' ''ifname'' v = v"
  "value_after (guest_writes req) ''network'' ''guest_turris'' ''device'' v = Some (Str ''br-guest-turris'')"
  by (cases req; elim insertE emptyE; simp add: guest_writes_of guest_network_writes_def)
     (cases req; simp add: guest_writes_of guest_network_writes_def)+

lemma guest_keeps_ports:
  assumes "config_after (guest_writes req) ''network'' N = Some N1" "list_all write_wf (guest_writes req)" "ports_assignable N"
  shows "ports_assignable N1" "has_sec N1 ''br_guest_turris''" "anonymous_part N1 = anonymous_part N"
proof -
  note after = assms(1)
  show anon: "anonymous_part N1 = anonymous_part N"
    using anonymous_after [OF after guest_writes_named(1)] guest_writes_named(2) by simp
  have kept: "has_sec N1 s = has_sec N s" if "s \<in> {''wan'', ''lan'', ''br_wan'', ''br_lan''}" for s
  proof -
    have "s \<notin> section_of ` set (guest_writes req)" using that guest_sections by blast
    then show ?thesis by (rule config_after_has_sec_other [OF after])
  qed
  have same: "lk N1 s p = lk N s p" if "s \<in> {''wan'', ''lan'', ''br_wan'', ''br_lan''}" for s p
    unfolding follows_lk [OF config_after_follows [OF after], of s p] by (rule guest_values_kept(1) [OF that])
  have "lk N1 ''guest_turris'' ''ifname'' = lk N ''guest_turris'' ''ifname''"
    using follows_lk [OF config_after_follows [OF after]] by (simp add: guest_values_kept(2))
  with kept same anon config_after_wf [OF after assms(2)] assms(3) show "ports_assignable N1"
    by (simp add: ports_assignable_def bridge_names_def)
  have "lk N1 ''br_guest_turris'' ''type'' = Some (Str ''bridge'')"
    using follows_lk [OF config_after_follows [OF after]]
    by (cases req) (simp_all add: guest_writes_of guest_network_writes_def)
  then show "has_sec N1 ''br_guest_turris''" using lk_has_sec by simp
qed

text \<open>The values the sequence leaves.\<close>

lemma rest_values:
  assumes "ports_assignable N" "list_all (\<lambda>d. d \<noteq> []) (nr_wan networks)" "length (nr_wan networks) \<le> 1"
    and "follows (rest_writes N networks firewall mac) ''network'' N N'"
  shows "lk N' ''wan'' ''ifname'' = None" "lk N' ''lan'' ''ifname'' = None"
    and "lk N' ''guest_turris'' p = lk N ''guest_turris'' p"
    and "lk N' ''wan'' ''device'' = (case nr_wan networks of [] \<Rightarrow> None | d # _ \<Rightarrow> Some (Str d))"
    and "lk N' ''lan'' ''device'' = Some (Str ''br-lan'')"
    and "lk N' ''br_lan'' ''ports'' = (if nr_lan networks = [] then None else Some (Lst (nr_lan networks)))"
    and "lk N' ''br_guest_turris'' ''ports'' = (if nr_guest networks = [] then None else Some (Lst (nr_guest networks)))"
proof -
  have fw: "value_after (firewall_writes firewall) ''network'' s p v = v" for s p v
    by (rule value_after_other) (simp add: firewall_writes_def firewall_rule_writes_def)
  have wan: "value_after (wan_part N (nr_wan networks)) ''network'' s p v =
      (if s = ''wan'' \<and> p = ''device'' then (case nr_wan networks of [] \<Rightarrow> None | d # _ \<Rightarrow> Some (Str d)) else v)"
    if "\<not> startswith s ''cfg''" "s \<noteq> ''br_wan''" "p \<noteq> ''macaddr''" "p \<noteq> ''bridge_empty''" for s p v
    using that assms(2)
    by (cases "nr_wan networks"; cases "lk N ''br_wan'' ''macaddr''")
       (simp_all add: wan_part_def value_after_append deletions_value)
  have lan: "value_after (lan_part N (nr_lan networks) mac) ''network'' s p v =
      (if s = ''br_lan'' \<and> p = ''ports'' then (if nr_lan networks = [] then None else Some (Lst (nr_lan networks)))
       else if s = ''lan'' \<and> p = ''device'' \<and> \<not> has_sec N ''br_lan'' then Some (Str ''br-lan'') else v)"
    if "\<not> startswith s ''cfg''" "p \<notin> {''name'', ''type'', ''bridge_empty'', ''macaddr''}" for s p v
    using that
    by (cases mac; cases "has_sec N ''br_lan''")
       (simp_all add: lan_part_def set_bridge_ports_def create_bridge_def net_key_def value_after_append deletions_value Let_def
        eq_commute [of _ s] eq_commute [of _ p])
  note lk = follows_lk [OF assms(4)]
  note parts = rest_writes_def value_after_append set_bridge_ports_def net_key_def fw wan lan
  show "lk N' ''wan'' ''ifname'' = None" "lk N' ''lan'' ''ifname'' = None"
    "lk N' ''wan'' ''device'' = (case nr_wan networks of [] \<Rightarrow> None | d # _ \<Rightarrow> Some (Str d))"
    "lk N' ''lan'' ''device'' = Some (Str ''br-lan'')"
    "lk N' ''br_lan'' ''ports'' = (if nr_lan networks = [] then None else Some (Lst (nr_lan networks)))"
    "lk N' ''br_guest_turris'' ''ports'' = (if nr_guest networks = [] then None else Some (Lst (nr_guest networks)))"
    using assms(1) by (auto simp: lk parts ports_assignable_def)
  have "value_after (wan_part N (nr_wan networks)) ''network'' ''guest_turris'' p v = v"
    "value_after (lan_part N (nr_lan networks) mac) ''network'' ''guest_turris'' p v = v" for v
    by (auto simp: wan_part_def lan_part_def set_bridge_ports_def create_bridge_def net_key_def value_after_append
        deletions_value Let_def split: list.split option.split)
  then show "lk N' ''guest_turris'' p = lk N ''guest_turris'' p"
    by (simp add: lk rest_writes_def value_after_append set_bridge_ports_def net_key_def fw)
qed

section \<open>Reading the groups\<close>

lemma map_of_filter_key: "P k \<Longrightarrow> map_of (filter (\<lambda>a. P (fst a)) m) k = map_of m k"
  by (induction m) auto

lemma pop_all_present:
  "distinct ps \<Longrightarrow> set ps \<subseteq> fst ` set m \<Longrightarrow>
    pop_all ps m = (map (\<lambda>p. the (map_of m p)) ps, filter (\<lambda>a. fst a \<notin> set ps) m)"
proof (induction ps arbitrary: m)
  case (Cons p ps)
  let ?m = "filter (\<lambda>a. fst a \<noteq> p) m"
  obtain v where v: "map_of m p = Some v" using Cons.prems(2) map_of_eq_None_iff [of m p] by (cases "map_of m p") auto
  have del: "AList.delete p m = ?m" by (auto simp: AList.delete_eq intro!: filter_cong)
  have keys: "fst ` set ?m = fst ` set m - {p}" by force
  have "pop_all ps ?m = (map (\<lambda>q. the (map_of ?m q)) ps, filter (\<lambda>a. fst a \<notin> set ps) ?m)"
    using Cons.prems keys by (intro Cons.IH) auto
  moreover have "map (\<lambda>q. the (map_of ?m q)) ps = map (\<lambda>q. the (map_of m q)) ps"
    using Cons.prems(1)
    by (intro map_cong refl arg_cong [where f = the] map_of_filter_key [where P = "\<lambda>k. k \<noteq> p"]) auto
  moreover have "filter (\<lambda>a. fst a \<notin> set ps) ?m = filter (\<lambda>a. fst a \<notin> set (p # ps)) m"
    by (auto intro!: filter_cong)
  ultimately show ?case by (simp only: pop_all.simps v option.case del prod.case Let_def) (simp add: v)
qed simp

lemma pop_all_absent: "p \<notin> fst ` set m \<Longrightarrow> pop_all [p] m = ([], m)"
  by (simp add: map_of_eq_None_iff [THEN iffD2])

lemma no_anonymous_bridge:
  "bridge_names (''br-'' @ section) N = [] \<Longrightarrow> anonymous_bridge_ports [(''network'', N)] section = Inr (Lst [])"
proof -
  assume "bridge_names (''br-'' @ section) N = []"
  then have "filter (\<lambda>dev. startswith (sec_name dev) ''cfg'' \<and> map_of (sec_data dev) ''name'' = Some (Str (''br-'' @ section)))
      (filter (\<lambda>e. sec_type e = ''device'') N) = []"
    by (auto simp: bridge_names_def anonymous_part_def filter_empty_conv)
  then show ?thesis by (simp add: anonymous_bridge_ports_def get_sections_by_type_eq)
qed

lemma prepare_bridge:
  assumes "lk N section ''ifname'' = None" "lk N section ''device'' = Some (Str br)"
    and "lk N (dash_to_underscore br) ''ports'' = (if ps = [] then None else Some (Lst ps))"
    and "bridge_names (''br-'' @ section) N = []" "sort_by_natural_order ps = Inr qs"
    and "distinct ps" "set ps \<subseteq> fst ` set m" "br \<notin> fst ` set m"
  shows "prepare_network [(''network'', N)] section m =
    Inr (map (\<lambda>p. the (map_of m p)) qs, filter (\<lambda>a. fst a \<notin> set ps) m)"
proof -
  have qs: "mset qs = mset ps" using assms(5) natural_sort_ok [of ps] by auto
  then have "distinct qs" "set qs = set ps" using assms(6) mset_eq_imp_distinct_iff mset_eq_setD by blast+
  then have pop: "pop_all qs m = (map (\<lambda>p. the (map_of m p)) qs, filter (\<lambda>a. fst a \<notin> set ps) m)"
    using pop_all_present [of qs m] assms(7) by simp
  show ?thesis
  proof (cases "ps = []")
    case True
    then have "qs = []" using qs by simp
    then show ?thesis
      using True assms(1-3,8) no_anonymous_bridge [OF assms(4)] pop_all_absent [of br m]
      by (auto simp: prepare_network_def get_option_named_eq)
  next
    case False
    then show ?thesis
      using assms(1-3,5) pop by (simp add: prepare_network_def get_option_named_eq)
  qed
qed

text \<open>No anonymous bridge of the LAN or the guests is left.\<close>

lemma rest_writes_named: "list_all names_only (rest_writes N networks firewall mac)"
  by (simp add: port_write_defs deletions_facts Let_def split: list.split option.split)

lemma bridge_names_filter:
  "anonymous_part Y = filter (\<lambda>e. sec_name e \<notin> D) (anonymous_part X) \<Longrightarrow>
    bridge_names b Y = filter (\<lambda>s. s \<notin> D) (bridge_names b X)"
  by (simp add: bridge_names_def filter_map comp_def conj_ac)

lemma bridges_converted:
  assumes "ports_assignable N" "config_after (rest_writes N networks firewall mac) ''network'' N = Some N'"
  shows "bridge_names ''br-lan'' N' = []" "bridge_names ''br-guest_turris'' N' = []"
proof -
  let ?D = "{s. DelSection ''network'' s \<in> set (rest_writes N networks firewall mac)}"
  have names: "bridge_names b N' = filter (\<lambda>s. s \<notin> ?D) (bridge_names b N)" for b
    using anonymous_after [OF assms(2) rest_writes_named] by (intro bridge_names_filter) simp
  have "set (dropped_bridges ''lan'' N) \<subseteq> ?D"
    by (auto simp: rest_writes_def lan_part_def deletions_facts(4))
  then show "bridge_names ''br-lan'' N' = []"
    using assms(1) unfolding names by (auto simp: ports_assignable_def dropped_bridges_def filter_empty_conv)
  show "bridge_names ''br-guest_turris'' N' = []"
    using assms(1) unfolding names by (simp add: ports_assignable_def)
qed

section \<open>The transaction\<close>

text \<open>What a request may ask of the detected interfaces.\<close>

definition request_fits :: "iface list \<Rightarrow> networks_request \<Rightarrow> bool" where
  "request_fits wired networks \<longleftrightarrow> distinct (map i_id wired) \<and>
     distinct (nr_wan networks @ nr_lan networks @ nr_guest networks) \<and>
     set (nr_wan networks @ nr_lan networks @ nr_guest networks) \<subseteq> i_id ` set wired \<and>
     length (nr_wan networks) \<le> 1 \<and> [] \<notin> i_id ` set wired \<and>
     {''br-lan'', ''br-guest-turris''} \<inter> i_id ` set wired = {}"

definition by_id :: "iface list \<Rightarrow> ports_map" where
  "by_id wired = map (\<lambda>v. (i_id v, v)) wired"

text \<open>
  The wired groups that \<^verbatim>\<open>get_settings\<close> shows with the uplink in wired mode, where
  \<open>fetch_active_wan_device\<close> is \<open>wired_wan_device\<close>.
\<close>

definition shown_groups :: "uci_data \<Rightarrow> iface list \<Rightarrow> groups res" where
  "shown_groups data wired =
     bindE (wired_wan_device data) (\<lambda>d. bindE (pop_wan d (by_id wired)) (wired_groups data))"

lemma lookup_by_id:
  "\<forall>a\<in>set m. i_id (snd a) = fst a \<Longrightarrow> set ps \<subseteq> fst ` set m \<Longrightarrow> map (\<lambda>p. i_id (the (map_of m p))) ps = ps"
proof (intro map_idI)
  fix p assume m: "\<forall>a\<in>set m. i_id (snd a) = fst a" "set ps \<subseteq> fst ` set m" "p \<in> set ps"
  then obtain v where "map_of m p = Some v" using map_of_eq_None_iff [of m p] by (cases "map_of m p") auto
  then show "i_id (the (map_of m p)) = p" using m(1) map_of_SomeD by fastforce
qed

lemma snd_filter_by_id: "map snd (filter P (by_id wired)) = filter (\<lambda>v. P (i_id v, v)) wired"
  by (induction wired) (auto simp: by_id_def)

lemma filter_keys: "fst ` set (filter (\<lambda>a. fst a \<notin> A) m) = fst ` set m - A"
  by force

lemma groups_assigned:
  assumes "ports_assignable N" "request_fits wired networks"
    and "lk N ''guest_turris'' ''device'' = Some (Str ''br-guest-turris'')"
    and "config_after (rest_writes N networks firewall mac) ''network'' N = Some N'"
  shows "\<exists>g. shown_groups [(''network'', N')] wired = Inr g \<and> map i_id (gr_wan g) = nr_wan networks \<and>
    mset (map i_id (gr_lan g)) = mset (nr_lan networks) \<and> mset (map i_id (gr_guest g)) = mset (nr_guest networks) \<and>
    gr_none g = filter (\<lambda>v. i_id v \<notin> set (nr_wan networks @ nr_lan networks @ nr_guest networks)) wired"
proof -
  let ?m = "by_id wired"
  note fits = assms(2) [unfolded request_fits_def]
  have keys: "fst ` set ?m = i_id ` set wired" by (force simp: by_id_def)
  have full: "list_all (\<lambda>d. d \<noteq> []) (nr_wan networks)" "length (nr_wan networks) \<le> 1" using fits by (auto simp: list_all_iff)
  note vals = rest_values [OF assms(1) full config_after_follows [OF assms(4)]]
  note gone = bridges_converted [OF assms(1,4)]
  obtain lan where lan: "sort_by_natural_order (nr_lan networks) = Inr lan" "mset lan = mset (nr_lan networks)"
    using natural_sort_ok [of "nr_lan networks"] by blast
  obtain guest where guest: "sort_by_natural_order (nr_guest networks) = Inr guest" "mset guest = mset (nr_guest networks)"
    using natural_sort_ok [of "nr_guest networks"] by blast
  let ?m1 = "filter (\<lambda>a. fst a \<notin> set (nr_wan networks)) ?m"
  let ?m2 = "filter (\<lambda>a. fst a \<notin> set (nr_lan networks)) ?m1"
  let ?wan = "map (\<lambda>p. the (map_of ?m p)) (nr_wan networks)"
  have "pop_all (nr_wan networks) ?m = (?wan, ?m1)" using fits keys by (intro pop_all_present) auto
  then have wan: "bindE (wired_wan_device [(''network'', N')]) (\<lambda>d. pop_wan d ?m) = Inr (?wan, ?m1)"
    using vals(1,4) full by (cases "nr_wan networks")
      (auto simp: wired_wan_device_def get_option_named_eq pop_wan_def split: option.splits)
  have k: "set (nr_lan networks) \<subseteq> fst ` set ?m1" "''br-lan'' \<notin> fst ` set ?m1"
    "set (nr_guest networks) \<subseteq> fst ` set ?m2" "''br-guest-turris'' \<notin> fst ` set ?m2"
    unfolding filter_keys keys using fits by auto
  have l: "prepare_network [(''network'', N')] ''lan'' ?m1 = Inr (map (\<lambda>p. the (map_of ?m1 p)) lan, ?m2)"
    using vals(6) gone(1) fits by (intro prepare_bridge [OF vals(2,5) _ _ lan(1) _ k(1,2)]) (simp_all add: dash_to_underscore_def)
  have g: "prepare_network [(''network'', N')] ''guest_turris'' ?m2 = Inr (map (\<lambda>p. the (map_of ?m2 p)) guest,
      filter (\<lambda>a. fst a \<notin> set (nr_guest networks)) ?m2)"
    using vals(3,7) gone(2) fits assms(1,3)
    by (intro prepare_bridge [OF _ _ _ _ guest(1) _ k(3,4)]) (simp_all add: dash_to_underscore_def ports_assignable_def)
  have all: "\<forall>a\<in>set ?m. i_id (snd a) = fst a" by (auto simp: by_id_def)
  have sets: "set lan = set (nr_lan networks)" "set guest = set (nr_guest networks)"
    using mset_eq_setD [OF lan(2)] mset_eq_setD [OF guest(2)] .
  have ids1: "map (\<lambda>p. i_id (the (map_of ?m p))) (nr_wan networks) = nr_wan networks"
    using fits keys by (intro lookup_by_id all) simp
  have ids2: "map (\<lambda>p. i_id (the (map_of ?m1 p))) lan = lan"
    using k(1) unfolding sets(1) [symmetric] by (intro lookup_by_id) (simp_all add: all)
  have ids3: "map (\<lambda>p. i_id (the (map_of ?m2 p))) guest = guest"
    using k(3) unfolding sets(2) [symmetric] by (intro lookup_by_id) (simp_all add: all)
  let ?g = "\<lparr>gr_wan = ?wan, gr_lan = map (\<lambda>p. the (map_of ?m1 p)) lan, gr_guest = map (\<lambda>p. the (map_of ?m2 p)) guest,
     gr_none = map snd (filter (\<lambda>a. fst a \<notin> set (nr_guest networks)) ?m2)\<rparr>"
  have "shown_groups [(''network'', N')] wired = bindE (bindE (wired_wan_device [(''network'', N')]) (\<lambda>d. pop_wan d ?m))
      (wired_groups [(''network'', N')])"
    by (cases "wired_wan_device [(''network'', N')]") (simp_all add: shown_groups_def)
  also have "\<dots> = Inr ?g" by (simp only: wan wired_groups_def bindE_simps fst_conv snd_conv prod.case l g)
  finally have "shown_groups [(''network'', N')] wired = Inr ?g" .
  moreover have "gr_none ?g = filter (\<lambda>v. i_id v \<notin> set (nr_wan networks @ nr_lan networks @ nr_guest networks)) wired"
    by (simp add: snd_filter_by_id conj_ac)
  ultimately show ?thesis
    using ids1 ids2 ids3 lan(2) guest(2) by (intro exI [of _ ?g]) (simp add: comp_def)
qed

section \<open>Running the update\<close>

lemma configured_guest_on: "configured_guest data dhcp = Inr req \<Longrightarrow> guest_wanted req \<and> wanted_qos req = None"
  by (auto simp: configured_guest_def bindE_eq_Inr split: prod.splits)

lemma exec_configured_guest:
  assumes "staged (ext t) ''network'' = Some N" "staged (ext t) ''firewall'' = Some F"
    "staged (ext t) ''dhcp'' = Some D" "staged (ext t) ''sqm'' = Some Q"
    "wf_config N" "wf_config D" "configured_guest [(''network'', N)] [(''dhcp'', D)] = Inr req"
  shows "\<exists>m t' cs N' F' D' Q'. enable_guest_network (ref_env nm cd ord) t = (Ret (), t') \<and> staged_as t m cs t' \<and>
    cs \<subseteq> {''network'', ''firewall'', ''dhcp'', ''sqm''} \<and>
    m = (staged (ext t))(''network'' \<mapsto> N', ''firewall'' \<mapsto> F', ''dhcp'' \<mapsto> D', ''sqm'' \<mapsto> Q') \<and>
    config_after (guest_writes req) ''network'' N = Some N' \<and> config_after (guest_writes req) ''firewall'' F = Some F' \<and>
    config_after (guest_writes req) ''dhcp'' D = Some D' \<and> follows [] ''sqm'' (del_sec ''guest_limit_turris'' Q) Q'"
proof -
  let ?R = "ref_env nm cd ord"
  obtain m t' cs N' F' D' Q' where run: "set_guest_network ?R req t = (Ret (Some ''disable''), t')" and out: "staged_as t m cs t'"
    "cs \<subseteq> {''network'', ''firewall'', ''dhcp'', ''sqm''}"
    "m = (staged (ext t))(''network'' \<mapsto> N', ''firewall'' \<mapsto> F', ''dhcp'' \<mapsto> D', ''sqm'' \<mapsto> Q')"
    "config_after (guest_writes req) ''network'' N = Some N'" "config_after (guest_writes req) ''firewall'' F = Some F'"
    "config_after (guest_writes req) ''dhcp'' D = Some D'" "follows [] ''sqm'' (del_sec ''guest_limit_turris'' Q) Q'"
    using exec_set_guest_network [OF assms(1-4), of nm cd ord req] configured_guest_on [OF assms(7)] by auto
  have "read_uci ?R ''network'' t = (Ret [(''network'', N)], t)" "read_uci ?R ''dhcp'' t = (Ret [(''dhcp'', D)], t)"
    using assms by (simp_all add: exec_read_uci)
  then have "enable_guest_network ?R t = (Ret (), t')"
    using run assms(7)
    by (cases "lk N ''guest_turris'' ''proto''")
       (simp_all add: enable_guest_network_def bindP_def lift_def tryP_def get_option_named_eq ret_def)
  then show ?thesis using out by (intro exI conjI)
qed

lemma exec_networks_body:
  assumes "staged (ext t) ''network'' = Some N" "staged (ext t) ''firewall'' = Some F"
    "staged (ext t) ''dhcp'' = Some D" "staged (ext t) ''sqm'' = Some Q" "wf_config D" "ports_assignable N"
    "configured_guest [(''network'', N)] [(''dhcp'', D)] = Inr req" "list_all write_wf (guest_writes req)"
    "length (nr_wan networks) \<le> 1"
  shows "\<exists>m t' cs mac N1 N' F1 F' D' Q'. networks_update_body (ref_env nm cd ord) firewall networks t = (Ret (), t') \<and>
    staged_as t m cs t' \<and> cs \<subseteq> {''network'', ''firewall'', ''dhcp'', ''sqm''} \<and>
    m = (staged (ext t))(''network'' \<mapsto> N', ''firewall'' \<mapsto> F', ''dhcp'' \<mapsto> D', ''sqm'' \<mapsto> Q') \<and>
    config_after (guest_writes req) ''network'' N = Some N1 \<and>
    config_after (rest_writes N1 networks firewall mac) ''network'' N1 = Some N' \<and>
    config_after (guest_writes req) ''firewall'' F = Some F1 \<and>
    config_after (rest_writes N1 networks firewall mac) ''firewall'' F1 = Some F' \<and>
    follows [] ''sqm'' (del_sec ''guest_limit_turris'' Q) Q'"
proof -
  let ?R = "ref_env nm cd ord"
  have N: "wf_config N" using assms(6) by (simp add: ports_assignable_def)
  obtain m1 t1 cs1 N1 F1 D1 Q1 where run: "enable_guest_network ?R t = (Ret (), t1)" and s1: "staged_as t m1 cs1 t1"
    and cs1: "cs1 \<subseteq> {''network'', ''firewall'', ''dhcp'', ''sqm''}"
    and m1: "m1 = (staged (ext t))(''network'' \<mapsto> N1, ''firewall'' \<mapsto> F1, ''dhcp'' \<mapsto> D1, ''sqm'' \<mapsto> Q1)"
    and g: "config_after (guest_writes req) ''network'' N = Some N1" "config_after (guest_writes req) ''firewall'' F = Some F1"
    and q: "follows [] ''sqm'' (del_sec ''guest_limit_turris'' Q) Q1"
    using exec_configured_guest [OF assms(1-4) N assms(5,7), of nm cd ord] by (elim exE conjE)
  note keeps = guest_keeps_ports [OF g(1) assms(8,6)]
  have at1: "staged (ext t1) = m1" using s1 by (simp add: staged_as_def)
  obtain mac where lan: "network_writes [(''network'', N1)] ''lan'' (nr_lan networks) = Inr (lan_part N1 (nr_lan networks) mac)"
    using network_writes_lan keeps(1) ports_assignable_def by blast
  have wan: "network_writes [(''network'', N1)] ''wan'' (nr_wan networks) = Inr (wan_part N1 (nr_wan networks))"
    using network_writes_wan keeps(1) assms(9) ports_assignable_def by blast
  let ?ws = "rest_writes N1 networks firewall mac"
  obtain m2 t2 where t2: "writes ?R ?ws t1 = (Ret (), t2)" "staged_as t1 m2 {''network'', ''firewall''} t2"
    and after: "\<forall>c X. staged (ext t1) c = Some X \<longrightarrow> (\<exists>Y. staged (ext t2) c = Some Y \<and> config_after ?ws c X = Some Y)"
    using exec_known [OF rest_writes_valid [OF keeps(1)] rest_writes_known [OF keeps(1,2)], of t1 networks firewall mac nm cd ord]
    unfolding rest_writes_configs at1 m1 by auto
  have at2: "staged (ext t1) ''network'' = Some N1" "staged (ext t1) ''firewall'' = Some F1" by (simp_all add: at1 m1)
  obtain N' F' where c: "staged (ext t2) ''network'' = Some N'" "config_after ?ws ''network'' N1 = Some N'"
    "staged (ext t2) ''firewall'' = Some F'" "config_after ?ws ''firewall'' F1 = Some F'"
    using after [rule_format, OF at2(1)] after [rule_format, OF at2(2)] by blast
  have read: "read_uci ?R ''network'' t1 = (Ret [(''network'', N1)], t1)"
    using keeps(1) at1 m1 by (intro exec_read_uci) (simp_all add: ports_assignable_def)
  have "networks_update_body ?R firewall networks t = (Ret (), t2)"
    using t2(1) wan lan run read unfolding rest_writes_def writes_append
    by (auto simp: networks_update_body_def assign_ports_def bindP_def lift_def split: prod.splits outcome.splits)
  moreover have sa: "staged_as t m2 (cs1 \<union> {''network'', ''firewall''}) t2" by (rule staged_as_trans [OF s1 t2(2)])
  moreover have "m2 c = ((staged (ext t))(''network'' \<mapsto> N', ''firewall'' \<mapsto> F', ''dhcp'' \<mapsto> D1, ''sqm'' \<mapsto> Q1)) c" for c
    using t2(2) c(1,3) at1 m1 unfolding staged_as_def by (cases "c = ''network'' \<or> c = ''firewall''") auto
  ultimately show ?thesis using cs1 g c(2,4) q by blast
qed

text \<open>The same over every tool: the sections to delete are named by the config that was read.\<close>

lemma network_writes_valid:
  assumes "ports_assignable N" "net = ''wan'' \<and> length ifs \<le> 1 \<or> net = ''lan''"
    and "network_writes [(''network'', N)] net ifs = Inr ws"
  shows "list_all write_names_valid ws"
proof -
  have "list_all write_names_valid (wan_part N ifs)"
    using dropped_facts(2) [OF assms(1)] by (simp add: wan_part_def deletions_facts split: list.split option.split)
  moreover have "list_all write_names_valid (lan_part N ifs mac)" for mac
    using dropped_facts(2) [OF assms(1)]
    by (cases mac) (simp_all add: lan_part_def set_bridge_ports_def create_bridge_def net_key_def Let_def deletions_facts)
  moreover have "(\<exists>mac. ws = lan_part N ifs mac) \<or> ws = wan_part N ifs"
    using assms(2)
  proof (elim disjE conjE)
    assume "net = ''wan''" "length ifs \<le> 1"
    then show ?thesis using network_writes_wan [of N ifs] assms(1,3) by (simp add: ports_assignable_def)
  next
    assume "net = ''lan''"
    moreover have "lk N ''lan'' ''ifname'' = None" using assms(1) by (simp add: ports_assignable_def)
    ultimately show ?thesis using network_writes_lan [of N ifs] assms(3) by auto
  qed
  ultimately show ?thesis by auto
qed

context uci_tool
begin

lemma sim_enable_guest: "sim (rel view) (enable_guest_network E) (enable_guest_network R)"
  unfolding enable_guest_network_def by (intro sim_intros sim_read_uci sim_set_guest_network) simp_all

lemma sim_assign_ports:
  assumes "ports_assignable N" "length (nr_wan networks) \<le> 1"
  shows "sim (rel view) (assign_ports E [(''network'', N)] firewall networks) (assign_ports R [(''network'', N)] firewall networks)"
proof -
  have valid: "list_all write_names_valid (firewall_writes firewall)" "list_all write_names_valid (set_bridge_ports ''guest'' ifs)" for ifs
    by (simp_all add: firewall_writes_def firewall_rule_writes_def set_bridge_ports_def net_key_def)
  have wan: "list_all write_names_valid ws" if "network_writes [(''network'', N)] ''wan'' (nr_wan networks) = Inr ws" for ws
    using network_writes_valid [OF assms(1) _ that] assms(2) by simp
  have lan: "list_all write_names_valid ws" if "network_writes [(''network'', N)] ''lan'' (nr_lan networks) = Inr ws" for ws
    using network_writes_valid [OF assms(1) _ that] by simp
  show ?thesis
    unfolding assign_ports_def
    by (rule sim_bindP [OF sim_writes [OF valid(2)] sim_bindP [OF sim_lift_writes [OF wan]
          sim_bindP [OF sim_lift_writes [OF lan] sim_writes [OF valid(1)]]]])
qed

lemma sim_at_networks_body:
  assumes "rel view s t" "staged (ext t) ''network'' = Some N" "staged (ext t) ''firewall'' = Some F"
    "staged (ext t) ''dhcp'' = Some D" "staged (ext t) ''sqm'' = Some Q" "wf_config D" "ports_assignable N"
    "configured_guest [(''network'', N)] [(''dhcp'', D)] = Inr req" "list_all write_wf (guest_writes req)"
    "length (nr_wan networks) \<le> 1"
  shows "sim_at (rel view) (networks_update_body E firewall networks) (networks_update_body R firewall networks) s t"
proof -
  have N: "wf_config N" using assms(7) by (simp add: ports_assignable_def)
  obtain m1 t1 cs1 N1 F1 D1 Q1 where run: "enable_guest_network R t = (Ret (), t1)" and s1: "staged_as t m1 cs1 t1"
    and m1: "m1 = (staged (ext t))(''network'' \<mapsto> N1, ''firewall'' \<mapsto> F1, ''dhcp'' \<mapsto> D1, ''sqm'' \<mapsto> Q1)"
    and g: "config_after (guest_writes req) ''network'' N = Some N1"
    using exec_configured_guest [OF assms(2-5) N assms(6,8), of nm "env_config_dir E" "env_set_order E"] by (elim exE conjE)
  note keeps = guest_keeps_ports [OF g assms(9,7)]
  have at1: "staged (ext t1) ''network'' = Some N1" "wf_config N1"
    using s1 m1 keeps(1) by (simp_all add: staged_as_def ports_assignable_def)
  show ?thesis
    unfolding networks_update_body_def
  proof (rule sim_at_bindP [OF sim_atI [OF sim_enable_guest assms(1)]])
    fix x s' t' assume "enable_guest_network R t = (Ret x, t')" "rel view s' t'"
    then have rel: "rel view s' t1" "t' = t1" using run by auto
    show "sim_at (rel view) (bindP (read_uci E ''network'') (\<lambda>data. assign_ports E data firewall networks))
        (bindP (read_uci R ''network'') (\<lambda>data. assign_ports R data firewall networks)) s' t'"
      unfolding rel(2)
    proof (rule sim_at_read [OF rel(1)])
      fix d s2 assume "read_uci R ''network'' t1 = (Ret d, t1)" and s2: "rel view s2 t1"
      then have d: "d = [(''network'', N1)]" using exec_read_uci [OF at1] by auto
      show "sim_at (rel view) (assign_ports E d firewall networks) (assign_ports R d firewall networks) s2 t1"
        unfolding d by (rule sim_atI [OF sim_assign_ports [OF keeps(1) assms(10)] s2])
    qed simp
  qed
qed

end

section \<open>Reading back\<close>

lemma rest_firewall:
  "value_after (rest_writes N networks firewall mac) ''firewall'' s p v = value_after (firewall_writes firewall) ''firewall'' s p v"
proof -
  have "value_after ws ''firewall'' s p v = v" if "\<forall>w\<in>set ws. config_of w = ''network''" for ws v
    using that by (intro value_after_other) auto
  moreover have "\<forall>w\<in>set (set_bridge_ports ''guest'' ifs). config_of w = ''network''"
    "\<forall>w\<in>set (wan_part N ifs). config_of w = ''network''" "\<forall>w\<in>set (lan_part N ifs mac). config_of w = ''network''" for ifs
    by (auto simp: wan_part_def lan_part_def deletions_def set_bridge_ports_def create_bridge_def net_key_def Let_def
        split: list.split option.split if_splits)
  ultimately show ?thesis by (simp add: rest_writes_def value_after_append)
qed

lemma flags_after:
  assumes "config_after (guest_writes req) ''network'' N = Some N1" "config_after (guest_writes req) ''firewall'' F = Some F1"
    and "config_after (rest_writes N1 networks firewall mac) ''firewall'' F1 = Some F'"
    and "guest_wanted req" "\<And>p. lk N' ''guest_turris'' p = lk N1 ''guest_turris'' p"
  shows "firewall_flag [(''firewall'', F')] ''wan_ssh_turris_rule'' = Inr (fr_ssh_on_wan firewall)"
    and "firewall_flag [(''firewall'', F')] ''wan_http_turris_rule'' = Inr (fr_http_on_wan firewall)"
    and "firewall_flag [(''firewall'', F')] ''wan_https_turris_rule'' = Inr (fr_https_on_wan firewall)"
    and "get_guest_enabled [(''network'', N')] [(''firewall'', F')] = Inr True"
proof -
  note lk = follows_lk [OF config_after_follows [OF assms(3)]]
  show "firewall_flag [(''firewall'', F')] ''wan_ssh_turris_rule'' = Inr (fr_ssh_on_wan firewall)"
    "firewall_flag [(''firewall'', F')] ''wan_http_turris_rule'' = Inr (fr_http_on_wan firewall)"
    "firewall_flag [(''firewall'', F')] ''wan_https_turris_rule'' = Inr (fr_https_on_wan firewall)"
    by (simp_all add: firewall_flag_def get_option_named_eq lk rest_firewall firewall_writes_def firewall_rule_writes_def)
  have net: "lk N' ''guest_turris'' ''enabled'' = Some (Str (store_bool True))"
    using assms(4) unfolding assms(5) follows_lk [OF config_after_follows [OF assms(1)]] guest_writes_of
    by (cases req) (simp_all add: guest_network_writes_def)
  have "lk F' s ''enabled'' = Some (Str (store_bool True))"
    if "s \<in> {''guest_turris'', ''guest_turris_forward_wan'', ''guest_turris_dhcp_rule'', ''guest_turris_dns_rule''}" for s
  proof -
    have "lk F' s ''enabled'' = lk F1 s ''enabled''"
      using that by (auto simp: lk rest_firewall firewall_writes_def firewall_rule_writes_def)
    then show ?thesis
      by (simp add: follows_lk [OF config_after_follows [OF assms(2)]] guest_writes_of guest_firewall_enabled [OF that] assms(4))
  qed
  note fw = this [of "''guest_turris''"] this [of "''guest_turris_forward_wan''"] this [of "''guest_turris_dhcp_rule''"]
    this [of "''guest_turris_dns_rule''"]
  show "get_guest_enabled [(''network'', N')] [(''firewall'', F')] = Inr True"
    using fw by (simp add: get_guest_enabled_def guest_flag_def get_option_named_eq net)
qed

definition demo_ports :: "usection list" where
  "demo_ports =
     [\<lparr>sec_type = ''interface'', sec_name = ''lan'', sec_data = [(''proto'', Str ''static''), (''device'', Str ''br-lan'')],
        anonymous = False\<rparr>,
      \<lparr>sec_type = ''device'', sec_name = ''cfg030f15'', sec_data = [(''name'', Str ''br-lan''), (''type'', Str ''bridge''),
         (''ports'', Lst [''lan1'', ''lan2'', ''lan3'']), (''macaddr'', Str ''d8:58:d7:00:00:01'')], anonymous = True\<rparr>,
      \<lparr>sec_type = ''interface'', sec_name = ''wan'', sec_data = [(''proto'', Str ''dhcp''), (''device'', Str ''eth2'')],
        anonymous = False\<rparr>]"

definition demo_wired :: "iface list" where
  "demo_wired = map demo_iface [''eth2'', ''lan1'', ''lan2'', ''lan3'', ''sfp'']"

definition demo_assignment :: networks_request where
  "demo_assignment = \<lparr>nr_wan = [''sfp''], nr_lan = [''lan3'', ''eth2''], nr_guest = [''lan1''], nr_none = [''lan2'']\<rparr>"

definition demo_ports_router :: "store st" where
  "demo_ports_router = demo_state [''network'' \<mapsto> demo_ports, ''firewall'' \<mapsto> [], ''dhcp'' \<mapsto> [], ''sqm'' \<mapsto> []]"

text \<open>
  C12: ports are shown in the networks to which they were assigned, where the config is one that
  the update can convert. The conditions: the interfaces are written in the current syntax, with
  no \<^verbatim>\<open>ifname\<close>; the bridge of the LAN is the device \<^verbatim>\<open>br-lan\<close>, be its section named or
  anonymous, or there is none; there is no anonymous bridge \<^verbatim>\<open>br-guest_turris\<close>, which the update
  would not delete although the reader looks for its ports; and the request gives each detected
  wired interface to one network at most, at most one to the WAN. Then, over every uci tool, the
  transaction of an update commits exactly the four configs, and the reader, with the uplink in
  wired mode, shows the requested port as WAN, the requested ports in LAN and guest, and all
  others unassigned; the firewall flags read as requested. The update also enables the guest
  network and drops its QoS limits.
\<close>

theorem assigned_ports_read_back:
  assumes "uci_tool E nm view" "ready view s"
    and "committed (view (ext s)) ''network'' = Some N" "committed (view (ext s)) ''firewall'' = Some F"
    and "committed (view (ext s)) ''dhcp'' = Some D" "committed (view (ext s)) ''sqm'' = Some Q"
    and "ports_assignable N" "wf_config D" "configured_guest [(''network'', N)] [(''dhcp'', D)] = Inr req"
    and "list_all write_wf (guest_writes req)" "request_fits wired networks"
  shows "\<exists>s' N' F' D' Q' g. with_uci E (networks_update_body E firewall networks) s = (Ret (), s') \<and>
    committed (view (ext s')) = (committed (view (ext s)))
      (''network'' \<mapsto> N', ''firewall'' \<mapsto> F', ''dhcp'' \<mapsto> D', ''sqm'' \<mapsto> Q') \<and>
    shown_groups [(''network'', N')] wired = Inr g \<and> map i_id (gr_wan g) = nr_wan networks \<and>
    mset (map i_id (gr_lan g)) = mset (nr_lan networks) \<and> mset (map i_id (gr_guest g)) = mset (nr_guest networks) \<and>
    gr_none g = filter (\<lambda>v. i_id v \<notin> set (nr_wan networks @ nr_lan networks @ nr_guest networks)) wired \<and>
    firewall_flag [(''firewall'', F')] ''wan_ssh_turris_rule'' = Inr (fr_ssh_on_wan firewall) \<and>
    firewall_flag [(''firewall'', F')] ''wan_http_turris_rule'' = Inr (fr_http_on_wan firewall) \<and>
    firewall_flag [(''firewall'', F')] ''wan_https_turris_rule'' = Inr (fr_https_on_wan firewall) \<and>
    get_guest_enabled [(''network'', N')] [(''firewall'', F')] = Inr True \<and>
    read_qos [(''sqm'', Q')] ''guest_limit_turris'' = Inr \<lparr>q_enabled = False, q_upload = 1024, q_download = 1024\<rparr>"
proof -
  let ?t = "opened (abs_st view s)" and ?R = "ref_env nm (env_config_dir E) (env_set_order E)"
  note at = assms(3-6) [folded opened_staged [of view s]]
  have fits: "length (nr_wan networks) \<le> 1" "list_all (\<lambda>d. d \<noteq> []) (nr_wan networks)"
    using assms(11) by (auto simp: request_fits_def list_all_iff)
  obtain m t' cs mac N1 N' F1 F' D' Q' where run: "networks_update_body ?R firewall networks ?t = (Ret (), t')"
    and sa: "staged_as ?t m cs t'" and cs: "cs \<subseteq> {''network'', ''firewall'', ''dhcp'', ''sqm''}"
    and m: "m = (staged (ext ?t))(''network'' \<mapsto> N', ''firewall'' \<mapsto> F', ''dhcp'' \<mapsto> D', ''sqm'' \<mapsto> Q')"
    and net: "config_after (guest_writes req) ''network'' N = Some N1"
      "config_after (rest_writes N1 networks firewall mac) ''network'' N1 = Some N'"
    and fw: "config_after (guest_writes req) ''firewall'' F = Some F1"
      "config_after (rest_writes N1 networks firewall mac) ''firewall'' F1 = Some F'"
    and qos: "follows [] ''sqm'' (del_sec ''guest_limit_turris'' Q) Q'"
    using exec_networks_body [OF at assms(8,7,9,10) fits(1), of nm "env_config_dir E" "env_set_order E" firewall]
    by (elim exE conjE)
  note keeps = guest_keeps_ports [OF net(1) assms(10,7)]
  have touched: "\<forall>c\<in>cs. valid_name c \<and> m c \<noteq> None" using cs by (auto simp: m)
  obtain s' where s': "with_uci E (networks_update_body E firewall networks) s = (Ret (), s')" "committed (view (ext s')) = m"
    using staged_transaction_at [where body' = "\<lambda>R. networks_update_body R firewall networks", OF assms(1,2) _ run sa]
      uci_tool.sim_at_networks_body [OF assms(1) _ at assms(8,7,9,10) fits(1)] touched by blast
  have device: "lk N1 ''guest_turris'' ''device'' = Some (Str ''br-guest-turris'')"
    unfolding follows_lk [OF config_after_follows [OF net(1)]] by (rule guest_values_kept(3))
  obtain g where g: "shown_groups [(''network'', N')] wired = Inr g" "map i_id (gr_wan g) = nr_wan networks"
    "mset (map i_id (gr_lan g)) = mset (nr_lan networks)" "mset (map i_id (gr_guest g)) = mset (nr_guest networks)"
    "gr_none g = filter (\<lambda>v. i_id v \<notin> set (nr_wan networks @ nr_lan networks @ nr_guest networks)) wired"
    using groups_assigned [OF keeps(1) assms(11) device net(2)] by (elim exE conjE)
  note flags = flags_after [OF net(1) fw configured_guest_on [OF assms(9), THEN conjunct1]
      rest_values(3) [OF keeps(1) fits(2,1) config_after_follows [OF net(2)]]]
  show ?thesis
    by (intro exI conjI) (rule s' s'(2) [unfolded m opened_staged] g flags guest_qos_off [OF qos])+
qed

lemma assigned_ports_read_back_witness:
  "\<exists>s' N' F' D' Q' g. with_uci demo_env (networks_update_body demo_env \<lparr>fr_ssh_on_wan = True, fr_http_on_wan = False,
        fr_https_on_wan = True\<rparr> demo_assignment) demo_ports_router = (Ret (), s') \<and>
    committed (ext s') = (committed (ext demo_ports_router))
      (''network'' \<mapsto> N', ''firewall'' \<mapsto> F', ''dhcp'' \<mapsto> D', ''sqm'' \<mapsto> Q') \<and>
    shown_groups [(''network'', N')] demo_wired = Inr g \<and> map i_id (gr_wan g) = [''sfp''] \<and>
    mset (map i_id (gr_lan g)) = {#''lan3'', ''eth2''#} \<and> mset (map i_id (gr_guest g)) = {#''lan1''#} \<and>
    gr_none g = [demo_iface ''lan2''] \<and>
    firewall_flag [(''firewall'', F')] ''wan_ssh_turris_rule'' = Inr True \<and>
    firewall_flag [(''firewall'', F')] ''wan_http_turris_rule'' = Inr False \<and>
    firewall_flag [(''firewall'', F')] ''wan_https_turris_rule'' = Inr True \<and>
    get_guest_enabled [(''network'', N')] [(''firewall'', F')] = Inr True \<and>
    read_qos [(''sqm'', Q')] ''guest_limit_turris'' = Inr \<lparr>q_enabled = False, q_upload = 1024, q_download = 1024\<rparr>"
proof -
  have wf: "wf_config demo_ports"
    by (simp add: demo_ports_def wf_config_def wf_section_def wf_name_def wf_text_def is_space_def is_linebreak_def
        is_anonymous_name_def is_hex_lower_def)
  have anon: "anonymous_part demo_ports = [demo_ports ! 1]" by (simp add: anonymous_part_def demo_ports_def)
  have ports: "ports_assignable demo_ports"
    by (simp add: ports_assignable_def wf anon bridge_names_def)
       (simp add: demo_ports_def has_sec_def find_sec_def lk_def valid_name_def name_char_def)
  let ?req = "GuestOn \<lparr>gs_ip = ''10.111.222.1'', gs_netmask = ''255.255.255.0'',
    gs_dhcp = \<lparr>dr_enabled = True, dr_start = 100, dr_limit = 150, dr_lease_time = 3600\<rparr>, gs_qos = None\<rparr>"
  have req: "configured_guest [(''network'', demo_ports)] [(''dhcp'', [])] = Inr ?req" by code_simp
  have "wf_text (store_bool b)" "wf_text (show_int i)" "wf_text (lease_text 3600)" for b i
    by (simp_all add: lease_text_def wf_intros)
  then have writes: "list_all write_wf (guest_writes ?req)"
    by (simp add: guest_write_defs) (simp add: wf_name_def wf_text_def is_space_def is_linebreak_def is_anonymous_name_def)
  have fits: "request_fits demo_wired demo_assignment"
    by (simp add: request_fits_def demo_wired_def demo_assignment_def demo_iface_def)
  have state: "ready (\<lambda>\<sigma>. \<sigma>) demo_ports_router" "committed (ext demo_ports_router) ''network'' = Some demo_ports"
    "committed (ext demo_ports_router) ''firewall'' = Some []" "committed (ext demo_ports_router) ''dhcp'' = Some []"
    "committed (ext demo_ports_router) ''sqm'' = Some []"
    by (simp_all add: demo_ports_router_def ready_def)
  show ?thesis
    using assigned_ports_read_back [OF demo_tool state ports wf_config_Nil req writes fits,
        of "\<lparr>fr_ssh_on_wan = True, fr_http_on_wan = False, fr_https_on_wan = True\<rparr>"]
    by (simp add: demo_assignment_def demo_wired_def demo_iface_def)
qed

end
