(* ===== verification/Messages.thy ===== *)
theory Messages
  imports PyStr
begin

text \<open>
  The messages of the controller: JSON values, the router of
  \<^verbatim>\<open>foris_controller/message_router.py\<close>, \<^verbatim>\<open>BaseModule.perform_action\<close> of
  \<^verbatim>\<open>module_base.py\<close> and \<^verbatim>\<open>BaseNotificationSender\<close> of \<^verbatim>\<open>buses/base.py\<close>. The validator of the
  schemas is a parameter.
\<close>

section \<open>JSON values\<close>

text \<open>Objects have distinct keys, as a parsed \<^verbatim>\<open>dict\<close> has.\<close>

datatype json =
    JNull
  | JBool bool
  | JNum int
  | JStr string
  | JArr "json list"
  | JObj "(string \<times> json) list"

text \<open>\<^verbatim>\<open>v[k]\<close> and \<^verbatim>\<open>v.get(k, d)\<close> with a string key.\<close>

fun jget :: "json \<Rightarrow> string \<Rightarrow> json res" where
  "jget (JObj kv) k = (case map_of kv k of None \<Rightarrow> Inl (KeyError k) | Some v \<Rightarrow> Inr v)"
| "jget _ k = Inl TypeError"

fun jget_default :: "json \<Rightarrow> string \<Rightarrow> json \<Rightarrow> json res" where
  "jget_default (JObj kv) k d = Inr (case map_of kv k of None \<Rightarrow> d | Some v \<Rightarrow> v)"
| "jget_default _ k d = Inl AttributeError"

text \<open>\<^verbatim>\<open>k in v\<close> with a string: a key, an element or a part of a text; the truth value of \<open>v\<close>.\<close>

fun py_contains :: "json \<Rightarrow> string \<Rightarrow> bool res" where
  "py_contains (JObj kv) k = Inr (k \<in> fst ` set kv)"
| "py_contains (JArr xs) k = Inr (JStr k \<in> set xs)"
| "py_contains (JStr s) k = Inr (contains s k)"
| "py_contains _ k = Inl TypeError"

fun json_truthy :: "json \<Rightarrow> bool" where
  "json_truthy JNull = False"
| "json_truthy (JBool b) = b"
| "json_truthy (JNum n) = (n \<noteq> 0)"
| "json_truthy (JStr s) = (s \<noteq> [])"
| "json_truthy (JArr xs) = (xs \<noteq> [])"
| "json_truthy (JObj kv) = (kv \<noteq> [])"

text \<open>The elements a \<^verbatim>\<open>for\<close> loop sees, and a value compared with a number.\<close>

fun json_items :: "json \<Rightarrow> json list res" where
  "json_items (JArr xs) = Inr xs"
| "json_items (JObj kv) = Inr (map (JStr \<circ> fst) kv)"
| "json_items (JStr s) = Inr (map (\<lambda>c. JStr [c]) s)"
| "json_items _ = Inl TypeError"

fun json_int :: "json \<Rightarrow> int res" where
  "json_int (JNum n) = Inr n"
| "json_int (JBool b) = Inr (if b then 1 else 0)"
| "json_int _ = Inl TypeError"

text \<open>Membership in a \<^verbatim>\<open>set(...)\<close> of the items: lists and objects cannot be hashed.\<close>

fun json_hashable :: "json \<Rightarrow> bool" where
  "json_hashable (JArr _) = False"
| "json_hashable (JObj _) = False"
| "json_hashable _ = True"

definition json_set :: "json \<Rightarrow> json set res" where
  "json_set v = bindE (json_items v) (\<lambda>xs. if list_all json_hashable xs then Inr (set xs) else Inl TypeError)"

text \<open>The texts of \<^verbatim>\<open>str\<close>, of an exception and of \<^verbatim>\<open>format_exc\<close>.\<close>

record texts =
  tx_json :: "json \<Rightarrow> string"
  tx_exn :: "exn \<Rightarrow> string"
  tx_trace :: string

section \<open>The router\<close>

type_synonym 's action = "json \<Rightarrow> ('s, json) prog"

text \<open>The loaded modules: their names, and the names of their \<^verbatim>\<open>action_\<close> methods.\<close>

type_synonym 's modules = "string \<rightharpoonup> (string \<rightharpoonup> 's action)"

definition build_error_msg :: "json \<Rightarrow> json list \<Rightarrow> json res" where
  "build_error_msg orig_msg errors =
     bindE (jget_default orig_msg ''module'' (JStr ''?'')) (\<lambda>m.
     bindE (jget_default orig_msg ''action'' (JStr ''?'')) (\<lambda>a.
       Inr (JObj [(''module'', m), (''kind'', JStr ''reply''), (''action'', a), (''errors'', JArr errors)])))"

definition error_item :: "string \<Rightarrow> string option \<Rightarrow> json" where
  "error_item description stacktrace =
     JObj ((''description'', JStr description) #
       (case stacktrace of None \<Rightarrow> [] | Some t \<Rightarrow> [(''stacktrace'', JStr t)]))"

text \<open>\<^verbatim>\<open>"%s" % v\<close>\<close>

fun shown :: "texts \<Rightarrow> json \<Rightarrow> string" where
  "shown tx (JStr s) = s"
| "shown tx v = tx_json tx v"

definition quoted :: "string \<Rightarrow> string" where
  "quoted s = [CHR 0x27] @ s @ [CHR 0x27]"

text \<open>\<^verbatim>\<open>getattr\<close> has no default here: an unknown action raises \<^verbatim>\<open>AttributeError\<close>.\<close>

definition perform_action :: "texts \<Rightarrow> (string \<rightharpoonup> 's action) \<Rightarrow> json \<Rightarrow> json \<Rightarrow> ('s, json) prog" where
  "perform_action tx actions action data =
     (case actions (shown tx action) of None \<Rightarrow> raise AttributeError | Some f \<Rightarrow> f data)"

text \<open>\<^verbatim>\<open>message["module"] in app_info["modules"]\<close>: lists and objects cannot be hashed.\<close>

definition find_module :: "'s modules \<Rightarrow> json \<Rightarrow> (string \<rightharpoonup> 's action) option res" where
  "find_module mods m = (case m of
      JStr name \<Rightarrow> Inr (mods name) | JArr _ \<Rightarrow> Inl TypeError | JObj _ \<Rightarrow> Inl TypeError | _ \<Rightarrow> Inr None)"

definition process_request ::
  "texts \<Rightarrow> (json \<Rightarrow> bool) \<Rightarrow> (string \<rightharpoonup> 's action) \<Rightarrow> json \<Rightarrow> ('s, json) prog" where
  "process_request tx validate actions message =
     bindP (tryP
       (bindP (lift (jget message ''action'')) (\<lambda>a.
        bindP (lift (jget_default message ''data'' (JObj []))) (\<lambda>d.
        bindP (perform_action tx actions a d) (\<lambda>res. ret (Inr res)))))
       (\<lambda>_. True) (\<lambda>e. ret (Inl e)))
     (\<lambda>res. case res of
        Inl e \<Rightarrow> lift (build_error_msg message
          [error_item (''Internal error '' @ tx_exn tx e) (Some (tx_trace tx))])
      | Inr data \<Rightarrow>
          bindP (lift (jget message ''module'')) (\<lambda>m.
          bindP (lift (jget message ''action'')) (\<lambda>a.
            let reply = JObj [(''kind'', JStr ''reply''), (''module'', m), (''action'', a), (''data'', data)]
            in if validate reply then ret reply
               else lift (build_error_msg message
                 [error_item (''Incorrect output. '' @ tx_json tx reply) (Some (tx_trace tx))]))))"

definition process_message ::
  "texts \<Rightarrow> (json \<Rightarrow> bool) \<Rightarrow> 's modules \<Rightarrow> json \<Rightarrow> ('s, json) prog" where
  "process_message tx validate mods message =
     (if \<not> validate message then
        lift (build_error_msg message
          [error_item (''Incorrect input. '' @ tx_json tx message) (Some (tx_trace tx))])
      else
        bindP (lift (jget message ''kind'')) (\<lambda>kind.
        if kind \<noteq> JStr ''request'' then
          lift (build_error_msg message [error_item ''Wrong message kind (only request are allowed).'' None])
        else
          bindP (lift (jget message ''module'')) (\<lambda>m.
          bindP (lift (find_module mods m)) (\<lambda>found. case found of
            None \<Rightarrow> lift (build_error_msg message
              [error_item (''Internal error (module not found '' @ quoted (shown tx m) @ '').'') None])
          | Some actions \<Rightarrow> process_request tx validate actions message))))"

section \<open>Every message is answered\<close>

definition message_shape :: "json \<Rightarrow> bool" where
  "message_shape m = (case m of
      JObj kv \<Rightarrow> (\<exists>s. map_of kv ''module'' = Some (JStr s)) \<and> (\<exists>s. map_of kv ''action'' = Some (JStr s)) \<and>
        map_of kv ''kind'' \<noteq> None
    | _ \<Rightarrow> False)"

text \<open>The two kinds of reply: with the result of the action, and with an error that begins with a text.\<close>

definition data_reply :: "string \<Rightarrow> string \<Rightarrow> json \<Rightarrow> json" where
  "data_reply m a data =
     JObj [(''kind'', JStr ''reply''), (''module'', JStr m), (''action'', JStr a), (''data'', data)]"

definition error_reply :: "json \<Rightarrow> string \<Rightarrow> json \<Rightarrow> bool" where
  "error_reply message cause reply \<longleftrightarrow> (\<exists>m a description trace.
     jget_default message ''module'' (JStr ''?'') = Inr m \<and> jget_default message ''action'' (JStr ''?'') = Inr a \<and>
     reply = JObj [(''module'', m), (''kind'', JStr ''reply''), (''action'', a),
       (''errors'', JArr [error_item (cause @ description) trace])])"

lemma error_outcome:
  "message = JObj kv \<Longrightarrow>
    \<exists>reply. lift (build_error_msg message [error_item (cause @ description) trace]) s = (Ret reply, s) \<and>
      error_reply message cause reply"
  by (auto simp: build_error_msg_def error_reply_def lift_def)

text \<open>
  What a message asks for: the module, the action, its function and its data; or the beginning
  of the error that answers it.
\<close>

definition asked :: "'s modules \<Rightarrow> (string \<times> json) list \<Rightarrow> string + (string \<times> string \<times> 's action \<times> json)" where
  "asked mods kv =
     (if map_of kv ''kind'' \<noteq> Some (JStr ''request'') then Inl ''Wrong message kind''
      else case (map_of kv ''module'', map_of kv ''action'') of
        (Some (JStr m), Some (JStr a)) \<Rightarrow>
          (case mods m of None \<Rightarrow> Inl ''Internal error (module not found ''
           | Some actions \<Rightarrow> (case actions a of None \<Rightarrow> Inl ''Internal error ''
             | Some f \<Rightarrow> Inr (m, a, f, case map_of kv ''data'' of None \<Rightarrow> JObj [] | Some d \<Rightarrow> d)))
      | _ \<Rightarrow> Inl [])"

text \<open>What the router owes for it, from the outcome of the action alone.\<close>

definition owed ::
  "(json \<Rightarrow> bool) \<Rightarrow> 's modules \<Rightarrow> (string \<times> json) list \<Rightarrow> 's \<Rightarrow> (json outcome \<times> 's) \<Rightarrow> bool" where
  "owed validate mods kv s res \<longleftrightarrow>
     (if \<not> validate (JObj kv) then
        (\<exists>reply. res = (Ret reply, s) \<and> error_reply (JObj kv) ''Incorrect input. '' reply)
      else case asked mods kv of
        Inl cause \<Rightarrow> (\<exists>reply. res = (Ret reply, s) \<and> error_reply (JObj kv) cause reply)
      | Inr (m, a, f, d) \<Rightarrow> (case f d s of
          (Ret data, s') \<Rightarrow>
            if validate (data_reply m a data) then res = (Ret (data_reply m a data), s')
            else (\<exists>reply. res = (Ret reply, s') \<and> error_reply (JObj kv) ''Incorrect output. '' reply)
        | (Raise e, s') \<Rightarrow> (\<exists>reply. res = (Ret reply, s') \<and> error_reply (JObj kv) ''Internal error '' reply)
        | (Block, s') \<Rightarrow> res = (Block, s')))"

lemma process_request_owed:
  assumes "map_of kv ''kind'' = Some (JStr ''request'')" "map_of kv ''module'' = Some (JStr m)"
    "map_of kv ''action'' = Some (JStr a)" "mods m = Some actions" "validate (JObj kv)"
  shows "owed validate mods kv s (process_request tx validate actions (JObj kv) s)"
proof (cases "actions a")
  case None
  then show ?thesis
    using assms by (simp add: owed_def asked_def process_request_def perform_action_def prog_basic bindP_def
        tryP_def build_error_msg_def error_reply_def) blast
next
  case (Some f)
  let ?d = "case map_of kv ''data'' of None \<Rightarrow> JObj [] | Some d \<Rightarrow> d"
  obtain r s' where r: "f ?d s = (r, s')" by (cases "f ?d s")
  have asked: "asked mods kv = Inr (m, a, f, ?d)" using assms Some by (simp add: asked_def)
  show ?thesis
    using assms Some r
    by (cases r)
       (auto simp: owed_def asked process_request_def perform_action_def prog_basic bindP_def tryP_def
          build_error_msg_def error_reply_def data_reply_def Let_def)
qed

text \<open>
  C23: the router answers every object it is sent, and with what the action says. When its
  schemas only accept messages with a module, an action and a kind: a valid request to a loaded
  module that has the action runs it exactly once on the data of the message, and the reply is
  the module, the action and exactly the result of that run when the reply fits the schemas; an
  action that raises, a reply that does not fit, and a message that is no such request are
  answered with the one error that says so, the last without any change of the state. No
  exception leaves the router, and it only hangs where the action does.
\<close>

theorem every_message_answered:
  assumes "message = JObj kv" "validate message \<longrightarrow> message_shape message"
  shows "owed validate mods kv s (process_message tx validate mods message s)"
proof (cases "validate message")
  case False
  then show ?thesis
    using error_outcome [of message kv "''Incorrect input. ''"] assms(1)
    by (simp add: owed_def process_message_def)
next
  case True
  then obtain m a k where kv: "map_of kv ''module'' = Some (JStr m)" "map_of kv ''action'' = Some (JStr a)"
      "map_of kv ''kind'' = Some k"
    using assms by (auto simp: message_shape_def)
  consider "k \<noteq> JStr ''request''" | "k = JStr ''request''" "mods m = None" | actions where "k = JStr ''request''" "mods m = Some actions"
    by (cases "mods m") auto
  then show ?thesis
  proof cases
    case 1
    then show ?thesis
      using True kv assms(1) error_outcome [of message kv "''Wrong message kind''" "'' (only request are allowed).''" None s]
      by (simp add: owed_def process_message_def bindP_def prog_basic asked_def)
  next
    case 2
    then show ?thesis
      using True kv assms(1)
        error_outcome [of message kv "''Internal error (module not found ''" "quoted m @ '').''" None s]
      by (simp add: owed_def process_message_def bindP_def prog_basic asked_def find_module_def)
  next
    case 3
    have "process_message tx validate mods message s = process_request tx validate actions message s"
      using 3 True kv assms(1) by (simp add: process_message_def bindP_def prog_basic find_module_def)
    then show ?thesis using process_request_owed [of kv m a mods actions validate] 3 kv True assms(1) by simp
  qed
qed

definition demo_texts :: texts where
  "demo_texts = \<lparr>tx_json = (\<lambda>_. []), tx_exn = (\<lambda>_. []), tx_trace = []\<rparr>"

definition demo_modules :: "nat modules" where
  "demo_modules = [''about'' \<mapsto> [''get'' \<mapsto> (\<lambda>d n. (Ret (JNum (int n)), Suc n))]]"

lemma every_message_answered_witness:
  "process_message demo_texts (\<lambda>_. True) demo_modules
      (JObj [(''module'', JStr ''about''), (''kind'', JStr ''request''), (''action'', JStr ''get'')]) 4 =
    (Ret (data_reply ''about'' ''get'' (JNum 4)), 5)"
proof -
  let ?kv = "[(''module'', JStr ''about''), (''kind'', JStr ''request''), (''action'', JStr ''get'')]"
  from every_message_answered [of "JObj ?kv" ?kv "\<lambda>_. True" demo_modules 4 demo_texts]
  show ?thesis by (simp add: message_shape_def owed_def asked_def demo_modules_def)
qed

section \<open>Notifications\<close>

definition prepare_msg :: "string \<Rightarrow> string \<Rightarrow> json option \<Rightarrow> json" where
  "prepare_msg module action data =
     JObj ([(''module'', JStr module), (''kind'', JStr ''notification''), (''action'', JStr action)] @
       (case data of None \<Rightarrow> [] | Some d \<Rightarrow> [(''data'', d)]))"

text \<open>\<open>validator\<close>: none, or the test of the schemas; \<open>send\<close>: \<^verbatim>\<open>_send_message\<close> of the bus.\<close>

definition base_notify ::
  "(json \<Rightarrow> ('s, unit) prog) \<Rightarrow> (json \<Rightarrow> bool) option \<Rightarrow> string \<Rightarrow> string \<Rightarrow> json option \<Rightarrow> ('s, unit) prog" where
  "base_notify send validator module action data =
     (let msg = prepare_msg module action data in
      case validator of
        Some validate \<Rightarrow> if validate msg then send msg else raise ValidationError
      | None \<Rightarrow> send msg)"

text \<open>\<^verbatim>\<open>get_method_names_from_module\<close>: the names of the functions of the module class, without their prefix.\<close>

definition get_method_names :: "string list option \<Rightarrow> string list option" where
  "get_method_names functions =
     map_option (\<lambda>fs. map (drop (length ''action_'')) (filter (\<lambda>f. startswith f ''action_'') fs)) functions"

end
