(* ===== verification/Wifi.thy ===== *)
theory Wifi
  imports Guest Messages Utils
begin

text \<open>
  \<^verbatim>\<open>WifiUci\<close> and \<^verbatim>\<open>WifiCmds\<close> of \<^verbatim>\<open>foris_controller_backends/wifi\<close> with
  \<^verbatim>\<open>UbusBackend.call_ubus\<close> of \<^verbatim>\<open>foris_controller_backends/ubus\<close>: the bands of a device, the
  settings shown for it, and the writes of an update. \<open>WifiRoundtrip\<close> proves that the settings
  are read back.
\<close>

section \<open>Asking ubus\<close>

text \<open>
  \<open>ub_loads\<close> is \<^verbatim>\<open>json.loads\<close>, \<open>None\<close> when the text is no JSON; \<open>ub_device\<close> is
  \<^verbatim>\<open>json.dumps({"device": name})\<close>.
\<close>

record ubus_io =
  ub_loads :: "string \<Rightarrow> json option"
  ub_device :: "string \<Rightarrow> string"

definition call_ubus ::
  "'e env \<Rightarrow> ubus_io \<Rightarrow> string \<Rightarrow> string \<Rightarrow> string option \<Rightarrow> ('e st, json option) prog" where
  "call_ubus E io ubus_object ubus_method data =
     bindP (run_command E ([''/bin/ubus'', ''call'', ubus_object, ubus_method] @
         (case data of None \<Rightarrow> [] | Some d \<Rightarrow> [d])) None)
       (\<lambda>(rc, out, err). ret (if rc \<noteq> 0 then None else if out = [] then Some (JObj []) else ub_loads io out))"

definition scan_device :: "'e env \<Rightarrow> ubus_io \<Rightarrow> string \<Rightarrow> ('e st, json option) prog" where
  "scan_device E io device_name = call_ubus E io ''iwinfo'' ''scan'' (Some (ub_device io device_name))"

section \<open>Bands of a device\<close>

text \<open>The flag \<open>radar\<close> is always \<^verbatim>\<open>False\<close>.\<close>

record wifi_channel =
  ch_number :: json
  ch_frequency :: json

record wifi_band =
  wb_hwmode :: string
  wb_channels :: "wifi_channel list"
  wb_htmodes :: "string list"

fun freq_band :: "int \<Rightarrow> string option" where
  "freq_band f = (if 2412 \<le> f \<and> f \<le> 2484 then Some ''2g'' else if 5160 \<le> f \<and> f \<le> 5980 then Some ''5g'' else None)"

definition channel_of :: "json \<Rightarrow> (string option \<times> wifi_channel) res" where
  "channel_of freq =
     bindE (jget freq ''channel'') (\<lambda>number.
     bindE (jget freq ''mhz'') (\<lambda>mhz.
     bindE (json_int mhz) (\<lambda>f. Inr (freq_band f, \<lparr>ch_number = number, ch_frequency = mhz\<rparr>))))"

text \<open>The channels of each band, in the order reported.\<close>

definition get_frequencies :: "json \<Rightarrow> (string \<Rightarrow> wifi_channel list) res" where
  "get_frequencies freq_data =
     bindE (jget freq_data ''results'') (\<lambda>results.
     bindE (json_items results) (\<lambda>freqs.
     bindE (mapE channel_of freqs) (\<lambda>cs.
       Inr (\<lambda>band. map snd (filter (\<lambda>c. fst c = Some band) cs)))))"

definition hwmode_to_ht :: "(string \<times> string list) list" where
  "hwmode_to_ht = [(''n'', [''HT20'', ''HT40'']), (''ac'', [''VHT20'', ''VHT40'', ''VHT80'', ''VHT160'']),
     (''ax'', [''HE20'', ''HE40'', ''HE80'', ''HE160''])]"

text \<open>
  The sets are sorted by distinct keys, so the order in which Python enumerates them is of no
  account; here it is the order of the table.
\<close>

definition get_htmodes :: "json \<Rightarrow> (string \<times> string list) list res" where
  "get_htmodes device_htmodes =
     bindE (json_set device_htmodes) (\<lambda>modes.
     bindE (mapE (\<lambda>(hwmode, hts).
         bindE (sort_by_natural_order (filter (\<lambda>h. JStr h \<in> modes) hts)) (\<lambda>sorted. Inr (hwmode, sorted))) hwmode_to_ht)
       (\<lambda>res. Inr (filter (\<lambda>e. snd e \<noteq> []) res)))"

definition band_table :: "(string \<times> string \<times> string list) list" where
  "band_table = [(''2g'', ''11g'', [''n'', ''ax'']), (''5g'', ''11a'', [''n'', ''ac'', ''ax''])]"

definition band_record ::
  "json \<Rightarrow> (string \<Rightarrow> wifi_channel list) \<Rightarrow> (string \<times> string list) list \<Rightarrow> string \<times> string \<times> string list \<Rightarrow>
    wifi_band list res" where
  "band_record ht_data channels htmodes row =
     (case row of (band, hwmode, modes) \<Rightarrow>
        if channels band = [] then Inr []
        else bindE (mapE (\<lambda>m. bindE (jget ht_data ''hwmodes'') (\<lambda>hw. bindE (py_contains hw m) (\<lambda>b.
               Inr (if b then (case map_of htmodes m of None \<Rightarrow> [] | Some hts \<Rightarrow> hts) else [])))) modes)
             (\<lambda>hts. Inr [\<lparr>wb_hwmode = hwmode, wb_channels = channels band, wb_htmodes = ''NOHT'' # concat hts\<rparr>]))"

definition device_bands :: "json \<Rightarrow> json \<Rightarrow> wifi_band list res" where
  "device_bands ht_data freq_data =
     bindE (get_frequencies freq_data) (\<lambda>channels.
     bindE (bindE (jget ht_data ''htmodes'') get_htmodes) (\<lambda>htmodes.
     bindE (mapE (band_record ht_data channels htmodes) band_table) (\<lambda>res. Inr (concat res))))"

definition get_device_bands :: "'e env \<Rightarrow> ubus_io \<Rightarrow> string \<Rightarrow> ('e st, wifi_band list) prog" where
  "get_device_bands E io device_name =
     bindP (call_ubus E io ''iwinfo'' ''info'' (Some (ub_device io device_name))) (\<lambda>ht. case ht of
         None \<Rightarrow> ret []
       | Some ht_data \<Rightarrow> if \<not> json_truthy ht_data then ret [] else
           bindP (call_ubus E io ''iwinfo'' ''freqlist'' (Some (ub_device io device_name))) (\<lambda>freq. case freq of
               None \<Rightarrow> ret []
             | Some freq_data \<Rightarrow> if \<not> json_truthy freq_data then ret [] else lift (device_bands ht_data freq_data)))"

section \<open>Reading the settings\<close>

definition opt_of :: "usection \<Rightarrow> string \<Rightarrow> uval \<Rightarrow> uval" where
  "opt_of e k d = (case map_of (sec_data e) k of Some v \<Rightarrow> v | None \<Rightarrow> d)"

text \<open>\<^verbatim>\<open>re.search(r"radio(\d+)$", name)\<close>; a parsed name has no line break.\<close>

definition radio_number :: "string \<Rightarrow> int option" where
  "radio_number name =
     (let ds = rev (takeWhile is_digit (rev name)); pre = rev (dropWhile is_digit (rev name))
      in if ds \<noteq> [] \<and> endswith pre ''radio'' then py_int ds else None)"

definition get_hwmode :: "usection \<Rightarrow> uval res" where
  "get_hwmode device =
     (case map_of (sec_data device) ''band'' of
        Some b \<Rightarrow> if truthy b then (case b of
             Lst _ \<Rightarrow> Inl TypeError
           | _ \<Rightarrow> Inr (Str (if b = Str ''5g'' then ''11a'' else ''11g'')))
           else Inr (opt_of device ''hwmode'' (Str ''11g''))
      | None \<Rightarrow> Inr (opt_of device ''hwmode'' (Str ''11g'')))"

text \<open>Any name of the form \<open>psk2*\<close> stands for WPA2.\<close>

definition uci_encryption :: "usection \<Rightarrow> string res" where
  "uci_encryption e =
     bindE (str_of (opt_of e ''encryption'' (Str ''sae-mixed''))) (\<lambda>m.
       Inr (if startswith m ''psk2'' then ''psk2+ccmp'' else m))"

definition encryption_mode :: "string \<Rightarrow> string" where
  "encryption_mode m =
     (if m = ''psk2+ccmp'' then ''WPA2'' else if m = ''sae'' then ''WPA3'' else if m = ''sae-mixed'' then ''WPA2/3''
      else ''custom'')"

record guest_wifi =
  gw_enabled :: bool
  gw_ssid :: uval
  gw_password :: uval
  gw_encryption :: string

record wifi_state =
  ws_id :: int
  ws_enabled :: bool
  ws_ssid :: uval
  ws_channel :: int
  ws_hidden :: bool
  ws_hwmode :: uval
  ws_htmode :: uval
  ws_encryption :: string
  ws_ieee80211w_disabled :: bool
  ws_password :: uval
  ws_guest :: guest_wifi
  ws_bands :: "wifi_band list"

definition flag_of :: "usection \<Rightarrow> string \<Rightarrow> bool res" where
  "flag_of e k = parse_bool (opt_of e k (Str ''0''))"

definition channel_value :: "usection \<Rightarrow> uval \<Rightarrow> int res" where
  "channel_value device hwmode =
     (let c = opt_of device ''channel'' (Str (if hwmode = Str ''11g'' then ''11'' else ''36''))
      in if c = Str ''auto'' then Inr 0 else uval_int c)"

definition guest_ssid_of :: "uval \<Rightarrow> string" where
  "guest_ssid_of ssid = py_str ssid @ ''-guest''"

definition guest_wifi_of :: "uval \<Rightarrow> usection option \<Rightarrow> guest_wifi res" where
  "guest_wifi_of ssid guest =
     (case guest of
        None \<Rightarrow> Inr \<lparr>gw_enabled = False, gw_ssid = Str (guest_ssid_of ssid), gw_password = Str [],
                    gw_encryption = encryption_mode ''sae-mixed''\<rparr>
      | Some g \<Rightarrow>
          bindE (flag_of g ''disabled'') (\<lambda>disabled.
          bindE (uci_encryption g) (\<lambda>enc.
            Inr \<lparr>gw_enabled = \<not> disabled,
                 gw_ssid = opt_of g ''ssid''
                   (Str (if length (guest_ssid_of ssid) \<le> 32 then guest_ssid_of ssid else ''Turris-guest'')),
                 gw_password = opt_of g ''key'' (Str []), gw_encryption = encryption_mode enc\<rparr>)))"

text \<open>What is read from the sections of a device, before its bands are asked for.\<close>

definition wifi_values :: "int \<Rightarrow> usection \<Rightarrow> usection \<Rightarrow> usection option \<Rightarrow> (wifi_band list \<Rightarrow> wifi_state) res" where
  "wifi_values n device iface guest =
     bindE (flag_of device ''disabled'') (\<lambda>off1.
     bindE (if off1 then Inr True else flag_of iface ''disabled'') (\<lambda>off.
     bindE (flag_of iface ''hidden'') (\<lambda>hidden.
     bindE (get_hwmode device) (\<lambda>hwmode.
     bindE (channel_value device hwmode) (\<lambda>channel.
     bindE (uci_encryption iface) (\<lambda>enc0.
     bindE (guest_wifi_of (opt_of iface ''ssid'' (Str ''Turris'')) guest) (\<lambda>g.
       let enc = encryption_mode (if off \<and> enc0 = ''none'' then ''sae-mixed'' else enc0) in
       Inr (\<lambda>bands. \<lparr>ws_id = n, ws_enabled = \<not> off, ws_ssid = opt_of iface ''ssid'' (Str ''Turris''),
              ws_channel = channel, ws_hidden = hidden, ws_hwmode = hwmode,
              ws_htmode = opt_of device ''htmode'' (Str ''NOHT''), ws_encryption = enc,
              ws_ieee80211w_disabled =
                (enc \<in> {''WPA2/3'', ''WPA3''} \<and> map_of (sec_data iface) ''ieee80211w'' = Some (Str ''0'')),
              ws_password = opt_of iface ''key'' (Str []), ws_guest = g, ws_bands = bands\<rparr>))))))))"

definition prepare_wifi_device ::
  "'e env \<Rightarrow> ubus_io \<Rightarrow> usection \<Rightarrow> usection \<Rightarrow> usection option \<Rightarrow> ('e st, wifi_state option) prog" where
  "prepare_wifi_device E io device iface guest =
     (case radio_number (sec_name device) of
        None \<Rightarrow> ret None
      | Some n \<Rightarrow>
          bindP (lift (wifi_values n device iface guest)) (\<lambda>state.
          bindP (get_device_bands E io (sec_name device)) (\<lambda>bands.
            ret (if bands = [] then None else Some (state bands)))))"

definition get_device_sections :: "uci_data \<Rightarrow> usection list res" where
  "get_device_sections data =
     bindE (get_sections_by_type data ''wireless'' ''wifi-device'') (\<lambda>es. Inr (filter (\<lambda>e. \<not> anonymous e) es))"

definition is_guest_section :: "usection \<Rightarrow> bool" where
  "is_guest_section e = (\<not> anonymous e \<and> startswith (sec_name e) ''guest_iface_'')"

definition of_device :: "usection \<Rightarrow> usection \<Rightarrow> bool" where
  "of_device device e = (map_of (sec_data e) ''device'' = Some (Str (sec_name device)))"

definition get_interface_sections :: "uci_data \<Rightarrow> usection \<Rightarrow> (usection \<times> usection option) res" where
  "get_interface_sections data device =
     bindE (get_sections_by_type data ''wireless'' ''wifi-iface'') (\<lambda>es.
     bindE (py_index (filter (\<lambda>e. of_device device e \<and> \<not> is_guest_section e) es) 0) (\<lambda>iface.
       Inr (iface, case filter (\<lambda>e. of_device device e \<and> is_guest_section e) es of [] \<Rightarrow> None | g # _ \<Rightarrow> Some g)))"

fun read_devices :: "'e env \<Rightarrow> ubus_io \<Rightarrow> uci_data \<Rightarrow> usection list \<Rightarrow> ('e st, wifi_state list) prog" where
  "read_devices E io data [] = ret []"
| "read_devices E io data (d # ds) =
     bindP (lift (get_interface_sections data d)) (\<lambda>(iface, guest).
     bindP (prepare_wifi_device E io d iface guest) (\<lambda>dev.
     bindP (read_devices E io data ds) (\<lambda>devs. ret ((case dev of None \<Rightarrow> [] | Some x \<Rightarrow> [x]) @ devs))))"

definition wifi_get_settings :: "'e env \<Rightarrow> ubus_io \<Rightarrow> ('e st, wifi_state list) prog" where
  "wifi_get_settings E io =
     tryP (bindP (with_uci E (read_uci E ''wireless'')) (\<lambda>data.
           bindP (lift (get_device_sections data)) (\<lambda>ds. read_devices E io data ds)))
       is_uci_error (\<lambda>_. ret [])"

section \<open>Writing the settings\<close>

record guest_wifi_request =
  gr_ssid :: string
  gr_password :: string
  gr_encryption :: "string option"

record wifi_request =
  wr_channel :: int
  wr_hwmode :: string
  wr_htmode :: string
  wr_ssid :: string
  wr_hidden :: bool
  wr_encryption :: "string option"
  wr_ieee80211w_disabled :: "bool option"
  wr_password :: string
  wr_guest :: "guest_wifi_request option"

text \<open>A request to disable the device carries nothing else; so does one to disable the guest wifi.\<close>

datatype wifi_change = WifiOff | WifiOn wifi_request

definition encryption_to_uci :: "string \<Rightarrow> string" where
  "encryption_to_uci mode =
     (if mode = ''WPA2'' then ''psk2+ccmp'' else if mode = ''WPA3'' then ''sae'' else ''sae-mixed'')"

definition set_wifi_encryption :: "string \<Rightarrow> string \<Rightarrow> bool \<Rightarrow> uwrite list" where
  "set_wifi_encryption if_name mode ieee80211w_disabled =
     [SetOption ''wireless'' if_name ''encryption'' (encryption_to_uci mode),
      SetOption ''wireless'' if_name ''wpa_group_rekey'' ''86400'',
      if encryption_to_uci mode \<in> {''sae'', ''sae-mixed''} \<and> ieee80211w_disabled
      then SetOption ''wireless'' if_name ''ieee80211w'' ''0''
      else DropOption ''wireless'' if_name ''ieee80211w'']"

text \<open>With \<^verbatim>\<open>"custom"\<close> the encryption stays as it is configured.\<close>

definition encryption_writes :: "string \<Rightarrow> string option \<Rightarrow> bool \<Rightarrow> uwrite list" where
  "encryption_writes if_name mode ieee80211w_disabled =
     (let m = (case mode of None \<Rightarrow> ''WPA2/3'' | Some m \<Rightarrow> m)
      in if m = ''custom'' then [] else set_wifi_encryption if_name m ieee80211w_disabled)"

definition wifi_off_writes :: "string \<Rightarrow> string \<Rightarrow> string option \<Rightarrow> uwrite list" where
  "wifi_off_writes device iface guest =
     [SetOption ''wireless'' device ''disabled'' (store_bool True),
      SetOption ''wireless'' iface ''disabled'' (store_bool True)] @
     (case guest of None \<Rightarrow> [] | Some g \<Rightarrow> [SetOption ''wireless'' g ''disabled'' (store_bool True)])"

text \<open>Only \<open>11g\<close> and \<open>11a\<close> pass the check that comes before.\<close>

definition hwmode_band :: "string \<Rightarrow> string" where
  "hwmode_band hwmode = (if hwmode = ''11g'' then ''2g'' else ''5g'')"

definition device_part :: "string \<Rightarrow> wifi_request \<Rightarrow> uwrite list" where
  "device_part device w =
     [DropOption ''wireless'' device ''hwmode'',
      SetOption ''wireless'' device ''channel'' (if wr_channel w = 0 then ''auto'' else show_int (wr_channel w)),
      SetOption ''wireless'' device ''band'' (hwmode_band (wr_hwmode w)),
      SetOption ''wireless'' device ''htmode'' (wr_htmode w)]"

definition ieee80211w_off :: "wifi_request \<Rightarrow> bool" where
  "ieee80211w_off w = (wr_ieee80211w_disabled w = Some True)"

definition iface_part :: "string \<Rightarrow> wifi_request \<Rightarrow> uwrite list" where
  "iface_part iface w =
     [SetOption ''wireless'' iface ''ssid'' (wr_ssid w),
      SetOption ''wireless'' iface ''network'' ''lan'',
      SetOption ''wireless'' iface ''mode'' ''ap'',
      SetOption ''wireless'' iface ''hidden'' (store_bool (wr_hidden w))] @
     encryption_writes iface (wr_encryption w) (ieee80211w_off w) @
     [SetOption ''wireless'' iface ''key'' (wr_password w)]"

definition guest_part :: "int \<Rightarrow> string \<Rightarrow> string \<Rightarrow> wifi_request \<Rightarrow> uwrite list" where
  "guest_part n device guest w =
     (case wr_guest w of
        None \<Rightarrow>
          [SetOption ''wireless'' guest ''disabled'' (store_bool True),
           SetOption ''wireless'' guest ''device'' device]
      | Some g \<Rightarrow>
          [SetOption ''wireless'' guest ''disabled'' (store_bool False),
           SetOption ''wireless'' guest ''device'' device,
           SetOption ''wireless'' guest ''mode'' ''ap'',
           SetOption ''wireless'' guest ''ssid'' (gr_ssid g),
           SetOption ''wireless'' guest ''network'' ''guest_turris''] @
          encryption_writes guest (gr_encryption g) (ieee80211w_off w) @
          [SetOption ''wireless'' guest ''key'' (gr_password g),
           SetOption ''wireless'' guest ''ifname'' (''guest_turris_'' @ show_int n),
           SetOption ''wireless'' guest ''isolate'' (store_bool True)])"

definition guest_section_name :: "int \<Rightarrow> string option \<Rightarrow> string" where
  "guest_section_name n guest = (case guest of Some g \<Rightarrow> g | None \<Rightarrow> ''guest_iface_'' @ show_int n)"

definition update_wifi_writes :: "int \<Rightarrow> wifi_change \<Rightarrow> string \<Rightarrow> string \<Rightarrow> string option \<Rightarrow> uwrite list" where
  "update_wifi_writes n change device iface guest =
     (case change of
        WifiOff \<Rightarrow> wifi_off_writes device iface guest
      | WifiOn w \<Rightarrow>
          [SetOption ''wireless'' device ''disabled'' (store_bool False),
           SetOption ''wireless'' iface ''disabled'' (store_bool False)] @
          device_part device w @ iface_part iface w @
          (case guest of None \<Rightarrow> [AddSection ''wireless'' ''wifi-iface'' (guest_section_name n None)] | Some _ \<Rightarrow> []) @
          guest_part n device (guest_section_name n guest) w)"

text \<open>Its result: \<open>None\<close> when the wifi is disabled, else whether the guest wifi is on.\<close>

definition update_wifi_result :: "wifi_change \<Rightarrow> bool option" where
  "update_wifi_result change = (case change of WifiOff \<Rightarrow> None | WifiOn w \<Rightarrow> Some (wr_guest w \<noteq> None))"

fun json_is_int :: "int \<Rightarrow> json \<Rightarrow> bool" where
  "json_is_int c (JNum n) = (n = c)"
| "json_is_int c (JBool b) = (c = (if b then 1 else 0))"
| "json_is_int c _ = False"

definition check_wifi :: "wifi_request \<Rightarrow> wifi_band list \<Rightarrow> unit res" where
  "check_wifi w bands =
     (case filter (\<lambda>b. wb_hwmode b = wr_hwmode w) bands of
        [band] \<Rightarrow>
          if \<not> (wr_channel w = 0 \<or> list_ex (json_is_int (wr_channel w) \<circ> ch_number) (wb_channels band)) then Inl ValueError
          else if wr_htmode w \<notin> set (wb_htmodes band) then Inl ValueError
          else Inr ()
      | _ \<Rightarrow> Inl ValueError)"

definition radio_name :: "int \<Rightarrow> string" where
  "radio_name n = ''radio'' @ show_int n"

text \<open>\<open>bands_of\<close> asks a device for its bands: \<open>get_device_bands\<close>.\<close>

definition update_device ::
  "'e env \<Rightarrow> (string \<Rightarrow> ('e st, wifi_band list) prog) \<Rightarrow> uci_data \<Rightarrow> usection list \<Rightarrow> int \<times> wifi_change \<Rightarrow> ('e st, bool) prog" where
  "update_device E bands_of data device_sections req =
     (case req of (n, change) \<Rightarrow>
        bindP (lift (py_index (filter (\<lambda>e. sec_name e = radio_name n) device_sections) 0)) (\<lambda>device.
        bindP (case change of
            WifiOff \<Rightarrow> ret ()
          | WifiOn w \<Rightarrow> bindP (bands_of (sec_name device)) (\<lambda>bands. lift (check_wifi w bands))) (\<lambda>_.
        bindP (lift (get_interface_sections data device)) (\<lambda>(iface, guest).
        bindP (writes E (update_wifi_writes n change (sec_name device) (sec_name iface) (map_option sec_name guest))) (\<lambda>_.
          ret (update_wifi_result change = Some True))))))"

fun update_devices ::
  "'e env \<Rightarrow> (string \<Rightarrow> ('e st, wifi_band list) prog) \<Rightarrow> uci_data \<Rightarrow> usection list \<Rightarrow> (int \<times> wifi_change) list \<Rightarrow> ('e st, bool) prog" where
  "update_devices E bands_of data device_sections [] = ret False"
| "update_devices E bands_of data device_sections (req # reqs) =
     bindP (update_device E bands_of data device_sections req) (\<lambda>guest.
     bindP (update_devices E bands_of data device_sections reqs) (\<lambda>guests. ret (guest \<or> guests)))"

definition regulator_writes :: "usection list \<Rightarrow> string \<Rightarrow> uwrite list" where
  "regulator_writes devices country = map (\<lambda>e. SetOption ''wireless'' (sec_name e) ''country'' country) devices"

definition update_regulator_domain :: "'e env \<Rightarrow> uci_data \<Rightarrow> string \<Rightarrow> ('e st, unit) prog" where
  "update_regulator_domain E data country =
     bindP (lift (get_sections_by_type data ''wireless'' ''wifi-device'')) (\<lambda>devices.
       writes E (regulator_writes devices country))"

definition wifi_update_body ::
  "'e env \<Rightarrow> (string \<Rightarrow> ('e st, wifi_band list) prog) \<Rightarrow> (int \<times> wifi_change) list \<Rightarrow> ('e st, unit) prog" where
  "wifi_update_body E bands_of reqs =
     bindP (read_uci E ''wireless'') (\<lambda>data.
     bindP (lift (get_device_sections data)) (\<lambda>device_sections.
     bindP (update_devices E bands_of data device_sections reqs) (\<lambda>guest.
     bindP (whenP guest [enable_guest_network E]) (\<lambda>_.
     bindP (read_uci E ''system'') (\<lambda>system_data.
     bindP (lift (get_option_anonymous system_data ''system'' ''system'' 0 ''_country'' (Some (Str ''00'')))) (\<lambda>country.
       update_regulator_domain E data (py_str country)))))))"

fun is_index_or_value_error :: "exn \<Rightarrow> bool" where
  "is_index_or_value_error IndexError = True"
| "is_index_or_value_error ValueError = True"
| "is_index_or_value_error AddressValueError = True"
| "is_index_or_value_error _ = False"

definition wifi_update_settings :: "'e env \<Rightarrow> ubus_io \<Rightarrow> (int \<times> wifi_change) list \<Rightarrow> ('e st, bool) prog" where
  "wifi_update_settings E io reqs =
     bindP (tryP (bindP (with_uci E (wifi_update_body E (get_device_bands E io) reqs)) (\<lambda>_. ret True)) is_index_or_value_error (\<lambda>_. ret False))
       (\<lambda>ok. if ok then bindP (restart_network E) (\<lambda>_. ret True) else ret False)"

section \<open>Commands\<close>

fun is_backend_command_failed :: "exn \<Rightarrow> bool" where
  "is_backend_command_failed (BackendCommandFailed _ _) = True"
| "is_backend_command_failed _ = False"

definition set_regulatory_domain :: "'e env \<Rightarrow> string option \<Rightarrow> ('e st, bool) prog" where
  "set_regulatory_domain E country =
     tryP (bindP (run_command_and_check_retval E [''/usr/sbin/iw'', ''reg'', ''set'',
             case country of Some (c # cs) \<Rightarrow> c # cs | _ \<Rightarrow> ''00''] 0) (\<lambda>_. ret True))
       is_backend_command_failed (\<lambda>_. ret False)"

definition wifi_reset :: "'e env \<Rightarrow> ('e st, bool) prog" where
  "wifi_reset E =
     bindP (with_uci E (tryP (export_data E (Some ''wireless'')) is_uci_exception (\<lambda>_. ret []))) (\<lambda>backup.
       tryP (bindP (with_uci E (bindP (import_data E (Some []) ''wireless'') (\<lambda>_.
               bindP (run_command_and_check_retval E [''/sbin/wifi'', ''config''] 0) (\<lambda>_. ret ())))) (\<lambda>_. ret True))
         (\<lambda>_. True)
         (\<lambda>_. bindP (with_uci E (import_data E (Some backup) ''wireless'')) (\<lambda>_. ret False)))"

end
