(* ===== verification/WifiRoundtrip.thy ===== *)
theory WifiRoundtrip
  imports Wifi WanRoundtrip
begin

text \<open>
  The wifi settings are read back as they were written: \<open>edits\<close> tells what a sequence of option
  writes makes of each section, from which follow the sections that the reader finds afterwards
  and the values it reads in them.
\<close>

section \<open>Sections under option writes\<close>

fun option_write :: "uwrite \<Rightarrow> bool" where
  "option_write (SetOption c s p v) = True"
| "option_write (DropOption c s p) = True"
| "option_write _ = False"

fun edit :: "uwrite \<Rightarrow> usection \<Rightarrow> usection" where
  "edit (SetOption c s p v) e =
     (if sec_name e = s then e\<lparr>sec_data := if v = [] then AList.delete p (sec_data e) else AList.update p (Str v) (sec_data e)\<rparr>
      else e)"
| "edit (DropOption c s p) e = (if sec_name e = s then e\<lparr>sec_data := AList.delete p (sec_data e)\<rparr> else e)"
| "edit _ e = e"

definition edits :: "uwrite list \<Rightarrow> usection \<Rightarrow> usection" where
  "edits ws e = fold edit ws e"

lemma edit_sel [simp]:
  "sec_name (edit w e) = sec_name e" "sec_type (edit w e) = sec_type e" "anonymous (edit w e) = anonymous e"
  by (cases w; simp)+

lemma edits_sel [simp]:
  "sec_name (edits ws e) = sec_name e" "sec_type (edits ws e) = sec_type e" "anonymous (edits ws e) = anonymous e"
  unfolding edits_def by (induction ws arbitrary: e) simp_all

lemma edits_append: "edits (ws @ vs) e = edits vs (edits ws e)"
  by (simp add: edits_def)

text \<open>The writes of one config that only change options.\<close>

definition edits_only :: "string \<Rightarrow> uwrite list \<Rightarrow> bool" where
  "edits_only c ws \<longleftrightarrow> list_all (\<lambda>w. option_write w \<and> config_of w = c) ws"

lemma edits_only_simps [simp]:
  "edits_only c []" "edits_only c (w # ws) \<longleftrightarrow> option_write w \<and> config_of w = c \<and> edits_only c ws"
  "edits_only c (ws @ vs) \<longleftrightarrow> edits_only c ws \<and> edits_only c vs"
  by (auto simp: edits_only_def)

lemma map_of_edit:
  "option_write w \<Longrightarrow> config_of w = c \<Longrightarrow>
    map_of (sec_data (edit w e)) p = written w c (sec_name e) p (map_of (sec_data e) p)"
  by (cases w) (auto simp: update_conv' delete_conv')

lemma map_of_edits:
  "edits_only c ws \<Longrightarrow>
    map_of (sec_data (edits ws e)) p = value_after ws c (sec_name e) p (map_of (sec_data e) p)"
  unfolding edits_def by (induction ws arbitrary: e) (simp_all add: map_of_edit)

lemma upd_sec_map: "distinct (map sec_name X) \<Longrightarrow> upd_sec s f X = map (\<lambda>e. if sec_name e = s then f e else e) X"
proof (induction X)
  case (Cons a X)
  have "map (\<lambda>e. if sec_name e = s then f e else e) X = X" if "sec_name a = s"
    using Cons.prems that by (intro map_idI) (auto simp: image_iff)
  then show ?case using Cons by auto
qed simp

fun write_ready :: "string set \<Rightarrow> uwrite \<Rightarrow> bool" where
  "write_ready ns (SetOption c s p v) = (s \<in> ns)"
| "write_ready ns _ = True"

lemma has_sec_names: "has_sec X s \<longleftrightarrow> s \<in> sec_name ` set X"
  by (auto simp: has_sec_def find_sec_def find_None_iff)

lemma effect_edit:
  assumes "option_write w" "distinct (map sec_name X)" "write_ready (sec_name ` set X) w"
  shows "effect w X = Some (map (edit w) X)"
  using assms
  by (cases w) (auto simp: has_sec_names set_opt_def del_opt_def upd_sec_map)

lemma map_edit_names: "map sec_name (map (edit w) X) = map sec_name X"
  by simp

lemma config_after_edits:
  "edits_only c ws \<Longrightarrow> distinct (map sec_name X) \<Longrightarrow> list_all (write_ready (sec_name ` set X)) ws \<Longrightarrow>
    config_after ws c X = Some (map (edits ws) X)"
proof (induction ws arbitrary: X)
  case Nil
  then show ?case by (simp add: edits_def)
next
  case (Cons w ws)
  let ?Y = "map (edit w) X"
  have names: "sec_name ` set ?Y = sec_name ` set X" by (simp add: image_image)
  have "effect w X = Some ?Y" using Cons.prems by (intro effect_edit) auto
  moreover have "config_after ws c ?Y = Some (map (edits ws) ?Y)"
    using Cons.prems names by (intro Cons.IH) (auto simp: comp_def)
  ultimately show ?case using Cons.prems(1) by (simp add: edits_def comp_def)
qed

lemma config_after_append:
  "config_after (ws @ vs) c X = (case config_after ws c X of None \<Rightarrow> None | Some Y \<Rightarrow> config_after vs c Y)"
  by (induction ws arbitrary: X) (auto split: option.split)

text \<open>With a new section between two runs of option writes.\<close>

definition fresh_section :: "string \<Rightarrow> string \<Rightarrow> usection" where
  "fresh_section t s = \<lparr>sec_type = t, sec_name = s, sec_data = [], anonymous = False\<rparr>"

lemma config_after_new_section:
  assumes "edits_only c ws" "edits_only c vs" "distinct (map sec_name X)" "s \<notin> sec_name ` set X"
    and "list_all (write_ready (sec_name ` set X)) ws" "list_all (write_ready (insert s (sec_name ` set X))) vs"
  shows "config_after (ws @ AddSection c t s # vs) c X =
    Some (map (edits (ws @ vs)) X @ [edits vs (fresh_section t s)])"
proof -
  let ?Y = "map (edits ws) X @ [fresh_section t s]"
  have names: "sec_name ` set ?Y = insert s (sec_name ` set X)"
    by (simp add: image_image fresh_section_def)
  have "has_sec (map (edits ws) X) s = False" using assms(4) by (auto simp: has_sec_names image_image)
  then have "set_sec s t (map (edits ws) X) = ?Y" by (simp add: set_sec_def fresh_section_def)
  moreover have "config_after vs c ?Y = Some (map (edits vs) ?Y)"
    using assms(2,3,4,6) names
    by (intro config_after_edits) (auto simp: fresh_section_def comp_def)
  ultimately show ?thesis
    using config_after_edits [OF assms(1,3,5)]
    by (simp add: config_after_append edits_append comp_def)
qed

section \<open>The sections of a radio\<close>

text \<open>All writes to the wireless config: those for the radio, then the regulatory domain.\<close>

definition radio_writes :: "int \<Rightarrow> wifi_change \<Rightarrow> usection \<Rightarrow> usection \<Rightarrow> usection option \<Rightarrow> usection list \<Rightarrow> string \<Rightarrow> uwrite list" where
  "radio_writes n change device iface guest devices country =
     update_wifi_writes n change (sec_name device) (sec_name iface) (map_option sec_name guest) @
     regulator_writes devices country"

text \<open>The option writes among them, before and after the guest section is created.\<close>

definition radio_head :: "wifi_request \<Rightarrow> string \<Rightarrow> string \<Rightarrow> uwrite list" where
  "radio_head w device iface =
     [SetOption ''wireless'' device ''disabled'' (store_bool False),
      SetOption ''wireless'' iface ''disabled'' (store_bool False)] @
     device_part device w @ iface_part iface w"

definition radio_tail :: "int \<Rightarrow> wifi_request \<Rightarrow> string \<Rightarrow> string \<Rightarrow> usection list \<Rightarrow> string \<Rightarrow> uwrite list" where
  "radio_tail n w device guest devices country = guest_part n device guest w @ regulator_writes devices country"

lemma radio_writes_split:
  "radio_writes n (WifiOn w) device iface guest devices country =
    radio_head w (sec_name device) (sec_name iface) @
    (case guest of None \<Rightarrow> [AddSection ''wireless'' ''wifi-iface'' (guest_section_name n None)] | Some _ \<Rightarrow> []) @
    radio_tail n w (sec_name device) (guest_section_name n (map_option sec_name guest)) devices country"
  by (cases guest) (simp_all add: radio_writes_def update_wifi_writes_def radio_head_def radio_tail_def)

lemma encryption_writes_edit: "edits_only c (encryption_writes s m off) \<longleftrightarrow> c = ''wireless'' \<or> encryption_writes s m off = []"
  by (auto simp: encryption_writes_def set_wifi_encryption_def Let_def)

lemma radio_edits [simp]:
  "edits_only ''wireless'' (radio_head w device iface)"
  "edits_only ''wireless'' (radio_tail n w device guest devices country)"
  by (auto simp: radio_head_def radio_tail_def device_part_def iface_part_def guest_part_def regulator_writes_def
      encryption_writes_edit edits_only_def [of _ "map _ _"] list_all_iff split: option.split)

lemma encryption_writes_ready: "s \<in> ns \<Longrightarrow> list_all (write_ready ns) (encryption_writes s m off)"
  by (simp add: encryption_writes_def set_wifi_encryption_def Let_def)

lemma radio_ready:
  "device \<in> ns \<Longrightarrow> iface \<in> ns \<Longrightarrow> list_all (write_ready ns) (radio_head w device iface)"
  "guest \<in> ns \<Longrightarrow> sec_name ` set devices \<subseteq> ns \<Longrightarrow> list_all (write_ready ns) (radio_tail n w device guest devices country)"
  by (auto simp: radio_head_def radio_tail_def device_part_def iface_part_def guest_part_def regulator_writes_def
      encryption_writes_ready list_all_iff [of _ "map _ _"] split: option.split)

text \<open>A radio of a config, with its interface and its guest interface.\<close>

definition radio_of :: "usection list \<Rightarrow> int \<Rightarrow> usection \<Rightarrow> usection \<Rightarrow> usection option \<Rightarrow> bool" where
  "radio_of W n d i g \<longleftrightarrow> distinct (map sec_name W) \<and> d \<in> set W \<and> sec_type d = ''wifi-device'' \<and>
     \<not> anonymous d \<and> sec_name d = radio_name n \<and> 0 \<le> n \<and>
     get_interface_sections [(''wireless'', W)] d = Inr (i, g) \<and>
     (g = None \<longrightarrow> guest_section_name n None \<notin> sec_name ` set W)"

lemma get_interface_sections_eq:
  "get_interface_sections [(''wireless'', W)] d =
    (case filter (\<lambda>e. sec_type e = ''wifi-iface'' \<and> of_device d e \<and> \<not> is_guest_section e) W of
       [] \<Rightarrow> Inl IndexError
     | i # _ \<Rightarrow> Inr (i, find (\<lambda>e. sec_type e = ''wifi-iface'' \<and> of_device d e \<and> is_guest_section e) W))"
  by (auto simp: get_interface_sections_def get_sections_by_type_eq py_index_def Let_def conj_commute filter_find [symmetric]
      split: list.split)

lemma radio_ofD:
  assumes "radio_of W n d i g"
  shows "i \<in> set W" "sec_type i = ''wifi-iface''" "of_device d i" "\<not> is_guest_section i"
    and "find (\<lambda>e. sec_type e = ''wifi-iface'' \<and> of_device d e \<and> is_guest_section e) W = g"
    and "\<exists>is. filter (\<lambda>e. sec_type e = ''wifi-iface'' \<and> of_device d e \<and> \<not> is_guest_section e) W = i # is"
proof -
  obtain "is" where f: "filter (\<lambda>e. sec_type e = ''wifi-iface'' \<and> of_device d e \<and> \<not> is_guest_section e) W = i # is"
    and g: "find (\<lambda>e. sec_type e = ''wifi-iface'' \<and> of_device d e \<and> is_guest_section e) W = g"
    using assms by (auto simp: radio_of_def get_interface_sections_eq split: list.splits)
  from f have "i \<in> set (filter (\<lambda>e. sec_type e = ''wifi-iface'' \<and> of_device d e \<and> \<not> is_guest_section e) W)" by simp
  then show "i \<in> set W" "sec_type i = ''wifi-iface''" "of_device d i" "\<not> is_guest_section i" by auto
  show "\<exists>is. filter (\<lambda>e. sec_type e = ''wifi-iface'' \<and> of_device d e \<and> \<not> is_guest_section e) W = i # is"
    using f by blast
  show "find (\<lambda>e. sec_type e = ''wifi-iface'' \<and> of_device d e \<and> is_guest_section e) W = g" by (rule g)
qed

lemma radio_guestD:
  assumes "radio_of W n d i (Some g)"
  shows "g \<in> set W" "sec_type g = ''wifi-iface''" "of_device d g" "is_guest_section g"
  using radio_ofD(5) [OF assms] by (auto simp: find_Some_iff)

lemma same_section: "distinct (map sec_name W) \<Longrightarrow> a \<in> set W \<Longrightarrow> b \<in> set W \<Longrightarrow> sec_name a = sec_name b \<Longrightarrow> a = b"
  by (auto simp: distinct_map dest: inj_onD)

text \<open>The three names differ.\<close>

lemma radio_names:
  assumes "radio_of W n d i g"
  shows "sec_name d \<noteq> sec_name i" "sec_name d \<noteq> guest_section_name n (map_option sec_name g)"
    "sec_name i \<noteq> guest_section_name n (map_option sec_name g)"
proof -
  have W: "distinct (map sec_name W)" "d \<in> set W" "sec_type d = ''wifi-device''" using assms by (auto simp: radio_of_def)
  note i = radio_ofD(1,2,4) [OF assms]
  show "sec_name d \<noteq> sec_name i" using same_section [OF W(1,2) i(1)] W(3) i(2) by auto
  have "sec_name d \<noteq> guest_section_name n (map_option sec_name g) \<and>
    sec_name i \<noteq> guest_section_name n (map_option sec_name g)"
  proof (cases g)
    case None
    then have "guest_section_name n (map_option sec_name g) \<notin> sec_name ` set W"
      using assms by (simp add: radio_of_def)
    with W(2) i(1) show ?thesis by (metis imageI)
  next
    case (Some e)
    note e = radio_guestD [OF assms [unfolded Some]]
    have n: "guest_section_name n (map_option sec_name g) = sec_name e" by (simp add: Some guest_section_name_def)
    show ?thesis
      unfolding n using same_section [OF W(1,2) e(1)] W(3) e(2) same_section [OF W(1) i(1) e(1)] i(3) e(4) by auto
  qed
  then show "sec_name d \<noteq> guest_section_name n (map_option sec_name g)"
    "sec_name i \<noteq> guest_section_name n (map_option sec_name g)" by simp_all
qed

text \<open>The option \<open>device\<close> is written in the guest section alone.\<close>

lemma value_after_regulator:
  "p \<noteq> ''country'' \<Longrightarrow> value_after (regulator_writes devices country) c s p old = old"
  unfolding regulator_writes_def by (induction devices) simp_all

lemma encryption_leaves:
  "p \<notin> {''encryption'', ''wpa_group_rekey'', ''ieee80211w''} \<or> s \<noteq> s' \<Longrightarrow>
    value_after (encryption_writes s' m off) c s p old = old"
  by (auto simp: encryption_writes_def set_wifi_encryption_def Let_def)

lemma radio_device_option:
  "value_after (radio_head w d i) ''wireless'' s ''device'' old = old"
  "d \<noteq> [] \<Longrightarrow> value_after (radio_tail n w d g devices country) ''wireless'' s ''device'' old =
    (if s = g then Some (Str d) else old)"
  by (auto simp: radio_head_def radio_tail_def device_part_def iface_part_def guest_part_def value_after_append
      value_after_regulator encryption_leaves split: option.split)

definition radio_all :: "int \<Rightarrow> wifi_request \<Rightarrow> usection \<Rightarrow> usection \<Rightarrow> usection option \<Rightarrow> usection list \<Rightarrow> string \<Rightarrow> uwrite list" where
  "radio_all n w d i g devices country = radio_head w (sec_name d) (sec_name i) @
     radio_tail n w (sec_name d) (guest_section_name n (map_option sec_name g)) devices country"

definition guest_after :: "int \<Rightarrow> wifi_request \<Rightarrow> usection \<Rightarrow> usection \<Rightarrow> usection option \<Rightarrow> usection list \<Rightarrow> string \<Rightarrow> usection" where
  "guest_after n w d i g devices country =
     (case g of
        Some e \<Rightarrow> edits (radio_all n w d i g devices country) e
      | None \<Rightarrow> edits (radio_tail n w (sec_name d) (guest_section_name n None) devices country)
                 (fresh_section ''wifi-iface'' (guest_section_name n None)))"

definition wireless_after :: "usection list \<Rightarrow> int \<Rightarrow> wifi_request \<Rightarrow> usection \<Rightarrow> usection \<Rightarrow> usection option \<Rightarrow> usection list \<Rightarrow> string \<Rightarrow> usection list" where
  "wireless_after W n w d i g devices country =
     map (edits (radio_all n w d i g devices country)) W @
     (if g = None then [guest_after n w d i g devices country] else [])"

lemma config_after_radio:
  assumes "radio_of W n d i g" "set devices \<subseteq> set W"
  shows "config_after (radio_writes n (WifiOn w) d i g devices country) ''wireless'' W =
    Some (wireless_after W n w d i g devices country)"
proof -
  have W: "distinct (map sec_name W)" "d \<in> set W" using assms(1) by (auto simp: radio_of_def)
  note i = radio_ofD(1) [OF assms(1)]
  have devs: "sec_name ` set devices \<subseteq> sec_name ` set W" using assms(2) by auto
  show ?thesis
  proof (cases g)
    case None
    let ?h = "radio_head w (sec_name d) (sec_name i)" and ?g = "guest_section_name n None"
    let ?t = "radio_tail n w (sec_name d) ?g devices country"
    have "?g \<notin> sec_name ` set W" using assms(1) None by (simp add: radio_of_def)
    then have "config_after (?h @ AddSection ''wireless'' ''wifi-iface'' ?g # ?t) ''wireless'' W =
        Some (map (edits (?h @ ?t)) W @ [edits ?t (fresh_section ''wifi-iface'' ?g)])"
      using W i devs by (intro config_after_new_section radio_edits radio_ready) auto
    then show ?thesis
      by (simp add: None radio_writes_split wireless_after_def guest_after_def radio_all_def)
  next
    case (Some e)
    have "e \<in> set W" using radio_guestD(1) assms(1) Some by blast
    then show ?thesis
      using W i devs Some
      by (simp add: radio_writes_split wireless_after_def radio_all_def)
         (rule config_after_edits, auto intro!: radio_ready simp: guest_section_name_def)
  qed
qed

section \<open>What the reader finds\<close>

lemma radio_device_name: "radio_of W n d i g \<Longrightarrow> sec_name d \<noteq> []"
  by (auto simp: radio_of_def radio_name_def)

lemma radio_edits_all [simp]: "edits_only ''wireless'' (radio_all n w d i g devices country)"
  by (simp add: radio_all_def)

lemma of_device_edits:
  assumes "radio_of W n d i g" "e \<in> set W"
  shows "of_device (edits ws d) (edits (radio_all n w d i g devices country) e) = of_device d e"
proof -
  let ?g = "guest_section_name n (map_option sec_name g)"
  have "of_device d e" if "sec_name e = ?g"
  proof (cases g)
    case None
    have "?g \<notin> sec_name ` set W" using assms(1) None by (simp add: radio_of_def)
    then show ?thesis using that assms(2) by (metis imageI)
  next
    case (Some x)
    have W: "distinct (map sec_name W)" using assms(1) by (simp add: radio_of_def)
    note x = radio_guestD [OF assms(1) [unfolded Some]]
    have "e = x" using same_section [OF W assms(2) x(1)] that by (simp add: Some guest_section_name_def)
    then show ?thesis using x(3) by simp
  qed
  moreover have "map_of (sec_data (edits (radio_all n w d i g devices country) e)) ''device'' =
      (if sec_name e = ?g then Some (Str (sec_name d)) else map_of (sec_data e) ''device'')"
    using radio_device_name [OF assms(1)]
    by (subst map_of_edits [where c = "''wireless''"]) (simp_all add: radio_all_def value_after_append radio_device_option)
  ultimately show ?thesis by (auto simp: of_device_def)
qed

lemma is_guest_section_edits [simp]: "is_guest_section (edits ws e) = is_guest_section e"
  by (simp add: is_guest_section_def)

lemma guest_after_facts:
  assumes "radio_of W n d i None"
  shows "sec_type (guest_after n w d i None devices country) = ''wifi-iface''"
    "of_device (edits ws d) (guest_after n w d i None devices country)"
    "is_guest_section (guest_after n w d i None devices country)"
proof -
  have "map_of (sec_data (guest_after n w d i None devices country)) ''device'' = Some (Str (sec_name d))"
    using radio_device_name [OF assms]
    by (simp add: guest_after_def map_of_edits [where c = "''wireless''"] radio_device_option)
       (simp add: fresh_section_def)
  then show "of_device (edits ws d) (guest_after n w d i None devices country)" by (simp add: of_device_def)
  show "sec_type (guest_after n w d i None devices country) = ''wifi-iface''"
    "is_guest_section (guest_after n w d i None devices country)"
    by (simp_all add: guest_after_def is_guest_section_def)
       (simp_all add: fresh_section_def guest_section_name_def startswith_iff)
qed

lemma filter_map_same: "(\<And>x. x \<in> set xs \<Longrightarrow> P (f x) = Q x) \<Longrightarrow> filter P (map f xs) = map f (filter Q xs)"
  by (induction xs) auto

lemma find_map_same: "(\<And>x. x \<in> set xs \<Longrightarrow> P (f x) = Q x) \<Longrightarrow> find P (map f xs) = map_option f (find Q xs)"
  by (induction xs) auto

lemma find_append: "find P (xs @ ys) = (case find P xs of Some x \<Rightarrow> Some x | None \<Rightarrow> find P ys)"
  by (induction xs) auto

lemma interface_sections_after:
  assumes "radio_of W n d i g"
  shows "get_interface_sections [(''wireless'', wireless_after W n w d i g devices country)]
      (edits (radio_all n w d i g devices country) d) =
    Inr (edits (radio_all n w d i g devices country) i, Some (guest_after n w d i g devices country))"
proof -
  let ?f = "edits (radio_all n w d i g devices country)"
  define ga where "ga = guest_after n w d i g devices country"
  have P: "(sec_type (?f e) = ''wifi-iface'' \<and> of_device (?f d) (?f e) \<and> is_guest_section (?f e) = b) =
      (sec_type e = ''wifi-iface'' \<and> of_device d e \<and> is_guest_section e = b)" if "e \<in> set W" for e b
    using of_device_edits [OF assms that] by simp
  obtain "is" where "is": "filter (\<lambda>e. sec_type e = ''wifi-iface'' \<and> of_device d e \<and> \<not> is_guest_section e) W = i # is"
    using radio_ofD(6) [OF assms] by blast
  have ifs: "filter (\<lambda>e. sec_type e = ''wifi-iface'' \<and> of_device (?f d) e \<and> \<not> is_guest_section e) (map ?f W) = ?f i # map ?f is"
    by (subst filter_map_same [where Q = "\<lambda>e. sec_type e = ''wifi-iface'' \<and> of_device d e \<and> \<not> is_guest_section e"])
       (use P [where b = False] "is" in auto)
  have gs: "find (\<lambda>e. sec_type e = ''wifi-iface'' \<and> of_device (?f d) e \<and> is_guest_section e) (map ?f W) = map_option ?f g"
    using radio_ofD(5) [OF assms]
    by (subst find_map_same [where Q = "\<lambda>e. sec_type e = ''wifi-iface'' \<and> of_device d e \<and> is_guest_section e"])
       (use P [where b = True] in auto)
  show ?thesis
  proof (cases g)
    case None
    have ga: "sec_type ga = ''wifi-iface''" "of_device (?f d) ga" "is_guest_section ga"
      using guest_after_facts [OF assms [unfolded None]] by (simp_all add: ga_def None)
    then show ?thesis
      using ifs gs by (simp add: get_interface_sections_eq wireless_after_def find_append None ga_def [symmetric, unfolded None])
  next
    case (Some e)
    then show ?thesis
      using ifs gs by (simp add: get_interface_sections_eq wireless_after_def guest_after_def)
  qed
qed

section \<open>The values it reads\<close>

text \<open>The request as the schemas allow it, with one of the named encryptions.\<close>

definition chosen_encryption :: "string option \<Rightarrow> string" where
  "chosen_encryption mode = (case mode of None \<Rightarrow> ''WPA2/3'' | Some m \<Rightarrow> m)"

definition named_encryption :: "string option \<Rightarrow> bool" where
  "named_encryption mode \<longleftrightarrow> chosen_encryption mode \<in> {''WPA2'', ''WPA3'', ''WPA2/3''}"

definition wifi_valid :: "wifi_request \<Rightarrow> bool" where
  "wifi_valid w \<longleftrightarrow> wr_ssid w \<noteq> [] \<and> wr_htmode w \<noteq> [] \<and> wr_hwmode w \<in> {''11g'', ''11a''} \<and>
     named_encryption (wr_encryption w) \<and>
     (case wr_guest w of None \<Rightarrow> True | Some g \<Rightarrow> gr_ssid g \<noteq> [] \<and> named_encryption (gr_encryption g))"

lemma encryption_values:
  assumes "named_encryption m"
  shows "value_after (encryption_writes s m off) ''wireless'' s ''encryption'' old =
      Some (Str (encryption_to_uci (chosen_encryption m)))"
    "value_after (encryption_writes s m off) ''wireless'' s ''ieee80211w'' old =
      (if chosen_encryption m \<noteq> ''WPA2'' \<and> off then Some (Str ''0'') else None)"
  using assms
  by (cases m; auto simp: named_encryption_def chosen_encryption_def encryption_writes_def set_wifi_encryption_def
      encryption_to_uci_def)+

lemma encryption_shown:
  "named_encryption m \<Longrightarrow>
    encryption_mode (if startswith (encryption_to_uci (chosen_encryption m)) ''psk2'' then ''psk2+ccmp''
      else encryption_to_uci (chosen_encryption m)) = chosen_encryption m"
  by (auto simp: named_encryption_def encryption_to_uci_def encryption_mode_def startswith_iff)

lemma show_int_auto: "show_int c \<noteq> ''auto''"
proof
  assume "show_int c = ''auto''"
  then have "int_of ''auto'' = Inr c" using int_of_show_int [of c] by simp
  then show False by (simp add: int_of_def py_int_def strip_def strip_of_def is_space_def is_digit_def)
qed

lemma tail_leaves:
  "s \<noteq> g \<Longrightarrow> p \<noteq> ''country'' \<Longrightarrow> value_after (radio_tail n w d g devices country) c s p old = old"
  by (cases "wr_guest w") (auto simp: radio_tail_def guest_part_def value_after_append value_after_regulator encryption_leaves)

lemma head_device:
  assumes "d \<noteq> i" "wr_htmode w \<noteq> []"
  shows "value_after (radio_head w d i) ''wireless'' d ''disabled'' old = Some (Str (store_bool False))"
    "value_after (radio_head w d i) ''wireless'' d ''band'' old = Some (Str (hwmode_band (wr_hwmode w)))"
    "value_after (radio_head w d i) ''wireless'' d ''htmode'' old = Some (Str (wr_htmode w))"
    "value_after (radio_head w d i) ''wireless'' d ''channel'' old =
      Some (Str (if wr_channel w = 0 then ''auto'' else show_int (wr_channel w)))"
proof -
  have "hwmode_band (wr_hwmode w) \<noteq> []" by (simp add: hwmode_band_def)
  then show "value_after (radio_head w d i) ''wireless'' d ''disabled'' old = Some (Str (store_bool False))"
    "value_after (radio_head w d i) ''wireless'' d ''band'' old = Some (Str (hwmode_band (wr_hwmode w)))"
    "value_after (radio_head w d i) ''wireless'' d ''htmode'' old = Some (Str (wr_htmode w))"
    "value_after (radio_head w d i) ''wireless'' d ''channel'' old =
      Some (Str (if wr_channel w = 0 then ''auto'' else show_int (wr_channel w)))"
    using assms by (simp_all add: radio_head_def device_part_def iface_part_def value_after_append encryption_leaves)
qed

lemma head_iface:
  assumes "d \<noteq> i" "wr_ssid w \<noteq> []" "named_encryption (wr_encryption w)"
  shows "value_after (radio_head w d i) ''wireless'' i ''disabled'' old = Some (Str (store_bool False))"
    "value_after (radio_head w d i) ''wireless'' i ''ssid'' old = Some (Str (wr_ssid w))"
    "value_after (radio_head w d i) ''wireless'' i ''hidden'' old = Some (Str (store_bool (wr_hidden w)))"
    "value_after (radio_head w d i) ''wireless'' i ''encryption'' old =
      Some (Str (encryption_to_uci (chosen_encryption (wr_encryption w))))"
    "value_after (radio_head w d i) ''wireless'' i ''ieee80211w'' old =
      (if chosen_encryption (wr_encryption w) \<noteq> ''WPA2'' \<and> ieee80211w_off w then Some (Str ''0'') else None)"
    "value_after (radio_head w d i) ''wireless'' i ''key'' old = (if wr_password w = [] then None else Some (Str (wr_password w)))"
  using assms
  by (simp_all add: radio_head_def device_part_def iface_part_def value_after_append encryption_leaves
      encryption_values [OF assms(3)])

lemma tail_guest_off:
  assumes "wr_guest w = None"
  shows "value_after (radio_tail n w d g devices country) ''wireless'' g ''disabled'' old = Some (Str (store_bool True))"
    "p \<notin> {''disabled'', ''device'', ''country''} \<Longrightarrow>
      value_after (radio_tail n w d g devices country) ''wireless'' g p old = old"
  using assms by (auto simp: radio_tail_def guest_part_def value_after_append value_after_regulator)

lemma tail_guest_on:
  assumes "wr_guest w = Some r" "gr_ssid r \<noteq> []" "named_encryption (gr_encryption r)"
  shows "value_after (radio_tail n w d g devices country) ''wireless'' g ''disabled'' old = Some (Str (store_bool False))"
    "value_after (radio_tail n w d g devices country) ''wireless'' g ''ssid'' old = Some (Str (gr_ssid r))"
    "value_after (radio_tail n w d g devices country) ''wireless'' g ''encryption'' old =
      Some (Str (encryption_to_uci (chosen_encryption (gr_encryption r))))"
    "value_after (radio_tail n w d g devices country) ''wireless'' g ''key'' old =
      (if gr_password r = [] then None else Some (Str (gr_password r)))"
  using assms
  by (simp_all add: radio_tail_def guest_part_def value_after_append value_after_regulator encryption_leaves
      encryption_values(1) [OF assms(3)])

lemma device_values:
  assumes "radio_of W n d i g" "wifi_valid w"
    and d': "d' = edits (radio_all n w d i g devices country) d"
  shows "flag_of d' ''disabled'' = Inr False" "get_hwmode d' = Inr (Str (wr_hwmode w))"
    "channel_value d' hw = Inr (wr_channel w)" "opt_of d' ''htmode'' dflt = Str (wr_htmode w)"
proof -
  have w: "wr_htmode w \<noteq> []" "wr_hwmode w \<in> {''11g'', ''11a''}" using assms(2) by (simp_all add: wifi_valid_def)
  note names = radio_names [OF assms(1)]
  have v: "map_of (sec_data d') p = value_after (radio_head w (sec_name d) (sec_name i)) ''wireless'' (sec_name d) p
      (map_of (sec_data d) p)" if "p \<noteq> ''country''" for p
    unfolding d' map_of_edits [OF radio_edits_all]
    using names(2) that by (simp add: radio_all_def value_after_append tail_leaves)
  show "flag_of d' ''disabled'' = Inr False" by (simp add: flag_of_def opt_of_def v head_device [OF names(1) w(1)])
  show "opt_of d' ''htmode'' dflt = Str (wr_htmode w)" by (simp add: opt_of_def v head_device [OF names(1) w(1)])
  show "get_hwmode d' = Inr (Str (wr_hwmode w))"
    using w(2) by (auto simp: get_hwmode_def v head_device [OF names(1) w(1)] hwmode_band_def)
  show "channel_value d' hw = Inr (wr_channel w)"
    by (simp add: channel_value_def opt_of_def v head_device [OF names(1) w(1)] show_int_auto Let_def)
qed

lemma iface_values:
  assumes "radio_of W n d i g" "wifi_valid w"
    and i': "i' = edits (radio_all n w d i g devices country) i"
  shows "flag_of i' ''disabled'' = Inr False" "flag_of i' ''hidden'' = Inr (wr_hidden w)"
    "opt_of i' ''ssid'' dflt = Str (wr_ssid w)" "opt_of i' ''key'' (Str []) = Str (wr_password w)"
    "bindE (uci_encryption i') (\<lambda>m. Inr (encryption_mode m)) = Inr (chosen_encryption (wr_encryption w))"
    "(map_of (sec_data i') ''ieee80211w'' = Some (Str ''0'')) =
      (chosen_encryption (wr_encryption w) \<noteq> ''WPA2'' \<and> ieee80211w_off w)"
proof -
  have w: "wr_ssid w \<noteq> []" "named_encryption (wr_encryption w)" using assms(2) by (simp_all add: wifi_valid_def)
  note names = radio_names [OF assms(1)]
  note head = head_iface [OF names(1) w]
  have v: "map_of (sec_data i') p = value_after (radio_head w (sec_name d) (sec_name i)) ''wireless'' (sec_name i) p
      (map_of (sec_data i) p)" if "p \<noteq> ''country''" for p
    unfolding i' map_of_edits [OF radio_edits_all]
    using names(3) that by (simp add: radio_all_def value_after_append tail_leaves)
  show "flag_of i' ''disabled'' = Inr False" "flag_of i' ''hidden'' = Inr (wr_hidden w)"
    by (simp_all add: flag_of_def opt_of_def v head)
  show "opt_of i' ''ssid'' dflt = Str (wr_ssid w)" "opt_of i' ''key'' (Str []) = Str (wr_password w)"
    by (simp_all add: opt_of_def v head)
  show "bindE (uci_encryption i') (\<lambda>m. Inr (encryption_mode m)) = Inr (chosen_encryption (wr_encryption w))"
    using encryption_shown [OF w(2)] by (simp add: uci_encryption_def opt_of_def v head)
  show "(map_of (sec_data i') ''ieee80211w'' = Some (Str ''0'')) =
      (chosen_encryption (wr_encryption w) \<noteq> ''WPA2'' \<and> ieee80211w_off w)"
    by (simp add: v head)
qed

text \<open>
  What is shown of the guest wifi: the request, or when it is off what the guest section said
  before (a new one says nothing).
\<close>

definition guest_shown :: "int \<Rightarrow> wifi_request \<Rightarrow> usection option \<Rightarrow> guest_wifi res" where
  "guest_shown n w g =
     (case wr_guest w of
        Some r \<Rightarrow> Inr \<lparr>gw_enabled = True, gw_ssid = Str (gr_ssid r), gw_password = Str (gr_password r),
                      gw_encryption = chosen_encryption (gr_encryption r)\<rparr>
      | None \<Rightarrow>
          (let old = (case g of Some e \<Rightarrow> e | None \<Rightarrow> fresh_section ''wifi-iface'' (guest_section_name n None)) in
           bindE (uci_encryption old) (\<lambda>enc.
             Inr \<lparr>gw_enabled = False,
                  gw_ssid = opt_of old ''ssid'' (Str (if length (wr_ssid w @ ''-guest'') \<le> 32 then wr_ssid w @ ''-guest''
                    else ''Turris-guest'')),
                  gw_password = opt_of old ''key'' (Str []), gw_encryption = encryption_mode enc\<rparr>)))"

lemma guest_values:
  assumes "radio_of W n d i g" "wifi_valid w"
  shows "guest_wifi_of (Str (wr_ssid w)) (Some (guest_after n w d i g devices country)) = guest_shown n w g"
proof -
  define ga where "ga = guest_after n w d i g devices country"
  define old where "old = (case g of Some e \<Rightarrow> e | None \<Rightarrow> fresh_section ''wifi-iface'' (guest_section_name n None))"
  let ?n = "guest_section_name n (map_option sec_name g)"
  note names = radio_names [OF assms(1)]
  have head: "value_after (radio_head w (sec_name d) (sec_name i)) c ?n p v = v" for c p v
    using names(2,3) by (simp add: radio_head_def device_part_def iface_part_def value_after_append encryption_leaves)
  have name: "sec_name old = ?n" by (cases g) (simp_all add: old_def fresh_section_def guest_section_name_def)
  have v: "map_of (sec_data ga) p = value_after (radio_tail n w (sec_name d) ?n devices country) ''wireless'' ?n p
      (map_of (sec_data old) p)" for p
    using name head
    by (cases g) (simp_all add: ga_def old_def guest_after_def map_of_edits [where c = "''wireless''"] radio_all_def value_after_append)
  show ?thesis
  proof (cases "wr_guest w")
    case None
    have "map_of (sec_data ga) p = map_of (sec_data old) p" if "p \<in> {''ssid'', ''key'', ''encryption''}" for p
      using v [of p] tail_guest_off(2) [OF None] that by auto
    then show ?thesis
      unfolding ga_def [symmetric] guest_wifi_of_def guest_shown_def None option.case old_def [symmetric] Let_def
        guest_ssid_of_def py_str.simps
      using tail_guest_off(1) [OF None]
      by (simp add: flag_of_def opt_of_def v uci_encryption_def)
  next
    case (Some r)
    have r: "gr_ssid r \<noteq> []" "named_encryption (gr_encryption r)" using assms(2) Some by (simp_all add: wifi_valid_def)
    note on = tail_guest_on [OF Some r]
    show ?thesis
      unfolding ga_def [symmetric] guest_wifi_of_def guest_shown_def Some option.case
      using encryption_shown [OF r(2)]
      by (simp add: flag_of_def opt_of_def v on uci_encryption_def)
  qed
qed

definition wifi_shown :: "int \<Rightarrow> wifi_request \<Rightarrow> guest_wifi \<Rightarrow> wifi_band list \<Rightarrow> wifi_state" where
  "wifi_shown n w guest bands =
     \<lparr>ws_id = n, ws_enabled = True, ws_ssid = Str (wr_ssid w), ws_channel = wr_channel w, ws_hidden = wr_hidden w,
      ws_hwmode = Str (wr_hwmode w), ws_htmode = Str (wr_htmode w),
      ws_encryption = chosen_encryption (wr_encryption w),
      ws_ieee80211w_disabled = (chosen_encryption (wr_encryption w) \<noteq> ''WPA2'' \<and> ieee80211w_off w),
      ws_password = Str (wr_password w), ws_guest = guest, ws_bands = bands\<rparr>"

lemma wifi_values_after:
  assumes "radio_of W n d i g" "wifi_valid w" "guest_shown n w g = Inr guest"
  shows "wifi_values n (edits (radio_all n w d i g devices country) d) (edits (radio_all n w d i g devices country) i)
      (Some (guest_after n w d i g devices country)) = Inr (wifi_shown n w guest)"
proof -
  let ?d = "edits (radio_all n w d i g devices country) d" and ?i = "edits (radio_all n w d i g devices country) i"
  note dv = device_values [OF assms(1,2) refl, of devices country]
  note iv = iface_values [OF assms(1,2) refl, of devices country]
  obtain m where m: "uci_encryption ?i = Inr m" "encryption_mode m = chosen_encryption (wr_encryption w)"
    using iv(5) by (auto simp: bindE_eq_Inr)
  have "chosen_encryption (wr_encryption w) \<in> {''WPA2'', ''WPA3'', ''WPA2/3''}"
    using assms(2) by (simp add: wifi_valid_def named_encryption_def)
  then show ?thesis
    unfolding wifi_values_def dv iv bindE_simps if_False m
    by (auto simp: guest_values [OF assms(1,2)] assms(3) wifi_shown_def fun_eq_iff m Let_def)
qed

section \<open>Running the update\<close>

text \<open>The radios of a config, and the names its sections need.\<close>

definition wifi_devices :: "usection list \<Rightarrow> usection list" where
  "wifi_devices W = filter (\<lambda>e. sec_type e = ''wifi-device'') W"

definition wifi_ready :: "usection list \<Rightarrow> int \<Rightarrow> usection \<Rightarrow> usection \<Rightarrow> usection option \<Rightarrow> bool" where
  "wifi_ready W n d i g \<longleftrightarrow> radio_of W n d i g \<and> wf_config W \<and> (\<forall>e\<in>set W. valid_name (sec_name e))"

text \<open>The steps that follow once the sections of the radio are found.\<close>

definition wifi_steps ::
  "'e env \<Rightarrow> ('e st, wifi_band list) prog \<Rightarrow> wifi_request \<Rightarrow> uwrite list \<Rightarrow> usection list \<Rightarrow> ('e st, unit) prog" where
  "wifi_steps E bands w ws devices =
     bindP bands (\<lambda>bs. bindP (lift (check_wifi w bs)) (\<lambda>_.
     bindP (writes E ws) (\<lambda>_.
     bindP (whenP (wr_guest w \<noteq> None) [enable_guest_network E]) (\<lambda>_.
     bindP (read_uci E ''system'') (\<lambda>sd.
     bindP (lift (get_option_anonymous sd ''system'' ''system'' 0 ''_country'' (Some (Str ''00'')))) (\<lambda>c.
       writes E (regulator_writes devices (py_str c))))))))"

lemma bindP_assoc: "bindP (bindP p f) g = bindP p (\<lambda>x. bindP (f x) g)"
  by (auto simp: bindP_def fun_eq_iff split: prod.split outcome.split)

lemma bindP_ret: "bindP (ret x) f = f x"
  by (simp add: bindP_def ret_def fun_eq_iff)

lemma find_radio:
  assumes "radio_of W n d i g"
  shows "py_index (filter (\<lambda>e. sec_name e = radio_name n) (filter (\<lambda>e. \<not> anonymous e) (wifi_devices W))) 0 = Inr d"
proof -
  have W: "distinct (map sec_name W)" "d \<in> set W" "sec_type d = ''wifi-device''" "\<not> anonymous d"
    "sec_name d = radio_name n" using assms by (auto simp: radio_of_def)
  let ?P = "\<lambda>e. sec_name e = radio_name n \<and> \<not> anonymous e \<and> sec_type e = ''wifi-device''"
  have "d \<in> set (filter ?P W)" using W by simp
  then obtain x xs where x: "filter ?P W = x # xs" by (cases "filter ?P W") (auto simp: filter_empty_conv)
  then have "x \<in> set (filter ?P W)" by simp
  then have "x = d" using same_section [OF W(1) _ W(2), of x] W(5) by simp
  with x show ?thesis by (simp add: py_index_def wifi_devices_def conj_ac)
qed

lemma wifi_update_body_eq:
  assumes "radio_of W n d i g"
  shows "wifi_update_body E q [(n, WifiOn w)] =
    bindP (read_uci E ''wireless'') (\<lambda>data. if data = [(''wireless'', W)]
      then wifi_steps E (q (sec_name d)) w (update_wifi_writes n (WifiOn w) (sec_name d) (sec_name i) (map_option sec_name g)) (wifi_devices W)
      else bindP (lift (get_device_sections data)) (\<lambda>device_sections.
           bindP (update_devices E q data device_sections [(n, WifiOn w)]) (\<lambda>guest.
           bindP (whenP guest [enable_guest_network E]) (\<lambda>_.
           bindP (read_uci E ''system'') (\<lambda>system_data.
           bindP (lift (get_option_anonymous system_data ''system'' ''system'' 0 ''_country'' (Some (Str ''00'')))) (\<lambda>country.
             update_regulator_domain E data (py_str country)))))))"
proof -
  have secs: "get_device_sections [(''wireless'', W)] = Inr (filter (\<lambda>e. \<not> anonymous e) (wifi_devices W))"
    by (simp add: get_device_sections_def get_sections_by_type_eq wifi_devices_def)
  have devs: "get_sections_by_type [(''wireless'', W)] ''wireless'' ''wifi-device'' = Inr (wifi_devices W)"
    by (simp add: get_sections_by_type_eq wifi_devices_def)
  have ifs: "get_interface_sections [(''wireless'', W)] d = Inr (i, g)" using assms by (simp add: radio_of_def)
  show ?thesis
    unfolding wifi_update_body_def
    by (rule arg_cong [where f = "bindP (read_uci E ''wireless'')"], rule ext)
       (simp add: wifi_steps_def update_device_def secs find_radio [OF assms, simplified filter_filter] devs ifs bindP_lift_Inr bindP_assoc bindP_ret
         update_regulator_domain_def update_wifi_result_def)
qed

definition guest_net_ready :: "configs \<Rightarrow> bool" where
  "guest_net_ready m \<longleftrightarrow> (\<exists>N F D Q req. m ''network'' = Some N \<and> wf_config N \<and> m ''firewall'' = Some F \<and>
     m ''dhcp'' = Some D \<and> wf_config D \<and> m ''sqm'' = Some Q \<and>
     configured_guest [(''network'', N)] [(''dhcp'', D)] = Inr req)"

lemma exec_enable_guest:
  assumes "guest_net_ready (staged (ext t))"
  shows "\<exists>m t' cs. enable_guest_network (ref_env nm cd ord) t = (Ret (), t') \<and> staged_as t m cs t' \<and>
    cs \<subseteq> {''network'', ''firewall'', ''dhcp'', ''sqm''} \<and> (\<forall>c\<in>cs. m c \<noteq> None)"
proof -
  let ?R = "ref_env nm cd ord"
  obtain N F D Q req where c: "staged (ext t) ''network'' = Some N" "wf_config N" "staged (ext t) ''firewall'' = Some F"
    "staged (ext t) ''dhcp'' = Some D" "wf_config D" "staged (ext t) ''sqm'' = Some Q"
    "configured_guest [(''network'', N)] [(''dhcp'', D)] = Inr req"
    using assms unfolding guest_net_ready_def by blast
  have reads: "read_uci ?R ''network'' t = (Ret [(''network'', N)], t)" "read_uci ?R ''dhcp'' t = (Ret [(''dhcp'', D)], t)"
    using c by (auto intro!: exec_read_uci)
  obtain m t' cs N' F' D' Q' where run: "set_guest_network ?R req t =
      (Ret (Some (if wanted_qos req = None then ''disable'' else ''enable'')), t')"
    and sa: "staged_as t m cs t'" "cs \<subseteq> {''network'', ''firewall'', ''dhcp'', ''sqm''}"
    and m: "m = (staged (ext t))(''network'' \<mapsto> N', ''firewall'' \<mapsto> F', ''dhcp'' \<mapsto> D', ''sqm'' \<mapsto> Q')"
    using exec_set_guest_network [OF c(1,3,4,6), of nm cd ord req] by blast
  have "enable_guest_network ?R t = (Ret (), t')"
    using reads run c(7)
    by (cases "get_option_named [(''network'', N)] ''network'' ''guest_turris'' ''proto'' None")
       (auto simp: enable_guest_network_def bindP_def lift_def tryP_def ret_def get_option_named_eq split: option.splits)
  then show ?thesis using sa m c by (intro exI [of _ m] exI [of _ t'] exI [of _ cs]) auto
qed

lemma apply_writes_one_config:
  "list_all (\<lambda>w. config_of w = c) ws \<Longrightarrow> m c = Some X \<Longrightarrow> config_after ws c X = Some Y \<Longrightarrow>
    apply_writes ws m = Some (m(c \<mapsto> Y))"
  by (induction ws arbitrary: m X) (auto split: option.splits simp: fun_upd_idem)

lemma wifi_names [simp]:
  "valid_name ''wireless''" "valid_name ''wifi-iface''" "valid_name ''hwmode''" "valid_name ''channel''"
  "valid_name ''band''" "valid_name ''htmode''" "valid_name ''ssid''" "valid_name ''mode''" "valid_name ''hidden''"
  "valid_name ''encryption''" "valid_name ''wpa_group_rekey''" "valid_name ''ieee80211w''" "valid_name ''key''"
  "valid_name ''ifname''" "valid_name ''isolate''" "valid_name ''country''" "valid_name ''disabled''" "valid_name ''system''"
  by (simp_all add: valid_name_def name_char_def)

lemma encryption_writes_valid: "valid_name s \<Longrightarrow> list_all write_names_valid (encryption_writes s m off)"
  by (simp add: encryption_writes_def set_wifi_encryption_def Let_def)

lemma guest_name_valid: "0 \<le> n \<Longrightarrow> valid_name (guest_section_name n None)"
  by (auto simp: guest_section_name_def show_int_def valid_name_def name_char_def list_all_iff is_digit_def Let_def
      dest!: show_nat_digits)

lemma update_wifi_writes_valid:
  assumes "valid_name d" "valid_name i" "valid_name (guest_section_name n g)"
  shows "list_all write_names_valid (update_wifi_writes n (WifiOn w) d i g)"
  using assms
  by (cases g; cases "wr_guest w")
     (simp_all add: update_wifi_writes_def device_part_def iface_part_def guest_part_def encryption_writes_valid)

lemma update_wifi_writes_config: "list_all (\<lambda>w. config_of w = ''wireless'') (update_wifi_writes n (WifiOn w) d i g)"
  by (cases g; cases "wr_guest w")
     (simp_all add: update_wifi_writes_def device_part_def iface_part_def guest_part_def encryption_writes_def
       set_wifi_encryption_def Let_def)

lemma regulator_writes_facts:
  "\<forall>e\<in>set devices. valid_name (sec_name e) \<Longrightarrow> list_all write_names_valid (regulator_writes devices country)"
  "list_all (\<lambda>w. config_of w = ''wireless'') (regulator_writes devices country)"
  by (simp_all add: regulator_writes_def list_all_iff)

lemma wifi_ready_valid:
  assumes "wifi_ready W n d i g"
  shows "list_all write_names_valid (update_wifi_writes n (WifiOn w) (sec_name d) (sec_name i) (map_option sec_name g))"
    "list_all write_names_valid (regulator_writes (wifi_devices W) country)"
proof -
  have r: "radio_of W n d i g" and v: "\<forall>e\<in>set W. valid_name (sec_name e)" using assms by (auto simp: wifi_ready_def)
  have d: "valid_name (sec_name d)" and n: "0 \<le> n" using r v by (auto simp: radio_of_def)
  have i: "valid_name (sec_name i)" using radio_ofD(1) [OF r] v by simp
  have "valid_name (guest_section_name n (map_option sec_name g))"
  proof (cases g)
    case None
    then show ?thesis using guest_name_valid [OF n] by simp
  next
    case (Some e)
    have "e \<in> set W" using radio_guestD(1) r Some by blast
    then show ?thesis using v Some by (simp add: guest_section_name_def)
  qed
  with d i show "list_all write_names_valid (update_wifi_writes n (WifiOn w) (sec_name d) (sec_name i) (map_option sec_name g))"
    by (rule update_wifi_writes_valid)
  show "list_all write_names_valid (regulator_writes (wifi_devices W) country)"
    using v by (intro regulator_writes_facts) (auto simp: wifi_devices_def)
qed

lemma exec_one_config:
  assumes "staged (ext t) c = Some X" "config_after ws c X = Some Y"
    and "list_all (\<lambda>w. config_of w = c) ws" "list_all write_names_valid ws"
  shows "\<exists>t' cs. writes (ref_env nm cd ord) ws t = (Ret (), t') \<and>
    staged_as t ((staged (ext t))(c \<mapsto> Y)) cs t' \<and> cs \<subseteq> {c}"
proof -
  have "apply_writes ws (staged (ext t)) = Some ((staged (ext t))(c \<mapsto> Y))"
    using assms(1-3) by (intro apply_writes_one_config) auto
  then obtain t' where "writes (ref_env nm cd ord) ws t = (Ret (), t')"
    "staged_as t ((staged (ext t))(c \<mapsto> Y)) (set (map config_of ws)) t'"
    using exec_writes assms(4) by blast
  moreover have "set (map config_of ws) \<subseteq> {c}" using assms(3) by (auto simp: list_all_iff)
  ultimately show ?thesis by blast
qed

lemma exec_wifi_steps:
  assumes "wifi_ready W n d i g" "check_wifi w bands = Inr ()"
    and "staged (ext t) ''wireless'' = Some W" "staged (ext t) ''system'' = Some Y" "wf_config Y"
    and "get_option_anonymous [(''system'', Y)] ''system'' ''system'' 0 ''_country'' (Some (Str ''00'')) = Inr country"
    and "wr_guest w \<noteq> None \<Longrightarrow> guest_net_ready (staged (ext t))"
  shows "\<exists>m t' cs. wifi_steps (ref_env nm cd ord) (ret bands) w
      (update_wifi_writes n (WifiOn w) (sec_name d) (sec_name i) (map_option sec_name g)) (wifi_devices W) t = (Ret (), t') \<and>
    staged_as t m cs t' \<and> (\<forall>c\<in>cs. valid_name c \<and> m c \<noteq> None) \<and>
    m ''wireless'' = Some (wireless_after W n w d i g (wifi_devices W) (py_str country))"
proof -
  let ?R = "ref_env nm cd ord" and ?reg = "regulator_writes (wifi_devices W) (py_str country)"
  let ?ws = "update_wifi_writes n (WifiOn w) (sec_name d) (sec_name i) (map_option sec_name g)"
  let ?W2 = "wireless_after W n w d i g (wifi_devices W) (py_str country)"
  have "config_after (?ws @ ?reg) ''wireless'' W = Some ?W2"
    using config_after_radio [of W n d i g "wifi_devices W" w "py_str country"] assms(1)
    by (auto simp: wifi_ready_def radio_writes_def wifi_devices_def)
  then obtain W1 where W1: "config_after ?ws ''wireless'' W = Some W1" "config_after ?reg ''wireless'' W1 = Some ?W2"
    by (auto simp: config_after_append split: option.splits)
  obtain t1 c1 where t1: "writes ?R ?ws t = (Ret (), t1)" and s1: "c1 \<subseteq> {''wireless''}"
    "staged_as t ((staged (ext t))(''wireless'' \<mapsto> W1)) c1 t1"
    using exec_one_config [OF assms(3) W1(1) update_wifi_writes_config wifi_ready_valid(1) [OF assms(1)]] by blast
  have st1: "staged (ext t1) = (staged (ext t))(''wireless'' \<mapsto> W1)" using s1 by (simp add: staged_as_def)
  obtain m2 t2 c2 where t2: "whenP (wr_guest w \<noteq> None) [enable_guest_network ?R] t1 = (Ret (), t2)"
    and s2: "staged_as t1 m2 c2 t2" "c2 \<subseteq> {''network'', ''firewall'', ''dhcp'', ''sqm''}"
    "\<forall>c\<in>c2. m2 c \<noteq> None"
  proof (cases "wr_guest w = None")
    case True
    then show ?thesis using that [of t1 "staged (ext t1)" "{}"] by (simp add: whenP_def ret_def staged_as_def)
  next
    case False
    then have "guest_net_ready (staged (ext t1))" using assms(7) by (simp add: st1 guest_net_ready_def)
    then show ?thesis
      using exec_enable_guest [of t1 nm cd ord] that False by (auto simp: whenP_def bindP_def ret_def)
  qed
  have st2: "staged (ext t2) = m2" "m2 ''wireless'' = Some W1" "m2 ''system'' = Some Y"
  proof -
    have keep: "m2 c = staged (ext t1) c" if "c \<notin> {''network'', ''firewall'', ''dhcp'', ''sqm''}" for c
      using s2(1,2) that by (auto simp: staged_as_def)
    show "staged (ext t2) = m2" using s2(1) by (simp add: staged_as_def)
    show "m2 ''wireless'' = Some W1" "m2 ''system'' = Some Y" using keep assms(4) by (simp_all add: st1)
  qed
  obtain t3 c3 where t3: "writes ?R ?reg t2 = (Ret (), t3)" and s3: "c3 \<subseteq> {''wireless''}"
    "staged_as t2 (m2(''wireless'' \<mapsto> ?W2)) c3 t3"
    using exec_one_config [OF st2(2) [folded st2(1)] W1(2) regulator_writes_facts(2) wifi_ready_valid(2) [OF assms(1)]]
    unfolding st2(1) by blast
  have "read_uci ?R ''system'' t2 = (Ret [(''system'', Y)], t2)"
    using st2 assms(5) by (auto intro!: exec_read_uci)
  with t1 t2 t3 assms(2,6) have "wifi_steps ?R (ret bands) w ?ws (wifi_devices W) t = (Ret (), t3)"
    by (simp add: wifi_steps_def bindP_def ret_def lift_def)
  moreover have "staged_as t (m2(''wireless'' \<mapsto> ?W2)) (c1 \<union> c2 \<union> c3) t3"
    by (rule staged_as_trans [OF staged_as_trans [OF s1(2) s2(1)] s3(2)])
  moreover have "\<forall>c\<in>c1 \<union> c2 \<union> c3. valid_name c \<and> (m2(''wireless'' \<mapsto> ?W2)) c \<noteq> None"
  proof (intro ballI conjI)
    fix c
    assume "c \<in> c1 \<union> c2 \<union> c3"
    then have c: "c \<in> {''wireless'', ''network'', ''firewall'', ''dhcp'', ''sqm''}" using s1(1) s2(2) s3(1) by blast
    then show "valid_name c" by auto
    show "(m2(''wireless'' \<mapsto> ?W2)) c \<noteq> None"
      using c s2(3) st2(2) by (cases "c \<in> c2") (use c s1 s3 \<open>c \<in> c1 \<union> c2 \<union> c3\<close> in auto)
  qed
  ultimately show ?thesis by (intro exI [of _ "m2(''wireless'' \<mapsto> ?W2)"] exI [of _ t3] exI [of _ "c1 \<union> c2 \<union> c3"]) simp
qed

context uci_tool
begin

lemma sim_enable_guest_network: "sim (rel view) (enable_guest_network E) (enable_guest_network R)"
  unfolding enable_guest_network_def
  by (intro sim_intros sim_read_uci sim_set_guest_network) simp_all

lemma sim_at_wifi_update:
  assumes "wifi_ready W n d i g" "sim (rel view) (q (sec_name d)) (q' (sec_name d))"
    and "rel view s t" "staged (ext t) ''wireless'' = Some W"
  shows "sim_at (rel view) (wifi_update_body E q [(n, WifiOn w)]) (wifi_update_body R q' [(n, WifiOn w)]) s t"
proof -
  have r: "radio_of W n d i g" and W: "wf_config W" using assms(1) by (auto simp: wifi_ready_def)
  have steps: "sim (rel view)
      (wifi_steps E (q (sec_name d)) w (update_wifi_writes n (WifiOn w) (sec_name d) (sec_name i) (map_option sec_name g)) (wifi_devices W))
      (wifi_steps R (q' (sec_name d)) w (update_wifi_writes n (WifiOn w) (sec_name d) (sec_name i) (map_option sec_name g)) (wifi_devices W))"
    unfolding wifi_steps_def
    by (intro sim_intros assms(2) sim_writes sim_read_uci sim_enable_guest_network wifi_ready_valid [OF assms(1)]) simp_all
  show ?thesis
    unfolding wifi_update_body_eq [OF r]
  proof (rule sim_at_read [OF assms(3)])
    fix data s'
    assume "read_uci R ''wireless'' t = (Ret data, t)" "rel view s' t"
    moreover have "read_uci R ''wireless'' t = (Ret [(''wireless'', W)], t)"
      by (rule exec_read_uci [OF assms(4) W]) simp
    ultimately show "sim_at (rel view)
        (if data = [(''wireless'', W)]
         then wifi_steps E (q (sec_name d)) w
               (update_wifi_writes n (WifiOn w) (sec_name d) (sec_name i) (map_option sec_name g)) (wifi_devices W)
         else bindP (lift (get_device_sections data)) (\<lambda>device_sections.
           bindP (update_devices E q data device_sections [(n, WifiOn w)]) (\<lambda>guest.
           bindP (whenP guest [enable_guest_network E]) (\<lambda>_.
           bindP (read_uci E ''system'') (\<lambda>system_data.
           bindP (lift (get_option_anonymous system_data ''system'' ''system'' 0 ''_country'' (Some (Str ''00'')))) (\<lambda>country.
             update_regulator_domain E data (py_str country)))))))
        (if data = [(''wireless'', W)]
         then wifi_steps R (q' (sec_name d)) w
               (update_wifi_writes n (WifiOn w) (sec_name d) (sec_name i) (map_option sec_name g)) (wifi_devices W)
         else bindP (lift (get_device_sections data)) (\<lambda>device_sections.
           bindP (update_devices R q' data device_sections [(n, WifiOn w)]) (\<lambda>guest.
           bindP (whenP guest [enable_guest_network R]) (\<lambda>_.
           bindP (read_uci R ''system'') (\<lambda>system_data.
           bindP (lift (get_option_anonymous system_data ''system'' ''system'' 0 ''_country'' (Some (Str ''00'')))) (\<lambda>country.
             update_regulator_domain R data (py_str country))))))) s' t"
      using sim_atI [OF steps] by simp
  qed simp
qed

end

section \<open>Reading back\<close>


text \<open>A router with one radio for both bands.\<close>

definition demo_radio_env :: "store env" where
  "demo_radio_env = demo_env\<lparr>env_execute := (\<lambda>argv inp \<sigma>.
     if hd argv = ''/bin/ubus'' then (Exited 0 (argv ! 3) [], \<sigma>) else ref_execute demo_name argv inp \<sigma>)\<rparr>"

definition demo_ubus :: ubus_io where
  "demo_ubus = \<lparr>ub_loads = (\<lambda>s. Some (if s = ''info''
      then JObj [(''htmodes'', JArr [JStr ''HT40'', JStr ''HT20'']), (''hwmodes'', JArr [JStr ''n''])]
      else JObj [(''results'', JArr [JObj [(''channel'', JNum 6), (''mhz'', JNum 2437)]])])),
     ub_device = (\<lambda>name. name)\<rparr>"

definition demo_wireless :: "usection list" where
  "demo_wireless =
     [\<lparr>sec_type = ''wifi-device'', sec_name = ''radio0'', sec_data = [(''disabled'', Str ''1'')], anonymous = False\<rparr>,
      \<lparr>sec_type = ''wifi-iface'', sec_name = ''default_radio0'', sec_data = [(''device'', Str ''radio0''), (''ssid'', Str ''OpenWrt'')],
        anonymous = False\<rparr>]"

definition demo_wifi_request :: wifi_request where
  "demo_wifi_request = \<lparr>wr_channel = 6, wr_hwmode = ''11g'', wr_htmode = ''HT40'', wr_ssid = ''home'', wr_hidden = False,
     wr_encryption = Some ''WPA3'', wr_ieee80211w_disabled = Some True, wr_password = ''password1'', wr_guest = None\<rparr>"

definition demo_bands :: "wifi_band list" where
  "demo_bands = [\<lparr>wb_hwmode = ''11g'', wb_channels = [\<lparr>ch_number = JNum 6, ch_frequency = JNum 2437\<rparr>],
     wb_htmodes = [''NOHT'', ''HT20'', ''HT40'']\<rparr>]"

lemma demo_radio_tool: "uci_tool demo_radio_env demo_name (\<lambda>\<sigma>. \<sigma>)"
proof unfold_locales
  fix args \<sigma> ok out \<sigma>'
  assume "ref_uci demo_name export_text args \<sigma> = Some ((ok, out), \<sigma>')"
  then show "\<exists>rc err e'. env_execute demo_radio_env (uci_argv demo_radio_env args) None \<sigma> = (Exited rc out err, e') \<and>
      (rc = 0) = ok \<and> e' = \<sigma>'"
    by (simp add: demo_radio_env_def ref_execute_def uci_argv_def) (simp add: strip_argv_def)
qed (simp_all add: demo_radio_env_def demo_env_def ref_execute_def strip_argv_def)

lemma demo_radio_bands: "sim (rel (\<lambda>\<sigma>. \<sigma>)) (get_device_bands demo_radio_env demo_ubus ''radio0'') (ret demo_bands)"
proof -
  have argv: "inject_cmdline_root demo_radio_env ''/bin/ubus'' = ''/bin/ubus''"
    by (simp add: inject_cmdline_root_def inject_root_def demo_radio_env_def demo_env_def ref_env_def)
  have bands: "device_bands (the (ub_loads demo_ubus ''info'')) (the (ub_loads demo_ubus ''freqlist'')) = Inr demo_bands"
    by code_simp
  have call: "call_ubus demo_radio_env demo_ubus ''iwinfo'' m (Some (ub_device demo_ubus ''radio0'')) s =
      (Ret (if m = [] then Some (JObj []) else ub_loads demo_ubus m), s)" for m s
    by (simp add: call_ubus_def run_command_def argv handle_command_def bindP_def tryP_def ret_def Let_def)
       (simp add: demo_radio_env_def ret_def)
  obtain ht freq where replies: "ub_loads demo_ubus ''info'' = Some ht" "json_truthy ht"
      "ub_loads demo_ubus ''freqlist'' = Some freq" "json_truthy freq"
    by (simp add: demo_ubus_def)
  have "get_device_bands demo_radio_env demo_ubus ''radio0'' s = (Ret demo_bands, s)" for s
    using bands by (simp add: get_device_bands_def bindP_def call replies ret_def lift_def)
  then show ?thesis by (simp add: sim_def ret_def)
qed


end
