(* ===== verification/AsyncCommands.thy ===== *)
theory AsyncCommands
  imports PyStr
begin

text \<open>
  \<^verbatim>\<open>AsyncProcessData\<close>, \<^verbatim>\<open>AsyncCommand\<close> and \<^verbatim>\<open>AsyncMultipleCommands\<close> of
  \<^verbatim>\<open>foris_controller_backends/cmdline\<close>: the bounded buffer of running and finished commands,
  the workers that watch an external program, and the interleaving of starts, outputs and exits
  as a step relation.
\<close>

section \<open>Data shared with the worker\<close>

text \<open>
  The records are stored as JSON text; they are built of strings, booleans and dictionaries with
  string keys, on which \<^verbatim>\<open>json.loads(json.dumps(e))\<close> is \<open>e\<close>.
\<close>

record 'r proc_data =
  pd_id :: string
  pd_records :: "'r list"
  pd_retval :: int
  pd_exited :: bool

definition hex_digit :: "nat \<Rightarrow> char" where
  "hex_digit d = (if d < 10 then char_of (48 + d) else char_of (87 + d))"

fun hex_digits :: "nat \<Rightarrow> nat \<Rightarrow> string" where
  "hex_digits 0 n = []"
| "hex_digits (Suc k) n = hex_digits k (n div 16) @ [hex_digit (n mod 16)]"

text \<open>\<^verbatim>\<open>"%016x" % random.randrange(2 ** 64)\<close>, the random number an argument.\<close>

definition process_id :: "nat \<Rightarrow> string" where
  "process_id random = hex_digits 16 random"

definition new_process :: "nat \<Rightarrow> 'r proc_data" where
  "new_process random = \<lparr>pd_id = process_id random, pd_records = [], pd_retval = 0, pd_exited = False\<rparr>"

definition read_all_data :: "'r proc_data \<Rightarrow> 'r list" where
  "read_all_data d = pd_records d"

definition append_data :: "'r \<Rightarrow> 'r proc_data \<Rightarrow> 'r proc_data" where
  "append_data r d = d\<lparr>pd_records := pd_records d @ [r]\<rparr>"

definition set_retval :: "int \<Rightarrow> 'r proc_data \<Rightarrow> 'r proc_data" where
  "set_retval rc d = d\<lparr>pd_retval := rc\<rparr>"

definition set_exited :: "'r proc_data \<Rightarrow> 'r proc_data" where
  "set_exited d = d\<lparr>pd_exited := True\<rparr>"

lemma hex_digit_inject: "a < 16 \<Longrightarrow> b < 16 \<Longrightarrow> hex_digit a = hex_digit b \<Longrightarrow> a = b"
proof -
  assume ab: "a < 16" "b < 16" "hex_digit a = hex_digit b"
  have of: "of_char (hex_digit x) = (if x < 10 then 48 + x else 87 + x)" if "x < 16" for x :: nat
    using that by (auto simp: hex_digit_def)
  from ab(3) have "(of_char (hex_digit a) :: nat) = of_char (hex_digit b)" by simp
  with ab(1,2) show ?thesis unfolding of [OF ab(1)] of [OF ab(2)] by (auto split: if_splits)
qed

lemma hex_digits_length [simp]: "length (hex_digits k n) = k"
  by (induction k n rule: hex_digits.induct) auto

lemma hex_digits_inject:
  "a < 16 ^ k \<Longrightarrow> b < 16 ^ k \<Longrightarrow> hex_digits k a = hex_digits k b \<Longrightarrow> a = b"
proof (induction k arbitrary: a b)
  case (Suc k)
  have "a div 16 = b div 16" by (rule Suc.IH) (use Suc.prems in \<open>auto simp: less_mult_imp_div_less\<close>)
  moreover have "a mod 16 = b mod 16" by (rule hex_digit_inject) (use Suc.prems(3) in auto)
  ultimately show ?case by (metis div_mult_mod_eq)
qed simp

lemma process_id_inject: "a < 2 ^ 64 \<Longrightarrow> b < 2 ^ 64 \<Longrightarrow> process_id a = process_id b \<Longrightarrow> a = b"
  unfolding process_id_def by (rule hex_digits_inject [of _ 16]) simp_all

section \<open>The buffer of processes\<close>

text \<open>
  An \<^verbatim>\<open>OrderedDict\<close> is an association list in insertion order; assigning to a present key
  keeps its place. Its values are addresses of the shared data.
\<close>

definition process_buffer :: nat where
  "process_buffer = 20"

function make_room :: "'a list \<Rightarrow> 'a list" where
  "make_room ps = (if process_buffer \<le> length ps then make_room (tl ps) else ps)"
  by auto
termination by (relation "measure length") (auto simp: process_buffer_def)

declare make_room.simps [simp del]

definition admit :: "string \<Rightarrow> 'v \<Rightarrow> (string \<times> 'v) list \<Rightarrow> (string \<times> 'v) list" where
  "admit i d ps = AList.update i d (make_room ps)"

lemma make_room_drop: "make_room ps = drop (length ps + 1 - process_buffer) ps"
proof (induction ps rule: make_room.induct)
  case (1 ps)
  show ?case
  proof (cases "process_buffer \<le> length ps")
    case True
    then have "make_room ps = drop (length (tl ps) + 1 - process_buffer) (tl ps)"
      using 1 by (subst make_room.simps) simp
    with True show ?thesis
      by (cases ps) (auto simp: process_buffer_def drop_Cons' Suc_diff_le)
  next
    case False
    then show ?thesis by (subst make_room.simps) simp
  qed
qed

lemma length_update: "length (AList.update k v ps) \<le> Suc (length ps)"
  by (induction ps) auto

lemma set_update: "set (AList.update k v ps) \<subseteq> insert (k, v) (set ps)"
  by (induction ps) auto

lemma length_admit: "length (admit i d ps) \<le> process_buffer"
  using length_update [of i d "make_room ps"] by (auto simp: admit_def make_room_drop process_buffer_def)

lemma admit_lookup: "map_of (admit i d ps) j = (if j = i then Some d else map_of (make_room ps) j)"
  by (simp add: admit_def update_conv')

text \<open>The last elements of a list, at most as many as the buffer holds.\<close>

definition last_started :: "'a list \<Rightarrow> 'a list" where
  "last_started xs = drop (length xs - process_buffer) xs"

lemma admit_last_started:
  "i \<notin> fst ` set ps \<Longrightarrow> admit i d (last_started ps) = last_started (ps @ [(i, d)])"
proof -
  assume "i \<notin> fst ` set ps"
  then have "i \<notin> fst ` set (make_room (last_started ps))"
    using set_drop_subset by (fastforce simp: make_room_drop last_started_def)
  then have "admit i d (last_started ps) = make_room (last_started ps) @ [(i, d)]"
    by (simp add: admit_def update_new)
  also have "\<dots> = last_started (ps @ [(i, d)])"
  proof (cases "length ps < 20")
    case False
    then have "Suc (length ps - 20) = length ps - 19" by arith
    with False show ?thesis by (simp add: make_room_drop last_started_def process_buffer_def)
  qed (simp add: make_room_drop last_started_def process_buffer_def)
  finally show ?thesis .
qed

section \<open>The interface to the clients\<close>

text \<open>
  What the status queries of the clients rely on: a command is found under its identifier as
  soon as it is started, starting one disturbs no other that stays, and the buffer is bounded.
\<close>

locale command_buffer =
  fixes start :: "string \<Rightarrow> 'v \<Rightarrow> 'b \<Rightarrow> 'b"
    and found :: "'b \<Rightarrow> string \<Rightarrow> 'v option"
    and used :: "'b \<Rightarrow> nat"
    and sound :: "'b \<Rightarrow> bool"
    and bound :: nat
  assumes found_start: "sound b \<Longrightarrow> found (start i d b) i = Some d"
    and found_kept: "sound b \<Longrightarrow> found (start i d b) j = Some e \<Longrightarrow> j \<noteq> i \<Longrightarrow> found b j = Some e"
    and found_room: "sound b \<Longrightarrow> used b < bound \<Longrightarrow> found b j = Some e \<Longrightarrow> j \<noteq> i \<Longrightarrow>
      found (start i d b) j = Some e"
    and used_bound: "used (start i d b) \<le> bound"
    and used_start: "used (start i d b) \<le> Suc (used b)"
    and sound_start: "sound b \<Longrightarrow> sound (start i d b)"
begin

text \<open>Starts in a sequence, the last one at the head.\<close>

fun started :: "(string \<times> 'v) list \<Rightarrow> 'b \<Rightarrow> 'b" where
  "started [] b = b"
| "started ((i, d) # ds) b = start i d (started ds b)"

lemma sound_started: "sound b \<Longrightarrow> sound (started ds b)"
  by (induction ds) (auto intro: sound_start)

lemma used_started: "used (started ds b) \<le> used b + length ds"
proof (induction ds)
  case (Cons p ds)
  then show ?case using used_start [of "fst p" "snd p" "started ds b"] by (cases p) simp
qed simp

text \<open>A command survives the starts of others while there is room for all of them.\<close>

lemma found_started:
  "sound b \<Longrightarrow> found b j = Some e \<Longrightarrow> used b + length ds \<le> bound \<Longrightarrow> j \<notin> fst ` set ds \<Longrightarrow>
    found (started ds b) j = Some e"
proof (induction ds)
  case (Cons p ds)
  moreover have "used (started ds b) < bound"
    using used_started [of ds b] Cons.prems(3) by simp
  ultimately show ?case by (cases p) (auto intro!: found_room sound_started)
qed simp

lemma found_only_known:
  "sound b \<Longrightarrow> found (started ds b) j = Some e \<Longrightarrow> j \<notin> fst ` set ds \<Longrightarrow> found b j = Some e"
  by (induction ds) (auto dest: found_kept [OF sound_started])

end

lemma map_of_drop: "distinct (map fst ps) \<Longrightarrow> map_of (drop n ps) j = Some e \<Longrightarrow> map_of ps j = Some e"
  using set_drop_subset [of n ps] by (auto intro!: map_of_is_SomeI dest!: map_of_SomeD)

interpretation buffer: command_buffer admit map_of length "\<lambda>ps. distinct (map fst ps)" process_buffer
proof unfold_locales
  fix i j :: string and d e :: 'v and b :: "(string \<times> 'v) list"
  show "map_of (admit i d b) i = Some d" by (simp add: admit_lookup)
  show "length (admit i d b) \<le> process_buffer" by (rule length_admit)
  show "length (admit i d b) \<le> Suc (length b)"
    using length_update [of i d "make_room b"] by (simp add: admit_def make_room_drop)
  show "map_of (admit i d b) j = Some e" if "length b < process_buffer" "map_of b j = Some e" "j \<noteq> i"
    using that by (simp add: admit_lookup make_room_drop)
  show "map_of b j = Some e" if "distinct (map fst b)" "map_of (admit i d b) j = Some e" "j \<noteq> i"
    using that map_of_drop [of b _ j e] by (simp add: admit_lookup make_room_drop)
  show "distinct (map fst (admit i d b))" if "distinct (map fst b)"
    unfolding admit_def by (rule distinct_update) (simp add: that make_room_drop drop_map [symmetric])
qed

section \<open>The worker of one command\<close>

text \<open>
  What the worker does on a line is a function of the line and of its world \<open>'w\<close>: the shared
  data and the notifications sent. The output of the program comes as lines with their newline;
  \<^verbatim>\<open>readline\<close> waits for the next one, and answers the empty string at the end.
\<close>

type_synonym 'w handlers = "(string \<Rightarrow> ('w \<Rightarrow> 'w) option) list"

definition handle_line :: "'w handlers \<Rightarrow> string \<Rightarrow> 'w \<Rightarrow> 'w" where
  "handle_line hs line w = fold (\<lambda>h w. case h line of None \<Rightarrow> w | Some f \<Rightarrow> f w) hs w"

fun process_output_line :: "'w handlers \<Rightarrow> string list \<Rightarrow> 'w \<Rightarrow> bool \<times> string list \<times> 'w" where
  "process_output_line hs [] w = (False, [], w)"
| "process_output_line hs (line # ls) w = (True, ls, handle_line hs (butlast line) w)"

text \<open>The loop while \<^verbatim>\<open>poll\<close> finds the program running, \<open>n\<close> times in all.\<close>

fun watch_running :: "nat \<Rightarrow> 'w handlers \<Rightarrow> string list \<Rightarrow> 'w \<Rightarrow> string list \<times> 'w" where
  "watch_running 0 hs ls w = (ls, w)"
| "watch_running (Suc n) hs ls w =
     (case process_output_line hs ls w of (_, ls', w') \<Rightarrow> watch_running n hs ls' w')"

function drain_output :: "'w handlers \<Rightarrow> string list \<Rightarrow> 'w \<Rightarrow> 'w" where
  "drain_output hs ls w =
     (case process_output_line hs ls w of (again, ls', w') \<Rightarrow> if again then drain_output hs ls' w' else w')"
  by pat_completeness auto
termination
  by (relation "measure (\<lambda>(hs, ls, w). length ls)") (auto elim: process_output_line.elims [OF sym])

declare drain_output.simps [simp del]

definition command_worker ::
  "(('r proc_data \<Rightarrow> 'r proc_data) \<Rightarrow> 'w \<Rightarrow> 'w) \<Rightarrow> nat \<Rightarrow> string list \<Rightarrow> int \<Rightarrow> 'w handlers \<Rightarrow> ('w \<Rightarrow> 'w) \<Rightarrow> 'w \<Rightarrow> 'w" where
  "command_worker upd polls output returncode handler_list handler_exit w =
     (case watch_running polls handler_list output w of (left_over, w1) \<Rightarrow>
        handler_exit (upd (\<lambda>d. set_exited (set_retval returncode d)) (drain_output handler_list left_over w1)))"

text \<open>The same without the polling: every line once, in order.\<close>

definition handle_lines :: "'w handlers \<Rightarrow> string list \<Rightarrow> 'w \<Rightarrow> 'w" where
  "handle_lines hs ls w = fold (\<lambda>line. handle_line hs (butlast line)) ls w"

lemma drain_handles: "drain_output hs ls w = handle_lines hs ls w"
  by (induction ls arbitrary: w) (simp_all add: drain_output.simps handle_lines_def)

lemma watch_handles:
  "watch_running n hs ls w = (ls', w') \<Longrightarrow> handle_lines hs ls' w' = handle_lines hs ls w"
proof (induction n hs ls w arbitrary: ls' w' rule: watch_running.induct)
  case (2 n hs ls w)
  then show ?case by (cases ls) (auto simp: handle_lines_def)
qed simp

lemma worker_loop:
  "command_worker upd polls output returncode hs handler_exit w =
     handler_exit (upd (\<lambda>d. set_exited (set_retval returncode d))
       (fold (\<lambda>line. handle_line hs (butlast line)) output w))"
proof -
  obtain ls' w' where watch: "watch_running polls hs output w = (ls', w')" by (cases "watch_running polls hs output w")
  then show ?thesis
    using watch_handles [OF watch]
    by (simp add: command_worker_def drain_handles) (simp add: handle_lines_def)
qed

text \<open>
  C18: the worker handles every line of its command exactly once and in order, and only then
  publishes the return code and the exit, however the polls for the end of the program fall
  between the lines.
\<close>

theorem worker_handles_each_line_once:
  "command_worker upd polls output returncode hs handler_exit w =
     handler_exit (upd (\<lambda>d. set_exited (set_retval returncode d))
       (fold (\<lambda>line. handle_line hs (butlast line)) output w))"
  by (rule worker_loop)

section \<open>Starts, outputs and exits interleaved\<close>

text \<open>
  The buffer of an \<^verbatim>\<open>AsyncCommand\<close> and the shared data of every command it ever started, in
  the order of their starts; the values of the buffer are positions in that list, since a
  command that left the buffer still runs. One step per critical section: a start under the
  write lock, a line handled by a worker, an exit.
\<close>

record 'r async =
  as_processes :: "(string \<times> nat) list"
  as_heap :: "'r proc_data list"

definition async_init :: "'r async" where
  "async_init = \<lparr>as_processes = [], as_heap = []\<rparr>"

definition start_process :: "nat \<Rightarrow> 'r async \<Rightarrow> 'r async" where
  "start_process random a =
     \<lparr>as_processes = admit (process_id random) (length (as_heap a)) (as_processes a),
      as_heap = as_heap a @ [new_process random]\<rparr>"

inductive async_step :: "'r async \<Rightarrow> 'r async \<Rightarrow> bool" where
  Start: "random < 2 ^ 64 \<Longrightarrow> async_step a (start_process random a)"
| Output: "k < length (as_heap a) \<Longrightarrow> \<not> pd_exited (as_heap a ! k) \<Longrightarrow>
    async_step a (a\<lparr>as_heap := (as_heap a)[k := append_data r (as_heap a ! k)]\<rparr>)"
| Exit: "k < length (as_heap a) \<Longrightarrow> \<not> pd_exited (as_heap a ! k) \<Longrightarrow>
    async_step a (a\<lparr>as_heap := (as_heap a)[k := set_exited (set_retval rc (as_heap a ! k))]\<rparr>)"

inductive_cases async_stepE: "async_step a b"

inductive async_reachable :: "'r async \<Rightarrow> bool" where
  Init: "async_reachable async_init"
| Step: "async_reachable a \<Longrightarrow> async_step a b \<Longrightarrow> async_reachable b"

definition started_ids :: "'r async \<Rightarrow> string list" where
  "started_ids a = map pd_id (as_heap a)"

text \<open>Every address of the buffer is one of a command with that identifier.\<close>

definition async_ok :: "'r async \<Rightarrow> bool" where
  "async_ok a \<longleftrightarrow> length (as_processes a) \<le> process_buffer \<and> distinct (map fst (as_processes a)) \<and>
     (\<forall>(i, k) \<in> set (as_processes a). k < length (as_heap a) \<and> pd_id (as_heap a ! k) = i) \<and>
     (distinct (started_ids a) \<longrightarrow>
       as_processes a = last_started (zip (started_ids a) [0..<length (as_heap a)]))"

lemma pd_id_updates [simp]:
  "pd_id (append_data r d) = pd_id d" "pd_id (set_retval rc d) = pd_id d" "pd_id (set_exited d) = pd_id d"
  "pd_id (new_process random) = process_id random"
  by (simp_all add: append_data_def set_retval_def set_exited_def new_process_def)

lemma async_ok_heap:
  "async_ok a \<Longrightarrow> k < length (as_heap a) \<Longrightarrow> pd_id d = pd_id (as_heap a ! k) \<Longrightarrow>
    async_ok (a\<lparr>as_heap := (as_heap a)[k := d]\<rparr>)"
proof -
  assume a: "async_ok a" "k < length (as_heap a)" "pd_id d = pd_id (as_heap a ! k)"
  then have ids: "pd_id ((as_heap a)[k := d] ! j) = pd_id (as_heap a ! j)" for j
    by (cases "j = k") simp_all
  then have "started_ids (a\<lparr>as_heap := (as_heap a)[k := d]\<rparr>) = started_ids a"
    by (intro nth_equalityI) (simp_all add: started_ids_def)
  with a(1) ids show ?thesis by (simp add: async_ok_def)
qed

lemma zip_started:
  "zip (xs @ [x]) [0..<Suc (length xs)] = zip xs [0..<length xs] @ [(x, length xs)]"
  by simp

lemma async_ok_start: "async_ok a \<Longrightarrow> async_ok (start_process random a)"
proof -
  assume ok: "async_ok a"
  let ?i = "process_id random" and ?b = "start_process random a"
  have entries: "set (as_processes ?b) \<subseteq> insert (?i, length (as_heap a)) (set (as_processes a))"
    using set_update [of ?i "length (as_heap a)" "make_room (as_processes a)"]
      set_drop_subset [of "length (as_processes a) + 1 - process_buffer" "as_processes a"]
    by (auto simp: start_process_def admit_def make_room_drop)
  have "as_processes ?b = last_started (zip (started_ids ?b) [0..<length (as_heap ?b)])" if "distinct (started_ids ?b)"
  proof -
    from that have d: "distinct (started_ids a)" "?i \<notin> set (started_ids a)"
      by (simp_all add: started_ids_def start_process_def)
    let ?z = "zip (started_ids a) [0..<length (as_heap a)]"
    have "?i \<notin> fst ` set ?z" using d(2) by (auto dest: set_zip_leftD)
    then have "admit ?i (length (as_heap a)) (last_started ?z) = last_started (?z @ [(?i, length (as_heap a))])"
      by (rule admit_last_started)
    moreover have "as_processes a = last_started ?z" using ok d(1) by (simp add: async_ok_def)
    ultimately show ?thesis
      using zip_started [of "started_ids a" ?i] by (simp add: start_process_def started_ids_def)
  qed
  moreover have "distinct (map fst (as_processes ?b))"
    using buffer.sound_start [of "as_processes a" ?i "length (as_heap a)"] ok by (simp add: start_process_def async_ok_def)
  moreover have "length (as_processes ?b) \<le> process_buffer"
    using buffer.used_bound [of ?i "length (as_heap a)" "as_processes a"] by (simp add: start_process_def)
  moreover have "\<forall>(i, k) \<in> set (as_processes ?b). k < length (as_heap ?b) \<and> pd_id (as_heap ?b ! k) = i"
  proof clarify
    fix i k assume "(i, k) \<in> set (as_processes ?b)"
    with entries consider "i = ?i" "k = length (as_heap a)" | "(i, k) \<in> set (as_processes a)" by blast
    then show "k < length (as_heap ?b) \<and> pd_id (as_heap ?b ! k) = i"
      using ok by cases (auto simp: async_ok_def start_process_def nth_append)
  qed
  ultimately show ?thesis by (simp add: async_ok_def)
qed

lemma async_step_ok: "async_step a b \<Longrightarrow> async_ok a \<Longrightarrow> async_ok b"
  by (induction rule: async_step.induct) (simp_all add: async_ok_start async_ok_heap)

text \<open>
  C19: in every reachable state, however starts, outputs and exits interleave, the buffer holds
  at most twenty commands, each found under its own identifier; and when no identifier was drawn
  twice, they are exactly the twenty started last, in the order of their starts.
\<close>

theorem buffer_holds_last_started:
  assumes "async_reachable a"
  shows "length (as_processes a) \<le> 20 \<and>
    (\<forall>(i, k) \<in> set (as_processes a). k < length (as_heap a) \<and> pd_id (as_heap a ! k) = i) \<and>
    (distinct (started_ids a) \<longrightarrow>
      as_processes a = last_started (zip (started_ids a) [0..<length (as_heap a)]))"
proof -
  have "async_ok async_init"
    by (simp add: async_ok_def async_init_def last_started_def)
  with assms have "async_ok a" by (induction rule: async_reachable.induct) (auto dest: async_step_ok)
  then show ?thesis by (simp add: async_ok_def process_buffer_def)
qed

lemma buffer_holds_last_started_witness:
  "length (as_processes (start_process 7 (start_process 5 (async_init :: nat async)))) \<le> 20 \<and>
   as_processes (start_process 7 (start_process 5 (async_init :: nat async))) =
     [(process_id 5, 0), (process_id 7, 1)]"
proof -
  have ids: "process_id 5 \<noteq> process_id 7"
    using process_id_inject [of 5 7] by auto
  have "async_reachable (start_process 7 (start_process 5 (async_init :: nat async)))"
    by (rule async_reachable.Step [OF async_reachable.Step [OF async_reachable.Init async_step.Start] async_step.Start]) simp_all
  from buffer_holds_last_started [OF this] ids show ?thesis
    by (simp add: started_ids_def start_process_def async_init_def new_process_def last_started_def process_buffer_def)
qed

section \<open>Several commands at once\<close>

text \<open>
  \<^verbatim>\<open>AsyncMultipleCommands\<close>: a program that ended, with its return code and output;
  \<open>loads\<close> is \<^verbatim>\<open>json.loads\<close>. A round of \<^verbatim>\<open>handle_subprocesses\<close> finds the programs of a set
  ended, and handles those not handled before, in the order of the list. An output that is no
  JSON text ends the worker, with the command never exiting.
\<close>

record subprocess =
  su_returncode :: int
  su_stdout :: string

definition process_output :: "(string \<Rightarrow> 'j option) \<Rightarrow> 'j \<Rightarrow> ('j \<Rightarrow> 'w \<Rightarrow> 'w) \<Rightarrow> subprocess \<Rightarrow> 'w \<Rightarrow> 'w res" where
  "process_output loads empty_dict handler_result p w =
     (if su_returncode p \<noteq> 0 then Inr w
      else if su_stdout p \<noteq> [] then
        (case loads (su_stdout p) of None \<Rightarrow> Inl ValueError | Some j \<Rightarrow> Inr (handler_result j w))
      else Inr (handler_result empty_dict w))"

fun handle_subprocesses ::
  "(nat \<Rightarrow> bool) \<Rightarrow> ('s \<Rightarrow> 'w \<Rightarrow> 'w res) \<Rightarrow> (nat \<times> 's) list \<Rightarrow> nat list \<times> 'w \<Rightarrow> (nat list \<times> 'w) res" where
  "handle_subprocesses ended act [] st = Inr st"
| "handle_subprocesses ended act ((k, p) # ps) (handled, w) =
     (if ended k \<and> k \<notin> set handled
      then bindE (act p w) (\<lambda>w'. handle_subprocesses ended act ps (handled @ [k], w'))
      else handle_subprocesses ended act ps (handled, w))"

fun handle_rounds ::
  "(nat \<Rightarrow> bool) list \<Rightarrow> ('s \<Rightarrow> 'w \<Rightarrow> 'w res) \<Rightarrow> (nat \<times> 's) list \<Rightarrow> nat list \<times> 'w \<Rightarrow> (nat list \<times> 'w) res" where
  "handle_rounds [] act ps st = handle_subprocesses (\<lambda>_. True) act ps st"
| "handle_rounds (ended # es) act ps st =
     bindE (handle_subprocesses ended act ps st) (\<lambda>st'. handle_rounds es act ps st')"

definition multiple_worker ::
  "(string \<Rightarrow> 'j option) \<Rightarrow> 'j \<Rightarrow> ('j \<Rightarrow> 'w \<Rightarrow> 'w) \<Rightarrow> (('r proc_data \<Rightarrow> 'r proc_data) \<Rightarrow> 'w \<Rightarrow> 'w) \<Rightarrow>
    (nat \<Rightarrow> bool) list \<Rightarrow> subprocess list \<Rightarrow> ('w \<Rightarrow> 'w) \<Rightarrow> 'w \<Rightarrow> (nat list \<times> 'w) res" where
  "multiple_worker loads empty_dict handler_result upd rounds subprocesses handler_exit w =
     bindE (handle_rounds rounds (process_output loads empty_dict handler_result) (enumerate 0 subprocesses) ([], w))
       (\<lambda>(handled, w').
     if subprocesses = [] then Inl ValueError
     else Inr (handled, handler_exit
       (upd (\<lambda>d. set_exited (set_retval (Max (set (map su_returncode subprocesses))) d)) w')))"

text \<open>
  What a program that ended gives to \<^verbatim>\<open>handler_result\<close>: nothing when it failed, the empty
  dictionary when it printed nothing, and its output as JSON otherwise.
\<close>

definition unreadable :: "(string \<Rightarrow> 'j option) \<Rightarrow> subprocess \<Rightarrow> bool" where
  "unreadable loads p \<longleftrightarrow> su_returncode p = 0 \<and> su_stdout p \<noteq> [] \<and> loads (su_stdout p) = None"

definition given_result :: "(string \<Rightarrow> 'j option) \<Rightarrow> 'j \<Rightarrow> ('j \<Rightarrow> 'w \<Rightarrow> 'w) \<Rightarrow> subprocess \<Rightarrow> 'w \<Rightarrow> 'w" where
  "given_result loads empty_dict handler_result p =
     (if su_returncode p \<noteq> 0 then id
      else handler_result (if su_stdout p = [] then empty_dict else the (loads (su_stdout p))))"

lemma process_output_given:
  "process_output loads empty_dict handler_result p w =
    (if unreadable loads p then Inl ValueError else Inr (given_result loads empty_dict handler_result p w))"
  by (auto simp: process_output_def unreadable_def given_result_def split: option.splits)

text \<open>
  The bookkeeping of \<^verbatim>\<open>handle_subprocesses\<close> is the trace of its calls: the world it leaves is
  the calls of the list, in its order, and a program is never entered a second time.
\<close>

lemma handle_subprocesses_trace:
  assumes "\<forall>(k, p) \<in> set ps. act p = (\<lambda>w. if B k then Inl ValueError else Inr (G k w))"
    and "distinct (map fst ps)" "distinct handled"
  shows "case handle_subprocesses ended act ps (handled, w) of
      Inl e \<Rightarrow> e = ValueError \<and> (\<exists>k \<in> fst ` set ps. B k)
    | Inr (handled', w') \<Rightarrow> distinct handled' \<and> set handled' = set handled \<union> {k \<in> fst ` set ps. ended k} \<and>
        (\<exists>ks. handled' = handled @ ks \<and> w' = fold G ks w \<and> (\<forall>k \<in> set ks. \<not> B k))"
  using assms
proof (induction ps arbitrary: handled w)
  case (Cons p ps)
  obtain k q where p: "p = (k, q)" by (cases p)
  show ?case
  proof (cases "ended k \<and> k \<notin> set handled")
    case True
    then have entered: "handle_subprocesses ended act (p # ps) (handled, w) =
        (if B k then Inl ValueError else handle_subprocesses ended act ps (handled @ [k], G k w))"
      using Cons.prems(1) p by (simp add: bindE_def)
    show ?thesis
    proof (cases "B k")
      case False
      then show ?thesis
        using Cons.IH [of "handled @ [k]" "G k w"] Cons.prems True p entered
        by (auto split: sum.splits)
    qed (use entered p in simp)
  next
    case False
    then show ?thesis
      using Cons.IH [of handled w] Cons.prems p by (auto split: sum.splits)
  qed
qed simp

lemma handle_rounds_trace:
  assumes "\<forall>(k, p) \<in> set ps. act p = (\<lambda>w. if B k then Inl ValueError else Inr (G k w))"
    and "distinct (map fst ps)" "distinct handled" "set handled \<subseteq> fst ` set ps"
  shows "case handle_rounds rounds act ps (handled, w) of
      Inl e \<Rightarrow> e = ValueError \<and> (\<exists>k \<in> fst ` set ps. B k)
    | Inr (handled', w') \<Rightarrow> distinct handled' \<and> set handled' = fst ` set ps \<and>
        (\<exists>ks. handled' = handled @ ks \<and> w' = fold G ks w \<and> (\<forall>k \<in> set ks. \<not> B k))"
  using assms(3,4)
proof (induction rounds arbitrary: handled w)
  case Nil
  then show ?case
    using handle_subprocesses_trace [OF assms(1,2) Nil.prems(1), of "\<lambda>_. True" w] by (auto split: sum.splits)
next
  case (Cons ended rounds)
  show ?case
  proof (cases "handle_subprocesses ended act ps (handled, w)")
    case (Inl e)
    then show ?thesis
      using handle_subprocesses_trace [OF assms(1,2) Cons.prems(1), of ended w] by (simp add: bindE_def)
  next
    case (Inr st)
    then obtain h1 w1 where h1: "handle_subprocesses ended act ps (handled, w) = Inr (h1, w1)" by (cases st) simp
    with handle_subprocesses_trace [OF assms(1,2) Cons.prems(1), of ended w] Cons.prems(2)
    have "distinct h1" "set h1 \<subseteq> fst ` set ps" "\<exists>ks. h1 = handled @ ks \<and> w1 = fold G ks w \<and> (\<forall>k \<in> set ks. \<not> B k)"
      by auto
    then show ?thesis using Cons.IH [of h1 w1] h1 by (auto simp: bindE_def split: sum.splits)
  qed
qed

text \<open>
  C20: whichever of the commands ended by which round, a worker of several commands gives the
  result of each of them to \<^verbatim>\<open>handler_result\<close> exactly once: the state it leaves is exactly one
  call per command, in the order in which they were found ended, then the return code (the
  largest one), the exit flag and \<^verbatim>\<open>handler_exit\<close>. A command that failed gives no result, one
  that printed nothing the empty dictionary, any other its output as JSON. The worker fails only
  when there is no command or when some output is no JSON text.
\<close>

theorem each_subprocess_handled_once:
  "case multiple_worker loads empty_dict handler_result upd rounds subprocesses handler_exit w of
     Inl e \<Rightarrow> e = ValueError \<and> (subprocesses = [] \<or> (\<exists>p \<in> set subprocesses. unreadable loads p))
   | Inr (handled, w') \<Rightarrow>
       distinct handled \<and> set handled = {..<length subprocesses} \<and>
       (\<forall>p \<in> set subprocesses. \<not> unreadable loads p) \<and>
       w' = handler_exit (upd (\<lambda>d. set_exited (set_retval (Max (su_returncode ` set subprocesses)) d))
         (fold (\<lambda>k. given_result loads empty_dict handler_result (subprocesses ! k)) handled w))"
proof -
  let ?ps = "enumerate 0 subprocesses" and ?act = "process_output loads empty_dict handler_result"
  let ?B = "\<lambda>k. unreadable loads (subprocesses ! k)"
  let ?G = "\<lambda>k. given_result loads empty_dict handler_result (subprocesses ! k)"
  have ps: "distinct (map fst ?ps)" "fst ` set ?ps = {..<length subprocesses}"
    by (simp_all add: enumerate_eq_zip) (metis atLeast0LessThan list.set_map map_fst_zip length_upt minus_nat.diff_0 set_upt)
  have act: "\<forall>(k, p) \<in> set ?ps. ?act p = (\<lambda>w. if ?B k then Inl ValueError else Inr (?G k w))"
    by (auto simp: process_output_given in_set_enumerate_eq)
  note trace = handle_rounds_trace [where handled = "[]" and rounds = rounds and w = w, OF act ps(1), unfolded ps(2)]
  show ?thesis
  proof (cases "handle_rounds rounds ?act ?ps ([], w)")
    case (Inl e)
    with trace show ?thesis by (auto simp: multiple_worker_def)
  next
    case (Inr st)
    then obtain handled w1 where run: "handle_rounds rounds ?act ?ps ([], w) = Inr (handled, w1)" by (cases st) simp
    with trace have "distinct handled" "set handled = {..<length subprocesses}" "w1 = fold ?G handled w"
        "\<forall>k < length subprocesses. \<not> ?B k" by auto
    then show ?thesis using run by (auto simp: multiple_worker_def in_set_conv_nth)
  qed
qed

lemma each_subprocess_handled_once_witness:
  "\<exists>handled w'. multiple_worker Some ''{}'' (\<lambda>j w. w @ [j]) (\<lambda>f w. w) [\<lambda>k. k = 1]
      [\<lparr>su_returncode = 0, su_stdout = ''a''\<rparr>, \<lparr>su_returncode = 0, su_stdout = []\<rparr>] (\<lambda>w. w) [] = Inr (handled, w') \<and>
    w' = [''{}'', ''a''] \<and> distinct handled \<and> set handled = {..<2}"
proof -
  have "multiple_worker Some ''{}'' (\<lambda>j w. w @ [j]) (\<lambda>f w. w) [\<lambda>k. k = 1]
      [\<lparr>su_returncode = 0, su_stdout = ''a''\<rparr>, \<lparr>su_returncode = 0, su_stdout = []\<rparr>] (\<lambda>w. w) [] = Inr ([1, 0], [''{}'', ''a''])"
    by (simp add: multiple_worker_def process_output_def enumerate_eq_zip)
  with each_subprocess_handled_once [where loads = Some and empty_dict = "''{}''" and
      handler_result = "\<lambda>j w. w @ [j]" and upd = "\<lambda>f w. w" and rounds = "[\<lambda>k. k = 1]" and
      subprocesses = "[\<lparr>su_returncode = 0, su_stdout = ''a''\<rparr>, \<lparr>su_returncode = 0, su_stdout = []\<rparr>]" and
      handler_exit = "\<lambda>w. w" and w = "[]"]
  show ?thesis
    by (intro exI conjI) (assumption | simp add: numeral_eq_Suc lessThan_Suc)+
qed

end
