(* ===== verification/AsyncClients.thy ===== *)
theory AsyncClients
  imports AsyncCommands Guide
begin

text \<open>
  The clients of the asynchronous commands: the connection test of
  \<^verbatim>\<open>foris_controller_backends/wan\<close> (\<^verbatim>\<open>WanTestCommands\<close>), the wireless scan of
  \<^verbatim>\<open>wifi\<close> (\<^verbatim>\<open>WifiScanCommands\<close>), the certificate authority of \<^verbatim>\<open>remote\<close>
  (\<^verbatim>\<open>RemoteAsync\<close>) and the clock of \<^verbatim>\<open>time\<close> (\<^verbatim>\<open>TimeAsyncCmds\<close>): their handlers, their
  notifications and their status.
\<close>

section \<open>Workers that notify\<close>

record ('r, 'n) worker =
  wk_data :: "'r proc_data"
  wk_sent :: "'n list"

definition on_data :: "('r proc_data \<Rightarrow> 'r proc_data) \<Rightarrow> ('r, 'n) worker \<Rightarrow> ('r, 'n) worker" where
  "on_data f w = w\<lparr>wk_data := f (wk_data w)\<rparr>"

definition notify :: "'n \<Rightarrow> ('r, 'n) worker \<Rightarrow> ('r, 'n) worker" where
  "notify n w = w\<lparr>wk_sent := wk_sent w @ [n]\<rparr>"

lemma worker_sel [simp]:
  "wk_data (on_data f w) = f (wk_data w)" "wk_sent (on_data f w) = wk_sent w"
  "wk_data (notify n w) = wk_data w" "wk_sent (notify n w) = wk_sent w @ [n]"
  by (simp_all add: on_data_def notify_def)

text \<open>
  \<^verbatim>\<open>re.match\<close> of a label, a colon, a space and a word: the first group. The words of the program
  are ASCII texts; \<^verbatim>\<open>\w\<close> is read so.
\<close>

definition match_label :: "string \<Rightarrow> string \<Rightarrow> string option" where
  "match_label label line =
     (if startswith line label
      then (let word = takeWhile is_word_char (drop (length label) line) in if word = [] then None else Some word)
      else None)"

section \<open>The connection test\<close>

record test_record =
  tr_test_id :: string
  tr_data :: "(string \<times> bool) list"

datatype test_note = TestRecord test_record | TestDone string "(string \<times> bool) list" bool

type_synonym test_worker = "(test_record, test_note) worker"

definition test_fields :: "string list" where
  "test_fields = [''ipv6'', ''ipv6_gateway'', ''ipv4'', ''ipv4_gateway'', ''dns'', ''dnssec'']"

definition test_kind_map :: "string \<rightharpoonup> string list" where
  "test_kind_map =
     [''ipv4'' \<mapsto> [''IP4GATE'', ''IP4''], ''ipv6'' \<mapsto> [''IP6GATE'', ''IP6''],
      ''dns'' \<mapsto> [''IP4GATE'', ''IP4'', ''IP6GATE'', ''IP6'', ''DNS'', ''DNSSEC'']]"

definition test_handler :: "string \<times> string \<Rightarrow> string \<Rightarrow> (test_worker \<Rightarrow> test_worker) option" where
  "test_handler = (\<lambda>(label, option) line. map_option (\<lambda>word w.
     let res = \<lparr>tr_test_id = pd_id (wk_data w), tr_data = [(option, word = ''OK'')]\<rparr>
     in notify (TestRecord res) (on_data (append_data res) w)) (match_label label line))"

definition test_labels :: "(string \<times> string) list" where
  "test_labels =
     [(''IPv6: '', ''ipv6''), (''IPv6 Gateway: '', ''ipv6_gateway''), (''IPv4: '', ''ipv4''),
      (''IPv4 Gateway: '', ''ipv4_gateway''), (''DNS: '', ''dns''), (''DNSSEC: '', ''dnssec'')]"

text \<open>\<^verbatim>\<open>data[option] = res or data.get(option, False)\<close>\<close>

definition merge_result :: "string \<times> bool \<Rightarrow> (string \<times> bool) list \<Rightarrow> (string \<times> bool) list" where
  "merge_result = (\<lambda>(option, res) data.
     AList.update option (res \<or> (case map_of data option of Some b \<Rightarrow> b | None \<Rightarrow> False)) data)"

definition merge_records :: "test_record list \<Rightarrow> (string \<times> bool) list \<Rightarrow> (string \<times> bool) list" where
  "merge_records records data = fold (\<lambda>r. fold merge_result (tr_data r)) records data"

definition no_results :: "(string \<times> bool) list" where
  "no_results = map (\<lambda>f. (f, False)) test_fields"

definition test_exit :: "test_worker \<Rightarrow> test_worker" where
  "test_exit w = notify (TestDone (pd_id (wk_data w)) (merge_records (read_all_data (wk_data w)) no_results)
     (pd_retval (wk_data w) = 0)) w"

fun test_kinds_args :: "string list \<Rightarrow> string list res" where
  "test_kinds_args [] = Inr []"
| "test_kinds_args (k # ks) = (case test_kind_map k of
      None \<Rightarrow> Inl (KeyError k)
    | Some xs \<Rightarrow> bindE (test_kinds_args ks) (\<lambda>ys. Inr (xs @ ys)))"

text \<open>\<open>set_order\<close> is the order in which Python lists a set.\<close>

definition connection_test_args :: "(string list \<Rightarrow> string list) \<Rightarrow> string list \<Rightarrow> string list res" where
  "connection_test_args set_order test_kinds =
     bindE (test_kinds_args test_kinds) (\<lambda>kinds. Inr (''/sbin/check_connection'' # set_order (remdups kinds)))"

definition connection_test_worker :: "nat \<Rightarrow> string list \<Rightarrow> int \<Rightarrow> test_worker \<Rightarrow> test_worker" where
  "connection_test_worker polls output returncode w =
     command_worker on_data polls output returncode (map test_handler test_labels) test_exit w"

datatype 'd status = NotFound | Running 'd | Finished 'd

text \<open>
  The shared data are read three times: whether the test exited, its records, and again whether
  it exited. Each reading is atomic, the worker may step between two of them.
\<close>

definition connection_test_status ::
  "(string \<times> 'k) list \<Rightarrow> ('k \<Rightarrow> test_record proc_data) \<Rightarrow> ('k \<Rightarrow> test_record proc_data) \<Rightarrow>
    ('k \<Rightarrow> test_record proc_data) \<Rightarrow> string \<Rightarrow> (string \<times> bool) list status" where
  "connection_test_status processes heap1 heap2 heap3 i = (case map_of processes i of
      None \<Rightarrow> NotFound
    | Some k \<Rightarrow>
        (let exited = pd_exited (heap1 k);
             data = merge_records (read_all_data (heap2 k)) (if exited then no_results else [])
         in if pd_exited (heap3 k) then Finished data else Running data))"

subsection \<open>What a finished test reports\<close>

text \<open>The records a line adds, and the outcome of a check as the lines tell it.\<close>

definition line_results :: "string \<Rightarrow> (string \<times> bool) list" where
  "line_results line = concat (map (\<lambda>(label, option). case match_label label line of
      None \<Rightarrow> [] | Some word \<Rightarrow> [(option, word = ''OK'')]) test_labels)"

definition check_passed :: "string list \<Rightarrow> string \<Rightarrow> bool" where
  "check_passed output f \<longleftrightarrow> (\<exists>line\<in>set output. (f, True) \<in> set (line_results (butlast line)))"

definition record_of :: "string \<Rightarrow> string \<times> bool \<Rightarrow> test_record" where
  "record_of i r = \<lparr>tr_test_id = i, tr_data = [r]\<rparr>"

definition tested :: "test_worker \<Rightarrow> (string \<times> bool) list \<Rightarrow> test_worker" where
  "tested w rs = w\<lparr>wk_data := (wk_data w)\<lparr>pd_records := pd_records (wk_data w) @ map (record_of (pd_id (wk_data w))) rs\<rparr>,
     wk_sent := wk_sent w @ map (\<lambda>r. TestRecord (record_of (pd_id (wk_data w)) r)) rs\<rparr>"

lemma tested_tested: "tested (tested w rs) ss = tested w (rs @ ss)"
  by (simp add: tested_def)

lemma handle_labels:
  "handle_line (map test_handler ls) line w = tested w (concat (map (\<lambda>(label, option). case match_label label line of
      None \<Rightarrow> [] | Some word \<Rightarrow> [(option, word = ''OK'')]) ls))"
proof (induction ls arbitrary: w)
  case Nil
  then show ?case by (simp add: handle_line_def tested_def)
next
  case (Cons l ls)
  obtain label option where l: "l = (label, option)" by (cases l)
  have "handle_line (map test_handler (l # ls)) line w =
      handle_line (map test_handler ls) line
        (tested w (case match_label label line of None \<Rightarrow> [] | Some word \<Rightarrow> [(option, word = ''OK'')]))"
    by (cases "match_label label line")
       (simp_all add: handle_line_def l test_handler_def tested_def record_of_def notify_def on_data_def append_data_def Let_def)
  then show ?case unfolding Cons.IH by (simp add: l tested_tested)
qed

lemma handle_output:
  "fold (\<lambda>line. handle_line (map test_handler test_labels) (butlast line)) printed w =
    tested w (concat (map (\<lambda>line. line_results (butlast line)) printed))"
  by (induction printed arbitrary: w) (simp_all add: tested_def [of _ "[]"] handle_labels line_results_def tested_tested)

lemma merge_records_of: "merge_records (map (record_of i) rs) data = fold merge_result rs data"
  by (induction rs arbitrary: data) (simp_all add: merge_records_def record_of_def)

lemma merge_lookup:
  "map_of (fold merge_result rs data) f =
    (if f \<in> fst ` set rs then Some ((f, True) \<in> set rs \<or> map_of data f = Some True) else map_of data f)"
proof (induction rs arbitrary: data)
  case (Cons r rs)
  obtain g b where r: "r = (g, b)" by (cases r)
  have "map_of (merge_result r data) f =
      (if f = g then Some (b \<or> map_of data f = Some True) else map_of data f)"
    by (auto simp: r merge_result_def update_conv' split: option.split)
  then show ?case using Cons.IH [of "merge_result r data"] by (cases "f \<in> fst ` set rs"; cases "f = g") (force simp: r)+
qed simp

lemma no_results_lookup: "map_of no_results f = (if f \<in> set test_fields then Some False else None)"
  by (simp add: no_results_def map_of_map_restrict restrict_map_def map_of_eq_None_iff)

definition fresh_test :: "nat \<Rightarrow> test_worker" where
  "fresh_test random = \<lparr>wk_data = new_process random, wk_sent = []\<rparr>"

text \<open>
  C22: a connection test that exited reports, for each of the six checks, whether some line of
  the tool said \<^verbatim>\<open>OK\<close> for it, in its last notification as well as in its status; and the
  notification says whether the tool returned zero. So it is for any output, return code and
  timing of the polls.
\<close>

theorem finished_test_reports_checks:
  assumes "map_of processes i = Some k"
    and "heap k = wk_data (connection_test_worker polls output returncode (fresh_test random))"
  shows "\<exists>data. connection_test_status processes heap heap heap i = Finished data \<and>
    last (wk_sent (connection_test_worker polls output returncode (fresh_test random))) =
      TestDone (process_id random) data (returncode = 0) \<and>
    (\<forall>f\<in>set test_fields. map_of data f = Some (check_passed output f))"
proof -
  let ?rs = "concat (map (\<lambda>line. line_results (butlast line)) output)"
  let ?data = "fold merge_result ?rs no_results"
  let ?w = "on_data (\<lambda>d. set_exited (set_retval returncode d)) (tested (fresh_test random) ?rs)"
  have run: "connection_test_worker polls output returncode (fresh_test random) = test_exit ?w"
    unfolding connection_test_worker_def worker_loop handle_output ..
  have final: "wk_data (test_exit ?w) = \<lparr>pd_id = process_id random, pd_records = map (record_of (process_id random)) ?rs,
      pd_retval = returncode, pd_exited = True\<rparr>"
    by (simp add: test_exit_def tested_def fresh_test_def new_process_def set_exited_def set_retval_def)
  have status: "connection_test_status processes heap heap heap i = Finished ?data"
    using assms unfolding run by (simp add: connection_test_status_def final read_all_data_def merge_records_of)
  have sent: "last (wk_sent (test_exit ?w)) = TestDone (process_id random) ?data (returncode = 0)"
    by (simp add: test_exit_def tested_def fresh_test_def new_process_def set_exited_def set_retval_def read_all_data_def
        merge_records_of)
  have "map_of ?data f = Some (check_passed output f)" if "f \<in> set test_fields" for f
    using that unfolding merge_lookup no_results_lookup check_passed_def by force
  with status sent run show ?thesis by auto
qed

definition demo_output :: "string list" where
  "demo_output = [''IPv4 Gateway: OK'' @ [newline], ''IPv4: OK'' @ [newline], ''DNS: FAILED'' @ [newline]]"

lemma finished_test_reports_checks_witness:
  "\<exists>data. connection_test_status [(''a'', ())] (\<lambda>_. wk_data (connection_test_worker 1 demo_output 1 (fresh_test 3)))
      (\<lambda>_. wk_data (connection_test_worker 1 demo_output 1 (fresh_test 3)))
      (\<lambda>_. wk_data (connection_test_worker 1 demo_output 1 (fresh_test 3))) ''a'' = Finished data \<and>
    map_of data ''ipv4'' = Some True \<and> map_of data ''dns'' = Some False"
proof -
  have word: "is_word_char CHR ''O'' \<and> is_word_char CHR ''K''" "is_word_char CHR ''F''"
    by code_simp+
  have "check_passed demo_output ''ipv4''" "\<not> check_passed demo_output ''dns''"
    by (simp_all add: check_passed_def demo_output_def line_results_def test_labels_def match_label_def word Let_def)
  with finished_test_reports_checks [of "[(''a'', ())]" "''a''" "()"
      "\<lambda>_. wk_data (connection_test_worker 1 demo_output 1 (fresh_test 3))" 1 demo_output 1 3]
  show ?thesis by (auto simp: test_fields_def)
qed

text \<open>
  a status read while the test exits is \<^verbatim>\<open>finished\<close> without the fields no line was
  printed for: the fields are filled in only when the first of its two looks at the exit flag
  finds it set.
\<close>

lemma finished_status_may_lack_fields:
  assumes "map_of processes i = Some k" "\<not> pd_exited (heap k)"
    and "f \<notin> fst ` (\<Union>r\<in>set (pd_records (heap k)). set (tr_data r))"
  shows "\<exists>data. connection_test_status processes heap heap (heap(k := set_exited (heap k))) i = Finished data \<and>
    map_of data f = None"
proof -
  have "map_of (merge_records rs data) f = map_of data f"
    if "f \<notin> fst ` (\<Union>r\<in>set rs. set (tr_data r))" for rs :: "test_record list" and data
    using that
  proof (induction rs arbitrary: data)
    case (Cons r rs)
    then have "map_of (fold merge_result (tr_data r) data) f = map_of data f" by (auto simp: merge_lookup)
    moreover have "map_of (merge_records rs (fold merge_result (tr_data r) data)) f = map_of (fold merge_result (tr_data r) data) f"
      by (rule Cons.IH) (use Cons.prems in auto)
    ultimately show ?case by (simp add: merge_records_def)
  qed (simp add: merge_records_def)
  with assms show ?thesis by (simp add: connection_test_status_def set_exited_def read_all_data_def)
qed

section \<open>The wireless scan\<close>

datatype 'j scan_note = ScanRecord string 'j | ScanDone string "'j list" bool

definition scan_result :: "'j \<Rightarrow> ('j, 'j scan_note) worker \<Rightarrow> ('j, 'j scan_note) worker" where
  "scan_result result w = notify (ScanRecord (pd_id (wk_data w)) result) (on_data (append_data result) w)"

definition scan_exit :: "('j, 'j scan_note) worker \<Rightarrow> ('j, 'j scan_note) worker" where
  "scan_exit w = notify (ScanDone (pd_id (wk_data w)) (read_all_data (wk_data w)) (pd_retval (wk_data w) = 0)) w"

text \<open>\<open>device_json\<close> is \<^verbatim>\<open>json.dumps({"device": name})\<close>.\<close>

definition scan_args :: "(string \<Rightarrow> string) \<Rightarrow> string list \<Rightarrow> string list list" where
  "scan_args device_json device_names =
     map (\<lambda>name. [''/bin/ubus'', ''call'', ''iwinfo'', ''scan'', device_json name]) device_names"

definition scan_worker where
  "scan_worker loads empty_dict rounds subprocesses w =
     multiple_worker loads empty_dict scan_result on_data rounds subprocesses scan_exit w"

text \<open>\<^verbatim>\<open>get_data\<close> is no method of \<^verbatim>\<open>AsyncProcessData\<close>.\<close>

definition scan_status ::
  "(string \<times> 'k) list \<Rightarrow> ('k \<Rightarrow> 'j proc_data) \<Rightarrow> ('k \<Rightarrow> 'j proc_data) \<Rightarrow> string \<Rightarrow> 'j list status res" where
  "scan_status processes heap1 heap2 i = (case map_of processes i of
      None \<Rightarrow> Inr NotFound
    | Some k \<Rightarrow>
        if pd_exited (heap1 k) then Inl AttributeError
        else Inr (if pd_exited (heap2 k) then Finished [] else Running []))"

lemma sent_results:
  "handle_subprocesses ended (process_output loads d scan_result) ps (h, w) = Inr (h', w') \<Longrightarrow>
    \<exists>rs. pd_records (wk_data w') = pd_records (wk_data w) @ rs \<and> pd_id (wk_data w') = pd_id (wk_data w) \<and>
      wk_sent w' = wk_sent w @ map (ScanRecord (pd_id (wk_data w))) rs"
proof (induction ended "process_output loads d scan_result" ps "(h, w)" arbitrary: h w rule: handle_subprocesses.induct)
  case (2 ended k p ps h w)
  show ?case
  proof (cases "ended k \<and> k \<notin> set h")
    case True
    then obtain w1 where w1: "process_output loads d scan_result p w = Inr w1"
        "handle_subprocesses ended (process_output loads d scan_result) ps (h @ [k], w1) = Inr (h', w')"
      using "2.prems" by (auto simp: bindE_eq_Inr)
    from w1(1) obtain rs where "pd_records (wk_data w1) = pd_records (wk_data w) @ rs"
      "pd_id (wk_data w1) = pd_id (wk_data w)" "wk_sent w1 = wk_sent w @ map (ScanRecord (pd_id (wk_data w))) rs"
      by (auto simp: process_output_def scan_result_def append_data_def split: if_splits option.splits)
    with "2.hyps"(1) [OF True w1] show ?thesis by auto
  next
    case False
    then show ?thesis using "2.prems" "2.hyps"(2) by (auto split: if_splits)
  qed
qed simp

lemma sent_rounds:
  "handle_rounds rounds (process_output loads d scan_result) ps (h, w) = Inr (h', w') \<Longrightarrow>
    \<exists>rs. pd_records (wk_data w') = pd_records (wk_data w) @ rs \<and> pd_id (wk_data w') = pd_id (wk_data w) \<and>
      wk_sent w' = wk_sent w @ map (ScanRecord (pd_id (wk_data w))) rs"
proof (induction rounds arbitrary: h w)
  case Nil
  then show ?case using sent_results by simp
next
  case (Cons ended rounds)
  then obtain h1 w1 where h1: "handle_subprocesses ended (process_output loads d scan_result) ps (h, w) = Inr (h1, w1)"
      "handle_rounds rounds (process_output loads d scan_result) ps (h1, w1) = Inr (h', w')"
    by (auto simp: bindE_eq_Inr)
  from sent_results [OF h1(1)] Cons.IH [OF h1(2)] show ?case by auto
qed

text \<open>
  a finished scan sends each result as it came and then all of them, in the same order; its
  success is that the largest return code is zero. But its status cannot be asked for: the
  query of a scan that exited raises.
\<close>

lemma finished_scan_sends_all_but_status_raises:
  assumes "scan_worker loads empty_dict rounds subprocesses \<lparr>wk_data = new_process random, wk_sent = []\<rparr> = Inr (handled, w)"
    and "map_of processes i = Some k" "heap k = wk_data w"
  shows "(\<exists>results. wk_sent w = map (ScanRecord (process_id random)) results @
      [ScanDone (process_id random) results (Max (set (map su_returncode subprocesses)) = 0)]) \<and>
    scan_status processes heap heap2 i = Inl AttributeError"
proof -
  let ?w0 = "\<lparr>wk_data = new_process random, wk_sent = []\<rparr>"
  obtain w1 where rounds: "handle_rounds rounds (process_output loads empty_dict scan_result) (enumerate 0 subprocesses) ([], ?w0) = Inr (handled, w1)"
    and w: "w = scan_exit (on_data (\<lambda>d. set_exited (set_retval (Max (set (map su_returncode subprocesses))) d)) w1)"
    using assms(1) by (auto simp: scan_worker_def multiple_worker_def bindE_eq_Inr split: if_splits)
  from sent_rounds [OF rounds] have "wk_sent w1 = map (ScanRecord (process_id random)) (pd_records (wk_data w1))"
      "pd_id (wk_data w1) = process_id random"
    by (auto simp: new_process_def)
  then show ?thesis
    using assms(2,3) by (auto simp: w scan_exit_def scan_status_def set_exited_def set_retval_def read_all_data_def)
qed

section \<open>The certificate authority\<close>

text \<open>\<open>CaNote\<close>: the task, its status, and the name of the client for a token.\<close>

datatype ca_note = CaNote string string "string option"

definition ca_handler ::
  "string option \<Rightarrow> string \<times> string \<Rightarrow> string \<Rightarrow> ((unit, ca_note) worker \<Rightarrow> (unit, ca_note) worker) option" where
  "ca_handler name = (\<lambda>(label, state) line.
     if startswith line label then Some (\<lambda>w. notify (CaNote (pd_id (wk_data w)) state name) w) else None)"

definition ca_exit :: "string option \<Rightarrow> (unit, ca_note) worker \<Rightarrow> (unit, ca_note) worker" where
  "ca_exit name w = notify (CaNote (pd_id (wk_data w)) (if pd_retval (wk_data w) = 0 then ''succeeded'' else ''failed'') name) w"

definition generate_ca_args :: "string list" where
  "generate_ca_args = [''/usr/bin/turris-cagen'', ''new_ca'', ''remote'', ''gen_ca'', ''gen_server'', ''turris'']"

definition generate_ca_labels :: "(string \<times> string) list" where
  "generate_ca_labels =
     [(''gen_ca: started'', ''ca_generating''), (''gen_ca: finished'', ''ca_done''),
      (''gen_server: started'', ''server_generating''), (''gen_server: finished'', ''server_done'')]"

definition generate_token_args :: "string \<Rightarrow> string list" where
  "generate_token_args name = [''/usr/bin/turris-cagen'', ''switch'', ''remote'', ''gen_client'', name]"

definition generate_token_labels :: "(string \<times> string) list" where
  "generate_token_labels = [(''gen_client: started'', ''token_generating''), (''gen_client: finished'', ''token_done'')]"

definition generate_ca_worker :: "nat \<Rightarrow> string list \<Rightarrow> int \<Rightarrow> (unit, ca_note) worker \<Rightarrow> (unit, ca_note) worker" where
  "generate_ca_worker polls output returncode w =
     command_worker on_data polls output returncode (map (ca_handler None) generate_ca_labels) (ca_exit None) w"

definition generate_token_worker ::
  "string \<Rightarrow> nat \<Rightarrow> string list \<Rightarrow> int \<Rightarrow> (unit, ca_note) worker \<Rightarrow> (unit, ca_note) worker" where
  "generate_token_worker name polls output returncode w =
     command_worker on_data polls output returncode (map (ca_handler (Some name)) generate_token_labels) (ca_exit (Some name)) w"

definition ca_states :: "(string \<times> string) list \<Rightarrow> string \<Rightarrow> string list" where
  "ca_states labels line = map snd (filter (\<lambda>(label, state). startswith line label) labels)"

lemma handle_ca:
  "handle_line (map (ca_handler name) labels) line w =
    w\<lparr>wk_sent := wk_sent w @ map (\<lambda>s. CaNote (pd_id (wk_data w)) s name) (ca_states labels line)\<rparr>"
proof (induction labels arbitrary: w)
  case Nil
  then show ?case by (simp add: handle_line_def ca_states_def)
next
  case (Cons l labels)
  obtain label state where l: "l = (label, state)" by (cases l)
  have "handle_line (map (ca_handler name) (l # labels)) line w =
      handle_line (map (ca_handler name) labels) line
        (if startswith line label then notify (CaNote (pd_id (wk_data w)) state name) w else w)"
    by (simp add: handle_line_def l ca_handler_def)
  then show ?case unfolding Cons.IH by (simp add: l ca_states_def notify_def)
qed

lemma handle_ca_output:
  "fold (\<lambda>line. handle_line (map (ca_handler name) labels) (butlast line)) printed w =
    w\<lparr>wk_sent := wk_sent w @ map (\<lambda>s. CaNote (pd_id (wk_data w)) s name) (concat (map (\<lambda>l. ca_states labels (butlast l)) printed))\<rparr>"
  by (induction printed arbitrary: w) (simp_all add: handle_ca)

text \<open>
  A token task notifies of each step of the tool in the order of its output, and as the
  last thing whether it succeeded, which is exactly when the tool returned zero.
\<close>

lemma token_task_notifications:
  "wk_sent (generate_token_worker name polls output returncode \<lparr>wk_data = new_process random, wk_sent = []\<rparr>) =
    map (\<lambda>s. CaNote (process_id random) s (Some name))
      (concat (map (\<lambda>l. ca_states generate_token_labels (butlast l)) output) @
       [if returncode = 0 then ''succeeded'' else ''failed''])"
  unfolding generate_token_worker_def worker_loop handle_ca_output
  by (simp add: ca_exit_def new_process_def set_exited_def set_retval_def)

end
