(* ===== verification/RwLock.thy ===== *)
theory RwLock
  imports Main
begin

text \<open>
  \<^verbatim>\<open>RWLock\<close> of \<^verbatim>\<open>foris_controller/utils.py\<close>, the lock of the uci backend, the
  services and every handler, as a step relation over the threads that use it: one step per
  acquisition, release, test of the counter and wait. The counter is a plain attribute, so
  every process has its own; the two locks and the condition belong to the locking backend and
  are shared by all processes when it is \<^verbatim>\<open>multiprocessing\<close>.
\<close>

section \<open>Threads and the lock\<close>

text \<open>
  Where a thread is. Reading: \<open>R_New\<close> waits for \<^verbatim>\<open>_new_readers\<close>, \<open>R_Cond\<close> holds it and waits for
  \<^verbatim>\<open>_counter_lock\<close>, \<open>R_Inc\<close> holds both, \<open>R_Rel\<close> has counted itself, \<open>Reading\<close> is inside,
  \<open>R_Cond2\<close> waits for \<^verbatim>\<open>_counter_lock\<close> to leave, \<open>R_Dec\<close> holds it. Writing: \<open>W_Lock\<close> waits
  for \<^verbatim>\<open>_writer_lock\<close>, \<open>W_New\<close> for \<^verbatim>\<open>_new_readers\<close>, \<open>W_Cond\<close> for \<^verbatim>\<open>_counter_lock\<close>,
  \<open>W_Test\<close> holds all three and looks at the counter, \<open>W_Wait\<close> waits for a notification, \<open>W_Wake\<close>
  was notified and waits for \<^verbatim>\<open>_counter_lock\<close>, \<open>Writing\<close> is inside, \<open>W_RelW\<close> has only
  \<^verbatim>\<open>_writer_lock\<close> left to release.
\<close>

datatype pc =
    Idle
  | R_New | R_Cond | R_Inc | R_Rel | Reading | R_Cond2 | R_Dec
  | W_Lock | W_New | W_Cond | W_Test | W_Wait | W_Wake | Writing | W_RelW

record ('t, 'p) rwlock =
  counter :: "'p \<Rightarrow> int"
  writer_lock :: "'t option"
  new_readers :: "'t option"
  counter_lock :: "'t option"
  at :: "'t \<Rightarrow> pc"

definition rw_init :: "('t, 'p) rwlock" where
  "rw_init = \<lparr>counter = \<lambda>_. 0, writer_lock = None, new_readers = None, counter_lock = None, at = \<lambda>_. Idle\<rparr>"

definition move :: "'t \<Rightarrow> pc \<Rightarrow> ('t, 'p) rwlock \<Rightarrow> ('t, 'p) rwlock" where
  "move t q l = l\<lparr>at := (at l)(t := q)\<rparr>"

text \<open>\<^verbatim>\<open>notify\<close> wakes one waiting thread, if there is one.\<close>

inductive notifies :: "('t \<Rightarrow> pc) \<Rightarrow> ('t \<Rightarrow> pc) \<Rightarrow> bool" where
  One: "f t = W_Wait \<Longrightarrow> notifies f (f(t := W_Wake))"
| Nobody: "\<forall>t. f t \<noteq> W_Wait \<Longrightarrow> notifies f f"

text \<open>\<open>proc t\<close>: the process of the thread \<open>t\<close>, whose counter it sees.\<close>

inductive rw_step :: "('t \<Rightarrow> 'p) \<Rightarrow> ('t, 'p) rwlock \<Rightarrow> ('t, 'p) rwlock \<Rightarrow> bool" for proc where
  Read: "at l t = Idle \<Longrightarrow> rw_step proc l (move t R_New l)"
| ReadNew: "at l t = R_New \<Longrightarrow> new_readers l = None \<Longrightarrow>
    rw_step proc l (move t R_Cond (l\<lparr>new_readers := Some t\<rparr>))"
| ReadCond: "at l t = R_Cond \<Longrightarrow> counter_lock l = None \<Longrightarrow>
    rw_step proc l (move t R_Inc (l\<lparr>counter_lock := Some t\<rparr>))"
| ReadInc: "at l t = R_Inc \<Longrightarrow> notifies (at l) f \<Longrightarrow>
    rw_step proc l (l\<lparr>counter := (counter l)(proc t := counter l (proc t) + 1), counter_lock := None,
      at := f(t := R_Rel)\<rparr>)"
| ReadIn: "at l t = R_Rel \<Longrightarrow> rw_step proc l (move t Reading (l\<lparr>new_readers := None\<rparr>))"
| Leave: "at l t = Reading \<Longrightarrow> rw_step proc l (move t R_Cond2 l)"
| LeaveCond: "at l t = R_Cond2 \<Longrightarrow> counter_lock l = None \<Longrightarrow>
    rw_step proc l (move t R_Dec (l\<lparr>counter_lock := Some t\<rparr>))"
| LeaveDec: "at l t = R_Dec \<Longrightarrow> notifies (at l) f \<Longrightarrow>
    rw_step proc l (l\<lparr>counter := (counter l)(proc t := counter l (proc t) - 1), counter_lock := None,
      at := f(t := Idle)\<rparr>)"
| Write: "at l t = Idle \<Longrightarrow> rw_step proc l (move t W_Lock l)"
| WriteLock: "at l t = W_Lock \<Longrightarrow> writer_lock l = None \<Longrightarrow>
    rw_step proc l (move t W_New (l\<lparr>writer_lock := Some t\<rparr>))"
| WriteNew: "at l t = W_New \<Longrightarrow> new_readers l = None \<Longrightarrow>
    rw_step proc l (move t W_Cond (l\<lparr>new_readers := Some t\<rparr>))"
| WriteCond: "at l t = W_Cond \<or> at l t = W_Wake \<Longrightarrow> counter_lock l = None \<Longrightarrow>
    rw_step proc l (move t W_Test (l\<lparr>counter_lock := Some t\<rparr>))"
| WriteWait: "at l t = W_Test \<Longrightarrow> counter l (proc t) \<noteq> 0 \<Longrightarrow>
    rw_step proc l (move t W_Wait (l\<lparr>counter_lock := None\<rparr>))"
| WriteIn: "at l t = W_Test \<Longrightarrow> counter l (proc t) = 0 \<Longrightarrow>
    rw_step proc l (move t Writing (l\<lparr>counter_lock := None\<rparr>))"
| Release: "at l t = Writing \<Longrightarrow> rw_step proc l (move t W_RelW (l\<lparr>new_readers := None\<rparr>))"
| ReleaseW: "at l t = W_RelW \<Longrightarrow> rw_step proc l (move t Idle (l\<lparr>writer_lock := None\<rparr>))"

inductive_cases notifiesE: "notifies f g"

inductive rw_reachable :: "('t \<Rightarrow> 'p) \<Rightarrow> ('t, 'p) rwlock \<Rightarrow> bool" for proc where
  Start: "rw_reachable proc rw_init"
| Step: "rw_reachable proc l \<Longrightarrow> rw_step proc l m \<Longrightarrow> rw_reachable proc m"

section \<open>The invariant\<close>

fun holds_new :: "pc \<Rightarrow> bool" where
  "holds_new q = (q \<in> {R_Cond, R_Inc, R_Rel, W_Cond, W_Test, W_Wait, W_Wake, Writing})"

fun holds_writer :: "pc \<Rightarrow> bool" where
  "holds_writer q = (q \<in> {W_New, W_Cond, W_Test, W_Wait, W_Wake, Writing, W_RelW})"

fun holds_counter :: "pc \<Rightarrow> bool" where
  "holds_counter q = (q \<in> {R_Inc, R_Dec, W_Test})"

fun counted :: "pc \<Rightarrow> bool" where
  "counted q = (q \<in> {R_Rel, Reading, R_Cond2, R_Dec})"

text \<open>Who holds which lock.\<close>

definition held_by :: "('t, 'p) rwlock \<Rightarrow> bool" where
  "held_by l \<longleftrightarrow> (\<forall>t. holds_new (at l t) \<longleftrightarrow> new_readers l = Some t) \<and>
     (\<forall>t. holds_writer (at l t) \<longleftrightarrow> writer_lock l = Some t) \<and>
     (\<forall>t. holds_counter (at l t) \<longleftrightarrow> counter_lock l = Some t)"

text \<open>The counters count the readers of their process, and nobody waits for a counter of zero.\<close>

definition readers_of :: "('t \<Rightarrow> 'p) \<Rightarrow> ('t, 'p) rwlock \<Rightarrow> 'p \<Rightarrow> 't set" where
  "readers_of proc l p = {t. counted (at l t) \<and> proc t = p}"

definition counts :: "('t \<Rightarrow> 'p) \<Rightarrow> ('t, 'p) rwlock \<Rightarrow> bool" where
  "counts proc l \<longleftrightarrow> finite {t. at l t \<noteq> Idle} \<and> (\<forall>p. counter l p = int (card (readers_of proc l p))) \<and>
     (\<forall>t. at l t = Writing \<longrightarrow> counter l (proc t) = 0) \<and>
     (\<forall>t. at l t = W_Wait \<longrightarrow> counter l (proc t) \<noteq> 0)"

text \<open>One thread moves, others are at most woken up.\<close>

definition same_locks :: "('t \<Rightarrow> pc) \<Rightarrow> ('t \<Rightarrow> pc) \<Rightarrow> bool" where
  "same_locks f g \<longleftrightarrow> (\<forall>u. holds_new (f u) = holds_new (g u) \<and> holds_writer (f u) = holds_writer (g u) \<and>
     holds_counter (f u) = holds_counter (g u) \<and> counted (f u) = counted (g u) \<and>
     (f u = Idle \<longleftrightarrow> g u = Idle) \<and> (f u = Writing \<longleftrightarrow> g u = Writing) \<and> (f u = W_Wait \<longrightarrow> g u = W_Wait))"

lemma same_locks_refl [simp]: "same_locks f f"
  by (simp add: same_locks_def)

lemma notifies_same_locks: "notifies f g \<Longrightarrow> same_locks g f"
  by (erule notifiesE) (auto simp: same_locks_def)

definition owner :: "(pc \<Rightarrow> bool) \<Rightarrow> 't \<Rightarrow> pc \<Rightarrow> pc \<Rightarrow> 't option \<Rightarrow> 't option" where
  "owner holds t old new lock =
     (if holds new \<and> \<not> holds old then Some t else if holds old \<and> \<not> holds new then None else lock)"

lemma owner_step:
  assumes "\<forall>u. holds (a u) \<longleftrightarrow> lock = Some u" "\<forall>u. holds (f u) = holds (a u)" "holds q \<Longrightarrow> holds (a t) \<or> lock = None"
  shows "holds ((f(t := q)) u) \<longleftrightarrow> owner holds t (a t) q lock = Some u"
  using assms by (auto simp: owner_def)

lemma held_by_step:
  assumes "held_by l" "same_locks f (at l)" "at m = f(t := q)"
    and "new_readers m = owner holds_new t (at l t) q (new_readers l)"
    and "writer_lock m = owner holds_writer t (at l t) q (writer_lock l)"
    and "counter_lock m = owner holds_counter t (at l t) q (counter_lock l)"
    and "holds_new q \<Longrightarrow> holds_new (at l t) \<or> new_readers l = None"
    and "holds_writer q \<Longrightarrow> holds_writer (at l t) \<or> writer_lock l = None"
    and "holds_counter q \<Longrightarrow> holds_counter (at l t) \<or> counter_lock l = None"
  shows "held_by m"
  unfolding held_by_def assms(3-6)
  using assms(1,2) unfolding held_by_def same_locks_def
  by (intro conjI allI owner_step assms(7-9)) blast+

definition passes :: "('t, 'p) rwlock \<Rightarrow> 't \<Rightarrow> pc \<Rightarrow> ('t \<Rightarrow> pc) \<Rightarrow> ('t, 'p) rwlock \<Rightarrow> bool" where
  "passes l t q f m \<longleftrightarrow> same_locks f (at l) \<and> at m = f(t := q) \<and>
     new_readers m = owner holds_new t (at l t) q (new_readers l) \<and>
     writer_lock m = owner holds_writer t (at l t) q (writer_lock l) \<and>
     counter_lock m = owner holds_counter t (at l t) q (counter_lock l) \<and>
     (holds_new q \<longrightarrow> holds_new (at l t) \<or> new_readers l = None) \<and>
     (holds_writer q \<longrightarrow> holds_writer (at l t) \<or> writer_lock l = None) \<and>
     (holds_counter q \<longrightarrow> holds_counter (at l t) \<or> counter_lock l = None)"

lemma passes_move: "passes l t q (at l) (move t q l') \<Longrightarrow> \<exists>u r f. passes l u r f (move t q l')"
  by blast

lemma step_passes: "rw_step proc l m \<Longrightarrow> \<exists>t q f. passes l t q f m"
proof (induction rule: rw_step.induct)
  case (ReadInc l t f)
  then show ?case
    by (intro exI [of _ t] exI [of _ R_Rel] exI [of _ f]) (simp add: passes_def owner_def notifies_same_locks)
next
  case (LeaveDec l t f)
  then show ?case
    by (intro exI [of _ t] exI [of _ Idle] exI [of _ f]) (simp add: passes_def owner_def notifies_same_locks)
next
  case (WriteCond l t)
  from WriteCond have "passes l t W_Test (at l) (move t W_Test (l\<lparr>counter_lock := Some t\<rparr>))"
    by (auto simp: passes_def owner_def move_def)
  then show ?case by blast
qed (rule passes_move, simp add: passes_def owner_def move_def)+

lemma held_by_preserved:
  assumes "rw_step proc l m" "held_by l"
  shows "held_by m"
proof -
  obtain t q f where "passes l t q f m" using step_passes [OF assms(1)] by blast
  then show ?thesis unfolding passes_def
    by (elim conjE) (rule held_by_step [OF assms(2)]; (assumption | erule (1) mp))
qed

lemma counted_not_idle: "counted q \<Longrightarrow> q \<noteq> Idle"
  by auto

lemma counts_step:
  assumes "counts proc l" "same_locks f (at l)" "at m = f(t := q)"
    and "counter m = (counter l)(proc t := counter l (proc t) +
      (if counted q then if counted (at l t) then 0 else 1 else if counted (at l t) then - 1 else 0))"
    and writing: "\<And>u. at m u = Writing \<Longrightarrow> counter m (proc u) = 0"
    and waiting: "\<And>u. at m u = W_Wait \<Longrightarrow> counter m (proc u) \<noteq> 0"
  shows "counts proc m"
proof -
  have fin: "finite {t. at l t \<noteq> Idle}" using assms(1) by (simp add: counts_def)
  have "{t. at m t \<noteq> Idle} \<subseteq> insert t {t. at l t \<noteq> Idle}"
    using assms(2,3) by (auto simp: same_locks_def)
  then have fin_m: "finite {t. at m t \<noteq> Idle}" using fin finite_subset by blast
  have fin_r: "finite (readers_of proc l p)" for p
    by (rule finite_subset [OF _ fin]) (auto simp: readers_of_def)
  have readers: "readers_of proc m p = (if p = proc t then if counted q then insert t (readers_of proc l p)
      else readers_of proc l p - {t} else readers_of proc l p)" for p
    using assms(2,3) by (auto simp: readers_of_def same_locks_def)
  have "counter m p = int (card (readers_of proc m p))" for p
  proof (cases "p = proc t")
    case True
    have "t \<in> readers_of proc l p \<longleftrightarrow> counted (at l t)" using True by (simp add: readers_of_def)
    moreover have "counter l p = int (card (readers_of proc l p))" using assms(1) by (simp add: counts_def)
    moreover have "0 < card (readers_of proc l p)" if "t \<in> readers_of proc l p"
      using that fin_r [of p] card_gt_0_iff by blast
    ultimately show ?thesis
      using fin_r [of p] True by (auto simp: assms(4) readers insert_absorb of_nat_diff)
  next
    case False
    then show ?thesis using assms(1) by (simp add: assms(4) readers counts_def)
  qed
  with fin_m writing waiting show ?thesis by (simp add: counts_def)
qed

lemma readers_finite: "counts proc l \<Longrightarrow> finite (readers_of proc l p)"
  unfolding counts_def by (elim conjE, rule finite_subset [of _ "{t. at l t \<noteq> Idle}"]) (auto simp: readers_of_def)

lemma writing_no_readers: "counts proc l \<Longrightarrow> at l t = Writing \<Longrightarrow> readers_of proc l (proc t) = {}"
proof -
  assume c: "counts proc l" "at l t = Writing"
  then have "int (card (readers_of proc l (proc t))) = 0" unfolding counts_def by metis
  with readers_finite [OF c(1)] show ?thesis by simp
qed

lemma counts_move:
  assumes "counts proc l" "counted q = counted (at l t)" "q = Writing \<Longrightarrow> counter l (proc t) = 0"
    "q = W_Wait \<Longrightarrow> counter l (proc t) \<noteq> 0" "counter l' = counter l" "at l' = at l"
  shows "counts proc (move t q l')"
  using assms by (intro counts_step [OF assms(1) same_locks_refl, of _ t q]) (auto simp: move_def counts_def split: if_splits)

lemma unique_holder:
  "held_by l \<Longrightarrow> holds_new (at l t) \<Longrightarrow> holds_new (at l u) \<Longrightarrow> t = u"
  "held_by l \<Longrightarrow> holds_writer (at l t) \<Longrightarrow> holds_writer (at l u) \<Longrightarrow> t = u"
  "held_by l \<Longrightarrow> holds_counter (at l t) \<Longrightarrow> holds_counter (at l u) \<Longrightarrow> t = u"
  unfolding held_by_def by (metis option.inject)+

lemma notified_counts:
  assumes "held_by l" "notifies (at l) f"
  shows "f u \<noteq> W_Wait" "f u = Writing \<longleftrightarrow> at l u = Writing"
proof -
  show "f u \<noteq> W_Wait"
    using assms(2)
  proof (cases rule: notifies.cases)
    case (One t)
    then show ?thesis using unique_holder(1) [OF assms(1), of t u] by auto
  qed auto
  show "f u = Writing \<longleftrightarrow> at l u = Writing"
    using assms(2) by (cases rule: notifies.cases) auto
qed

lemma counts_preserved: "rw_step proc l m \<Longrightarrow> held_by l \<Longrightarrow> counts proc l \<Longrightarrow> counts proc m"
proof (induction rule: rw_step.induct)
  case (ReadInc l t f)
  note f = notified_counts [OF ReadInc.prems(1) ReadInc.hyps(2)]
  have "at l u \<noteq> Writing" for u
    using unique_holder(1) [OF ReadInc.prems(1), of t u] ReadInc.hyps(1) by auto
  with f ReadInc show ?case
    by (intro counts_step [OF ReadInc.prems(2) notifies_same_locks [OF ReadInc.hyps(2)], of _ t R_Rel]) (auto split: if_splits)
next
  case (LeaveDec l t f)
  note f = notified_counts [OF LeaveDec.prems(1) LeaveDec.hyps(2)]
  have "counter l (proc u) = 0" if "at l u = Writing" for u
    using that LeaveDec.prems(2) unfolding counts_def by blast
  moreover have "proc u \<noteq> proc t" if "at l u = Writing" for u
  proof
    assume "proc u = proc t"
    then have "readers_of proc l (proc t) = {}"
      using writing_no_readers [OF LeaveDec.prems(2) \<open>at l u = Writing\<close>] by simp
    with LeaveDec.hyps(1) show False by (auto simp: readers_of_def)
  qed
  ultimately show ?case
    using f LeaveDec
    by (intro counts_step [OF LeaveDec.prems(2) notifies_same_locks [OF LeaveDec.hyps(2)], of _ t Idle]) (auto split: if_splits)
qed (rule counts_move; auto)+

lemma rw_invariant: "rw_reachable proc l \<Longrightarrow> held_by l \<and> counts proc l"
proof (induction rule: rw_reachable.induct)
  case Start
  show ?case by (simp add: held_by_def counts_def rw_init_def readers_of_def)
next
  case (Step l m)
  then show ?case using held_by_preserved counts_preserved by blast
qed

section \<open>Enabled steps\<close>

definition can_step :: "('t \<Rightarrow> 'p) \<Rightarrow> ('t, 'p) rwlock \<Rightarrow> 't \<Rightarrow> bool" where
  "can_step proc l u \<longleftrightarrow> (\<exists>m. rw_step proc l m \<and> at m u \<noteq> at l u)"

lemma notifies_total: "\<exists>f. notifies g f"
  by (cases "\<exists>t. g t = W_Wait") (auto intro: notifies.intros)

lemma can_stepI: "rw_step proc l m \<Longrightarrow> at m u \<noteq> at l u \<Longrightarrow> can_step proc l u"
  by (auto simp: can_step_def)

lemma counter_holder_steps: "at l u \<in> {R_Inc, R_Dec, W_Test} \<Longrightarrow> can_step proc l u"
proof -
  assume u: "at l u \<in> {R_Inc, R_Dec, W_Test}"
  obtain f where f: "notifies (at l) f" using notifies_total by blast
  from u consider "at l u = R_Inc" | "at l u = R_Dec" | "at l u = W_Test" by auto
  then show ?thesis
  proof cases
    case 1
    show ?thesis by (rule can_stepI [OF rw_step.ReadInc [OF 1 f]]) (simp add: 1)
  next
    case 2
    show ?thesis by (rule can_stepI [OF rw_step.LeaveDec [OF 2 f]]) (simp add: 2)
  next
    case 3
    show ?thesis
    proof (cases "counter l (proc u) = 0")
      case True
      show ?thesis by (rule can_stepI [OF rw_step.WriteIn [of l u proc, OF 3 True]]) (simp add: 3 move_def)
    next
      case False
      show ?thesis by (rule can_stepI [OF rw_step.WriteWait [of l u proc, OF 3 False]]) (simp add: 3 move_def)
    qed
  qed
qed

lemma releasing_steps: "at l u = R_Rel \<Longrightarrow> can_step proc l u" "at l u = W_RelW \<Longrightarrow> can_step proc l u"
  by (rule can_stepI [OF rw_step.ReadIn], assumption, simp add: move_def)
     (rule can_stepI [OF rw_step.ReleaseW], assumption, simp add: move_def)

lemma counter_waiter_steps:
  assumes "counter_lock l = None"
  shows "at l u = R_Cond \<Longrightarrow> can_step proc l u" "at l u = R_Cond2 \<Longrightarrow> can_step proc l u"
    "at l u = W_Cond \<Longrightarrow> can_step proc l u" "at l u = W_Wake \<Longrightarrow> can_step proc l u"
  subgoal by (rule can_stepI [OF rw_step.ReadCond [OF _ assms]], assumption, simp add: move_def)
  subgoal by (rule can_stepI [OF rw_step.LeaveCond [OF _ assms]], assumption, simp add: move_def)
  subgoal by (rule can_stepI [OF rw_step.WriteCond [OF _ assms]], erule disjI1, simp add: move_def)
  subgoal by (rule can_stepI [OF rw_step.WriteCond [OF _ assms]], erule disjI2, simp add: move_def)
  done

lemma new_waiter_steps:
  assumes "new_readers l = None"
  shows "at l u = R_New \<Longrightarrow> can_step proc l u" "at l u = W_New \<Longrightarrow> can_step proc l u"
  subgoal by (rule can_stepI [OF rw_step.ReadNew [OF _ assms]], assumption, simp add: move_def)
  subgoal by (rule can_stepI [OF rw_step.WriteNew [OF _ assms]], assumption, simp add: move_def)
  done

lemma writer_waiter_steps: "writer_lock l = None \<Longrightarrow> at l u = W_Lock \<Longrightarrow> can_step proc l u"
  by (rule can_stepI [OF rw_step.WriteLock], assumption, assumption, simp add: move_def)

text \<open>Whole passages into a free lock.\<close>

definition free :: "('t, 'p) rwlock \<Rightarrow> bool" where
  "free l \<longleftrightarrow> writer_lock l = None \<and> new_readers l = None \<and> counter_lock l = None"

lemma read_enters:
  assumes "rw_reachable proc l" "free l" "at l t = Idle" "\<forall>u. at l u \<noteq> W_Wait"
  shows "\<exists>m. rw_reachable proc m \<and> free m \<and> at m = (at l)(t := Reading)"
proof -
  note free = assms(2) [unfolded free_def]
  let ?a = "move t R_New l"
  let ?b = "move t R_Cond (?a\<lparr>new_readers := Some t\<rparr>)"
  let ?c = "move t R_Inc (?b\<lparr>counter_lock := Some t\<rparr>)"
  let ?d = "?c\<lparr>counter := (counter ?c)(proc t := counter ?c (proc t) + 1), counter_lock := None, at := (at ?c)(t := R_Rel)\<rparr>"
  let ?e = "move t Reading (?d\<lparr>new_readers := None\<rparr>)"
  have "rw_step proc l ?a" using assms(3) by (rule rw_step.Read)
  moreover have "rw_step proc ?a ?b" by (rule rw_step.ReadNew) (simp_all add: move_def free)
  moreover have "rw_step proc ?b ?c" by (rule rw_step.ReadCond) (simp_all add: move_def free)
  moreover have "rw_step proc ?c ?d"
    by (rule rw_step.ReadInc) (use assms(4) in \<open>auto simp: move_def intro!: notifies.Nobody split: if_splits\<close>)
  moreover have "rw_step proc ?d ?e" by (rule rw_step.ReadIn) simp
  ultimately have "rw_reachable proc ?e" using assms(1) by (meson rw_reachable.Step)
  moreover have "free ?e" "at ?e = (at l)(t := Reading)" by (simp_all add: free_def free move_def)
  ultimately show ?thesis by blast
qed

lemma write_enters:
  assumes "rw_reachable proc l" "free l" "at l t = Idle" "counter l (proc t) = 0"
  shows "\<exists>m. rw_reachable proc m \<and> at m = (at l)(t := Writing)"
proof -
  note free = assms(2) [unfolded free_def]
  let ?a = "move t W_Lock l"
  let ?b = "move t W_New (?a\<lparr>writer_lock := Some t\<rparr>)"
  let ?c = "move t W_Cond (?b\<lparr>new_readers := Some t\<rparr>)"
  let ?d = "move t W_Test (?c\<lparr>counter_lock := Some t\<rparr>)"
  let ?e = "move t Writing (?d\<lparr>counter_lock := None\<rparr>)"
  have "rw_step proc l ?a" using assms(3) by (rule rw_step.Write)
  moreover have "rw_step proc ?a ?b" by (rule rw_step.WriteLock) (simp_all add: move_def free)
  moreover have "rw_step proc ?b ?c" by (rule rw_step.WriteNew) (simp_all add: move_def free)
  moreover have "rw_step proc ?c ?d" by (rule rw_step.WriteCond) (simp_all add: move_def free)
  moreover have "rw_step proc ?d ?e" by (rule rw_step.WriteIn) (simp_all add: move_def assms(4))
  ultimately have "rw_reachable proc ?e" using assms(1) by (meson rw_reachable.Step)
  moreover have "at ?e = (at l)(t := Writing)" by (simp add: move_def)
  ultimately show ?thesis by blast
qed

lemma init_facts [simp]:
  "free rw_init" "at rw_init = (\<lambda>_. Idle)" "counter rw_init p = 0"
  by (simp_all add: free_def rw_init_def)

section \<open>What the lock promises\<close>

text \<open>
  C15: mutual exclusion. Whoever is writing is the only writer among the threads of all the
  processes, and no thread of its own process reads, whatever the interleaving. (The readers of
  another process are not excluded, which is a property of its own below.)
\<close>

theorem writer_excludes:
  assumes "rw_reachable proc l" "at l t = Writing" "u \<noteq> t"
  shows "at l u \<noteq> Writing \<and> (proc u = proc t \<longrightarrow> at l u \<noteq> Reading)"
proof -
  have inv: "held_by l" "counts proc l" using rw_invariant [OF assms(1)] by auto
  have "at l u \<noteq> Writing"
    using unique_holder(2) [OF inv(1), of t u] assms(2,3) by auto
  moreover have "readers_of proc l (proc t) = {}"
    by (rule writing_no_readers [OF inv(2) assms(2)])
  then have "proc u = proc t \<longrightarrow> at l u \<noteq> Reading" by (auto simp: readers_of_def)
  ultimately show ?thesis by simp
qed

lemma writer_excludes_witness:
  "\<exists>l :: (nat, bool) rwlock. rw_reachable (\<lambda>u. 2 \<le> u) l \<and> at l 0 = Writing \<and> at l 2 \<noteq> Writing \<and>
    at l 1 \<noteq> Writing \<and> at l 1 \<noteq> Reading"
proof -
  obtain l :: "(nat, bool) rwlock" where l: "rw_reachable (\<lambda>u. 2 \<le> u) l" "at l = (\<lambda>_. Idle)(0 := Writing)"
    using write_enters [OF rw_reachable.Start, of 0 "\<lambda>u. 2 \<le> u"] by auto
  then show ?thesis using writer_excludes [OF l(1), of 0 1] writer_excludes [OF l(1), of 0 2] by auto
qed

lemma new_holder_progresses:
  assumes "held_by l" "counts proc l" "counter_lock l = None" "new_readers l = Some u"
  shows "\<exists>v. at l v \<noteq> Idle \<and> (at l v \<in> {Reading, Writing} \<or> can_step proc l v)"
proof (cases "at l u = W_Wait")
  case True
  then have "counter l (proc u) \<noteq> 0" using assms(2) by (auto simp: counts_def)
  then have "readers_of proc l (proc u) \<noteq> {}" using assms(2) by (auto simp: counts_def)
  then obtain v where v: "counted (at l v)" by (auto simp: readers_of_def)
  then show ?thesis
    using releasing_steps [of l v proc] counter_waiter_steps [OF assms(3), of v proc] counter_holder_steps [of l v proc]
    by (intro exI [of _ v]) auto
next
  case False
  have "holds_new (at l u)" using assms(1,4) by (simp add: held_by_def)
  then show ?thesis
    using False releasing_steps [of l u proc] counter_waiter_steps [OF assms(3), of u proc] counter_holder_steps [of l u proc]
    by (intro exI [of _ u]) auto
qed

text \<open>
  C16: no deadlock and no lost wake-up. Whenever some thread is on its way into the lock or out
  of it, some thread is inside, or some thread that is not idle can take its next step.
\<close>

theorem lock_progresses:
  assumes "rw_reachable proc l" "at l t \<noteq> Idle"
  shows "\<exists>u. at l u \<noteq> Idle \<and> (at l u \<in> {Reading, Writing} \<or> can_step proc l u)"
proof -
  have inv: "held_by l" "counts proc l" using rw_invariant [OF assms(1)] by auto
  consider u where "counter_lock l = Some u"
    | u where "counter_lock l = None" "new_readers l = Some u"
    | u where "counter_lock l = None" "new_readers l = None" "writer_lock l = Some u"
    | "counter_lock l = None" "new_readers l = None" "writer_lock l = None" by fastforce
  then show ?thesis
  proof cases
    case 1
    then have "at l u \<in> {R_Inc, R_Dec, W_Test}" using inv(1) by (auto simp: held_by_def)
    then show ?thesis using counter_holder_steps [of l u proc] by (intro exI [of _ u]) auto
  next
    case 2
    then show ?thesis by (rule new_holder_progresses [OF inv])
  next
    case 3
    then have "holds_writer (at l u)" "\<not> holds_new (at l u)" using inv(1) by (auto simp: held_by_def)
    then show ?thesis
      using new_waiter_steps [OF 3(2), of u proc] releasing_steps [of l u proc] by (intro exI [of _ u]) auto
  next
    case 4
    then have "\<not> holds_new (at l t)" using inv(1) by (simp add: held_by_def)
    then show ?thesis
      using assms(2) new_waiter_steps [OF 4(2), of t proc] writer_waiter_steps [OF 4(3), of t proc]
        releasing_steps [of l t proc] counter_waiter_steps [OF 4(1), of t proc] counter_holder_steps [of l t proc]
      by (intro exI [of _ t]) (cases "at l t", auto)
  qed
qed

lemma lock_progresses_witness:
  "\<exists>l :: (nat, unit) rwlock. rw_reachable (\<lambda>_. ()) l \<and> at l 0 = W_Lock \<and>
    (\<exists>u. at l u \<noteq> Idle \<and> (at l u \<in> {Reading, Writing} \<or> can_step (\<lambda>_. ()) l u))"
proof -
  let ?l = "move 0 W_Lock (rw_init :: (nat, unit) rwlock)"
  have "rw_step (\<lambda>_. ()) rw_init ?l" by (rule rw_step.Write) simp
  then have l: "rw_reachable (\<lambda>_. ()) ?l" by (rule rw_reachable.Step [OF rw_reachable.Start])
  then show ?thesis using lock_progresses [OF l, of 0] by (intro exI [of _ ?l]) (simp add: move_def)
qed

text \<open>
  C17: between processes the lock does not exclude. With two threads in different processes a
  state is reachable where one reads while the other writes: the writer looks at the counter of
  its own process.
\<close>

theorem processes_not_excluded:
  assumes "proc r \<noteq> proc w"
  shows "\<exists>l. rw_reachable proc l \<and> at l r = Reading \<and> at l w = Writing"
proof -
  obtain l where l: "rw_reachable proc l" "free l" "at l = (\<lambda>_. Idle)(r := Reading)"
    using read_enters [OF rw_reachable.Start, of r proc] by auto
  have "r \<noteq> w" using assms by auto
  have "counts proc l" using rw_invariant [OF l(1)] by simp
  moreover have "readers_of proc l (proc w) = {}" using l(3) assms by (auto simp: readers_of_def)
  ultimately have "counter l (proc w) = 0" by (simp add: counts_def)
  then obtain m where "rw_reachable proc m" "at m = (at l)(w := Writing)"
    using write_enters [OF l(1,2), of w] l(3) \<open>r \<noteq> w\<close> by auto
  then show ?thesis using l(3) \<open>r \<noteq> w\<close> by auto
qed

lemma processes_not_excluded_witness:
  "\<exists>l :: (nat, nat) rwlock. rw_reachable id l \<and> at l 0 = Reading \<and> at l 1 = Writing"
  using processes_not_excluded [of id "0 :: nat" 1] by (simp del: One_nat_def)

end
