(* ===== verification/Sockets.thy ===== *)
theory Sockets
  imports Messages
begin

text \<open>
  The unix sockets: the framing of \<^verbatim>\<open>foris_controller/buses/unix_socket.py\<close>
  (\<^verbatim>\<open>UnixSocketHandler\<close>, \<^verbatim>\<open>UnixSocketNotificationSender\<close>) and of
  \<^verbatim>\<open>foris_controller/client_socket.py\<close> (\<^verbatim>\<open>ClientSocketHandler\<close>): a length of four bytes, then
  a JSON text of that length. A connection is the list of the pieces in which the kernel
  delivers what the peer sends, until it closes its side.
\<close>

section \<open>Lengths\<close>

text \<open>\<^verbatim>\<open>struct.pack("I", n)\<close> and \<^verbatim>\<open>unpack\<close>, in the byte order of the machine.\<close>

locale length_codec =
  fixes pack :: "nat \<Rightarrow> nat list"
    and unpack :: "nat list \<Rightarrow> nat"
    and limit :: nat
  assumes pack_length: "length (pack n) = 4"
    and unpack_pack: "n < limit \<Longrightarrow> unpack (pack n) = n"
begin

lemma frame_parts: "take 4 (pack n @ body) = pack n" "drop 4 (pack n @ body) = body"
  by (simp_all add: pack_length)

end

definition pack_little :: "nat \<Rightarrow> nat list" where
  "pack_little n = [n mod 256, n div 256 mod 256, n div 65536 mod 256, n div 16777216 mod 256]"

definition unpack_little :: "nat list \<Rightarrow> nat" where
  "unpack_little bs = (case bs of [a, b, c, d] \<Rightarrow> a + 256 * b + 65536 * c + 16777216 * d | _ \<Rightarrow> 0)"

definition pack_big :: "nat \<Rightarrow> nat list" where
  "pack_big n = rev (pack_little n)"

definition unpack_big :: "nat list \<Rightarrow> nat" where
  "unpack_big bs = unpack_little (rev bs)"

lemma unpack_pack_little: "n < 2 ^ 32 \<Longrightarrow> unpack_little (pack_little n) = n"
proof -
  assume n: "n < 2 ^ 32"
  let ?q1 = "n div 256"
  let ?q2 = "?q1 div 256"
  let ?q3 = "?q2 div 256"
  have q: "n div 65536 = ?q2" "n div 16777216 = ?q3" by (simp_all add: div_mult2_eq [symmetric])
  have "?q3 mod 256 = ?q3" using n by (simp add: div_mult2_eq [symmetric])
  moreover have "n = 256 * ?q1 + n mod 256" "?q1 = 256 * ?q2 + ?q1 mod 256" "?q2 = 256 * ?q3 + ?q2 mod 256"
    by simp_all
  ultimately show ?thesis unfolding unpack_little_def pack_little_def q list.case by linarith
qed

interpretation little: length_codec pack_little unpack_little "2 ^ 32"
  by unfold_locales (simp_all add: unpack_pack_little, simp add: pack_little_def)

interpretation big: length_codec pack_big unpack_big "2 ^ 32"
  by unfold_locales (simp_all add: pack_big_def unpack_big_def unpack_pack_little, simp add: pack_little_def)

section \<open>Receiving\<close>

text \<open>
  \<^verbatim>\<open>recv(n)\<close>: at most \<open>n\<close> bytes of the next piece; nothing once the peer has closed.
\<close>

type_synonym pieces = "nat list list"

fun recv :: "nat \<Rightarrow> pieces \<Rightarrow> nat list \<times> pieces" where
  "recv n [] = ([], [])"
| "recv n (c # cs) = (take n c, if length c \<le> n then cs else drop n c # cs)"

text \<open>
  The loop of the server: \<^verbatim>\<open>while received_data_len < length\<close> it receives again, without a look
  at whether anything came. It may not end.
\<close>

partial_function (option) recv_rest :: "nat \<Rightarrow> nat list \<Rightarrow> pieces \<Rightarrow> (nat list \<times> pieces) option" where
  "recv_rest n acc cs =
     (if length acc < n
      then (case recv (n - length acc) cs of (d, cs') \<Rightarrow> recv_rest n (acc @ d) cs')
      else Some (acc, cs))"

definition recv_body :: "nat \<Rightarrow> pieces \<Rightarrow> (nat list \<times> pieces) option" where
  "recv_body n cs = (case recv n cs of (d, cs') \<Rightarrow> recv_rest n d cs')"

text \<open>The loop of the client socket raises when nothing came.\<close>

definition pieces_ok :: "pieces \<Rightarrow> bool" where
  "pieces_ok cs \<longleftrightarrow> [] \<notin> set cs"

lemma recv_concat: "recv n cs = (d, cs') \<Longrightarrow> concat cs = d @ concat cs' \<and> length d \<le> n"
  by (induction n cs arbitrary: d cs' rule: recv.induct) (auto split: if_splits)

lemma recv_ok: "recv n cs = (d, cs') \<Longrightarrow> pieces_ok cs \<Longrightarrow> pieces_ok cs'"
  by (induction n cs arbitrary: d cs' rule: recv.induct) (auto simp: pieces_ok_def split: if_splits)

lemma recv_progress: "recv n cs = (d, cs') \<Longrightarrow> pieces_ok cs \<Longrightarrow> cs \<noteq> [] \<Longrightarrow> 0 < n \<Longrightarrow> d \<noteq> []"
  by (induction n cs arbitrary: d cs' rule: recv.induct) (auto simp: pieces_ok_def)

function recv_checked :: "nat \<Rightarrow> nat list \<Rightarrow> pieces \<Rightarrow> (nat list \<times> pieces) res" where
  "recv_checked n acc cs =
     (if length acc < n
      then (case recv (n - length acc) cs of (d, cs') \<Rightarrow>
        if d = [] then Inl ValueError else recv_checked n (acc @ d) cs')
      else Inr (acc, cs))"
  by pat_completeness auto
termination
  by (relation "measure (\<lambda>(n, acc, cs). n - length acc)") (auto intro: diff_less_mono2)

declare recv_checked.simps [simp del]

lemma recv_rest_some:
  assumes "recv_rest n acc cs = Some r"
  shows "n \<le> length (fst r) \<and> acc @ concat cs = fst r @ concat (snd r)"
proof (rule recv_rest.raw_induct [OF _ assms])
  fix f :: "nat \<Rightarrow> nat list \<Rightarrow> pieces \<Rightarrow> (nat list \<times> pieces) option" and n acc cs r
  assume IH: "\<And>n acc cs r. f n acc cs = Some r \<Longrightarrow> n \<le> length (fst r) \<and> acc @ concat cs = fst r @ concat (snd r)"
    and step: "(if length acc < n then case recv (n - length acc) cs of (d, cs') \<Rightarrow> f n (acc @ d) cs'
      else Some (acc, cs)) = Some r"
  obtain d cs' where d: "recv (n - length acc) cs = (d, cs')" by (cases "recv (n - length acc) cs")
  show "n \<le> length (fst r) \<and> acc @ concat cs = fst r @ concat (snd r)"
    using step IH [of n "acc @ d" cs' r] recv_concat [OF d] by (auto simp: d split: if_splits)
qed

lemma recv_rest_enough:
  "pieces_ok cs \<Longrightarrow> length acc \<le> n \<Longrightarrow> n \<le> length acc + length (concat cs) \<Longrightarrow>
    \<exists>d cs'. recv_rest n acc cs = Some (d, cs') \<and> length d = n \<and> pieces_ok cs'"
proof (induction "n - length acc" arbitrary: acc cs rule: less_induct)
  case less
  show ?case
  proof (cases "length acc < n")
    case True
    then have "cs \<noteq> []" using less.prems(3) by auto
    obtain d cs' where d: "recv (n - length acc) cs = (d, cs')" by (cases "recv (n - length acc) cs")
    note facts = recv_concat [OF d] recv_ok [OF d less.prems(1)] recv_progress [OF d less.prems(1) \<open>cs \<noteq> []\<close>]
    have "\<exists>e ds'. recv_rest n (acc @ d) cs' = Some (e, ds') \<and> length e = n \<and> pieces_ok ds'"
      using facts True less.prems(3) by (intro less.hyps) (auto intro: diff_less_mono2)
    then show ?thesis using True d by (subst recv_rest.simps) simp
  next
    case False
    then show ?thesis using less.prems by (subst recv_rest.simps) simp
  qed
qed

text \<open>What the loop returns: exactly the body when enough bytes are sent, else it never returns.\<close>

lemma recv_body_some:
  assumes "pieces_ok cs" "n \<le> length (concat cs)"
  shows "\<exists>cs'. recv_body n cs = Some (take n (concat cs), cs') \<and> concat cs' = drop n (concat cs) \<and> pieces_ok cs'"
proof -
  obtain d cs1 where d: "recv n cs = (d, cs1)" by (cases "recv n cs")
  note facts = recv_concat [OF d] recv_ok [OF d assms(1)]
  obtain e cs2 where e: "recv_rest n d cs1 = Some (e, cs2)" "length e = n" "pieces_ok cs2"
    using recv_rest_enough [of cs1 d n] facts assms(2) by auto
  have "concat cs = e @ concat cs2" using recv_rest_some [OF e(1)] facts by auto
  with d e show ?thesis by (simp add: recv_body_def)
qed

lemma recv_body_hangs: "length (concat cs) < n \<Longrightarrow> recv_body n cs = None"
proof (rule ccontr)
  assume short: "length (concat cs) < n" "recv_body n cs \<noteq> None"
  obtain d cs1 where d: "recv n cs = (d, cs1)" by (cases "recv n cs")
  with short(2) obtain r where r: "recv_rest n d cs1 = Some r" by (auto simp: recv_body_def)
  have "n \<le> length (d @ concat cs1)" using recv_rest_some [OF r] by auto
  with recv_concat [OF d] short(1) show False by simp
qed

text \<open>The checked loop always returns: the same body, or \<^verbatim>\<open>ValueError\<close> when bytes are missing.\<close>

lemma recv_checked_eq:
  "pieces_ok cs \<Longrightarrow> length acc \<le> n \<Longrightarrow>
    recv_checked n acc cs = (case recv_rest n acc cs of Some r \<Rightarrow> Inr r | None \<Rightarrow> Inl ValueError)"
proof (induction n acc cs rule: recv_checked.induct)
  case (1 n acc cs)
  obtain d cs' where d: "recv (n - length acc) cs = (d, cs')" by (cases "recv (n - length acc) cs")
  note facts = recv_concat [OF d] recv_ok [OF d 1(2)] recv_progress [OF d 1(2)]
  show ?case
  proof (cases "length acc < n")
    case True
    show ?thesis
    proof (cases "d = []")
      case empty: True
      then have "cs = []" using facts(3) True by auto
      then have "length (acc @ concat cs) < n" using True by simp
      then have "recv_rest n acc cs = None" using recv_rest_some [of n acc cs] by (cases "recv_rest n acc cs") fastforce+
      then show ?thesis using True d empty by (subst recv_checked.simps) simp
    next
      case False
      have "recv_checked n (acc @ d) cs' = (case recv_rest n (acc @ d) cs' of Some r \<Rightarrow> Inr r | None \<Rightarrow> Inl ValueError)"
        using "1.IH" [OF True d [symmetric] False facts(2)] facts(1) True by force
      then show ?thesis using True d False by (subst recv_checked.simps, subst recv_rest.simps) simp
    qed
  next
    case False
    then show ?thesis by (subst recv_checked.simps, subst recv_rest.simps) simp
  qed
qed

lemma recv_checked_concat: "recv_checked n acc cs = Inr (d, cs') \<Longrightarrow> acc @ concat cs = d @ concat cs'"
proof (induction n acc cs rule: recv_checked.induct)
  case (1 n acc cs)
  obtain e cs1 where e: "recv (n - length acc) cs = (e, cs1)" by (cases "recv (n - length acc) cs")
  show ?case
    using "1.prems" "1.IH" [OF _ e [symmetric]] recv_concat [OF e]
    by (subst (asm) recv_checked.simps) (auto simp: e split: if_splits)
qed

section \<open>The server\<close>

definition frame :: "(nat \<Rightarrow> nat list) \<Rightarrow> nat list \<Rightarrow> nat list" where
  "frame pack body = pack (length body) @ body"

text \<open>
  \<^verbatim>\<open>UnixSocketHandler.handle\<close>: the frames it sends and the state of the router at the end. The
  JSON reader and writer with their encodings are \<open>loads\<close> and \<open>dumps\<close>. A text that is no JSON is
  skipped; any other exception closes the connection, as a length of fewer than four bytes
  does. \<open>None\<close>: it never returns.
\<close>

partial_function (option) handle ::
  "(nat \<Rightarrow> nat list) \<Rightarrow> (nat list \<Rightarrow> nat) \<Rightarrow> (nat list \<Rightarrow> json option) \<Rightarrow> (json \<Rightarrow> nat list) \<Rightarrow>
    (json \<Rightarrow> ('s, json) prog) \<Rightarrow> pieces \<Rightarrow> 's \<Rightarrow> (nat list list \<times> 's) option" where
  "handle pack unpack loads dumps process cs s = (case recv 4 cs of (header, cs1) \<Rightarrow>
     if length header \<noteq> 4 then Some ([], s)
     else Option.bind (recv_body (unpack header) cs1) (\<lambda>(body, cs2). case loads body of
         None \<Rightarrow> handle pack unpack loads dumps process cs2 s
       | Some parsed \<Rightarrow> (case process parsed s of
             (Ret response, s') \<Rightarrow>
               Option.bind (handle pack unpack loads dumps process cs2 s')
                 (\<lambda>(sent, s''). Some (frame pack (dumps response) # sent, s''))
           | (Raise e, s') \<Rightarrow> Some ([], s')
           | (Block, s') \<Rightarrow> None)))"

fun answer_all :: "(json \<Rightarrow> ('s, json) prog) \<Rightarrow> json list \<Rightarrow> ('s, json list) prog" where
  "answer_all process [] = ret []"
| "answer_all process (m # ms) = bindP (process m) (\<lambda>r. bindP (answer_all process ms) (\<lambda>rs. ret (r # rs)))"

text \<open>
  How many of the messages, of these lengths, come before the first one whose length is cut: the
  four bytes of the length do not begin a piece that holds them all.
\<close>

fun before_cut :: "pieces \<Rightarrow> nat list \<Rightarrow> nat" where
  "before_cut cs [] = 0"
| "before_cut cs (n # ns) =
     (if cs \<noteq> [] \<and> 4 \<le> length (hd cs) then
        (case recv_body n (snd (recv 4 cs)) of Some (_, cs2) \<Rightarrow> Suc (before_cut cs2 ns) | None \<Rightarrow> 0)
      else 0)"

lemma recv_whole:
  assumes "cs \<noteq> []" "k \<le> length (hd cs)" "pieces_ok cs"
  shows "\<exists>cs'. recv k cs = (take k (concat cs), cs') \<and> concat cs' = drop k (concat cs) \<and> pieces_ok cs'"
proof -
  obtain c ds where cs: "cs = c # ds" using assms(1) by (cases cs) auto
  have d: "recv k cs = (take k c, if length c \<le> k then ds else drop k c # ds)" by (simp add: cs)
  show ?thesis using assms(2) recv_ok [OF d assms(3)] by (auto simp: cs)
qed

lemma handle_cut_header:
  "cs = c # ds \<Longrightarrow> length c < 4 \<Longrightarrow> handle pack unpack loads dumps process cs s = Some ([], s)"
  by (subst handle.simps) simp

context length_codec
begin

lemma recv_frame:
  assumes "cs \<noteq> []" "4 \<le> length (hd cs)" "pieces_ok cs" "concat cs = frame pack body @ rest"
  shows "\<exists>cs1. recv 4 cs = (pack (length body), cs1) \<and> concat cs1 = body @ rest \<and> pieces_ok cs1"
  using recv_whole [OF assms(1-3)] assms(4) by (auto simp: frame_def frame_parts pack_length)

lemma handle_frames:
  assumes "pieces_ok cs" "concat cs = concat (map (frame pack) bodies)"
    and "\<forall>b\<in>set bodies. length b < limit" "map loads bodies = map Some msgs"
    and "answer_all process (take (before_cut cs (map length bodies)) msgs) s = (Ret rs, s')"
  shows "handle pack unpack loads dumps process cs s = Some (map (\<lambda>r. frame pack (dumps r)) rs, s')"
  using assms
proof (induction bodies arbitrary: cs msgs s rs)
  case Nil
  then have "cs = []" by (cases cs) (auto simp: pieces_ok_def)
  with Nil show ?case by (subst handle.simps) (simp add: ret_def)
next
  case (Cons b bodies)
  obtain m ms where msgs: "msgs = m # ms" "loads b = Some m" "map loads bodies = map Some ms"
    using Cons.prems(4) by (cases msgs) auto
  have "cs \<noteq> []" using Cons.prems(2) by (auto simp: frame_def dest: arg_cong [where f = length] simp: pack_length)
  show ?case
  proof (cases "4 \<le> length (hd cs)")
    case False
    then show ?thesis using \<open>cs \<noteq> []\<close> Cons.prems(5) handle_cut_header [of cs "hd cs" "tl cs"] by (simp add: ret_def)
  next
    case whole: True
    obtain cs1 where cs1: "recv 4 cs = (pack (length b), cs1)" "concat cs1 = b @ concat (map (frame pack) bodies)" "pieces_ok cs1"
      using recv_frame [of cs b "concat (map (frame pack) bodies)"] Cons.prems(1,2) whole \<open>cs \<noteq> []\<close> by auto
    obtain cs2 where cs2: "recv_body (length b) cs1 = Some (b, cs2)" "concat cs2 = concat (map (frame pack) bodies)" "pieces_ok cs2"
      using recv_body_some [OF cs1(3), of "length b"] cs1(2) by auto
    have "before_cut cs (map length (b # bodies)) = Suc (before_cut cs2 (map length bodies))"
      using whole \<open>cs \<noteq> []\<close> cs1(1) cs2(1) by simp
    then obtain r1 s1 rs1 where run: "process m s = (Ret r1, s1)" "rs = r1 # rs1"
        "answer_all process (take (before_cut cs2 (map length bodies)) ms) s1 = (Ret rs1, s')"
      using Cons.prems(5) by (auto simp: msgs ret_def elim!: bindP_RetD)
    have "handle pack unpack loads dumps process cs2 s1 = Some (map (\<lambda>r. frame pack (dumps r)) rs1, s')"
      using Cons.prems(3) by (intro Cons.IH [OF cs2(3,2) _ msgs(3) run(3)]) auto
    then show ?thesis
      using cs1(1) cs2(1) Cons.prems(3) msgs(2) run
      by (subst handle.simps) (simp add: pack_length unpack_pack)
  qed
qed

lemma handle_truncated:
  assumes "pieces_ok cs" "cs \<noteq> []" "4 \<le> length (hd cs)" "concat cs = pack n @ part" "length part < n" "n < limit"
  shows "handle pack unpack loads dumps process cs s = None"
proof -
  obtain cs1 where cs1: "recv 4 cs = (pack n, cs1)" "concat cs1 = part"
    using recv_whole [OF assms(2,3,1)] assms(4) by (auto simp: frame_parts pack_length)
  then have "recv_body n cs1 = None" using recv_body_hangs [of cs1 n] assms(5) by simp
  with cs1 assms(6) show ?thesis by (subst handle.simps) (simp add: pack_length unpack_pack)
qed

end

section \<open>The client socket\<close>

text \<open>
  \<open>notify\<close> forwards a notification, \<open>send\<close> asks the bus; both are third-party senders of the
  client. \<open>validate\<close> is the test of the schemas.
\<close>

definition client_message ::
  "(json \<Rightarrow> bool) \<Rightarrow> (json \<Rightarrow> json \<Rightarrow> json \<Rightarrow> ('s, unit) prog) \<Rightarrow> (json \<Rightarrow> json \<Rightarrow> json \<Rightarrow> ('s, json) prog) \<Rightarrow>
    json \<Rightarrow> ('s, json option) prog" where
  "client_message validate notify send parsed =
     (if \<not> validate parsed then raise ValidationError
      else bindP (lift (jget_default parsed ''kind'' JNull)) (\<lambda>kind.
        if kind = JStr ''notification'' then
          bindP (lift (jget parsed ''module'')) (\<lambda>m.
          bindP (lift (jget parsed ''action'')) (\<lambda>a.
          bindP (lift (jget_default parsed ''data'' JNull)) (\<lambda>d.
          bindP (notify m a d) (\<lambda>_. ret None))))
        else if kind = JStr ''request'' then
          bindP (lift (jget parsed ''module'')) (\<lambda>m.
          bindP (lift (jget parsed ''action'')) (\<lambda>a.
          bindP (lift (jget_default parsed ''data'' JNull)) (\<lambda>d.
          bindP (send m a d) (\<lambda>msg.
            ret (Some (JObj [(''module'', m), (''action'', a), (''kind'', JStr ''reply''), (''data'', msg)]))))))
        else ret None))"

lemma frame_shorter:
  assumes "(header, cs1) = recv 4 cs" "length header = 4" "recv_checked n [] cs1 = Inr (body, cs2)"
  shows "length (concat cs2) < length (concat cs)"
  using recv_concat [OF assms(1) [symmetric]] recv_checked_concat [OF assms(3)] assms(2) by simp

text \<open>
  \<^verbatim>\<open>ClientSocketHandler.handle\<close>: the frames it sends. A text that is no JSON closes the
  connection here. A sender that never answers makes it wait for ever: \<open>None\<close>.
\<close>

function client_handle ::
  "(nat \<Rightarrow> nat list) \<Rightarrow> (nat list \<Rightarrow> nat) \<Rightarrow> (nat list \<Rightarrow> json option) \<Rightarrow> (json \<Rightarrow> nat list) \<Rightarrow>
    (json \<Rightarrow> ('s, json option) prog) \<Rightarrow> pieces \<Rightarrow> 's \<Rightarrow> (nat list list \<times> 's) option" where
  "client_handle pack unpack loads dumps message cs s = (case recv 4 cs of (header, cs1) \<Rightarrow>
     if length header \<noteq> 4 then Some ([], s)
     else (case recv_checked (unpack header) [] cs1 of
         Inl e \<Rightarrow> Some ([], s)
       | Inr (body, cs2) \<Rightarrow> (case loads body of
           None \<Rightarrow> Some ([], s)
         | Some parsed \<Rightarrow> (case message parsed s of
             (Ret reply, s') \<Rightarrow>
               Option.bind (client_handle pack unpack loads dumps message cs2 s')
                 (\<lambda>(sent, s''). Some ((case reply of None \<Rightarrow> sent | Some r \<Rightarrow> frame pack (dumps r) # sent), s''))
           | (Raise e, s') \<Rightarrow> Some ([], s')
           | (Block, s') \<Rightarrow> None))))"
  by pat_completeness auto
termination
  by (relation "measure (\<lambda>(pack, unpack, loads, dumps, message, cs, s). length (concat cs))") (auto intro: frame_shorter)

declare client_handle.simps [simp del]

lemma client_handle_returns:
  "(\<And>m s. fst (message m s) \<noteq> Block) \<Longrightarrow> \<exists>out s'. client_handle pack unpack loads dumps message cs s = Some (out, s')"
proof (induction pack unpack loads dumps message cs s rule: client_handle.induct)
  case (1 pack unpack loads dumps message cs s)
  obtain header cs1 where h: "recv 4 cs = (header, cs1)" by (cases "recv 4 cs")
  show ?case
  proof (cases "length header \<noteq> 4 \<or> (\<exists>e. recv_checked (unpack header) [] cs1 = Inl e)")
    case True
    then show ?thesis by (subst client_handle.simps) (auto simp: h)
  next
    case False
    then obtain body cs2 where b: "recv_checked (unpack header) [] cs1 = Inr (body, cs2)"
      by (cases "recv_checked (unpack header) [] cs1") auto
    show ?thesis
    proof (cases "loads body")
      case None
      then show ?thesis using False b by (subst client_handle.simps) (auto simp: h)
    next
      case (Some parsed)
      obtain r s' where r: "message parsed s = (r, s')" by (cases "message parsed s")
      show ?thesis
      proof (cases r)
        case (Ret reply)
        have "\<exists>out s''. client_handle pack unpack loads dumps message cs2 s' = Some (out, s'')"
          by (rule "1.IH" [OF h [symmetric] _ b refl Some r [symmetric] Ret "1.prems"]) (use False in auto)
        then show ?thesis using False b Some r Ret by (subst client_handle.simps) (auto simp: h)
      next
        case (Raise e)
        then show ?thesis using False b Some r by (subst client_handle.simps) (auto simp: h)
      next
        case Block
        then show ?thesis using "1.prems" [of parsed s] r by simp
      qed
    qed
  qed
qed

section \<open>What the sockets promise\<close>

text \<open>
  C24: requests over the socket are answered in order, however the kernel cuts the bytes. Whenever
  the peer sends a sequence of framed messages and closes, the server sends back exactly the
  framed replies of the router to them, in their order, and closes; but only up to the first
  message whose four bytes of length come in more than one piece: there the server closes, and
  that message and the later ones are not answered.
\<close>

theorem socket_answers_in_order:
  assumes "pieces_ok cs" "concat cs = concat (map (frame pack_little) bodies)"
    and "\<forall>b\<in>set bodies. length b < 2 ^ 32" "map loads bodies = map Some msgs"
    and "answer_all process (take (before_cut cs (map length bodies)) msgs) s = (Ret replies, s')"
  shows "handle pack_little unpack_little loads dumps process cs s =
    Some (map (\<lambda>r. frame pack_little (dumps r)) replies, s')"
  using assms by (rule little.handle_frames)

lemma socket_answers_in_order_witness:
  "handle pack_little unpack_little (\<lambda>b. Some (JNum (int (hd b)))) (\<lambda>j. [0]) (\<lambda>m. ret m)
      [[2, 0, 0, 0, 7], [8, 1, 0, 0, 0], [9]] () =
    Some ([frame pack_little [0], frame pack_little [0]], ()) \<and>
   handle pack_little unpack_little (\<lambda>b. Some (JNum (int (hd b)))) (\<lambda>j. [0]) (\<lambda>m. ret m)
      [[2, 0, 0, 0, 7], [8, 1, 0], [0, 0, 9]] () =
    Some ([frame pack_little [0]], ())"
proof -
  let ?bodies = "[[7, 8], [9]] :: nat list list"
  have cut: "before_cut [[2, 0, 0, 0, 7], [8, 1, 0, 0, 0], [9]] (map length ?bodies) = 2"
    "before_cut [[2, 0, 0, 0, 7], [8, 1, 0], [0, 0, 9]] (map length ?bodies) = 1"
    by (simp_all add: recv_body_def recv_rest.simps)
  have "handle pack_little unpack_little (\<lambda>b. Some (JNum (int (hd b)))) (\<lambda>j. [0]) (\<lambda>m. ret m)
      [[2, 0, 0, 0, 7], [8, 1, 0, 0, 0], [9]] () =
      Some (map (\<lambda>r. frame pack_little ((\<lambda>j. [0]) r)) [JNum 7, JNum 9], ())"
    by (rule socket_answers_in_order [where msgs = "[JNum 7, JNum 9]" and bodies = ?bodies], unfold cut)
       (simp_all add: pieces_ok_def frame_def pack_little_def bindP_def ret_def)
  moreover have "handle pack_little unpack_little (\<lambda>b. Some (JNum (int (hd b)))) (\<lambda>j. [0]) (\<lambda>m. ret m)
      [[2, 0, 0, 0, 7], [8, 1, 0], [0, 0, 9]] () =
      Some (map (\<lambda>r. frame pack_little ((\<lambda>j. [0]) r)) [JNum 7], ())"
    by (rule socket_answers_in_order [where msgs = "[JNum 7, JNum 9]" and bodies = ?bodies], unfold cut)
       (simp_all add: pieces_ok_def frame_def pack_little_def bindP_def ret_def)
  ultimately show ?thesis by simp
qed

text \<open>
  C25: a message that is cut off keeps the server busy for ever. When the peer closes before all
  bytes of a body came, the receiving loop of the server never ends, while the client socket,
  whose loop is the same but for a test, always returns.
\<close>

theorem truncated_message_never_returns:
  assumes "pieces_ok cs" "cs \<noteq> []" "4 \<le> length (hd cs)" "concat cs = pack_little n @ part"
    and "length part < n" "n < 2 ^ 32" "\<And>m s. fst (message m s) \<noteq> Block"
  shows "handle pack_little unpack_little loads dumps process cs s = None \<and>
    (\<exists>out s'. client_handle pack_little unpack_little loads dumps message cs u = Some (out, s'))"
proof
  show "handle pack_little unpack_little loads dumps process cs s = None"
    by (rule little.handle_truncated [OF assms(1-6)])
  show "\<exists>out s'. client_handle pack_little unpack_little loads dumps message cs u = Some (out, s')"
    by (rule client_handle_returns) (rule assms(7))
qed

lemma truncated_message_never_returns_witness:
  "handle pack_little unpack_little (\<lambda>b. None) (\<lambda>j. []) (\<lambda>m. ret m) [[9, 0, 0, 0, 1, 2]] () = None \<and>
   (\<exists>out s'. client_handle pack_little unpack_little (\<lambda>b. None) (\<lambda>j. []) (\<lambda>m. ret None) [[9, 0, 0, 0, 1, 2]] () = Some (out, s'))"
  by (rule truncated_message_never_returns [where n = 9 and part = "[1, 2]"])
     (simp_all add: pieces_ok_def pack_little_def ret_def)

text \<open>
  C26: the client socket terminates on every stream of bytes, whole or not, as long as the bus
  behind it answers.
\<close>

theorem client_socket_terminates:
  assumes "\<And>m s. fst (message m s) \<noteq> Block"
  shows "\<exists>out s'. client_handle pack unpack loads dumps message cs s = Some (out, s')"
  using assms by (rule client_handle_returns)

lemma client_socket_terminates_witness:
  "\<exists>out s'. client_handle pack_little unpack_little (\<lambda>b. Some JNull) (\<lambda>j. [])
    (client_message (\<lambda>_. True) (\<lambda>_ _ _. ret ()) (\<lambda>_ _ _. ret JNull)) [[1, 0, 0, 0, 5], [2, 0]] () = Some (out, s')"
proof (rule client_socket_terminates)
  fix m and s :: unit
  show "fst (client_message (\<lambda>_. True) (\<lambda>_ _ _. ret ()) (\<lambda>_ _ _. ret JNull) m s) \<noteq> Block"
    by (cases m) (auto simp: client_message_def bindP_def lift_def ret_def split: option.splits)
qed

text \<open>The notification sender: one frame per notification.\<close>

definition send_notification ::
  "(nat \<Rightarrow> nat list) \<Rightarrow> (json \<Rightarrow> nat list) \<Rightarrow> (nat list \<Rightarrow> ('s, unit) prog) \<Rightarrow> json \<Rightarrow> ('s, unit) prog" where
  "send_notification pack dumps sendall msg = sendall (frame pack (dumps msg))"

end
