(* ===== verification/UbusBus.thy ===== *)
theory UbusBus
  imports Messages
begin

text \<open>
  The ubus bus of \<^verbatim>\<open>foris_controller/buses/ubus.py\<close>: requests that come in several parts
  (\<^verbatim>\<open>RequestStorage\<close>), the handler of a registered method, replies that leave in several parts,
  and the notifications.
\<close>

section \<open>Storage of multipart requests\<close>

type_synonym request_storage = "string \<rightharpoonup> string"

definition storage_append :: "string \<Rightarrow> string \<Rightarrow> request_storage \<Rightarrow> request_storage" where
  "storage_append i part st = st(i \<mapsto> (case st i of None \<Rightarrow> [] | Some d \<Rightarrow> d) @ part)"

definition storage_pickup :: "string \<Rightarrow> request_storage \<Rightarrow> (string \<times> request_storage) res" where
  "storage_pickup i st = (case st i of None \<Rightarrow> Inl (KeyError i) | Some d \<Rightarrow> Inr (d, st(i := None)))"

definition parts_of :: "string \<Rightarrow> (string \<times> string) list \<Rightarrow> string" where
  "parts_of i ps = concat (map snd (filter (\<lambda>(j, p). j = i) ps))"

lemma parts_of_simps [simp]:
  "parts_of i [] = []" "parts_of i ((j, p) # ps) = (if j = i then p else []) @ parts_of i ps"
  by (simp_all add: parts_of_def)

lemma parts_of_none: "i \<notin> fst ` set ps \<Longrightarrow> parts_of i ps = []"
  by (induction ps) auto

lemma storage_appends:
  "fold (\<lambda>(j, p). storage_append j p) ps st i =
    (if i \<in> fst ` set ps then Some ((case st i of None \<Rightarrow> [] | Some d \<Rightarrow> d) @ parts_of i ps) else st i)"
  by (induction ps arbitrary: st) (auto simp: storage_append_def parts_of_none)

section \<open>Replies in parts\<close>

definition reply_size :: nat where
  "reply_size = 512 * 1024"

text \<open>The slices \<^verbatim>\<open>dumped_data[i : i + size]\<close> for \<open>i\<close> from 0 in steps of the size.\<close>

function slices :: "nat \<Rightarrow> string \<Rightarrow> string list" where
  "slices n s = (if s = [] \<or> n = 0 then [] else take n s # slices n (drop n s))"
  by pat_completeness auto
termination by (relation "measure (\<lambda>(n, s). length s)") auto

declare slices.simps [simp del]

lemma slices_spec: "0 < n \<Longrightarrow> concat (slices n s) = s \<and> (\<forall>p\<in>set (slices n s). p \<noteq> [] \<and> length p \<le> n)"
proof (induction n s rule: slices.induct)
  case (1 n s)
  then show ?case by (subst (1 2) slices.simps) auto
qed

section \<open>The handler of a method\<close>

record ubus_request =
  ur_request_id :: string
  ur_multipart :: bool
  ur_final :: bool
  ur_payload :: "(string \<times> json) list"

definition ubus_message :: "string \<Rightarrow> string \<Rightarrow> json option \<Rightarrow> json" where
  "ubus_message module action data =
     JObj ([(''module'', JStr module), (''action'', JStr action), (''kind'', JStr ''request'')] @
       (case data of None \<Rightarrow> [] | Some d \<Rightarrow> [(''data'', d)]))"

definition ubus_response :: "(json \<Rightarrow> string) \<Rightarrow> json \<Rightarrow> string list res" where
  "ubus_response dumps response =
     bindE (case jget response ''errors'' of
         Inr errors \<Rightarrow> Inr (JObj [(''errors'', errors)])
       | Inl _ \<Rightarrow> bindE (jget response ''data'') (\<lambda>d. Inr (JObj [(''data'', d)])))
       (\<lambda>d. Inr (slices reply_size (dumps d)))"

definition process_and_reply ::
  "(json \<Rightarrow> string) \<Rightarrow> (json \<Rightarrow> ('s, json) prog) \<Rightarrow> json \<Rightarrow> (request_storage \<times> 's, string list) prog" where
  "process_and_reply dumps process message = (\<lambda>(st, s). case process message s of
      (Ret response, s') \<Rightarrow> (case ubus_response dumps response of
          Inr replies \<Rightarrow> (Ret replies, (st, s')) | Inl e \<Rightarrow> (Raise e, (st, s')))
    | (Raise e, s') \<Rightarrow> (Raise e, (st, s'))
    | (Block, s') \<Rightarrow> (Block, (st, s')))"

definition multipart_failure :: json where
  "multipart_failure = JObj [(''errors'', JArr [JObj [(''description'', JStr ''failed to parse multipart''),
     (''stacktrace'', JStr [])]])]"

text \<open>The replies a request gets: none for a part that is not the last.\<close>

definition ubus_handler ::
  "(string \<Rightarrow> json option) \<Rightarrow> (json \<Rightarrow> string) \<Rightarrow> (json \<Rightarrow> ('s, json) prog) \<Rightarrow> string \<Rightarrow> string \<Rightarrow>
    ubus_request \<Rightarrow> (request_storage \<times> 's, string list) prog" where
  "ubus_handler loads dumps process module action req = (\<lambda>(st, s).
     if ur_multipart req then
       (case map_of (ur_payload req) ''multipart_data'' of
          None \<Rightarrow> (Raise (KeyError ''multipart_data''), (st, s))
        | Some (JStr part) \<Rightarrow>
            (let st1 = storage_append (ur_request_id req) part st in
             if \<not> ur_final req then (Ret [], (st1, s))
             else (case storage_pickup (ur_request_id req) st1 of
                 Inl e \<Rightarrow> (Raise e, (st1, s))
               | Inr (multi_data, st2) \<Rightarrow> (case loads multi_data of
                     None \<Rightarrow> (Ret [dumps multipart_failure], (st2, s))
                   | Some d \<Rightarrow> process_and_reply dumps process (ubus_message module action (Some d)) (st2, s))))
        | Some _ \<Rightarrow> (Raise TypeError, (st, s)))
     else process_and_reply dumps process
       (ubus_message module action (map_of (ur_payload req) ''data'')) (st, s))"

definition part_request :: "string \<Rightarrow> bool \<Rightarrow> string \<Rightarrow> ubus_request" where
  "part_request i final part = \<lparr>ur_request_id = i, ur_multipart = True, ur_final = final,
     ur_payload = [(''multipart_data'', JStr part)]\<rparr>"

definition single_request :: "string \<Rightarrow> json \<Rightarrow> ubus_request" where
  "single_request i data = \<lparr>ur_request_id = i, ur_multipart = False, ur_final = True, ur_payload = [(''data'', data)]\<rparr>"

text \<open>Parts of several requests as they come in, none of them the last of its request.\<close>

fun receive_parts ::
  "(string \<Rightarrow> json option) \<Rightarrow> (json \<Rightarrow> string) \<Rightarrow> (json \<Rightarrow> ('s, json) prog) \<Rightarrow> string \<Rightarrow> string \<Rightarrow>
    (string \<times> string) list \<Rightarrow> (request_storage \<times> 's, string list) prog" where
  "receive_parts loads dumps process module action [] = ret []"
| "receive_parts loads dumps process module action ((i, part) # ps) =
     bindP (ubus_handler loads dumps process module action (part_request i False part)) (\<lambda>out.
     bindP (receive_parts loads dumps process module action ps) (\<lambda>outs. ret (out @ outs)))"

lemma receive_parts_stores:
  "receive_parts loads dumps process module action ps (st, s) =
    (Ret [], (fold (\<lambda>(j, p). storage_append j p) ps st, s))"
proof (induction ps arbitrary: st)
  case Nil
  then show ?case by (simp add: ret_def)
next
  case (Cons p ps)
  obtain i part where p: "p = (i, part)" by (cases p)
  have "ubus_handler loads dumps process module action (part_request i False part) (st, s) =
      (Ret [], (storage_append i part st, s))"
    by (simp add: ubus_handler_def part_request_def Let_def)
  then show ?case using Cons.IH [of "storage_append i part st"] by (simp add: p bindP_def ret_def)
qed

text \<open>
  C27: multipart requests are put together again. However the parts of several requests
  interleave, the last part of a request gets exactly the replies that the whole request would
  get in one piece, and leaves nothing of it in the storage; the others stay as they are.
\<close>

theorem multipart_as_one_request:
  assumes "st i = None" "loads (parts_of i ps @ last_part) = Some d"
  shows "bindP (receive_parts loads dumps process module action ps)
      (\<lambda>_. ubus_handler loads dumps process module action (part_request i True last_part)) (st, s) =
    ubus_handler loads dumps process module action (single_request i d)
      ((fold (\<lambda>(j, p). storage_append j p) ps st)(i := None), s)"
proof -
  let ?st = "fold (\<lambda>(j, p). storage_append j p) ps st"
  have "(case ?st i of None \<Rightarrow> [] | Some e \<Rightarrow> e) = parts_of i ps"
    using assms(1) by (simp add: storage_appends parts_of_none)
  then have "storage_pickup i (storage_append i last_part ?st) = Inr (parts_of i ps @ last_part, ?st(i := None))"
    by (simp add: storage_pickup_def storage_append_def)
  then show ?thesis
    using assms(2)
    by (simp add: bindP_def receive_parts_stores ubus_handler_def part_request_def single_request_def Let_def)
qed

lemma multipart_as_one_request_witness:
  "bindP (receive_parts (\<lambda>t. if t = ''abcd'' then Some (JNum 7) else None) (\<lambda>_. ''x'') (\<lambda>m. ret m) ''m'' ''a''
        [(''1'', ''ab''), (''2'', ''zz''), (''1'', ''c'')])
      (\<lambda>_. ubus_handler (\<lambda>t. if t = ''abcd'' then Some (JNum 7) else None) (\<lambda>_. ''x'') (\<lambda>m. ret m) ''m'' ''a''
        (part_request ''1'' True ''d'')) (\<lambda>_. None, ()) =
    ubus_handler (\<lambda>t. if t = ''abcd'' then Some (JNum 7) else None) (\<lambda>_. ''x'') (\<lambda>m. ret m) ''m'' ''a''
      (single_request ''1'' (JNum 7))
      ((fold (\<lambda>(j, p). storage_append j p) [(''1'', ''ab''), (''2'', ''zz''), (''1'', ''c'')] (\<lambda>_. None))(''1'' := None), ())"
  by (rule multipart_as_one_request) simp_all

text \<open>
  A reply is sent in parts of at most 512 KiB whose concatenation is the reply.
\<close>

lemma reply_parts_join:
  assumes "ubus_response dumps response = Inr parts"
  shows "\<exists>d. concat parts = dumps d \<and> (\<forall>p\<in>set parts. p \<noteq> [] \<and> length p \<le> 524288)"
proof -
  have "0 < reply_size" by (simp add: reply_size_def)
  then show ?thesis
    using assms slices_spec [of reply_size] by (auto simp: ubus_response_def bindE_eq_Inr reply_size_def)
qed

section \<open>Notifications\<close>

definition ubus_notification :: "string \<Rightarrow> string \<Rightarrow> json option \<Rightarrow> string \<times> json" where
  "ubus_notification module action data =
     (''foris-controller-'' @ module,
      JObj ((''action'', JStr action) # (case data of None \<Rightarrow> [] | Some d \<Rightarrow> [(''data'', d)])))"

end
