(* ===== verification/JsonTools.thy ===== *)
theory JsonTools
  imports Messages "HOL-Library.List_Lexorder" 
begin

text \<open>
  Operations of \<^verbatim>\<open>dict\<close> and \<^verbatim>\<open>list\<close> on JSON values, shared by the theories of the modules, of
  the updater and of the mocked handlers.
\<close>

text \<open>\<^verbatim>\<open>v[k] = x\<close>, \<^verbatim>\<open>del v[k]\<close>, \<^verbatim>\<open>v.items()\<close> and \<^verbatim>\<open>v.get(k)\<close>.\<close>

fun jput :: "json \<Rightarrow> string \<Rightarrow> json \<Rightarrow> json res" where
  "jput (JObj kv) k x = Inr (JObj (AList.update k x kv))"
| "jput _ k x = Inl TypeError"

fun jdel :: "json \<Rightarrow> string \<Rightarrow> json res" where
  "jdel (JObj kv) k = (if k \<in> fst ` set kv then Inr (JObj (AList.delete k kv)) else Inl (KeyError k))"
| "jdel _ k = Inl TypeError"

fun jpairs :: "json \<Rightarrow> (string \<times> json) list res" where
  "jpairs (JObj kv) = Inr kv"
| "jpairs _ = Inl AttributeError"

definition jget_opt :: "json \<Rightarrow> string \<Rightarrow> json res" where
  "jget_opt v k = jget_default v k JNull"

text \<open>A chain of subscripts \<^verbatim>\<open>v[k1][k2]...\<close>.\<close>

fun jpath :: "json \<Rightarrow> string list \<Rightarrow> json res" where
  "jpath v [] = Inr v"
| "jpath v (k # ks) = bindE (jget v k) (\<lambda>w. jpath w ks)"

text \<open>\<^verbatim>\<open>{**v, **w}\<close> and \<^verbatim>\<open>v.update(w)\<close>: the values of \<open>w\<close> replace those of \<open>v\<close>.\<close>

definition jmerge :: "json \<Rightarrow> json \<Rightarrow> json res" where
  "jmerge v w = bindE (jpairs v) (\<lambda>kv. bindE (jpairs w) (\<lambda>kw.
     Inr (JObj (fold (\<lambda>(k, x). AList.update k x) kw kv))))"

fun json_str :: "json \<Rightarrow> string res" where
  "json_str (JStr s) = Inr s"
| "json_str _ = Inl TypeError"

definition json_of_option :: "('a \<Rightarrow> json) \<Rightarrow> 'a option \<Rightarrow> json" where
  "json_of_option f v = (case v of None \<Rightarrow> JNull | Some x \<Rightarrow> f x)"

text \<open>\<^verbatim>\<open>sorted\<close> on texts: by the codes of their characters.\<close>

definition sorted_texts :: "string list \<Rightarrow> string list" where
  "sorted_texts xs = map (map char_of) (sort (map (map (of_char :: char \<Rightarrow> nat)) xs))"

lemma set_sorted_texts [simp]: "set (sorted_texts xs) = set xs"
  by (simp add: sorted_texts_def image_image map_idI)

lemma jget_jput [simp]: "jput v k x = Inr w \<Longrightarrow> jget w k' = (if k' = k then Inr x else jget v k')"
  by (cases v) (auto simp: update_conv)

lemma jget_jdel: "jdel v k = Inr w \<Longrightarrow> k' \<noteq> k \<Longrightarrow> jget w k' = jget v k'"
  by (cases v) (auto simp: delete_conv split: if_splits)

end
