(* ===== verification/Modules.thy ===== *)
theory Modules
  imports JsonTools IpAddr
begin

text \<open>
  The module classes of \<^verbatim>\<open>foris_controller_modules/*/__init__.py\<close>: what every action asks of its
  handler, what it replies and what it announces. A handler is a map of its methods, the
  notification of a module a parameter; a method that starts a task is given the two functions
  its results are sent with. The theorem says that a change is announced exactly when its
  handler carried it out.
\<close>

section \<open>Handlers and notifications\<close>

datatype 's args =
    Pos "json list"
  | Kw json
  | Task "json list" "json \<Rightarrow> ('s, unit) prog" "json \<Rightarrow> ('s, unit) prog"

type_synonym 's handler = "string \<rightharpoonup> ('s args \<Rightarrow> ('s, json) prog)"
type_synonym 's notifier = "string \<Rightarrow> json option \<Rightarrow> ('s, unit) prog"
type_synonym 's actions = "(string \<times> 's action) list"

definition call :: "'s handler \<Rightarrow> string \<Rightarrow> 's args \<Rightarrow> ('s, json) prog" where
  "call h method args = (case h method of None \<Rightarrow> raise AttributeError | Some f \<Rightarrow> f args)"

definition result_of :: "json \<Rightarrow> json" where
  "result_of v = JObj [(''result'', v)]"

text \<open>\<^verbatim>\<open>return {k: self.handler.method(...)}\<close>\<close>

definition reply_as :: "string \<Rightarrow> ('s, json) prog \<Rightarrow> ('s, json) prog" where
  "reply_as k p = bindP p (\<lambda>v. ret (JObj [(k, v)]))"

text \<open>\<^verbatim>\<open>if res: self.notify(action, msg)\<close>, then \<^verbatim>\<open>return {"result": res}\<close>.\<close>

definition announced :: "'s notifier \<Rightarrow> string \<Rightarrow> json option res \<Rightarrow> json \<Rightarrow> ('s, json) prog" where
  "announced n action msg res =
     bindP (if json_truthy res then bindP (lift msg) (n action) else ret ()) (\<lambda>_. ret (result_of res))"

text \<open>\<^verbatim>\<open>if res["result"]: self.notify(action, msg)\<close>, then \<^verbatim>\<open>return res\<close>.\<close>

definition announced_result :: "'s notifier \<Rightarrow> string \<Rightarrow> json option res \<Rightarrow> json \<Rightarrow> ('s, json) prog" where
  "announced_result n action msg res =
     bindP (lift (jget res ''result'')) (\<lambda>ok.
     bindP (if json_truthy ok then bindP (lift msg) (n action) else ret ()) (\<lambda>_. ret res))"

text \<open>The common shape: the data of the message is passed on and announced.\<close>

definition changing :: "'s handler \<Rightarrow> 's notifier \<Rightarrow> string \<Rightarrow> (json \<Rightarrow> 's args) \<Rightarrow> string \<times> 's action" where
  "changing h n action args =
     (action, \<lambda>data. bindP (call h action (args data)) (announced n action (Inr (Some data))))"

definition getting :: "'s handler \<Rightarrow> string \<Rightarrow> string \<times> 's action" where
  "getting h action = (action, \<lambda>data. call h action (Pos []))"

definition field_args :: "json \<Rightarrow> string list \<Rightarrow> ('s args \<Rightarrow> ('s, 'a) prog) \<Rightarrow> ('s, 'a) prog" where
  "field_args data ks f = bindP (lift (mapE (jget data) ks)) (\<lambda>vs. f (Pos vs))"

definition text_of :: "json \<Rightarrow> string res" where
  "text_of v = (case v of JStr s \<Rightarrow> Inr s | _ \<Rightarrow> Inl ValueError)"

text \<open>\<^verbatim>\<open>check_dynamic_ranges\<close> on the values of a message; a number is no netmask.\<close>

definition ranges_ok :: "json \<Rightarrow> json \<Rightarrow> json \<Rightarrow> json \<Rightarrow> bool res" where
  "ranges_ok ip netmask start limit =
     bindE (text_of ip) (\<lambda>i. bindE (text_of netmask) (\<lambda>m. bindE (json_int start) (\<lambda>s. bindE (json_int limit) (\<lambda>l.
       check_dynamic_ranges i m s l))))"

definition truthyE :: "json res \<Rightarrow> bool res" where
  "truthyE v = bindE v (\<lambda>x. Inr (json_truthy x))"

section \<open>The modules\<close>

definition about_module :: "'s handler \<Rightarrow> 's actions" where
  "about_module h =
     [(''get'', \<lambda>data.
        bindP (call h ''get_device_info'' (Pos [])) (\<lambda>info.
        bindP (lift (jmerge (JObj []) info)) (\<lambda>res.
        bindP (call h ''get_serial'' (Pos [])) (\<lambda>serial.
        bindP (lift (jmerge res serial)) (\<lambda>res.
        bindP (call h ''get_customization'' (Pos [])) (\<lambda>c.
          if json_truthy c then lift (jput res ''customization'' c) else ret res)))))),
      (''get_registration_number'', \<lambda>data. call h ''get_registration_number'' (Pos []))]"

definition dns_module :: "'s handler \<Rightarrow> 's notifier \<Rightarrow> 's actions" where
  "dns_module h n =
     [getting h ''get_settings'',
      changing h n ''update_settings'' Kw,
      (''list_forwarders'', \<lambda>data. reply_as ''forwarders'' (call h ''list_forwarders'' (Pos []))),
      (''add_forwarder'', \<lambda>data. bindP (call h ''add_forwarder'' (Kw data)) (\<lambda>name.
         if json_truthy name then
           bindP (lift (jmerge (JObj [(''name'', name)]) data)) (\<lambda>msg.
           bindP (n ''add_forwarder'' (Some msg)) (\<lambda>_. ret (result_of (JBool True))))
         else ret (result_of (JBool False)))),
      changing h n ''set_forwarder'' Kw,
      changing h n ''del_forwarder'' Kw]"

text \<open>The range of addresses is checked before the handler is asked.\<close>

definition guarded_update :: "'s handler \<Rightarrow> 's notifier \<Rightarrow> (json \<Rightarrow> bool res) \<Rightarrow> string \<times> 's action" where
  "guarded_update h n refused =
     (''update_settings'', \<lambda>data. bindP (lift (refused data)) (\<lambda>no.
        if no then ret (result_of (JBool False))
        else bindP (call h ''update_settings'' (Pos [data])) (announced n ''update_settings'' (Inr (Some data)))))"

definition guest_refused :: "json \<Rightarrow> bool res" where
  "guest_refused data =
     andE (truthyE (jget data ''enabled'')) (andE (truthyE (jpath data [''dhcp'', ''enabled'']))
       (bindE (jget data ''ip'') (\<lambda>ip. bindE (jget data ''netmask'') (\<lambda>m.
        bindE (jpath data [''dhcp'', ''start'']) (\<lambda>s. bindE (jpath data [''dhcp'', ''limit'']) (\<lambda>l.
        bindE (ranges_ok ip m s l) (\<lambda>ok. Inr (\<not> ok))))))))"

definition guest_module :: "'s handler \<Rightarrow> 's notifier \<Rightarrow> 's actions" where
  "guest_module h n = [getting h ''get_settings'', guarded_update h n guest_refused]"

definition lan_refused :: "json \<Rightarrow> bool res" where
  "lan_refused data =
     andE (bindE (jget data ''mode'') (\<lambda>m. Inr (m = JStr ''managed'')))
       (andE (truthyE (jpath data [''mode_managed'', ''dhcp'', ''enabled'']))
       (bindE (jpath data [''mode_managed'', ''router_ip'']) (\<lambda>ip. bindE (jpath data [''mode_managed'', ''netmask'']) (\<lambda>m.
        bindE (jpath data [''mode_managed'', ''dhcp'', ''start'']) (\<lambda>s.
        bindE (jpath data [''mode_managed'', ''dhcp'', ''limit'']) (\<lambda>l.
        bindE (ranges_ok ip m s l) (\<lambda>ok. Inr (\<not> ok))))))))"

definition client_change :: "'s handler \<Rightarrow> 's notifier \<Rightarrow> string \<Rightarrow> string \<times> 's action" where
  "client_change h n action =
     (action, \<lambda>data. bindP (call h action (Kw data)) (announced_result n action (Inr (Some data))))"

definition lan_module :: "'s handler \<Rightarrow> 's notifier \<Rightarrow> 's actions" where
  "lan_module h n =
     [getting h ''get_settings'',
      guarded_update h n lan_refused,
      client_change h n ''set_dhcp_client'',
      client_change h n ''update_dhcp_client'',
      client_change h n ''delete_dhcp_client'']"

definition maintain_module :: "'s handler \<Rightarrow> 's actions" where
  "maintain_module h =
     [(''reboot'', \<lambda>data. reply_as ''result'' (call h ''reboot'' (Pos []))),
      (''generate_backup'', \<lambda>data. reply_as ''backup'' (call h ''generate_backup'' (Pos []))),
      (''restore_backup'', \<lambda>data. reply_as ''result'' (field_args data [''backup''] (call h ''restore_backup'')))]"

text \<open>\<^verbatim>\<open>copy.deepcopy\<close> protects the announced data from changes by the handler; values do not change here.\<close>

definition networks_module :: "'s handler \<Rightarrow> 's notifier \<Rightarrow> 's actions" where
  "networks_module h n = [getting h ''get_settings'', changing h n ''update_settings'' (\<lambda>data. Pos [data])]"

text \<open>\<open>decode\<close> is \<^verbatim>\<open>base64.b64decode\<close>; byte strings are carried as texts.\<close>

definition password_module :: "(json \<Rightarrow> string res) \<Rightarrow> 's handler \<Rightarrow> 's notifier \<Rightarrow> 's actions" where
  "password_module decode h n =
     [(''check'', \<lambda>data. bindP (lift (bindE (jget data ''password'') decode)) (\<lambda>pw.
         reply_as ''status'' (call h ''check_foris_password'' (Pos [JStr pw])))),
      (''set'', \<lambda>data. bindP (lift (bindE (jget data ''password'') decode)) (\<lambda>pw.
         bindP (lift (jget data ''type'')) (\<lambda>t.
         bindP (if t = JStr ''system'' then call h ''set_system_password'' (Pos [JStr pw])
                else if t = JStr ''foris'' then call h ''set_foris_password'' (Pos [JStr pw])
                else raise NotImplementedError)
           (announced_result n ''set'' (Inr (Some (JObj [(''type'', t)])))))))]"

definition remote_module :: "'s handler \<Rightarrow> 's notifier \<Rightarrow> 's actions" where
  "remote_module h n =
     [(''generate_ca'', \<lambda>data. reply_as ''task_id'' (call h ''generate_ca''
         (Task [] (n ''generate_ca'' \<circ> Some) (n ''generate_ca'' \<circ> Some)))),
      getting h ''get_status'',
      (''generate_token'', \<lambda>data. bindP (lift (jget data ''name'')) (\<lambda>name.
         reply_as ''task_id'' (call h ''generate_token''
           (Task [name] (n ''generate_token'' \<circ> Some) (n ''generate_token'' \<circ> Some))))),
      (''revoke'', \<lambda>data. bindP (lift (jget data ''id'')) (\<lambda>i.
         bindP (call h ''revoke'' (Pos [i])) (announced n ''revoke'' (Inr (Some (JObj [(''id'', i)])))))),
      (''delete_ca'', \<lambda>data. bindP (call h ''delete_ca'' (Pos [])) (announced n ''delete_ca'' (Inr None))),
      getting h ''get_settings'',
      changing h n ''update_settings'' Kw,
      (''get_token'', \<lambda>data. call h ''get_token'' (Kw data)),
      (''set_netboot_configured'', \<lambda>data. bindP (call h ''set_netboot_configured'' (Kw data))
         (announced n ''set_netboot_configured'' (Inr None)))]"

text \<open>What is told of the settings of e-mails: no addresses and no passwords.\<close>

definition emails_notice :: "json \<Rightarrow> json res" where
  "emails_notice emails =
     bindE (truthyE (jget emails ''enabled'')) (\<lambda>on.
       if on then bindE (jget emails ''smtp_type'') (\<lambda>t. Inr (JObj [(''enabled'', JBool True), (''smtp_type'', t)]))
       else Inr (JObj [(''enabled'', JBool False)]))"

definition settings_notice :: "json \<Rightarrow> json option res" where
  "settings_notice data =
     bindE (jget data ''reboots'') (\<lambda>reboots. bindE (jget data ''emails'') (\<lambda>emails.
     bindE (emails_notice emails) (\<lambda>e. Inr (Some (JObj [(''reboots'', reboots), (''emails'', e)])))))"

definition router_notifications_module :: "'s handler \<Rightarrow> 's notifier \<Rightarrow> 's actions" where
  "router_notifications_module h n =
     [(''list'', \<lambda>data. bindP (lift (jget_default data ''lang'' (JStr ''en''))) (\<lambda>lang.
         reply_as ''notifications'' (call h ''list'' (Pos [lang])))),
      (''mark_as_displayed'', \<lambda>data. reply_as ''result'' (field_args data [''ids''] (call h ''mark_as_displayed''))),
      getting h ''get_settings'',
      (''update_settings'', \<lambda>data. bindP (lift (jget data ''emails'')) (\<lambda>e. bindP (lift (jget data ''reboots'')) (\<lambda>r.
         bindP (call h ''update_settings'' (Kw (JObj [(''emails_settings'', e), (''reboots_settings'', r)])))
           (announced n ''update_settings'' (settings_notice data))))),
      (''create'', \<lambda>data. reply_as ''result'' (call h ''create'' (Kw data))),
      (''update_email_settings'', \<lambda>data. bindP (call h ''update_settings'' (Kw (JObj [(''emails_settings'', data)])))
         (announced n ''update_email_settings'' (bindE (emails_notice data) (\<lambda>e. Inr (Some e))))),
      (''update_reboot_settings'', \<lambda>data. bindP (call h ''update_settings'' (Kw (JObj [(''reboots_settings'', data)])))
         (announced n ''update_reboot_settings'' (Inr (Some data))))]"

definition system_module :: "'s handler \<Rightarrow> 's actions" where
  "system_module h =
     [(''get_hostname'', \<lambda>data. reply_as ''hostname'' (call h ''get_hostname'' (Pos []))),
      (''set_hostname'', \<lambda>data. reply_as ''result'' (field_args data [''hostname''] (call h ''set_hostname'')))]"

text \<open>\<open>now\<close> is \<^verbatim>\<open>datetime.now().isoformat()\<close>, \<open>strptime\<close> parses the time of a message.\<close>

definition stamped :: "('s, string) prog \<Rightarrow> json \<Rightarrow> ('s, json) prog" where
  "stamped now v = bindP now (\<lambda>t. lift (jput v ''time'' (JStr t)))"

definition time_module ::
  "('s, string) prog \<Rightarrow> (json \<Rightarrow> json res) \<Rightarrow> 's handler \<Rightarrow> 's notifier \<Rightarrow> 's actions" where
  "time_module now strptime h n =
     [(''get_settings'', \<lambda>data. bindP (call h ''get_settings'' (Pos [])) (\<lambda>res.
         bindP (lift (jget res ''time_settings'')) (\<lambda>ts. bindP (stamped now ts) (\<lambda>ts'.
           lift (jput res ''time_settings'' ts'))))),
      (''update_settings'', \<lambda>data. bindP (lift (jget data ''time_settings'')) (\<lambda>ts.
         bindP (lift (py_contains ts ''time'')) (\<lambda>given.
         bindP (if given then lift (bindE (jget ts ''time'') strptime) else ret JNull) (\<lambda>time.
         bindP (lift (mapE (jget data) [''region'', ''country'', ''city''])) (\<lambda>place.
         bindP (lift (jget ts ''how_to_set_time'')) (\<lambda>how.
         bindP (lift (jget_opt ts ''ntp_extras'')) (\<lambda>extras.
         bindP (call h ''update_settings'' (Pos (place @ [how, extras, time])))
           (announced n ''update_settings'' (Inr (Some data)))))))))),
      (''get_router_time'', \<lambda>data. bindP now (\<lambda>t. ret (JObj [(''time'', JStr t)]))),
      (''ntpdate_trigger'', \<lambda>data.
         let exit_notify = (\<lambda>msg. bindP (lift (truthyE (jget msg ''result''))) (\<lambda>ok.
           bindP (if ok then stamped now msg else ret msg) (\<lambda>m. n ''ntpdate_finished'' (Some m))))
         in bindP (call h ''ntpdate_trigger'' (Task [] (\<lambda>_. ret ()) exit_notify)) (\<lambda>i.
            bindP (n ''ntpdate_started'' (Some (JObj [(''id'', i)]))) (\<lambda>_. ret (JObj [(''id'', i)]))))]"

definition updater_module :: "'s handler \<Rightarrow> 's notifier \<Rightarrow> 's actions" where
  "updater_module h n =
     [(''get_settings'', \<lambda>data. bindP (field_args data [''lang''] (call h ''get_settings'')) (\<lambda>res.
         bindP (call h ''get_approval'' (Pos [])) (\<lambda>a. bindP (lift (jput res ''approval'' a)) (\<lambda>res.
         bindP (call h ''get_languages'' (Pos [])) (\<lambda>l. lift (jput res ''languages'' l)))))),
      (''update_settings'', \<lambda>data. bindP (lift (mapE (jget_opt data) [''user_lists'', ''languages'', ''approval_settings'']))
         (\<lambda>vs. bindP (lift (jget data ''enabled'')) (\<lambda>e. reply_as ''result'' (call h ''update_settings'' (Pos (vs @ [e])))))),
      (''get_package_lists'', \<lambda>data. reply_as ''package_lists'' (field_args data [''lang''] (call h ''get_package_lists''))),
      (''update_package_lists'', \<lambda>data.
         reply_as ''result'' (field_args data [''package_lists''] (call h ''update_package_lists''))),
      (''get_languages'', \<lambda>data. reply_as ''languages'' (call h ''get_languages'' (Pos []))),
      (''update_languages'', \<lambda>data. reply_as ''result'' (field_args data [''languages''] (call h ''update_languages''))),
      changing h n ''resolve_approval'' Kw,
      (''run'', \<lambda>data. reply_as ''result'' (call h ''run'' (Kw data))),
      (''get_enabled'', \<lambda>data. reply_as ''enabled'' (call h ''get_enabled'' (Pos []))),
      (''get_running'', \<lambda>data. reply_as ''running'' (call h ''get_running'' (Pos []))),
      (''query_installed_packages'', \<lambda>data. reply_as ''installed'' (call h ''query_installed_packages'' (Kw data)))]"

text \<open>The settings of the uplink are announced without addresses and passwords.\<close>

definition wan_notice :: "json \<Rightarrow> json option res" where
  "wan_notice data =
     bindE (jpath data [''wan_settings'', ''wan_type'']) (\<lambda>t4. bindE (jpath data [''wan6_settings'', ''wan6_type'']) (\<lambda>t6.
     bindE (jpath data [''mac_settings'', ''custom_mac_enabled'']) (\<lambda>mac.
       Inr (Some (JObj [(''wan_type'', t4), (''wan6_type'', t6), (''custom_mac_enabled'', mac)])))))"

definition wan_module :: "'s handler \<Rightarrow> 's notifier \<Rightarrow> 's actions" where
  "wan_module h n =
     [getting h ''get_settings'',
      (''update_settings'', \<lambda>data. bindP (call h ''update_settings'' (Pos [data]))
         (announced n ''update_settings'' (wan_notice data))),
      (''connection_test_trigger'', \<lambda>data. bindP (lift (jget data ''test_kinds'')) (\<lambda>kinds.
         reply_as ''test_id'' (call h ''connection_test_trigger''
           (Task [kinds] (n ''connection_test'' \<circ> Some) (n ''connection_test_finished'' \<circ> Some))))),
      (''connection_test_status'', \<lambda>data. field_args data [''test_id''] (call h ''connection_test_status'')),
      getting h ''get_wan_status'',
      (''get_wan_mode'', \<lambda>data. reply_as ''mode'' (call h ''get_wan_mode'' (Pos [])))]"

definition web_module :: "'s handler \<Rightarrow> 's notifier \<Rightarrow> 's actions" where
  "web_module h n =
     [getting h ''get_data'',
      (''set_language'', \<lambda>data. bindP (field_args data [''language''] (call h ''set_language''))
         (announced n ''set_language'' (Inr (Some data)))),
      (''list_languages'', \<lambda>data. reply_as ''languages'' (call h ''list_languages'' (Pos []))),
      (''update_guide'', \<lambda>data. reply_as ''result'' (call h ''update_guide'' (Kw data))),
      getting h ''get_guide'',
      (''reset_guide'', \<lambda>data. reply_as ''result'' (call h ''reset_guide'' (Kw data)))]"

definition wifi_module :: "'s handler \<Rightarrow> 's notifier \<Rightarrow> 's actions" where
  "wifi_module h n =
     [getting h ''get_settings'',
      changing h n ''update_settings'' (\<lambda>data. Pos [data]),
      (''reset'', \<lambda>data. bindP (call h ''reset'' (Pos [])) (announced n ''reset'' (Inr None))),
      (''scan_trigger'', \<lambda>data. bindP (lift (jget data ''device_names'')) (\<lambda>names.
         reply_as ''scan_id'' (call h ''scan_trigger''
           (Task [names] (n ''scan'' \<circ> Some) (n ''scan_finished'' \<circ> Some))))),
      (''scan_status'', \<lambda>data. field_args data [''scan_id''] (call h ''scan_status''))]"

definition introspect_module :: "'s handler \<Rightarrow> 's actions" where
  "introspect_module h = [(''list_modules'', \<lambda>data. reply_as ''modules'' (call h ''list_modules'' (Pos [])))]"

end
