(* ===== verification/Announcements.thy ===== *)
theory Announcements
  imports Modules
begin

text \<open>
  Which actions announce what they did. The notifications are kept in a log beside the state
  that the handlers work on; the theorem covers every action of every module.
\<close>

section \<open>The loaded modules\<close>

definition all_modules ::
  "(json \<Rightarrow> string res) \<Rightarrow> ('s, string) prog \<Rightarrow> (json \<Rightarrow> json res) \<Rightarrow> (string \<Rightarrow> 's handler) \<Rightarrow> (string \<Rightarrow> 's notifier) \<Rightarrow>
    (string \<times> 's actions) list" where
  "all_modules decode now strptime h n =
     [(''about'', about_module (h ''about'')),
      (''dns'', dns_module (h ''dns'') (n ''dns'')),
      (''guest'', guest_module (h ''guest'') (n ''guest'')),
      (''introspect'', introspect_module (h ''introspect'')),
      (''lan'', lan_module (h ''lan'') (n ''lan'')),
      (''maintain'', maintain_module (h ''maintain'')),
      (''networks'', networks_module (h ''networks'') (n ''networks'')),
      (''password'', password_module decode (h ''password'') (n ''password'')),
      (''remote'', remote_module (h ''remote'') (n ''remote'')),
      (''router_notifications'', router_notifications_module (h ''router_notifications'') (n ''router_notifications'')),
      (''system'', system_module (h ''system'')),
      (''time'', time_module now strptime (h ''time'') (n ''time'')),
      (''updater'', updater_module (h ''updater'') (n ''updater'')),
      (''wan'', wan_module (h ''wan'') (n ''wan'')),
      (''web'', web_module (h ''web'') (n ''web'')),
      (''wifi'', wifi_module (h ''wifi'') (n ''wifi''))]"

definition announcing :: "(string \<times> string) list" where
  "announcing =
     [(''dns'', ''update_settings''), (''dns'', ''add_forwarder''), (''dns'', ''set_forwarder''), (''dns'', ''del_forwarder''),
      (''guest'', ''update_settings''), (''lan'', ''update_settings''), (''lan'', ''set_dhcp_client''),
      (''lan'', ''update_dhcp_client''), (''lan'', ''delete_dhcp_client''), (''networks'', ''update_settings''),
      (''password'', ''set''), (''remote'', ''revoke''), (''remote'', ''delete_ca''), (''remote'', ''update_settings''),
      (''remote'', ''set_netboot_configured''), (''router_notifications'', ''update_settings''),
      (''router_notifications'', ''update_email_settings''), (''router_notifications'', ''update_reboot_settings''),
      (''time'', ''update_settings''), (''updater'', ''resolve_approval''), (''wan'', ''update_settings''),
      (''web'', ''set_language''), (''wifi'', ''update_settings''), (''wifi'', ''reset'')]"

type_synonym notices = "(string \<times> string \<times> json option) list"

definition log_notify :: "string \<Rightarrow> ('s \<times> notices) notifier" where
  "log_notify m a d st = (Ret (), (fst st, snd st @ [(m, a, d)]))"

section \<open>Programs and the log\<close>

definition silent :: "('s \<times> notices, 'a) prog \<Rightarrow> bool" where
  "silent p \<longleftrightarrow> (\<forall>st. snd (snd (p st)) = snd st)"

definition quiet :: "('s \<times> notices) handler \<Rightarrow> bool" where
  "quiet h \<longleftrightarrow> (\<forall>f args. f \<in> ran h \<longrightarrow> silent (f args))"

definition reports_success :: "json outcome \<Rightarrow> bool" where
  "reports_success r = (case r of Ret v \<Rightarrow> (case jget v ''result'' of Inr x \<Rightarrow> json_truthy x | Inl _ \<Rightarrow> False) | _ \<Rightarrow> False)"

definition announces :: "string \<Rightarrow> string \<Rightarrow> ('s \<times> notices, json) prog \<Rightarrow> bool" where
  "announces m a p \<longleftrightarrow> (\<forall>st. \<exists>d. snd (snd (p st)) = snd st @ (if reports_success (fst (p st)) then [(m, a, d)] else []))"

named_theorems log_intros \<open>what a program writes to the log\<close>

lemma silentD: "silent p \<Longrightarrow> p st = (r, st') \<Longrightarrow> snd st' = snd st"
  unfolding silent_def by (metis snd_conv)

lemma silent_basic [log_intros]: "silent (ret x)" "silent (raise e)" "silent (lift m)"
  by (auto simp: silent_def ret_def raise_def lift_def split: sum.split)

lemma silent_bindP [log_intros]: "silent p \<Longrightarrow> (\<And>x. silent (f x)) \<Longrightarrow> silent (bindP p f)"
  unfolding silent_def [of "bindP p f"]
proof
  fix st
  assume p: "silent p" and f: "\<And>x. silent (f x)"
  obtain r st' where run: "p st = (r, st')" by (cases "p st")
  with silentD [OF p] f show "snd (snd (bindP p f st)) = snd st"
    by (cases r) (simp_all add: bindP_def silent_def del: split_paired_All)
qed

lemma silent_if [log_intros]: "silent p \<Longrightarrow> silent q \<Longrightarrow> silent (if b then p else q)"
  by simp

lemma silent_call [log_intros]: "quiet h \<Longrightarrow> silent (call h method args)"
  by (auto simp: quiet_def call_def ran_def silent_basic split: option.split)

lemma silent_reply_as [log_intros]: "silent p \<Longrightarrow> silent (reply_as k p)"
  unfolding reply_as_def by (intro log_intros)

lemma silent_field_args [log_intros]: "(\<And>vs. silent (f (Pos vs))) \<Longrightarrow> silent (field_args data ks f)"
  unfolding field_args_def by (intro log_intros)

lemma silent_stamped [log_intros]: "silent now \<Longrightarrow> silent (stamped now v)"
  unfolding stamped_def by (intro log_intros)

lemma announces_bindP [log_intros]: "silent p \<Longrightarrow> (\<And>x. announces m a (f x)) \<Longrightarrow> announces m a (bindP p f)"
  unfolding announces_def [of m a "bindP p f"]
proof
  fix st
  assume p: "silent p" and f: "\<And>x. announces m a (f x)"
  obtain r st' where run: "p st = (r, st')" by (cases "p st")
  have same: "snd st' = snd st" by (rule silentD [OF p run])
  show "\<exists>d. snd (snd (bindP p f st)) = snd st @ (if reports_success (fst (bindP p f st)) then [(m, a, d)] else [])"
  proof (cases r)
    case (Ret x)
    then have "bindP p f st = f x st'" using run by (simp add: bindP_def)
    then show ?thesis using f [of x] same unfolding announces_def by metis
  qed (use run same in \<open>simp_all add: bindP_def reports_success_def\<close>)
qed

lemma announces_announced [log_intros]: "announces m a (announced (log_notify m) a msg res)"
  by (cases msg)
     (auto simp: announces_def announced_def bindP_def lift_def log_notify_def ret_def reports_success_def result_of_def)

lemma announces_announced_result [log_intros]: "announces m a (announced_result (log_notify m) a msg res)"
  by (cases msg; cases "jget res ''result''")
     (auto simp: announces_def announced_result_def bindP_def lift_def log_notify_def ret_def reports_success_def)

lemma announces_refusal [log_intros]: "announces m a (ret (result_of (JBool False)))"
  by (simp add: announces_def ret_def reports_success_def result_of_def)

lemma announces_raise [log_intros]: "announces m a (raise e)"
  by (simp add: announces_def raise_def reports_success_def)

lemma announces_if [log_intros]: "announces m a p \<Longrightarrow> announces m a q \<Longrightarrow> announces m a (if b then p else q)"
  by simp

lemma announces_added [log_intros]:
  "announces m a (bindP (log_notify m a (Some msg)) (\<lambda>_. ret (result_of (JBool True))))"
  by (auto simp: announces_def bindP_def log_notify_def ret_def reports_success_def result_of_def)

section \<open>Every module\<close>

text \<open>The listed actions announce themselves, the others write nothing.\<close>

definition actions_ok :: "string \<Rightarrow> ('s \<times> notices) actions \<Rightarrow> bool" where
  "actions_ok m acts \<longleftrightarrow> (\<forall>(a, f)\<in>set acts. \<forall>data. (m, a) \<noteq> (''time'', ''ntpdate_trigger'') \<longrightarrow>
     (if (m, a) \<in> set announcing then announces m a (f data) else silent (f data)))"

lemmas action_shapes = getting_def changing_def guarded_update_def client_change_def

lemma reading_modules_ok:
  "quiet h \<Longrightarrow> actions_ok ''about'' (about_module h)"
  "quiet h \<Longrightarrow> actions_ok ''introspect'' (introspect_module h)"
  "quiet h \<Longrightarrow> actions_ok ''maintain'' (maintain_module h)"
  "quiet h \<Longrightarrow> actions_ok ''system'' (system_module h)"
  unfolding about_module_def introspect_module_def maintain_module_def system_module_def actions_ok_def
  by (simp_all add: announcing_def) (intro conjI allI log_intros; assumption)+

lemma dns_module_ok: "quiet h \<Longrightarrow> actions_ok ''dns'' (dns_module h (log_notify ''dns''))"
  unfolding dns_module_def action_shapes actions_ok_def
  by (simp add: announcing_def) (intro conjI allI log_intros; assumption)

lemma network_modules_ok:
  "quiet h \<Longrightarrow> actions_ok ''guest'' (guest_module h (log_notify ''guest''))"
  "quiet h \<Longrightarrow> actions_ok ''lan'' (lan_module h (log_notify ''lan''))"
  "quiet h \<Longrightarrow> actions_ok ''networks'' (networks_module h (log_notify ''networks''))"
  "quiet h \<Longrightarrow> actions_ok ''wan'' (wan_module h (log_notify ''wan''))"
  "quiet h \<Longrightarrow> actions_ok ''wifi'' (wifi_module h (log_notify ''wifi''))"
  unfolding guest_module_def lan_module_def networks_module_def wan_module_def wifi_module_def action_shapes actions_ok_def
  by (simp_all add: announcing_def) (intro conjI allI log_intros; assumption)+

lemma user_modules_ok:
  "quiet h \<Longrightarrow> actions_ok ''password'' (password_module decode h (log_notify ''password''))"
  "quiet h \<Longrightarrow> actions_ok ''remote'' (remote_module h (log_notify ''remote''))"
  "quiet h \<Longrightarrow> actions_ok ''web'' (web_module h (log_notify ''web''))"
  "quiet h \<Longrightarrow> actions_ok ''updater'' (updater_module h (log_notify ''updater''))"
  unfolding password_module_def remote_module_def web_module_def updater_module_def action_shapes actions_ok_def
  by (simp_all add: announcing_def) (intro conjI allI log_intros; assumption)+

lemma router_notifications_module_ok:
  "quiet h \<Longrightarrow> actions_ok ''router_notifications'' (router_notifications_module h (log_notify ''router_notifications''))"
  unfolding router_notifications_module_def action_shapes actions_ok_def
  by (simp add: announcing_def) (intro conjI allI log_intros; assumption)

lemma time_module_ok:
  "quiet h \<Longrightarrow> silent now \<Longrightarrow> actions_ok ''time'' (time_module now strptime h (log_notify ''time''))"
  unfolding time_module_def actions_ok_def
  by (simp add: announcing_def) (intro conjI allI log_intros; assumption)

text \<open>The start of \<^verbatim>\<open>ntpdate\<close> is announced under a name of its own, when it was started.\<close>

lemma ntpdate_announced:
  assumes "quiet h" "(''ntpdate_trigger'', f) \<in> set (time_module now strptime h (log_notify ''time''))"
  shows "\<exists>d. snd (snd (f data st)) =
    snd st @ (if \<exists>v. fst (f data st) = Ret v then [(''time'', ''ntpdate_started'', d)] else [])"
proof -
  obtain task where f: "f = (\<lambda>data. bindP (call h ''ntpdate_trigger'' task)
      (\<lambda>i. bindP (log_notify ''time'' ''ntpdate_started'' (Some (JObj [(''id'', i)]))) (\<lambda>_. ret (JObj [(''id'', i)]))))"
    using assms(2) by (auto simp: time_module_def Let_def)
  obtain r st' where run: "call h ''ntpdate_trigger'' task st = (r, st')" by (cases "call h ''ntpdate_trigger'' task st")
  have "snd st' = snd st" by (rule silentD [OF silent_call [OF assms(1)] run])
  with run show ?thesis by (cases r) (simp_all add: f bindP_def log_notify_def ret_def)
qed

text \<open>
  C37: what is announced, over all actions of all modules. Whatever the handlers are, as long as
  they send no notifications themselves while they are called (the workers of tasks send theirs
  later): each of the 24 actions listed in \<open>announcing\<close> sends exactly one notification, under its
  own name, when its reply reports success, and none when it reports a failure or raises; the
  start of \<^verbatim>\<open>ntpdate\<close> is announced as \<^verbatim>\<open>ntpdate_started\<close> exactly when it returns; and every other
  action sends none, whether it changes something or not: the host name, the guide, the settings
  of the updater, the actions of \<^verbatim>\<open>maintain\<close> and the creation of a router notification are not
  announced.
\<close>

theorem changes_announced:
  assumes "\<forall>m. quiet (h m)" "silent now"
    and "(m, acts) \<in> set (all_modules decode now strptime h log_notify)" "(a, f) \<in> set acts"
  shows "\<exists>d. snd (snd (f data st)) = snd st @
    (if (m, a) \<in> set announcing then (if reports_success (fst (f data st)) then [(m, a, d)] else [])
     else if (m, a) = (''time'', ''ntpdate_trigger'') then
       (if \<exists>v. fst (f data st) = Ret v then [(m, ''ntpdate_started'', d)] else [])
     else [])"
proof (cases "(m, a) = (''time'', ''ntpdate_trigger'')")
  case True
  then have "acts = time_module now strptime (h ''time'') (log_notify ''time'')" "(m, a) \<notin> set announcing"
    using assms(3) by (auto simp: all_modules_def announcing_def)
  with ntpdate_announced [of "h ''time''" f now strptime data st] assms(1,4) True
  obtain d where "snd (snd (f data st)) =
      snd st @ (if \<exists>v. fst (f data st) = Ret v then [(''time'', ''ntpdate_started'', d)] else [])" by auto
  with True \<open>(m, a) \<notin> set announcing\<close> show ?thesis by (intro exI [of _ d]) simp
next
  case False
  have "actions_ok m acts"
    using assms(1-3) unfolding all_modules_def
    by (auto intro: reading_modules_ok dns_module_ok network_modules_ok user_modules_ok router_notifications_module_ok time_module_ok)
  then have ok: "if (m, a) \<in> set announcing then announces m a (f data) else silent (f data)"
    using assms(4) False by (auto simp: actions_ok_def)
  show ?thesis
    using ok False
    by (cases "(m, a) \<in> set announcing") (auto simp: announces_def silent_def dest!: spec [of _ st] simp del: split_paired_All)
qed

text \<open>A handler of \<^verbatim>\<open>dns\<close> that knows one forwarder.\<close>

definition demo_dns :: "(nat \<times> notices) handler" where
  "demo_dns = [''del_forwarder'' \<mapsto> (\<lambda>args st. case args of
     Kw d \<Rightarrow> (if d = JObj [(''name'', JStr ''cz_nic'')] then (Ret (JBool True), (fst st + 1, snd st)) else (Ret (JBool False), st))
   | _ \<Rightarrow> (Raise TypeError, st))]"

lemma changes_announced_witness:
  "case map_of (dns_module demo_dns (log_notify ''dns'')) ''del_forwarder'' of Some f \<Rightarrow>
      snd (snd (f (JObj [(''name'', JStr ''cz_nic'')]) (0, []))) =
        [(''dns'', ''del_forwarder'', Some (JObj [(''name'', JStr ''cz_nic'')]))] \<and>
      snd (snd (f (JObj [(''name'', JStr ''other'')]) (0, []))) = []
    | None \<Rightarrow> False"
proof -
  let ?h = "\<lambda>m. if m = ''dns'' then demo_dns else Map.empty" and ?now = "ret []" and ?acts = "dns_module demo_dns (log_notify ''dns'')"
  define f where "f = (\<lambda>data. bindP (call demo_dns ''del_forwarder'' (Kw data))
    (announced (log_notify ''dns'') ''del_forwarder'' (Inr (Some data))))"
  have q: "\<forall>m. quiet (?h m)"
    by (auto simp: quiet_def silent_def demo_dns_def split: args.split)
  have mem: "(''dns'', ?acts) \<in> set (all_modules (\<lambda>_. Inr []) ?now Inr ?h log_notify)"
    by (simp add: all_modules_def)
  have f: "(''del_forwarder'', f) \<in> set ?acts" "map_of ?acts ''del_forwarder'' = Some f"
    by (simp_all add: dns_module_def action_shapes f_def)
  have run: "fst (f (JObj [(''name'', JStr ''cz_nic'')]) (0, [])) = Ret (result_of (JBool True))"
    "snd (snd (f (JObj [(''name'', JStr ''cz_nic'')]) (0, []))) =
       [(''dns'', ''del_forwarder'', Some (JObj [(''name'', JStr ''cz_nic'')]))]"
    "fst (f (JObj [(''name'', JStr ''other'')]) (0, [])) = Ret (result_of (JBool False))"
    unfolding f_def by code_simp+
  have "snd (snd (f (JObj [(''name'', JStr ''other'')]) (0, []))) = []"
    using changes_announced [OF q silent_basic(1) mem f(1), of "JObj [(''name'', JStr ''other'')]" "(0, [])"] run(3)
    by (simp add: reports_success_def result_of_def announcing_def)
  with f(2) run(2) show ?thesis by simp
qed

end
