(* ===== verification/Passwords.thy ===== *)
theory Passwords
  imports UciWrites Guide
begin

text \<open>
  \<^verbatim>\<open>foris_controller_backends/password\<close>: the search of a password in the lists of known ones,
  the password of the web interface and the one of the system. \<open>crypt\<close> is \<^verbatim>\<open>pbkdf2.crypt\<close> with
  the salt, or without one when it generates a salt. The theorem says which passwords are
  accepted after one was set.
\<close>

section \<open>Known passwords\<close>

definition tab :: char where
  "tab = CHR 0x09"

text \<open>\<^verbatim>\<open>line.rsplit(b"\t", 1)\<close>, \<open>None\<close> when it has only one part.\<close>

definition split_last_tab :: "string \<Rightarrow> (string \<times> string) option" where
  "split_last_tab line =
     (if tab \<in> set line
      then Some (rev (tl (dropWhile (\<lambda>c. c \<noteq> tab) (rev line))), rev (takeWhile (\<lambda>c. c \<noteq> tab) (rev line)))
      else None)"

text \<open>
  The lines that \<^verbatim>\<open>readline\<close> returns, with their line ends: \<^verbatim>\<open>line[-1] == b"\n"\<close> compares a number
  with a byte string, so nothing is cut off, and no line is empty.
\<close>

definition read_lines :: "string \<Rightarrow> string list" where
  "read_lines content = filter (\<lambda>l. l \<noteq> []) (lines_with_ends content)"

definition pawned_count :: "string \<Rightarrow> string \<Rightarrow> int option" where
  "pawned_count password line =
     (case split_last_tab line of
        Some (stored, count) \<Rightarrow>
          if stored = password then (case int_of count of Inr n \<Rightarrow> Some n | Inl _ \<Rightarrow> None) else None
      | None \<Rightarrow> None)"

definition pawned_in :: "string \<Rightarrow> string \<Rightarrow> int option" where
  "pawned_in password content =
     (case List.map_filter (pawned_count password) (read_lines content) of [] \<Rightarrow> None | n # _ \<Rightarrow> Some n)"

definition pawned_list_name :: "string \<Rightarrow> string" where
  "pawned_list_name path =
     (let name = last (split_on CHR ''/'' path) in
      if endswith name ''_passwords'' then take (length name - 10) name else name)"

fun search_lists :: "'e env \<Rightarrow> string \<Rightarrow> string list \<Rightarrow> ('e st, (string \<times> int) option) prog" where
  "search_lists E password [] = ret None"
| "search_lists E password (path # paths) =
     bindP (\<lambda>s. lift (env_read_file E path (ext s)) s) (\<lambda>content. case pawned_in password content of
         Some n \<Rightarrow> ret (Some (pawned_list_name path, n))
       | None \<Rightarrow> search_lists E password paths)"

definition pawned_password :: "'e env \<Rightarrow> string \<Rightarrow> ('e st, (string \<times> int) option) prog" where
  "pawned_password E password =
     bindP (list_files E [''/usr/share/common_passwords/*'']) (search_lists E password)"

section \<open>Setting and checking\<close>

datatype password_result = PasswordSet | Pawned string int

definition password_writes :: "string \<Rightarrow> uwrite list" where
  "password_writes hash =
     [AddSection ''foris'' ''config'' ''auth'', SetOption ''foris'' ''auth'' ''password'' hash]"

definition set_password ::
  "'e env \<Rightarrow> (string \<Rightarrow> string option \<Rightarrow> string) \<Rightarrow> string \<Rightarrow> ('e st, password_result) prog" where
  "set_password E crypt password =
     bindP (pawned_password E password) (\<lambda>pawned. case pawned of
         Some (list_name, count) \<Rightarrow> ret (Pawned list_name count)
       | None \<Rightarrow>
           bindP (with_uci E (writes E (password_writes (crypt password None)))) (\<lambda>_.
           bindP (try_update_passed E ''password'') (\<lambda>_. ret PasswordSet)))"

text \<open>The hash is stored as an option, never as a list.\<close>

definition hash_matches :: "(string \<Rightarrow> string option \<Rightarrow> string) \<Rightarrow> string \<Rightarrow> uval \<Rightarrow> bool res" where
  "hash_matches crypt password hash =
     (case hash of Str h \<Rightarrow> Inr (h = crypt password (Some h)) | _ \<Rightarrow> Inl TypeError)"

definition read_password_check ::
  "(string \<Rightarrow> string option \<Rightarrow> string) \<Rightarrow> string \<Rightarrow> uci_data \<Rightarrow> bool res" where
  "read_password_check crypt password data =
     bindE (get_option_named data ''foris'' ''auth'' ''password'' None) (hash_matches crypt password)"

definition check_password ::
  "'e env \<Rightarrow> (string \<Rightarrow> string option \<Rightarrow> string) \<Rightarrow> string \<Rightarrow> ('e st, bool) prog" where
  "check_password E crypt password =
     bindP (with_uci E (read_uci E ''foris'')) (\<lambda>data. lift (read_password_check crypt password data))"

definition is_password_set :: "uci_data \<Rightarrow> bool res" where
  "is_password_set data =
     (case get_option_named data ''foris'' ''auth'' ''password'' None of
        Inr _ \<Rightarrow> Inr True
      | Inl (UciRecordNotFound _) \<Rightarrow> Inr False
      | Inl (UciException _) \<Rightarrow> Inr False
      | Inl e \<Rightarrow> Inl e)"

definition set_system_password :: "'e env \<Rightarrow> string \<Rightarrow> ('e st, password_result) prog" where
  "set_system_password E password =
     bindP (pawned_password E password) (\<lambda>pawned. case pawned of
         Some (list_name, count) \<Rightarrow> ret (Pawned list_name count)
       | None \<Rightarrow>
           bindP (run_command E [''/bin/passwd''] (Some (password @ [newline] @ password @ [newline]))) (\<lambda>(rc, _).
             if rc \<noteq> 0 then raise (BackendCommandFailed rc [''/bin/passwd'']) else ret PasswordSet))"

section \<open>A password that was set is accepted\<close>

lemma password_names [simp]: "valid_name ''auth''" "valid_name ''password''" "\<not> is_anonymous_name ''auth''"
  by (simp_all add: valid_name_def name_char_def is_anonymous_name_def)

definition with_password :: "string \<Rightarrow> usection list \<Rightarrow> usection list" where
  "with_password h F = set_opt ''auth'' ''password'' (Str h) (set_sec ''auth'' ''config'' F)"

lemma wf_auth_names: "wf_name ''auth''" "wf_name ''config''" "wf_name ''password''"
  by code_simp+

lemma with_password_facts:
  assumes "wf_config F" "wf_value (Str h)"
  shows "wf_config (with_password h F)" "lk (with_password h F) ''auth'' ''password'' = Some (Str h)"
    "sec \<noteq> ''auth'' \<Longrightarrow> lk (with_password h F) sec p = lk F sec p"
  unfolding with_password_def
  using assms wf_auth_names by (auto intro!: wf_intros simp: store_simps)

lemma wf_recorded:
  assumes "wf_config F" "xs = [] \<or> wf_value (Lst xs)"
  shows "wf_config (recorded steps xs ''password'' F)"
proof -
  have names: "wf_name ''wizard''" "wf_name ''config''" "wf_name ''passed''" "wf_name ''finished''" "\<not> is_anonymous_name ''wizard''"
    "wf_value (Lst [''password''])" "wf_value (Str (store_bool True))"
    by code_simp+
  then have "wf_value (Lst (xs @ [''password'']))" using assms(2) by auto
  then show ?thesis
    unfolding recorded_def Let_def using assms(1) names by (auto intro!: wf_intros)
qed

text \<open>The search only reads, so its answer comes with the same state.\<close>

lemma search_lists_reads: "snd (search_lists E password paths s) = s"
  by (induction paths)
     (auto simp: bindP_def ret_def lift_def split: sum.split option.split)

lemma pawned_password_reads: "pawned_password E password s = (r, s') \<Longrightarrow> s' = s"
  using search_lists_reads [of E password _ s]
  by (auto simp: pawned_password_def list_files_def bindP_def dest: arg_cong [of _ _ snd])

text \<open>
  Setting a password that is on no list succeeds, stores its hash and records the step of the
  guide, and afterwards exactly those passwords are accepted which hash to it; no other config
  changes.
\<close>

lemma set_password_stores:
  assumes "uci_tool E nm view" "ready view s" "sim (rel view) (detect_basic_workflow E) (ret b)"
    and "fst (pawned_password E password s) = Ret None" "crypt password None = h" "h \<noteq> []" "wf_value (Str h)"
    and "committed (view (ext s)) ''foris'' = Some F" "wf_config F"
    and "lk F ''wizard'' ''passed'' = (if xs = [] then None else Some (Lst xs))" "''password'' \<notin> set xs"
    and "lk F ''wizard'' ''workflow'' = Some (Str w)" "map_of workflows w = Some steps"
  shows "\<exists>s' F'. set_password E crypt password s = (Ret PasswordSet, s') \<and> ready view s' \<and> wf_config F' \<and>
    committed (view (ext s')) = (committed (view (ext s)))(''foris'' \<mapsto> F') \<and>
    lk F' ''wizard'' ''passed'' = Some (Lst (xs @ [''password''])) \<and>
    (\<forall>p. read_password_check crypt p [(''foris'', F')] = Inr (crypt p (Some h) = h))"
proof -
  note new = with_password_facts [OF assms(9,7)]
  have pawned: "pawned_password E password s = (Ret None, s)"
    using assms(4) pawned_password_reads by (metis prod.collapse)
  have "apply_writes (password_writes h) (committed (view (ext s))) =
      Some ((committed (view (ext s)))(''foris'' \<mapsto> with_password h F))"
    using assms(6,8) by (simp add: password_writes_def with_password_def store_simps)
  then obtain s1 where s1: "with_uci E (writes E (password_writes h)) s = (Ret (), s1)" "ready view s1"
      "committed (view (ext s1)) = (committed (view (ext s)))(''foris'' \<mapsto> with_password h F)"
    using writes_transaction [OF assms(1), of s "password_writes h"] assms(2)
    by (auto simp: ready_def password_writes_def)
  let ?F = "recorded steps xs ''password'' (with_password h F)"
  obtain s2 where s2: "update_passed E ''password'' s1 = (Ret (), s2)" "ready view s2"
      "committed (view (ext s2)) = (committed (view (ext s1)))(''foris'' \<mapsto> ?F)"
    using update_passed_outcome [OF assms(1) s1(2) assms(3) _ new(1) _ assms(11) _ assms(13)] assms(10,12) new(3) s1(3)
    by auto
  have "read_password_check crypt p [(''foris'', ?F)] = Inr (crypt p (Some h) = h)" for p
    using new(2) by (auto simp: read_password_check_def get_option_named_eq lk_recorded hash_matches_def)
  moreover have "set_password E crypt password s = (Ret PasswordSet, s2)"
    using pawned s1(1) s2(1) assms(5)
    by (simp add: set_password_def bindP_def try_update_passed_def tryP_def ret_def)
  moreover have "wf_config ?F"
    using wf_lk [OF assms(9), of "''wizard''" "''passed''" "Lst xs"] assms(10) new(1)
    by (intro wf_recorded) (auto split: if_splits)
  ultimately show ?thesis
    using s1(3) s2(2,3) lk_recorded(1) by (intro exI [of _ s2] exI [of _ ?F]) simp
qed

text \<open>A toy hash that keeps its salt; the device has no list of known passwords.\<close>

definition demo_crypt :: "string \<Rightarrow> string option \<Rightarrow> string" where
  "demo_crypt password salt = (case salt of
     None \<Rightarrow> ''s1'' @ rev password | Some s \<Rightarrow> take 2 s @ rev password)"

definition demo_fresh :: "usection list" where
  "demo_fresh = [\<lparr>sec_type = ''config'', sec_name = ''wizard'', sec_data = [(''workflow'', Str ''min'')], anonymous = False\<rparr>]"

lemma demo_password_facts:
  "ready (\<lambda>\<sigma>. \<sigma>) (demo_state [''foris'' \<mapsto> demo_fresh])"
  "sim (rel (\<lambda>\<sigma>. \<sigma>)) (detect_basic_workflow demo_device) (ret ''unset'')"
  "fst (pawned_password demo_device ''secret'' (demo_state [''foris'' \<mapsto> demo_fresh])) = Ret None"
  "demo_crypt ''secret'' None = ''s1terces''" "wf_value (Str ''s1terces'')" "wf_config demo_fresh"
  "lk demo_fresh ''wizard'' ''passed'' = (if [] = [] then None else Some (Lst []))"
  "lk demo_fresh ''wizard'' ''workflow'' = Some (Str ''min'')"
  "map_of workflows ''min'' = Some [''password'', ''profile'', ''finished'']"
  "demo_crypt ''secret'' (Some ''s1terces'') = ''s1terces''" "demo_crypt ''Secret'' (Some ''s1terces'') \<noteq> ''s1terces''"
  by (simp add: ready_def, simp add: sim_def demo_device_detects ret_def,
      simp add: pawned_password_def list_files_def bindP_def ret_def demo_device_def demo_env_def ref_env_def, code_simp+)

text \<open>Checking a password only reads.\<close>

lemma check_password_outcome:
  assumes "uci_tool E nm view" "ready view s" "committed (view (ext s)) ''foris'' = Some F" "wf_config F"
    and "read_password_check crypt p [(''foris'', F)] = Inr b"
  shows "\<exists>s'. check_password E crypt p s = (Ret b, s') \<and> ready view s' \<and>
    committed (view (ext s')) = committed (view (ext s))"
proof -
  let ?R = "ref_env nm (env_config_dir E) (env_set_order E)" and ?t = "opened (abs_st view s)"
  have stg: "staged (ext ?t) ''foris'' = Some F" using assms(3) opened_staged by metis
  have "\<exists>s'. with_uci E (read_uci E ''foris'') s = (Ret [(''foris'', F)], s') \<and> \<not> uci_held s' \<and>
      services_held s' = services_held ?t \<and> (\<forall>c\<in>set (affected s'). valid_name c) \<and>
      committed (view (ext s')) = (\<lambda>c. if c \<in> set (affected ?t) then staged (ext ?t) c else committed (ext ?t) c)"
    using assms(2)
    by (intro transaction_outcome [OF assms(1), of _ "\<lambda>R. read_uci R ''foris''"] uci_tool.sim_read_uci [OF assms(1)]
        exec_read_uci stg assms(4)) (simp_all add: ready_def store_simps valid_name_def name_char_def)
  then show ?thesis
    using assms(5) by (auto simp: check_password_def bindP_def lift_def ready_def store_simps abs_st_def)
qed

end
