(* ===== verification/App.thy ===== *)
theory App
  imports Announcements Passwords
begin

text \<open>
  How the controller is put together: \<^verbatim>\<open>foris_controller/app.py\<close>, the loaders of
  \<^verbatim>\<open>foris_controller/utils.py\<close>, \<^verbatim>\<open>handler_base.py\<close>, and what the two programs
  \<^verbatim>\<open>controller/__main__.py\<close> and \<^verbatim>\<open>notify/__main__.py\<close> do once the command line is parsed. The
  import machinery of Python is a parameter: the modules it finds, with their classes.
\<close>

section \<open>Options\<close>

record options =
  op_bus :: string
  op_debug :: bool
  op_backend :: string
  op_module :: "string list"
  op_extra_module_path :: "string list"
  op_single :: bool
  op_controller_id :: "string option"
  op_passwd_file :: "(string \<times> string) option"
  op_announcer_period :: "string option"
  op_zeroconf_devices :: "string list option option"
  op_zeroconf_port :: "int option"

datatype lock_backend = Multiprocessing | Threading

record app_info =
  ai_bus :: string
  ai_debug :: bool
  ai_backend :: string
  ai_filter_modules :: "string list option"
  ai_extra_module_paths :: "string list"
  ai_lock_backend :: lock_backend
  ai_single :: "bool option"
  ai_controller_id :: string
  ai_credentials :: "(string \<times> string) option"
  ai_announcer_period :: "string option"
  ai_zeroconf_devices :: "string list option"
  ai_zeroconf_port :: int

definition hex_char :: "nat \<Rightarrow> char" where
  "hex_char n = ''0123456789ABCDEF'' ! n"

fun hex_nat :: "nat \<Rightarrow> string" where
  "hex_nat n = (if n < 16 then [hex_char n] else hex_nat (n div 16) @ [hex_char (n mod 16)])"

declare hex_nat.simps [simp del]

text \<open>\<^verbatim>\<open>f"{n:016X}"\<close>\<close>

definition hex16 :: "nat \<Rightarrow> string" where
  "hex16 n = replicate (16 - length (hex_nat n)) CHR ''0'' @ hex_nat n"

text \<open>Options a bus does not have are \<open>None\<close>; \<open>node\<close> is \<^verbatim>\<open>uuid.getnode()\<close>.\<close>

definition set_app_info :: "nat \<Rightarrow> options \<Rightarrow> app_info" where
  "set_app_info node o' = \<lparr>
     ai_bus = op_bus o', ai_debug = op_debug o', ai_backend = op_backend o',
     ai_filter_modules = (if op_module o' \<noteq> [] then Some (op_module o') else None),
     ai_extra_module_paths = op_extra_module_path o',
     ai_lock_backend = (if op_bus o' = ''ubus'' then Multiprocessing else Threading),
     ai_single = (if op_bus o' = ''ubus'' then Some (op_single o') else None),
     ai_controller_id = (case op_controller_id o' of Some (c # cs) \<Rightarrow> c # cs | _ \<Rightarrow> hex16 node),
     ai_credentials = op_passwd_file o',
     ai_announcer_period = op_announcer_period o',
     ai_zeroconf_devices = (case op_zeroconf_devices o' of None \<Rightarrow> Some [] | Some v \<Rightarrow> v),
     ai_zeroconf_port = (case op_zeroconf_port o' of None \<Rightarrow> 11884 | Some p \<Rightarrow> p)\<rparr>"

text \<open>\<^verbatim>\<open>re.match(r"[0-9a-zA-Z]{16}", x).group().upper()\<close>: what follows the sixteen characters is dropped.\<close>

definition controller_id_arg :: "string \<Rightarrow> string res" where
  "controller_id_arg x =
     (if length (take 16 x) = 16 \<and> list_all (\<lambda>c. is_digit c \<or> to_lower c \<noteq> c \<or> to_upper c \<noteq> c) (take 16 x)
      then Inr (upper (take 16 x)) else Inl AttributeError)"

text \<open>The first line loses its last character, also when that is no line end.\<close>

definition match_credentials :: "string \<Rightarrow> (string \<times> string) res" where
  "match_credentials line =
     (let user = takeWhile (\<lambda>c. c \<noteq> CHR '':'') line; rest = dropWhile (\<lambda>c. c \<noteq> CHR '':'') line
      in if user \<noteq> [] \<and> rest \<noteq> [] then Inr (user, tl rest) else Inl AttributeError)"

definition read_passwd :: "string \<Rightarrow> (string \<times> string) res" where
  "read_passwd content =
     (case read_lines content of [] \<Rightarrow> Inl IndexError | l # _ \<Rightarrow> match_credentials (butlast l))"

definition read_passwd_file :: "'e env \<Rightarrow> string \<Rightarrow> ('e st, string \<times> string) prog" where
  "read_passwd_file E path s = lift (bindE (env_read_file E path (ext s)) read_passwd) s"

section \<open>Loading of modules\<close>

text \<open>
  A package: the classes of the module, those of each of its handler files, and its version.
  \<open>sub c d\<close> tells that \<open>c\<close> is a subclass of \<open>d\<close> or \<open>d\<close> itself.
\<close>

record 'c package =
  pk_classes :: "'c list"
  pk_handlers :: "'c list list"
  pk_version :: "string option"

definition rstrip_slashes :: "string \<Rightarrow> string" where
  "rstrip_slashes s = rev (dropWhile (\<lambda>c. c = CHR ''/'') (rev s))"

definition path_module_name :: "string \<Rightarrow> string" where
  "path_module_name path = last (split_on CHR ''/'' (rstrip_slashes path))"

text \<open>The modules given by a path are not filtered.\<close>

definition get_modules ::
  "(string \<times> 'm) list \<Rightarrow> (string \<Rightarrow> 'm res) \<Rightarrow> string list option \<Rightarrow> string list \<Rightarrow> (string \<times> 'm) list res" where
  "get_modules installed load filter_modules paths =
     (let chosen = (case filter_modules of
        Some (f # fs) \<Rightarrow> filter (\<lambda>(name, m). name \<in> set (f # fs)) installed | _ \<Rightarrow> installed)
      in bindE (mapE (\<lambda>p. bindE (load (rstrip_slashes p)) (\<lambda>m. Inr (path_module_name p, m))) paths)
           (\<lambda>extra. Inr (chosen @ extra)))"

text \<open>
  The directories of the schemas, one per module, and of their common definitions; \<open>path\<close> is the
  directory of a module, \<open>here\<close> that of the package.
\<close>

definition get_validator_dirs ::
  "string \<Rightarrow> ('m \<Rightarrow> string) \<Rightarrow> (string \<times> 'm) list \<Rightarrow> (string \<Rightarrow> 'm res) \<Rightarrow> string list option \<Rightarrow> string list \<Rightarrow>
    (string list \<times> string list) res" where
  "get_validator_dirs here path installed load filter_modules paths =
     bindE (get_modules installed load filter_modules paths) (\<lambda>ms.
       Inr (map (\<lambda>(name, m). path m @ ''/schema'') ms, [here @ ''/schemas/definitions'']))"

definition get_handler :: "('c \<Rightarrow> 'c \<Rightarrow> bool) \<Rightarrow> 'c \<Rightarrow> 'c package \<Rightarrow> 'c option" where
  "get_handler sub base_handler m = find (\<lambda>c. c \<noteq> base_handler \<and> sub c base_handler) (concat (pk_handlers m))"

definition get_module_class :: "('c \<Rightarrow> 'c \<Rightarrow> bool) \<Rightarrow> 'c \<Rightarrow> 'c package \<Rightarrow> 'c option" where
  "get_module_class sub base_module m = find (\<lambda>c. c \<noteq> base_module \<and> sub c base_module) (pk_classes m)"

text \<open>
  \<^verbatim>\<open>module_class.version = version\<close> stands before the test for \<^verbatim>\<open>None\<close>: a module without a class
  is not skipped but raises.
\<close>

fun prepare_app_modules ::
  "('c \<Rightarrow> 'c \<Rightarrow> bool) \<Rightarrow> 'c \<Rightarrow> 'c \<Rightarrow> string \<Rightarrow> (string \<times> 'c package) list \<Rightarrow>
    (string \<times> 'c \<times> 'c \<times> string) list \<Rightarrow> (string \<times> 'c \<times> 'c \<times> string) list res" where
  "prepare_app_modules sub base_handler base_module version [] loaded = Inr loaded"
| "prepare_app_modules sub base_handler base_module version ((name, m) # ms) loaded =
     (case get_handler sub base_handler m of
        None \<Rightarrow> prepare_app_modules sub base_handler base_module version ms loaded
      | Some h \<Rightarrow> (case get_module_class sub base_module m of
            None \<Rightarrow> Inl AttributeError
          | Some c \<Rightarrow> prepare_app_modules sub base_handler base_module version ms
              (AList.update name (c, h, case pk_version m of Some v \<Rightarrow> v | None \<Rightarrow> version) loaded)))"

text \<open>
  \<^verbatim>\<open>wrap_required_functions\<close>: the first required function that the body of a handler class lacks;
  inherited ones do not count.
\<close>

definition missing_function :: "string list \<Rightarrow> string list \<Rightarrow> string \<Rightarrow> string list \<Rightarrow> string option" where
  "missing_function base_classes required name dct =
     (if name \<notin> set base_classes then find (\<lambda>f. f \<notin> set dct) required else None)"

section \<open>Notifications\<close>

definition gen_notify :: "(json \<Rightarrow> ('s, unit) prog) \<Rightarrow> (json \<Rightarrow> bool) \<Rightarrow> string \<Rightarrow> 's notifier" where
  "gen_notify send validate module action data = base_notify send (Some validate) module action data"

text \<open>\<^verbatim>\<open>foris-notify\<close>: an empty notification is sent without data.\<close>

definition notify_main ::
  "(json \<Rightarrow> ('s, unit) prog) \<Rightarrow> (json \<Rightarrow> bool) option \<Rightarrow> string \<Rightarrow> string \<Rightarrow> json list \<Rightarrow> ('s, unit) prog" where
  "notify_main send validator module action notifications =
     forP notifications (\<lambda>n. base_notify send validator module action (if json_truthy n then Some n else None))"

section \<open>The main loop\<close>

definition finallyP :: "('s, 'a) prog \<Rightarrow> ('s, unit) prog \<Rightarrow> ('s, 'a) prog" where
  "finallyP p q s = (case p s of
      (Ret x, s') \<Rightarrow> bindP q (\<lambda>_. ret x) s'
    | (Raise e, s') \<Rightarrow> bindP q (\<lambda>_. raise e) s'
    | (Block, s') \<Rightarrow> (Block, s'))"

text \<open>
  The decorators \<^verbatim>\<open>readlock\<close> and \<^verbatim>\<open>writelock\<close> of \<^verbatim>\<open>utils.py\<close> hold a lock around a method; the lock is
  given as acquiring and releasing it for reading or writing.
\<close>

record 's lock_ops =
  lo_acquire_read :: "('s, unit) prog"
  lo_release_read :: "('s, unit) prog"
  lo_acquire_write :: "('s, unit) prog"
  lo_release_write :: "('s, unit) prog"

definition readlock :: "'s lock_ops \<Rightarrow> ('x \<Rightarrow> ('s, 'a) prog) \<Rightarrow> 'x \<Rightarrow> ('s, 'a) prog" where
  "readlock L func args = bindP (lo_acquire_read L) (\<lambda>_. finallyP (func args) (lo_release_read L))"

definition writelock :: "'s lock_ops \<Rightarrow> ('x \<Rightarrow> ('s, 'a) prog) \<Rightarrow> 'x \<Rightarrow> ('s, 'a) prog" where
  "writelock L func args = bindP (lo_acquire_write L) (\<lambda>_. finallyP (func args) (lo_release_write L))"

text \<open>A method that raises gives the lock back like one that returns.\<close>

lemma finallyP_releases:
  assumes "p s = (r, s1)" "r \<noteq> Block" "q s1 = (Ret (), s2)"
  shows "finallyP p q s = (r, s2)"
  using assms by (cases r) (simp_all add: finallyP_def bindP_def ret_def raise_def)

lemma writelock_releases:
  assumes "lo_acquire_write L s = (Ret (), s1)" "func args s1 = (r, s2)" "r \<noteq> Block" "lo_release_write L s2 = (Ret (), s3)"
  shows "writelock L func args s = (r, s3)"
  using assms finallyP_releases [of "func args" s1 r s2 "lo_release_write L" s3] by (simp add: writelock_def bindP_def)

text \<open>\<^verbatim>\<open>zeroconf and options.zeroconf_enabled\<close>: only \<^verbatim>\<open>mqtt\<close> has the option.\<close>

definition zeroconf_wanted :: "bool \<Rightarrow> bool option \<Rightarrow> bool res" where
  "zeroconf_wanted zeroconf enabled =
     andE (Inr zeroconf) (case enabled of None \<Rightarrow> Inl AttributeError | Some b \<Rightarrow> Inr b)"

definition main_loop ::
  "bool \<Rightarrow> bool option \<Rightarrow> ('s, unit) prog \<Rightarrow> ('s, unit) prog \<Rightarrow> ('s, unit) prog \<Rightarrow> ('s, unit) prog" where
  "main_loop zeroconf enabled start serve_forever close =
     bindP (lift (zeroconf_wanted zeroconf enabled)) (\<lambda>wanted.
     bindP (if wanted then tryP (bindP start (\<lambda>_. ret zeroconf)) (\<lambda>_. True) (\<lambda>_. ret False) else ret zeroconf) (\<lambda>zc.
       finallyP serve_forever (bindP (lift (zeroconf_wanted zc enabled)) (\<lambda>w. if w then close else ret ()))))"

text \<open>With the library installed every bus but \<^verbatim>\<open>mqtt\<close> ends before it serves anything.\<close>

lemma main_loop_without_option: "main_loop True None start serve_forever close s = (Raise AttributeError, s)"
  by (simp add: main_loop_def zeroconf_wanted_def bindP_def lift_def)

text \<open>A service that did not start is not closed either.\<close>

lemma main_loop_start_fails:
  assumes "start s = (Raise e, s1)" "serve_forever s1 = (r, s2)"
  shows "main_loop True (Some True) start serve_forever close s = (r, s2)"
  using assms
  by (cases r) (simp_all add: main_loop_def zeroconf_wanted_def bindP_def lift_def tryP_def finallyP_def ret_def raise_def)

end
