(* ===== verification/BusService.thy ===== *)
theory BusService
  imports UbusBus App
begin

text \<open>
  How the buses are served: the objects that \<^verbatim>\<open>foris_controller/buses/ubus.py\<close> registers and its
  worker processes, the listeners on unix sockets (\<^verbatim>\<open>buses/unix_socket.py\<close>, \<^verbatim>\<open>client_socket.py\<close>)
  and the connections of the senders of notifications. The library \<^verbatim>\<open>ubus\<close>, sockets and processes
  are parameters. The lemmas say that one worker serves the objects of all modules or each its own,
  that a worker leaves only by an exception and disconnected, and what a failed reset leaves behind.
\<close>

section \<open>Objects on ubus\<close>

datatype blob_type = Blob_string | Blob_bool | Blob_table

definition method_signature :: "(string \<times> blob_type) list" where
  "method_signature = [(''request_id'', Blob_string), (''final'', Blob_bool), (''multipart'', Blob_bool), (''payload'', Blob_table)]"

text \<open>An object: its name and its methods with their handlers, which are those of the module and the method.\<close>

type_synonym 's ubus_method = "ubus_request \<Rightarrow> (request_storage \<times> 's, string list) prog"
type_synonym 's ubus_object = "string \<times> (string \<times> 's ubus_method \<times> (string \<times> blob_type) list) list"

text \<open>
  \<open>methods\<close> is what \<^verbatim>\<open>get_method_names_from_module\<close> gives. A module without methods is said to be
  skipped in the log; an object is registered all the same, and without a class the names are no list.
\<close>

definition ubus_object ::
  "(string \<Rightarrow> json option) \<Rightarrow> (json \<Rightarrow> string) \<Rightarrow> (json \<Rightarrow> ('s, json) prog) \<Rightarrow> string \<Rightarrow> string list option \<Rightarrow> 's ubus_object res" where
  "ubus_object loads dumps process module methods = (case methods of
     None \<Rightarrow> Inl TypeError
   | Some ms \<Rightarrow> Inr (''foris-controller-'' @ module,
       map (\<lambda>m. (m, ubus_handler loads dumps process module m, method_signature)) ms))"

lemma ubus_object_without_methods: "ubus_object loads dumps process module (Some []) = Inr (''foris-controller-'' @ module, [])"
  by (simp add: ubus_object_def)

section \<open>Workers\<close>

text \<open>The library: whether there is a connection, connecting, adding an object, the loop of 500 ms.\<close>

record ('u, 's) ubus_lib =
  ul_connected :: "'u \<Rightarrow> bool"
  ul_connect :: "string \<Rightarrow> ('u, unit) prog"
  ul_add :: "'s ubus_object \<Rightarrow> ('u, unit) prog"
  ul_loop :: "('u, unit) prog"
  ul_send :: "string \<times> json \<Rightarrow> ('u, unit) prog"
  ul_disconnect :: "bool \<Rightarrow> ('u, unit) prog"

text \<open>\<^verbatim>\<open>while True: ubus.loop(500)\<close> ends only by an exception.\<close>

partial_function (option) loop_forever :: "('u, unit) prog \<Rightarrow> 'u \<Rightarrow> (unit outcome \<times> 'u) option" where
  "loop_forever step u = (case step u of
      (Ret _, u') \<Rightarrow> loop_forever step u'
    | (Raise e, u') \<Rightarrow> Some (Raise e, u')
    | (Block, u') \<Rightarrow> Some (Block, u'))"

definition ubus_ready :: "('u, 's) ubus_lib \<Rightarrow> string \<Rightarrow> ('u, unit) prog" where
  "ubus_ready L path u = (if ul_connected L u then ret () u else ul_connect L path u)"

definition register_objects :: "('u, 's) ubus_lib \<Rightarrow> 's ubus_object res list \<Rightarrow> ('u, unit) prog" where
  "register_objects L os = forP os (\<lambda>r. bindP (lift r) (ul_add L))"

text \<open>
  A worker with the objects it registers. \<open>None\<close> is a loop that never ends; the connection is closed
  when it does, but not when registering fails.
\<close>

definition ubus_worker :: "('u, 's) ubus_lib \<Rightarrow> string \<Rightarrow> 's ubus_object res list \<Rightarrow> 'u \<Rightarrow> (unit outcome \<times> 'u) option" where
  "ubus_worker L path os u = (case bindP (ubus_ready L path) (\<lambda>_. register_objects L os) u of
      (Ret _, u') \<Rightarrow> map_option (\<lambda>r. finallyP (\<lambda>_. r) (ul_disconnect L True) u') (loop_forever (ul_loop L) u')
    | (Raise e, u') \<Rightarrow> Some (Raise e, u')
    | (Block, u') \<Rightarrow> Some (Block, u'))"

text \<open>A worker process: its name and the modules it serves.\<close>

definition ubus_workers :: "bool \<Rightarrow> (string \<times> 'm) list \<Rightarrow> (string \<times> (string \<times> 'm) list) list" where
  "ubus_workers single modules = (if single then [(''all-in-one'', modules)] else map (\<lambda>(name, m). (name, [(name, m)])) modules)"

definition ubus_serve :: "(string \<times> (string \<times> 'm) list \<Rightarrow> ('u, unit) prog) \<Rightarrow> (string \<times> (string \<times> 'm) list \<Rightarrow> ('u, unit) prog) \<Rightarrow>
    (string \<times> (string \<times> 'm) list) list \<Rightarrow> ('u, unit) prog" where
  "ubus_serve start wait workers = bindP (forP workers start) (\<lambda>_. forP workers wait)"

text \<open>One process or many, the same modules are served, each by one worker.\<close>

lemma ubus_workers_modules: "concat (map snd (ubus_workers single modules)) = modules"
  by (induction modules) (auto simp: ubus_workers_def)

lemma ubus_workers_distinct: "distinct (map fst modules) \<Longrightarrow> distinct (map fst (ubus_workers single modules))"
  by (cases single) (simp_all add: ubus_workers_def comp_def split_def)

lemma loop_forever_raises: "loop_forever step u = Some (r, u') \<Longrightarrow> r \<noteq> Ret ()"
proof -
  have "fst out \<noteq> Ret ()" if "loop_forever step u = Some out" for step :: "('u, unit) prog" and u out
    by (rule loop_forever.raw_induct [where P = "\<lambda>_ _ out. fst out \<noteq> Ret ()", OF _ that]) (auto split: prod.splits outcome.splits)
  then show "loop_forever step u = Some (r, u') \<Longrightarrow> r \<noteq> Ret ()" by fastforce
qed

text \<open>The loop of a worker that has failed is followed by the closing of the connection.\<close>

lemma ubus_worker_disconnects:
  assumes "bindP (ubus_ready L path) (\<lambda>_. register_objects L os) u = (Ret (), u1)"
    and "loop_forever (ul_loop L) u1 = Some (Raise e, u2)" "ul_disconnect L True u2 = (Ret (), u3)"
  shows "ubus_worker L path os u = Some (Raise e, u3)"
  using assms by (simp add: ubus_worker_def finallyP_def bindP_def raise_def)

section \<open>Senders of notifications\<close>

text \<open>The sender on ubus connects when it has to, also after a reset, which keeps the registered objects.\<close>

definition ubus_send_message :: "('u, 's) ubus_lib \<Rightarrow> string \<Rightarrow> string \<Rightarrow> string \<Rightarrow> json option \<Rightarrow> ('u, unit) prog" where
  "ubus_send_message L path module action data =
     bindP (ubus_ready L path) (\<lambda>_. ul_send L (ubus_notification module action data))"

definition ubus_sender_disconnect :: "('u, 's) ubus_lib \<Rightarrow> ('u, unit) prog" where
  "ubus_sender_disconnect L u = (if ul_connected L u then ul_disconnect L True u else ret () u)"

definition ubus_sender_reset :: "('u, 's) ubus_lib \<Rightarrow> ('u, unit) prog" where
  "ubus_sender_reset L = ul_disconnect L False"

text \<open>
  The sender on a unix socket: the socket is connected, made but not connected, or closed. The
  operations of sockets are parameters that act on the outside world.
\<close>

datatype socket_state = Connected | Unconnected | Closed

record 'e socket_ops =
  so_connect :: "string \<Rightarrow> ('e, unit) prog"
  so_sendall :: "nat list \<Rightarrow> ('e, unit) prog"

text \<open>A socket that is not connected cannot send: \<^verbatim>\<open>ENOTCONN\<close>, and \<^verbatim>\<open>EBADF\<close> once it is closed.\<close>

definition sock_connect :: "'e socket_ops \<Rightarrow> string \<Rightarrow> (socket_state \<times> 'e, unit) prog" where
  "sock_connect S path = (\<lambda>(_, e). case so_connect S path e of (Ret _, e') \<Rightarrow> (Ret (), (Connected, e')) | (r, e') \<Rightarrow> (r, (Unconnected, e')))"

definition sock_sendall :: "'e socket_ops \<Rightarrow> nat list \<Rightarrow> (socket_state \<times> 'e, unit) prog" where
  "sock_sendall S bytes = (\<lambda>(c, e). case c of
      Connected \<Rightarrow> (case so_sendall S bytes e of (r, e') \<Rightarrow> (r, (c, e')))
    | Unconnected \<Rightarrow> (Raise (OSError 107 ''Transport endpoint is not connected''), (c, e))
    | Closed \<Rightarrow> (Raise (OSError 9 ''Bad file descriptor''), (c, e)))"

definition unix_sender_init :: "'e socket_ops \<Rightarrow> string \<Rightarrow> (socket_state \<times> 'e, unit) prog" where
  "unix_sender_init S path = sock_connect S path"

definition unix_sender_disconnect :: "(socket_state \<times> 'e, unit) prog" where
  "unix_sender_disconnect = (\<lambda>(_, e). (Ret (), (Closed, e)))"

definition unix_sender_reset :: "'e socket_ops \<Rightarrow> string \<Rightarrow> (socket_state \<times> 'e, unit) prog" where
  "unix_sender_reset S path = bindP unix_sender_disconnect (\<lambda>_. sock_connect S path)"

text \<open>After a reset that could not connect every notification raises: nothing connects the socket again.\<close>

lemma failed_reset_mutes:
  assumes "so_connect S path e = (Raise x, e')"
  shows "unix_sender_reset S path (c, e) = (Raise x, (Unconnected, e'))"
    and "sock_sendall S bytes (Unconnected, e') = (Raise (OSError 107 ''Transport endpoint is not connected''), (Unconnected, e'))"
  using assms by (simp_all add: unix_sender_reset_def unix_sender_disconnect_def sock_connect_def sock_sendall_def bindP_def)

section \<open>Listeners on unix sockets\<close>

text \<open>The file of an earlier run is removed, whether there is one or not.\<close>

definition is_oserror :: "exn \<Rightarrow> bool" where
  "is_oserror e = (case e of OSError _ _ \<Rightarrow> True | _ \<Rightarrow> False)"

definition unix_listener :: "(string \<Rightarrow> ('e, unit) prog) \<Rightarrow> (string \<Rightarrow> ('e, unit) prog) \<Rightarrow> string \<Rightarrow> ('e, unit) prog" where
  "unix_listener unlink bind path = bindP (tryP (unlink path) is_oserror (\<lambda>_. ret ())) (\<lambda>_. bind path)"

lemma unix_listener_after_crash:
  assumes "unlink path e = (Raise (OSError n m), e1)"
  shows "unix_listener unlink bind path e = bind path e1"
  using assms by (simp add: unix_listener_def tryP_def bindP_def ret_def is_oserror_def)

text \<open>
  The process of the client socket: the mask of permissions, the senders, the socket with the mask
  in force, and serving.
\<close>

definition client_socket_listener :: "(string \<Rightarrow> ('e, unit) prog) \<Rightarrow> (string \<Rightarrow> ('e, unit) prog) \<Rightarrow> string \<Rightarrow> ('e, unit) prog" where
  "client_socket_listener unlink bind path = bindP (tryP (unlink path) is_oserror (\<lambda>_. ret ())) (\<lambda>_. bind path)"

definition client_worker ::
  "(nat \<Rightarrow> ('e, unit) prog) \<Rightarrow> ('e, unit) prog \<Rightarrow> ('e, unit) prog \<Rightarrow> (string \<Rightarrow> ('e, unit) prog) \<Rightarrow> (string \<Rightarrow> ('e, unit) prog) \<Rightarrow>
    ('e, unit) prog \<Rightarrow> string \<Rightarrow> ('e, unit) prog" where
  "client_worker umask make_sender make_notification_sender unlink bind serve_forever path =
     bindP (umask 63) (\<lambda>_. bindP make_sender (\<lambda>_. bindP make_notification_sender (\<lambda>_.
     bindP (client_socket_listener unlink bind path) (\<lambda>_. serve_forever))))"

end
