(* ===== verification/Mqtt.thy ===== *)
theory Mqtt
  imports Messages
begin

text \<open>
  The MQTT bus of \<^verbatim>\<open>foris_controller/buses/mqtt.py\<close>: the topics, what becomes of a message
  that arrives (\<^verbatim>\<open>on_message\<close>), the working replies and their publication, the subscriptions,
  the announcements (\<^verbatim>\<open>EntryPointAnnouncer\<close>, \<^verbatim>\<open>AdvertizementBase\<close>,
  \<^verbatim>\<open>announcer_worker\<close>) and the notifications. The client library is a parameter.
\<close>

section \<open>Topics\<close>

datatype topic =
    ListModules
  | JsonSchemas
  | WorkingReplies
  | ListActions string
  | Request string string
  | UnknownTopic

text \<open>A final \<^verbatim>\<open>$\<close> also matches before a last newline.\<close>

definition ends_as :: "string \<Rightarrow> string \<Rightarrow> bool" where
  "ends_as s w \<longleftrightarrow> s = w \<or> s = w @ [newline]"

definition parse_topic :: "string \<Rightarrow> topic" where
  "parse_topic topic = (case split_on CHR ''/'' topic of
      [root, node, last1] \<Rightarrow>
        if root = ''foris-controller'' \<and> node \<noteq> [] then
          (if ends_as last1 ''list'' then ListModules
           else if ends_as last1 ''jsonschemas'' then JsonSchemas
           else if ends_as last1 ''working_replies'' then WorkingReplies
           else UnknownTopic)
        else UnknownTopic
    | [root, node, req, module, last1] \<Rightarrow>
        if root = ''foris-controller'' \<and> node \<noteq> [] \<and> req = ''request'' \<and> module \<noteq> [] \<and> ends_as last1 ''list''
        then ListActions module else UnknownTopic
    | [root, node, req, module, act, action] \<Rightarrow>
        if root = ''foris-controller'' \<and> node \<noteq> [] \<and> req = ''request'' \<and> module \<noteq> [] \<and> act = ''action'' \<and> action \<noteq> []
        then Request module action else UnknownTopic
    | _ \<Rightarrow> UnknownTopic)"

text \<open>The topics the controller subscribes to, with a module and an action for the wildcards.\<close>

definition subscribed_topics :: "string \<Rightarrow> string \<Rightarrow> string \<Rightarrow> string list" where
  "subscribed_topics controller_id module action =
     map (\<lambda>t. ''foris-controller/'' @ controller_id @ t)
       [''/list'', ''/working_replies'', ''/jsonschemas'', ''/request/'' @ module @ ''/list'',
        ''/request/'' @ module @ ''/action/'' @ action]"

definition reply_topic :: "string \<Rightarrow> string \<Rightarrow> string" where
  "reply_topic controller_id reply_id = ''foris-controller/'' @ controller_id @ ''/reply/'' @ reply_id"

definition notification_topic :: "string \<Rightarrow> string \<Rightarrow> string \<Rightarrow> string" where
  "notification_topic controller_id module action =
     ''foris-controller/'' @ controller_id @ ''/notification/'' @ module @ ''/action/'' @ action"

lemma split_join_slash:
  "xs \<noteq> [] \<Longrightarrow> \<forall>x\<in>set xs. CHR ''/'' \<notin> set x \<Longrightarrow> split_on CHR ''/'' (join ''/'' xs) = xs"
  by (rule split_on_join)

text \<open>
  C28: every subscribed topic is understood. A request is taken apart into exactly the module and
  the action it was built of, and each of the other topics into its own query, for names and
  controller identifiers without slashes.
\<close>

theorem subscribed_topics_understood:
  assumes "\<forall>x\<in>{controller_id, module, action}. x \<noteq> [] \<and> CHR ''/'' \<notin> set x"
  shows "map parse_topic (subscribed_topics controller_id module action) =
    [ListModules, WorkingReplies, JsonSchemas, ListActions module, Request module action]"
proof -
  have parts: "split_on CHR ''/'' (''foris-controller/'' @ controller_id @ ''/list'') = [''foris-controller'', controller_id, ''list'']"
    "split_on CHR ''/'' (''foris-controller/'' @ controller_id @ ''/working_replies'') = [''foris-controller'', controller_id, ''working_replies'']"
    "split_on CHR ''/'' (''foris-controller/'' @ controller_id @ ''/jsonschemas'') = [''foris-controller'', controller_id, ''jsonschemas'']"
    "split_on CHR ''/'' (''foris-controller/'' @ controller_id @ ''/request/'' @ module @ ''/list'') =
      [''foris-controller'', controller_id, ''request'', module, ''list'']"
    "split_on CHR ''/'' (''foris-controller/'' @ controller_id @ ''/request/'' @ module @ ''/action/'' @ action) =
      [''foris-controller'', controller_id, ''request'', module, ''action'', action]"
    using split_join_slash [of "[''foris-controller'', controller_id, ''list'']"]
      split_join_slash [of "[''foris-controller'', controller_id, ''working_replies'']"]
      split_join_slash [of "[''foris-controller'', controller_id, ''jsonschemas'']"]
      split_join_slash [of "[''foris-controller'', controller_id, ''request'', module, ''list'']"]
      split_join_slash [of "[''foris-controller'', controller_id, ''request'', module, ''action'', action]"] assms
    by auto
  show ?thesis
    using assms unfolding subscribed_topics_def list.map parse_topic_def parts by (simp add: ends_as_def)
qed

lemma subscribed_topics_understood_witness:
  "map parse_topic (subscribed_topics ''0000AB'' ''wan'' ''get_settings'') =
    [ListModules, WorkingReplies, JsonSchemas, ListActions ''wan'', Request ''wan'' ''get_settings'']"
  by (rule subscribed_topics_understood) simp

section \<open>Messages that arrive\<close>

text \<open>What to do: nothing, answer at once, or start a worker for a message.\<close>

datatype dispatch = Ignore | Answer string json | StartWorker string json json | DontKnow

record bus_answers =
  ba_modules :: json
  ba_schemas :: json
  ba_actions :: "string \<Rightarrow> json"
  ba_working :: "string list"

definition topic_answer :: "bus_answers \<Rightarrow> topic \<Rightarrow> json option" where
  "topic_answer ans t = (case t of
      ListModules \<Rightarrow> Some (ba_modules ans)
    | JsonSchemas \<Rightarrow> Some (ba_schemas ans)
    | ListActions m \<Rightarrow> Some (ba_actions ans m)
    | WorkingReplies \<Rightarrow> Some (JArr (map JStr (ba_working ans)))
    | _ \<Rightarrow> None)"

definition on_message :: "texts \<Rightarrow> (string \<Rightarrow> json option) \<Rightarrow> string \<Rightarrow> bus_answers \<Rightarrow> string \<Rightarrow> string \<Rightarrow> dispatch res" where
  "on_message tx loads controller_id ans topic payload = (case loads payload of
      None \<Rightarrow> Inr Ignore
    | Some parsed \<Rightarrow>
        bindE (py_contains parsed ''reply_msg_id'') (\<lambda>present.
        if \<not> present then Inr Ignore
        else bindE (jget parsed ''reply_msg_id'') (\<lambda>reply_id.
          let to = reply_topic controller_id (shown tx reply_id) in
          case parse_topic topic of
            Request module action \<Rightarrow>
              bindE (py_contains parsed ''data'') (\<lambda>has_data.
              bindE (if has_data then bindE (jget parsed ''data'') (\<lambda>d. Inr [(''data'', d)]) else Inr []) (\<lambda>data.
                Inr (StartWorker to reply_id
                  (JObj ([(''module'', JStr module), (''kind'', JStr ''request''), (''action'', JStr action)] @ data)))))
          | t \<Rightarrow> Inr (case topic_answer ans t of Some j \<Rightarrow> Answer to j | None \<Rightarrow> DontKnow))))"

section \<open>Working replies\<close>

text \<open>
  The dictionary of the replies in work: whether the thread is alive, and when it started.
  \<open>finish_reply\<close>: \<^verbatim>\<open>del\<close> and the cleanup at the end of a worker, \<open>alive\<close> and \<open>now\<close> at that time.
\<close>

type_synonym working_replies = "(string \<times> (nat \<times> int)) list"

definition mark_reply :: "string \<Rightarrow> nat \<Rightarrow> int \<Rightarrow> working_replies \<Rightarrow> working_replies" where
  "mark_reply i thread now w = AList.update i (thread, now) w"

definition clear_retain_period :: int where
  "clear_retain_period = 10"

definition finish_reply :: "string \<Rightarrow> (nat \<Rightarrow> bool) \<Rightarrow> int \<Rightarrow> working_replies \<Rightarrow> working_replies" where
  "finish_reply i alive now w =
     filter (\<lambda>(k, (thread, started)). \<not> (\<not> alive thread \<and> now - started > clear_retain_period)) (AList.delete i w)"

text \<open>
  Finishing a reply never drops another whose worker is alive or still within the period for
  which its answer is retained.
\<close>

lemma finish_reply_keeps_others:
  assumes "distinct (map fst w)"
  shows "map_of (finish_reply i alive now w) j =
    (if j = i then None else case map_of w j of
        Some (thread, started) \<Rightarrow> if alive thread \<or> now - started \<le> 10 then Some (thread, started) else None
      | None \<Rightarrow> None)"
proof -
  have filt: "map_of (filter (\<lambda>(k, v). P v) xs) j = (case map_of xs j of Some v \<Rightarrow> if P v then Some v else None | None \<Rightarrow> None)"
    if "distinct (map fst xs)" for P and xs :: working_replies
    using that by (induction xs) (auto split: option.split simp: map_of_eq_None_iff image_iff)
  have "distinct (map fst (AList.delete i w))" by (rule distinct_delete [OF assms])
  then show ?thesis
    unfolding finish_reply_def
    using filt [of "AList.delete i w" "\<lambda>(thread, started). \<not> (\<not> alive thread \<and> now - started > clear_retain_period)"]
    by (auto simp: delete_conv' clear_retain_period_def case_prod_unfold split: option.splits)
qed

text \<open>
  Publishing a reply, once more after a refused connection. The second \<^verbatim>\<open>except\<close> waits for an
  aborted connection, and would raise again what it catches.
\<close>

fun is_refused :: "exn \<Rightarrow> bool" where
  "is_refused (OSError n _) = (n = 111)"
| "is_refused _ = False"

definition publish_reply :: "('s, unit) prog \<Rightarrow> ('s, unit) prog" where
  "publish_reply single = tryP single is_refused (\<lambda>_. single)"

section \<open>Subscriptions\<close>

record subscriptions =
  su_passed :: "(int \<times> bool) list"
  su_announcers :: nat
  su_running :: bool

definition check_subscription :: "int \<Rightarrow> subscriptions \<Rightarrow> subscriptions" where
  "check_subscription mid s = s\<lparr>su_passed := AList.update mid False (su_passed s)\<rparr>"

definition on_subscribe :: "int \<Rightarrow> subscriptions \<Rightarrow> subscriptions" where
  "on_subscribe mid s =
     (let passed = AList.update mid True (su_passed s); s1 = s\<lparr>su_passed := passed\<rparr>
      in if list_all snd passed \<and> \<not> su_running s
         then s1\<lparr>su_announcers := su_announcers s + 1, su_running := True\<rparr> else s1)"

inductive subscription_step :: "subscriptions \<Rightarrow> subscriptions \<Rightarrow> bool" where
  Subscribe: "subscription_step s (check_subscription mid s)"
| Subscribed: "subscription_step s (on_subscribe mid s)"

inductive subscriptions_reachable :: "subscriptions \<Rightarrow> bool" where
  Init: "subscriptions_reachable \<lparr>su_passed = [], su_announcers = 0, su_running = False\<rparr>"
| Step: "subscriptions_reachable s \<Longrightarrow> subscription_step s t \<Longrightarrow> subscriptions_reachable t"

lemma subscriptions_distinct: "subscriptions_reachable s \<Longrightarrow> distinct (map fst (su_passed s))"
proof (induction rule: subscriptions_reachable.induct)
  case (Step s t)
  from Step(2) show ?case
    by (cases rule: subscription_step.cases)
      (use Step(3) in \<open>auto simp: check_subscription_def on_subscribe_def Let_def distinct_update\<close>)
qed simp

lemma all_passed_update:
  "distinct (map fst passed) \<Longrightarrow>
    list_all snd (AList.update mid True passed) \<longleftrightarrow> (\<forall>(m, granted)\<in>set passed. granted \<or> m = mid)"
proof (induction passed)
  case (Cons x passed)
  have "\<forall>(m, granted)\<in>set passed. m \<noteq> fst x" using Cons.prems by (auto simp: image_iff)
  then show ?case using Cons by (cases "fst x = mid") (fastforce simp: list_all_iff split_beta)+
qed simp

text \<open>
  C30: the announcer is started at most once, whatever order the acknowledgements come in and
  however often the client reconnects; and an acknowledgement starts it exactly when it is the
  last one that was missing.
\<close>

theorem announcer_started_once:
  assumes "subscriptions_reachable s"
  shows "su_announcers s = (if su_running s then 1 else 0) \<and>
    (su_running (on_subscribe mid s) \<longleftrightarrow> su_running s \<or> (\<forall>(m, granted)\<in>set (su_passed s). granted \<or> m = mid))"
proof -
  have "su_announcers s = (if su_running s then 1 else 0)"
    using assms
  proof (induction rule: subscriptions_reachable.induct)
    case (Step s t)
    from Step(2) show ?case
      by (cases rule: subscription_step.cases) (use Step(3) in \<open>auto simp: check_subscription_def on_subscribe_def Let_def\<close>)
  qed simp
  then show ?thesis
    unfolding on_subscribe_def Let_def all_passed_update [OF subscriptions_distinct [OF assms]] by auto
qed

lemma announcer_started_once_witness:
  "su_running (on_subscribe 1 (on_subscribe 2 (check_subscription 2 (check_subscription 1
     \<lparr>su_passed = [], su_announcers = 0, su_running = False\<rparr>))))"
proof -
  let ?s = "on_subscribe 2 (check_subscription 2 (check_subscription 1 \<lparr>su_passed = [], su_announcers = 0, su_running = False\<rparr>))"
  have "subscriptions_reachable ?s"
    by (intro subscriptions_reachable.Step [OF _ subscription_step.Subscribed]
        subscriptions_reachable.Step [OF _ subscription_step.Subscribe] subscriptions_reachable.Init)
  from announcer_started_once [OF this, of 1] show ?thesis by (simp add: on_subscribe_def check_subscription_def)
qed

section \<open>Announcements\<close>

record announcer =
  an_period :: int
  an_last_called :: int

text \<open>The result of the callback when it is called.\<close>

definition get_data :: "json option \<Rightarrow> int \<Rightarrow> announcer \<Rightarrow> json option \<times> announcer" where
  "get_data callback counter a =
     (if an_period a + an_last_called a \<le> counter then (callback, a\<lparr>an_last_called := counter\<rparr>) else (None, a))"

definition netboot_final :: "string list" where
  "netboot_final = [''no'', ''ready'']"

record advertizement =
  ad_state :: string
  ad_id :: string
  ad_hostname :: string
  ad_modules :: json
  ad_netboot :: string

text \<open>\<open>status\<close>: what the handler of the remote module answers, or its exception.\<close>

definition get_netboot :: "string res \<Rightarrow> advertizement \<Rightarrow> advertizement" where
  "get_netboot status ad =
     (if ad_netboot ad \<in> set netboot_final then ad
      else (case status of Inr n \<Rightarrow> ad\<lparr>ad_netboot := n\<rparr> | Inl _ \<Rightarrow> ad))"

definition refresh :: "string \<Rightarrow> string \<Rightarrow> json \<Rightarrow> string res \<Rightarrow> advertizement \<Rightarrow> advertizement" where
  "refresh controller_id hostname modules status ad =
     get_netboot status (ad\<lparr>ad_id := controller_id, ad_hostname := hostname, ad_modules := modules, ad_netboot := ''unknown''\<rparr>)"

text \<open>\<^verbatim>\<open>build\<close> and the message of \<^verbatim>\<open>_publish_advertize\<close>.\<close>

definition advertize_message :: "advertizement \<Rightarrow> working_replies \<Rightarrow> json" where
  "advertize_message ad w = JObj [(''module'', JStr ''remote''), (''action'', JStr ''advertize''),
     (''kind'', JStr ''notification''), (''data'', JObj
       [(''state'', JStr (ad_state ad)), (''id'', JStr (ad_id ad)), (''hostname'', JStr (ad_hostname ad)),
        (''netboot'', JStr (ad_netboot ad)), (''modules'', ad_modules ad),
        (''working_replies'', JArr (map (JStr \<circ> fst) w))])]"

definition publish_advertize ::
  "(json \<Rightarrow> bool) \<Rightarrow> bool \<Rightarrow> string \<Rightarrow> string \<Rightarrow> json \<Rightarrow> string res \<Rightarrow> working_replies \<Rightarrow> advertizement \<Rightarrow>
    json option \<times> advertizement" where
  "publish_advertize validate no_cache controller_id hostname modules status w ad =
     (let ad1 = (if no_cache then refresh controller_id hostname modules status ad else ad);
          ad2 = get_netboot status ad1; msg = advertize_message ad2 w
      in (if validate msg then Some msg else None, ad2))"

text \<open>\<^verbatim>\<open>_publish\<close>: the message, if it fits the schemas.\<close>

definition publish_msg :: "(json \<Rightarrow> bool) \<Rightarrow> json \<Rightarrow> json list res" where
  "publish_msg validate msg =
     bindE (jget msg ''module'') (\<lambda>_. bindE (jget msg ''action'') (\<lambda>_.
       Inr (if validate msg then [msg] else [])))"

definition publish_given :: "(json \<Rightarrow> bool) \<Rightarrow> json option \<Rightarrow> json list res" where
  "publish_given validate res =
     (case res of Some msg \<Rightarrow> if json_truthy msg then publish_msg validate msg else Inr [] | None \<Rightarrow> Inr [])"

text \<open>One round of \<^verbatim>\<open>announcer_worker\<close>: what it publishes; without a period the addition
  to the counter raises, and what was published before an exception is not told.\<close>

definition announcer_round ::
  "(json \<Rightarrow> bool) \<Rightarrow> int option \<Rightarrow> json option \<Rightarrow> (announcer \<times> json option) list \<Rightarrow> int \<Rightarrow>
    (json list \<times> announcer list \<times> int) res" where
  "announcer_round validate period adv announcers counter = (case period of
      None \<Rightarrow> Inl TypeError
    | Some p \<Rightarrow>
        if p = 0 then Inr ([], map fst announcers, counter)
        else (let called = map (\<lambda>(a, callback). get_data callback counter a) announcers in
          bindE (mapE (publish_given validate \<circ> fst) called) (\<lambda>msgs.
            Inr ((case adv of None \<Rightarrow> [] | Some m \<Rightarrow> [m]) @ concat msgs, map snd called, counter + p))))"

section \<open>Notifications\<close>

text \<open>\<open>publish\<close> returns its code, zero on success; at most three more tries.\<close>

fun publish_retry :: "nat \<Rightarrow> ('s, int) prog \<Rightarrow> int \<Rightarrow> ('s, int) prog" where
  "publish_retry 0 publish rc = ret rc"
| "publish_retry (Suc n) publish rc = (if rc = 0 then ret rc else bindP publish (publish_retry n publish))"

definition mqtt_send :: "('s, int) prog \<Rightarrow> ('s, int) prog" where
  "mqtt_send publish = bindP publish (publish_retry 3 publish)"

text \<open>A publisher that gives the codes of a list in turn, and then succeeds.\<close>

definition scripted :: "(int list, int) prog" where
  "scripted rcs = (case rcs of [] \<Rightarrow> (Ret 0, []) | rc # rest \<Rightarrow> (Ret rc, rest))"

text \<open>
  A notification is published until the first success, and at most four times.
\<close>

lemma mqtt_send_bounded:
  assumes "4 \<le> length rcs"
  shows "mqtt_send scripted rcs = (case dropWhile (\<lambda>rc. rc \<noteq> 0) (take 4 rcs) of
      [] \<Rightarrow> (Ret (rcs ! 3), drop 4 rcs)
    | rc # _ \<Rightarrow> (Ret 0, tl (dropWhile (\<lambda>rc. rc \<noteq> 0) rcs)))"
proof -
  obtain a b c d rest where "rcs = a # b # c # d # rest"
    using assms by (auto simp: numeral_eq_Suc Suc_le_length_iff)
  then show ?thesis
    by (simp add: mqtt_send_def scripted_def bindP_def ret_def numeral_eq_Suc)
qed

lemma mqtt_send_bounded_witness: "mqtt_send scripted [1, 4, 0, 7] = (Ret 0, [7])"
  using mqtt_send_bounded [of "[1, 4, 0, 7]"] by simp

end
