(* ===== verification/MqttService.thy ===== *)
theory MqttService
  imports Mqtt App
begin

text \<open>
  The MQTT bus at work, \<^verbatim>\<open>foris_controller/buses/mqtt.py\<close>: the threads that
  \<^verbatim>\<open>MqttListener.start_message_worker\<close> starts, interleaved over one broker and one table of
  working replies; the answers to queries; the connection of the listener and of
  \<^verbatim>\<open>MqttNotificationSender\<close>; the announcer from its start to its end. The locale
  \<open>mqtt_broker\<close> is the interface to the broker: what publishing with the retain flag promises.
\<close>

section \<open>The broker\<close>

text \<open>
  \<open>single topic payload\<close> is \<^verbatim>\<open>paho.mqtt.publish.single(..., retain=True)\<close>. As documented, the
  broker keeps the last message of a topic, and an empty one makes it forget. Nothing is assumed
  of a publication that raises, save that other topics keep their messages.
\<close>

locale mqtt_broker =
  fixes retained :: "'b \<Rightarrow> string \<Rightarrow> string option"
    and single :: "string \<Rightarrow> string \<Rightarrow> ('b, unit) prog"
  assumes published: "single topic payload b = (Ret (), b') \<Longrightarrow>
      retained b' = (retained b)(topic := if payload = [] then None else Some payload)"
    and others_kept: "single topic payload b = (r, b') \<Longrightarrow> other \<noteq> topic \<Longrightarrow> retained b' other = retained b other"

section \<open>Workers\<close>

text \<open>Where a worker is in \<^verbatim>\<open>work\<close>; a worker that an exception ended is \<open>Crashed\<close>.\<close>

datatype phase =
    Marking
  | Processing
  | Publishing string
  | Resending string
  | Waiting string int
  | Unmarking
  | Finished
  | Crashed

record bus_worker =
  bw_id :: string
  bw_topic :: string
  bw_msg :: json
  bw_phase :: phase

record 'b bus =
  bu_broker :: 'b
  bu_working :: working_replies
  bu_workers :: "nat \<Rightarrow> bus_worker option"
  bu_now :: int

definition is_alive :: "'b bus \<Rightarrow> nat \<Rightarrow> bool" where
  "is_alive b t = (case bu_workers b t of None \<Rightarrow> False | Some w \<Rightarrow> bw_phase w \<noteq> Finished \<and> bw_phase w \<noteq> Crashed)"

definition set_phase :: "nat \<Rightarrow> bus_worker \<Rightarrow> phase \<Rightarrow> 'b bus \<Rightarrow> 'b bus" where
  "set_phase t w ph b = b\<lparr>bu_workers := (bu_workers b)(t := Some (w\<lparr>bw_phase := ph\<rparr>))\<rparr>"

text \<open>
  The next statement of a worker. It cannot go on while its message is processed, while it
  sleeps, and after its end. A refused connection is tried once more; any other exception, and
  one of the second try, ends the thread.
\<close>

definition advance ::
  "(string \<Rightarrow> string \<Rightarrow> ('b, unit) prog) \<Rightarrow> nat \<Rightarrow> bus_worker \<Rightarrow> 'b bus \<Rightarrow> 'b bus option" where
  "advance single t w b = (case bw_phase w of
      Marking \<Rightarrow> Some (set_phase t w Processing (b\<lparr>bu_working := mark_reply (bw_id w) t (bu_now b) (bu_working b)\<rparr>))
    | Publishing p \<Rightarrow> (case single (bw_topic w) p (bu_broker b) of
          (Ret _, br) \<Rightarrow> Some (set_phase t w (Waiting p (bu_now b)) (b\<lparr>bu_broker := br\<rparr>))
        | (Raise e, br) \<Rightarrow> Some (set_phase t w (if is_refused e then Resending p else Crashed) (b\<lparr>bu_broker := br\<rparr>))
        | (Block, br) \<Rightarrow> None)
    | Resending p \<Rightarrow> (case single (bw_topic w) p (bu_broker b) of
          (Ret _, br) \<Rightarrow> Some (set_phase t w (Waiting p (bu_now b)) (b\<lparr>bu_broker := br\<rparr>))
        | (Raise e, br) \<Rightarrow> Some (set_phase t w Crashed (b\<lparr>bu_broker := br\<rparr>))
        | (Block, br) \<Rightarrow> None)
    | Waiting p since \<Rightarrow>
        if bu_now b - since < clear_retain_period then None
        else (case single (bw_topic w) [] (bu_broker b) of
          (Ret _, br) \<Rightarrow> Some (set_phase t w Unmarking (b\<lparr>bu_broker := br\<rparr>))
        | (Raise e, br) \<Rightarrow> Some (set_phase t w Crashed (b\<lparr>bu_broker := br\<rparr>))
        | (Block, br) \<Rightarrow> None)
    | Unmarking \<Rightarrow> Some (set_phase t w Finished
        (b\<lparr>bu_working := finish_reply (bw_id w) (is_alive b) (bu_now b) (bu_working b)\<rparr>))
    | _ \<Rightarrow> None)"

text \<open>
  Requests come in with any identifier the client chose. \<open>answer msg r\<close> tells that the router may answer
  a message by \<open>r\<close>, \<open>None\<close> for an exception: the threads share the state of the controller, so
  what it is when a message is processed is left open.
\<close>

inductive bus_step ::
  "(string \<Rightarrow> string \<Rightarrow> ('b, unit) prog) \<Rightarrow> string \<Rightarrow> (json \<Rightarrow> string) \<Rightarrow> (json \<Rightarrow> json option \<Rightarrow> bool) \<Rightarrow>
    'b bus \<Rightarrow> 'b bus \<Rightarrow> bool"
  for single controller_id dumps answer where
  Request: "bu_workers b t = None \<Longrightarrow>
    bus_step single controller_id dumps answer b (b\<lparr>bu_workers := (bu_workers b)(t := Some
      \<lparr>bw_id = i, bw_topic = reply_topic controller_id i, bw_msg = msg, bw_phase = Marking\<rparr>)\<rparr>)"
| Respond: "bu_workers b t = Some w \<Longrightarrow> bw_phase w = Processing \<Longrightarrow> answer (bw_msg w) (Some r) \<Longrightarrow>
    bus_step single controller_id dumps answer b (set_phase t w (Publishing (dumps r)) b)"
| Fail: "bu_workers b t = Some w \<Longrightarrow> bw_phase w = Processing \<Longrightarrow> answer (bw_msg w) None \<Longrightarrow>
    bus_step single controller_id dumps answer b (set_phase t w Crashed b)"
| Work: "bu_workers b t = Some w \<Longrightarrow> advance single t w b = Some b' \<Longrightarrow>
    bus_step single controller_id dumps answer b b'"
| Tick: "0 \<le> d \<Longrightarrow> bus_step single controller_id dumps answer b (b\<lparr>bu_now := bu_now b + d\<rparr>)"

inductive bus_reachable ::
  "(string \<Rightarrow> string \<Rightarrow> ('b, unit) prog) \<Rightarrow> string \<Rightarrow> (json \<Rightarrow> string) \<Rightarrow> (json \<Rightarrow> json option \<Rightarrow> bool) \<Rightarrow>
    'b bus \<Rightarrow> bool"
  for single controller_id dumps answer where
  Init: "bus_reachable single controller_id dumps answer
    \<lparr>bu_broker = br, bu_working = [], bu_workers = (\<lambda>_. None), bu_now = now\<rparr>"
| Step: "bus_reachable single controller_id dumps answer b \<Longrightarrow> bus_step single controller_id dumps answer b b' \<Longrightarrow>
    bus_reachable single controller_id dumps answer b'"

section \<open>The invariant\<close>

text \<open>A worker is listed from its mark to its end.\<close>

fun marked :: "phase \<Rightarrow> bool" where
  "marked Marking = False"
| "marked Finished = False"
| "marked Crashed = False"
| "marked _ = True"

text \<open>What the broker keeps for a worker in some phase, where that is known.\<close>

fun topic_ok :: "(json \<Rightarrow> string) \<Rightarrow> (json \<Rightarrow> json option \<Rightarrow> bool) \<Rightarrow> json \<Rightarrow> int \<Rightarrow> phase \<Rightarrow> string option \<Rightarrow> bool" where
  "topic_ok dumps answer msg now (Publishing p) r = (\<exists>j. answer msg (Some j) \<and> p = dumps j)"
| "topic_ok dumps answer msg now (Resending p) r = (\<exists>j. answer msg (Some j) \<and> p = dumps j)"
| "topic_ok dumps answer msg now (Waiting p since) r =
     (r = Some p \<and> since \<le> now \<and> (\<exists>j. answer msg (Some j) \<and> p = dumps j))"
| "topic_ok dumps answer msg now Unmarking r = (r = None)"
| "topic_ok dumps answer msg now Finished r = (r = None)"
| "topic_ok dumps answer msg now _ r = True"

text \<open>The identifier of a worker is its own when no other worker was given it.\<close>

definition alone :: "'b bus \<Rightarrow> string \<Rightarrow> bool" where
  "alone b i \<longleftrightarrow> (\<forall>t u w v. bu_workers b t = Some w \<longrightarrow> bu_workers b u = Some v \<longrightarrow> bw_id w = i \<longrightarrow> bw_id v = i \<longrightarrow> t = u)"

definition bus_ok ::
  "('b \<Rightarrow> string \<Rightarrow> string option) \<Rightarrow> string \<Rightarrow> (json \<Rightarrow> string) \<Rightarrow> (json \<Rightarrow> json option \<Rightarrow> bool) \<Rightarrow> 'b bus \<Rightarrow> bool" where
  "bus_ok retained controller_id dumps answer b \<longleftrightarrow>
     distinct (map fst (bu_working b)) \<and>
     (\<forall>t w. bu_workers b t = Some w \<longrightarrow> bw_topic w = reply_topic controller_id (bw_id w)) \<and>
     (\<forall>t w. bu_workers b t = Some w \<longrightarrow> alone b (bw_id w) \<longrightarrow>
        topic_ok dumps answer (bw_msg w) (bu_now b) (bw_phase w) (retained (bu_broker b) (bw_topic w)) \<and>
        (marked (bw_phase w) \<longrightarrow> (\<exists>s. map_of (bu_working b) (bw_id w) = Some (t, s)))) \<and>
     (\<forall>i t s. map_of (bu_working b) i = Some (t, s) \<longrightarrow>
        (\<exists>w. bu_workers b t = Some w \<and> bw_id w = i \<and> bw_phase w \<noteq> Marking \<and> bw_phase w \<noteq> Finished))"

lemma reply_topic_inj: "reply_topic c i = reply_topic c j \<longleftrightarrow> i = j"
  by (simp add: reply_topic_def)

lemma topic_ok_later: "topic_ok dumps answer msg now ph r \<Longrightarrow> now \<le> now' \<Longrightarrow> topic_ok dumps answer msg now' ph r"
  by (cases ph) auto

lemma aloneD: "alone b (bw_id w) \<Longrightarrow> bu_workers b t = Some w \<Longrightarrow> bu_workers b u = Some v \<Longrightarrow> bw_id v = bw_id w \<Longrightarrow> u = t"
  unfolding alone_def by blast

lemma alone_ids:
  "alone b i \<longleftrightarrow> (\<forall>t u. map_option bw_id (bu_workers b t) = Some i \<longrightarrow> map_option bw_id (bu_workers b u) = Some i \<longrightarrow> t = u)"
  unfolding alone_def map_option_eq_Some by blast

lemma alone_set_phase:
  assumes "bu_workers b t = Some w"
  shows "alone (set_phase t w ph (b\<lparr>bu_broker := br, bu_working := W\<rparr>)) i = alone b i"
proof -
  have "map_option bw_id (bu_workers (set_phase t w ph (b\<lparr>bu_broker := br, bu_working := W\<rparr>)) u) =
      map_option bw_id (bu_workers b u)" for u
    using assms by (simp add: set_phase_def)
  then show ?thesis by (simp only: alone_ids)
qed

lemma bus_okD:
  assumes "bus_ok retained c dumps answer b"
  shows "distinct (map fst (bu_working b))"
    and "bu_workers b t = Some w \<Longrightarrow> bw_topic w = reply_topic c (bw_id w)"
    and "bu_workers b t = Some w \<Longrightarrow> alone b (bw_id w) \<Longrightarrow>
      topic_ok dumps answer (bw_msg w) (bu_now b) (bw_phase w) (retained (bu_broker b) (bw_topic w))"
    and "bu_workers b t = Some w \<Longrightarrow> alone b (bw_id w) \<Longrightarrow> marked (bw_phase w) \<Longrightarrow>
      \<exists>s. map_of (bu_working b) (bw_id w) = Some (t, s)"
    and "map_of (bu_working b) i = Some (t, s) \<Longrightarrow>
      \<exists>w. bu_workers b t = Some w \<and> bw_id w = i \<and> bw_phase w \<noteq> Marking \<and> bw_phase w \<noteq> Finished"
  using assms unfolding bus_ok_def by blast+

lemma bus_okI:
  assumes "distinct (map fst (bu_working b))"
    and "\<And>t w. bu_workers b t = Some w \<Longrightarrow> bw_topic w = reply_topic c (bw_id w)"
    and "\<And>t w. bu_workers b t = Some w \<Longrightarrow> alone b (bw_id w) \<Longrightarrow>
      topic_ok dumps answer (bw_msg w) (bu_now b) (bw_phase w) (retained (bu_broker b) (bw_topic w)) \<and>
      (marked (bw_phase w) \<longrightarrow> (\<exists>s. map_of (bu_working b) (bw_id w) = Some (t, s)))"
    and "\<And>i t s. map_of (bu_working b) i = Some (t, s) \<Longrightarrow>
      \<exists>w. bu_workers b t = Some w \<and> bw_id w = i \<and> bw_phase w \<noteq> Marking \<and> bw_phase w \<noteq> Finished"
  shows "bus_ok retained c dumps answer b"
  unfolding bus_ok_def using assms by blast

text \<open>
  One worker goes on: the table may change for its own identifier, or lose entries of workers
  that have ended, and the broker for its own topic.
\<close>

lemma bus_ok_set_phase:
  assumes ok: "bus_ok retained c dumps answer b" and t: "bu_workers b t = Some w"
    and W: "distinct (map fst W)"
    and broker: "\<And>other. other \<noteq> bw_topic w \<Longrightarrow> retained br other = retained (bu_broker b) other"
    and topic: "alone b (bw_id w) \<Longrightarrow> topic_ok dumps answer (bw_msg w) (bu_now b) ph (retained br (bw_topic w))"
    and listed: "alone b (bw_id w) \<Longrightarrow> marked ph \<Longrightarrow> \<exists>s. map_of W (bw_id w) = Some (t, s)"
    and owner: "\<And>i u s. map_of W i = Some (u, s) \<Longrightarrow>
      i = bw_id w \<and> u = t \<and> ph \<noteq> Marking \<and> ph \<noteq> Finished \<or>
      map_of (bu_working b) i = Some (u, s) \<and> (i = bw_id w \<longrightarrow> u \<noteq> t)"
    and kept: "\<And>i u s v. i \<noteq> bw_id w \<Longrightarrow> map_of (bu_working b) i = Some (u, s) \<Longrightarrow> bu_workers b u = Some v \<Longrightarrow>
      marked (bw_phase v) \<Longrightarrow> map_of W i = Some (u, s)"
  shows "bus_ok retained c dumps answer (set_phase t w ph (b\<lparr>bu_broker := br, bu_working := W\<rparr>))"
proof (rule bus_okI)
  let ?b = "set_phase t w ph (b\<lparr>bu_broker := br, bu_working := W\<rparr>)"
  have sel: "bu_workers ?b u = (if u = t then Some (w\<lparr>bw_phase := ph\<rparr>) else bu_workers b u)" "bu_working ?b = W"
    "bu_broker ?b = br" "bu_now ?b = bu_now b" "alone ?b i = alone b i" for u i
    by (simp_all add: alone_set_phase [OF t]) (simp_all add: set_phase_def)
  show "distinct (map fst (bu_working ?b))" unfolding sel by (rule W)
  show "bw_topic v = reply_topic c (bw_id v)" if "bu_workers ?b u = Some v" for u v
    using that bus_okD(2) [OF ok t] bus_okD(2) [OF ok] unfolding sel by (auto split: if_splits)
  show "topic_ok dumps answer (bw_msg v) (bu_now ?b) (bw_phase v) (retained (bu_broker ?b) (bw_topic v)) \<and>
      (marked (bw_phase v) \<longrightarrow> (\<exists>s. map_of (bu_working ?b) (bw_id v) = Some (u, s)))"
    if v: "bu_workers ?b u = Some v" "alone ?b (bw_id v)" for u v
  proof (cases "u = t")
    case True
    then have "v = w\<lparr>bw_phase := ph\<rparr>" using v unfolding sel by simp
    then show ?thesis using topic listed v(2) True unfolding sel by simp
  next
    case False
    then have u: "bu_workers b u = Some v" "alone b (bw_id v)" using v unfolding sel by simp_all
    have "bw_id v \<noteq> bw_id w" using aloneD [OF u(2,1) t] False by auto
    moreover from this have "bw_topic v \<noteq> bw_topic w"
      using bus_okD(2) [OF ok u(1)] bus_okD(2) [OF ok t] reply_topic_inj by auto
    ultimately show ?thesis
      using bus_okD(3,4) [OF ok u] broker kept u(1) unfolding sel by metis
  qed
  show "\<exists>v. bu_workers ?b u = Some v \<and> bw_id v = i \<and> bw_phase v \<noteq> Marking \<and> bw_phase v \<noteq> Finished"
    if listed_in: "map_of (bu_working ?b) i = Some (u, s)" for i u s
  proof (cases "u = t")
    case True
    then show ?thesis
      using owner [OF listed_in [unfolded sel]] bus_okD(5) [OF ok, of i u s] t unfolding sel by auto
  next
    case False
    then show ?thesis
      using owner [OF listed_in [unfolded sel]] bus_okD(5) [OF ok, of i u s] unfolding sel by auto
  qed
qed

text \<open>A message has been processed, or a new one comes in.\<close>

lemma bus_ok_answered:
  assumes ok: "bus_ok retained c dumps answer b" and t: "bu_workers b t = Some w" and "bw_phase w = Processing"
    and "ph = Crashed \<or> (\<exists>j. answer (bw_msg w) (Some j) \<and> ph = Publishing (dumps j))"
  shows "bus_ok retained c dumps answer (set_phase t w ph b)"
proof -
  have "bus_ok retained c dumps answer (set_phase t w ph (b\<lparr>bu_broker := bu_broker b, bu_working := bu_working b\<rparr>))"
  proof (rule bus_ok_set_phase [OF ok t bus_okD(1) [OF ok]])
    show "topic_ok dumps answer (bw_msg w) (bu_now b) ph (retained (bu_broker b) (bw_topic w))"
      using assms(4) by auto
    show "\<exists>s. map_of (bu_working b) (bw_id w) = Some (t, s)" if "alone b (bw_id w)"
      using bus_okD(4) [OF ok t that] assms(3) by simp
  qed (use assms(4) in auto)
  then show ?thesis by simp
qed

lemma bus_ok_request:
  assumes ok: "bus_ok retained c dumps answer b" and free: "bu_workers b t = None"
  shows "bus_ok retained c dumps answer (b\<lparr>bu_workers := (bu_workers b)(t := Some
    \<lparr>bw_id = i, bw_topic = reply_topic c i, bw_msg = msg, bw_phase = Marking\<rparr>)\<rparr>)"
proof (rule bus_okI)
  let ?w = "\<lparr>bw_id = i, bw_topic = reply_topic c i, bw_msg = msg, bw_phase = Marking\<rparr>"
  let ?b = "b\<lparr>bu_workers := (bu_workers b)(t \<mapsto> ?w)\<rparr>"
  have new: "bu_workers ?b u = (if u = t then Some ?w else bu_workers b u)" for u by simp
  have same: "bu_working ?b = bu_working b" "bu_broker ?b = bu_broker b" "bu_now ?b = bu_now b" by simp_all
  have before: "alone b j" if "alone ?b j" for j
    using that free unfolding alone_def new by (metis option.distinct(1))
  show "distinct (map fst (bu_working ?b))" unfolding same by (rule bus_okD(1) [OF ok])
  show "bw_topic v = reply_topic c (bw_id v)" if "bu_workers ?b u = Some v" for u v
    using that bus_okD(2) [OF ok] unfolding new by (auto split: if_splits)
  show "topic_ok dumps answer (bw_msg v) (bu_now ?b) (bw_phase v) (retained (bu_broker ?b) (bw_topic v)) \<and>
      (marked (bw_phase v) \<longrightarrow> (\<exists>s. map_of (bu_working ?b) (bw_id v) = Some (u, s)))"
    if "bu_workers ?b u = Some v" "alone ?b (bw_id v)" for u v
    using that(1) bus_okD(3,4) [OF ok _ before [OF that(2)]] unfolding new same by (auto split: if_splits)
  show "\<exists>v. bu_workers ?b u = Some v \<and> bw_id v = j \<and> bw_phase v \<noteq> Marking \<and> bw_phase v \<noteq> Finished"
    if "map_of (bu_working ?b) j = Some (u, s)" for j u s
    using bus_okD(5) [OF ok that [unfolded same]] free unfolding new by auto
qed

lemma bus_ok_later:
  assumes ok: "bus_ok retained c dumps answer b" and "0 \<le> d"
  shows "bus_ok retained c dumps answer (b\<lparr>bu_now := bu_now b + d\<rparr>)"
proof (rule bus_okI)
  let ?b = "b\<lparr>bu_now := bu_now b + d\<rparr>"
  have same: "bu_working ?b = bu_working b" "bu_broker ?b = bu_broker b" "bu_workers ?b = bu_workers b" "bu_now ?b = bu_now b + d"
    "alone ?b i = alone b i" for i
    by (simp_all add: alone_def)
  show "distinct (map fst (bu_working ?b))" unfolding same by (rule bus_okD(1) [OF ok])
  show "bw_topic v = reply_topic c (bw_id v)" if "bu_workers ?b u = Some v" for u v
    using that unfolding same by (rule bus_okD(2) [OF ok])
  show "topic_ok dumps answer (bw_msg v) (bu_now ?b) (bw_phase v) (retained (bu_broker ?b) (bw_topic v)) \<and>
      (marked (bw_phase v) \<longrightarrow> (\<exists>s. map_of (bu_working ?b) (bw_id v) = Some (u, s)))"
    if "bu_workers ?b u = Some v" "alone ?b (bw_id v)" for u v
    using that bus_okD(4) [OF ok, of u v] topic_ok_later [OF bus_okD(3) [OF ok, of u v]] assms(2) unfolding same by simp
  show "\<exists>v. bu_workers ?b u = Some v \<and> bw_id v = j \<and> bw_phase v \<noteq> Marking \<and> bw_phase v \<noteq> Finished"
    if "map_of (bu_working ?b) j = Some (u, s)" for j u s
    using that unfolding same by (rule bus_okD(5) [OF ok])
qed

context mqtt_broker begin

lemma bus_ok_advance:
  assumes "bus_ok retained c dumps answer b" "bu_workers b t = Some w"
    and "\<forall>j. dumps j \<noteq> []" "advance single t w b = Some b'"
  shows "bus_ok retained c dumps answer b'"
proof -
  note ok = assms(1) and t = assms(2)
  have tok: "alone b (bw_id w) \<Longrightarrow>
      topic_ok dumps answer (bw_msg w) (bu_now b) (bw_phase w) (retained (bu_broker b) (bw_topic w))"
    by (rule bus_okD(3) [OF ok t])
  text \<open>Steps that leave the table as it is.\<close>
  have broker_step: "bus_ok retained c dumps answer (set_phase t w ph (b\<lparr>bu_broker := br\<rparr>))"
    if "\<And>other. other \<noteq> bw_topic w \<Longrightarrow> retained br other = retained (bu_broker b) other"
      "alone b (bw_id w) \<Longrightarrow> topic_ok dumps answer (bw_msg w) (bu_now b) ph (retained br (bw_topic w))"
      "marked (bw_phase w)" "ph \<noteq> Marking" "ph \<noteq> Finished" for br ph
  proof -
    have "bus_ok retained c dumps answer (set_phase t w ph (b\<lparr>bu_broker := br, bu_working := bu_working b\<rparr>))"
      by (rule bus_ok_set_phase [OF ok t bus_okD(1) [OF ok]]) (use that bus_okD(4) [OF ok t] in auto)
    then show ?thesis by simp
  qed
  show ?thesis
  proof (cases "bw_phase w")
    case Marking
    then have "b' = set_phase t w Processing (b\<lparr>bu_broker := bu_broker b, bu_working := mark_reply (bw_id w) t (bu_now b) (bu_working b)\<rparr>)"
      using assms(4) by (simp add: advance_def)
    then show ?thesis
      using bus_okD(1) [OF ok] by (simp only:, intro bus_ok_set_phase [OF ok t])
        (auto simp: mark_reply_def update_conv' distinct_update split: if_splits)
  next
    case (Publishing p)
    obtain r br where single: "single (bw_topic w) p (bu_broker b) = (r, br)" by (cases "single (bw_topic w) p (bu_broker b)")
    have "alone b (bw_id w) \<Longrightarrow> p \<noteq> []" using tok assms(3) Publishing by auto
    then show ?thesis
      using assms(4) Publishing single tok others_kept [OF single]
        published [of "bw_topic w" p "bu_broker b" br]
      by (cases r) (auto simp: advance_def split: if_splits intro!: broker_step)
  next
    case (Resending p)
    obtain r br where single: "single (bw_topic w) p (bu_broker b) = (r, br)" by (cases "single (bw_topic w) p (bu_broker b)")
    have "alone b (bw_id w) \<Longrightarrow> p \<noteq> []" using tok assms(3) Resending by auto
    then show ?thesis
      using assms(4) Resending single tok others_kept [OF single]
        published [of "bw_topic w" p "bu_broker b" br]
      by (cases r) (auto simp: advance_def split: if_splits intro!: broker_step)
  next
    case (Waiting p since)
    obtain r br where single: "single (bw_topic w) [] (bu_broker b) = (r, br)" by (cases "single (bw_topic w) [] (bu_broker b)")
    then show ?thesis
      using assms(4) Waiting others_kept [OF single]
        published [of "bw_topic w" "[]" "bu_broker b" br]
      by (cases r) (auto simp: advance_def split: if_splits intro!: broker_step)
  next
    case Unmarking
    let ?W = "finish_reply (bw_id w) (is_alive b) (bu_now b) (bu_working b)"
    have b': "b' = set_phase t w Finished (b\<lparr>bu_broker := bu_broker b, bu_working := ?W\<rparr>)"
      using assms(4) Unmarking by (simp add: advance_def)
    note look = finish_reply_keeps_others [OF bus_okD(1) [OF ok], of "bw_id w" "is_alive b" "bu_now b"]
    have "distinct (map fst ?W)"
      using distinct_delete [OF bus_okD(1) [OF ok], of "bw_id w"] by (simp add: finish_reply_def distinct_map_filter)
    moreover have "is_alive b u" if "bu_workers b u = Some v" "marked (bw_phase v)" for u v
      using that by (cases "bw_phase v") (simp_all add: is_alive_def)
    ultimately show ?thesis
      unfolding b' using tok Unmarking
      by (intro bus_ok_set_phase [OF ok t]) (auto simp: look split: option.splits if_splits)
  qed (use assms(4) in \<open>simp_all add: advance_def\<close>)
qed

lemma bus_ok_reachable:
  assumes "\<forall>j. dumps j \<noteq> []" "bus_reachable single c dumps answer b"
  shows "bus_ok retained c dumps answer b"
  using assms(2)
proof (induction rule: bus_reachable.induct)
  case (Init br now)
  show ?case by (simp add: bus_ok_def)
next
  case (Step b b')
  note ok = Step.IH
  from Step(2) show ?case
  proof (cases rule: bus_step.cases)
    case (Request t i msg)
    then show ?thesis by (simp add: bus_ok_request [OF ok])
  next
    case (Respond t w r)
    then show ?thesis
      using bus_ok_answered [OF ok, of t w "Publishing (dumps r)"] by auto
  next
    case (Fail t w)
    then show ?thesis using bus_ok_answered [OF ok, of t w Crashed] by auto
  next
    case (Work t w)
    then show ?thesis using bus_ok_advance [OF ok _ assms(1)] by blast
  next
    case (Tick d)
    then show ?thesis
      unfolding Tick(1)
      by (intro bus_ok_later [OF ok]) simp
  qed
qed

lemma replies_kept:
  assumes "\<forall>j. dumps j \<noteq> []" "bus_reachable single c dumps answer b" "bu_workers b t = Some w" "alone b (bw_id w)"
  shows "(\<forall>p since. bw_phase w = Waiting p since \<longrightarrow>
        retained (bu_broker b) (reply_topic c (bw_id w)) = Some p \<and> (\<exists>r. answer (bw_msg w) (Some r) \<and> p = dumps r)) \<and>
      (bw_phase w \<in> {Unmarking, Finished} \<longrightarrow> retained (bu_broker b) (reply_topic c (bw_id w)) = None) \<and>
      (marked (bw_phase w) \<longrightarrow> (\<exists>s. map_of (bu_working b) (bw_id w) = Some (t, s))) \<and>
      (bw_phase w \<in> {Marking, Finished} \<longrightarrow> map_of (bu_working b) (bw_id w) = None)"
proof -
  note ok = bus_ok_reachable [OF assms(1,2)]
  have "map_of (bu_working b) (bw_id w) = None" if "bw_phase w \<in> {Marking, Finished}"
    using bus_okD(5) [OF ok, of "bw_id w"] aloneD [OF assms(4,3)] assms(3) that
    by (cases "map_of (bu_working b) (bw_id w)") fastforce+
  then show ?thesis
    using bus_okD(2) [OF ok assms(3)] bus_okD(3,4) [OF ok assms(3,4)] by auto
qed

lemma listed_at_work:
  assumes "\<forall>j. dumps j \<noteq> []" "bus_reachable single c dumps answer b" "map_of (bu_working b) i = Some (t, s)"
  shows "\<exists>w. bu_workers b t = Some w \<and> bw_id w = i \<and> bw_phase w \<notin> {Marking, Finished}"
  using bus_okD(5) [OF bus_ok_reachable [OF assms(1,2)] assms(3)] by auto

end

section \<open>A broker\<close>

text \<open>The broker as its documentation describes it: a table of the messages it keeps.\<close>

definition publish_retained :: "string \<Rightarrow> string \<Rightarrow> (string \<Rightarrow> string option, unit) prog" where
  "publish_retained topic payload kept = (Ret (), kept(topic := if payload = [] then None else Some payload))"

interpretation table: mqtt_broker "\<lambda>kept. kept" publish_retained
  by unfold_locales (auto simp: publish_retained_def)

text \<open>
  C29: whatever the interleaving of the workers, whatever identifiers the clients choose and
  whatever the router answers, consider a worker whose identifier no other worker was given. As
  long as it waits, the broker keeps the answer to its own message under its own topic; when it
  has ended, the broker keeps nothing there. Its identifier is listed among the working replies
  from its first step on, whatever the other workers clean up, and neither before nor when it has
  ended; a worker that an exception ended may stay listed. And for all identifiers, repeated ones
  too, a listed one names a worker that has marked it and has not ended regularly.
\<close>

theorem replies_served:
  assumes "mqtt_broker retained single" "\<forall>j. dumps j \<noteq> []"
    and "bus_reachable single controller_id dumps answer b" "bu_workers b t = Some w"
    and "\<forall>u v. bu_workers b u = Some v \<longrightarrow> bw_id v = bw_id w \<longrightarrow> u = t"
  shows "(\<forall>p since. bw_phase w = Waiting p since \<longrightarrow>
        retained (bu_broker b) (reply_topic controller_id (bw_id w)) = Some p \<and>
        (\<exists>r. answer (bw_msg w) (Some r) \<and> p = dumps r)) \<and>
      (bw_phase w \<in> {Unmarking, Finished} \<longrightarrow> retained (bu_broker b) (reply_topic controller_id (bw_id w)) = None) \<and>
      (bw_phase w \<notin> {Marking, Finished, Crashed} \<longrightarrow> (\<exists>s. map_of (bu_working b) (bw_id w) = Some (t, s))) \<and>
      (bw_phase w \<in> {Marking, Finished} \<longrightarrow> map_of (bu_working b) (bw_id w) = None) \<and>
      (\<forall>i u s. map_of (bu_working b) i = Some (u, s) \<longrightarrow>
        (\<exists>v. bu_workers b u = Some v \<and> bw_id v = i \<and> bw_phase v \<notin> {Marking, Finished}))"
proof -
  have "alone b (bw_id w)" unfolding alone_def using assms(5) by metis
  from mqtt_broker.replies_kept [OF assms(1-4) this] mqtt_broker.listed_at_work [OF assms(1-3)]
  show ?thesis by (cases "bw_phase w") simp_all
qed

lemma replies_served_witness:
  "\<exists>b w. bus_reachable publish_retained ''A'' (\<lambda>_. ''{}'') (\<lambda>_ r. r = Some (JObj [])) b \<and>
     bu_workers b 0 = Some w \<and> bw_phase w = Waiting ''{}'' 3 \<and> bu_broker b (reply_topic ''A'' ''7'') = Some ''{}''"
proof -
  let ?run = "bus_reachable publish_retained ''A'' (\<lambda>_. ''{}'') (\<lambda>_ r. r = Some (JObj []))"
  let ?to = "reply_topic ''A'' ''7''"
  let ?w = "\<lambda>ph. \<lparr>bw_id = ''7'', bw_topic = ?to, bw_msg = JNull, bw_phase = ph\<rparr>"
  let ?b = "\<lambda>kept listed ph. \<lparr>bu_broker = kept, bu_working = listed, bu_workers = (\<lambda>_. None)(0 \<mapsto> ?w ph), bu_now = 3\<rparr>"
  have "?run (?b (\<lambda>_. None) [] Marking)"
    using bus_reachable.Step [OF bus_reachable.Init bus_step.Request [of _ 0 _ _ _ _ "''7''"]] by simp
  then have "?run (?b (\<lambda>_. None) [(''7'', (0, 3))] Processing)"
    by (rule bus_reachable.Step, intro bus_step.Work [of _ 0 "?w Marking"])
      (simp_all add: advance_def set_phase_def mark_reply_def)
  then have "?run (set_phase 0 (?w Processing) (Publishing ''{}'') (?b (\<lambda>_. None) [(''7'', (0, 3))] Processing))"
    by (rule bus_reachable.Step) (rule bus_step.Respond [where r = "JObj []" and dumps = "\<lambda>_. ''{}''"], simp_all)
  then have "?run (?b (\<lambda>_. None) [(''7'', (0, 3))] (Publishing ''{}''))"
    by (simp add: set_phase_def)
  then have run: "?run (?b ((\<lambda>_. None)(?to \<mapsto> ''{}'')) [(''7'', (0, 3))] (Waiting ''{}'' 3))"
    by (rule bus_reachable.Step, intro bus_step.Work [of _ 0 "?w (Publishing ''{}'')"])
      (simp_all add: advance_def set_phase_def publish_retained_def)
  let ?B = "?b ((\<lambda>_. None)(?to \<mapsto> ''{}'')) [(''7'', (0, 3))] (Waiting ''{}'' 3)"
  have dumps: "\<forall>j :: json. (\<lambda>_. ''{}'') j \<noteq> []" by simp
  have worker: "bu_workers ?B 0 = Some (?w (Waiting ''{}'' 3))" by simp
  have single: "\<forall>u v. bu_workers ?B u = Some v \<longrightarrow> bw_id v = bw_id (?w (Waiting ''{}'' 3)) \<longrightarrow> u = 0"
    by (simp split: if_splits)
  have "bw_phase (?w (Waiting ''{}'' 3)) = Waiting ''{}'' 3" by simp
  with replies_served [OF table.mqtt_broker_axioms dumps run worker single]
  have "bu_broker ?B (reply_topic ''A'' (bw_id (?w (Waiting ''{}'' 3)))) = Some ''{}''" by blast
  then show ?thesis using run by (intro exI [of _ ?B] exI [of _ "?w (Waiting ''{}'' 3)"]) simp
qed

section \<open>Connecting the listener\<close>

text \<open>
  \<^verbatim>\<open>handle_on_connect\<close>: \<open>subscribe\<close> is that of the client and gives a code and the number of
  the message. \<open>None\<close> for the end of the program by \<^verbatim>\<open>sys.exit(1)\<close>.
\<close>

fun subscribe_all ::
  "(string \<Rightarrow> 's \<Rightarrow> (int \<times> int) \<times> 's) \<Rightarrow> string list \<Rightarrow> subscriptions \<Rightarrow> 's \<Rightarrow> subscriptions option \<times> 's" where
  "subscribe_all subscribe [] su s = (Some su, s)"
| "subscribe_all subscribe (t # ts) su s = (case subscribe t s of ((rc, mid), s1) \<Rightarrow>
     if rc \<noteq> 0 then (None, s1) else subscribe_all subscribe ts (check_subscription mid su) s1)"

definition handle_on_connect ::
  "(string \<Rightarrow> 's \<Rightarrow> (int \<times> int) \<times> 's) \<Rightarrow> string \<Rightarrow> int \<Rightarrow> subscriptions \<Rightarrow> 's \<Rightarrow> subscriptions option \<times> 's" where
  "handle_on_connect subscribe controller_id rc su s =
     (if rc \<noteq> 0 then (None, s) else subscribe_all subscribe (subscribed_topics controller_id ''+'' ''+'') su s)"

text \<open>\<open>username_pw_set\<close> and the \<open>auth\<close> of the workers: credentials that are missing or empty are not used.\<close>

definition auth_of :: "(string \<times> string) option \<Rightarrow> (string \<times> string) list option" where
  "auth_of credentials = map_option (\<lambda>(user, passwd). [(''username'', user), (''password'', passwd)]) credentials"

lemma subscribe_all_reachable:
  "subscriptions_reachable su \<Longrightarrow> subscribe_all subscribe ts su s = (Some su', s') \<Longrightarrow> subscriptions_reachable su'"
proof (induction ts arbitrary: su s)
  case (Cons t ts)
  then obtain mid s1 where "subscribe t s = ((0, mid), s1)" "subscribe_all subscribe ts (check_subscription mid su) s1 = (Some su', s')"
    by (auto split: prod.splits if_splits)
  then show ?case
    using Cons.IH subscriptions_reachable.Step [OF Cons.prems(1) subscription_step.Subscribe] by blast
qed simp

lemma subscribe_all_keeps_announcer:
  "subscribe_all subscribe ts su s = (Some su', s') \<Longrightarrow> su_running su' = su_running su \<and> su_announcers su' = su_announcers su"
  by (induction ts arbitrary: su s) (fastforce split: prod.splits if_splits simp: check_subscription_def)+

text \<open>A connection, also one that is made again, never starts the announcer by itself.\<close>

lemma handle_on_connect_reachable:
  assumes "subscriptions_reachable su" "handle_on_connect subscribe controller_id rc su s = (Some su', s')"
  shows "rc = 0 \<and> subscriptions_reachable su' \<and> su_announcers su' = su_announcers su"
  using assms subscribe_all_reachable [OF assms(1)] subscribe_all_keeps_announcer
  by (fastforce simp: handle_on_connect_def split: if_splits)

section \<open>Answers to queries\<close>

text \<open>\<open>functions\<close>: the names of the functions of the module class of a package, if it has one.\<close>

definition method_names :: "('m \<Rightarrow> string list option) \<Rightarrow> 'm \<Rightarrow> json" where
  "method_names functions m = JArr (map JStr (case get_method_names (functions m) of Some ns \<Rightarrow> ns | None \<Rightarrow> []))"

definition list_modules :: "('m \<Rightarrow> string list option) \<Rightarrow> (string \<times> 'm) list res \<Rightarrow> json res" where
  "list_modules functions modules = bindE modules (\<lambda>ms.
     Inr (JArr (map (\<lambda>(name, m). JObj [(''name'', JStr name), (''actions'', method_names functions m)]) ms)))"

text \<open>
  A dictionary keeps the last of two modules of one name. For a name that no module has,
  \<^verbatim>\<open>inspect.getmembers(None)\<close> lists no class: the answer is an empty list.
\<close>

definition list_actions :: "('m \<Rightarrow> string list option) \<Rightarrow> (string \<times> 'm) list res \<Rightarrow> string \<Rightarrow> json res" where
  "list_actions functions modules name = bindE modules (\<lambda>ms.
     Inr (case map_of (rev ms) name of Some m \<Rightarrow> method_names functions m | None \<Rightarrow> JArr []))"

definition get_schema :: "json \<Rightarrow> json \<Rightarrow> (string \<times> json) list \<Rightarrow> json" where
  "get_schema base_schema error_schema validators = JArr ([base_schema, error_schema] @ map snd validators)"

definition list_working_replies :: "working_replies \<Rightarrow> string list" where
  "list_working_replies w = map fst w"

text \<open>The actions listed for a module are those of its entry in the list of all modules.\<close>

lemma list_actions_of_module:
  assumes "distinct (map fst ms)" "(name, m) \<in> set ms"
  shows "list_actions functions (Inr ms) name = Inr (method_names functions m)"
  using map_of_is_SomeI [of "rev ms" name m] assms by (simp add: list_actions_def rev_map [symmetric])

section \<open>The notification sender\<close>

text \<open>
  \<open>connect\<close>, \<open>reconnect\<close> and \<open>disconnect\<close> are those of the client; the callbacks
  run when the client has read its answer, the last one also while \<open>disconnect\<close> runs.
\<close>

record 's mqtt_sender =
  ms_client :: 's
  ms_connected :: bool
  ms_force_stop :: bool

definition client_call :: "('s, 'a) prog \<Rightarrow> ('s mqtt_sender, 'a) prog" where
  "client_call p s = (case p (ms_client s) of (r, c) \<Rightarrow> (r, s\<lparr>ms_client := c\<rparr>))"

definition sender_connect :: "('s, unit) prog \<Rightarrow> ('s mqtt_sender, unit) prog" where
  "sender_connect connect s = client_call connect (s\<lparr>ms_force_stop := False\<rparr>)"

definition sender_init :: "('s, unit) prog \<Rightarrow> ('s mqtt_sender, unit) prog" where
  "sender_init connect = bindP (sender_connect connect) (\<lambda>_ s. ret () (s\<lparr>ms_connected := True\<rparr>))"

text \<open>\<open>False\<close> for the end of the program by \<^verbatim>\<open>sys.exit(1)\<close>.\<close>

definition sender_on_connect :: "int \<Rightarrow> 's mqtt_sender \<Rightarrow> bool \<times> 's mqtt_sender" where
  "sender_on_connect rc s = (rc = 0, s\<lparr>ms_connected := True\<rparr>)"

definition sender_on_disconnect :: "('s, unit) prog \<Rightarrow> ('s mqtt_sender, unit) prog" where
  "sender_on_disconnect reconnect s =
     (let s1 = s\<lparr>ms_connected := False\<rparr> in if ms_force_stop s1 then ret () s1 else client_call reconnect s1)"

definition sender_send :: "('s, unit) prog \<Rightarrow> (string \<Rightarrow> json \<Rightarrow> ('s, int) prog) \<Rightarrow>
    string \<Rightarrow> string \<Rightarrow> string \<Rightarrow> json \<Rightarrow> ('s mqtt_sender, int) prog" where
  "sender_send connect publish controller_id module action msg s =
     bindP (if ms_connected s then ret () else sender_connect connect) (\<lambda>_.
       client_call (mqtt_send (publish (notification_topic controller_id module action) msg))) s"

definition sender_disconnect :: "('s mqtt_sender, unit) prog \<Rightarrow> ('s mqtt_sender, unit) prog" where
  "sender_disconnect disconnect s =
     (if ms_connected s then bindP disconnect (\<lambda>_ s. ret () (s\<lparr>ms_force_stop := True\<rparr>)) s else ret () s)"

definition sender_reset :: "('s mqtt_sender, unit) prog" where
  "sender_reset = ret ()"

text \<open>
  \<^verbatim>\<open>_force_stop\<close> is set after the call: a callback that the client runs within
  \<open>disconnect\<close> connects again. After the call it would not.
\<close>

lemma disconnect_reconnects:
  assumes "ms_connected s" "\<not> ms_force_stop s"
  shows "sender_disconnect (sender_on_disconnect reconnect) s =
      bindP (client_call reconnect) (\<lambda>_ s. ret () (s\<lparr>ms_force_stop := True\<rparr>)) (s\<lparr>ms_connected := False\<rparr>)"
    and "sender_on_disconnect reconnect (s\<lparr>ms_force_stop := True\<rparr>) = (Ret (), s\<lparr>ms_connected := False, ms_force_stop := True\<rparr>)"
  using assms by (simp_all add: sender_disconnect_def sender_on_disconnect_def bindP_def ret_def)

section \<open>The announcer\<close>

text \<open>
  \<open>rounds\<close>: what the advertisement and the callbacks of each round give, for as many rounds as
  the thread of the bus is alive. A message refused by the schemas is not published.
\<close>

fun announcer_rounds ::
  "(json \<Rightarrow> bool) \<Rightarrow> int option \<Rightarrow> (json option \<times> json option list) list \<Rightarrow> announcer list \<Rightarrow> int \<Rightarrow> json list res" where
  "announcer_rounds validate period [] announcers counter = Inr []"
| "announcer_rounds validate period ((adv, results) # rounds) announcers counter =
     bindE (announcer_round validate period adv (zip announcers results) counter) (\<lambda>(msgs, announcers1, counter1).
     bindE (announcer_rounds validate period rounds announcers1 counter1) (\<lambda>later. Inr (msgs @ later)))"

definition the_list :: "'a option \<Rightarrow> 'a list" where
  "the_list x = (case x of None \<Rightarrow> [] | Some y \<Rightarrow> [y])"

text \<open>\<open>connected\<close>: the code of the connection; \<open>started\<close> and \<open>exited\<close>: the first and the last advertisement.\<close>

definition announcer_worker ::
  "(json \<Rightarrow> bool) \<Rightarrow> int option \<Rightarrow> json option \<Rightarrow> int \<Rightarrow> (json option \<times> json option list) list \<Rightarrow>
    json option \<Rightarrow> int list \<Rightarrow> json list res" where
  "announcer_worker validate period started connected rounds exited periods =
     bindE (announcer_rounds validate period rounds (map (\<lambda>p. \<lparr>an_period = p, an_last_called = 0\<rparr>) periods) 1) (\<lambda>msgs.
       Inr ((if connected = 0 then the_list started else []) @ msgs @ the_list exited))"

end
