(* ===== verification/LanService.thy ===== *)
theory LanService
  imports LanRegistry Modules
begin

text \<open>
  From the message to the configuration: the client operations of
  \<^verbatim>\<open>foris_controller_modules/lan/handlers/openwrt.py\<close> over the backend, called by the lan module
  that the router has loaded. The theorem follows one request through all of them.
\<close>

section \<open>The handler\<close>

text \<open>Keyword arguments: exactly the named ones, which are texts.\<close>

definition keyword_texts :: "json \<Rightarrow> string list \<Rightarrow> string list res" where
  "keyword_texts data ks = (case data of
      JObj kv \<Rightarrow> if set (map fst kv) = set ks then mapE (\<lambda>k. bindE (jget data k) json_str) ks else Inl TypeError
    | _ \<Rightarrow> Inl TypeError)"

definition client_result :: "string option \<Rightarrow> json" where
  "client_result err = (case err of
      Some m \<Rightarrow> if m \<noteq> [] then JObj [(''result'', JBool False), (''reason'', JStr m)] else JObj [(''result'', JBool True)]
    | None \<Rightarrow> JObj [(''result'', JBool True)])"

fun client_method :: "string list \<Rightarrow> (string list \<Rightarrow> ('s, string option) prog) \<Rightarrow> 's args \<Rightarrow> ('s, json) prog" where
  "client_method ks f (Kw data) =
     bindP (lift (keyword_texts data ks)) (\<lambda>vs. bindP (f vs) (\<lambda>err. ret (client_result err)))"
| "client_method ks f _ = raise TypeError"

definition openwrt_set_client :: "'e env \<Rightarrow> string list \<Rightarrow> ('e st, string option) prog" where
  "openwrt_set_client E vs = (case vs of [ip, mac, hostname] \<Rightarrow> set_dhcp_client E ip mac hostname | _ \<Rightarrow> raise TypeError)"

definition openwrt_update_client :: "'e env \<Rightarrow> string list \<Rightarrow> ('e st, string option) prog" where
  "openwrt_update_client E vs = (case vs of
      [ip, old_mac, mac, hostname] \<Rightarrow> update_dhcp_client E ip old_mac mac hostname | _ \<Rightarrow> raise TypeError)"

definition openwrt_delete_client :: "'e env \<Rightarrow> string list \<Rightarrow> ('e st, string option) prog" where
  "openwrt_delete_client E vs = (case vs of [mac] \<Rightarrow> delete_dhcp_client E mac | _ \<Rightarrow> raise TypeError)"

definition openwrt_lan_clients :: "'e env \<Rightarrow> 'e st handler" where
  "openwrt_lan_clients E = map_of
     [(''set_dhcp_client'', client_method [''ip'', ''mac'', ''hostname''] (openwrt_set_client E)),
      (''update_dhcp_client'', client_method [''ip'', ''old_mac'', ''mac'', ''hostname''] (openwrt_update_client E)),
      (''delete_dhcp_client'', client_method [''mac''] (openwrt_delete_client E))]"

section \<open>A request to add a client\<close>

definition set_client_data :: "string \<Rightarrow> string \<Rightarrow> string \<Rightarrow> json" where
  "set_client_data ip mac hostname = JObj [(''ip'', JStr ip), (''mac'', JStr mac), (''hostname'', JStr hostname)]"

definition lan_request_message :: "string \<Rightarrow> json \<Rightarrow> json" where
  "lan_request_message action data =
     JObj [(''module'', JStr ''lan''), (''kind'', JStr ''request''), (''action'', JStr action), (''data'', data)]"

definition lan_reply_message :: "string \<Rightarrow> json \<Rightarrow> json" where
  "lan_reply_message action data =
     JObj [(''kind'', JStr ''reply''), (''module'', JStr ''lan''), (''action'', JStr action), (''data'', data)]"

text \<open>A message whose action returns is answered by the data of the action.\<close>

lemma process_lan_request:
  assumes "validate (lan_request_message action data)" "mods ''lan'' = Some actions" "actions action = Some f"
    and "f data s = (Ret v, s')" "validate (lan_reply_message action v)"
  shows "process_message tx validate mods (lan_request_message action data) s =
    (Ret (lan_reply_message action v), s')"
  using assms
  by (simp add: process_message_def process_request_def perform_action_def find_module_def lan_request_message_def
      lan_reply_message_def bindP_def tryP_def prog_basic)

lemma lan_module_set_client:
  "map_of (lan_module h n) ''set_dhcp_client'' =
    Some (\<lambda>data. bindP (call h ''set_dhcp_client'' (Kw data)) (announced_result n ''set_dhcp_client'' (Inr (Some data))))"
  by (simp add: lan_module_def getting_def guarded_update_def client_change_def)

lemma set_client_method:
  "call (openwrt_lan_clients E) ''set_dhcp_client'' (Kw (set_client_data ip mac hostname)) s =
    (case set_dhcp_client E ip mac hostname s of
       (Ret err, s') \<Rightarrow> (Ret (client_result err), s') | (Raise e, s') \<Rightarrow> (Raise e, s') | (Block, s') \<Rightarrow> (Block, s'))"
  by (auto simp: call_def openwrt_lan_clients_def set_client_data_def keyword_texts_def openwrt_set_client_def bindP_def
      prog_basic split: prod.splits outcome.splits)

text \<open>The refusals of the check have a text.\<close>

lemma check_new_client_reason:
  "check_new_client dhcp network ip mac hostname = Inr (Some m) \<Longrightarrow> m \<noteq> []"
  by (auto simp: check_new_client_def validate_dhcp_host_ip_def bindE_eq_Inr Let_def split: if_splits option.splits prod.splits)

text \<open>
  C4: a request to add a client, from the message to the configuration. When the router has
  loaded the lan module over the handler of the device, the message is answered by what became
  of the client: a refused one by the reason, with nothing published and nothing announced; an
  accepted one by success, after its host was appended to the published \<^verbatim>\<open>dhcp\<close> config, dnsmasq
  restarted and the request announced to all listeners.
\<close>

theorem set_client_message_served:
  assumes "uci_tool E nm view" "names_fresh nm D ''host''" "services_keep E view" "ready view s"
    and "committed (view (ext s)) ''dhcp'' = Some D" "wf_config D"
    and "committed (view (ext s)) ''network'' = Some N" "wf_config N"
    and "mac_text mac" "ip \<noteq> []"
    and "check_new_client [(''dhcp'', D)] [(''network'', N)] ip (upper mac) hostname = Inr err"
    and "mods ''lan'' = Some (map_of (lan_module (openwrt_lan_clients E) notify))"
    and "validate (lan_request_message ''set_dhcp_client'' (set_client_data ip mac hostname))"
    and "validate (lan_reply_message ''set_dhcp_client'' (client_result err))"
    and "\<not> services_held s" "\<And>t. \<not> services_held t \<Longrightarrow> \<exists>t'. restart_dnsmasq E t = (Ret (), t')"
    and "\<And>d t. \<exists>t'. notify ''set_dhcp_client'' d t = (Ret (), t')"
  shows "\<exists>s'. process_message tx validate mods
        (lan_request_message ''set_dhcp_client'' (set_client_data ip mac hostname)) s =
      (Ret (lan_reply_message ''set_dhcp_client'' (client_result err)), s') \<and>
    (case err of
       Some m \<Rightarrow> client_result err = JObj [(''result'', JBool False), (''reason'', JStr m)] \<and>
         committed (view (ext s')) = committed (view (ext s))
     | None \<Rightarrow> \<exists>s1. committed (view (ext s1)) = (committed (view (ext s)))
           (''dhcp'' \<mapsto> D @ [new_host (nm D ''host'') (upper mac) ip hostname]) \<and>
         notify ''set_dhcp_client'' (Some (set_client_data ip mac hostname)) s1 = (Ret (), s'))"
proof -
  let ?data = "set_client_data ip mac hostname"
  have served: "process_message tx validate mods (lan_request_message ''set_dhcp_client'' ?data) s =
      (Ret (lan_reply_message ''set_dhcp_client'' (client_result err)), s')"
    if "bindP (call (openwrt_lan_clients E) ''set_dhcp_client'' (Kw ?data))
          (announced_result notify ''set_dhcp_client'' (Inr (Some ?data))) s = (Ret (client_result err), s')" for s'
    by (rule process_lan_request [where mods = mods and validate = validate
          and action = "''set_dhcp_client''" and actions = "map_of (lan_module (openwrt_lan_clients E) notify)",
          OF assms(13,12) lan_module_set_client that assms(14)])
  obtain s0 where run: "set_dhcp_client E ip mac hostname s =
      (case err of Some m \<Rightarrow> (Ret (Some m), s0) | None \<Rightarrow> bindP (restart_dnsmasq E) (\<lambda>_. ret None) s0)"
    and svc: "services_held s0 = services_held s"
    and com: "committed (view (ext s0)) = (case err of Some m \<Rightarrow> committed (view (ext s))
      | None \<Rightarrow> (committed (view (ext s)))
          (''dhcp'' \<mapsto> D @ [new_host (nm D ''host'') (upper mac) ip hostname]))"
    using set_dhcp_client_outcome [OF assms(1-11)] by blast
  show ?thesis
  proof (cases err)
    case (Some m)
    with assms(11) have "m \<noteq> []" using check_new_client_reason by blast
    with Some run com show ?thesis
      by (intro exI [of _ s0] conjI served)
        (simp_all add: set_client_method bindP_def announced_result_def client_result_def prog_basic)
  next
    case None
    obtain s1 where restart: "restart_dnsmasq E s0 = (Ret (), s1)" using assms(15,16) svc by blast
    obtain s2 where told: "notify ''set_dhcp_client'' (Some ?data) s1 = (Ret (), s2)" using assms(17) by blast
    have "committed (view (ext s1)) = committed (view (ext s0))"
      using restart_dnsmasq_keeps [OF assms(3), of s0] restart by simp
    with None run com restart told show ?thesis
      by (intro exI [of _ s2] conjI served)
        (auto simp: set_client_method bindP_def announced_result_def client_result_def prog_basic)
  qed
qed

text \<open>A router on which dnsmasq can be restarted.\<close>

definition lan_env :: "store env" where
  "lan_env = demo_env\<lparr>env_execute := (\<lambda>argv inp \<sigma>.
     if argv = [''/etc/init.d/dnsmasq'', ''restart''] then (Exited 0 [] [], \<sigma>)
     else ref_execute demo_name argv inp \<sigma>)\<rparr>"

lemma lan_env_tool: "uci_tool lan_env demo_name (\<lambda>\<sigma>. \<sigma>)"
proof unfold_locales
  fix args \<sigma> ok out \<sigma>'
  assume "ref_uci demo_name export_text args \<sigma> = Some ((ok, out), \<sigma>')"
  moreover have "env_execute lan_env (uci_argv lan_env args) None \<sigma> = env_execute demo_env (uci_argv demo_env args) None \<sigma>"
    by (simp add: lan_env_def uci_argv_def demo_env_def ref_env_def)
  ultimately show "\<exists>rc err e'. env_execute lan_env (uci_argv lan_env args) None \<sigma> = (Exited rc out err, e') \<and>
      (rc = 0) = ok \<and> e' = \<sigma>'"
    using uci_tool.uci_runs [OF demo_tool] by simp
qed (simp_all add: ref_execute_def strip_argv_def lan_env_def demo_env_def ref_env_def)

lemma lan_env_services_keep: "services_keep lan_env (\<lambda>\<sigma>. \<sigma>)"
proof -
  have "script_path lan_env service \<noteq> ''uci''" for service
    by (cases service) (auto simp: script_path_def path_join_def inject_cmdline_root_def inject_root_def
        lan_env_def demo_env_def ref_env_def)
  then show ?thesis
    by (simp add: services_keep_def lan_env_def demo_env_def ref_execute_def strip_argv_def)
qed

lemma lan_env_restart: "\<not> services_held t \<Longrightarrow> \<exists>t'. restart_dnsmasq lan_env t = (Ret (), t')"
  by (simp add: restart_dnsmasq_def with_services_def acquire_services_def release_services_def bindP_def tryP_def
      service_command_def run_service_command_def handle_command_def script_path_def path_join_def
      inject_cmdline_root_def inject_root_def lan_env_def demo_env_def ref_env_def ret_def)

lemma set_client_message_served_witness:
  "\<exists>s'. process_message demo_texts (\<lambda>_. True)
      [''lan'' \<mapsto> map_of (lan_module (openwrt_lan_clients lan_env) (\<lambda>_ _. ret ()))]
      (lan_request_message ''set_dhcp_client'' (set_client_data ''192.168.1.9'' ''00:11:22:33:44:55'' ''nas''))
      (demo_state [''dhcp'' \<mapsto> demo_dhcp, ''network'' \<mapsto> demo_network]) =
    (Ret (lan_reply_message ''set_dhcp_client'' (JObj [(''result'', JBool True)])), s') \<and>
    committed (ext s') =
      [''dhcp'' \<mapsto> demo_dhcp @ [new_host (demo_name demo_dhcp ''host'') ''00:11:22:33:44:55'' ''192.168.1.9'' ''nas''],
       ''network'' \<mapsto> demo_network]"
proof -
  let ?s = "demo_state [''dhcp'' \<mapsto> demo_dhcp, ''network'' \<mapsto> demo_network]"
  have facts: "names_fresh demo_name demo_dhcp ''host''" "wf_config demo_dhcp" "wf_config demo_network"
    "mac_text ''00:11:22:33:44:55''" "upper ''00:11:22:33:44:55'' = ''00:11:22:33:44:55''"
    "check_new_client [(''dhcp'', demo_dhcp)] [(''network'', demo_network)] ''192.168.1.9''
      (upper ''00:11:22:33:44:55'') ''nas'' = Inr None"
    by code_simp+
  have r: "ready (\<lambda>\<sigma>. \<sigma>) ?s" by (simp add: ready_def)
  show ?thesis
    using set_client_message_served [where validate = "\<lambda>_. True" and tx = demo_texts and notify = "\<lambda>_ _. ret ()"
        and mods = "[''lan'' \<mapsto> map_of (lan_module (openwrt_lan_clients lan_env) (\<lambda>_ _. ret ()))]",
        OF lan_env_tool facts(1) lan_env_services_keep r _ facts(2) _ facts(3,4) _ facts(6)] lan_env_restart facts(5)
    by (auto simp: client_result_def ret_def fun_upd_twist)
qed

end
