(* ===== verification/Web.thy ===== *)
theory Web
  imports Passwords Wan
begin

text \<open>
  The rest of \<^verbatim>\<open>foris_controller_backends/about\<close> and \<^verbatim>\<open>foris_controller_backends/web\<close>: serial
  and registration number, kernel version, the languages, and the operations of the guide that
  start, stop and show it. \<open>ifaces\<close> is \<^verbatim>\<open>turrishw.get_ifaces()\<close>.
\<close>

section \<open>Device information\<close>

definition is_hex :: "char \<Rightarrow> bool" where
  "is_hex c = (c \<in> set ''0123456789abcdefABCDEF'')"

definition is_alnum :: "char \<Rightarrow> bool" where
  "is_alnum c = (is_digit c \<or> to_lower c \<noteq> c \<or> to_upper c \<noteq> c)"

definition match_serial :: "string \<Rightarrow> string option" where
  "match_serial out = find (\<lambda>l. length l = 16 \<and> list_all is_hex l) (split_on newline out)"

definition match_kernel :: "string \<Rightarrow> string option" where
  "match_kernel out = find (\<lambda>l. l \<noteq> [] \<and> list_all (\<lambda>c. \<not> is_space c) l) (split_on newline out)"

definition match_registration :: "string \<Rightarrow> string option" where
  "match_registration out = find (\<lambda>l. length l = 16 \<and> list_all is_alnum l) (split_on newline out)"

definition get_serial :: "'e env \<Rightarrow> ('e st, string) prog" where
  "get_serial E = trigger_and_parse E [''/usr/bin/crypto-wrapper'', ''serial-number''] match_serial"

definition get_kernel_version :: "'e env \<Rightarrow> ('e st, string) prog" where
  "get_kernel_version E = trigger_and_parse E [''/bin/uname'', ''-r''] match_kernel"

text \<open>\<open>None\<close> is \<^verbatim>\<open>False\<close>: whatever is raised, there is no number.\<close>

definition get_registration_number :: "'e env \<Rightarrow> ('e st, string option) prog" where
  "get_registration_number E =
     tryP (bindP (read_and_parse E ''/usr/share/server-uplink/registration_code'' match_registration) (\<lambda>n. ret (Some n)))
       (\<lambda>_. True) (\<lambda>_. ret None)"

section \<open>Languages\<close>

definition get_language :: "uci_data \<Rightarrow> uval res" where
  "get_language foris_data =
     (case get_option_named foris_data ''foris'' ''settings'' ''lang'' None of
        Inl (UciRecordNotFound _) \<Rightarrow> Inr (Str ''en'')
      | r \<Rightarrow> r)"

definition basename :: "string \<Rightarrow> string" where
  "basename path = last (split_on CHR ''/'' path)"

text \<open>\<open>lang_dir\<close> depends on the version of Python.\<close>

definition list_languages :: "'e env \<Rightarrow> string \<Rightarrow> ('e st, string list) prog" where
  "list_languages E lang_dir =
     bindP (list_files E [path_join lang_dir ''??'', path_join lang_dir ''??_??'']) (\<lambda>files.
       ret (env_set_order E (remdups (''en'' # map basename files))))"

definition set_language :: "'e env \<Rightarrow> string \<Rightarrow> string \<Rightarrow> ('e st, bool) prog" where
  "set_language E lang_dir language =
     bindP (list_languages E lang_dir) (\<lambda>languages.
       if language \<notin> set languages then ret False
       else bindP (with_uci E (block
           [add_section E ''foris'' ''config'' ''settings'',
            set_option E ''foris'' ''settings'' ''lang'' language,
            tryP (block [add_section E ''luci'' ''core'' ''main'', set_option E ''luci'' ''main'' ''lang'' language])
              is_uci_exception (\<lambda>_. ret ())])) (\<lambda>_. ret True))"

section \<open>The guide\<close>

definition start_guide :: "'e env \<Rightarrow> string \<Rightarrow> ('e st, bool) prog" where
  "start_guide E workflow =
     bindP (with_uci E (writes E
       [AddSection ''foris'' ''config'' ''wizard'',
        SetOption ''foris'' ''wizard'' ''finished'' (store_bool False),
        SetOption ''foris'' ''wizard'' ''workflow'' workflow])) (\<lambda>_.
     bindP (update_passed E ''profile'') (\<lambda>_. ret True))"

text \<open>The data is read before the guide is marked as finished.\<close>

definition stop_guide :: "'e env \<Rightarrow> ('e st, bool) prog" where
  "stop_guide E =
     bindP (with_uci E (bindP (read_uci E ''foris'') (\<lambda>data. bindP (writes E
       [AddSection ''foris'' ''config'' ''wizard'',
        SetOption ''foris'' ''wizard'' ''finished'' (store_bool True)]) (\<lambda>_. ret data)))) (\<lambda>data.
     bindP (get_guide_data E data) (\<lambda>g.
     bindP (if py_in ''password'' (g_passed g)
            then bindP (update_unconfigured_wan_to_default E) (\<lambda>changed.
                   if changed then restart_network E else ret ())
            else ret ()) (\<lambda>_.
     bindP (update_passed E ''finished'') (\<lambda>_. ret True))))"

definition update_guide ::
  "'e env \<Rightarrow> (string \<times> string) list \<Rightarrow> bool \<Rightarrow> string option \<Rightarrow> ('e st, bool) prog" where
  "update_guide E ifaces enabled workflow =
     (if enabled then
        bindP (detect_available_workflows E ifaces) (\<lambda>available. case workflow of
            None \<Rightarrow> ret False
          | Some w \<Rightarrow> if w \<notin> set available then ret False else start_guide E w)
      else stop_guide E)"

record web_data =
  wd_password_ready :: bool
  wd_language :: uval
  wd_guide :: guide

definition web_get_data :: "'e env \<Rightarrow> ('e st, web_data) prog" where
  "web_get_data E =
     bindP (with_uci E (read_uci E ''foris'')) (\<lambda>data.
     bindP (lift (is_password_set data)) (\<lambda>password.
     bindP (lift (get_language data)) (\<lambda>language.
     bindP (get_guide_data E data) (\<lambda>guide.
       ret \<lparr>wd_password_ready = password, wd_language = language, wd_guide = guide\<rparr>))))"

end
