(* ===== verification/Updater.thy ===== *)
theory Updater
  imports Web JsonTools
begin

text \<open>
  \<^verbatim>\<open>foris_controller_backends/updater\<close> over the third-party \<^verbatim>\<open>svupdater\<close>, whose functions are the
  record \<open>svupdater\<close>, and \<^verbatim>\<open>OpenwrtAboutHandler\<close>, which asks it for the branch and for packages.
\<close>

section \<open>The interface of svupdater\<close>

text \<open>
  \<open>su_disabled\<close> and \<open>su_invalid\<close> recognise its exceptions \<^verbatim>\<open>ExceptionUpdaterDisabled\<close> and
  \<^verbatim>\<open>ExceptionUpdaterApproveInvalid\<close>; \<open>su_run\<close> gets the hooks when they are given.
\<close>

record 's svupdater =
  su_enabled :: "('s, bool option) prog"
  su_set_enabled :: "bool \<Rightarrow> ('s, unit) prog"
  su_approvals :: "('s, bool) prog"
  su_set_approvals :: "bool \<Rightarrow> ('s, unit) prog"
  su_approve_time :: "('s, int option) prog"
  su_set_approve_time :: "int option \<Rightarrow> ('s, unit) prog"
  su_languages :: "('s, (string \<times> bool) list) prog"
  su_update_languages :: "json \<Rightarrow> ('s, unit) prog"
  su_pkglists :: "string \<Rightarrow> ('s, json) prog"
  su_update_pkglists :: "json \<Rightarrow> ('s, unit) prog"
  su_run :: "string list option \<Rightarrow> ('s, unit) prog"
  su_opkg_lock :: "('s, bool) prog"
  su_current :: "('s, json) prog"
  su_approve :: "string \<Rightarrow> ('s, unit) prog"
  su_deny :: "string \<Rightarrow> ('s, unit) prog"
  su_installed :: "string \<Rightarrow> ('s, bool) prog"
  su_branch :: "('s, string \<times> string) prog"
  su_disabled :: "exn \<Rightarrow> bool"
  su_invalid :: "exn \<Rightarrow> bool"

section \<open>Settings\<close>

text \<open>\<^verbatim>\<open>run_updater_after\<close>\<close>

definition run_updater_after :: "'s svupdater \<Rightarrow> ('s, 'a) prog \<Rightarrow> ('s, 'a) prog" where
  "run_updater_after U p =
     bindP p (\<lambda>res.
     bindP (su_enabled U) (\<lambda>enabled.
     bindP (if enabled = Some True then tryP (su_run U None) (su_disabled U) (\<lambda>_. ret ()) else ret ()) (\<lambda>_.
       ret res)))"

record updater_settings =
  us_enabled :: "bool option"
  us_languages :: "(string \<times> bool) list"
  us_approvals :: string
  us_delay :: "int option"

definition updater_get_settings :: "'s svupdater \<Rightarrow> ('s, updater_settings) prog" where
  "updater_get_settings U =
     bindP (su_enabled U) (\<lambda>enabled.
     bindP (su_languages U) (\<lambda>languages.
     bindP (su_approvals U) (\<lambda>approvals.
     bindP (su_approve_time U) (\<lambda>delay.
       let delay = (if delay = Some 0 then None else delay) in
       ret \<lparr>us_enabled = enabled, us_languages = languages,
            us_approvals = (if \<not> approvals then ''off'' else if delay = None then ''on'' else ''delayed''),
            us_delay = delay\<rparr>))))"

definition update_languages :: "'s svupdater \<Rightarrow> json option \<Rightarrow> ('s, bool) prog" where
  "update_languages U languages =
     run_updater_after U (bindP (case languages of None \<Rightarrow> ret () | Some l \<Rightarrow> su_update_languages U l) (\<lambda>_. ret True))"

definition set_approvals :: "'s svupdater \<Rightarrow> string option \<Rightarrow> int option \<Rightarrow> ('s, unit) prog" where
  "set_approvals U status delay = (case status of
      None \<Rightarrow> ret ()
    | Some st \<Rightarrow>
        if st = ''off'' then su_set_approvals U False
        else if st = ''on'' then block [su_set_approvals U True, su_set_approve_time U (Some 0)]
        else if st = ''delayed'' then block [su_set_approvals U True, su_set_approve_time U delay]
        else raise NotImplementedError)"

text \<open>The updater may be started twice, since \<open>update_languages\<close> starts it as well.\<close>

definition updater_update_settings ::
  "'e env \<Rightarrow> 'e st svupdater \<Rightarrow> json option \<Rightarrow> string option \<Rightarrow> int option \<Rightarrow> bool \<Rightarrow> ('e st, bool) prog" where
  "updater_update_settings E U languages status delay enabled =
     run_updater_after U
       (bindP (su_set_enabled U enabled) (\<lambda>_.
        bindP (set_approvals U status delay) (\<lambda>_.
        bindP (update_languages U languages) (\<lambda>_.
        bindP (try_update_passed E ''updater'') (\<lambda>_. ret True)))))"

text \<open>\<^verbatim>\<open>{opt["name"]: opt["enabled"] for opt in lst.get("options", {})}\<close>\<close>

definition options_dict :: "json \<Rightarrow> json res" where
  "options_dict lst =
     bindE (jget_default lst ''options'' (JObj [])) (\<lambda>options.
     bindE (json_items options) (\<lambda>items.
     bindE (mapE (\<lambda>item. bindE (jget item ''name'') (\<lambda>name. bindE (json_str name) (\<lambda>k.
       bindE (jget item ''enabled'') (\<lambda>e. Inr (k, e))))) items) (\<lambda>kvs.
       Inr (JObj (fold (\<lambda>(k, x). AList.update k x) kvs [])))))"

definition to_svupdater :: "json \<Rightarrow> json res" where
  "to_svupdater user_lists =
     bindE (json_items user_lists) (\<lambda>lists.
     bindE (mapE (\<lambda>lst. bindE (jget lst ''name'') (\<lambda>name. bindE (json_str name) (\<lambda>k.
       bindE (options_dict lst) (\<lambda>d. Inr (k, d))))) lists) (\<lambda>kvs.
       Inr (JObj (fold (\<lambda>(k, x). AList.update k x) kvs []))))"

definition update_package_lists :: "'s svupdater \<Rightarrow> json \<Rightarrow> ('s, bool) prog" where
  "update_package_lists U package_lists =
     run_updater_after U
       (bindP (lift (to_svupdater package_lists)) (\<lambda>l. bindP (su_update_pkglists U l) (\<lambda>_. ret True)))"

section \<open>Approvals\<close>

definition drop_null :: "string \<Rightarrow> json \<Rightarrow> json res" where
  "drop_null k r = bindE (jget r k) (\<lambda>v. if v = JNull then jdel r k else Inr r)"

definition shown_approval :: "(json \<Rightarrow> string res) \<Rightarrow> json \<Rightarrow> json res" where
  "shown_approval isoformat approval =
     bindE (jput approval ''present'' (JBool True)) (\<lambda>a.
     bindE (jget a ''time'') (\<lambda>time.
     bindE (isoformat time) (\<lambda>t.
     bindE (jput a ''time'' (JStr t)) (\<lambda>a.
     bindE (jget a ''reboot'') (\<lambda>reboot.
     bindE (jput a ''reboot'' (JBool (json_truthy reboot))) (\<lambda>a.
     bindE (jget a ''plan'') (\<lambda>plan.
     bindE (json_items plan) (\<lambda>records.
     bindE (mapE (\<lambda>r. bindE (drop_null ''new_ver'' r) (drop_null ''cur_ver'')) records) (\<lambda>cleaned.
       jput a ''plan'' (JArr cleaned))))))))))"

definition get_approval :: "'s svupdater \<Rightarrow> (json \<Rightarrow> string res) \<Rightarrow> ('s, json) prog" where
  "get_approval U isoformat =
     bindP (su_current U) (\<lambda>approval.
       if json_truthy approval then lift (shown_approval isoformat approval)
       else ret (JObj [(''present'', JBool False)]))"

definition updater_run :: "'s svupdater \<Rightarrow> bool \<Rightarrow> ('s, bool) prog" where
  "updater_run U set_reboot_indicator =
     tryP (bindP (su_run U (Some (if set_reboot_indicator then [''/usr/bin/maintain-reboot-needed''] else []))) (\<lambda>_. ret True))
       (su_disabled U) (\<lambda>_. ret False)"

text \<open>The inner handler of a disabled updater never runs: \<^verbatim>\<open>run\<close> returns \<^verbatim>\<open>False\<close> instead.\<close>

definition resolve_approval :: "'s svupdater \<Rightarrow> string \<Rightarrow> string \<Rightarrow> ('s, bool) prog" where
  "resolve_approval U approval_id solution =
     tryP (bindP (if solution = ''grant'' then su_approve U approval_id else su_deny U approval_id) (\<lambda>_.
           bindP (if solution = ''grant''
                  then tryP (bindP (updater_run U False) (\<lambda>_. ret ())) (su_disabled U) (\<lambda>_. ret ())
                  else ret ()) (\<lambda>_. ret True)))
       (su_invalid U) (\<lambda>_. ret False)"

section \<open>Package lists\<close>

definition shown_label :: "string \<times> json \<Rightarrow> json res" where
  "shown_label l = (let (name, data) = l in
     bindE (jget data ''title'') (\<lambda>title. bindE (jget data ''description'') (\<lambda>description.
     bindE (jget data ''severity'') (\<lambda>severity.
       Inr (JObj [(''name'', JStr name), (''title'', title), (''description'', description), (''severity'', severity)])))))"

definition shown_labels :: "json \<Rightarrow> json res" where
  "shown_labels labels = bindE (jpairs labels) (\<lambda>kv. bindE (mapE shown_label kv) (\<lambda>ls. Inr (JArr ls)))"

definition with_url :: "json \<Rightarrow> (string \<times> json) list \<Rightarrow> json res" where
  "with_url data item =
     bindE (jget data ''url'') (\<lambda>url. Inr (JObj (item @ (if url \<noteq> JNull then [(''url'', url)] else []))))"

definition shown_option :: "string \<times> json \<Rightarrow> json res" where
  "shown_option l = (let (name, data) = l in
     bindE (jget data ''title'') (\<lambda>title. bindE (jget data ''description'') (\<lambda>description.
     bindE (jget_default data ''default'' (JBool False)) (\<lambda>dflt.
     bindE (jget_default data ''enabled'' dflt) (\<lambda>enabled.
     bindE (bindE (jget data ''labels'') shown_labels) (\<lambda>labels.
       with_url data [(''name'', JStr name), (''title'', title), (''description'', description),
         (''enabled'', enabled), (''labels'', labels)]))))))"

definition shown_options :: "json \<Rightarrow> json res" where
  "shown_options lst =
     bindE (jget_default lst ''options'' (JObj [])) (\<lambda>o'. bindE (jpairs o') (\<lambda>kv.
     bindE (mapE shown_option kv) (\<lambda>os. Inr (JArr os))))"

definition shown_list :: "string \<times> json \<Rightarrow> json res" where
  "shown_list l = (let (name, lst) = l in
     bindE (jget lst ''enabled'') (\<lambda>enabled. bindE (jget lst ''title'') (\<lambda>title.
     bindE (jget lst ''description'') (\<lambda>description.
     bindE (shown_options lst) (\<lambda>options.
     bindE (bindE (jget lst ''labels'') shown_labels) (\<lambda>labels.
       with_url lst [(''name'', JStr name), (''enabled'', enabled), (''title'', title), (''description'', description),
         (''options'', options), (''labels'', labels)]))))))"

definition get_package_lists :: "'s svupdater \<Rightarrow> string \<Rightarrow> ('s, json) prog" where
  "get_package_lists U lang =
     bindP (su_pkglists U lang) (\<lambda>lists.
       lift (bindE (jpairs lists) (\<lambda>kv. bindE (mapE shown_list kv) (\<lambda>ls. Inr (JArr ls)))))"

section \<open>Packages and languages\<close>

fun filterP :: "('a \<Rightarrow> ('s, bool) prog) \<Rightarrow> 'a list \<Rightarrow> ('s, 'a list) prog" where
  "filterP p [] = ret []"
| "filterP p (x # xs) = bindP (p x) (\<lambda>b. bindP (filterP p xs) (\<lambda>ys. ret (if b then x # ys else ys)))"

definition query_installed_packages :: "'s svupdater \<Rightarrow> string list \<Rightarrow> ('s, string list) prog" where
  "query_installed_packages U packages =
     bindP (filterP (su_installed U) packages) (\<lambda>found. ret (sorted_texts found))"

definition get_languages :: "'s svupdater \<Rightarrow> ('s, (string \<times> bool) list) prog" where
  "get_languages U = su_languages U"

definition updater_running :: "'s svupdater \<Rightarrow> ('s, bool) prog" where
  "updater_running U = su_opkg_lock U"

section \<open>The handler of the about module\<close>

record device_info =
  di_model :: string
  di_kernel :: string
  di_os_version :: string
  di_os_branch :: "string \<times> string"

definition get_device_info :: "'e env \<Rightarrow> 'e st svupdater \<Rightarrow> ('e st, device_info) prog" where
  "get_device_info E U =
     bindP (get_model_name E) (\<lambda>model. bindP (get_kernel_version E) (\<lambda>kernel.
     bindP (get_os_version E) (\<lambda>os_version. bindP (su_branch U) (\<lambda>branch.
       ret \<lparr>di_model = model, di_kernel = kernel, di_os_version = os_version, di_os_branch = branch\<rparr>))))"

definition get_customization :: "'s svupdater \<Rightarrow> ('s, string option) prog" where
  "get_customization U =
     bindP (query_installed_packages U [''shield-support'']) (\<lambda>installed.
       ret (if ''shield-support'' \<in> set installed then Some ''shield'' else None))"

end
