(* ===== verification/Remote.thy ===== *)
theory Remote
  imports NetworksUpdate Guest LanRegistry Messages
begin

text \<open>
  \<^verbatim>\<open>foris_controller_backends/remote\<close> without the asynchronous tasks (\<open>AsyncClients\<close>): the
  state of the certificate authority, the netboot state, the settings of remote access and the
  token files. \<open>bus\<close> is \<^verbatim>\<open>app_info["bus"]\<close>. The theorem says that the settings are read back as far as they are allowed.
\<close>

section \<open>Commands\<close>

text \<open>\<^verbatim>\<open>re.search(r"^status: (\w+)$", output, re.MULTILINE).group(1)\<close>\<close>

definition ca_state :: "string list \<Rightarrow> string res" where
  "ca_state lines =
     (case find (\<lambda>l. startswith l ''status: '' \<and> drop 8 l \<noteq> [] \<and> list_all is_word_char (drop 8 l)) lines of
        None \<Rightarrow> Inl AttributeError | Some l \<Rightarrow> Inr (drop 8 l))"

record token =
  tk_id :: string
  tk_name :: string
  tk_status :: string

text \<open>The clients below \<^verbatim>\<open>## Certs:\<close> and whether a valid server certificate is there.\<close>

fun cert_lines :: "bool \<Rightarrow> string list \<Rightarrow> token list \<times> bool" where
  "cert_lines in_section [] = ([], False)"
| "cert_lines in_section (line # rest) =
     (let (clients, found) = cert_lines (in_section \<or> line = ''## Certs:'') rest in
      case (if in_section then split_on CHR '' '' line else []) of
        [cert_id, cert_type, name, status] \<Rightarrow>
          if cert_type = ''client'' then (\<lparr>tk_id = cert_id, tk_name = name, tk_status = status\<rparr> # clients, found)
          else (clients, found \<or> (cert_type = ''server'' \<and> status = ''valid''))
      | _ \<Rightarrow> (clients, found))"

definition parse_ca_status :: "string \<Rightarrow> (string \<times> token list) res" where
  "parse_ca_status out =
     (let lines = split_on CHR 0x0A out; (clients, found) = cert_lines False lines in
      bindE (ca_state lines) (\<lambda>state.
        Inr (if state = ''ready'' \<and> \<not> found then ''generating'' else state, clients)))"

definition remote_get_status :: "'e env \<Rightarrow> ('e st, string \<times> token list) prog" where
  "remote_get_status E =
     bindP (run_command_and_check_retval E [''/usr/bin/turris-cagen-status'', ''remote''] 0) (\<lambda>(out, _).
       lift (parse_ca_status out))"

definition revoke :: "'e env \<Rightarrow> string \<Rightarrow> ('e st, bool) prog" where
  "revoke E cert_id =
     bindP (run_command E [''/usr/bin/turris-cagen'', ''switch'', ''remote'', ''revoke'', cert_id] None)
       (\<lambda>(rc, _). ret (rc = 0))"

text \<open>
  \<^verbatim>\<open>re.match(r"^.* on / type (\w+) .*$", line)\<close>: the last place where the text fits, since the
  first \<^verbatim>\<open>.*\<close> takes as much as it can.
\<close>

fun root_type :: "string \<Rightarrow> string option" where
  "root_type [] = None"
| "root_type (c # s) =
     (case root_type s of
        Some t \<Rightarrow> Some t
      | None \<Rightarrow>
          if startswith (c # s) '' on / type '' then
            (let rest = drop 11 (c # s); word = takeWhile is_word_char rest in
             if word \<noteq> [] \<and> startswith (dropWhile is_word_char rest) '' '' then Some word else None)
          else None)"

definition mounted_root :: "string \<Rightarrow> string option" where
  "mounted_root out = (case List.map_filter root_type (split_on CHR 0x0A out) of [] \<Rightarrow> None | t # _ \<Rightarrow> Some t)"

definition netboot_configured_path :: string where
  "netboot_configured_path = ''/tmp/netboot-configured''"

definition get_netboot_status :: "'e env \<Rightarrow> ('e st, string) prog" where
  "get_netboot_status E =
     bindP (run_command_and_check_retval E [''/bin/mount''] 0) (\<lambda>(out, _).
       case mounted_root out of
         Some t \<Rightarrow> if t \<noteq> ''tmpfs'' then ret ''no''
           else bindP (path_exists E netboot_configured_path) (\<lambda>b. ret (if b then ''ready'' else ''booted''))
       | None \<Rightarrow> bindP (path_exists E netboot_configured_path) (\<lambda>b. ret (if b then ''ready'' else ''booted'')))"

section \<open>Settings\<close>

record remote_settings =
  re_enabled :: bool
  re_port :: int
  re_wan_access :: bool

text \<open>
  The handler of \<^verbatim>\<open>UciException\<close> is never reached: lookups with a default do not raise, and
  \<^verbatim>\<open>parse_bool\<close> raises \<^verbatim>\<open>UciTypeException\<close>, which is no \<^verbatim>\<open>UciException\<close>.
\<close>

definition read_remote_settings :: "string \<Rightarrow> uci_data \<Rightarrow> uci_data \<Rightarrow> remote_settings res" where
  "read_remote_settings bus fosquitto_data firewall_data =
     bindE (bindE (get_option_named fosquitto_data ''fosquitto'' ''remote'' ''enabled'' (Some (Str ''0''))) parse_bool) (\<lambda>enabled.
     bindE (bindE (get_option_named fosquitto_data ''fosquitto'' ''remote'' ''port'' (Some (Str ''11884''))) uval_int) (\<lambda>port.
     bindE (bindE (get_option_named firewall_data ''firewall'' ''wan_fosquitto_turris_rule'' ''enabled'' (Some (Str ''0''))) parse_bool)
       (\<lambda>wan. Inr \<lparr>re_enabled = enabled \<and> bus = ''mqtt'', re_port = port, re_wan_access = wan\<rparr>)))"

definition remote_get_settings :: "'e env \<Rightarrow> string \<Rightarrow> ('e st, remote_settings) prog" where
  "remote_get_settings E bus =
     bindP (with_uci E (bindP (read_uci E ''fosquitto'') (\<lambda>fo. bindP (read_uci E ''firewall'') (\<lambda>fi. ret (fo, fi)))))
       (\<lambda>(fo, fi). tryP (lift (read_remote_settings bus fo fi)) is_uci_exception
          (\<lambda>_. ret \<lparr>re_enabled = False, re_port = 11883, re_wan_access = False\<rparr>))"

definition delete_ca :: "'e env \<Rightarrow> string \<Rightarrow> ('e st, bool) prog" where
  "delete_ca E bus =
     bindP (remote_get_settings E bus) (\<lambda>s.
       if re_enabled s then ret False
       else bindP (run_command E [''/usr/bin/turris-cagen'', ''drop_ca'', ''remote''] None) (\<lambda>(rc, _). ret (rc = 0)))"

text \<open>A request to disable the access carries nothing else.\<close>

datatype remote_request = RemoteOff | RemoteOn bool int

definition remote_writes :: "remote_request \<Rightarrow> uwrite list" where
  "remote_writes req =
     (case req of
        RemoteOn wan_access port \<Rightarrow>
          [AddSection ''firewall'' ''rule'' ''wan_fosquitto_turris_rule'',
           SetOption ''firewall'' ''wan_fosquitto_turris_rule'' ''name'' ''fosquitto_wan'',
           SetOption ''firewall'' ''wan_fosquitto_turris_rule'' ''enabled'' (store_bool wan_access),
           SetOption ''firewall'' ''wan_fosquitto_turris_rule'' ''target'' ''ACCEPT'',
           SetOption ''firewall'' ''wan_fosquitto_turris_rule'' ''dest_port'' (show_int port),
           SetOption ''firewall'' ''wan_fosquitto_turris_rule'' ''proto'' ''tcp'',
           SetOption ''firewall'' ''wan_fosquitto_turris_rule'' ''src'' ''wan'',
           AddSection ''fosquitto'' ''remote'' ''remote'',
           SetOption ''fosquitto'' ''remote'' ''enabled'' (store_bool True),
           SetOption ''fosquitto'' ''remote'' ''port'' (show_int port)]
      | RemoteOff \<Rightarrow>
          [AddSection ''firewall'' ''rule'' ''wan_fosquitto_turris_rule'',
           SetOption ''firewall'' ''wan_fosquitto_turris_rule'' ''enabled'' (store_bool False),
           AddSection ''fosquitto'' ''remote'' ''remote'',
           SetOption ''fosquitto'' ''remote'' ''enabled'' (store_bool False)])"

text \<open>Without the message bus or the certificate authority the access is switched off.\<close>

definition allowed_request :: "string \<Rightarrow> string \<Rightarrow> remote_request \<Rightarrow> remote_request" where
  "allowed_request bus status req = (if bus \<noteq> ''mqtt'' \<or> status \<noteq> ''ready'' then RemoteOff else req)"

definition remote_result :: "string \<Rightarrow> string \<Rightarrow> remote_request \<Rightarrow> bool" where
  "remote_result bus status req = (bus = ''mqtt'' \<and> (status = ''ready'' \<or> req = RemoteOff))"

definition remote_services :: "'e env \<Rightarrow> string \<Rightarrow> ('e st, unit) prog" where
  "remote_services E bus =
     block (service_command E Reload ''firewall'' None True #
       (if bus = ''mqtt''
        then [service_command E Enable ''fosquitto'' None False, service_command E Restart ''fosquitto'' None True]
        else [service_command E Disable ''fosquitto'' None False, service_command E Stop ''fosquitto'' None False]))"

definition remote_update_settings :: "'e env \<Rightarrow> string \<Rightarrow> remote_request \<Rightarrow> ('e st, bool) prog" where
  "remote_update_settings E bus req =
     bindP (remote_get_status E) (\<lambda>(status, _).
     bindP (with_uci E (writes E (remote_writes (allowed_request bus status req)))) (\<lambda>_.
     bindP (with_services (remote_services E bus)) (\<lambda>_. ret (remote_result bus status req))))"

section \<open>Files\<close>

definition set_netboot_configured :: "'e env \<Rightarrow> ('e st, bool) prog" where
  "set_netboot_configured E =
     bindP (make_dirs E ''/tmp'') (\<lambda>_. bindP (store_to_file E netboot_configured_path []) (\<lambda>_. ret True))"

text \<open>A static address may be one option with several addresses or a list.\<close>

definition uci_addresses :: "uci_data \<Rightarrow> string \<Rightarrow> string list res" where
  "uci_addresses network_data name =
     bindE (get_option_named network_data ''network'' name ''proto'' (Some (Str ''none''))) (\<lambda>proto.
       if proto \<noteq> Str ''static'' then Inr []
       else bindE (get_option_named network_data ''network'' name ''ipaddr'' (Some (Str []))) (\<lambda>ip. case ip of
           Str s \<Rightarrow> Inr (filter (\<lambda>e. e \<noteq> []) (split_on CHR '' '' s))
         | Lst xs \<Rightarrow> Inr xs
         | _ \<Rightarrow> Inl TypeError))"

definition dhcp_name :: "uci_data \<Rightarrow> string \<Rightarrow> uval res" where
  "dhcp_name network_data name =
     bindE (get_option_named network_data ''network'' name ''proto'' (Some (Str ''none''))) (\<lambda>proto.
       if proto = Str ''dhcp'' then get_option_named network_data ''network'' name ''hostname'' (Some (Str []))
       else Inr (Str []))"

definition cmd_addresses :: "'e env \<Rightarrow> (string \<Rightarrow> ifstatus option) \<Rightarrow> string \<Rightarrow> ('e st, string list) prog" where
  "cmd_addresses E loads name =
     bindP (get_network_info E loads name) (\<lambda>info. ret (case info of None \<Rightarrow> [] | Some i \<Rightarrow> ni_ipv4 i))"

text \<open>The first of equal addresses is kept.\<close>

definition unique :: "string list \<Rightarrow> string list" where
  "unique xs = rev (remdups (rev xs))"

record location =
  lo_hostname :: uval
  lo_port :: int
  lo_wan :: "string list"
  lo_lan :: "string list"
  lo_wan_name :: uval
  lo_lan_name :: uval

definition detect_location :: "'e env \<Rightarrow> (string \<Rightarrow> ifstatus option) \<Rightarrow> ('e st, location) prog" where
  "detect_location E loads =
     bindP (with_uci E (bindP (read_uci E ''network'') (\<lambda>n. bindP (read_uci E ''system'') (\<lambda>s.
            bindP (read_uci E ''fosquitto'') (\<lambda>f. ret (n, s, f))))))
     (\<lambda>(network_data, system_data, fosquitto_data).
     bindP (lift (uci_addresses network_data ''wan'')) (\<lambda>wan1.
     bindP (lift (uci_addresses network_data ''lan'')) (\<lambda>lan1.
     bindP (cmd_addresses E loads ''wan'') (\<lambda>wan2.
     bindP (cmd_addresses E loads ''lan'') (\<lambda>lan2.
     bindP (lift (dhcp_name network_data ''wan'')) (\<lambda>wan_name.
     bindP (lift (dhcp_name network_data ''lan'')) (\<lambda>lan_name.
     bindP (lift (get_option_anonymous system_data ''system'' ''system'' 0 ''hostname'' (Some (Str [])))) (\<lambda>hostname.
     bindP (lift (bindE (get_option_named fosquitto_data ''fosquitto'' ''remote'' ''port'' (Some (Str ''11884''))) uval_int)) (\<lambda>port.
       ret \<lparr>lo_hostname = hostname, lo_port = port, lo_wan = unique (wan1 @ wan2), lo_lan = unique (lan1 @ lan2),
            lo_wan_name = wan_name, lo_lan_name = lan_name\<rparr>)))))))))"

fun uval_json :: "uval \<Rightarrow> json" where
  "uval_json (Str s) = JStr s"
| "uval_json (Lst xs) = JArr (map JStr xs)"
| "uval_json (Num n) = JNum n"
| "uval_json (Flag b) = JBool b"

definition token_conf :: "string \<Rightarrow> string \<Rightarrow> location \<Rightarrow> json" where
  "token_conf controller_id name l =
     JObj [(''name'', JStr name), (''hostname'', uval_json (lo_hostname l)),
       (''ipv4_ips'', JObj [(''wan'', JArr (map JStr (lo_wan l))), (''lan'', JArr (map JStr (lo_lan l)))]),
       (''dhcp_names'', JObj [(''wan'', uval_json (lo_wan_name l)), (''lan'', uval_json (lo_lan_name l))]),
       (''port'', JNum (lo_port l)), (''device_id'', JStr controller_id)]"

text \<open>\<open>pack\<close> writes the named files to a compressed archive and encodes it; \<open>dumps\<close> is \<^verbatim>\<open>json.dumps\<close>.\<close>

definition cert_path :: "string \<Rightarrow> string" where
  "cert_path f = ''/etc/ssl/ca/remote/'' @ f"

definition get_token ::
  "'e env \<Rightarrow> (string \<Rightarrow> ifstatus option) \<Rightarrow> (json \<Rightarrow> string) \<Rightarrow> ((string \<times> string) list \<Rightarrow> string) \<Rightarrow> string \<Rightarrow>
    string \<Rightarrow> string \<Rightarrow> ('e st, string) prog" where
  "get_token E loads dumps pack controller_id token_id name =
     bindP (file_content E (cert_path (token_id @ ''.crt''))) (\<lambda>cert.
     bindP (file_content E (cert_path (token_id @ ''.key''))) (\<lambda>key.
     bindP (file_content E (cert_path ''ca.crt'')) (\<lambda>ca.
     bindP (detect_location E loads) (\<lambda>l.
       ret (pack [(name @ ''/token.crt'', cert), (name @ ''/token.key'', key), (name @ ''/ca.crt'', ca),
         (name @ ''/conf.json'', dumps (token_conf controller_id name l))])))))"

section \<open>Reading back\<close>

lemma remote_names [simp]:
  "valid_name ''firewall''" "valid_name ''wan_fosquitto_turris_rule''" "valid_name ''fosquitto''" "valid_name ''remote''"
  "valid_name ''rule''" "valid_name ''name''" "valid_name ''enabled''" "valid_name ''target''" "valid_name ''dest_port''"
  "valid_name ''proto''" "valid_name ''src''" "valid_name ''port''"
  by (simp_all add: valid_name_def name_char_def)

lemma remote_writes_facts:
  assumes "ws = remote_writes req"
  shows "list_all write_names_valid ws" "sections_known ws (\<lambda>_ _. False)"
    "set (map config_of ws) = {''firewall'', ''fosquitto''}"
  using assms by (cases req; auto simp: remote_writes_def)+

text \<open>The services do not touch the configs, whether they start or not.\<close>

definition keeps :: "('e \<Rightarrow> store) \<Rightarrow> ('e st, 'a) prog \<Rightarrow> bool" where
  "keeps view p \<longleftrightarrow> (\<forall>s. committed (view (ext (snd (p s)))) = committed (view (ext s)))"

lemma keeps_block: "\<forall>p\<in>set ps. keeps view p \<Longrightarrow> keeps view (block ps)"
proof (induction ps)
  case Nil
  then show ?case by (simp add: keeps_def ret_def)
next
  case (Cons p ps)
  show ?case unfolding keeps_def
  proof
    fix s
    obtain r s' where "p s = (r, s')" by (cases "p s")
    moreover have "committed (view (ext (snd (p s)))) = committed (view (ext s))" using Cons.prems by (simp add: keeps_def)
    ultimately show "committed (view (ext (snd (block (p # ps) s)))) = committed (view (ext s))"
      using Cons by (cases r) (simp_all add: keeps_def bindP_def)
  qed
qed

lemma keeps_with_services:
  assumes "keeps view body"
  shows "keeps view (with_services body)"
  unfolding keeps_def
proof
  fix s
  obtain r s' where run: "body (s\<lparr>services_held := True\<rparr>) = (r, s')" by (cases "body (s\<lparr>services_held := True\<rparr>)")
  have "committed (view (ext s')) = committed (view (ext s))"
    using assms [unfolded keeps_def, rule_format, of "s\<lparr>services_held := True\<rparr>"] run by simp
  with run show "committed (view (ext (snd (with_services body s)))) = committed (view (ext s))"
    by (cases r) (simp_all add: with_services_def bindP_def acquire_services_def release_services_def ret_def raise_def)
qed

lemma keeps_service_command:
  "services_keep E view \<Longrightarrow> keeps view (service_command E cmd service None b)"
  by (simp add: keeps_def service_command_def run_service_command_keeps)

lemma remote_services_keep: "services_keep E view \<Longrightarrow> keeps view (with_services (remote_services E bus))"
  unfolding remote_services_def by (intro keeps_with_services keeps_block) (auto simp: keeps_service_command)

lemma remote_values:
  assumes "follows (remote_writes req) ''firewall'' F F'" "follows (remote_writes req) ''fosquitto'' N N'"
    and "read_remote_settings bus [(''fosquitto'', N)] [(''firewall'', F)] = Inr old"
  shows "read_remote_settings bus [(''fosquitto'', N')] [(''firewall'', F')] = Inr (case req of
      RemoteOn wan port \<Rightarrow> \<lparr>re_enabled = (bus = ''mqtt''), re_port = port, re_wan_access = wan\<rparr>
    | RemoteOff \<Rightarrow> \<lparr>re_enabled = False, re_port = re_port old, re_wan_access = False\<rparr>)"
proof -
  have old: "bindE (get_option_named [(''fosquitto'', N)] ''fosquitto'' ''remote'' ''port'' (Some (Str ''11884''))) uval_int =
      Inr (re_port old)"
    using assms(3) unfolding read_remote_settings_def bindE_eq_Inr by auto
  have "lk F' ''wan_fosquitto_turris_rule'' ''enabled'' =
      Some (Str (store_bool (case req of RemoteOn wan port \<Rightarrow> wan | RemoteOff \<Rightarrow> False)))"
    "lk N' ''remote'' ''enabled'' = Some (Str (store_bool (req \<noteq> RemoteOff)))"
    "lk N' ''remote'' ''port'' = (case req of RemoteOn wan port \<Rightarrow> Some (Str (show_int port)) | RemoteOff \<Rightarrow> lk N ''remote'' ''port'')"
    by (cases req; simp add: follows_lk [OF assms(1)] follows_lk [OF assms(2)] remote_writes_def)+
  then show ?thesis
    using old by (cases req) (simp_all add: read_remote_settings_def get_option_named_eq)
qed

text \<open>
  C35: the settings of remote access are read back as far as they are allowed: without the
  message bus or a ready certificate authority the access is off and closed to the uplink and the
  port stays, otherwise the request holds, whatever becomes of the services.
\<close>

theorem remote_settings_read_back:
  assumes "uci_tool E nm view" "services_keep E view"
    and "remote_get_status E s = (Ret (status, tokens), s1)" "ready view s1"
    and "committed (view (ext s1)) ''firewall'' = Some F" "committed (view (ext s1)) ''fosquitto'' = Some N"
    and "read_remote_settings bus [(''fosquitto'', N)] [(''firewall'', F)] = Inr old"
  shows "\<exists>F' N'. committed (view (ext (snd (remote_update_settings E bus req s)))) =
      (committed (view (ext s1)))(''firewall'' \<mapsto> F', ''fosquitto'' \<mapsto> N') \<and>
    read_remote_settings bus [(''fosquitto'', N')] [(''firewall'', F')] = Inr (
      case (if bus = ''mqtt'' \<and> status = ''ready'' then req else RemoteOff) of
        RemoteOn wan port \<Rightarrow> \<lparr>re_enabled = True, re_port = port, re_wan_access = wan\<rparr>
      | RemoteOff \<Rightarrow> \<lparr>re_enabled = False, re_port = re_port old, re_wan_access = False\<rparr>)"
proof -
  define req' where "req' = allowed_request bus status req"
  define ws where "ws = remote_writes req'"
  note facts = remote_writes_facts [OF ws_def]
  let ?m0 = "committed (view (ext s1))"
  have "config_of w \<in> {''firewall'', ''fosquitto''}" if "w \<in> set ws" for w
    unfolding facts(3) [symmetric] using that by simp
  then have "\<forall>w\<in>set ws. ?m0 (config_of w) \<noteq> None" using assms(5,6) by fastforce
  then obtain m where m: "apply_writes ws ?m0 = Some m"
    using apply_writes_defined [OF facts(2), of ?m0] by blast
  obtain F' where F': "m ''firewall'' = Some F'" "follows ws ''firewall'' F F'"
    using apply_writes_follows [OF m assms(5)] by blast
  obtain N' where N': "m ''fosquitto'' = Some N'" "follows ws ''fosquitto'' N N'"
    using apply_writes_follows [OF m assms(6)] by blast
  have all: "m = ?m0(''firewall'' \<mapsto> F', ''fosquitto'' \<mapsto> N')"
    using apply_writes_other [OF m] facts(3) F'(1) N'(1) by (auto simp: fun_eq_iff)
  obtain s2 where s2: "with_uci E (writes E ws) s1 = (Ret (), s2)" "committed (view (ext s2)) = m"
    using writes_transaction [OF assms(1) _ _ facts(1) m] assms(4) by (auto simp: ready_def)
  obtain r s3 where s3: "with_services (remote_services E bus) s2 = (r, s3)"
    by (cases "with_services (remote_services E bus) s2")
  then have "committed (view (ext s3)) = m"
    using remote_services_keep [OF assms(2), of bus] s2(2) unfolding keeps_def by (metis snd_conv)
  moreover have "snd (remote_update_settings E bus req s) = s3"
    using assms(3) s2(1) s3
    by (cases r) (simp_all add: remote_update_settings_def bindP_def ret_def ws_def req'_def)
  moreover have "read_remote_settings bus [(''fosquitto'', N')] [(''firewall'', F')] = Inr (
      case (if bus = ''mqtt'' \<and> status = ''ready'' then req else RemoteOff) of
        RemoteOn wan port \<Rightarrow> \<lparr>re_enabled = True, re_port = port, re_wan_access = wan\<rparr>
      | RemoteOff \<Rightarrow> \<lparr>re_enabled = False, re_port = re_port old, re_wan_access = False\<rparr>)"
    using remote_values [OF F'(2) [unfolded ws_def] N'(2) [unfolded ws_def] assms(7)]
    by (auto simp: req'_def allowed_request_def split: remote_request.split if_splits)
  ultimately show ?thesis using all by blast
qed

text \<open>A router with a ready certificate authority.\<close>

definition ca_output :: string where
  "ca_output = ''status: ready'' @ [CHR 0x0A] @ ''## Certs:'' @ [CHR 0x0A] @ ''01 server turris valid'' @ [CHR 0x0A]"

definition ca_env :: "store env" where
  "ca_env = demo_env\<lparr>env_execute := (\<lambda>argv inp \<sigma>.
     if argv = [''/usr/bin/turris-cagen-status'', ''remote''] then (Exited 0 ca_output [], \<sigma>)
     else ref_execute demo_name argv inp \<sigma>)\<rparr>"

lemma ca_env_tool: "uci_tool ca_env demo_name (\<lambda>\<sigma>. \<sigma>)"
proof unfold_locales
  fix args \<sigma> ok out \<sigma>'
  assume "ref_uci demo_name export_text args \<sigma> = Some ((ok, out), \<sigma>')"
  moreover have "env_execute ca_env (uci_argv ca_env args) None \<sigma> = env_execute demo_env (uci_argv demo_env args) None \<sigma>"
    by (simp add: ca_env_def uci_argv_def demo_env_def ref_env_def)
  ultimately show "\<exists>rc err e'. env_execute ca_env (uci_argv ca_env args) None \<sigma> = (Exited rc out err, e') \<and>
      (rc = 0) = ok \<and> e' = \<sigma>'"
    using uci_tool.uci_runs [OF demo_tool] by simp
qed (simp_all add: ref_execute_def strip_argv_def ca_env_def demo_env_def ref_env_def)

lemma ca_env_services_keep: "services_keep ca_env (\<lambda>\<sigma>. \<sigma>)"
proof -
  have "script_path ca_env service \<noteq> ''uci''" for service
    by (cases service) (auto simp: script_path_def path_join_def inject_cmdline_root_def inject_root_def
        ca_env_def demo_env_def ref_env_def)
  then show ?thesis
    by (simp add: services_keep_def ca_env_def demo_env_def ref_execute_def strip_argv_def)
qed

lemma ca_env_status: "remote_get_status ca_env s = (Ret (''ready'', []), s)"
proof -
  have "parse_ca_status ca_output = Inr (''ready'', [])" by code_simp
  then show ?thesis
    by (simp add: remote_get_status_def run_command_and_check_retval_def run_command_def bindP_def tryP_def Let_def
        handle_command_def inject_cmdline_root_def inject_root_def ca_env_def demo_env_def ref_env_def ret_def lift_def)
qed

lemma remote_settings_read_back_witness:
  "\<exists>F' N'. committed (ext (snd (remote_update_settings ca_env ''mqtt'' (RemoteOn True 12000)
      (demo_state [''firewall'' \<mapsto> [], ''fosquitto'' \<mapsto> []])))) = [''firewall'' \<mapsto> F', ''fosquitto'' \<mapsto> N'] \<and>
    read_remote_settings ''mqtt'' [(''fosquitto'', N')] [(''firewall'', F')] =
      Inr \<lparr>re_enabled = True, re_port = 12000, re_wan_access = True\<rparr>"
proof -
  let ?s = "demo_state [''firewall'' \<mapsto> [], ''fosquitto'' \<mapsto> []]"
  have r: "ready (\<lambda>\<sigma>. \<sigma>) ?s" by (simp add: ready_def)
  have old: "read_remote_settings ''mqtt'' [(''fosquitto'', [])] [(''firewall'', [])] =
      Inr \<lparr>re_enabled = False, re_port = 11884, re_wan_access = False\<rparr>"
    by code_simp
  show ?thesis
    using remote_settings_read_back [OF ca_env_tool ca_env_services_keep ca_env_status r _ _ old, of "RemoteOn True 12000"]
    by (simp add: fun_upd_twist)
qed

end
