(* ===== verification/RouterNotifications.thy ===== *)
theory RouterNotifications
  imports Guest
begin

text \<open>
  \<^verbatim>\<open>foris_controller_backends/router_notifications\<close>: the commands that list, mark and create
  notifications, and the settings of e-mails and reboots, which are proved to be read back.
\<close>

section \<open>Commands\<close>

text \<open>\<open>loads\<close> is \<^verbatim>\<open>json.loads\<close>, \<open>None\<close> when it raises \<^verbatim>\<open>ValueError\<close>.\<close>

definition list_notifications :: "'e env \<Rightarrow> (string \<Rightarrow> 'j option) \<Rightarrow> ('e st, 'j) prog" where
  "list_notifications E loads =
     bindP (run_command_and_check_retval E [''/usr/bin/list_notifications'', ''-n''] 0) (\<lambda>(out, _).
       case loads (strip out) of
         None \<Rightarrow> raise (FailedToParseCommandOutput [''/usr/bin/list_notifications'', ''-n''] out)
       | Some parsed \<Rightarrow> ret parsed)"

definition active_count :: "'e env \<Rightarrow> ('e st, int) prog" where
  "active_count E s = (Ret (int (length (env_glob E ''/tmp/user_notify/*-*'' (ext s))) -
     int (length (env_glob E ''/tmp/user_notify/*-*/displayed'' (ext s)))), s)"

definition mark_as_displayed :: "'e env \<Rightarrow> string list \<Rightarrow> ('e st, unit) prog" where
  "mark_as_displayed E ids =
     bindP (run_command_and_check_retval E (''/usr/bin/user-notify-display'' # ids) 0) (\<lambda>_. ret ())"

definition create_notification :: "'e env \<Rightarrow> string \<Rightarrow> string \<Rightarrow> bool \<Rightarrow> ('e st, bool) prog" where
  "create_notification E msg severity immediate =
     bindP (run_command E ([''/usr/bin/create_notification''] @ (if immediate then [''-t''] else []) @
         [''-s'', severity, msg]) None) (\<lambda>(rc, _). ret (rc = 0))"

section \<open>Settings\<close>

record smtp_custom =
  sc_from :: uval
  sc_host :: uval
  sc_port :: int
  sc_username :: uval
  sc_password :: uval
  sc_security :: uval

record notice_settings =
  no_enabled :: bool
  no_to :: uval
  no_severity :: int
  no_news :: bool
  no_sender :: uval
  no_custom :: smtp_custom
  no_reboot_time :: uval
  no_reboot_delay :: int
  no_turris :: bool

definition notify_option :: "uci_data \<Rightarrow> string \<Rightarrow> string \<Rightarrow> uval option \<Rightarrow> uval res" where
  "notify_option data section opt dflt = get_option_named data ''user_notify'' section opt dflt"

definition read_smtp_custom :: "uci_data \<Rightarrow> smtp_custom res" where
  "read_smtp_custom data =
     bindE (notify_option data ''smtp'' ''from'' (Some (Str []))) (\<lambda>from.
     bindE (notify_option data ''smtp'' ''server'' (Some (Str []))) (\<lambda>host.
     bindE (bindE (notify_option data ''smtp'' ''port'' (Some (Str ''465''))) uval_int) (\<lambda>port.
     bindE (notify_option data ''smtp'' ''username'' (Some (Str []))) (\<lambda>username.
     bindE (notify_option data ''smtp'' ''password'' (Some (Str []))) (\<lambda>password.
     bindE (notify_option data ''smtp'' ''security'' (Some (Str ''ssl''))) (\<lambda>security.
       Inr \<lparr>sc_from = from, sc_host = host, sc_port = port, sc_username = username, sc_password = password,
            sc_security = security\<rparr>))))))"

definition read_notice_settings :: "uci_data \<Rightarrow> notice_settings res" where
  "read_notice_settings data =
     bindE (bindE (notify_option data ''smtp'' ''enable'' (Some (Str ''0''))) parse_bool) (\<lambda>enabled.
     bindE (notify_option data ''smtp'' ''to'' (Some (Lst []))) (\<lambda>to.
     bindE (bindE (notify_option data ''notifications'' ''severity'' (Some (Str ''1''))) uval_int) (\<lambda>severity.
     bindE (bindE (notify_option data ''notifications'' ''news'' (Some (Str ''1''))) parse_bool) (\<lambda>news.
     bindE (notify_option data ''smtp'' ''sender_name'' (Some (Str ''turris''))) (\<lambda>sender.
     bindE (read_smtp_custom data) (\<lambda>custom.
     bindE (notify_option data ''reboot'' ''time'' None) (\<lambda>time.
     bindE (bindE (notify_option data ''reboot'' ''delay'' None) uval_int) (\<lambda>delay.
     bindE (bindE (notify_option data ''smtp'' ''use_turris_smtp'' (Some (Str ''1''))) parse_bool) (\<lambda>turris.
       Inr \<lparr>no_enabled = enabled, no_to = to, no_severity = severity, no_news = news, no_sender = sender,
            no_custom = custom, no_reboot_time = time, no_reboot_delay = delay, no_turris = turris\<rparr>)))))))))"

definition notices_get_settings :: "'e env \<Rightarrow> ('e st, notice_settings) prog" where
  "notices_get_settings E =
     bindP (with_uci E (read_uci E ''user_notify'')) (\<lambda>data. lift (read_notice_settings data))"

record custom_request =
  cr_from :: string
  cr_host :: string
  cr_port :: int
  cr_security :: string
  cr_username :: string
  cr_password :: string

datatype smtp_request = TurrisSmtp string | CustomSmtp custom_request

record email_request =
  er_smtp :: smtp_request
  er_to :: "string list"
  er_severity :: int
  er_news :: bool

text \<open>A request to disable e-mails carries nothing else.\<close>

datatype emails = EmailsOff | EmailsOn email_request

definition smtp_writes :: "smtp_request \<Rightarrow> uwrite list" where
  "smtp_writes r = (case r of
      TurrisSmtp sender \<Rightarrow>
        [SetOption ''user_notify'' ''smtp'' ''use_turris_smtp'' (store_bool True),
         SetOption ''user_notify'' ''smtp'' ''sender_name'' sender]
    | CustomSmtp c \<Rightarrow>
        [SetOption ''user_notify'' ''smtp'' ''use_turris_smtp'' (store_bool False),
         SetOption ''user_notify'' ''smtp'' ''from'' (cr_from c),
         SetOption ''user_notify'' ''smtp'' ''server'' (cr_host c),
         SetOption ''user_notify'' ''smtp'' ''port'' (show_int (cr_port c)),
         SetOption ''user_notify'' ''smtp'' ''security'' (cr_security c)] @
        (if strip (cr_username c) \<noteq> [] then [SetOption ''user_notify'' ''smtp'' ''username'' (strip (cr_username c))] else []) @
        (if cr_password c \<noteq> [] then [SetOption ''user_notify'' ''smtp'' ''password'' (cr_password c)] else []))"

definition email_writes :: "emails \<Rightarrow> uwrite list" where
  "email_writes e = (case e of
      EmailsOff \<Rightarrow> [SetOption ''user_notify'' ''smtp'' ''enable'' (store_bool False)]
    | EmailsOn r \<Rightarrow>
        [AddSection ''user_notify'' ''smtp'' ''smtp'',
         SetOption ''user_notify'' ''smtp'' ''enable'' (store_bool True)] @
        smtp_writes (er_smtp r) @
        [ReplaceList ''user_notify'' ''smtp'' ''to'' (er_to r),
         AddSection ''user_notify'' ''notifications'' ''notifications'',
         SetOption ''user_notify'' ''notifications'' ''severity'' (show_int (er_severity r)),
         SetOption ''user_notify'' ''notifications'' ''news'' (store_bool (er_news r))])"

definition reboot_writes :: "string \<times> int \<Rightarrow> uwrite list" where
  "reboot_writes r =
     [AddSection ''user_notify'' ''reboot'' ''reboot'',
      SetOption ''user_notify'' ''reboot'' ''time'' (fst r),
      SetOption ''user_notify'' ''reboot'' ''delay'' (show_int (snd r))]"

definition notice_writes :: "emails option \<Rightarrow> (string \<times> int) option \<Rightarrow> uwrite list" where
  "notice_writes emails reboots =
     (case emails of None \<Rightarrow> [] | Some e \<Rightarrow> email_writes e) @ (case reboots of None \<Rightarrow> [] | Some r \<Rightarrow> reboot_writes r)"

definition notices_update_settings :: "'e env \<Rightarrow> emails option \<Rightarrow> (string \<times> int) option \<Rightarrow> ('e st, bool) prog" where
  "notices_update_settings E emails reboots =
     bindP (with_uci E (writes E (notice_writes emails reboots))) (\<lambda>_. ret True)"

section \<open>Reading back\<close>

text \<open>What is shown of the server: what the request does not tell stays as it was.\<close>

fun custom_shown :: "smtp_request \<Rightarrow> smtp_custom \<Rightarrow> smtp_custom" where
  "custom_shown (TurrisSmtp sender) old = old"
| "custom_shown (CustomSmtp c) old =
     \<lparr>sc_from = Str (cr_from c), sc_host = Str (cr_host c), sc_port = cr_port c,
      sc_username = (if strip (cr_username c) \<noteq> [] then Str (strip (cr_username c)) else sc_username old),
      sc_password = (if cr_password c \<noteq> [] then Str (cr_password c) else sc_password old),
      sc_security = Str (cr_security c)\<rparr>"

fun smtp_valid :: "smtp_request \<Rightarrow> bool" where
  "smtp_valid (TurrisSmtp sender) = (sender \<noteq> [])"
| "smtp_valid (CustomSmtp c) = (cr_security c \<noteq> [])"

lemma notice_names [simp]:
  "valid_name ''user_notify''" "valid_name ''smtp''" "valid_name ''notifications''" "valid_name ''reboot''"
  "valid_name ''enable''" "valid_name ''use_turris_smtp''" "valid_name ''sender_name''" "valid_name ''from''"
  "valid_name ''server''" "valid_name ''port''" "valid_name ''security''" "valid_name ''username''"
  "valid_name ''password''" "valid_name ''to''" "valid_name ''severity''" "valid_name ''news''"
  "valid_name ''time''" "valid_name ''delay''"
  by (simp_all add: valid_name_def name_char_def)

lemma notice_writes_facts:
  assumes "ws = notice_writes (Some (EmailsOn r)) (Some reboots)"
  shows "list_all write_names_valid ws" "sections_known ws (\<lambda>_ _. False)" "list_all (\<lambda>w. config_of w = ''user_notify'') ws"
  using assms
  by (cases "er_smtp r"; simp add: notice_writes_def email_writes_def smtp_writes_def reboot_writes_def)+

lemma custom_read_back:
  assumes "follows (notice_writes (Some (EmailsOn r)) (Some reboots)) ''user_notify'' N N'"
    and "read_smtp_custom [(''user_notify'', N)] = Inr old" "smtp_valid (er_smtp r)"
  shows "read_smtp_custom [(''user_notify'', N')] = Inr (custom_shown (er_smtp r) old)"
  using assms(2,3)
  by (cases "er_smtp r")
     (auto simp: read_smtp_custom_def notify_option_def get_option_named_eq follows_lk [OF assms(1)]
       notice_writes_def email_writes_def smtp_writes_def reboot_writes_def bindE_eq_Inr split: option.splits if_splits)

text \<open>
  C34: the settings of e-mails and reboots are read back as they were written; a user name or
  password left out keeps the stored one, and the settings of the other kind of server are kept.
\<close>

theorem notice_settings_read_back:
  assumes "uci_tool E nm view" "ready view s" "committed (view (ext s)) ''user_notify'' = Some N"
    and "read_smtp_custom [(''user_notify'', N)] = Inr old" "smtp_valid (er_smtp r)" "time \<noteq> []"
  shows "\<exists>s' N'. notices_update_settings E (Some (EmailsOn r)) (Some (time, delay)) s = (Ret True, s') \<and>
    committed (view (ext s')) = (committed (view (ext s)))(''user_notify'' \<mapsto> N') \<and>
    read_notice_settings [(''user_notify'', N')] = Inr
      \<lparr>no_enabled = True, no_to = Lst (er_to r), no_severity = er_severity r, no_news = er_news r,
       no_sender = (case er_smtp r of TurrisSmtp sender \<Rightarrow> Str sender
         | CustomSmtp _ \<Rightarrow> (case lk N ''smtp'' ''sender_name'' of Some v \<Rightarrow> v | None \<Rightarrow> Str ''turris'')),
       no_custom = custom_shown (er_smtp r) old, no_reboot_time = Str time, no_reboot_delay = delay,
       no_turris = (case er_smtp r of TurrisSmtp _ \<Rightarrow> True | CustomSmtp _ \<Rightarrow> False)\<rparr>"
proof -
  define ws where "ws = notice_writes (Some (EmailsOn r)) (Some (time, delay))"
  note facts = notice_writes_facts [OF ws_def]
  have cfg: "set (map config_of ws) \<subseteq> {''user_notify''}" using facts(3) by (auto simp: list_all_iff)
  obtain m where m: "apply_writes ws (committed (view (ext s))) = Some m"
    using apply_writes_defined [OF facts(2), of "committed (view (ext s))"] assms(3) facts(3) by (auto simp: list_all_iff)
  obtain N' where N': "m ''user_notify'' = Some N'" "follows ws ''user_notify'' N N'"
    using apply_writes_follows [OF m assms(3)] by blast
  have "m = (committed (view (ext s)))(''user_notify'' \<mapsto> N')"
    using apply_writes_other [OF m] cfg N'(1) by (auto simp: fun_eq_iff)
  moreover obtain s' where "with_uci E (writes E ws) s = (Ret (), s')" "committed (view (ext s')) = m"
    using writes_transaction [OF assms(1) _ _ facts(1) m] assms(2) by (auto simp: ready_def)
  moreover have "read_notice_settings [(''user_notify'', N')] = Inr
      \<lparr>no_enabled = True, no_to = Lst (er_to r), no_severity = er_severity r, no_news = er_news r,
       no_sender = (case er_smtp r of TurrisSmtp sender \<Rightarrow> Str sender
         | CustomSmtp _ \<Rightarrow> (case lk N ''smtp'' ''sender_name'' of Some v \<Rightarrow> v | None \<Rightarrow> Str ''turris'')),
       no_custom = custom_shown (er_smtp r) old, no_reboot_time = Str time, no_reboot_delay = delay,
       no_turris = (case er_smtp r of TurrisSmtp _ \<Rightarrow> True | CustomSmtp _ \<Rightarrow> False)\<rparr>"
    using custom_read_back [OF N'(2) [unfolded ws_def] assms(4,5)] assms(5,6)
    by (cases "er_smtp r"; cases "er_to r")
       (simp_all add: read_notice_settings_def notify_option_def get_option_named_eq follows_lk [OF N'(2)] ws_def
         notice_writes_def email_writes_def smtp_writes_def reboot_writes_def split: option.split)
  ultimately show ?thesis
    by (intro exI [of _ s'] exI [of _ N']) (simp add: notices_update_settings_def bindP_def ret_def ws_def)
qed

definition demo_email :: email_request where
  "demo_email = \<lparr>er_smtp = CustomSmtp \<lparr>cr_from = ''router@example.com'', cr_host = ''smtp.example.com'', cr_port = 587,
       cr_security = ''starttls'', cr_username = '' admin '', cr_password = []\<rparr>,
     er_to = [''me@example.com''], er_severity = 2, er_news = False\<rparr>"

definition demo_notify :: "usection list" where
  "demo_notify = [\<lparr>sec_type = ''smtp'', sec_name = ''smtp'', sec_data = [(''password'', Str ''secret'')], anonymous = False\<rparr>]"

lemma notice_settings_read_back_witness:
  "\<exists>s' N'. notices_update_settings demo_env (Some (EmailsOn demo_email)) (Some (''03:30'', 3))
      (demo_state [''user_notify'' \<mapsto> demo_notify]) = (Ret True, s') \<and>
    committed (ext s') = [''user_notify'' \<mapsto> N'] \<and>
    read_notice_settings [(''user_notify'', N')] = Inr
      \<lparr>no_enabled = True, no_to = Lst [''me@example.com''], no_severity = 2, no_news = False, no_sender = Str ''turris'',
       no_custom = \<lparr>sc_from = Str ''router@example.com'', sc_host = Str ''smtp.example.com'', sc_port = 587,
         sc_username = Str ''admin'', sc_password = Str ''secret'', sc_security = Str ''starttls''\<rparr>,
       no_reboot_time = Str ''03:30'', no_reboot_delay = 3, no_turris = False\<rparr>"
proof -
  define old where "old = \<lparr>sc_from = Str [], sc_host = Str [], sc_port = 465, sc_username = Str [],
    sc_password = Str ''secret'', sc_security = Str ''ssl''\<rparr>"
  have facts: "read_smtp_custom [(''user_notify'', demo_notify)] = Inr old" "smtp_valid (er_smtp demo_email)"
    "lk demo_notify ''smtp'' ''sender_name'' = None" "strip '' admin '' = ''admin''"
    unfolding old_def by code_simp+
  have st: "ready (\<lambda>\<sigma>. \<sigma>) (demo_state [''user_notify'' \<mapsto> demo_notify])" by (simp add: ready_def)
  show ?thesis
    using notice_settings_read_back [OF demo_tool st _ facts(1,2), of "''03:30''" 3] facts(3,4)
    by (simp add: demo_email_def old_def)
qed

end
