(* ===== verification/Clock.thy ===== *)
theory Clock
  imports Wifi AsyncCommands
begin

text \<open>
  \<^verbatim>\<open>foris_controller_backends/time\<close>: setting the clock, the time settings and the run of
  \<^verbatim>\<open>ntpd\<close>. The lock \<^verbatim>\<open>time_lock\<close> is not part of the model. A point of time is given as
  \<^verbatim>\<open>strftime\<close> prints it; \<open>tz\<close> is the third-party table \<^verbatim>\<open>TZ_GNU\<close>.
\<close>

section \<open>The clock\<close>

text \<open>Twice, because the command sometimes fails without an error.\<close>

definition set_hwclock :: "'e env \<Rightarrow> ('e st, unit) prog" where
  "set_hwclock E =
     bindP (run_command E [''/sbin/hwclock'', ''-u'', ''-w''] None) (\<lambda>_.
     bindP (run_command E [''/sbin/hwclock'', ''-u'', ''-w''] None) (\<lambda>_. ret ()))"

definition set_time :: "'e env \<Rightarrow> string \<Rightarrow> ('e st, unit) prog" where
  "set_time E time = bindP (run_command E [''/bin/date'', ''-s'', time] None) (\<lambda>_. set_hwclock E)"

section \<open>Settings\<close>

definition get_default_servers :: "'e env \<Rightarrow> ('e st, string list) prog" where
  "get_default_servers E =
     bindP (file_content E ''/usr/share/turris-defaults/ntpservers'') (\<lambda>servers.
       ret (split_on CHR 0x0A (strip servers)))"

record time_settings =
  ts_region :: string
  ts_country :: uval
  ts_city :: string
  ts_timezone :: uval
  ts_ntp :: bool
  ts_servers :: "string list"
  ts_extras :: "string list"

text \<open>\<^verbatim>\<open>region, city = zonename.split("/", maxsplit=1)\<close>, both empty without a slash.\<close>

definition split_zone :: "uval \<Rightarrow> (string \<times> string) res" where
  "split_zone zonename =
     bindE (str_of zonename) (\<lambda>z. Inr (case split_once CHR ''/'' z of [region, city] \<Rightarrow> (region, city) | _ \<Rightarrow> ([], [])))"

text \<open>What a \<^verbatim>\<open>for\<close> loop over a value sees: of a single server its characters.\<close>

fun uval_items :: "uval \<Rightarrow> string list res" where
  "uval_items (Lst xs) = Inr xs"
| "uval_items (Str s) = Inr (map (\<lambda>c. [c]) s)"
| "uval_items _ = Inl TypeError"

definition system_option :: "uci_data \<Rightarrow> string \<Rightarrow> uval option \<Rightarrow> uval res" where
  "system_option data opt dflt = get_option_anonymous data ''system'' ''system'' 0 opt dflt"

definition read_time_settings :: "uci_data \<Rightarrow> string list \<Rightarrow> time_settings res" where
  "read_time_settings data defaults =
     bindE (system_option data ''timezone'' None) (\<lambda>timezone.
     bindE (system_option data ''_country'' (Some (Str ''00''))) (\<lambda>country.
     bindE (system_option data ''zonename'' (Some (Str ''UTC''))) (\<lambda>zonename.
     bindE (split_zone zonename) (\<lambda>(region, city).
     bindE (bindE (get_option_named data ''system'' ''ntp'' ''enabled'' (Some (Str ''1''))) parse_bool) (\<lambda>ntp.
     bindE (bindE (get_option_named data ''system'' ''ntp'' ''server'' (Some (Lst []))) uval_items) (\<lambda>servers.
       Inr \<lparr>ts_region = region, ts_country = country, ts_city = city, ts_timezone = timezone, ts_ntp = ntp,
            ts_servers = defaults, ts_extras = filter (\<lambda>x. x \<notin> set defaults) servers\<rparr>))))))"

text \<open>The defaults are read after the other options, from a file that reading does not change.\<close>

definition time_get_settings :: "'e env \<Rightarrow> ('e st, time_settings) prog" where
  "time_get_settings E =
     bindP (with_uci E (read_uci E ''system'')) (\<lambda>data.
     bindP (lift (read_time_settings data [])) (\<lambda>_.
     bindP (get_default_servers E) (\<lambda>defaults. lift (read_time_settings data defaults))))"

record time_request =
  tr_region :: string
  tr_country :: string
  tr_city :: string
  tr_extras :: "string list"
  tr_manual :: "string option"

text \<open>\<open>tr_manual\<close> is the time to set, \<open>None\<close> when it is to be set by NTP.\<close>

definition underscored :: "string \<Rightarrow> string" where
  "underscored s = map (\<lambda>c. if c = CHR '' '' then CHR ''_'' else c) s"

definition time_zone :: "(string \<Rightarrow> string option) \<Rightarrow> time_request \<Rightarrow> string" where
  "time_zone tz q = (case tz (tr_region q @ ''/'' @ underscored (tr_city q)) of Some z \<Rightarrow> z | None \<Rightarrow> ''UTC'')"

definition time_update_body :: "'e env \<Rightarrow> (string \<Rightarrow> string option) \<Rightarrow> time_request \<Rightarrow> ('e st, unit) prog" where
  "time_update_body E tz q =
     block [set_option E ''system'' ''@system[0]'' ''timezone'' (time_zone tz q),
       set_option E ''system'' ''@system[0]'' ''_country'' (tr_country q),
       set_option E ''system'' ''@system[0]'' ''zonename'' (tr_region q @ ''/'' @ tr_city q),
       set_option E ''system'' ''ntp'' ''enabled'' (store_bool (tr_manual q = None)),
       tryP (del_from_list E ''system'' ''ntp'' ''server'' None) is_uci_exception (\<lambda>_. ret ()),
       bindP (get_default_servers E) (\<lambda>defaults. add_to_list E ''system'' ''ntp'' ''server'' (defaults @ tr_extras q)),
       tryP (bindP (read_uci E ''wireless'') (\<lambda>data. update_regulator_domain E data (tr_country q)))
         is_uci_exception (\<lambda>_. ret ())]"

definition restart_time_services :: "'e env \<Rightarrow> bool \<Rightarrow> ('e st, unit) prog" where
  "restart_time_services E ntp =
     block ((if ntp then [service_command E Enable ''sysntpd'' None False, service_command E Restart ''sysntpd'' None False]
             else [service_command E Disable ''sysntpd'' None False, service_command E Stop ''sysntpd'' None False]) @
            [service_command E Restart ''system'' None True])"

definition time_update_settings :: "'e env \<Rightarrow> (string \<Rightarrow> string option) \<Rightarrow> time_request \<Rightarrow> ('e st, bool) prog" where
  "time_update_settings E tz q =
     bindP (with_uci E (time_update_body E tz q)) (\<lambda>_.
     bindP (try_update_passed E ''time'') (\<lambda>_.
     bindP (with_services (restart_time_services E (tr_manual q = None))) (\<lambda>_.
     bindP (case tr_manual q of None \<Rightarrow> ret () | Some time \<Rightarrow> set_time E time) (\<lambda>_.
     bindP (set_regulatory_domain E (Some (tr_country q))) (\<lambda>_. ret True)))))"

section \<open>Running ntpd\<close>

definition ntpd_args :: "'e env \<Rightarrow> ('e st, string list) prog" where
  "ntpd_args E =
     bindP (path_exists E ''/sbin/ntpd'') (\<lambda>old.
     bindP (with_uci E (read_uci E ''system'')) (\<lambda>data.
     bindP (lift (bindE (get_option_named data ''system'' ''ntp'' ''server'' (Some (Lst []))) uval_items)) (\<lambda>servers.
       ret ([if old then ''/sbin/ntpd'' else ''/usr/sbin/ntpd'', ''-q'', ''-n''] @ concat (map (\<lambda>y. [''-p'', y]) servers)))))"

text \<open>The notification sent when it ends; a clock that cannot be written sends none.\<close>

definition ntpd_exit :: "'e env \<Rightarrow> unit proc_data \<Rightarrow> ('e st, string \<times> bool) prog" where
  "ntpd_exit E d =
     bindP (if pd_retval d = 0 then set_hwclock E else ret ()) (\<lambda>_. ret (pd_id d, pd_retval d = 0))"

end
