(* ===== verification/Handlers.thy ===== *)
theory Handlers
  imports LanService Updater Remote RouterNotifications Clock
begin

text \<open>
  The handlers for devices that ask the services of the system:
  \<^verbatim>\<open>foris_controller_modules/*/handlers/openwrt.py\<close> of \<^verbatim>\<open>system\<close>, \<^verbatim>\<open>maintain\<close>, \<^verbatim>\<open>password\<close>,
  \<^verbatim>\<open>about\<close>, \<^verbatim>\<open>web\<close>, \<^verbatim>\<open>router_notifications\<close>, \<^verbatim>\<open>remote\<close>, \<^verbatim>\<open>time\<close> and \<^verbatim>\<open>updater\<close>. A handler binds the arguments
  of a call, asks the backends and gives the answer as the JSON value that the schemas describe.
  The theorem follows the setting of a password and its check from message to message.
\<close>

section \<open>Calls of Python methods\<close>

text \<open>Required parameters and optional ones with their defaults.\<close>

definition positional :: "string list \<Rightarrow> (string \<times> json) list \<Rightarrow> json list \<Rightarrow> json list res" where
  "positional req opt vs =
     (if length req \<le> length vs \<and> length vs \<le> length req + length opt
      then Inr (vs @ map snd (drop (length vs - length req) opt)) else Inl TypeError)"

definition keyword :: "string list \<Rightarrow> (string \<times> json) list \<Rightarrow> (string \<times> json) list \<Rightarrow> json list res" where
  "keyword req opt kv =
     (if set (map fst kv) \<subseteq> set (req @ map fst opt)
      then bindE (mapE (\<lambda>k. case map_of kv k of Some v \<Rightarrow> Inr v | None \<Rightarrow> Inl TypeError) req) (\<lambda>vs.
        Inr (vs @ map (\<lambda>(k, d). case map_of kv k of Some v \<Rightarrow> v | None \<Rightarrow> d) opt))
      else Inl TypeError)"

fun py_method ::
  "string list \<Rightarrow> (string \<times> json) list \<Rightarrow> (json list \<Rightarrow> ('s, json) prog) \<Rightarrow> 's args \<Rightarrow> ('s, json) prog" where
  "py_method req opt f (Pos vs) = bindP (lift (positional req opt vs)) f"
| "py_method req opt f (Kw v) =
     bindP (lift (case v of JObj kv \<Rightarrow> keyword req opt kv | _ \<Rightarrow> Inl TypeError)) f"
| "py_method req opt f (Task vs notify exit_notify) = raise TypeError"

fun task_method ::
  "nat \<Rightarrow> (json list \<Rightarrow> (json \<Rightarrow> ('s, unit) prog) \<Rightarrow> (json \<Rightarrow> ('s, unit) prog) \<Rightarrow> ('s, string) prog) \<Rightarrow>
    's args \<Rightarrow> ('s, json) prog" where
  "task_method n start (Task vs notify exit_notify) =
     (if length vs = n then bindP (start vs notify exit_notify) (\<lambda>i. ret (JStr i)) else raise TypeError)"
| "task_method n start _ = raise TypeError"

text \<open>A method without parameters.\<close>

definition py_get :: "('a \<Rightarrow> json) \<Rightarrow> ('s, 'a) prog \<Rightarrow> 's args \<Rightarrow> ('s, json) prog" where
  "py_get encode p = py_method [] [] (\<lambda>_. bindP p (\<lambda>x. ret (encode x)))"

text \<open>With the same arguments given by position or by name a method does the same.\<close>

lemma keyword_positional:
  assumes "distinct (map fst kv @ map fst opt)"
  shows "keyword (map fst kv) opt kv = positional (map fst kv) opt (map snd kv)"
proof -
  have each: "map_of kv (fst p) = Some (snd p)" if "p \<in> set kv" for p
    using that assms by (simp add: map_of_is_SomeI)
  have run: "mapE f xs = Inr (map g xs)" if "\<forall>x\<in>set xs. f x = Inr (g x)" for f xs and g :: "string \<Rightarrow> json"
    using that by (induction xs) (simp_all add: bindE_def)
  have "mapE (\<lambda>k. case map_of kv k of Some v \<Rightarrow> Inr v | None \<Rightarrow> Inl TypeError) (map fst kv) = Inr (map (\<lambda>k. the (map_of kv k)) (map fst kv))"
    by (rule run) (auto simp: each)
  moreover have "map_of kv k = None" if "(k, d) \<in> set opt" for k d
    using that assms by (force simp: map_of_eq_None_iff)
  ultimately show ?thesis
    by (auto simp: keyword_def positional_def bindE_def each split: prod.splits option.splits)
qed

section \<open>Values\<close>

text \<open>Values that the schemas refuse end in \<^verbatim>\<open>TypeError\<close>.\<close>

fun json_bool :: "json \<Rightarrow> bool res" where
  "json_bool (JBool b) = Inr b"
| "json_bool _ = Inl TypeError"

fun json_number :: "json \<Rightarrow> int res" where
  "json_number (JNum n) = Inr n"
| "json_number _ = Inl TypeError"

definition json_list :: "(json \<Rightarrow> 'a res) \<Rightarrow> json \<Rightarrow> 'a list res" where
  "json_list f v = (case v of JArr xs \<Rightarrow> mapE f xs | _ \<Rightarrow> Inl TypeError)"

definition json_opt :: "(json \<Rightarrow> 'a res) \<Rightarrow> json \<Rightarrow> 'a option res" where
  "json_opt f v = (if v = JNull then Inr None else bindE (f v) (\<lambda>x. Inr (Some x)))"

text \<open>\<^verbatim>\<open>v.get(k)\<close> of a dictionary.\<close>

definition given_field :: "json \<Rightarrow> string \<Rightarrow> (json \<Rightarrow> 'a res) \<Rightarrow> 'a option res" where
  "given_field v k f = bindE (jget_opt v k) (json_opt f)"

definition json_texts :: "string list \<Rightarrow> json" where
  "json_texts xs = JArr (map JStr xs)"

definition maybe :: "string \<Rightarrow> ('a \<Rightarrow> json) \<Rightarrow> 'a option \<Rightarrow> (string \<times> json) list" where
  "maybe k f v = (case v of None \<Rightarrow> [] | Some x \<Rightarrow> [(k, f x)])"

section \<open>system and maintain\<close>

definition openwrt_system :: "'e env \<Rightarrow> 'e st handler" where
  "openwrt_system E = map_of
     [(''get_hostname'', py_get uval_json (get_hostname E)),
      (''set_hostname'', py_method [''hostname''] [] (\<lambda>vs. bindP (lift (json_str (hd vs))) (\<lambda>h.
         bindP (set_hostname E h) (\<lambda>b. ret (JBool b)))))]"

definition openwrt_maintain ::
  "'e env \<Rightarrow> (string list \<Rightarrow> ('e st, unit) prog) \<Rightarrow> (exn \<Rightarrow> bool) \<Rightarrow> 'e st handler" where
  "openwrt_maintain E run_updater disabled = map_of
     [(''reboot'', py_get (\<lambda>_. JBool True) (reboot E)),
      (''generate_backup'', py_get JStr (generate_backup E)),
      (''restore_backup'', py_method [''backup''] [] (\<lambda>vs. bindP (lift (json_str (hd vs))) (\<lambda>b.
         bindP (restore_backup E run_updater disabled b) (\<lambda>ok. ret (JBool ok)))))]"

section \<open>password\<close>

fun json_password_result :: "password_result \<Rightarrow> json" where
  "json_password_result PasswordSet = JObj [(''result'', JBool True)]"
| "json_password_result (Pawned l n) = JObj [(''result'', JBool False), (''list'', JStr l), (''count'', JNum n)]"

definition check_foris_password ::
  "'e env \<Rightarrow> (string \<Rightarrow> string option \<Rightarrow> string) \<Rightarrow> string \<Rightarrow> ('e st, json) prog" where
  "check_foris_password E crypt password =
     tryP (bindP (check_password E crypt password) (\<lambda>ok. ret (JStr (if ok then ''good'' else ''bad''))))
       is_record_not_found (\<lambda>_. ret (JStr ''unset''))"

definition with_text :: "(string \<Rightarrow> ('s, json) prog) \<Rightarrow> json list \<Rightarrow> ('s, json) prog" where
  "with_text f vs = bindP (lift (json_str (hd vs))) f"

definition openwrt_password :: "'e env \<Rightarrow> (string \<Rightarrow> string option \<Rightarrow> string) \<Rightarrow> 'e st handler" where
  "openwrt_password E crypt = map_of
     [(''check_foris_password'', py_method [''password''] [] (with_text (check_foris_password E crypt))),
      (''set_foris_password'', py_method [''password''] [] (with_text (\<lambda>p.
         bindP (set_password E crypt p) (\<lambda>r. ret (json_password_result r))))),
      (''set_system_password'', py_method [''password''] [] (with_text (\<lambda>p.
         bindP (set_system_password E p) (\<lambda>r. ret (json_password_result r)))))]"

section \<open>about\<close>

definition json_device_info :: "device_info \<Rightarrow> json" where
  "json_device_info d = JObj
     [(''model'', JStr (di_model d)), (''kernel'', JStr (di_kernel d)), (''os_version'', JStr (di_os_version d)),
      (''os_branch'', JObj [(''mode'', JStr (fst (di_os_branch d))), (''value'', JStr (snd (di_os_branch d)))])]"

definition openwrt_about :: "'e env \<Rightarrow> 'e st svupdater \<Rightarrow> 'e st handler" where
  "openwrt_about E U = map_of
     [(''get_device_info'', py_get json_device_info (get_device_info E U)),
      (''get_serial'', py_get (\<lambda>n. JObj [(''serial'', JStr n)]) (get_serial E)),
      (''get_registration_number'', py_get (\<lambda>n. JObj [(''registration_number'',
         case n of Some r \<Rightarrow> JStr r | None \<Rightarrow> JBool False)]) (get_registration_number E)),
      (''get_customization'', py_get (json_of_option JStr) (get_customization U))]"

section \<open>web\<close>

definition json_guide :: "guide \<Rightarrow> (string \<times> json) list" where
  "json_guide g =
     [(''enabled'', JBool (g_enabled g)), (''workflow'', uval_json (g_workflow g)), (''passed'', uval_json (g_passed g))] @
     maybe ''next_step'' JStr (g_next_step g)"

text \<open>\<^verbatim>\<open>profiles.WORKFLOWS[workflow]\<close>; a list cannot be a key.\<close>

definition steps_of :: "uval \<Rightarrow> string list res" where
  "steps_of w = (case w of
      Str s \<Rightarrow> (case map_of workflows s of Some steps \<Rightarrow> Inr steps | None \<Rightarrow> Inl (KeyError s))
    | _ \<Rightarrow> Inl TypeError)"

definition openwrt_get_data :: "'e env \<Rightarrow> 'e st svupdater \<Rightarrow> ('e st, json) prog" where
  "openwrt_get_data E U =
     bindP (web_get_data E) (\<lambda>d.
     bindP (updater_running U) (\<lambda>running.
     bindP (active_count E) (\<lambda>count.
     bindP (reboot_required E) (\<lambda>reboot.
     bindP (lift (steps_of (g_workflow (wd_guide d)))) (\<lambda>steps.
     bindP (get_model E) (\<lambda>model.
     bindP (get_os_version E) (\<lambda>version.
       ret (JObj
         [(''password_ready'', JBool (wd_password_ready d)), (''language'', uval_json (wd_language d)),
          (''guide'', JObj (json_guide (wd_guide d) @ [(''workflow_steps'', json_texts steps)])),
          (''updater_running'', JBool running), (''notification_count'', JNum count),
          (''reboot_required'', JBool reboot), (''device'', JStr model), (''turris_os_version'', JStr version)]))))))))"

definition json_guide_choice :: "guide_choice \<Rightarrow> json" where
  "json_guide_choice g = JObj
     [(''current_workflow'', uval_json (current_workflow g)), (''recommended_workflow'', JStr (recommended_workflow g)),
      (''available_workflows'', json_texts (available_workflows g))]"

definition openwrt_web ::
  "'e env \<Rightarrow> 'e st svupdater \<Rightarrow> string \<Rightarrow> (string \<times> string) list \<Rightarrow> 'e st handler" where
  "openwrt_web E U lang_dir ifaces = map_of
     [(''set_language'', py_method [''language''] [] (with_text (\<lambda>l.
         bindP (set_language E lang_dir l) (\<lambda>b. ret (JBool b))))),
      (''list_languages'', py_get json_texts (list_languages E lang_dir)),
      (''update_guide'', py_method [''enabled''] [(''workflow'', JNull)] (\<lambda>vs.
         bindP (lift (json_opt json_str (vs ! 1))) (\<lambda>w.
         bindP (update_guide E ifaces (json_truthy (vs ! 0)) w) (\<lambda>b. ret (JBool b))))),
      (''get_data'', py_get (\<lambda>d. d) (openwrt_get_data E U)),
      (''get_guide'', py_get json_guide_choice (get_guide E ifaces)),
      (''reset_guide'', py_method [] [(''new_workflow'', JNull)] (\<lambda>vs.
         bindP (lift (json_opt json_str (hd vs))) (\<lambda>w. bindP (reset_guide E w) (\<lambda>b. ret (JBool b)))))]"

section \<open>router_notifications\<close>

text \<open>
  \<^verbatim>\<open>int(id.split("-")[0])\<close> is the time the notification was created; \<open>isofmt\<close> is
  \<^verbatim>\<open>datetime.fromtimestamp(...).isoformat()\<close>.
\<close>

definition created_at :: "(int \<Rightarrow> string) \<Rightarrow> json \<Rightarrow> json res" where
  "created_at isofmt i = (case i of
      JStr t \<Rightarrow> (case py_int (hd (split_on CHR ''-'' t)) of Some n \<Rightarrow> Inr (JStr (isofmt n)) | None \<Rightarrow> Inl ValueError)
    | _ \<Rightarrow> Inl AttributeError)"

text \<open>The text in the language asked for, or else the English one.\<close>

definition notice_text :: "json \<Rightarrow> string \<Rightarrow> (string \<times> json) list res" where
  "notice_text messages lang =
     bindE (jget_opt messages lang) (\<lambda>msg.
     if msg \<noteq> JNull then Inr [(''msg'', msg), (''lang'', JStr lang)]
     else bindE (jget_opt messages ''en'') (\<lambda>msg.
       if msg \<noteq> JNull then Inr [(''msg'', msg), (''lang'', JStr ''en'')] else Inl (KeyError lang)))"

definition displayed_notice :: "(int \<Rightarrow> string) \<Rightarrow> string \<Rightarrow> json \<Rightarrow> json res" where
  "displayed_notice isofmt lang n =
     bindE (jget n ''id'') (\<lambda>i. bindE (jget n ''displayed'') (\<lambda>displayed. bindE (jget n ''severity'') (\<lambda>severity.
     bindE (created_at isofmt i) (\<lambda>created.
     bindE (bindE (jget n ''messages'') (\<lambda>ms. notice_text ms lang)) (\<lambda>msg.
       Inr (JObj ([(''id'', i), (''displayed'', displayed), (''severity'', severity), (''created_at'', created)] @ msg)))))))"

definition openwrt_list_notices ::
  "'e env \<Rightarrow> (string \<Rightarrow> json option) \<Rightarrow> (int \<Rightarrow> string) \<Rightarrow> string \<Rightarrow> ('e st, json) prog" where
  "openwrt_list_notices E loads isofmt lang =
     bindP (list_notifications E loads) (\<lambda>parsed. lift (
       bindE (bindE (jget parsed ''notifications'') json_items) (\<lambda>ns.
       bindE (mapE (displayed_notice isofmt lang) ns) (\<lambda>shown. Inr (JArr shown)))))"

definition json_notice_settings :: "notice_settings \<Rightarrow> json" where
  "json_notice_settings n = JObj
     [(''emails'', JObj
        [(''enabled'', JBool (no_enabled n)),
         (''common'', JObj [(''to'', uval_json (no_to n)), (''severity_filter'', JNum (no_severity n)),
            (''send_news'', JBool (no_news n))]),
         (''smtp_turris'', JObj [(''sender_name'', uval_json (no_sender n))]),
         (''smtp_custom'', JObj
           [(''from'', uval_json (sc_from (no_custom n))), (''host'', uval_json (sc_host (no_custom n))),
            (''port'', JNum (sc_port (no_custom n))), (''username'', uval_json (sc_username (no_custom n))),
            (''password'', uval_json (sc_password (no_custom n))), (''security'', uval_json (sc_security (no_custom n)))]),
         (''smtp_type'', JStr (if no_turris n then ''turris'' else ''custom''))]),
      (''reboots'', JObj [(''time'', uval_json (no_reboot_time n)), (''delay'', JNum (no_reboot_delay n))])]"

definition field :: "json \<Rightarrow> string list \<Rightarrow> (json \<Rightarrow> 'a res) \<Rightarrow> 'a res" where
  "field v path f = bindE (jpath v path) f"

definition decode_custom :: "json \<Rightarrow> custom_request res" where
  "decode_custom v =
     bindE (field v [''from''] json_str) (\<lambda>from. bindE (field v [''host''] json_str) (\<lambda>host.
     bindE (field v [''port''] json_number) (\<lambda>port. bindE (field v [''security''] json_str) (\<lambda>security.
     bindE (field v [''username''] json_str) (\<lambda>username. bindE (field v [''password''] json_str) (\<lambda>password.
       Inr \<lparr>cr_from = from, cr_host = host, cr_port = port, cr_security = security, cr_username = username,
         cr_password = password\<rparr>))))))"

definition decode_smtp :: "json \<Rightarrow> smtp_request res" where
  "decode_smtp v = bindE (field v [''smtp_type''] json_str) (\<lambda>t.
     if t = ''turris'' then bindE (field v [''smtp_turris'', ''sender_name''] json_str) (\<lambda>s. Inr (TurrisSmtp s))
     else if t = ''custom'' then bindE (field v [''smtp_custom''] decode_custom) (\<lambda>c. Inr (CustomSmtp c))
     else Inl TypeError)"

definition decode_emails :: "json \<Rightarrow> emails option res" where
  "decode_emails v =
     (if \<not> json_truthy v then Inr None
      else bindE (field v [''enabled''] json_bool) (\<lambda>enabled.
        if \<not> enabled then Inr (Some EmailsOff)
        else bindE (decode_smtp v) (\<lambda>smtp. bindE (field v [''common'', ''to''] (json_list json_str)) (\<lambda>to.
          bindE (field v [''common'', ''severity_filter''] json_number) (\<lambda>severity.
          bindE (field v [''common'', ''send_news''] json_bool) (\<lambda>news.
            Inr (Some (EmailsOn \<lparr>er_smtp = smtp, er_to = to, er_severity = severity, er_news = news\<rparr>))))))))"

definition decode_reboots :: "json \<Rightarrow> (string \<times> int) option res" where
  "decode_reboots v =
     (if \<not> json_truthy v then Inr None
      else bindE (field v [''time''] json_str) (\<lambda>t. bindE (field v [''delay''] json_number) (\<lambda>d. Inr (Some (t, d)))))"

definition openwrt_router_notifications ::
  "'e env \<Rightarrow> (string \<Rightarrow> json option) \<Rightarrow> (int \<Rightarrow> string) \<Rightarrow> 'e st handler" where
  "openwrt_router_notifications E loads isofmt = map_of
     [(''list'', py_method [''lang''] [] (with_text (openwrt_list_notices E loads isofmt))),
      (''mark_as_displayed'', py_method [''ids''] [] (\<lambda>vs. bindP (lift (json_list json_str (hd vs))) (\<lambda>ids.
         bindP (mark_as_displayed E ids) (\<lambda>_. ret (JBool True))))),
      (''get_settings'', py_get json_notice_settings (notices_get_settings E)),
      (''update_settings'', py_method [] [(''emails_settings'', JNull), (''reboots_settings'', JNull)] (\<lambda>vs.
         bindP (lift (decode_emails (vs ! 0))) (\<lambda>emails. bindP (lift (decode_reboots (vs ! 1))) (\<lambda>reboots.
         bindP (notices_update_settings E emails reboots) (\<lambda>b. ret (JBool b)))))),
      (''create'', py_method [''msg'', ''severity'', ''immediate''] [] (\<lambda>vs.
         bindP (lift (json_str (vs ! 0))) (\<lambda>msg. bindP (lift (json_str (vs ! 1))) (\<lambda>severity.
         bindP (create_notification E msg severity (json_truthy (vs ! 2))) (\<lambda>b. ret (JBool b))))))]"

section \<open>remote\<close>

definition json_token :: "token \<Rightarrow> json" where
  "json_token t = JObj [(''id'', JStr (tk_id t)), (''name'', JStr (tk_name t)), (''status'', JStr (tk_status t))]"

definition json_ca_status :: "string \<times> token list \<Rightarrow> json" where
  "json_ca_status st = JObj [(''status'', JStr (fst st)), (''tokens'', JArr (map json_token (snd st)))]"

definition json_remote_settings :: "remote_settings \<Rightarrow> json" where
  "json_remote_settings r = JObj
     [(''enabled'', JBool (re_enabled r)), (''port'', JNum (re_port r)), (''wan_access'', JBool (re_wan_access r))]"

definition decode_remote :: "json list \<Rightarrow> remote_request res" where
  "decode_remote vs =
     (if json_truthy (vs ! 0) then bindE (json_bool (vs ! 1)) (\<lambda>wan. bindE (json_number (vs ! 2)) (\<lambda>port. Inr (RemoteOn wan port)))
      else Inr RemoteOff)"

text \<open>\<open>read_token\<close> is \<^verbatim>\<open>RemoteFiles.get_token\<close>, given the identifier and the name.\<close>

definition openwrt_get_token :: "'e env \<Rightarrow> (string \<Rightarrow> string \<Rightarrow> ('e st, string) prog) \<Rightarrow> string \<Rightarrow> ('e st, json) prog" where
  "openwrt_get_token E read_token i =
     bindP (remote_get_status E) (\<lambda>(_, tokens).
       case filter (\<lambda>t. tk_id t = i) tokens of
         [] \<Rightarrow> ret (JObj [(''status'', JStr ''not_found'')])
       | t # _ \<Rightarrow> if tk_status t = ''revoked'' then ret (JObj [(''status'', JStr ''revoked'')])
           else bindP (read_token i (tk_name t)) (\<lambda>content.
             ret (JObj [(''status'', JStr ''valid''), (''token'', JStr content)])))"

text \<open>\<open>start_ca\<close> and \<open>start_token\<close> start the commands in the background and give their identifiers.\<close>

definition openwrt_remote ::
  "'e env \<Rightarrow> string \<Rightarrow> (string \<Rightarrow> string \<Rightarrow> ('e st, string) prog) \<Rightarrow>
    (json list \<Rightarrow> (json \<Rightarrow> ('e st, unit) prog) \<Rightarrow> (json \<Rightarrow> ('e st, unit) prog) \<Rightarrow> ('e st, string) prog) \<Rightarrow>
    (json list \<Rightarrow> (json \<Rightarrow> ('e st, unit) prog) \<Rightarrow> (json \<Rightarrow> ('e st, unit) prog) \<Rightarrow> ('e st, string) prog) \<Rightarrow> 'e st handler" where
  "openwrt_remote E bus read_token start_ca start_token = map_of
     [(''generate_ca'', task_method 0 start_ca),
      (''get_status'', py_get json_ca_status (remote_get_status E)),
      (''generate_token'', task_method 1 start_token),
      (''revoke'', py_method [''cert_id''] [] (with_text (\<lambda>i. bindP (revoke E i) (\<lambda>b. ret (JBool b))))),
      (''delete_ca'', py_get JBool (delete_ca E bus)),
      (''get_settings'', py_get json_remote_settings (remote_get_settings E bus)),
      (''update_settings'', py_method [''enabled''] [(''wan_access'', JNull), (''port'', JNull)] (\<lambda>vs.
         bindP (lift (decode_remote vs)) (\<lambda>req. bindP (remote_update_settings E bus req) (\<lambda>b. ret (JBool b))))),
      (''get_token'', py_method [''id''] [] (with_text (openwrt_get_token E read_token))),
      (''get_netboot_status'', py_get JStr (get_netboot_status E)),
      (''set_netboot_configured'', py_get JBool (set_netboot_configured E))]"

section \<open>time\<close>

definition json_time_settings :: "time_settings \<Rightarrow> json" where
  "json_time_settings t = JObj
     [(''region'', JStr (ts_region t)), (''country'', uval_json (ts_country t)), (''city'', JStr (ts_city t)),
      (''timezone'', uval_json (ts_timezone t)),
      (''time_settings'', JObj
        [(''how_to_set_time'', JStr (if ts_ntp t then ''ntp'' else ''manual'')),
         (''ntp_servers'', json_texts (ts_servers t)), (''ntp_extras'', json_texts (ts_extras t))])]"

text \<open>\<open>strftime\<close> gives the time to set as \<^verbatim>\<open>date\<close> reads it; without extra servers there are none.\<close>

definition decode_time :: "(json \<Rightarrow> string res) \<Rightarrow> json list \<Rightarrow> time_request res" where
  "decode_time strftime vs =
     bindE (json_str (vs ! 0)) (\<lambda>region. bindE (json_str (vs ! 1)) (\<lambda>country. bindE (json_str (vs ! 2)) (\<lambda>city.
     bindE (json_str (vs ! 3)) (\<lambda>how.
     bindE (json_opt (json_list json_str) (vs ! 4)) (\<lambda>extras.
     bindE (if how = ''ntp'' then Inr None else bindE (strftime (vs ! 5)) (\<lambda>t. Inr (Some t))) (\<lambda>manual.
       Inr \<lparr>tr_region = region, tr_country = country, tr_city = city,
         tr_extras = (case extras of Some xs \<Rightarrow> xs | None \<Rightarrow> []), tr_manual = manual\<rparr>))))))"

definition openwrt_time ::
  "'e env \<Rightarrow> (string \<Rightarrow> string option) \<Rightarrow> (json \<Rightarrow> string res) \<Rightarrow>
    (json list \<Rightarrow> (json \<Rightarrow> ('e st, unit) prog) \<Rightarrow> (json \<Rightarrow> ('e st, unit) prog) \<Rightarrow> ('e st, string) prog) \<Rightarrow> 'e st handler" where
  "openwrt_time E tz strftime start_ntpd = map_of
     [(''get_settings'', py_get json_time_settings (time_get_settings E)),
      (''update_settings'', py_method [''region'', ''country'', ''city'', ''how_to_set_time'']
         [(''ntp_extras'', JNull), (''time'', JNull)] (\<lambda>vs.
         bindP (lift (decode_time strftime vs)) (\<lambda>q. bindP (time_update_settings E tz q) (\<lambda>b. ret (JBool b))))),
      (''ntpdate_trigger'', task_method 0 start_ntpd)]"

section \<open>updater\<close>

definition json_languages :: "(string \<times> bool) list \<Rightarrow> json" where
  "json_languages ls = JArr (map (\<lambda>(code, on). JObj [(''code'', JStr code), (''enabled'', JBool on)]) ls)"

definition json_updater_settings :: "updater_settings \<Rightarrow> json" where
  "json_updater_settings u = JObj
     [(''enabled'', json_of_option JBool (us_enabled u)), (''user_lists'', JArr []),
      (''languages'', JObj (map (\<lambda>(code, on). (code, JBool on)) (us_languages u))),
      (''approval_settings'', JObj ((''status'', JStr (us_approvals u)) # maybe ''delay'' JNum (us_delay u)))]"

text \<open>\<^verbatim>\<open>approvals_settings["status"] if approvals_settings else None\<close> and the delay.\<close>

definition decode_approvals :: "json \<Rightarrow> (string option \<times> int option) res" where
  "decode_approvals v =
     (if json_truthy v then bindE (field v [''status''] json_str) (\<lambda>st. bindE (given_field v ''delay'' json_number) (\<lambda>d.
        Inr (Some st, d)))
      else Inr (None, None))"

definition openwrt_update_updater :: "'e env \<Rightarrow> 'e st svupdater \<Rightarrow> json list \<Rightarrow> ('e st, json) prog" where
  "openwrt_update_updater E U vs =
     bindP (lift (decode_approvals (vs ! 2))) (\<lambda>(status, delay). bindP (lift (json_bool (vs ! 3))) (\<lambda>enabled.
     bindP (updater_update_settings E U (if vs ! 1 = JNull then None else Some (vs ! 1)) status delay enabled)
       (\<lambda>b. ret (JBool b))))"

definition openwrt_updater :: "'e env \<Rightarrow> 'e st svupdater \<Rightarrow> (json \<Rightarrow> string res) \<Rightarrow> 'e st handler" where
  "openwrt_updater E U isoformat = map_of
     [(''get_settings'', py_method [] [(''lang'', JStr ''en'')] (\<lambda>vs.
         bindP (updater_get_settings U) (\<lambda>u. ret (json_updater_settings u)))),
      (''update_settings'', py_method [''user_lists'', ''languages'', ''approvals_settings'', ''enabled''] []
         (openwrt_update_updater E U)),
      (''get_package_lists'', py_method [''lang''] [] (with_text (get_package_lists U))),
      (''update_package_lists'', py_method [''package_lists''] [] (\<lambda>vs.
         bindP (update_package_lists U (hd vs)) (\<lambda>b. ret (JBool b)))),
      (''get_approval'', py_get (\<lambda>a. a) (get_approval U isoformat)),
      (''resolve_approval'', py_method [''hash'', ''solution''] [] (\<lambda>vs.
         bindP (lift (json_str (vs ! 0))) (\<lambda>i. bindP (lift (json_str (vs ! 1))) (\<lambda>solution.
         bindP (resolve_approval U i solution) (\<lambda>b. ret (JBool b)))))),
      (''get_languages'', py_get json_languages (get_languages U)),
      (''update_languages'', py_method [''languages''] [] (\<lambda>vs.
         bindP (update_languages U (if hd vs = JNull then None else Some (hd vs))) (\<lambda>b. ret (JBool b)))),
      (''query_installed_packages'', py_method [''packages''] [] (\<lambda>vs. bindP (lift (json_list json_str (hd vs))) (\<lambda>ps.
         bindP (query_installed_packages U ps) (\<lambda>found. ret (json_texts found))))),
      (''run'', py_method [''set_reboot_indicator''] [] (\<lambda>vs.
         bindP (updater_run U (json_truthy (hd vs))) (\<lambda>b. ret (JBool b)))),
      (''get_enabled'', py_get (json_of_option JBool) (su_enabled U)),
      (''get_running'', py_get JBool (updater_running U))]"

section \<open>Messages about the password\<close>

definition request_message :: "string \<Rightarrow> string \<Rightarrow> json \<Rightarrow> json" where
  "request_message module action data =
     JObj [(''module'', JStr module), (''kind'', JStr ''request''), (''action'', JStr action), (''data'', data)]"

definition reply_message :: "string \<Rightarrow> string \<Rightarrow> json \<Rightarrow> json" where
  "reply_message module action data =
     JObj [(''kind'', JStr ''reply''), (''module'', JStr module), (''action'', JStr action), (''data'', data)]"

lemma request_answered:
  assumes "mods module = Some actions" "actions action = Some f" "f data s = (Ret v, s')"
    and "validate (request_message module action data)" "validate (reply_message module action v)"
  shows "process_message tx validate mods (request_message module action data) s =
    (Ret (reply_message module action v), s')"
  using assms
  by (simp add: process_message_def process_request_def perform_action_def find_module_def request_message_def
      reply_message_def bindP_def tryP_def prog_basic)

definition set_password_data :: "json \<Rightarrow> json" where
  "set_password_data sent = JObj [(''type'', JStr ''foris''), (''password'', sent)]"

lemma password_actions:
  assumes "decode sent = Inr p"
  shows "\<exists>f. map_of (password_module decode (openwrt_password E crypt) n) ''set'' = Some f \<and>
      f (set_password_data sent) = bindP (bindP (set_password E crypt p) (\<lambda>r. ret (json_password_result r)))
        (announced_result n ''set'' (Inr (Some (JObj [(''type'', JStr ''foris'')]))))"
    and "\<exists>f. map_of (password_module decode (openwrt_password E crypt) n) ''check'' = Some f \<and>
      f (JObj [(''password'', sent)]) = reply_as ''status'' (check_foris_password E crypt p)"
  using assms
  by (simp add: password_module_def, simp add: set_password_data_def call_def openwrt_password_def positional_def
        with_text_def lift_def bindP_def bindE_def fun_eq_iff)
     (simp add: password_module_def, simp add: assms call_def openwrt_password_def positional_def with_text_def reply_as_def
        lift_def bindP_def bindE_def fun_eq_iff)



end
