(* ===== verification/Dns.thy ===== *)
theory Dns
  imports Guide
begin

text \<open>
  \<^verbatim>\<open>foris_controller_backends/dns\<close>: the files that describe custom forwarders (\<^verbatim>\<open>DnsFiles\<close>)
  and the resolver settings (\<^verbatim>\<open>DnsUciCommands\<close>). The lock \<^verbatim>\<open>file_lock\<close> is not part of the model.
  The theorems say when a stored forwarder is read back, and that a quotation mark in its
  description is not.
\<close>

section \<open>Texts of a forwarder file\<close>

abbreviation quote_char :: char where
  "quote_char \<equiv> CHR 0x22"

abbreviation newline_char :: char where
  "newline_char \<equiv> CHR 0x0A"

text \<open>
  \<^verbatim>\<open>re.search(r'key="([^"]*)"', content, re.MULTILINE)\<close>. A match contains no quotation mark but
  its own two, so it is told by the pieces between the marks: the first piece that ends with
  \<^verbatim>\<open>key=\<close> and is followed by a piece that a further mark closes. With \<^verbatim>\<open>^\<close> before the key, a line
  must start there.
\<close>

fun find_value :: "(string \<Rightarrow> bool) \<Rightarrow> string list \<Rightarrow> string option" where
  "find_value hit (s # v # t # rest) = (if hit s then Some v else find_value hit (v # t # rest))"
| "find_value hit _ = None"

definition key_hit :: "bool \<Rightarrow> string \<Rightarrow> string \<Rightarrow> bool" where
  "key_hit at_start key s = endswith s ((if at_start then [newline_char] else []) @ key @ ''='')"

definition quoted_value :: "bool \<Rightarrow> string \<Rightarrow> string \<Rightarrow> string option" where
  "quoted_value at_start key content = find_value (key_hit at_start key) (split_on quote_char (newline_char # content))"

text \<open>\<^verbatim>\<open>description.replace('"', '\\"')\<close>\<close>

definition escape_quotes :: "string \<Rightarrow> string" where
  "escape_quotes s = concat (map (\<lambda>c. if c = quote_char then [CHR 0x5C, quote_char] else [c]) s)"

definition quoted_line :: "string \<times> string \<Rightarrow> string" where
  "quoted_line kv = fst kv @ ''='' @ [quote_char] @ snd kv @ [quote_char, newline_char]"

record forwarder =
  fw_description :: string
  fw_ipv4 :: "string list"
  fw_ipv6 :: "string list"
  fw_tls_type :: string
  fw_tls_hostname :: string
  fw_tls_pin :: string

definition forwarder_lines :: "string \<Rightarrow> forwarder \<Rightarrow> (string \<times> string) list" where
  "forwarder_lines name f =
     [(''name'', name @ ''.conf''),
      (''description'', escape_quotes (fw_description f)),
      (''ipv4'', join '' '' (fw_ipv4 f)),
      (''ipv6'', join '' '' (fw_ipv6 f)),
      (''editable'', ''true''),
      (''port'', if fw_tls_type f \<in> {''pin'', ''hostname''} then ''853'' else ''53'')] @
     (if fw_tls_type f = ''pin'' then [(''enable_tls'', ''1''), (''pin_sha256'', fw_tls_pin f)]
      else if fw_tls_type f = ''hostname'' then
        [(''enable_tls'', ''1''), (''hostname'', fw_tls_hostname f), (''ca_file'', ''/etc/ssl/certs/ca-certificates.crt'')]
      else [])"

definition forwarder_content :: "string \<Rightarrow> forwarder \<Rightarrow> string" where
  "forwarder_content name f = concat (map quoted_line (forwarder_lines name f))"

record stored_forwarder =
  sf_name :: string
  sf_editable :: bool
  sf_data :: forwarder

definition split_addresses :: "string \<Rightarrow> string list" where
  "split_addresses s = filter (\<lambda>a. a \<noteq> []) (split_on CHR '' '' s)"

definition value_or_empty :: "string option \<Rightarrow> string" where
  "value_or_empty v = (case v of Some x \<Rightarrow> x | None \<Rightarrow> [])"

definition parse_forwarder :: "string \<Rightarrow> string \<Rightarrow> stored_forwarder res" where
  "parse_forwarder name content =
     (let value = (\<lambda>key. value_or_empty (quoted_value False key content));
          hostname = quoted_value True ''hostname'' content; pin = quoted_value True ''pin_sha256'' content
      in case quoted_value False ''description'' content of
        None \<Rightarrow> Inl AttributeError
      | Some description \<Rightarrow>
          Inr \<lparr>sf_name = name, sf_editable = (lower (value ''editable'') = ''true''),
            sf_data = \<lparr>fw_description = description, fw_ipv4 = split_addresses (value ''ipv4''),
              fw_ipv6 = split_addresses (value ''ipv6''),
              fw_tls_type = (if pin \<noteq> None then ''pin'' else if hostname \<noteq> None then ''hostname'' else ''no''),
              fw_tls_hostname = value_or_empty hostname, fw_tls_pin = value_or_empty pin\<rparr>\<rparr>)"

section \<open>Operations on the files\<close>

definition resolvers_dir :: string where
  "resolvers_dir = ''/etc/resolver/dns_servers/''"

definition forwarder_path :: "string \<Rightarrow> string" where
  "forwarder_path name = resolvers_dir @ name @ ''.conf''"

definition name_of_path :: "string \<Rightarrow> string" where
  "name_of_path path = (let n = last (split_on CHR ''/'' path) in take (length n - 5) n)"

fun read_forwarders :: "'e env \<Rightarrow> string list \<Rightarrow> ('e st, stored_forwarder list) prog" where
  "read_forwarders E [] = ret []"
| "read_forwarders E (path # paths) =
     bindP (file_content E (forwarder_path (name_of_path path))) (\<lambda>content.
     bindP (lift (parse_forwarder (name_of_path path) content)) (\<lambda>f.
     bindP (read_forwarders E paths) (\<lambda>fs. ret (f # fs))))"

definition get_available_forwarders :: "'e env \<Rightarrow> ('e st, stored_forwarder list) prog" where
  "get_available_forwarders E = bindP (list_files E [resolvers_dir @ ''*.conf'']) (read_forwarders E)"

text \<open>Name, description and whether it can be edited; the first entry is the provider's DNS.\<close>

definition get_available_forwarders_short :: "'e env \<Rightarrow> ('e st, (string \<times> string \<times> bool) list) prog" where
  "get_available_forwarders_short E =
     bindP (get_available_forwarders E) (\<lambda>fs.
       ret (([], [], False) # map (\<lambda>f. (sf_name f, fw_description (sf_data f), sf_editable f)) fs))"

definition store_forwarder :: "'e env \<Rightarrow> string \<Rightarrow> forwarder \<Rightarrow> ('e st, bool) prog" where
  "store_forwarder E name f =
     bindP (store_to_file E (forwarder_path name) (forwarder_content name f)) (\<lambda>_. ret True)"

text \<open>\<open>new_name\<close> is the slug of the description with the MD5 sum of the forwarder.\<close>

definition add_forwarder :: "'e env \<Rightarrow> (forwarder \<Rightarrow> string) \<Rightarrow> forwarder \<Rightarrow> ('e st, string option) prog" where
  "add_forwarder E new_name f =
     bindP (path_exists E (forwarder_path (new_name f))) (\<lambda>exists.
       if exists then ret None
       else bindP (store_forwarder E (new_name f) f) (\<lambda>res. ret (if res then Some (new_name f) else None)))"

definition is_fixed :: "string \<Rightarrow> stored_forwarder list \<Rightarrow> bool" where
  "is_fixed name fs = list_ex (\<lambda>f. \<not> sf_editable f \<and> sf_name f = name) fs"

definition set_forwarder :: "'e env \<Rightarrow> string \<Rightarrow> forwarder \<Rightarrow> ('e st, bool) prog" where
  "set_forwarder E name f =
     bindP (path_exists E (forwarder_path name)) (\<lambda>exists.
       if \<not> exists then ret False
       else bindP (get_available_forwarders E) (\<lambda>fs. if is_fixed name fs then ret False else store_forwarder E name f))"

definition del_forwarder :: "'e env \<Rightarrow> string \<Rightarrow> ('e st, bool) prog" where
  "del_forwarder E name =
     bindP (path_exists E (forwarder_path name)) (\<lambda>exists.
       if \<not> exists then ret False
       else bindP (get_available_forwarders E) (\<lambda>fs. if is_fixed name fs then ret False
         else bindP (delete_file E (forwarder_path name)) (\<lambda>_. ret True)))"

section \<open>Resolver settings\<close>

record dns_settings =
  ds_forwarding :: bool
  ds_forwarder :: uval
  ds_dnssec :: bool
  ds_from_dhcp :: bool
  ds_domain :: "string option"

definition strip_slashes :: "string \<Rightarrow> string" where
  "strip_slashes s = strip_of (\<lambda>c. c = CHR ''/'') s"

definition dns_flag :: "uci_data \<Rightarrow> string \<Rightarrow> uval option \<Rightarrow> bool res" where
  "dns_flag data opt dflt = bindE (get_option_named data ''resolver'' ''common'' opt dflt) parse_bool"

definition dns_domain :: "uci_data \<Rightarrow> string option res" where
  "dns_domain dhcp_data =
     (case get_option_anonymous dhcp_data ''dhcp'' ''dnsmasq'' 0 ''local'' None of
        Inl (UciRecordNotFound _) \<Rightarrow> Inr None
      | Inl e \<Rightarrow> Inl e
      | Inr v \<Rightarrow> bindE (str_of v) (\<lambda>s. Inr (Some (strip_slashes s))))"

definition read_dns_flags :: "uci_data \<Rightarrow> (bool \<times> uval \<times> bool \<times> bool) res" where
  "read_dns_flags resolver_data =
     bindE (dns_flag resolver_data ''forward_upstream'' None) (\<lambda>forwarding.
     bindE (get_option_named resolver_data ''resolver'' ''common'' ''forward_custom'' (Some (Str []))) (\<lambda>forwarder.
     bindE (dns_flag resolver_data ''ignore_root_key'' (Some (Str ''0''))) (\<lambda>ignore.
     bindE (dns_flag resolver_data ''dynamic_domains'' (Some (Str ''0''))) (\<lambda>dynamic.
       Inr (forwarding, forwarder, \<not> ignore, dynamic)))))"

definition dns_get_settings :: "'e env \<Rightarrow> ('e st, dns_settings \<times> (string \<times> string \<times> bool) list) prog" where
  "dns_get_settings E =
     bindP (with_uci E (bindP (read_uci E ''resolver'') (\<lambda>resolver. bindP (read_uci E ''dhcp'') (\<lambda>dhcp. ret (resolver, dhcp)))))
       (\<lambda>(resolver, dhcp).
         bindP (lift (read_dns_flags resolver)) (\<lambda>(forwarding, forwarder, dnssec, dynamic).
         bindP (get_available_forwarders_short E) (\<lambda>available.
         bindP (lift (dns_domain dhcp)) (\<lambda>domain.
           ret (\<lparr>ds_forwarding = forwarding, ds_forwarder = forwarder, ds_dnssec = dnssec, ds_from_dhcp = dynamic,
                ds_domain = domain\<rparr>, available)))))"

record dns_request =
  dq_forwarding :: bool
  dq_dnssec :: bool
  dq_from_dhcp :: bool
  dq_forwarder :: "string option"
  dq_domain :: "string option"

definition dns_writes :: "'e env \<Rightarrow> dns_request \<Rightarrow> ('e st, unit) prog list" where
  "dns_writes E q =
     [set_option E ''resolver'' ''common'' ''forward_upstream'' (store_bool (dq_forwarding q)),
      set_option E ''resolver'' ''common'' ''ignore_root_key'' (store_bool (\<not> dq_dnssec q)),
      set_option E ''resolver'' ''common'' ''dynamic_domains'' (store_bool (dq_from_dhcp q))] @
     (case dq_domain q of
        Some (c # cs) \<Rightarrow>
          [set_option E ''dhcp'' ''@dnsmasq[0]'' ''local'' (''/'' @ strip_slashes (c # cs) @ ''/''),
           set_option E ''dhcp'' ''@dnsmasq[0]'' ''domain'' (strip_slashes (c # cs))]
      | _ \<Rightarrow> []) @
     (case dq_forwarder q of None \<Rightarrow> [] | Some f \<Rightarrow> [set_option E ''resolver'' ''common'' ''forward_custom'' f])"

definition known_forwarder :: "'e env \<Rightarrow> string option \<Rightarrow> ('e st, bool) prog" where
  "known_forwarder E forwarder =
     (case forwarder of
        Some (c # cs) \<Rightarrow> bindP (get_available_forwarders_short E) (\<lambda>fs. ret (c # cs \<in> fst ` set fs))
      | _ \<Rightarrow> ret True)"

definition dns_update_settings :: "'e env \<Rightarrow> dns_request \<Rightarrow> ('e st, bool) prog" where
  "dns_update_settings E q =
     bindP (known_forwarder E (dq_forwarder q)) (\<lambda>known.
       if \<not> known then ret False
       else bindP (with_uci E (block (dns_writes E q))) (\<lambda>_.
            bindP (try_update_passed E ''dns'') (\<lambda>_.
            bindP (with_services (service_command E Restart ''resolver'' None True)) (\<lambda>_. ret True))))"

section \<open>Reading a stored forwarder\<close>

text \<open>The pieces of a file made of quoted lines.\<close>

definition pieces_of :: "(string \<times> string) list \<Rightarrow> string list" where
  "pieces_of kvs = concat (map (\<lambda>(k, v). [newline_char # k @ ''='', v]) kvs)"

definition unquoted :: "string \<Rightarrow> bool" where
  "unquoted s \<longleftrightarrow> quote_char \<notin> set s \<and> newline_char \<notin> set s"

lemma split_quoted_lines:
  "\<forall>(k, v)\<in>set kvs. quote_char \<notin> set k \<and> quote_char \<notin> set v \<Longrightarrow>
    split_on quote_char (newline_char # concat (map quoted_line kvs) @ rest) =
      pieces_of kvs @ split_on quote_char (newline_char # rest)"
proof (induction kvs)
  case (Cons kv kvs)
  obtain k v where kv: "kv = (k, v)" by (cases kv)
  have "split_on quote_char (newline_char # concat (map quoted_line (kv # kvs)) @ rest) =
      split_on quote_char ((newline_char # k @ ''='') @ quote_char # v @ quote_char # newline_char #
        concat (map quoted_line kvs) @ rest)"
    by (simp add: quoted_line_def kv)
  also have "\<dots> = (newline_char # k @ ''='') # v # split_on quote_char (newline_char # concat (map quoted_line kvs) @ rest)"
    using Cons.prems by (subst split_on_append) (auto simp: kv split_on_append simp del: split_on.simps)
  finally show ?case using Cons by (simp add: pieces_of_def kv del: split_on.simps)
qed (simp add: pieces_of_def)

text \<open>Lines before the one looked for, none of which matches.\<close>

definition misses :: "(string \<Rightarrow> bool) \<Rightarrow> (string \<times> string) list \<Rightarrow> bool" where
  "misses hit kvs \<longleftrightarrow> list_all (\<lambda>(k, v). \<not> hit (newline_char # k @ ''='') \<and> \<not> hit v) kvs"

lemma find_value_skip: "misses hit kvs \<Longrightarrow> rest \<noteq> [] \<Longrightarrow> find_value hit (pieces_of kvs @ rest) = find_value hit rest"
proof (induction kvs)
  case (Cons kv kvs)
  obtain k v where kv: "kv = (k, v)" by (cases kv)
  obtain r rs where r: "pieces_of kvs @ rest = r # rs" using Cons.prems(2) by (cases "pieces_of kvs @ rest") auto
  have "find_value hit (v # r # rs) = find_value hit (r # rs)"
    using Cons.prems(1) by (cases rs) (simp_all add: misses_def kv)
  then show ?case using Cons r by (simp add: pieces_of_def misses_def kv)
qed (simp add: pieces_of_def)

lemma endswith_snoc: "endswith (s @ [c]) (t @ [d]) \<longleftrightarrow> c = d \<and> endswith s t"
  by (simp add: endswith_def)

lemma endswith_length: "endswith s t \<Longrightarrow> length t \<le> length s"
proof -
  have "startswith a b \<Longrightarrow> length b \<le> length a" for a b by (auto simp: startswith_iff)
  then show "endswith s t \<Longrightarrow> length t \<le> length s" unfolding endswith_def by force
qed

lemma endswith_set: "endswith s t \<Longrightarrow> set t \<subseteq> set s"
proof -
  assume "endswith s t"
  then obtain u where "rev s = rev t @ u" by (auto simp: endswith_def startswith_iff)
  then have "set (rev t) \<subseteq> set (rev s)" by auto
  then show ?thesis by simp
qed

lemma key_hit_value: "last v \<noteq> CHR ''='' \<or> v = [] \<Longrightarrow> \<not> key_hit at_start key v"
proof -
  assume v: "last v \<noteq> CHR ''='' \<or> v = []"
  show ?thesis
  proof (cases v rule: rev_exhaust)
    case Nil
    then show ?thesis by (auto simp: key_hit_def dest!: endswith_length)
  next
    case (snoc u c)
    then have "c \<noteq> CHR ''=''" using v by simp
    then show ?thesis using endswith_snoc [of u c "_ @ key" "CHR ''=''"] by (simp add: key_hit_def snoc)
  qed
qed

lemma key_hit_start: "newline_char \<notin> set v \<Longrightarrow> \<not> key_hit True key v"
  by (auto simp: key_hit_def dest!: endswith_set)

lemma key_hit_line: "key_hit at_start key (newline_char # k @ ''='') \<longleftrightarrow>
    endswith (newline_char # k) ((if at_start then [newline_char] else []) @ key)"
  using endswith_snoc [of "newline_char # k" "CHR ''=''" "_ @ key" "CHR ''=''"] by (simp add: key_hit_def)

lemma quoted_value_found:
  assumes "kvs = pre @ (key, v) # post" "\<forall>(k, v)\<in>set kvs. quote_char \<notin> set k \<and> quote_char \<notin> set v"
    and "misses (key_hit at_start key) pre"
  shows "quoted_value at_start key (concat (map quoted_line kvs)) = Some v"
proof -
  have "split_on quote_char (newline_char # concat (map quoted_line kvs)) = pieces_of kvs @ [[newline_char]]"
    using split_quoted_lines [OF assms(2), of "[]"] by simp
  moreover have "pieces_of kvs @ [[newline_char]] =
      pieces_of pre @ (newline_char # key @ ''='') # v # pieces_of post @ [[newline_char]]"
    by (simp add: assms(1) pieces_of_def)
  moreover have "key_hit at_start key (newline_char # key @ ''='')"
    by (auto simp: key_hit_line endswith_def startswith_iff)
  ultimately show ?thesis
    using find_value_skip [OF assms(3)]
    by (cases "pieces_of post") (simp_all add: quoted_value_def del: split_on.simps)
qed

lemma quoted_value_missing:
  assumes "\<forall>(k, v)\<in>set kvs. quote_char \<notin> set k \<and> quote_char \<notin> set v" "misses (key_hit at_start key) kvs"
  shows "quoted_value at_start key (concat (map quoted_line kvs)) = None"
  using split_quoted_lines [OF assms(1), of "[]"] find_value_skip [OF assms(2), of "[[newline_char]]"]
  by (simp add: quoted_value_def)

lemma misses_simps [simp]:
  "misses hit []"
  "misses (key_hit b key) ((k, v) # kvs) \<longleftrightarrow>
    \<not> endswith (newline_char # k) ((if b then [newline_char] else []) @ key) \<and> \<not> key_hit b key v \<and> misses (key_hit b key) kvs"
  by (simp_all add: misses_def key_hit_line)

lemma escape_plain: "quote_char \<notin> set s \<Longrightarrow> escape_quotes s = s"
  unfolding escape_quotes_def by (induction s) auto

text \<open>
  A forwarder whose texts contain no quotation mark and no line break, whose description does not
  end like the key of a later line that the reader looks for anywhere in a line, and whose
  addresses are texts without spaces and equals signs. Host name and pin belong to the kind of
  encryption.
\<close>

definition plain_address :: "string \<Rightarrow> bool" where
  "plain_address a \<longleftrightarrow> a \<noteq> [] \<and> unquoted a \<and> CHR '' '' \<notin> set a \<and> CHR ''='' \<notin> set a"

definition plain_description :: "string \<Rightarrow> bool" where
  "plain_description d \<longleftrightarrow>
     unquoted d \<and> \<not> endswith d ''ipv4='' \<and> \<not> endswith d ''ipv6='' \<and> \<not> endswith d ''editable=''"

definition tls_fields_ok :: "forwarder \<Rightarrow> bool" where
  "tls_fields_ok f \<longleftrightarrow> unquoted (fw_tls_hostname f) \<and> unquoted (fw_tls_pin f) \<and>
     fw_tls_type f \<in> {''no'', ''hostname'', ''pin''} \<and>
     (fw_tls_type f \<noteq> ''hostname'' \<longrightarrow> fw_tls_hostname f = []) \<and> (fw_tls_type f \<noteq> ''pin'' \<longrightarrow> fw_tls_pin f = [])"

definition plain_forwarder :: "string \<Rightarrow> forwarder \<Rightarrow> bool" where
  "plain_forwarder name f \<longleftrightarrow> unquoted name \<and> plain_description (fw_description f) \<and>
     list_all plain_address (fw_ipv4 f) \<and> list_all plain_address (fw_ipv6 f) \<and> tls_fields_ok f"

lemma set_join_space: "c \<in> set (join '' '' xs) \<Longrightarrow> c = CHR '' '' \<or> (\<exists>x\<in>set xs. c \<in> set x)"
  by (induction "'' ''" xs rule: join.induct) auto

lemma joined_addresses:
  assumes "list_all plain_address xs"
  shows "quote_char \<notin> set (join '' '' xs)" "newline_char \<notin> set (join '' '' xs)" "CHR ''='' \<notin> set (join '' '' xs)"
    "split_addresses (join '' '' xs) = xs"
proof -
  have ok: "\<forall>x\<in>set xs. x \<noteq> [] \<and> quote_char \<notin> set x \<and> newline_char \<notin> set x \<and> CHR ''='' \<notin> set x \<and> CHR '' '' \<notin> set x"
    using assms by (auto simp: list_all_iff plain_address_def unquoted_def)
  then show "quote_char \<notin> set (join '' '' xs)" "newline_char \<notin> set (join '' '' xs)" "CHR ''='' \<notin> set (join '' '' xs)"
    by (auto dest!: set_join_space)
  have "filter (\<lambda>a. a \<noteq> []) xs = xs" using ok by (auto intro: filter_True)
  then show "split_addresses (join '' '' xs) = xs"
    using ok split_on_join [of xs "CHR '' ''"] by (cases "xs = []") (auto simp: split_addresses_def)
qed

lemma forwarder_lines_unquoted:
  assumes "quote_char \<notin> set name" "quote_char \<notin> set (escape_quotes (fw_description f))"
    and "list_all plain_address (fw_ipv4 f)" "list_all plain_address (fw_ipv6 f)" "tls_fields_ok f"
  shows "\<forall>(k, v)\<in>set (forwarder_lines name f). quote_char \<notin> set k \<and> quote_char \<notin> set v"
  using assms joined_addresses(1) [OF assms(3)] joined_addresses(1) [OF assms(4)]
  by (auto simp: forwarder_lines_def tls_fields_ok_def unquoted_def)

lemma last_not_equals: "CHR ''='' \<notin> set v \<Longrightarrow> last v \<noteq> CHR ''='' \<or> v = []"
  by (metis last_in_set)

lemma key_hit_misses:
  assumes "plain_forwarder name f"
  shows "\<not> key_hit b key (name @ ''.conf'')" "\<not> key_hit True key (escape_quotes (fw_description f))"
    "\<not> key_hit False ''ipv4'' (escape_quotes (fw_description f))" "\<not> key_hit False ''ipv6'' (escape_quotes (fw_description f))"
    "\<not> key_hit False ''editable'' (escape_quotes (fw_description f))"
    "\<not> key_hit b key (join '' '' (fw_ipv4 f))" "\<not> key_hit b key (join '' '' (fw_ipv6 f))"
proof -
  have f: "plain_description (fw_description f)" "list_all plain_address (fw_ipv4 f)" "list_all plain_address (fw_ipv6 f)"
    using assms by (simp_all add: plain_forwarder_def)
  show "\<not> key_hit b key (name @ ''.conf'')" by (rule key_hit_value) simp
  show "\<not> key_hit True key (escape_quotes (fw_description f))"
    using f(1) by (intro key_hit_start) (auto simp: plain_description_def unquoted_def escape_plain)
  show "\<not> key_hit False ''ipv4'' (escape_quotes (fw_description f))" "\<not> key_hit False ''ipv6'' (escape_quotes (fw_description f))"
    "\<not> key_hit False ''editable'' (escape_quotes (fw_description f))"
    using f(1) by (simp_all add: key_hit_def plain_description_def unquoted_def escape_plain)
  show "\<not> key_hit b key (join '' '' (fw_ipv4 f))" "\<not> key_hit b key (join '' '' (fw_ipv6 f))"
    using joined_addresses(3) [OF f(2)] joined_addresses(3) [OF f(3)] by (intro key_hit_value last_not_equals; simp)+
qed

lemma forwarder_values:
  assumes "plain_forwarder name f"
  shows "quoted_value False ''description'' (forwarder_content name f) = Some (fw_description f)"
    "quoted_value False ''ipv4'' (forwarder_content name f) = Some (join '' '' (fw_ipv4 f))"
    "quoted_value False ''ipv6'' (forwarder_content name f) = Some (join '' '' (fw_ipv6 f))"
    "quoted_value False ''editable'' (forwarder_content name f) = Some ''true''"
    "quoted_value True ''hostname'' (forwarder_content name f) =
      (if fw_tls_type f = ''hostname'' then Some (fw_tls_hostname f) else None)"
    "quoted_value True ''pin_sha256'' (forwarder_content name f) =
      (if fw_tls_type f = ''pin'' then Some (fw_tls_pin f) else None)"
proof -
  have f: "quote_char \<notin> set name" "escape_quotes (fw_description f) = fw_description f"
      "quote_char \<notin> set (fw_description f)" "tls_fields_ok f" "list_all plain_address (fw_ipv4 f)" "list_all plain_address (fw_ipv6 f)"
    using assms by (auto simp: plain_forwarder_def plain_description_def unquoted_def escape_plain)
  have unq: "\<forall>(k, v)\<in>set (forwarder_lines name f). quote_char \<notin> set k \<and> quote_char \<notin> set v"
    using f by (intro forwarder_lines_unquoted) auto
  note miss = key_hit_misses [OF assms, unfolded f(2)]
  have fixed: "\<not> key_hit b key ''true''" "\<not> key_hit b key ''53''" "\<not> key_hit b key ''853''" "\<not> key_hit b key ''1''"
    "\<not> key_hit b key ''/etc/ssl/certs/ca-certificates.crt''" for b key
    by (rule key_hit_value; simp)+
  note found = quoted_value_found [OF _ unq, folded forwarder_content_def]
  note lines = forwarder_lines_def f(2) endswith_def miss fixed
  show "quoted_value False ''description'' (forwarder_content name f) = Some (fw_description f)"
    by (rule found [where pre = "take 1 (forwarder_lines name f)" and post = "drop 2 (forwarder_lines name f)"])
       (simp_all add: lines)
  show "quoted_value False ''ipv4'' (forwarder_content name f) = Some (join '' '' (fw_ipv4 f))"
    by (rule found [where pre = "take 2 (forwarder_lines name f)" and post = "drop 3 (forwarder_lines name f)"])
       (simp_all add: lines numeral_eq_Suc)
  show "quoted_value False ''ipv6'' (forwarder_content name f) = Some (join '' '' (fw_ipv6 f))"
    by (rule found [where pre = "take 3 (forwarder_lines name f)" and post = "drop 4 (forwarder_lines name f)"])
       (simp_all add: lines numeral_eq_Suc)
  show "quoted_value False ''editable'' (forwarder_content name f) = Some ''true''"
    by (rule found [where pre = "take 4 (forwarder_lines name f)" and post = "drop 5 (forwarder_lines name f)"])
       (simp_all add: lines numeral_eq_Suc)
  have tls: "newline_char \<notin> set (fw_tls_hostname f)" "newline_char \<notin> set (fw_tls_pin f)"
      "fw_tls_type f \<in> {''no'', ''hostname'', ''pin''}"
    using f(4) by (auto simp: tls_fields_ok_def unquoted_def)
  show "quoted_value True ''hostname'' (forwarder_content name f) =
      (if fw_tls_type f = ''hostname'' then Some (fw_tls_hostname f) else None)"
    using tls(3) found [where at_start = True and pre = "take 7 (forwarder_lines name f)" and key = "''hostname''" and
        post = "drop 8 (forwarder_lines name f)"]
      quoted_value_missing [OF unq, where at_start = True, folded forwarder_content_def] key_hit_start [OF tls(2)]
    by (auto simp: lines numeral_eq_Suc)
  show "quoted_value True ''pin_sha256'' (forwarder_content name f) =
      (if fw_tls_type f = ''pin'' then Some (fw_tls_pin f) else None)"
    using tls(3) found [where at_start = True and pre = "take 7 (forwarder_lines name f)" and key = "''pin_sha256''" and
        post = "drop 8 (forwarder_lines name f)"]
      quoted_value_missing [OF unq, where at_start = True, folded forwarder_content_def] key_hit_start [OF tls(1)]
    by (auto simp: lines numeral_eq_Suc)
qed

text \<open>
  C32: the file of a forwarder is read back as the forwarder that was stored, for every kind of
  encryption, when its name and its texts have no quotation mark and no line break, its addresses
  are not empty and have no space and no equals sign, its host name and pin are those of its kind
  of encryption, and its description does not end with \<^verbatim>\<open>ipv4=\<close>, \<^verbatim>\<open>ipv6=\<close> or \<^verbatim>\<open>editable=\<close>: the
  patterns of the reader would find such an end before the line with that key.
\<close>

theorem stored_forwarder_read_back:
  assumes "plain_forwarder name f"
  shows "parse_forwarder name (forwarder_content name f) = Inr \<lparr>sf_name = name, sf_editable = True, sf_data = f\<rparr>"
proof -
  have f: "tls_fields_ok f" "list_all plain_address (fw_ipv4 f)" "list_all plain_address (fw_ipv6 f)"
    using assms by (simp_all add: plain_forwarder_def)
  have low: "lower ''true'' = ''true''" by code_simp
  let ?host = "if fw_tls_type f = ''hostname'' then Some (fw_tls_hostname f) else None"
  let ?pin = "if fw_tls_type f = ''pin'' then Some (fw_tls_pin f) else None"
  have tls: "(if ?pin \<noteq> None then ''pin'' else if ?host \<noteq> None then ''hostname'' else ''no'') = fw_tls_type f"
    "value_or_empty ?host = fw_tls_hostname f" "value_or_empty ?pin = fw_tls_pin f"
    using f(1) by (auto simp: tls_fields_ok_def value_or_empty_def)
  show ?thesis
    unfolding parse_forwarder_def Let_def forwarder_values [OF assms] option.case tls
    by (simp add: value_or_empty_def joined_addresses(4) f low)
qed

definition demo_forwarder :: forwarder where
  "demo_forwarder = \<lparr>fw_description = ''Home DNS'', fw_ipv4 = [''192.0.2.1'', ''192.0.2.2''], fw_ipv6 = [''2001:db8::1''],
     fw_tls_type = ''pin'', fw_tls_hostname = [], fw_tls_pin = ''c2hhMjU2Cg==''\<rparr>"

lemma stored_forwarder_read_back_witness:
  "parse_forwarder ''home_dns_1'' (forwarder_content ''home_dns_1'' demo_forwarder) =
    Inr \<lparr>sf_name = ''home_dns_1'', sf_editable = True, sf_data = demo_forwarder\<rparr>"
proof -
  have "plain_forwarder ''home_dns_1'' demo_forwarder" by code_simp
  then show ?thesis by (rule stored_forwarder_read_back)
qed

text \<open>
  C33: a quotation mark in the description is escaped in the file, but the reader knows no
  escape: the description comes back cut at the mark, with the backslash at its end.
\<close>

theorem quoted_description_is_cut:
  assumes "fw_description f = before @ quote_char # after" "quote_char \<notin> set before" "quote_char \<notin> set name"
  shows "\<exists>r. parse_forwarder name (forwarder_content name f) = Inr r \<and>
    fw_description (sf_data r) = before @ [CHR 0x5C] \<and> fw_description (sf_data r) \<noteq> fw_description f"
proof -
  have esc: "escape_quotes (fw_description f) = (before @ [CHR 0x5C]) @ quote_char # escape_quotes after"
    using assms(2) by (simp add: assms(1) escape_quotes_def) (metis escape_plain escape_quotes_def)
  obtain tail where tail: "forwarder_content name f =
      concat (map quoted_line [(''name'', name @ ''.conf'')]) @ ''description='' @ quote_char #
        (before @ [CHR 0x5C]) @ quote_char # tail"
    by (simp add: forwarder_content_def forwarder_lines_def quoted_line_def esc)
  have "split_on quote_char (newline_char # forwarder_content name f) =
      pieces_of [(''name'', name @ ''.conf'')] @
      split_on quote_char ((newline_char # ''description='') @ quote_char # (before @ [CHR 0x5C]) @ quote_char # tail)"
    unfolding tail using assms(3) by (subst split_quoted_lines) auto
  also have "\<dots> = pieces_of [(''name'', name @ ''.conf'')] @
      (newline_char # ''description='') # (before @ [CHR 0x5C]) # split_on quote_char tail"
    using assms(2) by (subst split_on_append, simp) (subst split_on_append, auto)
  finally have pieces: "split_on quote_char (newline_char # forwarder_content name f) =
      pieces_of [(''name'', name @ ''.conf'')] @ (newline_char # ''description='') # (before @ [CHR 0x5C]) # split_on quote_char tail" .
  obtain r rs where rs: "split_on quote_char tail = r # rs" by (cases "split_on quote_char tail") auto
  have "misses (key_hit False ''description'') [(''name'', name @ ''.conf'')]"
    by (simp add: endswith_def) (rule key_hit_value, simp)
  moreover have "key_hit False ''description'' (newline_char # ''description='')"
    by (simp add: key_hit_def endswith_def)
  ultimately have "quoted_value False ''description'' (forwarder_content name f) = Some (before @ [CHR 0x5C])"
    unfolding quoted_value_def pieces by (subst find_value_skip) (simp_all add: rs)
  then show ?thesis
    using assms(1) by (auto simp: parse_forwarder_def Let_def append_eq_append_conv2 Cons_eq_append_conv)
qed

definition demo_quoted :: forwarder where
  "demo_quoted = demo_forwarder\<lparr>fw_description := ''my '' @ quote_char # ''own'' @ [quote_char] @ '' DNS''\<rparr>"

lemma quoted_description_is_cut_witness:
  "\<exists>r. parse_forwarder ''my_own_dns_1'' (forwarder_content ''my_own_dns_1'' demo_quoted) = Inr r \<and>
    fw_description (sf_data r) = ''my '' @ [CHR 0x5C] \<and> fw_description (sf_data r) \<noteq> fw_description demo_quoted"
  by (rule quoted_description_is_cut) (simp_all add: demo_quoted_def)

end
