(* ===== verification/HandlersNet.thy ===== *)
theory HandlersNet
  imports Handlers NetworksUpdate LanSettings Wan Wifi Dns
begin

text \<open>
  The handlers for devices that configure the networks:
  \<^verbatim>\<open>foris_controller_modules/*/handlers/openwrt.py\<close> of \<^verbatim>\<open>guest\<close>, \<^verbatim>\<open>lan\<close>, \<^verbatim>\<open>wan\<close>, \<^verbatim>\<open>networks\<close>, \<^verbatim>\<open>wifi\<close>
  and \<^verbatim>\<open>dns\<close>. They pass a request on to the backend as the keywords of its method, and give the
  settings in the shape the backends build. The lemmas say that the shown settings of the guest
  network and of a radio, sent back, are decoded as the request for what is there.
\<close>

section \<open>Common parts\<close>

definition json_qos :: "qos_settings \<Rightarrow> json" where
  "json_qos q = JObj [(''enabled'', JBool (q_enabled q)), (''upload'', JNum (q_upload q)), (''download'', JNum (q_download q))]"

definition decode_qos :: "json \<Rightarrow> qos_settings res" where
  "decode_qos v =
     bindE (field v [''enabled''] json_bool) (\<lambda>e. bindE (field v [''upload''] json_number) (\<lambda>u.
     bindE (field v [''download''] json_number) (\<lambda>d. Inr \<lparr>q_enabled = e, q_upload = u, q_download = d\<rparr>)))"

definition json_client :: "client \<Rightarrow> json" where
  "json_client c = JObj
     [(''ip'', JStr (c_ip c)), (''hostname'', JStr (c_hostname c)), (''mac'', JStr (c_mac c)),
      (''active'', JBool (c_active c)), (''expires'', JNum (c_expires c)), (''static'', JBool (c_static c))]"

definition json_dhcp :: "bool \<Rightarrow> int \<Rightarrow> int \<Rightarrow> int \<Rightarrow> client list \<Rightarrow> (string \<times> json) list \<Rightarrow> json" where
  "json_dhcp enabled start limit lease clients others = JObj
     ([(''enabled'', JBool enabled), (''start'', JNum start), (''limit'', JNum limit), (''lease_time'', JNum lease),
       (''clients'', JArr (map json_client clients))] @ others)"

text \<open>Only the range of an enabled server is looked at.\<close>

definition decode_dhcp :: "json \<Rightarrow> dhcp_request res" where
  "decode_dhcp v =
     bindE (field v [''enabled''] json_bool) (\<lambda>e.
     if \<not> e then Inr \<lparr>dr_enabled = False, dr_start = 0, dr_limit = 0, dr_lease_time = 0\<rparr>
     else bindE (field v [''start''] json_number) (\<lambda>s. bindE (field v [''limit''] json_number) (\<lambda>l.
       bindE (field v [''lease_time''] json_number) (\<lambda>t.
         Inr \<lparr>dr_enabled = True, dr_start = s, dr_limit = l, dr_lease_time = t\<rparr>))))"

text \<open>A request \<^verbatim>\<open>update_settings(**new_settings)\<close>: the keywords of the method of the backend.\<close>

definition keyword_call :: "string list \<Rightarrow> (string \<times> json) list \<Rightarrow> (json list \<Rightarrow> ('s, json) prog) \<Rightarrow> json list \<Rightarrow> ('s, json) prog" where
  "keyword_call req opt f vs = bindP (lift (case hd vs of JObj kv \<Rightarrow> keyword req opt kv | _ \<Rightarrow> Inl TypeError)) f"

definition decoded :: "'a res \<Rightarrow> ('a \<Rightarrow> ('s, bool) prog) \<Rightarrow> ('s, json) prog" where
  "decoded r f = bindP (lift r) (\<lambda>x. bindP (f x) (\<lambda>b. ret (JBool b)))"

definition json_static :: "uval \<Rightarrow> uval \<Rightarrow> uval \<Rightarrow> string list \<Rightarrow> string \<Rightarrow> json" where
  "json_static ip middle gateway dns middle_name = JObj
     ([(''ip'', uval_json ip), (middle_name, uval_json middle), (''gateway'', uval_json gateway)] @
      zip [''dns1'', ''dns2''] (map JStr dns))"

definition decode_static :: "json \<Rightarrow> static_request res" where
  "decode_static v =
     bindE (field v [''ip''] json_str) (\<lambda>ip. bindE (field v [''netmask''] json_str) (\<lambda>m.
     bindE (field v [''gateway''] json_str) (\<lambda>g.
     bindE (given_field v ''dns1'' json_str) (\<lambda>d1. bindE (given_field v ''dns2'' json_str) (\<lambda>d2.
       Inr \<lparr>sr_ip = ip, sr_netmask = m, sr_gateway = g, sr_dns1 = d1, sr_dns2 = d2\<rparr>)))))"

section \<open>guest\<close>

definition json_guest_state :: "guest_state \<Rightarrow> json" where
  "json_guest_state g = (case gu_dhcp g of (on, start, limit, lease) \<Rightarrow> JObj
     [(''enabled'', JBool (gu_enabled g)), (''ip'', uval_json (fst (gu_address g))),
      (''netmask'', uval_json (snd (gu_address g))), (''qos'', json_qos (gu_qos g)),
      (''dhcp'', json_dhcp on start limit lease (gu_clients g) []),
      (''interface_count'', JNum (int (gu_interface_count g))),
      (''interface_up_count'', JNum (int (gu_interface_up_count g)))])"

text \<open>The backend takes any keywords and looks up what it needs.\<close>

definition decode_guest :: "json \<Rightarrow> guest_request res" where
  "decode_guest v =
     bindE (field v [''enabled''] json_bool) (\<lambda>e.
     if \<not> e then Inr GuestOff
     else bindE (field v [''ip''] json_str) (\<lambda>ip. bindE (field v [''netmask''] json_str) (\<lambda>m.
       bindE (field v [''dhcp''] decode_dhcp) (\<lambda>d. bindE (given_field v ''qos'' decode_qos) (\<lambda>q.
         Inr (GuestOn \<lparr>gs_ip = ip, gs_netmask = m, gs_dhcp = d, gs_qos = q\<rparr>))))))"

definition openwrt_guest :: "'e env \<Rightarrow> iface list res \<Rightarrow> 'e st handler" where
  "openwrt_guest E hw = map_of
     [(''get_settings'', py_get json_guest_state (guest_get_settings E hw)),
      (''update_settings'', py_method [''new_settings''] [] (\<lambda>vs.
         decoded (decode_guest (hd vs)) (guest_update_settings E)))]"

section \<open>lan\<close>

definition json_v6_client :: "ipv6_client \<Rightarrow> json" where
  "json_v6_client c = JObj
     [(''expires'', JNum (v6_expires c)), (''duid'', JStr (v6_duid c)), (''ipv6'', JStr (v6_address c)),
      (''hostname'', JStr (v6_hostname c)), (''active'', JBool (v6_active c))]"

definition json_lan_state :: "lan_state \<Rightarrow> json" where
  "json_lan_state l = (let d = la_dhcp l in JObj
     ([(''mode'', uval_json (la_mode l)),
       (''mode_managed'', JObj
         [(''dhcp'', json_dhcp (ld_enabled d) (ld_start d) (ld_limit d) (ld_lease_time d) (ld_clients d)
             (maybe ''ipv6clients'' (\<lambda>cs. JArr (map json_v6_client cs)) (ld_ipv6clients d))),
          (''router_ip'', JStr (la_router_ip l)), (''netmask'', JStr (la_netmask l))]),
       (''mode_unmanaged'', JObj
         [(''lan_type'', uval_json (la_lan_type l)), (''lan_dhcp'', JObj (maybe ''hostname'' uval_json (la_hostname l))),
          (''lan_static'', json_static (Str (la_router_ip l)) (Str (la_netmask l)) (Str (la_gateway l)) (la_dns l) ''netmask'')]),
       (''interface_count'', JNum (int (la_interface_count l))),
       (''interface_up_count'', JNum (int (la_interface_up_count l))),
       (''qos'', json_qos (la_qos l))] @
      maybe ''lan_redirect'' JBool (la_redirect l)))"

definition decode_managed :: "json \<Rightarrow> lan_request res" where
  "decode_managed v =
     bindE (field v [''router_ip''] json_str) (\<lambda>ip. bindE (field v [''netmask''] json_str) (\<lambda>m.
     bindE (field v [''dhcp''] decode_dhcp) (\<lambda>d. Inr (Managed \<lparr>mr_router_ip = ip, mr_netmask = m, mr_dhcp = d\<rparr>))))"

definition decode_unmanaged :: "json \<Rightarrow> lan_request res" where
  "decode_unmanaged v = bindE (field v [''lan_type''] json_str) (\<lambda>t.
     if t = ''dhcp'' then bindE (field v [''lan_dhcp''] (\<lambda>d. given_field d ''hostname'' json_str)) (\<lambda>h. Inr (Unmanaged (LanDhcp h)))
     else if t = ''static'' then bindE (field v [''lan_static''] decode_static) (\<lambda>s. Inr (Unmanaged (LanStatic s)))
     else if t = ''none'' then Inr (Unmanaged LanNone)
     else Inl TypeError)"

text \<open>The values are those of \<^verbatim>\<open>mode, mode_managed, mode_unmanaged, lan_redirect, qos\<close>.\<close>

definition decode_lan :: "json list \<Rightarrow> (lan_request \<times> bool option \<times> qos_settings option) res" where
  "decode_lan vs =
     bindE (json_str (vs ! 0)) (\<lambda>mode.
     bindE (if mode = ''managed'' then decode_managed (vs ! 1)
            else if mode = ''unmanaged'' then decode_unmanaged (vs ! 2) else Inl TypeError) (\<lambda>req.
     bindE (json_opt json_bool (vs ! 3)) (\<lambda>redirect.
     bindE (json_opt decode_qos (vs ! 4)) (\<lambda>qos. Inr (req, redirect, qos)))))"

text \<open>\<open>ubus\<close>, \<open>now\<close> and \<open>hooks\<close>: the leases of \<^verbatim>\<open>odhcpd\<close>, the clock and the hooks of the update.\<close>

definition openwrt_lan ::
  "'e env \<Rightarrow> iface list res \<Rightarrow> ('e st, (string \<times> ipv6_lease list) list option) prog \<Rightarrow> int \<Rightarrow> ('e st, unit) prog list \<Rightarrow>
    'e st handler" where
  "openwrt_lan E hw ubus now hooks = (openwrt_lan_clients E) ++ map_of
     [(''get_settings'', py_get json_lan_state (lan_get_settings E hw ubus now)),
      (''update_settings'', py_method [''new_settings''] []
         (keyword_call [''mode''] [(''mode_managed'', JNull), (''mode_unmanaged'', JNull), (''lan_redirect'', JNull), (''qos'', JNull)]
           (\<lambda>vs. decoded (decode_lan vs) (\<lambda>(req, redirect, qos). lan_update_settings E hooks req redirect qos))))]"

section \<open>wan\<close>

fun json_wan4 :: "wan4_shown \<Rightarrow> json" where
  "json_wan4 (WanDhcpShown h) =
     JObj [(''wan_type'', JStr ''dhcp''), (''wan_dhcp'', JObj (maybe ''hostname'' uval_json h))]"
| "json_wan4 (WanStaticShown ip m gateway dns) =
     JObj [(''wan_type'', JStr ''static''), (''wan_static'', json_static ip m gateway dns ''netmask'')]"
| "json_wan4 (WanPppoeShown user password) =
     JObj [(''wan_type'', JStr ''pppoe''),
       (''wan_pppoe'', JObj [(''username'', uval_json user), (''password'', uval_json password)])]"
| "json_wan4 (WanOther t) = JObj [(''wan_type'', uval_json t)]"

definition json_dynamic :: "(uval \<times> uval \<times> uval) option \<Rightarrow> json" where
  "json_dynamic d = (case d of
      None \<Rightarrow> JObj [(''enabled'', JBool False)]
    | Some (i, user, key) \<Rightarrow> JObj [(''enabled'', JBool True), (''tunnel_id'', uval_json i), (''username'', uval_json user),
        (''password_or_key'', uval_json key)])"

fun json_wan6 :: "wan6_shown \<Rightarrow> json" where
  "json_wan6 (Wan6StaticShown ip network gateway dns) =
     JObj [(''wan6_type'', JStr ''static''), (''wan6_static'', json_static ip network gateway dns ''network'')]"
| "json_wan6 (Wan6DhcpShown duid) =
     JObj [(''wan6_type'', JStr ''dhcpv6''), (''wan6_dhcpv6'', JObj [(''duid'', uval_json duid)])]"
| "json_wan6 (Wan6to4Shown a) =
     JObj [(''wan6_type'', JStr ''6to4''), (''wan6_6to4'', JObj [(''ipv4_address'', uval_json a)])]"
| "json_wan6 (Wan6in4Shown s) =
     JObj [(''wan6_type'', JStr ''6in4''), (''wan6_6in4'', JObj
       [(''ipv6_prefix'', uval_json (sh_prefix s)), (''mtu'', JNum (sh_mtu s)), (''server_ipv4'', uval_json (sh_server s)),
        (''ipv6_address'', uval_json (sh_address s)), (''dynamic_ipv4'', json_dynamic (sh_dynamic s))])]"
| "json_wan6 (Wan6Other t) = JObj [(''wan6_type'', uval_json t)]"

definition json_wan_state :: "wan_state \<Rightarrow> json" where
  "json_wan_state w = JObj
     [(''wan_settings'', json_wan4 (wa_wan w)), (''wan6_settings'', json_wan6 (wa_wan6 w)),
      (''mac_settings'', JObj ([(''custom_mac_enabled'', JBool (wa_custom_mac w \<noteq> None)), (''mac_address'', JStr (wa_mac w))] @
         maybe ''custom_mac'' uval_json (wa_custom_mac w))),
      (''interface_count'', JNum (int (wa_interface_count w))),
      (''interface_up_count'', JNum (int (wa_interface_up_count w))),
      (''qos'', json_qos (wa_qos w)),
      (''vlan_settings'', JObj ((''enabled'', JBool (wa_vlan w \<noteq> None)) # maybe ''vlan_id'' JNum (wa_vlan w)))]"

definition decode_wan4 :: "json \<Rightarrow> wan4_request res" where
  "decode_wan4 v = bindE (field v [''wan_type''] json_str) (\<lambda>t.
     if t = ''dhcp'' then bindE (field v [''wan_dhcp''] (\<lambda>d. given_field d ''hostname'' json_str)) (\<lambda>h. Inr (WanDhcp h))
     else if t = ''static'' then bindE (field v [''wan_static''] decode_static) (\<lambda>s. Inr (WanStatic s))
     else if t = ''pppoe'' then bindE (field v [''wan_pppoe'', ''username''] json_str) (\<lambda>u.
       bindE (field v [''wan_pppoe'', ''password''] json_str) (\<lambda>p. Inr (WanPppoe u p)))
     else if t = ''none'' then Inr WanNone
     else Inl TypeError)"

definition decode_wan6_static :: "json \<Rightarrow> wan6_static res" where
  "decode_wan6_static v =
     bindE (field v [''ip''] json_str) (\<lambda>ip. bindE (field v [''network''] json_str) (\<lambda>n.
     bindE (field v [''gateway''] json_str) (\<lambda>g.
     bindE (given_field v ''dns1'' json_str) (\<lambda>d1. bindE (given_field v ''dns2'' json_str) (\<lambda>d2.
       Inr \<lparr>w6_ip = ip, w6_network = n, w6_gateway = g, w6_dns1 = d1, w6_dns2 = d2\<rparr>)))))"

definition decode_dynamic :: "json \<Rightarrow> (string \<times> string \<times> string) option res" where
  "decode_dynamic v = bindE (field v [''enabled''] json_bool) (\<lambda>e.
     if \<not> e then Inr None
     else bindE (field v [''tunnel_id''] json_str) (\<lambda>i. bindE (field v [''username''] json_str) (\<lambda>u.
       bindE (field v [''password_or_key''] json_str) (\<lambda>k. Inr (Some (i, u, k))))))"

definition decode_6in4 :: "json \<Rightarrow> sixin4_request res" where
  "decode_6in4 v =
     bindE (field v [''mtu''] json_number) (\<lambda>mtu. bindE (field v [''server_ipv4''] json_str) (\<lambda>server.
     bindE (field v [''ipv6_prefix''] json_str) (\<lambda>prefix. bindE (given_field v ''ipv6_address'' json_str) (\<lambda>address.
     bindE (field v [''dynamic_ipv4''] decode_dynamic) (\<lambda>dynamic.
       Inr \<lparr>r6_mtu = mtu, r6_server = server, r6_prefix = prefix, r6_address = address, r6_dynamic = dynamic\<rparr>)))))"

definition decode_wan6 :: "json \<Rightarrow> wan6_request res" where
  "decode_wan6 v = bindE (field v [''wan6_type''] json_str) (\<lambda>t.
     if t = ''static'' then bindE (field v [''wan6_static''] decode_wan6_static) (\<lambda>s. Inr (Wan6Static s))
     else if t = ''dhcpv6'' then bindE (field v [''wan6_dhcpv6'', ''duid''] json_str) (\<lambda>d. Inr (Wan6Dhcp d))
     else if t = ''6to4'' then bindE (field v [''wan6_6to4'', ''ipv4_address''] json_str) (\<lambda>a. Inr (Wan6to4 a))
     else if t = ''6in4'' then bindE (field v [''wan6_6in4''] decode_6in4) (\<lambda>s. Inr (Wan6in4 s))
     else if t = ''none'' then Inr Wan6None
     else Inl TypeError)"

definition decode_mac :: "json \<Rightarrow> string option res" where
  "decode_mac v = bindE (field v [''custom_mac_enabled''] json_bool) (\<lambda>e.
     if e then bindE (field v [''custom_mac''] json_str) (\<lambda>m. Inr (Some m)) else Inr None)"

definition decode_vlan :: "json \<Rightarrow> int option option res" where
  "decode_vlan v =
     (if \<not> json_truthy v then Inr None
      else bindE (field v [''enabled''] json_bool) (\<lambda>e.
        if e then bindE (field v [''vlan_id''] json_number) (\<lambda>n. Inr (Some (Some n))) else Inr (Some None)))"

text \<open>The values are those of \<^verbatim>\<open>wan_settings, wan6_settings, mac_settings, qos, vlan_settings\<close>.\<close>

definition decode_wan :: "json list \<Rightarrow> wan_request res" where
  "decode_wan vs =
     bindE (decode_wan4 (vs ! 0)) (\<lambda>w. bindE (decode_wan6 (vs ! 1)) (\<lambda>w6. bindE (decode_mac (vs ! 2)) (\<lambda>mac.
     bindE (json_opt decode_qos (vs ! 3)) (\<lambda>qos. bindE (decode_vlan (vs ! 4)) (\<lambda>vlan.
       Inr \<lparr>wr_wan = w, wr_wan6 = w6, wr_custom_mac = mac, wr_qos = qos, wr_vlan = vlan\<rparr>)))))"

definition json_wan_status :: "wan_status \<Rightarrow> json" where
  "json_wan_status w = JObj
     [(''up'', JBool (ni_up (wt_info w))), (''last_seen_duid'', JStr (wt_duid w)), (''proto'', JStr (ni_proto (wt_info w)))]"

definition json_wan_mode :: "wan_mode \<Rightarrow> json" where
  "json_wan_mode m = JStr (case m of Wired \<Rightarrow> ''wired'' | Wireless \<Rightarrow> ''wireless'')"

text \<open>\<open>loads\<close> decodes the output of \<^verbatim>\<open>ifstatus\<close>; \<open>start_test\<close> and \<open>test_status\<close> are the connection test's.\<close>

definition openwrt_wan ::
  "'e env \<Rightarrow> iface list \<Rightarrow> iface list res \<Rightarrow> (string \<Rightarrow> ifstatus option) \<Rightarrow>
    (json list \<Rightarrow> (json \<Rightarrow> ('e st, unit) prog) \<Rightarrow> (json \<Rightarrow> ('e st, unit) prog) \<Rightarrow> ('e st, string) prog) \<Rightarrow>
    (string \<Rightarrow> ('e st, json) prog) \<Rightarrow> 'e st handler" where
  "openwrt_wan E interfaces hw loads start_test test_status = map_of
     [(''get_settings'', py_get json_wan_state (wan_get_settings E interfaces hw)),
      (''update_settings'', py_method [''new_settings''] []
         (keyword_call [''wan_settings'', ''wan6_settings'', ''mac_settings''] [(''qos'', JNull), (''vlan_settings'', JNull)]
           (\<lambda>vs. decoded (decode_wan vs) (\<lambda>req. bindP (wan_update_settings E req) (\<lambda>_. ret True))))),
      (''connection_test_trigger'', task_method 1 start_test),
      (''connection_test_status'', py_method [''test_id''] [] (with_text test_status)),
      (''get_wan_status'', py_get json_wan_status (wan_get_status E loads)),
      (''get_wan_mode'', py_get json_wan_mode (get_wan_mode E))]"

section \<open>networks\<close>

text \<open>The fields of an interface that the model carries.\<close>

definition json_iface :: "iface \<Rightarrow> json" where
  "json_iface i = JObj
     ([(''id'', JStr (i_id i))] @ maybe ''type'' JStr (i_type i) @ maybe ''state'' JStr (i_state i) @
      maybe ''slot_path'' JStr (i_slot_path i) @ maybe ''macaddr'' JStr (i_macaddr i) @
      [(''configurable'', JBool (i_configurable i))] @ maybe ''ssid'' JStr (i_ssid i))"

definition json_ifaces :: "iface list \<Rightarrow> json" where
  "json_ifaces is = JArr (map json_iface is)"

definition json_networks :: "networks_settings \<Rightarrow> json" where
  "json_networks n = JObj
     [(''device'', JObj [(''model'', JStr (ns_model n)), (''version'', JStr (ns_version n))]),
      (''firewall'', JObj [(''ssh_on_wan'', JBool (ns_ssh_on_wan n)), (''http_on_wan'', JBool (ns_http_on_wan n)),
         (''https_on_wan'', JBool (ns_https_on_wan n))]),
      (''networks'', JObj [(''wan'', json_ifaces (gr_wan (ns_groups n))), (''lan'', json_ifaces (gr_lan (ns_groups n))),
         (''guest'', json_ifaces (gr_guest (ns_groups n))), (''none'', json_ifaces (gr_none (ns_groups n)))])]"

definition decode_firewall :: "json \<Rightarrow> firewall_request res" where
  "decode_firewall v =
     bindE (field v [''ssh_on_wan''] json_bool) (\<lambda>s. bindE (field v [''http_on_wan''] json_bool) (\<lambda>h.
     bindE (field v [''https_on_wan''] json_bool) (\<lambda>t.
       Inr \<lparr>fr_ssh_on_wan = s, fr_http_on_wan = h, fr_https_on_wan = t\<rparr>)))"

definition decode_groups :: "json \<Rightarrow> networks_request res" where
  "decode_groups v =
     bindE (field v [''wan''] (json_list json_str)) (\<lambda>w. bindE (field v [''lan''] (json_list json_str)) (\<lambda>l.
     bindE (field v [''guest''] (json_list json_str)) (\<lambda>g. bindE (field v [''none''] (json_list json_str)) (\<lambda>n.
       Inr \<lparr>nr_wan = w, nr_lan = l, nr_guest = g, nr_none = n\<rparr>))))"

definition openwrt_networks :: "'e env \<Rightarrow> iface list \<Rightarrow> 'e st handler" where
  "openwrt_networks E interfaces = map_of
     [(''get_settings'', py_get json_networks (networks_get_settings E interfaces)),
      (''update_settings'', py_method [''new_settings''] [] (keyword_call [''firewall'', ''networks''] []
         (\<lambda>vs. decoded (bindE (decode_firewall (vs ! 0)) (\<lambda>f. bindE (decode_groups (vs ! 1)) (\<lambda>g. Inr (f, g))))
           (\<lambda>(f, g). networks_update_settings E interfaces f g))))]"

section \<open>wifi\<close>

definition json_band :: "wifi_band \<Rightarrow> json" where
  "json_band b = JObj
     [(''available_channels'', JArr (map (\<lambda>c. JObj
         [(''number'', ch_number c), (''frequency'', ch_frequency c), (''radar'', JBool False)]) (wb_channels b))),
      (''hwmode'', JStr (wb_hwmode b)), (''available_htmodes'', json_texts (wb_htmodes b))]"

definition json_wifi :: "wifi_state \<Rightarrow> json" where
  "json_wifi w = (let g = ws_guest w in JObj
     [(''id'', JNum (ws_id w)), (''enabled'', JBool (ws_enabled w)), (''SSID'', uval_json (ws_ssid w)),
      (''channel'', JNum (ws_channel w)), (''hidden'', JBool (ws_hidden w)), (''hwmode'', uval_json (ws_hwmode w)),
      (''htmode'', uval_json (ws_htmode w)), (''encryption'', JStr (ws_encryption w)),
      (''ieee80211w_disabled'', JBool (ws_ieee80211w_disabled w)), (''password'', uval_json (ws_password w)),
      (''guest_wifi'', JObj
        [(''enabled'', JBool (gw_enabled g)), (''SSID'', uval_json (gw_ssid g)), (''password'', uval_json (gw_password g)),
         (''encryption'', JStr (gw_encryption g))]),
      (''available_bands'', JArr (map json_band (ws_bands w)))])"

definition json_wifis :: "wifi_state list \<Rightarrow> json" where
  "json_wifis ws = JObj [(''devices'', JArr (map json_wifi ws))]"

definition decode_guest_wifi :: "json \<Rightarrow> guest_wifi_request option res" where
  "decode_guest_wifi v = bindE (field v [''enabled''] json_bool) (\<lambda>e.
     if \<not> e then Inr None
     else bindE (field v [''SSID''] json_str) (\<lambda>ssid. bindE (field v [''password''] json_str) (\<lambda>p.
       bindE (given_field v ''encryption'' json_str) (\<lambda>enc.
         Inr (Some \<lparr>gr_ssid = ssid, gr_password = p, gr_encryption = enc\<rparr>)))))"

definition decode_radio :: "json \<Rightarrow> wifi_request res" where
  "decode_radio v =
     bindE (field v [''channel''] json_number) (\<lambda>channel. bindE (field v [''hwmode''] json_str) (\<lambda>hwmode.
     bindE (field v [''htmode''] json_str) (\<lambda>htmode. bindE (field v [''SSID''] json_str) (\<lambda>ssid.
     bindE (field v [''hidden''] json_bool) (\<lambda>hidden. bindE (given_field v ''encryption'' json_str) (\<lambda>enc.
     bindE (given_field v ''ieee80211w_disabled'' json_bool) (\<lambda>w_disabled.
     bindE (field v [''password''] json_str) (\<lambda>password.
     bindE (field v [''guest_wifi''] decode_guest_wifi) (\<lambda>guest.
       Inr \<lparr>wr_channel = channel, wr_hwmode = hwmode, wr_htmode = htmode, wr_ssid = ssid, wr_hidden = hidden,
         wr_encryption = enc, wr_ieee80211w_disabled = w_disabled, wr_password = password, wr_guest = guest\<rparr>)))))))))"

definition decode_wifi :: "json \<Rightarrow> (int \<times> wifi_change) res" where
  "decode_wifi v =
     bindE (field v [''id''] json_number) (\<lambda>i. bindE (field v [''enabled''] json_bool) (\<lambda>e.
     if e then bindE (decode_radio v) (\<lambda>r. Inr (i, WifiOn r)) else Inr (i, WifiOff)))"

text \<open>\<open>start_scan\<close> and \<open>scan_of\<close> are those of the wireless scan.\<close>

definition openwrt_wifi ::
  "'e env \<Rightarrow> ubus_io \<Rightarrow> (json list \<Rightarrow> (json \<Rightarrow> ('e st, unit) prog) \<Rightarrow> (json \<Rightarrow> ('e st, unit) prog) \<Rightarrow> ('e st, string) prog) \<Rightarrow>
    (string \<Rightarrow> ('e st, json) prog) \<Rightarrow> 'e st handler" where
  "openwrt_wifi E io start_scan scan_of = map_of
     [(''get_settings'', py_get json_wifis (wifi_get_settings E io)),
      (''update_settings'', py_method [''new_settings''] [] (\<lambda>vs.
         decoded (field (hd vs) [''devices''] (json_list decode_wifi)) (wifi_update_settings E io))),
      (''reset'', py_get JBool (wifi_reset E)),
      (''scan_trigger'', task_method 1 start_scan),
      (''scan_status'', py_method [''scan_id''] [] (with_text scan_of))]"

section \<open>dns\<close>

definition json_short :: "string \<times> string \<times> bool \<Rightarrow> json" where
  "json_short f = (case f of (name, description, editable) \<Rightarrow>
     JObj [(''name'', JStr name), (''description'', JStr description), (''editable'', JBool editable)])"

definition json_dns :: "dns_settings \<times> (string \<times> string \<times> bool) list \<Rightarrow> json" where
  "json_dns d = (case d of (s, available) \<Rightarrow> JObj
     ([(''forwarding_enabled'', JBool (ds_forwarding s)), (''forwarder'', uval_json (ds_forwarder s)),
       (''available_forwarders'', JArr (map json_short available)), (''dnssec_enabled'', JBool (ds_dnssec s)),
       (''dns_from_dhcp_enabled'', JBool (ds_from_dhcp s))] @ maybe ''dns_from_dhcp_domain'' JStr (ds_domain s)))"

definition json_forwarder :: "stored_forwarder \<Rightarrow> json" where
  "json_forwarder f = (let d = sf_data f in JObj
     [(''name'', JStr (sf_name f)), (''description'', JStr (fw_description d)),
      (''ipaddresses'', JObj [(''ipv4'', json_texts (fw_ipv4 d)), (''ipv6'', json_texts (fw_ipv6 d))]),
      (''tls_type'', JStr (fw_tls_type d)), (''tls_hostname'', JStr (fw_tls_hostname d)), (''tls_pin'', JStr (fw_tls_pin d)),
      (''editable'', JBool (sf_editable f))])"

text \<open>The values of \<^verbatim>\<open>description, ipaddresses, tls_type, tls_hostname, tls_pin\<close>.\<close>

definition decode_forwarder :: "json list \<Rightarrow> forwarder res" where
  "decode_forwarder vs =
     bindE (json_str (vs ! 0)) (\<lambda>description. bindE (given_field (vs ! 1) ''ipv4'' (json_list json_str)) (\<lambda>v4.
     bindE (given_field (vs ! 1) ''ipv6'' (json_list json_str)) (\<lambda>v6.
     bindE (json_str (vs ! 2)) (\<lambda>tls. bindE (json_str (vs ! 3)) (\<lambda>hostname. bindE (json_str (vs ! 4)) (\<lambda>pin.
       Inr \<lparr>fw_description = description, fw_ipv4 = (case v4 of Some xs \<Rightarrow> xs | None \<Rightarrow> []),
         fw_ipv6 = (case v6 of Some xs \<Rightarrow> xs | None \<Rightarrow> []), fw_tls_type = tls, fw_tls_hostname = hostname,
         fw_tls_pin = pin\<rparr>))))))"

definition decode_dns :: "json list \<Rightarrow> dns_request res" where
  "decode_dns vs =
     bindE (json_bool (vs ! 0)) (\<lambda>forwarding. bindE (json_bool (vs ! 1)) (\<lambda>dnssec. bindE (json_bool (vs ! 2)) (\<lambda>from_dhcp.
     bindE (json_opt json_str (vs ! 3)) (\<lambda>forwarder. bindE (json_opt json_str (vs ! 4)) (\<lambda>domain.
       Inr \<lparr>dq_forwarding = forwarding, dq_dnssec = dnssec, dq_from_dhcp = from_dhcp, dq_forwarder = forwarder,
         dq_domain = domain\<rparr>)))))"

definition tls_defaults :: "(string \<times> json) list" where
  "tls_defaults = [(''tls_hostname'', JStr []), (''tls_pin'', JStr [])]"

text \<open>\<open>digest\<close>: the hash in the name of a new forwarder.\<close>

definition openwrt_dns :: "'e env \<Rightarrow> (forwarder \<Rightarrow> string) \<Rightarrow> 'e st handler" where
  "openwrt_dns E digest = map_of
     [(''get_settings'', py_get json_dns (dns_get_settings E)),
      (''update_settings'', py_method [''forwarding_enabled'', ''dnssec_enabled'', ''dns_from_dhcp_enabled'']
         [(''forwarder'', JNull), (''dns_from_dhcp_domain'', JNull)] (\<lambda>vs. decoded (decode_dns vs) (dns_update_settings E))),
      (''list_forwarders'', py_get (\<lambda>fs. JArr (map json_forwarder fs)) (get_available_forwarders E)),
      (''add_forwarder'', py_method [''description'', ''ipaddresses'', ''tls_type''] tls_defaults (\<lambda>vs.
         bindP (lift (decode_forwarder vs)) (\<lambda>f. bindP (add_forwarder E digest f) (\<lambda>name.
           ret (case name of Some n \<Rightarrow> JStr n | None \<Rightarrow> JBool False))))),
      (''set_forwarder'', py_method [''name'', ''description'', ''ipaddresses'', ''tls_type''] tls_defaults (\<lambda>vs.
         bindP (lift (json_str (hd vs))) (\<lambda>name. decoded (decode_forwarder (tl vs)) (set_forwarder E name)))),
      (''del_forwarder'', py_method [''name''] [] (\<lambda>vs. decoded (json_str (hd vs)) (del_forwarder E)))]"

section \<open>Settings shown and sent back\<close>

text \<open>What is shown of a network that is on, sent back, is the request for the network as it is.\<close>

lemmas decoders = field_def given_field_def jget_opt_def json_opt_def

lemma decode_shown_qos: "decode_qos (json_qos q) = Inr q"
  by (simp add: decode_qos_def json_qos_def decoders)

lemma json_qos_not_null [simp]: "json_qos q \<noteq> JNull"
  by (simp add: json_qos_def)

lemma decode_shown_dhcp:
  "decode_dhcp (json_dhcp on s l t clients others) =
    Inr (if on then \<lparr>dr_enabled = True, dr_start = s, dr_limit = l, dr_lease_time = t\<rparr>
         else \<lparr>dr_enabled = False, dr_start = 0, dr_limit = 0, dr_lease_time = 0\<rparr>)"
  by (simp add: decode_dhcp_def json_dhcp_def decoders)

lemma decode_shown_guest:
  assumes "gu_enabled g" "gu_address g = (Str addr, Str nmask)" "gu_dhcp g = (True, s, l, t)"
  shows "decode_guest (json_guest_state g) = Inr (GuestOn \<lparr>gs_ip = addr, gs_netmask = nmask,
    gs_dhcp = \<lparr>dr_enabled = True, dr_start = s, dr_limit = l, dr_lease_time = t\<rparr>, gs_qos = Some (gu_qos g)\<rparr>)"
  using assms
  by (simp add: decode_guest_def json_guest_state_def decoders decode_shown_qos decode_shown_dhcp)

lemma decode_shown_radio:
  assumes "ws_ssid w = Str ssid" "ws_hwmode w = Str hwmode" "ws_htmode w = Str htmode" "ws_password w = Str password"
    and "gw_ssid (ws_guest w) = Str gssid" "gw_password (ws_guest w) = Str gpassword"
  shows "decode_radio (json_wifi w) = Inr \<lparr>wr_channel = ws_channel w, wr_hwmode = hwmode, wr_htmode = htmode,
    wr_ssid = ssid, wr_hidden = ws_hidden w, wr_encryption = Some (ws_encryption w),
    wr_ieee80211w_disabled = Some (ws_ieee80211w_disabled w), wr_password = password,
    wr_guest = (if gw_enabled (ws_guest w)
      then Some \<lparr>gr_ssid = gssid, gr_password = gpassword, gr_encryption = Some (gw_encryption (ws_guest w))\<rparr> else None)\<rparr>"
  using assms
  by (simp add: decode_radio_def decode_guest_wifi_def json_wifi_def Let_def decoders)

end
