(* ===== verification/GuestService.thy ===== *)
theory GuestService
  imports HandlersNet
begin

text \<open>
  A request for the guest network followed from the message through router, module, handler,
  transaction and services to the published configs and the notification.
\<close>

section \<open>The request\<close>

definition guest_data :: "guest_settings \<Rightarrow> json" where
  "guest_data g = JObj
     ([(''enabled'', JBool True), (''ip'', JStr (gs_ip g)), (''netmask'', JStr (gs_netmask g)),
       (''dhcp'', JObj (if dr_enabled (gs_dhcp g) then
          [(''enabled'', JBool True), (''start'', JNum (dr_start (gs_dhcp g))),
           (''limit'', JNum (dr_limit (gs_dhcp g))), (''lease_time'', JNum (dr_lease_time (gs_dhcp g)))]
        else [(''enabled'', JBool False)]))] @
      maybe ''qos'' json_qos (gs_qos g))"

lemma decode_qos_json [simp]: "decode_qos (json_qos q) = Inr q"
  by (simp add: decode_qos_def json_qos_def field_def bindE_def)

text \<open>The handler sees no range where DHCP is not requested.\<close>

definition received :: "guest_settings \<Rightarrow> guest_settings" where
  "received g = (if dr_enabled (gs_dhcp g) then g
     else g\<lparr>gs_dhcp := \<lparr>dr_enabled = False, dr_start = 0, dr_limit = 0, dr_lease_time = 0\<rparr>\<rparr>)"

lemma received_simps [simp]:
  "gs_ip (received g) = gs_ip g" "gs_netmask (received g) = gs_netmask g"
  "shown_qos (GuestOn (received g)) = shown_qos (GuestOn g)"
  "dhcp_shown (gs_dhcp (received g)) = dhcp_shown (gs_dhcp g)"
  by (simp_all add: received_def shown_qos_def dhcp_shown_def fun_eq_iff)

lemma decode_guest_data: "decode_guest (guest_data g) = Inr (GuestOn (received g))"
  by (cases g; cases "gs_dhcp g"; cases "gs_qos g")
     (auto simp: decode_guest_def guest_data_def decode_dhcp_def received_def field_def bindE_def given_field_def
        jget_opt_def json_opt_def maybe_def json_qos_def decode_qos_json [unfolded json_qos_def])

lemma guest_data_refused:
  assumes "if dr_enabled (gs_dhcp g)
      then check_dynamic_ranges (gs_ip g) (gs_netmask g) (dr_start (gs_dhcp g)) (dr_limit (gs_dhcp g)) = Inr ok
      else ok"
  shows "guest_refused (guest_data g) = Inr (\<not> ok)"
  using assms
  by (auto simp: guest_refused_def guest_data_def truthyE_def andE_def bindE_def ranges_ok_def text_of_def split: if_splits)

section \<open>Services\<close>

text \<open>A service command that may fail always returns.\<close>

lemma optional_service_returns:
  assumes "\<not> services_held s"
  shows "\<exists>s'. with_services (service_command E cmd service None False) s = (Ret (), s') \<and> \<not> services_held s'"
  using assms
  by (auto simp: with_services_def acquire_services_def release_services_def bindP_def tryP_def service_command_def
      run_service_command_def handle_command_def raise_def ret_def split: prod.split proc.split outcome.split)

text \<open>A command started in the background has not changed a config when the call returns.\<close>

definition spawns_keep :: "'e env \<Rightarrow> ('e \<Rightarrow> store) \<Rightarrow> bool" where
  "spawns_keep E view \<longleftrightarrow>
     (\<forall>args e. fst (env_spawn E args e) = None \<and> committed (view (snd (env_spawn E args e))) = committed (view e))"

lemma restart_network_returns:
  assumes "spawns_keep E view"
  shows "\<exists>s'. restart_network E s = (Ret (), s') \<and> committed (view (ext s')) = committed (view (ext s))"
proof -
  obtain r e where run: "env_spawn E (inject_cmdline_root E ''/usr/bin/maintain-network-restart'' # []) (ext s) = (r, e)"
    by (cases "env_spawn E (inject_cmdline_root E ''/usr/bin/maintain-network-restart'' # []) (ext s)")
  then show ?thesis
    using assms [unfolded spawns_keep_def, rule_format, of "inject_cmdline_root E ''/usr/bin/maintain-network-restart'' # []" "ext s"]
    by (simp add: restart_network_def run_command_in_background_def)
qed

lemma guest_update_read_back:
  assumes "uci_tool E nm view" "services_keep E view" "spawns_keep E view" "ready view s" "\<not> services_held s"
    and "committed (view (ext s)) ''network'' = Some N" "committed (view (ext s)) ''firewall'' = Some F"
    and "committed (view (ext s)) ''dhcp'' = Some D" "committed (view (ext s)) ''sqm'' = Some Q"
    and "gs_ip g \<noteq> []" "gs_netmask g \<noteq> []"
  shows "\<exists>s' N' F' D' Q'. guest_update_settings E (GuestOn g) s = (Ret True, s') \<and>
    committed (view (ext s')) = (committed (view (ext s)))
      (''network'' \<mapsto> N', ''firewall'' \<mapsto> F', ''dhcp'' \<mapsto> D', ''sqm'' \<mapsto> Q') \<and>
    get_guest_enabled [(''network'', N')] [(''firewall'', F')] = Inr True \<and>
    guest_address [(''network'', N')] = Inr (Str (gs_ip g), Str (gs_netmask g)) \<and>
    dhcp_shown (gs_dhcp g) D D' \<and>
    read_qos [(''sqm'', Q')] ''guest_limit_turris'' = Inr (shown_qos (GuestOn g))"
proof -
  obtain s1 N' F' D' Q' where s1: "with_uci E (set_guest_network E (GuestOn g)) s =
      (Ret (Some (if wanted_qos (GuestOn g) = None then ''disable'' else ''enable'')), s1)"
    and free: "services_held s1 = services_held s"
    and com: "committed (view (ext s1)) = (committed (view (ext s)))
      (''network'' \<mapsto> N', ''firewall'' \<mapsto> F', ''dhcp'' \<mapsto> D', ''sqm'' \<mapsto> Q')"
    and read: "get_guest_enabled [(''network'', N')] [(''firewall'', F')] = Inr True"
      "guest_address [(''network'', N')] = Inr (Str (gs_ip g), Str (gs_netmask g))"
      "dhcp_shown (gs_dhcp g) D D'"
      "read_qos [(''sqm'', Q')] ''guest_limit_turris'' = Inr (shown_qos (GuestOn g))"
    using guest_settings_read_back [OF assms(1,4,6-11)] by (elim exE conjE)
  let ?cmd = "if wanted_qos (GuestOn g) = None then Disable else Enable"
  obtain s2 where s2: "with_services (service_command E ?cmd ''sqm'' None False) s1 = (Ret (), s2)"
    using optional_service_returns [of s1 E ?cmd "''sqm''"] free assms(5) by blast
  have com2: "committed (view (ext s2)) = committed (view (ext s1))"
    using keeps_with_services [OF keeps_service_command [OF assms(2)], of ?cmd "''sqm''" False] s2
    unfolding keeps_def by (metis snd_conv)
  obtain s3 where s3: "restart_network E s2 = (Ret (), s3)" "committed (view (ext s3)) = committed (view (ext s2))"
    using restart_network_returns [OF assms(3)] by blast
  have body: "guest_update_body E (GuestOn g) = set_guest_network E (GuestOn g)"
    by (simp add: guest_update_body_def whenP_def bindP_def ret_def fun_eq_iff)
  have "guest_update_settings E (GuestOn g) s = (Ret True, s3)"
    using s1 s2 s3(1) unfolding guest_update_settings_def body
    by (auto simp: bindP_def ret_def split: if_splits)
  moreover have "committed (view (ext s3)) = (committed (view (ext s)))
      (''network'' \<mapsto> N', ''firewall'' \<mapsto> F', ''dhcp'' \<mapsto> D', ''sqm'' \<mapsto> Q')"
    using com com2 s3(2) by simp
  ultimately show ?thesis using read by blast
qed

section \<open>From message to message\<close>

lemma guest_update_action:
  "\<exists>f. map_of (guest_module h n) ''update_settings'' = Some f \<and>
     f data = bindP (lift (guest_refused data)) (\<lambda>no.
        if no then ret (result_of (JBool False))
        else bindP (call h ''update_settings'' (Pos [data])) (announced n ''update_settings'' (Inr (Some data))))"
  by (simp add: guest_module_def guarded_update_def getting_def)

lemma openwrt_guest_update:
  assumes "decode_guest data = Inr req"
  shows "call (openwrt_guest E hw) ''update_settings'' (Pos [data]) = bindP (guest_update_settings E req) (\<lambda>b. ret (JBool b))"
  using assms
  by (simp add: call_def openwrt_guest_def positional_def decoded_def lift_def bindP_def fun_eq_iff)



end
