(* ===== verification/AsyncStart.thy ===== *)
theory AsyncStart
  imports AsyncCommands Services
begin

text \<open>
  How an asynchronous command is started: \<^verbatim>\<open>start_process\<close> of \<^verbatim>\<open>AsyncCommand\<close> and
  \<^verbatim>\<open>AsyncMultipleCommands\<close> in \<^verbatim>\<open>foris_controller_backends/cmdline/__init__.py\<close>. The caller waits for
  a thread, which registers the process, starts the worker and waits until the worker is ready; the
  worker prepares itself and reopens the connection for notifications first. The three run
  concurrently: they are a step relation. The theorem tells in which states a start can end.
\<close>

section \<open>What a worker does before it is ready\<close>

definition inject_first :: "'e env \<Rightarrow> string list \<Rightarrow> string list res" where
  "inject_first E args = (case args of [] \<Rightarrow> Inl IndexError | a # as \<Rightarrow> Inr (inject_cmdline_root E a # as))"

text \<open>\<open>compile\<close> is \<^verbatim>\<open>re.compile\<close>; without a function that resets the connection there is nothing to reset.\<close>

definition worker_prelude ::
  "'e env \<Rightarrow> (string \<Rightarrow> 'x res) \<Rightarrow> string list \<Rightarrow> ('s, unit) prog option \<Rightarrow> (string \<times> 'h) list \<Rightarrow>
    ('s, string list \<times> ('x \<times> 'h) list) prog" where
  "worker_prelude E compile args reset_notify handler_list =
     bindP (lift (inject_first E args)) (\<lambda>args'.
     bindP (lift (mapE (\<lambda>(regex, h). bindE (compile regex) (\<lambda>r. Inr (r, h))) handler_list)) (\<lambda>handlers.
     bindP (case reset_notify of Some reset \<Rightarrow> reset | None \<Rightarrow> ret ()) (\<lambda>_. ret (args', handlers))))"

definition multiple_prelude :: "'e env \<Rightarrow> string list list \<Rightarrow> ('s, unit) prog option \<Rightarrow> ('s, string list list) prog" where
  "multiple_prelude E subprocess_infos reset_notify =
     bindP (lift (mapE (inject_first E) subprocess_infos)) (\<lambda>infos.
     bindP (case reset_notify of Some reset \<Rightarrow> reset | None \<Rightarrow> ret ()) (\<lambda>_. ret infos))"

lemma worker_prelude_reset_fails:
  assumes "args \<noteq> []" "mapE (\<lambda>(regex, h). bindE (compile regex) (\<lambda>r. Inr (r, h))) handler_list = Inr hs" "reset s = (Raise e, s')"
  shows "worker_prelude E compile args (Some reset) handler_list s = (Raise e, s')"
  using assms by (cases args) (simp_all add: worker_prelude_def inject_first_def bindP_def lift_def)

text \<open>Starting several commands registers their process like starting one.\<close>

definition start_multiple :: "nat \<Rightarrow> 'r async \<Rightarrow> 'r async" where
  "start_multiple random a =
     \<lparr>as_processes = admit (process_id random) (length (as_heap a)) (as_processes a),
      as_heap = as_heap a @ [new_process random]\<rparr>"

lemma start_multiple_like_single: "start_multiple = start_process"
  by (intro ext) (simp add: start_multiple_def start_process_def)

section \<open>The caller, its thread and the worker\<close>

datatype caller = Waiting | Returned string

datatype start_thread = Registering | Launching | Awaiting | Joining | Thread_done

datatype worker_state = Not_started | Preparing | Watching | Worker_done | Worker_died exn

record launch =
  la_caller :: caller
  la_thread :: start_thread
  la_worker :: worker_state
  la_ready :: bool
  la_started :: bool
  la_table :: "(string \<times> nat) list"

text \<open>The process and its place in the shared memory exist before the thread does.\<close>

definition launch_init :: "(string \<times> nat) list \<Rightarrow> launch" where
  "launch_init table = \<lparr>la_caller = Waiting, la_thread = Registering, la_worker = Not_started, la_ready = False,
     la_started = False, la_table = table\<rparr>"

text \<open>
  \<open>prelude\<close> is how the worker's preparation ends. A worker that watches its command ends some time;
  a worker that fails after it said that it is ready ends like that too, for the thread only joins
  it. The operating system is taken to start the process of the worker.
\<close>

inductive launch_step :: "string \<Rightarrow> nat \<Rightarrow> exn option \<Rightarrow> launch \<Rightarrow> launch \<Rightarrow> bool"
  for i :: string and d :: nat and prelude :: "exn option" where
  Register: "la_thread l = Registering \<Longrightarrow>
    launch_step i d prelude l (l\<lparr>la_thread := Launching, la_table := admit i d (la_table l)\<rparr>)"
| Launch: "la_thread l = Launching \<Longrightarrow> launch_step i d prelude l (l\<lparr>la_thread := Awaiting, la_worker := Preparing\<rparr>)"
| Ready: "la_worker l = Preparing \<Longrightarrow> prelude = None \<Longrightarrow> launch_step i d prelude l (l\<lparr>la_worker := Watching, la_ready := True\<rparr>)"
| Die: "la_worker l = Preparing \<Longrightarrow> prelude = Some e \<Longrightarrow> launch_step i d prelude l (l\<lparr>la_worker := Worker_died e\<rparr>)"
| Finish: "la_worker l = Watching \<Longrightarrow> launch_step i d prelude l (l\<lparr>la_worker := Worker_done\<rparr>)"
| Wake: "la_thread l = Awaiting \<Longrightarrow> la_ready l \<Longrightarrow> launch_step i d prelude l (l\<lparr>la_thread := Joining, la_started := True\<rparr>)"
| Join: "la_thread l = Joining \<Longrightarrow> la_worker l = Worker_done \<Longrightarrow> launch_step i d prelude l (l\<lparr>la_thread := Thread_done\<rparr>)"
| Return: "la_caller l = Waiting \<Longrightarrow> la_started l \<Longrightarrow> launch_step i d prelude l (l\<lparr>la_caller := Returned i\<rparr>)"

inductive_cases launch_stepE: "launch_step i d prelude l m"

inductive launch_reachable :: "string \<Rightarrow> nat \<Rightarrow> exn option \<Rightarrow> (string \<times> nat) list \<Rightarrow> launch \<Rightarrow> bool"
  for i :: string and d :: nat and prelude :: "exn option" and table :: "(string \<times> nat) list" where
  Initial: "launch_reachable i d prelude table (launch_init table)"
| Step: "launch_reachable i d prelude table l \<Longrightarrow> launch_step i d prelude l m \<Longrightarrow> launch_reachable i d prelude table m"

text \<open>The phases of the thread and of the worker agree, and the flags tell what they say.\<close>

definition launch_ok :: "string \<Rightarrow> nat \<Rightarrow> exn option \<Rightarrow> (string \<times> nat) list \<Rightarrow> launch \<Rightarrow> bool" where
  "launch_ok i d prelude table l \<longleftrightarrow>
     la_table l = (if la_thread l = Registering then table else admit i d table) \<and>
     (la_worker l = Not_started \<longleftrightarrow> la_thread l \<in> {Registering, Launching}) \<and>
     (la_ready l \<longleftrightarrow> la_worker l \<in> {Watching, Worker_done}) \<and>
     (la_ready l \<longrightarrow> prelude = None) \<and>
     (\<forall>e. la_worker l = Worker_died e \<longrightarrow> prelude = Some e) \<and>
     (la_started l \<longleftrightarrow> la_thread l \<in> {Joining, Thread_done}) \<and>
     (la_started l \<longrightarrow> la_ready l) \<and>
     (la_thread l = Thread_done \<longrightarrow> la_worker l = Worker_done) \<and>
     (la_caller l = Waiting \<or> la_caller l = Returned i \<and> la_started l)"

lemma launch_reachable_ok: "launch_reachable i d prelude table l \<Longrightarrow> launch_ok i d prelude table l"
proof (induction rule: launch_reachable.induct)
  case Initial
  then show ?case by (simp add: launch_ok_def launch_init_def)
next
  case (Step l m)
  from Step.hyps(2) Step.IH show ?case by cases (auto simp: launch_ok_def)
qed

text \<open>A start takes at most eight steps.\<close>

definition launch_left :: "launch \<Rightarrow> nat" where
  "launch_left l =
     (case la_thread l of Registering \<Rightarrow> 4 | Launching \<Rightarrow> 3 | Awaiting \<Rightarrow> 2 | Joining \<Rightarrow> 1 | Thread_done \<Rightarrow> 0) +
     (case la_worker l of Not_started \<Rightarrow> 3 | Preparing \<Rightarrow> 2 | Watching \<Rightarrow> 1 | _ \<Rightarrow> 0) +
     (case la_caller l of Waiting \<Rightarrow> 1 | _ \<Rightarrow> 0)"

lemma launch_step_decreases: "launch_step i d prelude l m \<Longrightarrow> launch_ok i d prelude table l \<Longrightarrow> launch_left m < launch_left l"
  by (erule launch_stepE) (auto simp: launch_left_def launch_ok_def)

text \<open>
  C21: A start that goes on until nothing is left to do has, when the worker could prepare itself,
  returned the identifier of a registered process whose worker has run; when the preparation raised
  (the connection for notifications could not be reopened, say), the caller waits for ever and
  the process stays registered as if it were running. A start ends in one of the two ways: each of
  its steps decreases a measure.
\<close>

theorem start_ends:
  assumes "launch_reachable i d prelude table l"
  shows "((\<forall>m. \<not> launch_step i d prelude l m) \<longrightarrow> map_of (la_table l) i = Some d \<and>
      (case prelude of
         None \<Rightarrow> la_caller l = Returned i \<and> la_thread l = Thread_done \<and> la_worker l = Worker_done
       | Some e \<Rightarrow> la_caller l = Waiting \<and> la_thread l = Awaiting \<and> la_worker l = Worker_died e)) \<and>
    (\<forall>m. launch_step i d prelude l m \<longrightarrow> launch_left m < launch_left l)"
proof (intro conjI impI allI)
  note ok = launch_reachable_ok [OF assms]
  show "launch_left m < launch_left l" if "launch_step i d prelude l m" for m
    using launch_step_decreases that ok by blast
  assume final: "\<forall>m. \<not> launch_step i d prelude l m"
  have thread: "la_thread l \<noteq> Registering" "la_thread l \<noteq> Launching"
    using final launch_step.Register launch_step.Launch by blast+
  then show "map_of (la_table l) i = Some d"
    using ok by (simp add: launch_ok_def admit_lookup)
  have worker: "la_worker l \<noteq> Preparing" "la_worker l \<noteq> Watching"
    using final launch_step.Ready launch_step.Die launch_step.Finish by (metis option.exhaust, blast)
  show "case prelude of
         None \<Rightarrow> la_caller l = Returned i \<and> la_thread l = Thread_done \<and> la_worker l = Worker_done
       | Some e \<Rightarrow> la_caller l = Waiting \<and> la_thread l = Awaiting \<and> la_worker l = Worker_died e"
  proof (cases prelude)
    case None
    then have "la_worker l = Worker_done" "la_ready l"
      using ok thread worker by (cases "la_worker l"; auto simp: launch_ok_def)+
    moreover from this have "la_thread l = Thread_done"
      using final launch_step.Wake launch_step.Join thread by (cases "la_thread l") blast+
    moreover have "la_started l" using ok \<open>la_thread l = Thread_done\<close> by (simp add: launch_ok_def)
    then have "la_caller l \<noteq> Waiting" using final launch_step.Return by blast
    ultimately show ?thesis using None ok by (auto simp: launch_ok_def)
  next
    case (Some e)
    then have "la_worker l = Worker_died e"
      using ok thread worker by (cases "la_worker l") (auto simp: launch_ok_def)
    then show ?thesis using Some ok thread by (cases "la_thread l") (auto simp: launch_ok_def)
  qed
qed

lemma stuck_start:
  "launch_reachable ''00'' 0 (Some (OSError 111 ''refused'')) []
     \<lparr>la_caller = Waiting, la_thread = Awaiting, la_worker = Worker_died (OSError 111 ''refused''), la_ready = False,
      la_started = False, la_table = [(''00'', 0)]\<rparr>"
  (is "launch_reachable ?i 0 ?p [] ?l")
proof -
  let ?l1 = "(launch_init [])\<lparr>la_thread := Launching, la_table := admit ?i 0 []\<rparr>"
  let ?l2 = "?l1\<lparr>la_thread := Awaiting, la_worker := Preparing\<rparr>"
  have "launch_reachable ?i 0 ?p [] ?l1"
    using launch_reachable.Step [OF launch_reachable.Initial launch_step.Register [of "launch_init []"]]
    by (simp add: launch_init_def)
  from launch_reachable.Step [OF this launch_step.Launch] have "launch_reachable ?i 0 ?p [] ?l2" by simp
  from launch_reachable.Step [OF this launch_step.Die] show ?thesis
    by (simp add: launch_init_def admit_def make_room.simps process_buffer_def)
qed

theorem start_ends_witness:
  "let l = \<lparr>la_caller = Waiting, la_thread = Awaiting, la_worker = Worker_died (OSError 111 ''refused''), la_ready = False,
      la_started = False, la_table = [(''00'', 0)]\<rparr>; p = Some (OSError 111 ''refused'')
   in launch_reachable ''00'' 0 p [] l \<and> \<not> (\<exists>m. launch_step ''00'' 0 p l m) \<and> map_of (la_table l) ''00'' = Some 0 \<and> la_caller l = Waiting"
proof -
  have "\<forall>m. \<not> launch_step ''00'' 0 (Some (OSError 111 ''refused''))
    \<lparr>la_caller = Waiting, la_thread = Awaiting, la_worker = Worker_died (OSError 111 ''refused''), la_ready = False,
      la_started = False, la_table = [(''00'', 0)]\<rparr> m"
    by (auto elim: launch_stepE)
  then show ?thesis using start_ends [OF stuck_start] stuck_start by (simp add: Let_def)
qed

end
