(* ===== verification/ArgParse.thy ===== *)
theory ArgParse
  imports PyStr
begin

text \<open>
  Parsing of command lines as \<^verbatim>\<open>argparse\<close> of Python's standard library does it, with what the two
  programs of the repository use of it: options with and without values, abbreviated and joined
  options, \<^verbatim>\<open>--\<close>, positional arguments, subparsers, defaults and required arguments. A parser is
  the list of its arguments. Errors of usage end the program with status 2, help and version with
  status 0. The lemmas bound what a run of the parser consumes and carry an invariant through it.
\<close>

section \<open>Arguments\<close>

text \<open>\<open>VFloat\<close> keeps the text of the number.\<close>

datatype argval = VNone | VBool bool | VInt int | VFloat string | VStr string | VPair string string | VList "argval list"

datatype nargs = Zero | One | One_listed | Some_listed | Parser

datatype arg_effect = Store | Store_true | Append_to | Show | Choose

record argument =
  ag_flags :: "string list"
  ag_dest :: string
  ag_nargs :: nargs
  ag_effect :: arg_effect
  ag_type :: "string \<Rightarrow> argval res"
  ag_default :: argval
  ag_required :: bool
  ag_choices :: "string list option"

type_synonym arg_space = "(string \<times> argval) list"

text \<open>
  What an argument string looks like: a value, the separator \<^verbatim>\<open>--\<close>, or an option: an unknown one or
  an argument with the flag found and the explicit value, if any, with its separator.
\<close>

datatype mark = Pos | Dash | Opt "(argument \<times> string \<times> (string \<times> string) option) option"

abbreviation is_opt :: "mark \<Rightarrow> bool" where "is_opt m \<equiv> (case m of Opt _ \<Rightarrow> True | _ \<Rightarrow> False)"
abbreviation is_pos :: "mark \<Rightarrow> bool" where "is_pos m \<equiv> (case m of Pos \<Rightarrow> True | _ \<Rightarrow> False)"
abbreviation is_dash :: "mark \<Rightarrow> bool" where "is_dash m \<equiv> (case m of Dash \<Rightarrow> True | _ \<Rightarrow> False)"

abbreviation usage_error :: "'a res" where "usage_error \<equiv> Inl (SystemExit 2)"

section \<open>Which strings are options\<close>

definition option_map :: "argument list \<Rightarrow> (string \<times> argument) list" where
  "option_map args = concat (map (\<lambda>a. map (\<lambda>f. (f, a)) (ag_flags a)) args)"

definition partition_equals :: "string \<Rightarrow> string \<times> (string \<times> string) option" where
  "partition_equals s = (case split_once CHR ''='' s of [p, v] \<Rightarrow> (p, Some (''='', v)) | _ \<Rightarrow> (s, None))"

definition option_tuples :: "argument list \<Rightarrow> string \<Rightarrow> (argument \<times> string \<times> (string \<times> string) option) list" where
  "option_tuples args s =
     (if s ! 1 = CHR ''-''
      then (case partition_equals s of (prefix, explicit) \<Rightarrow>
        map (\<lambda>(f, a). (a, f, explicit)) (filter (\<lambda>(f, a). startswith f prefix) (option_map args)))
      else concat (map (\<lambda>(f, a).
        if f = take 2 s then [(a, f, Some ('''', drop 2 s))] else if startswith f s then [(a, f, None)] else []) (option_map args)))"

text \<open>\<^verbatim>\<open>^-\d+$|^-\d*\.\d+$\<close>\<close>

definition is_negative_number :: "string \<Rightarrow> bool" where
  "is_negative_number s =
     (case (if s \<noteq> [] \<and> last s = newline then butlast s else s) of [] \<Rightarrow> False | c # n \<Rightarrow>
        c = CHR ''-'' \<and>
        (case split_once CHR ''.'' n of [i, f] \<Rightarrow> list_all is_digit i \<and> f \<noteq> [] \<and> list_all is_digit f
         | _ \<Rightarrow> n \<noteq> [] \<and> list_all is_digit n))"

definition parse_optional :: "argument list \<Rightarrow> string \<Rightarrow> mark res" where
  "parse_optional args s =
     (if s = [] \<or> hd s \<noteq> CHR ''-'' then Inr Pos
      else case map_of (option_map args) s of Some a \<Rightarrow> Inr (Opt (Some (a, s, None)))
      | None \<Rightarrow> if length s = 1 then Inr Pos
        else case (case partition_equals s of (f, Some e) \<Rightarrow> map_option (\<lambda>a. (a, f, Some e)) (map_of (option_map args) f) | _ \<Rightarrow> None) of
          Some t \<Rightarrow> Inr (Opt (Some t))
        | None \<Rightarrow> (case option_tuples args s of
              [t] \<Rightarrow> Inr (Opt (Some t))
            | [] \<Rightarrow> Inr (if is_negative_number s \<or> CHR '' '' \<in> set s then Pos else Opt None)
            | _ \<Rightarrow> usage_error))"

fun mark_args :: "argument list \<Rightarrow> string list \<Rightarrow> (string \<times> mark) list res" where
  "mark_args args [] = Inr []"
| "mark_args args (s # ss) =
     (if s = ''--'' then Inr ((s, Dash) # map (\<lambda>t. (t, Pos)) ss)
      else bindE (parse_optional args s) (\<lambda>m. bindE (mark_args args ss) (\<lambda>ms. Inr ((s, m) # ms))))"

section \<open>How many strings an argument takes\<close>

text \<open>The regular expressions of \<^verbatim>\<open>_get_nargs_pattern\<close> for positional arguments, on the whole of a slice.\<close>

definition nargs_fits :: "nargs \<Rightarrow> mark list \<Rightarrow> bool" where
  "nargs_fits n ms = (case n of
     Zero \<Rightarrow> list_all is_dash ms
   | Parser \<Rightarrow> (case dropWhile is_dash ms of m # _ \<Rightarrow> is_pos m | [] \<Rightarrow> False)
   | Some_listed \<Rightarrow> \<not> list_ex is_opt ms \<and> list_ex is_pos ms
   | _ \<Rightarrow> \<not> list_ex is_opt ms \<and> length (filter is_pos ms) = 1)"

text \<open>Groups match as many strings as they can, the first ones first.\<close>

fun first_result :: "'a option list \<Rightarrow> 'a option" where
  "first_result [] = None"
| "first_result (Some x # xs) = Some x"
| "first_result (None # xs) = first_result xs"

fun split_groups :: "nargs list \<Rightarrow> mark list \<Rightarrow> nat list option" where
  "split_groups [] ms = Some []"
| "split_groups (n # ns) ms = first_result (map
     (\<lambda>k. if nargs_fits n (take k ms) then map_option ((#) k) (split_groups ns (drop k ms)) else None)
     (rev [0..<Suc (length ms)]))"

function match_partial :: "nargs list \<Rightarrow> mark list \<Rightarrow> nat list" where
  "match_partial ns ms = (if ns = [] then [] else case split_groups ns ms of Some r \<Rightarrow> r | None \<Rightarrow> match_partial (butlast ns) ms)"
  by pat_completeness auto
termination by (relation "measure (\<lambda>(ns, _). length ns)") auto

declare match_partial.simps [simp del]

definition optional_count :: "nargs \<Rightarrow> mark list \<Rightarrow> nat res" where
  "optional_count n ms = (case n of
     Zero \<Rightarrow> Inr 0
   | Some_listed \<Rightarrow> if takeWhile is_pos ms = [] then usage_error else Inr (length (takeWhile is_pos ms))
   | Parser \<Rightarrow> (case ms of Pos # _ \<Rightarrow> Inr (length (takeWhile (\<lambda>m. \<not> is_dash m) ms)) | _ \<Rightarrow> usage_error)
   | _ \<Rightarrow> (case ms of Pos # _ \<Rightarrow> Inr 1 | _ \<Rightarrow> usage_error))"

section \<open>Values and effects\<close>

definition get_value :: "argument \<Rightarrow> string \<Rightarrow> argval res" where
  "get_value a s = (case ag_type a s of Inl e \<Rightarrow> Inl (if e = ValueError \<or> e = TypeError then SystemExit 2 else e) | Inr v \<Rightarrow> Inr v)"

definition check_value :: "argument \<Rightarrow> argval \<Rightarrow> argval res" where
  "check_value a v = (case ag_choices a of None \<Rightarrow> Inr v
     | Some cs \<Rightarrow> if list_ex (\<lambda>c. v = VStr c) cs then Inr v else usage_error)"

definition get_values :: "argument \<Rightarrow> string list \<Rightarrow> argval res" where
  "get_values a strings =
     bindE (mapE (get_value a) (if ag_flags a = [] \<and> ag_nargs a \<noteq> Parser then remove1 ''--'' strings else strings)) (\<lambda>vs.
       if ag_nargs a = One \<and> length vs = 1 then check_value a (hd vs)
       else if ag_nargs a = Parser then bindE (check_value a (hd vs)) (\<lambda>_. Inr (VList vs))
       else bindE (mapE (check_value a) vs) (\<lambda>vs. Inr (VList vs)))"

text \<open>The state of a run: the positional arguments left, what is stored, what was not understood, here and by a subparser, and the arguments seen.\<close>

record run =
  rn_left :: "argument list"
  rn_space :: arg_space
  rn_extras :: "string list"
  rn_unrecognized :: "string list"
  rn_seen :: "string list"

type_synonym subparsers = "string \<Rightarrow> (string list \<Rightarrow> (arg_space \<times> string list) res) option"

definition arg_text :: "argval \<Rightarrow> string" where
  "arg_text v = (case v of VStr s \<Rightarrow> s | _ \<Rightarrow> [])"

definition listed :: "argval option \<Rightarrow> argval list" where
  "listed v = (case v of Some (VList vs) \<Rightarrow> vs | _ \<Rightarrow> [])"

definition store :: "string \<Rightarrow> argval \<Rightarrow> run \<Rightarrow> run" where
  "store d v r = r\<lparr>rn_space := AList.update d v (rn_space r)\<rparr>"

definition choose_subparser :: "subparsers \<Rightarrow> argument \<Rightarrow> argval list \<Rightarrow> run \<Rightarrow> run res" where
  "choose_subparser sub a vs r =
     (case sub (arg_text (hd vs)) of None \<Rightarrow> usage_error
      | Some p \<Rightarrow> bindE (p (map arg_text (tl vs))) (\<lambda>(space, extras).
          Inr ((fold (\<lambda>(k, v). store k v) space (store (ag_dest a) (hd vs) r))\<lparr>rn_unrecognized := rn_unrecognized r @ extras\<rparr>)))"

definition take_action :: "subparsers \<Rightarrow> argument \<Rightarrow> string list \<Rightarrow> run \<Rightarrow> run res" where
  "take_action sub a strings r0 = (let r = r0\<lparr>rn_seen := ag_dest a # rn_seen r0\<rparr> in
     bindE (get_values a strings) (\<lambda>v. case ag_effect a of
       Store \<Rightarrow> Inr (store (ag_dest a) v r)
     | Store_true \<Rightarrow> Inr (store (ag_dest a) (VBool True) r)
     | Append_to \<Rightarrow> Inr (store (ag_dest a) (VList (listed (map_of (rn_space r) (ag_dest a)) @ [v])) r)
     | Show \<Rightarrow> Inl (SystemExit 0)
     | Choose \<Rightarrow> choose_subparser sub a (listed (Some v)) r))"

fun take_actions :: "subparsers \<Rightarrow> (argument \<times> string list) list \<Rightarrow> run \<Rightarrow> run res" where
  "take_actions sub [] r = Inr r"
| "take_actions sub ((a, strings) # acts) r = bindE (take_action sub a strings r) (take_actions sub acts)"

section \<open>A run of the parser\<close>

text \<open>\<^verbatim>\<open>-xyz\<close>: flags without a value, joined, up to one that takes the remaining text.\<close>

datatype cluster_end = Finished | Following argument | Unknown string

fun cluster :: "argument list \<Rightarrow> argument \<Rightarrow> string \<Rightarrow> string \<Rightarrow> string \<Rightarrow> ((argument \<times> string list) list \<times> cluster_end) res" where
  "cluster args a flag sep explicit =
     (if ag_nargs a \<noteq> Zero then Inr ([(a, [explicit])], Finished)
      else if flag ! 1 = CHR ''-'' \<or> sep \<noteq> [] then usage_error
      else case explicit of [] \<Rightarrow> usage_error
      | c # rest \<Rightarrow> if c = CHR ''-'' then usage_error
         else (case map_of (option_map args) [CHR ''-'', c] of
             None \<Rightarrow> Inr ([(a, [])], Unknown (CHR ''-'' # explicit))
           | Some b \<Rightarrow> (case rest of
                 [] \<Rightarrow> Inr ([(a, [])], Following b)
               | d # rest' \<Rightarrow> bindE (if d = CHR ''='' then cluster args b [CHR ''-'', c] ''='' rest' else cluster args b [CHR ''-'', c] [] rest)
                   (\<lambda>(acts, e). Inr ((a, []) # acts, e)))))"

declare cluster.simps [simp del]

definition finish_optional ::
  "subparsers \<Rightarrow> (argument \<times> string list) list \<Rightarrow> cluster_end \<Rightarrow> (string \<times> mark) list \<Rightarrow> run \<Rightarrow> (run \<times> (string \<times> mark) list) res" where
  "finish_optional sub acts e xs r = (case e of
     Finished \<Rightarrow> bindE (take_actions sub acts r) (\<lambda>r. Inr (r, xs))
   | Unknown u \<Rightarrow> bindE (take_actions sub acts (r\<lparr>rn_extras := rn_extras r @ [u]\<rparr>)) (\<lambda>r. Inr (r, xs))
   | Following b \<Rightarrow> bindE (optional_count (ag_nargs b) (map snd xs)) (\<lambda>n.
       bindE (take_actions sub (acts @ [(b, map fst (take n xs))]) r) (\<lambda>r. Inr (r, drop n xs))))"

definition consume_optional ::
  "argument list \<Rightarrow> subparsers \<Rightarrow> (argument \<times> string \<times> (string \<times> string) option) option \<Rightarrow> string \<Rightarrow>
    (string \<times> mark) list \<Rightarrow> run \<Rightarrow> (run \<times> (string \<times> mark) list) res" where
  "consume_optional args sub found s xs r = (case found of
     None \<Rightarrow> Inr (r\<lparr>rn_extras := rn_extras r @ [s]\<rparr>, xs)
   | Some (a, flag, None) \<Rightarrow> finish_optional sub [] (Following a) xs r
   | Some (a, flag, Some (sep, explicit)) \<Rightarrow>
       bindE (cluster args a flag sep explicit) (\<lambda>(acts, e). finish_optional sub acts e xs r))"

fun slices :: "nat list \<Rightarrow> 'a list \<Rightarrow> 'a list list" where
  "slices [] xs = []"
| "slices (n # ns) xs = take n xs # slices ns (drop n xs)"

definition consume_positionals :: "subparsers \<Rightarrow> (string \<times> mark) list \<Rightarrow> run \<Rightarrow> (run \<times> (string \<times> mark) list) res" where
  "consume_positionals sub xs r = (let ks = match_partial (map ag_nargs (rn_left r)) (map snd xs) in
     bindE (take_actions sub (zip (rn_left r) (slices ks (map fst xs))) r) (\<lambda>r'.
       Inr (r'\<lparr>rn_left := drop (length ks) (rn_left r)\<rparr>, drop (sum_list ks) xs)))"

lemma finish_optional_drops: "finish_optional sub acts e xs r = Inr (r', zs) \<Longrightarrow> \<exists>n. zs = drop n xs"
  by (cases e) (auto simp: finish_optional_def bindE_eq_Inr intro: exI [of _ 0])

lemma consume_optional_drops: "consume_optional args sub found s xs r = Inr (r', zs) \<Longrightarrow> \<exists>n. zs = drop n xs"
  by (auto simp: consume_optional_def bindE_eq_Inr split: option.splits prod.splits dest: finish_optional_drops intro: exI [of _ 0])

lemma consume_optional_length: "consume_optional args sub found s xs r = Inr (r', zs) \<Longrightarrow> length zs \<le> length xs"
  using consume_optional_drops by fastforce

lemma skip_shorter: "list_ex P xs \<Longrightarrow> \<not> P (hd xs) \<Longrightarrow> length (dropWhile (\<lambda>x. \<not> P x) xs) < length xs"
  by (cases xs) (auto intro: le_imp_less_Suc length_dropWhile_le)

lemma option_shorter:
  "list_ex P xs \<Longrightarrow> consume_optional args sub found s (tl xs) r = Inr (r', zs) \<Longrightarrow> length zs < length xs"
  by (cases xs) (auto dest: consume_optional_length)

function parse_loop :: "argument list \<Rightarrow> subparsers \<Rightarrow> (string \<times> mark) list \<Rightarrow> run \<Rightarrow> run res" where
  "parse_loop args sub xs r =
     (if list_ex (\<lambda>x. is_opt (snd x)) xs then
        (case snd (hd xs) of
           Opt found \<Rightarrow> bindE (consume_optional args sub found (fst (hd xs)) (tl xs) r) (\<lambda>(r', zs). parse_loop args sub zs r')
         | _ \<Rightarrow> bindE (consume_positionals sub xs r) (\<lambda>(r', zs).
             if length zs < length xs then parse_loop args sub zs r'
             else parse_loop args sub (dropWhile (\<lambda>x. \<not> is_opt (snd x)) xs)
               (r'\<lparr>rn_extras := rn_extras r' @ map fst (takeWhile (\<lambda>x. \<not> is_opt (snd x)) xs)\<rparr>)))
      else bindE (consume_positionals sub xs r) (\<lambda>(r', zs). Inr (r'\<lparr>rn_extras := rn_extras r' @ map fst zs\<rparr>)))"
  by pat_completeness auto
termination
  by (relation "measure (\<lambda>(_, _, xs, _). length xs)") (auto intro: skip_shorter option_shorter)

declare parse_loop.simps [simp del]

definition default_space :: "argument list \<Rightarrow> arg_space" where
  "default_space args = map (\<lambda>a. (ag_dest a, ag_default a)) (filter (\<lambda>a. ag_effect a \<noteq> Show) args)"

text \<open>A default that is a string and still in place is converted like a value.\<close>

fun convert_defaults :: "argument list \<Rightarrow> run \<Rightarrow> run res" where
  "convert_defaults [] r = Inr r"
| "convert_defaults (a # args) r =
     (case ag_default a of
        VStr s \<Rightarrow> if ag_dest a \<notin> set (rn_seen r) \<and> \<not> ag_required a \<and> map_of (rn_space r) (ag_dest a) = Some (VStr s)
          then bindE (get_value a s) (\<lambda>v. convert_defaults args (store (ag_dest a) v r)) else convert_defaults args r
      | _ \<Rightarrow> convert_defaults args r)"

definition parse_known :: "argument list \<Rightarrow> subparsers \<Rightarrow> string list \<Rightarrow> (arg_space \<times> string list) res" where
  "parse_known args sub argv =
     bindE (mark_args args argv) (\<lambda>xs.
     bindE (parse_loop args sub xs \<lparr>rn_left = filter (\<lambda>a. ag_flags a = []) args, rn_space = default_space args,
       rn_extras = [], rn_unrecognized = [], rn_seen = []\<rparr>) (\<lambda>r.
     bindE (convert_defaults args r) (\<lambda>r.
       if list_ex (\<lambda>a. ag_required a \<and> ag_dest a \<notin> set (rn_seen r)) args then usage_error
       else Inr (rn_space r, rn_extras r @ rn_unrecognized r))))"

definition parse_args :: "argument list \<Rightarrow> subparsers \<Rightarrow> string list \<Rightarrow> arg_space res" where
  "parse_args args sub argv = bindE (parse_known args sub argv) (\<lambda>(space, extras). if extras = [] then Inr space else usage_error)"

end
