(* ===== verification/ArgRuns.thy ===== *)
theory ArgRuns
  imports ArgParse
begin

text \<open>
  What a run of the command-line parser keeps: a rule that carries an invariant through the loop,
  the marks of the strings, the keys that actions may store, and how a subparser followed by a list
  of values share the strings.
\<close>

section \<open>The invariant rule\<close>

lemma consume_positionals_drops: "consume_positionals sub xs r = Inr (r', zs) \<Longrightarrow> \<exists>n. zs = drop n xs"
  by (auto simp: consume_positionals_def bindE_eq_Inr Let_def)

text \<open>A property of the state and the strings left that every step keeps holds at the end.\<close>

lemma parse_loop_invariant:
  assumes "parse_loop args sub xs r = Inr r'" "I r xs"
    and opt: "\<And>r s found ys r1 zs. I r ((s, Opt found) # ys) \<Longrightarrow> consume_optional args sub found s ys r = Inr (r1, zs) \<Longrightarrow> I r1 zs"
    and pos: "\<And>r xs r1 zs. I r xs \<Longrightarrow> consume_positionals sub xs r = Inr (r1, zs) \<Longrightarrow> I r1 zs"
    and skip: "\<And>r xs n e. I r xs \<Longrightarrow> I (r\<lparr>rn_extras := e\<rparr>) (drop n xs)"
  shows "I r' []"
  using assms(1, 2)
proof (induction "length xs" arbitrary: xs r rule: less_induct)
  case less
  note run = less.prems(1) [unfolded parse_loop.simps [of args sub xs r]]
  show ?case
  proof (cases "list_ex (\<lambda>x. is_opt (snd x)) xs")
    case False
    with run obtain r1 zs where "consume_positionals sub xs r = Inr (r1, zs)"
      and "r' = r1\<lparr>rn_extras := rn_extras r1 @ map fst zs\<rparr>"
      by (auto simp: bindE_eq_Inr)
    then show ?thesis using skip [OF pos [OF less.prems(2)], of r1 zs _ "length zs"] by simp
  next
    case True
    then obtain s m ys where xs: "xs = (s, m) # ys" by (cases xs) auto
    show ?thesis
    proof (cases "is_opt m")
      case o: True
      then obtain found where m: "m = Opt found" by (cases m) auto
      with run True xs obtain r1 zs where step: "consume_optional args sub found s ys r = Inr (r1, zs)"
        and go: "parse_loop args sub zs r1 = Inr r'"
        by (auto simp: bindE_eq_Inr)
      from less.hyps [OF _ go opt [OF _ step]] less.prems(2) show ?thesis
        using consume_optional_length [OF step] xs m by simp
    next
      case n: False
      let ?ws = "dropWhile (\<lambda>x. \<not> is_opt (snd x)) xs"
      from run True xs n obtain r1 zs where step: "consume_positionals sub xs r = Inr (r1, zs)"
        and go: "if length zs < length xs then parse_loop args sub zs r1 = Inr r'
          else parse_loop args sub ?ws (r1\<lparr>rn_extras := rn_extras r1 @ map fst (takeWhile (\<lambda>x. \<not> is_opt (snd x)) xs)\<rparr>) = Inr r'"
        by (cases m) (auto simp: bindE_eq_Inr split: if_splits)
      show ?thesis
      proof (cases "length zs < length xs")
        case True
        with less.hyps [OF True] go pos [OF less.prems(2) step] show ?thesis by simp
      next
        case False
        obtain n where "zs = drop n xs" using consume_positionals_drops [OF step] by blast
        with False have "zs = xs" by (cases "n = 0 \<or> xs = []") auto
        have shorter: "length ?ws < length xs"
          using skip_shorter [of "\<lambda>x. is_opt (snd x)" xs] True xs n by simp
        have "I r1 xs" using pos [OF less.prems(2) step] \<open>zs = xs\<close> by simp
        from skip [OF this] have "I (r1\<lparr>rn_extras := e\<rparr>) ?ws" for e by (metis dropWhile_eq_drop)
        with less.hyps [OF shorter] go False show ?thesis by simp
      qed
    qed
  qed
qed

section \<open>The marks\<close>

text \<open>Marked options are arguments of the parser, a separator is \<^verbatim>\<open>--\<close>, and only values follow it.\<close>

fun marks_ok :: "argument list \<Rightarrow> (string \<times> mark) list \<Rightarrow> bool" where
  "marks_ok args [] = True"
| "marks_ok args ((s, m) # xs) = ((case m of
     Opt (Some (a, _)) \<Rightarrow> a \<in> snd ` set (option_map args)
   | Dash \<Rightarrow> s = ''--'' \<and> (\<forall>x\<in>set xs. snd x = Pos)
   | _ \<Rightarrow> True) \<and> marks_ok args xs)"

lemma marks_ok_all_pos: "\<forall>x\<in>set xs. snd x = Pos \<Longrightarrow> marks_ok args xs"
  by (induction xs) auto

lemma marks_ok_drop: "marks_ok args xs \<Longrightarrow> marks_ok args (drop n xs)"
proof (induction n arbitrary: xs)
  case (Suc n)
  then show ?case by (cases xs) auto
qed simp

lemma marks_ok_take: "marks_ok args xs \<Longrightarrow> marks_ok args (take n xs)"
proof (induction xs arbitrary: n)
  case (Cons x xs)
  then show ?case by (cases n; cases x) (auto split: mark.splits option.splits dest: in_set_takeD)
qed simp

lemma option_tuples_arguments: "(a, t) \<in> set (option_tuples args s) \<Longrightarrow> a \<in> snd ` set (option_map args)"
  by (force simp: option_tuples_def split: if_splits prod.splits)

lemma map_of_option_map: "map_of (option_map args) f = Some a \<Longrightarrow> a \<in> snd ` set (option_map args)"
  by (metis image_eqI map_of_SomeD snd_conv)

lemma parse_optional_marks: "parse_optional args s = Inr m \<Longrightarrow> s \<noteq> ''--'' \<Longrightarrow> (\<forall>x\<in>set xs. snd x = Pos) \<or> marks_ok args xs \<Longrightarrow> marks_ok args ((s, m) # xs)"
proof -
  assume p: "parse_optional args s = Inr m" and "(\<forall>x\<in>set xs. snd x = Pos) \<or> marks_ok args xs"
  then have xs: "marks_ok args xs" using marks_ok_all_pos by blast
  show ?thesis
  proof (cases m)
    case (Opt found)
    show ?thesis
    proof (cases found)
      case (Some t)
      obtain a u where t: "t = (a, u)" by (cases t)
      have "a \<in> snd ` set (option_map args)"
        using p Opt Some t option_tuples_arguments [of a u args s]
        by (auto simp: parse_optional_def dest: map_of_option_map split: if_splits option.splits prod.splits list.splits)
      then show ?thesis using Opt Some t xs by simp
    qed (simp add: Opt xs)
  next
    case Dash
    with p show ?thesis by (auto simp: parse_optional_def split: if_splits option.splits prod.splits list.splits)
  qed (simp add: xs)
qed

lemma mark_args_ok: "mark_args args ss = Inr xs \<Longrightarrow> marks_ok args xs"
proof (induction ss arbitrary: xs)
  case (Cons s ss)
  show ?case
  proof (cases "s = ''--''")
    case True
    with Cons.prems show ?thesis by (auto simp: marks_ok_all_pos)
  next
    case False
    with Cons show ?thesis by (auto simp: bindE_eq_Inr simp del: marks_ok.simps intro: parse_optional_marks)
  qed
qed simp

section \<open>What actions store\<close>

lemma take_actions_append: "take_actions sub (xs @ ys) r = bindE (take_actions sub xs r) (take_actions sub ys)"
proof (induction xs arbitrary: r)
  case (Cons x xs)
  then show ?case by (cases x; cases "take_action sub (fst x) (snd x) r") auto
qed simp

lemma store_simps [simp]:
  "rn_left (store d v r) = rn_left r"
  "map_of (rn_space (store d v r)) = (map_of (rn_space r))(d \<mapsto> v)"
  by (auto simp: store_def update_conv')

lemma fold_store_left [simp]: "rn_left (fold (\<lambda>(k, v). store k v) kvs r) = rn_left r"
  by (induction kvs arbitrary: r) auto

lemma take_action_left: "take_action sub a ss r = Inr r' \<Longrightarrow> rn_left r' = rn_left r"
  by (cases "ag_effect a") (auto simp: take_action_def Let_def bindE_eq_Inr choose_subparser_def split: option.splits)

lemma take_actions_left: "take_actions sub acts r = Inr r' \<Longrightarrow> rn_left r' = rn_left r"
  by (induction acts arbitrary: r) (auto simp: bindE_eq_Inr dest!: take_action_left)

lemma fold_store_other: "d \<notin> fst ` set kvs \<Longrightarrow> map_of (rn_space (fold (\<lambda>(k, v). store k v) kvs r)) d = map_of (rn_space r) d"
  by (induction kvs arbitrary: r) auto

text \<open>An argument that cannot touch an option: a subparser returns options of its own.\<close>

definition spares :: "subparsers \<Rightarrow> string \<Rightarrow> argument \<Rightarrow> bool" where
  "spares sub d a \<longleftrightarrow> ag_dest a \<noteq> d \<and>
     (ag_effect a = Choose \<longrightarrow> (\<forall>b p ss space ex. sub b = Some p \<longrightarrow> p ss = Inr (space, ex) \<longrightarrow> d \<notin> fst ` set space))"

lemma take_action_spares:
  assumes run: "take_action sub a ss r = Inr r'" and spare: "spares sub d a"
  shows "map_of (rn_space r') d = map_of (rn_space r) d"
proof (cases "ag_effect a = Choose")
  case True
  with run obtain v p space ex r1 where p: "sub (arg_text (hd (listed (Some v)))) = Some p"
    and space: "p (map arg_text (tl (listed (Some v)))) = Inr (space, ex)"
    and r': "rn_space r' = rn_space (fold (\<lambda>(k, v). store k v) space (store (ag_dest a) (hd (listed (Some v))) r1))"
    and r1: "rn_space r1 = rn_space r"
    by (auto simp: take_action_def Let_def bindE_eq_Inr choose_subparser_def split: option.splits)
  have "d \<notin> fst ` set space" using spare True p space unfolding spares_def by blast
  then show ?thesis using r' r1 spare by (auto simp: fold_store_other spares_def)
next
  case False
  with assms show ?thesis
    by (cases "ag_effect a") (auto simp: take_action_def Let_def bindE_eq_Inr spares_def)
qed

lemma take_actions_spare:
  "take_actions sub acts r = Inr r' \<Longrightarrow> \<forall>a\<in>fst ` set acts. spares sub d a \<Longrightarrow> map_of (rn_space r') d = map_of (rn_space r) d"
  by (induction acts arbitrary: r) (auto simp: bindE_eq_Inr dest!: take_action_spares)

lemma cluster_arguments:
  "cluster args a flag sep e = Inr (acts, fin) \<Longrightarrow> a \<in> A \<Longrightarrow> snd ` set (option_map args) \<subseteq> A \<Longrightarrow>
    fst ` set acts \<subseteq> A \<and> (\<forall>b. fin = Following b \<longrightarrow> b \<in> A)"
proof (induction args a flag sep e arbitrary: acts fin rule: cluster.induct)
  case (1 args a flag sep e)
  note run = 1(3) [unfolded cluster.simps [of args a flag sep e]]
  show ?case
  proof (cases "ag_nargs a = Zero \<and> flag ! 1 \<noteq> CHR ''-'' \<and> sep = []")
    case False
    with run 1(4) show ?thesis by (auto split: if_splits)
  next
    case zero: True
    then obtain c rest where e: "e = c # rest" and c: "c \<noteq> CHR ''-''"
      using run by (auto split: list.splits if_splits)
    show ?thesis
    proof (cases "map_of (option_map args) [CHR ''-'', c]")
      case None
      with run zero e c 1(4) show ?thesis by auto
    next
      case (Some b)
      then have b: "b \<in> A" using map_of_option_map 1(5) by blast
      show ?thesis
      proof (cases rest)
        case Nil
        with run zero e c Some b 1(4) show ?thesis by auto
      next
        case (Cons x xs)
        with run zero e c Some obtain acts' where acts: "acts = (a, []) # acts'"
          and go: "(if x = CHR ''='' then cluster args b [CHR ''-'', c] ''='' xs else cluster args b [CHR ''-'', c] [] rest) = Inr (acts', fin)"
          by (auto simp: bindE_eq_Inr)
        have "fst ` set acts' \<subseteq> A \<and> (\<forall>b. fin = Following b \<longrightarrow> b \<in> A)"
          using 1(1) [OF _ _ e c Some Cons, of acts' fin] 1(2) [OF _ _ e c Some Cons, of acts' fin] zero go b 1(5)
          by (cases "x = CHR ''=''") auto
        then show ?thesis using acts 1(4) by auto
      qed
    qed
  qed
qed

lemma consume_optional_left: "consume_optional args sub found s ys r = Inr (r', zs) \<Longrightarrow> rn_left r' = rn_left r"
proof -
  assume run: "consume_optional args sub found s ys r = Inr (r', zs)"
  have "rn_left r' = rn_left r" if "finish_optional sub acts e ys r = Inr (r', zs)" for acts e
    using that by (cases e) (auto simp: finish_optional_def bindE_eq_Inr dest!: take_actions_left)
  then show ?thesis using run by (auto simp: consume_optional_def bindE_eq_Inr split: option.splits prod.splits)
qed

lemma finish_optional_spares:
  assumes run: "finish_optional sub acts e ys r = Inr (r', zs)" and acts: "\<forall>a\<in>fst ` set acts. spares sub d a"
    and last: "\<forall>b. e = Following b \<longrightarrow> spares sub d b"
  shows "rn_left r' = rn_left r \<and> map_of (rn_space r') d = map_of (rn_space r) d"
proof -
  have go: "rn_left r' = rn_left r1 \<and> map_of (rn_space r') d = map_of (rn_space r1) d"
    if "take_actions sub acts' r1 = Inr r'" "\<forall>a\<in>fst ` set acts'. spares sub d a" for acts' r1
    using that take_actions_left [OF that(1)] take_actions_spare [OF that(1)] by auto
  show ?thesis
  proof (cases e)
    case Finished
    with run go [of acts r] acts show ?thesis by (auto simp: finish_optional_def bindE_eq_Inr)
  next
    case (Following b)
    with run obtain n where "take_actions sub (acts @ [(b, map fst (take n ys))]) r = Inr r'"
      by (auto simp: finish_optional_def bindE_eq_Inr)
    from go [OF this] acts last Following show ?thesis by auto
  next
    case (Unknown u)
    with run have "take_actions sub acts (r\<lparr>rn_extras := rn_extras r @ [u]\<rparr>) = Inr r'"
      by (auto simp: finish_optional_def bindE_eq_Inr)
    from go [OF this] acts show ?thesis by auto
  qed
qed

text \<open>An option found by the parser acts for arguments with flags only.\<close>

lemma consume_optional_spares:
  assumes "consume_optional args sub found s ys r = Inr (r', zs)" "marks_ok args ((s, Opt found) # ys)"
    and "\<forall>a\<in>snd ` set (option_map args). spares sub d a"
  shows "rn_left r' = rn_left r \<and> map_of (rn_space r') d = map_of (rn_space r) d \<and> marks_ok args zs"
proof (cases found)
  case None
  with assms show ?thesis by (auto simp: consume_optional_def)
next
  case (Some t)
  obtain a flag explicit where t: "t = (a, flag, explicit)" by (cases t)
  let ?A = "snd ` set (option_map args)"
  have a: "a \<in> ?A" using assms(2) Some t by simp
  have keep: "rn_left r' = rn_left r \<and> map_of (rn_space r') d = map_of (rn_space r) d"
    if "finish_optional sub acts e ys r = Inr (r', zs)" "fst ` set acts \<subseteq> ?A" "\<forall>b. e = Following b \<longrightarrow> b \<in> ?A" for acts e
    using finish_optional_spares [OF that(1)] that(2, 3) assms(3) by blast
  have "marks_ok args zs" using consume_optional_drops [OF assms(1)] assms(2) marks_ok_drop by auto
  moreover have "rn_left r' = rn_left r \<and> map_of (rn_space r') d = map_of (rn_space r) d"
  proof (cases explicit)
    case None
    with assms(1) Some t have "finish_optional sub [] (Following a) ys r = Inr (r', zs)" by (simp add: consume_optional_def)
    from keep [OF this] a show ?thesis by simp
  next
    case (Some u)
    obtain sep e where u: "u = (sep, e)" by (cases u)
    from assms(1) \<open>found = Some t\<close> t Some u obtain acts fin where c: "cluster args a flag sep e = Inr (acts, fin)"
      and f: "finish_optional sub acts fin ys r = Inr (r', zs)"
      by (auto simp: consume_optional_def bindE_eq_Inr)
    from keep [OF f] cluster_arguments [OF c a] show ?thesis by blast
  qed
  ultimately show ?thesis by blast
qed

section \<open>Results of a whole run\<close>

text \<open>Only a default that is a string is converted.\<close>

lemma convert_defaults_keeps:
  "convert_defaults as r = Inr r' \<Longrightarrow> \<forall>a\<in>set as. \<forall>s. ag_dest a = d \<longrightarrow> ag_default a \<noteq> VStr s \<Longrightarrow>
    map_of (rn_space r') d = map_of (rn_space r) d"
proof (induction as arbitrary: r)
  case (Cons a as)
  show ?case
  proof (cases "\<exists>s. ag_default a = VStr s")
    case True
    with Cons show ?thesis by (auto simp: bindE_eq_Inr split: if_splits)
  next
    case False
    with Cons show ?thesis by (cases "ag_default a") auto
  qed
qed simp

lemma arguments_with_flags: "a \<in> snd ` set (option_map args) \<Longrightarrow> a \<in> set args \<and> ag_flags a \<noteq> []"
  by (auto simp: option_map_def)

text \<open>\<open>P\<close> speaks of some options and the positional arguments left; only these can change them.\<close>

lemma parse_known_options:
  fixes args :: "argument list" and ds :: "string list"
  defines "seen r \<equiv> map (map_of (rn_space r)) ds"
  assumes run: "parse_known args sub argv = Inr (space, extras)"
    and flags: "\<forall>a\<in>set args. ag_flags a \<noteq> [] \<longrightarrow> (\<forall>d\<in>set ds. spares sub d a)"
    and defaults: "\<forall>a\<in>set args. \<forall>s. ag_dest a \<in> set ds \<longrightarrow> ag_default a \<noteq> VStr s"
    and start: "\<And>xs. P (filter (\<lambda>a. ag_flags a = []) args) (map (map_of (default_space args)) ds) xs"
    and pos: "\<And>r xs r1 zs. P (rn_left r) (seen r) xs \<Longrightarrow> marks_ok args xs \<Longrightarrow>
      consume_positionals sub xs r = Inr (r1, zs) \<Longrightarrow> P (rn_left r1) (seen r1) zs"
    and mono: "\<And>left vs xs n. P left vs xs \<Longrightarrow> P left vs (drop n xs)"
  shows "\<exists>left. P left (map (map_of space) ds) []"
proof -
  let ?r = "\<lparr>rn_left = filter (\<lambda>a. ag_flags a = []) args, rn_space = default_space args,
       rn_extras = [], rn_unrecognized = [], rn_seen = []\<rparr>"
  from run obtain xs r r1 where m: "mark_args args argv = Inr xs" and l: "parse_loop args sub xs ?r = Inr r"
    and c: "convert_defaults args r = Inr r1" and space: "space = rn_space r1"
    by (auto simp: parse_known_def bindE_eq_Inr split: if_splits)
  let ?I = "\<lambda>r xs. P (rn_left r) (seen r) xs \<and> marks_ok args xs"
  have spared: "\<forall>d\<in>set ds. \<forall>a\<in>snd ` set (option_map args). spares sub d a"
    using flags arguments_with_flags by blast
  have "?I r []"
  proof (rule parse_loop_invariant [where I = ?I, OF l])
    show "?I ?r xs" using start mark_args_ok [OF m] by (simp add: seen_def)
  next
    fix r s found ys r1 zs
    assume I: "?I r ((s, Opt found) # ys)" and step: "consume_optional args sub found s ys r = Inr (r1, zs)"
    have each: "rn_left r1 = rn_left r \<and> map_of (rn_space r1) d = map_of (rn_space r) d" if "d \<in> set ds" for d
      using consume_optional_spares [OF step] I spared that by blast
    have "rn_left r1 = rn_left r" "seen r1 = seen r"
      using consume_optional_left [OF step] each by (auto simp: seen_def)
    moreover obtain n where "zs = drop (Suc n) ((s, Opt found) # ys)" using consume_optional_drops [OF step] by auto
    ultimately show "?I r1 zs" using I mono marks_ok_drop by metis
  next
    fix r xs r1 zs
    assume "?I r xs" and step: "consume_positionals sub xs r = Inr (r1, zs)"
    then show "?I r1 zs" using pos consume_positionals_drops [OF step] marks_ok_drop by blast
  next
    fix r :: run and xs n e
    assume "?I r xs"
    then show "?I (r\<lparr>rn_extras := e\<rparr>) (drop n xs)" using mono by (auto simp: marks_ok_drop seen_def)
  qed
  moreover have "map (map_of (rn_space r1)) ds = map (map_of (rn_space r)) ds"
    using convert_defaults_keeps [OF c] defaults by simp
  ultimately show ?thesis unfolding space seen_def by metis
qed

lemma consume_positionals_acts:
  assumes "consume_positionals sub xs r = Inr (r1, zs)"
  shows "\<exists>ss r2. take_actions sub (zip (rn_left r) ss) r = Inr r2 \<and> rn_space r1 = rn_space r2 \<and> set (rn_left r1) \<subseteq> set (rn_left r)"
  using assms set_drop_subset [of _ "rn_left r"] by (fastforce simp: consume_positionals_def bindE_eq_Inr Let_def)

text \<open>What a subparser without subparsers of its own returns are its own options.\<close>

lemma parse_known_keys:
  assumes run: "parse_known args sub argv = Inr (space, extras)" and plain: "\<forall>a\<in>set args. ag_effect a \<noteq> Choose"
    and d: "d \<notin> ag_dest ` set args"
  shows "d \<notin> fst ` set space"
proof -
  have spare: "spares sub d a" if "a \<in> set args" for a
    using that plain d by (auto simp: spares_def)
  have "\<exists>left. (\<lambda>left vs xs. set left \<subseteq> set args \<and> vs = [None]) left (map (map_of space) [d]) []"
  proof (rule parse_known_options [where P = "\<lambda>left vs xs. set left \<subseteq> set args \<and> vs = [None]", OF run])
    have "map_of (default_space args) d = None"
      using d by (auto simp: default_space_def map_of_eq_None_iff)
    then show "set (filter (\<lambda>a. ag_flags a = []) args) \<subseteq> set args \<and> map (map_of (default_space args)) [d] = [None]" by auto
  next
    fix r xs r1 zs
    assume P: "set (rn_left r) \<subseteq> set args \<and> map (map_of (rn_space r)) [d] = [None]"
      and step: "consume_positionals sub xs r = Inr (r1, zs)"
    from consume_positionals_acts [OF step] obtain ks r2 where t: "take_actions sub (zip (rn_left r) ks) r = Inr r2"
      and r1: "rn_space r1 = rn_space r2" and left: "set (rn_left r1) \<subseteq> set (rn_left r)" by blast
    have "\<forall>a\<in>fst ` set (zip (rn_left r) ks). spares sub d a"
      using P spare by (auto dest: set_zip_leftD)
    from take_actions_spare [OF t this] have "map_of (rn_space r1) d = None"
      using P r1 by simp
    with left P show "set (rn_left r1) \<subseteq> set args \<and> map (map_of (rn_space r1)) [d] = [None]" by auto
  qed (use spare d in auto)
  then show ?thesis by (auto simp: map_of_eq_None_iff)
qed

section \<open>A subparser followed by a list of values\<close>

lemma first_result_map:
  "first_result (map f ks) = Some x \<Longrightarrow> \<exists>us k vs. ks = us @ k # vs \<and> f k = Some x \<and> (\<forall>u\<in>set us. f u = None)"
proof (induction ks)
  case (Cons k ks)
  show ?case
  proof (cases "f k")
    case (Some y)
    with Cons.prems have "k # ks = [] @ k # ks \<and> f k = Some x" by simp
    then show ?thesis by fastforce
  next
    case None
    with Cons obtain us k' vs where "ks = us @ k' # vs" "f k' = Some x" "\<forall>u\<in>set us. f u = None" by auto
    with None have "k # ks = (k # us) @ k' # vs \<and> f k' = Some x \<and> (\<forall>u\<in>set (k # us). f u = None)" by simp
    then show ?thesis by blast
  qed
qed simp

lemma first_result_None: "first_result (map f ks) = None \<Longrightarrow> k \<in> set ks \<Longrightarrow> f k = None"
proof (induction ks)
  case (Cons i ks)
  then show ?case by (cases "f i") auto
qed simp

text \<open>A group takes as many strings as let the others match.\<close>

lemma longest_group:
  assumes "first_result (map f (rev [0..<Suc n])) = Some x"
  shows "\<exists>k\<le>n. f k = Some x \<and> (\<forall>j. k < j \<longrightarrow> j \<le> n \<longrightarrow> f j = None)"
proof -
  from first_result_map [OF assms] obtain us k vs where split: "rev [0..<Suc n] = us @ k # vs"
    and k: "f k = Some x" "\<forall>u\<in>set us. f u = None" by blast
  then have "[0..<Suc n] = rev vs @ k # rev us" by (metis append_assoc append_Cons append_Nil rev.simps(2) rev_append rev_rev_ident)
  then have up: "sorted_wrt (<) (rev vs @ k # rev us)" "set (rev vs @ k # rev us) = {0..<Suc n}"
    by (metis sorted_wrt_upt, metis set_upt)
  have "j \<in> set us" if "k < j" "j \<le> n" for j
  proof -
    have "j \<in> set (rev vs @ k # rev us)" using up(2) that by auto
    moreover have "j \<notin> set vs" "j \<noteq> k" using up(1) that by (auto simp: sorted_wrt_append)
    ultimately show ?thesis by auto
  qed
  moreover have "k \<in> {0..<Suc n}" using up(2) by fastforce
  then have "k \<le> n" by simp
  ultimately show ?thesis using k by blast
qed

lemma parser_fits_longer: "nargs_fits Parser (take k ms) \<Longrightarrow> k \<le> j \<Longrightarrow> nargs_fits Parser (take j ms)"
proof -
  assume fit: "nargs_fits Parser (take k ms)" and "k \<le> j"
  then have "take j ms = take k ms @ drop k (take j ms)" by (metis append_take_drop_id min.absorb1 take_take)
  moreover have "dropWhile is_dash (take k ms) \<noteq> []"
    by (rule notI) (use fit in \<open>simp only: nargs_fits_def nargs.case list.case\<close>)
  then have "\<exists>x\<in>set (take k ms). \<not> is_dash x" unfolding dropWhile_eq_Nil_conv by blast
  ultimately have "dropWhile is_dash (take j ms) = dropWhile is_dash (take k ms) @ drop k (take j ms)"
    by (metis dropWhile_append1)
  then show ?thesis using fit by (cases "dropWhile is_dash (take k ms)") (auto simp: nargs_fits_def)
qed

text \<open>A subparser takes all that is left when nothing follows it.\<close>

lemma split_parser_only: "split_groups [Parser] ms = Some ks \<Longrightarrow> ks = [length ms]"
proof -
  assume "split_groups [Parser] ms = Some ks"
  then have "first_result (map (\<lambda>k. if nargs_fits Parser (take k ms) then map_option ((#) k) (split_groups [] (drop k ms)) else None)
    (rev [0..<Suc (length ms)])) = Some ks" by simp
  from longest_group [OF this] obtain k where k: "k \<le> length ms" "nargs_fits Parser (take k ms)" "ks = [k]"
    and max: "\<forall>j. k < j \<longrightarrow> j \<le> length ms \<longrightarrow> \<not> nargs_fits Parser (take j ms)"
    by (auto split: if_splits)
  have "\<not> k < length ms" using max parser_fits_longer [OF k(2), of "length ms"] by auto
  then show ?thesis using k by simp
qed

text \<open>The list of values gets only one value: all others go to the subparser.\<close>

lemma split_parser_list:
  assumes "split_groups [Parser, Some_listed] ms = Some ks"
  shows "\<exists>k1 k2. ks = [k1, k2] \<and> (\<exists>ds. take k2 (drop k1 ms) = Pos # ds \<and> (\<forall>d\<in>set ds. d = Dash))"
proof -
  let ?g = "\<lambda>k. if nargs_fits Parser (take k ms) then map_option ((#) k) (split_groups [Some_listed] (drop k ms)) else None"
  from assms have "first_result (map ?g (rev [0..<Suc (length ms)])) = Some ks" by simp
  from longest_group [OF this] obtain k1 where k1: "k1 \<le> length ms" "?g k1 = Some ks"
    and max: "\<forall>j. k1 < j \<longrightarrow> j \<le> length ms \<longrightarrow> ?g j = None" by blast
  from k1 have fit: "nargs_fits Parser (take k1 ms)" by (auto split: if_splits)
  let ?h = "\<lambda>ms k. if nargs_fits Some_listed (take k ms) then Some [k] else None"
  have single: "split_groups [Some_listed] ns = first_result (map (?h ns) (rev [0..<Suc (length ns)]))" for ns
    unfolding split_groups.simps by (rule arg_cong [where f = first_result]) (simp add: map_eq_conv del: upt_Suc)
  from k1 fit obtain k2 where ks: "ks = [k1, k2]" and "nargs_fits Some_listed (take k2 (drop k1 ms))"
    using longest_group [of "?h (drop k1 ms)" "length (drop k1 ms)"] single [of "drop k1 ms"]
    by (auto split: if_splits)
  then have no_opt: "\<not> list_ex is_opt (take k2 (drop k1 ms))" and some: "list_ex is_pos (take k2 (drop k1 ms))"
    by (auto simp: nargs_fits_def)
  have first: "j = 0" if "j < length (take k2 (drop k1 ms))" "is_pos (take k2 (drop k1 ms) ! j)" for j
  proof (rule ccontr)
    assume "j \<noteq> 0"
    let ?ns = "drop (k1 + j) ms"
    have len: "k1 + j < length ms" using that(1) by auto
    have "take 1 ?ns = [take k2 (drop k1 ms) ! j]"
      using that(1) len by (auto simp: take_Suc_conv_app_nth hd_drop_conv_nth take_Suc)
    then have "nargs_fits Some_listed (take 1 ?ns)" using that(2) by (auto simp: nargs_fits_def split: mark.splits)
    moreover have "?g (k1 + j) = None" using max \<open>j \<noteq> 0\<close> len by auto
    then have "split_groups [Some_listed] ?ns = None"
      using parser_fits_longer [OF fit, of "k1 + j"] by (auto split: if_splits)
    then have "first_result (map (?h ?ns) (rev [0..<Suc (length ?ns)])) = None" unfolding single .
    note none = first_result_None [OF this]
    have "1 \<le> length ?ns" using len by simp
    then have "1 \<in> set (rev [0..<Suc (length ?ns)])" unfolding set_rev set_upt atLeastLessThan_iff by linarith
    from none [OF this] have "?h ?ns 1 = None" .
    ultimately show False by simp
  qed
  obtain m ds where slice: "take k2 (drop k1 ms) = m # ds" using some by (cases "take k2 (drop k1 ms)") auto
  have "is_pos m"
  proof -
    from some obtain j where "j < length (m # ds)" "is_pos ((m # ds) ! j)" unfolding slice by (auto simp: list_ex_length)
    moreover from first [unfolded slice, OF this] have "j = 0" .
    ultimately show ?thesis by simp
  qed
  moreover have "d = Dash" if "d \<in> set ds" for d
  proof -
    from that obtain i where "i < length ds" "ds ! i = d" by (auto simp: in_set_conv_nth)
    then have "\<not> is_pos d" using first [unfolded slice, of "Suc i"] by auto
    moreover have "\<not> is_opt d" using no_opt that unfolding slice by (auto simp: list_ex_iff)
    ultimately show ?thesis by (cases d) auto
  qed
  ultimately show ?thesis using ks slice by (cases m) auto
qed

end
