(* ===== verification/Programs.thy ===== *)
theory Programs
  imports App ArgRuns
begin

text \<open>
  The two programs from their command line on: \<^verbatim>\<open>foris_controller/controller/__main__.py\<close> and
  \<^verbatim>\<open>foris_controller/notify/__main__.py\<close>. The arguments of their parsers are data for the model of
  \<^verbatim>\<open>argparse\<close>; what the programs create from the result (listeners, senders, processes) are
  operations of a runtime, which is a parameter. The theorems state what no command line can reach.
\<close>

section \<open>Conversions\<close>

definition str_type :: "string \<Rightarrow> argval res" where "str_type s = Inr (VStr s)"

definition int_type :: "string \<Rightarrow> argval res" where "int_type s = bindE (int_of s) (\<lambda>i. Inr (VInt i))"

definition digit_part :: "string \<Rightarrow> bool" where
  "digit_part s = list_all (\<lambda>p. p \<noteq> [] \<and> list_all is_digit p) (split_on CHR ''_'' s)"

definition mantissa :: "string \<Rightarrow> bool" where
  "mantissa m = (case split_once CHR ''.'' m of
     [i, f] \<Rightarrow> (i = [] \<or> digit_part i) \<and> (f = [] \<or> digit_part f) \<and> (i \<noteq> [] \<or> f \<noteq> []) | _ \<Rightarrow> digit_part m)"

definition drop_sign :: "string \<Rightarrow> string" where
  "drop_sign s = (case s of c # t \<Rightarrow> if c = CHR ''+'' \<or> c = CHR ''-'' then t else s | [] \<Rightarrow> [])"

definition float_type :: "string \<Rightarrow> argval res" where
  "float_type s = (let t = lower (drop_sign (strip s)) in
     if t \<in> {''inf'', ''infinity'', ''nan''} \<or>
        (case split_once CHR ''e'' t of [m, e] \<Rightarrow> mantissa m \<and> digit_part (drop_sign e) | _ \<Rightarrow> mantissa t)
     then Inr (VFloat s) else Inl ValueError)"

definition controller_id_type :: "string \<Rightarrow> argval res" where
  "controller_id_type s = bindE (controller_id_arg s) (\<lambda>i. Inr (VStr i))"

definition passwd_type :: "(string \<Rightarrow> (string \<times> string) res) \<Rightarrow> string \<Rightarrow> argval res" where
  "passwd_type read path = bindE (read path) (\<lambda>(user, password). Inr (VPair user password))"

section \<open>The arguments of the programs\<close>

definition arg_option :: "string list \<Rightarrow> string \<Rightarrow> (string \<Rightarrow> argval res) \<Rightarrow> argval \<Rightarrow> argument" where
  "arg_option flags dest type dflt = \<lparr>ag_flags = flags, ag_dest = dest, ag_nargs = One, ag_effect = Store, ag_type = type,
     ag_default = dflt, ag_required = False, ag_choices = None\<rparr>"

definition arg_switch :: "string list \<Rightarrow> string \<Rightarrow> argument" where
  "arg_switch flags dest = \<lparr>ag_flags = flags, ag_dest = dest, ag_nargs = Zero, ag_effect = Store_true, ag_type = str_type,
     ag_default = VBool False, ag_required = False, ag_choices = None\<rparr>"

definition arg_shown :: "string list \<Rightarrow> string \<Rightarrow> argument" where
  "arg_shown flags dest = \<lparr>ag_flags = flags, ag_dest = dest, ag_nargs = Zero, ag_effect = Show, ag_type = str_type,
     ag_default = VNone, ag_required = False, ag_choices = None\<rparr>"

definition arg_listed :: "string list \<Rightarrow> string \<Rightarrow> argument" where
  "arg_listed flags dest = \<lparr>ag_flags = flags, ag_dest = dest, ag_nargs = One_listed, ag_effect = Append_to, ag_type = str_type,
     ag_default = VList [], ag_required = False, ag_choices = None\<rparr>"

definition arg_bus :: "string list \<Rightarrow> argument" where
  "arg_bus buses = \<lparr>ag_flags = [], ag_dest = ''bus'', ag_nargs = Parser, ag_effect = Choose, ag_type = str_type,
     ag_default = VNone, ag_required = True, ag_choices = Some buses\<rparr>"

definition arg_help :: argument where "arg_help = arg_shown [''-h'', ''--help''] ''help''"

text \<open>The libraries that can be imported.\<close>

record installed =
  in_ubus :: bool
  in_mqtt :: bool
  in_zeroconf :: bool
  in_client :: bool

definition available_buses :: "installed \<Rightarrow> string list" where
  "available_buses inst = [''unix-socket''] @ (if in_ubus inst then [''ubus''] else []) @ (if in_mqtt inst then [''mqtt''] else [])"

definition unix_arguments :: "argument list" where
  "unix_arguments =
     [arg_help, arg_option [''--path''] ''path'' str_type (VStr ''/tmp/foris-controller.soc''),
      arg_option [''--notifications-path''] ''notifications_path'' str_type (VStr ''/tmp/foris-controller-notifications.soc'')]"

definition ubus_arguments :: "argument list" where
  "ubus_arguments =
     [arg_help, arg_option [''--path''] ''path'' str_type (VStr ''/var/run/ubus.sock''), arg_switch [''--single''] ''single'']"

text \<open>\<open>period\<close> is the environment's \<^verbatim>\<open>FC_MQTT_ANNOUNCER_PERIOD\<close>, \<open>read\<close> reads a file of passwords.\<close>

definition mqtt_arguments :: "string option \<Rightarrow> (string \<Rightarrow> (string \<times> string) res) \<Rightarrow> installed \<Rightarrow> argument list" where
  "mqtt_arguments period read inst =
     [arg_help, arg_option [''--host''] ''host'' str_type (VStr ''127.0.0.1''),
      arg_option [''--port''] ''port'' int_type (VInt 1883),
      arg_option [''--controller-id''] ''controller_id'' controller_id_type VNone,
      arg_option [''--passwd-file''] ''passwd_file'' (passwd_type read) VNone,
      arg_option [''--announcer-period''] ''announcer_period'' float_type
        (case period of Some s \<Rightarrow> VStr s | None \<Rightarrow> VFloat ''1.0'')] @
     (if in_zeroconf inst then
       [arg_switch [''--zeroconf-enabled''] ''zeroconf_enabled'',
        (arg_option [''--zeroconf-devices''] ''zeroconf_devices'' str_type VNone)\<lparr>ag_nargs := Some_listed\<rparr>,
        arg_option [''--zeroconf-port''] ''zeroconf_port'' int_type (VInt 11884)] else [])"

definition controller_arguments :: "installed \<Rightarrow> argument list" where
  "controller_arguments inst =
     [arg_help, arg_shown [''--version''] ''version'', arg_bus (available_buses inst),
      (arg_option [''-b'', ''--backend''] ''backend'' str_type VNone)\<lparr>ag_required := True, ag_choices := Some [''mock'', ''openwrt'']\<rparr>,
      arg_switch [''-d'', ''--debug''] ''debug'',
      arg_listed [''-m'', ''--module''] ''module'',
      arg_option [''-l'', ''--log-file''] ''log_file'' str_type VNone,
      arg_listed [''--extra-module-path''] ''extra_module_path''] @
     (if in_client inst then [arg_option [''-C'', ''--client-socket-path''] ''client_socket_path'' str_type VNone] else [])"

definition no_subparsers :: subparsers where "no_subparsers = (\<lambda>_. None)"

definition controller_subparsers :: "string option \<Rightarrow> (string \<Rightarrow> (string \<times> string) res) \<Rightarrow> installed \<Rightarrow> subparsers" where
  "controller_subparsers period read inst bus =
     (if bus \<notin> set (available_buses inst) then None
      else Some (parse_known (if bus = ''unix-socket'' then unix_arguments
        else if bus = ''ubus'' then ubus_arguments else mqtt_arguments period read inst) no_subparsers))"

definition controller_options :: "string option \<Rightarrow> (string \<Rightarrow> (string \<times> string) res) \<Rightarrow> installed \<Rightarrow> string list \<Rightarrow> arg_space res" where
  "controller_options period read inst = parse_args (controller_arguments inst) (controller_subparsers period read inst)"

text \<open>\<^verbatim>\<open>foris-notify\<close>: the notifications are one more positional argument, after the one with the subparsers.\<close>

definition arg_notification :: argument where
  "arg_notification = \<lparr>ag_flags = [], ag_dest = ''notification'', ag_nargs = Some_listed, ag_effect = Store, ag_type = str_type,
     ag_default = VNone, ag_required = True, ag_choices = None\<rparr>"

definition notify_arguments :: "installed \<Rightarrow> argument list" where
  "notify_arguments inst =
     [arg_help, arg_shown [''--version''] ''version'',
      (arg_option [''-m'', ''--module''] ''module'' str_type VNone)\<lparr>ag_required := True\<rparr>,
      (arg_option [''-a'', ''--action''] ''action'' str_type VNone)\<lparr>ag_required := True\<rparr>,
      arg_bus (available_buses inst),
      arg_switch [''-d'', ''--debug''] ''debug'',
      arg_switch [''-n'', ''--no-validation''] ''no_validation'',
      arg_listed [''--extra-module-path''] ''extra_module_path'',
      arg_notification]"

definition notify_mqtt_arguments :: "(string \<Rightarrow> (string \<times> string) res) \<Rightarrow> argument list" where
  "notify_mqtt_arguments read =
     [arg_help, arg_option [''--host''] ''host'' str_type (VStr ''localhost''),
      arg_option [''--port''] ''port'' int_type (VInt 1883),
      arg_option [''--controller-id''] ''controller_id'' controller_id_type VNone,
      arg_option [''--passwd-file''] ''passwd_file'' (passwd_type read) VNone]"

definition notify_subparsers :: "(string \<Rightarrow> (string \<times> string) res) \<Rightarrow> installed \<Rightarrow> subparsers" where
  "notify_subparsers read inst bus =
     (if bus \<notin> set (available_buses inst) then None
      else Some (parse_known (if bus = ''unix-socket''
          then [arg_help, arg_option [''--path''] ''path'' str_type (VStr ''/tmp/foris-controller.soc'')]
        else if bus = ''ubus'' then [arg_help, arg_option [''--path''] ''path'' str_type (VStr ''/var/run/ubus.sock'')]
        else notify_mqtt_arguments read) no_subparsers))"

definition notify_options :: "(string \<Rightarrow> (string \<times> string) res) \<Rightarrow> installed \<Rightarrow> string list \<Rightarrow> arg_space res" where
  "notify_options read inst = parse_args (notify_arguments inst) (notify_subparsers read inst)"

section \<open>From the options to a running program\<close>

definition attr :: "arg_space \<Rightarrow> string \<Rightarrow> argval res" where
  "attr space d = (case map_of space d of None \<Rightarrow> Inl AttributeError | Some v \<Rightarrow> Inr v)"

definition truth_of :: "argval \<Rightarrow> bool" where
  "truth_of v = (case v of VBool b \<Rightarrow> b | VStr s \<Rightarrow> s \<noteq> [] | VList vs \<Rightarrow> vs \<noteq> [] | VInt i \<Rightarrow> i \<noteq> 0 | VNone \<Rightarrow> False | _ \<Rightarrow> True)"

definition int_value :: "argval \<Rightarrow> int" where
  "int_value v = (case v of VInt i \<Rightarrow> i | _ \<Rightarrow> 0)"

definition pair_of :: "argval \<Rightarrow> (string \<times> string) option" where
  "pair_of v = (case v of VPair a b \<Rightarrow> Some (a, b) | _ \<Rightarrow> None)"

text \<open>\<^verbatim>\<open>[e[0] for e in options.module]\<close>\<close>

definition firsts_of :: "argval \<Rightarrow> string list" where
  "firsts_of v = map (\<lambda>e. arg_text (hd (listed (Some e)))) (listed (Some v))"

definition option_or_none :: "arg_space \<Rightarrow> string \<Rightarrow> argval" where
  "option_or_none space d = (case map_of space d of None \<Rightarrow> VNone | Some v \<Rightarrow> v)"

text \<open>What \<^verbatim>\<open>set_app_info\<close> reads from the options.\<close>

definition program_options :: "arg_space \<Rightarrow> options res" where
  "program_options space =
     bindE (attr space ''bus'') (\<lambda>bus. bindE (attr space ''debug'') (\<lambda>debug. bindE (attr space ''backend'') (\<lambda>backend.
     bindE (attr space ''module'') (\<lambda>m. bindE (attr space ''extra_module_path'') (\<lambda>paths.
     bindE (if arg_text bus = ''ubus'' then attr space ''single'' else Inr (VBool False)) (\<lambda>single. Inr \<lparr>
       op_bus = arg_text bus, op_debug = truth_of debug, op_backend = arg_text backend, op_module = firsts_of m,
       op_extra_module_path = firsts_of paths, op_single = truth_of single,
       op_controller_id = (case option_or_none space ''controller_id'' of VStr s \<Rightarrow> Some s | _ \<Rightarrow> None),
       op_passwd_file = pair_of (option_or_none space ''passwd_file''),
       op_announcer_period = (case option_or_none space ''announcer_period'' of VFloat s \<Rightarrow> Some s | _ \<Rightarrow> None),
       op_zeroconf_devices = map_option (\<lambda>v. case v of VList vs \<Rightarrow> Some (map arg_text vs) | _ \<Rightarrow> None) (map_of space ''zeroconf_devices''),
       op_zeroconf_port = map_option int_value (map_of space ''zeroconf_port'')\<rparr>))))))"

datatype bus_server = Ubus_listener string | Unix_listener string | Mqtt_listener string int

datatype bus_sender = Ubus_sender string | Unix_sender string | Mqtt_sender_to string int "(string \<times> string) option"

record client_process =
  cl_socket :: string
  cl_controller_id :: "string option"
  cl_requests :: bus_sender
  cl_notifications :: bus_sender

text \<open>The parser admits no bus but the three.\<close>

definition bus_server_of :: "arg_space \<Rightarrow> string \<Rightarrow> bus_server res" where
  "bus_server_of space bus =
     (if bus = ''ubus'' then bindE (attr space ''path'') (\<lambda>p. Inr (Ubus_listener (arg_text p)))
      else if bus = ''unix-socket'' then bindE (attr space ''path'') (\<lambda>p. Inr (Unix_listener (arg_text p)))
      else bindE (attr space ''host'') (\<lambda>h. bindE (attr space ''port'') (\<lambda>p. Inr (Mqtt_listener (arg_text h) (int_value p)))))"

text \<open>\<open>key\<close> is the option with the path of the unix socket.\<close>

definition bus_sender_of :: "string \<Rightarrow> arg_space \<Rightarrow> string \<Rightarrow> bus_sender res" where
  "bus_sender_of key space bus =
     (if bus = ''ubus'' then bindE (attr space ''path'') (\<lambda>p. Inr (Ubus_sender (arg_text p)))
      else if bus = ''unix-socket'' then bindE (attr space key) (\<lambda>p. Inr (Unix_sender (arg_text p)))
      else bindE (attr space ''host'') (\<lambda>h. bindE (attr space ''port'') (\<lambda>p. bindE (attr space ''passwd_file'') (\<lambda>c.
        Inr (Mqtt_sender_to (arg_text h) (int_value p) (pair_of c))))))"

record 's runtime =
  rt_app_info :: "app_info \<Rightarrow> ('s, unit) prog"
  rt_log_file :: "string \<Rightarrow> ('s, unit) prog"
  rt_server :: "bus_server \<Rightarrow> ('s, unit) prog"
  rt_sender :: "bus_sender \<Rightarrow> ('s, unit) prog"
  rt_modules :: "string \<Rightarrow> string list \<Rightarrow> ('s, unit) prog"
  rt_client :: "client_process \<Rightarrow> ('s, unit) prog"
  rt_zeroconf :: "('s, unit) prog"
  rt_serve :: "('s, unit) prog"
  rt_close :: "('s, unit) prog"

definition start_bus :: "'s runtime \<Rightarrow> arg_space \<Rightarrow> string \<Rightarrow> ('s, unit) prog" where
  "start_bus R space bus =
     bindP (lift (bus_server_of space bus)) (\<lambda>server. bindP (rt_server R server) (\<lambda>_.
     bindP (lift (bus_sender_of ''notifications_path'' space bus)) (rt_sender R)))"

definition load_backend :: "'s runtime \<Rightarrow> string \<Rightarrow> string list \<Rightarrow> ('s, unit) prog" where
  "load_backend R backend paths =
     (if backend = ''openwrt'' then rt_modules R ''BaseOpenwrtHandler'' paths
      else if backend = ''mock'' then rt_modules R ''BaseMockHandler'' paths else raise NotImplementedError)"

definition start_client :: "'s runtime \<Rightarrow> installed \<Rightarrow> arg_space \<Rightarrow> string \<Rightarrow> ('s, unit) prog" where
  "start_client R inst space bus =
     (if \<not> in_client inst then ret ()
      else bindP (lift (attr space ''client_socket_path'')) (\<lambda>path.
        if \<not> truth_of path then ret ()
        else bindP (lift (bus_sender_of ''path'' space bus)) (\<lambda>requests.
          bindP (lift (bus_sender_of ''notifications_path'' space bus)) (\<lambda>notifications.
            rt_client R \<lparr>cl_socket = arg_text path,
              cl_controller_id = (case option_or_none space ''controller_id'' of VStr s \<Rightarrow> Some s | _ \<Rightarrow> None),
              cl_requests = requests, cl_notifications = notifications\<rparr>))))"

definition start_controller :: "'s runtime \<Rightarrow> nat \<Rightarrow> installed \<Rightarrow> arg_space \<Rightarrow> ('s, unit) prog" where
  "start_controller R node inst space =
     bindP (lift (program_options space)) (\<lambda>opts.
     bindP (rt_app_info R (set_app_info node opts)) (\<lambda>_.
     bindP (lift (attr space ''log_file'')) (\<lambda>log.
     bindP (if truth_of log then rt_log_file R (arg_text log) else ret ()) (\<lambda>_.
     bindP (start_bus R space (op_bus opts)) (\<lambda>_.
     bindP (load_backend R (op_backend opts) (op_extra_module_path opts)) (\<lambda>_.
       start_client R inst space (op_bus opts)))))))"

definition run_controller :: "'s runtime \<Rightarrow> nat \<Rightarrow> installed \<Rightarrow> arg_space \<Rightarrow> ('s, unit) prog" where
  "run_controller R node inst space =
     bindP (start_controller R node inst space) (\<lambda>_.
       main_loop (in_zeroconf inst) (map_option truth_of (map_of space ''zeroconf_enabled''))
         (rt_zeroconf R) (rt_serve R) (rt_close R))"

definition controller_program ::
  "'s runtime \<Rightarrow> nat \<Rightarrow> string option \<Rightarrow> (string \<Rightarrow> (string \<times> string) res) \<Rightarrow> installed \<Rightarrow> string list \<Rightarrow> ('s, unit) prog" where
  "controller_program R node period read inst argv = bindP (lift (controller_options period read inst argv)) (run_controller R node inst)"

text \<open>
  \<open>loads\<close> is the JSON decoder, \<open>sender\<close> gives the method that sends a message for a controller,
  \<open>validator\<close> the validator for the schemas of the modules named and those at the paths.
\<close>

definition notify_program ::
  "(string \<Rightarrow> json res) \<Rightarrow> (bus_sender \<Rightarrow> string option \<Rightarrow> json \<Rightarrow> ('s, unit) prog) \<Rightarrow>
    (string list \<Rightarrow> string list \<Rightarrow> (json \<Rightarrow> bool) res) \<Rightarrow>
    (string \<Rightarrow> (string \<times> string) res) \<Rightarrow> installed \<Rightarrow> string list \<Rightarrow> ('s, unit) prog" where
  "notify_program loads sender validator read inst argv =
     bindP (lift (notify_options read inst argv)) (\<lambda>space.
     bindP (lift (bindE (attr space ''notification'') (\<lambda>ns. mapE (\<lambda>n. loads (arg_text n)) (listed (Some ns))))) (\<lambda>notifications.
     bindP (lift (bindE (attr space ''bus'') (\<lambda>bus. bus_sender_of ''path'' space (arg_text bus)))) (\<lambda>to.
     bindP (lift (bindE (attr space ''no_validation'') (\<lambda>off. if truth_of off then Inr None
       else bindE (attr space ''module'') (\<lambda>m. bindE (attr space ''extra_module_path'') (\<lambda>paths.
         bindE (validator [arg_text m] (firsts_of paths)) (\<lambda>v. Inr (Some v))))))) (\<lambda>valid.
     bindP (lift (bindE (attr space ''module'') (\<lambda>m. bindE (attr space ''action'') (\<lambda>a. Inr (arg_text m, arg_text a))))) (\<lambda>(m, a).
       notify_main (sender to (case option_or_none space ''controller_id'' of VStr s \<Rightarrow> Some s | _ \<Rightarrow> None)) valid m a notifications)))))"

section \<open>One notification at most\<close>

lemmas argument_defs = arg_help_def arg_shown_def arg_option_def arg_switch_def arg_listed_def arg_bus_def arg_notification_def

lemma notify_subparsers_spare:
  assumes "notify_subparsers read inst bus = Some p" "p ss = Inr (space, ex)"
    and d: "d \<notin> {''help'', ''path'', ''host'', ''port'', ''controller_id'', ''passwd_file''}"
  shows "d \<notin> fst ` set space"
proof -
  from assms(1, 2) obtain args where run: "parse_known args no_subparsers ss = Inr (space, ex)"
    and args: "ag_dest ` set args \<subseteq> {''help'', ''path'', ''host'', ''port'', ''controller_id'', ''passwd_file''}"
      "\<forall>a\<in>set args. ag_effect a \<noteq> Choose"
    by (auto simp: notify_subparsers_def notify_mqtt_arguments_def argument_defs split: if_splits)
  show ?thesis by (rule parse_known_keys [OF run args(2)]) (use args(1) d in blast)
qed

lemma mapE_length: "mapE f xs = Inr ys \<Longrightarrow> length ys = length xs"
  by (induction xs arbitrary: ys) (auto simp: bindE_eq_Inr)

text \<open>The strings of a group: a value and perhaps the separator, which is dropped.\<close>

lemma notification_values:
  assumes "get_values arg_notification ss = Inr v" "ss = [s] \<or> ss = [s, ''--'']"
  shows "length (listed (Some v)) \<le> 1"
  using assms
  by (auto simp: get_values_def arg_notification_def bindE_eq_Inr listed_def check_value_def dest!: mapE_length split: if_splits)

lemma slice_strings:
  assumes ok: "marks_ok args xs" and marks: "map snd xs = Pos # ds" "\<forall>d\<in>set ds. d = Dash"
  shows "\<exists>s. map fst xs = [s] \<or> map fst xs = [s, ''--'']"
proof -
  obtain s ys where xs: "xs = (s, Pos) # ys" and ys: "map snd ys = ds" using marks by auto
  show ?thesis
  proof (cases ys)
    case (Cons y ys')
    then obtain t where y: "y = (t, Dash)" using ys marks(2) by (cases y) auto
    then have "t = ''--''" and "\<forall>x\<in>set ys'. snd x = Pos" using ok xs Cons by auto
    moreover have "\<forall>x\<in>set ys'. snd x = Dash" using ys marks(2) Cons by fastforce
    ultimately have "ys' = []" by (cases ys') auto
    then show ?thesis using xs Cons y \<open>t = ''--''\<close> by simp
  qed (simp add: xs)
qed

text \<open>What is known of a run: no value is stored before the bus is chosen, and at most one then.\<close>

definition notify_progress :: "argument \<Rightarrow> argument list \<Rightarrow> argval option list \<Rightarrow> (string \<times> mark) list \<Rightarrow> bool" where
  "notify_progress bus left vs xs \<longleftrightarrow>
     (left = [bus, arg_notification] \<or> left = [arg_notification] \<and> xs = [] \<or> left = []) \<and>
     length (listed (hd vs)) \<le> 1 \<and> length vs = 1"

lemma bus_spares_notification: "spares (notify_subparsers read inst) ''notification'' (arg_bus buses)"
  using notify_subparsers_spare [of read inst _ _ _ _ _ "''notification''"] by (auto simp: spares_def arg_bus_def)

lemma notify_positionals:
  assumes P: "notify_progress (arg_bus buses) (rn_left r) (map (map_of (rn_space r)) [''notification'']) xs"
    and marks: "marks_ok args xs" and step: "consume_positionals (notify_subparsers read inst) xs r = Inr (r1, zs)"
  shows "notify_progress (arg_bus buses) (rn_left r1) (map (map_of (rn_space r1)) [''notification'']) zs"
proof -
  let ?sub = "notify_subparsers read inst"
  let ?ks = "match_partial (map ag_nargs (rn_left r)) (map snd xs)"
  from step obtain r2 where acts: "take_actions ?sub (zip (rn_left r) (slices ?ks (map fst xs))) r = Inr r2"
    and r1: "rn_space r1 = rn_space r2" "rn_left r1 = drop (length ?ks) (rn_left r)" and zs: "zs = drop (sum_list ?ks) xs"
    by (auto simp: consume_positionals_def bindE_eq_Inr Let_def)
  consider "rn_left r = [arg_bus buses, arg_notification]" | "rn_left r = [arg_notification]" "xs = []" | "rn_left r = []"
    using P by (auto simp: notify_progress_def)
  then show ?thesis
  proof cases
    case 1
    have ks: "?ks = (case split_groups [Parser, Some_listed] (map snd xs) of Some ks \<Rightarrow> ks
      | None \<Rightarrow> case split_groups [Parser] (map snd xs) of Some ks \<Rightarrow> ks | None \<Rightarrow> [])"
      using 1 by (simp add: match_partial.simps arg_bus_def arg_notification_def del: split_groups.simps split: option.splits)
    show ?thesis
    proof (cases "split_groups [Parser, Some_listed] (map snd xs)")
      case (Some l)
      from split_parser_list [OF Some] obtain k1 k2 ds where l: "l = [k1, k2]"
        and group: "take k2 (drop k1 (map snd xs)) = Pos # ds" "\<forall>d\<in>set ds. d = Dash" by blast
      let ?ys = "take k2 (drop k1 xs)"
      have m: "marks_ok args ?ys" using marks marks_ok_drop marks_ok_take by blast
      have "map snd ?ys = Pos # ds" using group(1) by (simp add: take_map drop_map)
      from slice_strings [OF m this group(2)] obtain s where s: "map fst ?ys = [s] \<or> map fst ?ys = [s, ''--'']" ..
      have "?ks = [k1, k2]" using ks Some l by simp
      with acts 1 obtain ra where "take_action ?sub arg_notification (map fst ?ys) ra = Inr r2"
        by (auto simp: bindE_eq_Inr take_map drop_map)
      then obtain v where "get_values arg_notification (map fst ?ys) = Inr v"
        and "map_of (rn_space r2) ''notification'' = Some v"
        by (auto simp: take_action_def Let_def bindE_eq_Inr arg_notification_def)
      with notification_values s show ?thesis using 1 r1 \<open>?ks = [k1, k2]\<close> by (auto simp: notify_progress_def)
    next
      case None
      show ?thesis
      proof (cases "split_groups [Parser] (map snd xs)")
        case None
        with ks \<open>split_groups [Parser, Some_listed] (map snd xs) = None\<close> have "?ks = []" by simp
        with acts r1 zs P 1 show ?thesis by (simp add: notify_progress_def)
      next
        case (Some l)
        with ks \<open>split_groups [Parser, Some_listed] (map snd xs) = None\<close> split_parser_only [OF Some]
        have k: "?ks = [length xs]" by simp
        with acts 1 have "take_action ?sub (arg_bus buses) (map fst xs) r = Inr r2" by (simp add: bindE_eq_Inr)
        from take_action_spares [OF this bus_spares_notification] show ?thesis
          using P 1 r1 zs k by (simp add: notify_progress_def)
      qed
    qed
  next
    case 2
    have "split_groups [Some_listed] [] = None" by (simp add: nargs_fits_def)
    then have "?ks = []" using 2 by (simp add: match_partial.simps arg_notification_def del: split_groups.simps)
    with acts r1 zs P 2 show ?thesis by (simp add: notify_progress_def)
  next
    case 3
    then have "?ks = []" by (simp add: match_partial.simps)
    with acts r1 zs P 3 show ?thesis by (simp add: notify_progress_def)
  qed
qed

lemma notify_at_most_one:
  assumes "notify_options read inst argv = Inr space"
  shows "length (listed (map_of space ''notification'')) \<le> 1"
proof -
  let ?P = "notify_progress (arg_bus (available_buses inst))"
  from assms have run: "parse_known (notify_arguments inst) (notify_subparsers read inst) argv = Inr (space, [])"
    by (auto simp: notify_options_def parse_args_def bindE_eq_Inr split: if_splits)
  have "\<exists>left. ?P left (map (map_of space) [''notification'']) []"
  proof (rule parse_known_options [where P = ?P, OF run])
    show "\<forall>a\<in>set (notify_arguments inst). ag_flags a \<noteq> [] \<longrightarrow>
        (\<forall>d\<in>set [''notification'']. spares (notify_subparsers read inst) d a)"
      by (simp add: notify_arguments_def argument_defs spares_def)
    show "\<forall>a\<in>set (notify_arguments inst). \<forall>s. ag_dest a \<in> set [''notification''] \<longrightarrow> ag_default a \<noteq> VStr s"
      by (simp add: notify_arguments_def argument_defs)
    show "?P (filter (\<lambda>a. ag_flags a = []) (notify_arguments inst)) (map (map_of (default_space (notify_arguments inst))) [''notification'']) xs" for xs
      by (simp add: notify_progress_def notify_arguments_def default_space_def argument_defs listed_def)
    show "?P left vs (drop n xs)" if "?P left vs xs" for left vs xs n
      using that by (auto simp: notify_progress_def)
  qed (rule notify_positionals)
  then show ?thesis by (auto simp: notify_progress_def)
qed

lemma base_notify_counts:
  fixes sent :: "'s \<Rightarrow> nat"
  assumes "\<And>m s. sent (snd (send m s)) \<le> Suc (sent s)"
  shows "sent (snd (base_notify send validator m a data s)) \<le> Suc (sent s)"
  using assms by (simp add: base_notify_def Let_def raise_def split: option.splits)

lemma notify_main_counts:
  fixes sent :: "'s \<Rightarrow> nat"
  assumes send: "\<And>m s. sent (snd (send m s)) \<le> Suc (sent s)" and len: "length ns \<le> 1"
  shows "sent (snd (notify_main send validator m a ns s)) \<le> Suc (sent s)"
proof (cases ns)
  case Nil
  then show ?thesis by (simp add: notify_main_def ret_def)
next
  case (Cons n ms)
  let ?p = "base_notify send validator m a (if json_truthy n then Some n else None)"
  have "ms = []" using Cons len by simp
  then have "sent (snd (notify_main send validator m a ns s)) = sent (snd (?p s))"
    using Cons by (simp add: notify_main_def bindP_def ret_def split: prod.splits outcome.splits)
  then show ?thesis using base_notify_counts [of sent send, OF send] by simp
qed

text \<open>A step that only looks at values leaves the state as it is.\<close>

lemma bindP_lift: "bindP (lift m) f s = (case m of Inl e \<Rightarrow> (Raise e, s) | Inr x \<Rightarrow> f x s)"
  by (cases m) (simp_all add: bindP_def lift_def)

text \<open>
  C39: \<^verbatim>\<open>foris-notify\<close> never sends more than one notification, whatever its command line, although
  it declares and loops over several: the strings between the bus and the last of them are given to
  the parser of the bus, which refuses them. For every way to count what is sent.
\<close>

theorem notify_sends_at_most_one:
  fixes sent :: "'s \<Rightarrow> nat"
  assumes "\<And>to controller m s. sent (snd (sender to controller m s)) \<le> Suc (sent s)"
  shows "sent (snd (notify_program loads sender validator read inst argv s)) \<le> Suc (sent s)"
proof (cases "notify_options read inst argv")
  case (Inl e)
  then show ?thesis by (simp add: notify_program_def bindP_lift)
next
  case (Inr space)
  have len: "length ns \<le> 1"
    if "bindE (attr space ''notification'') (\<lambda>ns. mapE (\<lambda>n. loads (arg_text n)) (listed (Some ns))) = Inr ns" for ns
    using that notify_at_most_one [OF Inr] by (auto simp: bindE_eq_Inr attr_def dest: mapE_length split: option.splits)
  show ?thesis
    by (auto simp: notify_program_def bindP_lift Inr intro: notify_main_counts assms dest: len split: sum.splits prod.splits)
qed

definition keep_sent :: "bus_sender \<Rightarrow> string option \<Rightarrow> json \<Rightarrow> (json list, unit) prog" where
  "keep_sent to controller m log = (Ret (), m # log)"

definition notify_demo :: "string list \<Rightarrow> unit outcome \<times> json list" where
  "notify_demo ns = notify_program (\<lambda>s. Inr (JStr s)) keep_sent (\<lambda>_ _. Inr (\<lambda>_. True)) (\<lambda>_. Inl IndexError)
     \<lparr>in_ubus = True, in_mqtt = True, in_zeroconf = False, in_client = False\<rparr>
     ([''-m'', ''web'', ''--act'', ''set_language'', ''-dn'', ''ubus'', ''--path'', ''/tmp/u''] @ ns) []"

lemma notify_demo_results:
  "notify_demo [''{}''] = (Ret (), [JObj [(''module'', JStr ''web''), (''kind'', JStr ''notification''), (''action'', JStr ''set_language''), (''data'', JStr ''{}'')]])"
  "notify_demo [''{}'', ''{}''] = (Raise (SystemExit 2), [])"
  by code_simp+

lemma keep_sent_counts: "length (snd (keep_sent to controller m s)) \<le> Suc (length s)"
  by (simp add: keep_sent_def)

theorem notify_sends_at_most_one_witness:
  "length (snd (notify_demo [''{}''])) \<le> 1 \<and> fst (notify_demo [''{}'']) = Ret () \<and> fst (notify_demo [''{}'', ''{}'']) = Raise (SystemExit 2)"
proof -
  have "length (snd (notify_demo ns)) \<le> 1" for ns
    unfolding notify_demo_def
    using notify_sends_at_most_one [of length keep_sent, where s = "[]", OF keep_sent_counts] by simp
  then show ?thesis by (simp add: notify_demo_results)
qed

section \<open>Which bus has the option for zeroconf\<close>

lemma controller_subparsers_spare:
  assumes "controller_subparsers period read inst bus = Some p" "p ss = Inr (space, ex)" "bus \<noteq> ''mqtt''"
  shows "''zeroconf_enabled'' \<notin> fst ` set space"
proof -
  from assms obtain args where run: "parse_known args no_subparsers ss = Inr (space, ex)"
    and args: "args = unix_arguments \<or> args = ubus_arguments"
    by (auto simp: controller_subparsers_def available_buses_def split: if_splits)
  show ?thesis
    by (rule parse_known_keys [OF run]) (use args in \<open>auto simp: unix_arguments_def ubus_arguments_def argument_defs\<close>)
qed

lemma subparser_keeps_bus:
  assumes "controller_subparsers period read inst bus = Some p" "p ss = Inr (space, ex)"
  shows "''bus'' \<notin> fst ` set space"
proof -
  from assms obtain args where run: "parse_known args no_subparsers ss = Inr (space, ex)"
    and args: "args = unix_arguments \<or> args = ubus_arguments \<or> args = mqtt_arguments period read inst"
    by (auto simp: controller_subparsers_def split: if_splits)
  show ?thesis
    by (rule parse_known_keys [OF run])
       (use args in \<open>auto simp: unix_arguments_def ubus_arguments_def mqtt_arguments_def argument_defs\<close>)
qed

definition controller_progress :: "argument list \<Rightarrow> argval option list \<Rightarrow> (string \<times> mark) list \<Rightarrow> bool" where
  "controller_progress left vs xs \<longleftrightarrow> length vs = 2 \<and>
     ((\<exists>buses. left = [arg_bus buses]) \<and> vs ! 1 = None \<or> left = [] \<and> (vs ! 0 = Some (VStr ''mqtt'') \<or> vs ! 1 = None))"

lemma controller_positionals:
  assumes P: "controller_progress (rn_left r) (map (map_of (rn_space r)) [''bus'', ''zeroconf_enabled'']) xs"
    and step: "consume_positionals (controller_subparsers period read inst) xs r = Inr (r1, zs)"
  shows "controller_progress (rn_left r1) (map (map_of (rn_space r1)) [''bus'', ''zeroconf_enabled'']) zs"
proof -
  let ?sub = "controller_subparsers period read inst"
  let ?ks = "match_partial (map ag_nargs (rn_left r)) (map snd xs)"
  from step obtain r2 where acts: "take_actions ?sub (zip (rn_left r) (slices ?ks (map fst xs))) r = Inr r2"
    and r1: "rn_space r1 = rn_space r2" "rn_left r1 = drop (length ?ks) (rn_left r)"
    by (auto simp: consume_positionals_def bindE_eq_Inr Let_def)
  consider buses where "rn_left r = [arg_bus buses]" | "rn_left r = []"
    using P by (auto simp: controller_progress_def)
  then show ?thesis
  proof cases
    case 1
    show ?thesis
    proof (cases "split_groups [Parser] (map snd xs)")
      case None
      then have "?ks = []" using 1 by (simp add: match_partial.simps arg_bus_def del: split_groups.simps)
      with acts r1 P 1 show ?thesis by (simp add: controller_progress_def)
    next
      case (Some l)
      with split_parser_only [OF Some] have k: "?ks = [length xs]"
        using 1 by (simp add: match_partial.simps arg_bus_def del: split_groups.simps)
      with acts 1 have "take_action ?sub (arg_bus buses) (map fst xs) r = Inr r2" by (simp add: bindE_eq_Inr)
      then obtain vs p space ex u w where p: "?sub (arg_text (hd vs)) = Some p" "p (map arg_text (tl vs)) = Inr (space, ex)"
        and w: "check_value (arg_bus buses) (hd vs) = Inr w"
        and r2: "r2 = (fold (\<lambda>(k, v). store k v) space (store ''bus'' (hd vs) (r\<lparr>rn_seen := ''bus'' # rn_seen r\<rparr>)))\<lparr>rn_unrecognized := u\<rparr>"
        by (auto simp: take_action_def Let_def bindE_eq_Inr arg_bus_def choose_subparser_def get_values_def listed_def split: option.splits)
      let ?v = "hd vs"
      have space: "rn_space r2 = rn_space (fold (\<lambda>(k, v). store k v) space (store ''bus'' ?v (r\<lparr>rn_seen := ''bus'' # rn_seen r\<rparr>)))"
        using r2 by simp
      have v: "list_ex (\<lambda>c. ?v = VStr c) buses" using w by (auto simp: check_value_def arg_bus_def split: if_splits)
      have bus: "map_of (rn_space r2) ''bus'' = Some ?v"
        unfolding space using subparser_keeps_bus [OF p] by (simp add: fold_store_other)
      show ?thesis
      proof (cases "?v = VStr ''mqtt''")
        case True
        with bus k r1 1 show ?thesis by (simp add: controller_progress_def)
      next
        case False
        then have "arg_text ?v \<noteq> ''mqtt''" using v by (auto simp: list_ex_iff arg_text_def)
        from controller_subparsers_spare [OF p this]
        have "map_of (rn_space r2) ''zeroconf_enabled'' = map_of (rn_space r) ''zeroconf_enabled''"
          unfolding space by (simp add: fold_store_other)
        with P k r1 1 show ?thesis by (auto simp: controller_progress_def)
      qed
    qed
  next
    case 2
    then have "?ks = []" by (simp add: match_partial.simps)
    with acts r1 P 2 show ?thesis by (simp add: controller_progress_def)
  qed
qed

lemma zeroconf_option_of_mqtt:
  assumes "controller_options period read inst argv = Inr space" "map_of space ''bus'' \<noteq> Some (VStr ''mqtt'')"
  shows "map_of space ''zeroconf_enabled'' = None"
proof -
  let ?P = controller_progress
  from assms have run: "parse_known (controller_arguments inst) (controller_subparsers period read inst) argv = Inr (space, [])"
    by (auto simp: controller_options_def parse_args_def bindE_eq_Inr split: if_splits)
  have "\<exists>left. ?P left (map (map_of space) [''bus'', ''zeroconf_enabled'']) []"
  proof (rule parse_known_options [where P = ?P, OF run])
    show "\<forall>a\<in>set (controller_arguments inst). ag_flags a \<noteq> [] \<longrightarrow>
        (\<forall>d\<in>set [''bus'', ''zeroconf_enabled'']. spares (controller_subparsers period read inst) d a)"
      by (simp add: controller_arguments_def argument_defs spares_def)
    show "\<forall>a\<in>set (controller_arguments inst). \<forall>s. ag_dest a \<in> set [''bus'', ''zeroconf_enabled''] \<longrightarrow> ag_default a \<noteq> VStr s"
      by (simp add: controller_arguments_def argument_defs)
    show "?P (filter (\<lambda>a. ag_flags a = []) (controller_arguments inst))
        (map (map_of (default_space (controller_arguments inst))) [''bus'', ''zeroconf_enabled'']) xs" for xs
      by (simp add: controller_progress_def controller_arguments_def default_space_def argument_defs)
    show "?P left vs (drop n xs)" if "?P left vs xs" for left vs xs n
      using that by (auto simp: controller_progress_def)
  qed (rule controller_positionals)
  with assms(2) show ?thesis by (auto simp: controller_progress_def)
qed

text \<open>
  C38: where the library for zeroconf is installed, the controller serves only on \<^verbatim>\<open>mqtt\<close>. With any
  other bus it starts up as ever, its listener, its modules and its client socket included; and where
  the start-up succeeds, the program ends with \<^verbatim>\<open>AttributeError\<close> in the state in which the start-up
  left it, without serving, because only the parser of \<^verbatim>\<open>mqtt\<close> has the option
  \<^verbatim>\<open>--zeroconf-enabled\<close> that the main loop reads. An exception of the start-up is passed on.
\<close>

theorem only_mqtt_serves_with_zeroconf:
  assumes "in_zeroconf inst" "controller_options period read inst argv = Inr space" "map_of space ''bus'' \<noteq> Some (VStr ''mqtt'')"
  shows "controller_program R node period read inst argv s =
      (case start_controller R node inst space s of
         (Ret _, s') \<Rightarrow> (Raise AttributeError, s')
       | (Raise e, s') \<Rightarrow> (Raise e, s')
       | (Block, s') \<Rightarrow> (Block, s')) \<and>
    start_controller (R\<lparr>rt_serve := serve\<rparr>) node inst space = start_controller R node inst space"
proof
  have "main_loop (in_zeroconf inst) (map_option truth_of (map_of space ''zeroconf_enabled'')) start loop close s'
      = (Raise AttributeError, s')" for start loop close :: "('s, unit) prog" and s'
    by (simp add: zeroconf_option_of_mqtt [OF assms(2, 3)] assms(1) main_loop_without_option)
  moreover have "controller_program R node period read inst argv s = run_controller R node inst space s"
    by (simp add: controller_program_def assms(2) bindP_lift)
  ultimately show "controller_program R node period read inst argv s = (case start_controller R node inst space s of
       (Ret _, s') \<Rightarrow> (Raise AttributeError, s') | (Raise e, s') \<Rightarrow> (Raise e, s') | (Block, s') \<Rightarrow> (Block, s'))"
    by (cases "start_controller R node inst space s"; cases "fst (start_controller R node inst space s)")
      (simp_all add: run_controller_def bindP_def)
  show "start_controller (R\<lparr>rt_serve := serve\<rparr>) node inst space = start_controller R node inst space"
    by (simp add: start_controller_def start_bus_def load_backend_def start_client_def cong: if_cong)
qed

text \<open>A runtime that writes down what it is asked for.\<close>

definition logging_runtime :: "string list runtime" where
  "logging_runtime = \<lparr>rt_app_info = (\<lambda>_. ret ()), rt_log_file = (\<lambda>_. ret ()), rt_server = (\<lambda>_ l. (Ret (), l @ [''listen''])),
     rt_sender = (\<lambda>_. ret ()), rt_modules = (\<lambda>h _ l. (Ret (), l @ [h])), rt_client = (\<lambda>_. ret ()),
     rt_zeroconf = ret (), rt_serve = (\<lambda>l. (Ret (), l @ [''serve''])), rt_close = ret ()\<rparr>"

definition controller_demo :: "bool \<Rightarrow> string list runtime \<Rightarrow> unit outcome \<times> string list" where
  "controller_demo zeroconf R = controller_program R 0 None (\<lambda>_. Inl IndexError)
     \<lparr>in_ubus = True, in_mqtt = True, in_zeroconf = zeroconf, in_client = True\<rparr> [''--backend'', ''mock'', ''unix-socket''] []"

lemma controller_demo_options:
  "case controller_options None (\<lambda>_. Inl IndexError) \<lparr>in_ubus = True, in_mqtt = True, in_zeroconf = True, in_client = True\<rparr>
     [''--backend'', ''mock'', ''unix-socket''] of Inl _ \<Rightarrow> False | Inr space \<Rightarrow> map_of space ''bus'' = Some (VStr ''unix-socket'')"
  by code_simp

theorem only_mqtt_serves_with_zeroconf_witness:
  "fst (controller_demo True logging_runtime) = Raise AttributeError \<and>
   snd (controller_demo True logging_runtime) = [''listen'', ''BaseMockHandler''] \<and>
   snd (controller_demo False logging_runtime) = [''listen'', ''BaseMockHandler'', ''serve''] \<and>
   controller_demo True (logging_runtime\<lparr>rt_serve := ret ()\<rparr>) = controller_demo True logging_runtime"
proof -
  let ?inst = "\<lparr>in_ubus = True, in_mqtt = True, in_zeroconf = True, in_client = True\<rparr>"
  obtain space where space: "controller_options None (\<lambda>_. Inl IndexError) ?inst [''--backend'', ''mock'', ''unix-socket''] = Inr space"
    "map_of space ''bus'' = Some (VStr ''unix-socket'')"
    using controller_demo_options by (auto split: sum.splits)
  have other: "map_of space ''bus'' \<noteq> Some (VStr ''mqtt'')" using space(2) by simp
  note ends = only_mqtt_serves_with_zeroconf [OF _ space(1) other, where node = 0 and s = "[]"]
  have "controller_demo True (logging_runtime\<lparr>rt_serve := ret ()\<rparr>) = controller_demo True logging_runtime"
    unfolding controller_demo_def
    using ends [where R = logging_runtime and serve = "ret ()"]
      ends [where R = "logging_runtime\<lparr>rt_serve := ret ()\<rparr>" and serve = "ret ()"] by simp
  moreover have "controller_demo True logging_runtime = (Raise AttributeError, [''listen'', ''BaseMockHandler''])"
    "snd (controller_demo False logging_runtime) = [''listen'', ''BaseMockHandler'', ''serve'']"
    by code_simp+
  ultimately show ?thesis by simp
qed

end
