(* ===== verification/Zconf.thy ===== *)
theory Zconf
  imports JsonTools IpAddr
begin

text \<open>
  \<^verbatim>\<open>foris_controller/zconf.py\<close>: which addresses are announced by zeroconf, and the thread that
  follows their changes. \<open>zc_published\<close> is what the library announces at the moment; its calls
  are taken to succeed. The theorem says that these are always the addresses polled last.
\<close>

section \<open>Addresses\<close>

record adapter =
  ad_name :: string
  ad_ips :: "(string \<times> bool) list"

text \<open>The networks that \<^verbatim>\<open>is_private\<close> and \<^verbatim>\<open>is_loopback\<close> of an IPv4 address test, as in the releases of
  Python before 3.12.4.\<close>

definition private_networks :: "(int \<times> nat) list" where
  "private_networks =
     [(0x00000000, 8), (0x0A000000, 8), (0x7F000000, 8), (0xA9FE0000, 16), (0xAC100000, 12), (0xC0000000, 29),
      (0xC00000AA, 31), (0xC0000200, 24), (0xC0A80000, 16), (0xC6120000, 15), (0xC6336400, 24), (0xCB007100, 24),
      (0xF0000000, 4), (0xFFFFFFFF, 32)]"

definition in_block :: "int \<Rightarrow> int \<times> nat \<Rightarrow> bool" where
  "in_block n b = (n div 2 ^ (32 - snd b) = fst b div 2 ^ (32 - snd b))"

definition is_private :: "int \<Rightarrow> bool" where
  "is_private n = list_ex (in_block n) private_networks"

definition is_loopback :: "int \<Rightarrow> bool" where
  "is_loopback n = in_block n (0x7F000000, 8)"

text \<open>The flag of an address tells that it is an IPv4 one.\<close>

definition announced_address :: "string \<Rightarrow> bool res" where
  "announced_address a =
     bindE (ip_address a) (\<lambda>ip. case ip of V4 n \<Rightarrow> Inr (is_private n \<and> \<not> is_loopback n) | V6 _ \<Rightarrow> Inr False)"

definition zconf_addresses :: "string list \<Rightarrow> adapter list \<Rightarrow> string list res" where
  "zconf_addresses devices adapters =
     (let used = filter (\<lambda>a. devices = [] \<or> ad_name a \<in> set devices) adapters;
          ips = remdups (concat (map (\<lambda>a. map fst (filter snd (ad_ips a))) used))
      in bindE (filterE announced_address ips) (\<lambda>shown. Inr (sorted_texts shown)))"

section \<open>The service\<close>

datatype zconf_state = Connected | Disconnected | Closed

record zconf_service =
  zc_addresses :: "string list"
  zc_state :: zconf_state
  zc_published :: "string list option"

definition register_service :: "zconf_service \<Rightarrow> zconf_service" where
  "register_service z =
     (if zc_addresses z \<noteq> [] then z\<lparr>zc_published := Some (zc_addresses z), zc_state := Connected\<rparr> else z)"

definition zconf_init :: "string list \<Rightarrow> zconf_service" where
  "zconf_init addresses =
     register_service \<lparr>zc_addresses = addresses, zc_state = Disconnected, zc_published = None\<rparr>"

text \<open>One round of \<^verbatim>\<open>update_service_loop\<close>.\<close>

definition update_service :: "string list \<Rightarrow> zconf_service \<Rightarrow> zconf_service" where
  "update_service new z =
     (if zc_addresses z = new then z
      else let z = z\<lparr>zc_addresses := new\<rparr> in
        if new \<noteq> [] \<and> zc_state z = Connected then z\<lparr>zc_published := Some new\<rparr>
        else if new \<noteq> [] \<and> zc_state z = Disconnected then register_service z
        else if new = [] \<and> zc_state z = Connected then z\<lparr>zc_published := None, zc_state := Disconnected\<rparr>
        else z)"

definition zconf_close :: "zconf_service \<Rightarrow> zconf_service" where
  "zconf_close z = (if zc_state z \<noteq> Closed then z\<lparr>zc_published := None, zc_state := Closed\<rparr> else z)"

definition tracks :: "zconf_service \<Rightarrow> string list \<Rightarrow> bool" where
  "tracks z addresses \<longleftrightarrow> zc_addresses z = addresses \<and>
     zc_state z = (if addresses = [] then Disconnected else Connected) \<and>
     zc_published z = (if addresses = [] then None else Some addresses)"

lemma tracks_init: "tracks (zconf_init a) a"
  by (simp add: tracks_def zconf_init_def register_service_def)

lemma tracks_update: "tracks z a \<Longrightarrow> tracks (update_service b z) b"
  by (auto simp: tracks_def update_service_def register_service_def Let_def)

text \<open>
  C40: the announcement follows the addresses: after any number of rounds the service is connected
  and announces exactly the addresses seen last, and when there are none it is disconnected and
  announces nothing.
\<close>

theorem zconf_announces_last_addresses:
  "tracks (fold update_service polls (zconf_init first)) (last (first # polls))"
  by (induction polls rule: rev_induct) (auto simp: tracks_init intro: tracks_update)

end
