(* ===== verification/MockNetworks.thy ===== *)
theory MockNetworks
  imports JsonTools Networks
begin

text \<open>
  The mocked handler of the networks module, \<^verbatim>\<open>foris_controller_modules/networks/handlers/mock.py\<close>:
  it keeps the assignment of the ports in memory. The other mocked handlers read it to count
  interfaces. The result \<^verbatim>\<open>False\<close> of an update stands for every refusal.
\<close>

section \<open>State\<close>

text \<open>\<open>mp_extra\<close> holds the keys only some ports have: the SSID and device paths.\<close>

record mock_port =
  mp_id :: string
  mp_type :: string
  mp_slot :: string
  mp_state :: string
  mp_link_speed :: int
  mp_bus :: string
  mp_module_id :: int
  mp_configurable :: bool
  mp_macaddr :: string
  mp_extra :: "(string \<times> string) list"

type_synonym mock_nets = "(string \<times> mock_port list) list"

record mock_networks =
  mn_networks :: mock_nets
  mn_firewall :: json
  mn_guide_set :: bool

definition mock_device :: json where
  "mock_device = JObj [(''model'', JStr ''omnia''), (''version'', JStr ''2G no GPIO'')]"

definition mock_firewall :: json where
  "mock_firewall = JObj [(''ssh_on_wan'', JBool False), (''http_on_wan'', JBool False), (''https_on_wan'', JBool False)]"

definition eth_port :: "string \<Rightarrow> string \<Rightarrow> string \<Rightarrow> int \<Rightarrow> string \<Rightarrow> string \<Rightarrow> mock_port" where
  "eth_port i slot state speed bus mac =
     \<lparr>mp_id = i, mp_type = ''eth'', mp_slot = slot, mp_state = state, mp_link_speed = speed, mp_bus = bus,
      mp_module_id = 0, mp_configurable = True, mp_macaddr = mac, mp_extra = []\<rparr>"

definition card_port :: "string \<Rightarrow> string \<Rightarrow> string \<Rightarrow> string \<Rightarrow> (string \<times> string) list \<Rightarrow> mock_port" where
  "card_port i type slot mac extra =
     \<lparr>mp_id = i, mp_type = type, mp_slot = slot, mp_state = ''down'', mp_link_speed = 0, mp_bus = ''pci'',
      mp_module_id = 0, mp_configurable = False, mp_macaddr = mac, mp_extra = extra\<rparr>"

definition default_networks :: mock_nets where
  "default_networks =
     [(''wan'', [eth_port ''eth2'' ''WAN'' ''up'' 1000 ''eth'' ''04:f0:21:24:11:1f'']),
      (''lan'',
        [eth_port ''lan0'' ''LAN0'' ''down'' 0 ''eth'' ''d8:58:d7:00:92:91'',
         eth_port ''lan1'' ''LAN1'' ''down'' 0 ''eth'' ''d8:58:d7:00:92:92'',
         eth_port ''lan2'' ''LAN2'' ''up'' 100 ''eth'' ''d8:58:d7:00:92:9c'',
         eth_port ''lan3'' ''LAN3'' ''down'' 0 ''eth'' ''d8:58:d7:00:92:9d'',
         eth_port ''lan4'' ''LAN4'' ''down'' 0 ''eth'' ''d8:58:d7:00:92:9f'']),
      (''guest'', [eth_port ''eth3'' ''0'' ''down'' 0 ''usb'' ''d8:58:d7:00:92:9d'']),
      (''none'',
        [card_port ''wwan0'' ''wwan'' ''MPCI1'' ''04:f0:21:24:11:1b'' [(''qmi_device'', ''/dev/cdc-wdm0'')],
         card_port ''wwan1'' ''wwan'' ''MPCI2'' ''04:f0:21:24:11:be'' [(''qmi_device'', ''/dev/cdc-wdm1'')],
         card_port ''wlan0'' ''wifi'' ''MPCI0'' ''04:f0:21:23:22:dc''
           [(''ssid'', ''testing-ssid''),
            (''slot_path'', ''soc/soc:pcie/pci0000:00/0000:00:02.0/0000:01:00.0'')]])]"

definition mock_networks_start :: mock_networks where
  "mock_networks_start = \<lparr>mn_networks = default_networks, mn_firewall = mock_firewall, mn_guide_set = False\<rparr>"

section \<open>Operations\<close>

text \<open>The values under \<^verbatim>\<open>device\<close>, \<^verbatim>\<open>firewall\<close> and \<^verbatim>\<open>networks\<close>.\<close>

definition mock_networks_settings :: "mock_networks \<Rightarrow> json \<times> json \<times> mock_nets" where
  "mock_networks_settings s = (mock_device, mn_firewall s, mn_networks s)"

record mock_networks_request =
  mq_networks :: "(string \<times> string list) list"
  mq_firewall :: json

text \<open>A dict of the ports by their id: a later port replaces an earlier one.\<close>

definition ports_map :: "mock_port list \<Rightarrow> (string \<times> mock_port) list" where
  "ports_map ports = fold (\<lambda>p. AList.update (mp_id p) p) ports []"

text \<open>\<open>None\<close>: a port is unknown, already taken or may not be moved.\<close>

fun take_ports :: "string list \<Rightarrow> (string \<times> mock_port) list \<Rightarrow> (mock_port list \<times> (string \<times> mock_port) list) option" where
  "take_ports [] m = Some ([], m)"
| "take_ports (i # is) m = (case map_of m i of
      None \<Rightarrow> None
    | Some p \<Rightarrow> if \<not> mp_configurable p then None
        else (case take_ports is (AList.delete i m) of
            None \<Rightarrow> None | Some (ps, m') \<Rightarrow> Some (p # ps, m')))"

fun assign_networks ::
  "string list \<Rightarrow> (string \<times> string list) list \<Rightarrow> (string \<times> mock_port) list \<Rightarrow>
    (mock_nets \<times> (string \<times> mock_port) list) option" where
  "assign_networks [] wanted m = Some ([], m)"
| "assign_networks (n # ns) wanted m = (case map_of wanted n of
      None \<Rightarrow> None
    | Some is \<Rightarrow> (case take_ports is m of
          None \<Rightarrow> None
        | Some (ps, m') \<Rightarrow> (case assign_networks ns wanted m' of
              None \<Rightarrow> None | Some (nets, rest) \<Rightarrow> Some ((n, ps) # nets, rest))))"

definition add_to_none :: "mock_port list \<Rightarrow> mock_nets \<Rightarrow> mock_nets" where
  "add_to_none ps nets = map (\<lambda>(n, qs). (n, if n = ''none'' then qs @ ps else qs)) nets"

text \<open>The guide flag is set before the request is checked.\<close>

definition mock_networks_update :: "mock_networks_request \<Rightarrow> mock_networks \<Rightarrow> bool \<times> mock_networks" where
  "mock_networks_update req s0 =
     (let s = s0\<lparr>mn_guide_set := True\<rparr>;
          nets = mn_networks s
      in case assign_networks (map fst nets) (mq_networks req) (ports_map (concat (map snd nets))) of
          None \<Rightarrow> (False, s)
        | Some (new_nets, rest) \<Rightarrow>
            if \<exists>p\<in>set (map snd rest). mp_configurable p then (False, s)
            else (True, s\<lparr>mn_networks := add_to_none (map snd rest) new_nets, mn_firewall := mq_firewall req\<rparr>))"

text \<open>What the other handlers show of a network.\<close>

definition mock_ports :: "string \<Rightarrow> mock_networks \<Rightarrow> mock_port list" where
  "mock_ports n s = (case map_of (mn_networks s) n of None \<Rightarrow> [] | Some ps \<Rightarrow> ps)"

definition mock_counts :: "string \<Rightarrow> mock_networks \<Rightarrow> nat \<times> nat" where
  "mock_counts n s = (length (mock_ports n s), length (filter (\<lambda>e. mp_state e = ''up'') (mock_ports n s)))"

section \<open>No port is lost\<close>

definition all_ports :: "mock_nets \<Rightarrow> mock_port list" where
  "all_ports nets = concat (map snd nets)"

lemma ports_map_distinct:
  assumes "distinct (map mp_id ports)"
  shows "ports_map ports = map (\<lambda>p. (mp_id p, p)) ports"
proof -
  have "fold (\<lambda>p. AList.update (mp_id p) p) ports m = m @ map (\<lambda>p. (mp_id p, p)) ports"
    if "distinct (map fst m @ map mp_id ports)" for m
    using that
  proof (induction ports arbitrary: m)
    case (Cons p ports)
    then have "mp_id p \<notin> fst ` set m" by auto
    with Cons.prems show ?case by (simp add: update_new Cons.IH)
  qed simp
  from this [of "[]"] assms show ?thesis by (simp add: ports_map_def)
qed

lemma take_ports_keeps:
  assumes "take_ports is m = Some (ps, m')" "distinct (map fst m)"
  shows "mset (map snd m) = mset ps + mset (map snd m') \<and> distinct (map fst m') \<and> set m' \<subseteq> set m"
  using assms
proof (induction "is" arbitrary: m ps)
  case (Cons i "is")
  from Cons.prems(1) obtain p qs where p: "map_of m i = Some p" "ps = p # qs"
    "take_ports is (AList.delete i m) = Some (qs, m')"
    by (auto split: option.splits if_splits)
  have d: "distinct (map fst (AList.delete i m))" using Cons.prems(2) by (rule distinct_delete)
  have "set (AList.delete i m) \<subseteq> set m" by (auto simp: AList.delete_eq)
  with Cons.IH [OF p(3) d] mset_delete [OF Cons.prems(2) p(1)] p(2) show ?case by auto
qed simp

lemma assign_networks_keeps:
  assumes "assign_networks ns wanted m = Some (nets, rest)" "distinct (map fst m)"
  shows "mset (map snd m) = mset (all_ports nets) + mset (map snd rest) \<and> map fst nets = ns \<and> set rest \<subseteq> set m"
  using assms
proof (induction ns arbitrary: m nets)
  case (Cons n ns)
  from Cons.prems(1) obtain "is" ps m' nets' where n: "take_ports is m = Some (ps, m')"
    "assign_networks ns wanted m' = Some (nets', rest)" "nets = (n, ps) # nets'"
    by (auto split: option.splits)
  from take_ports_keeps [OF n(1) Cons.prems(2)] have t: "mset (map snd m) = mset ps + mset (map snd m')"
    "distinct (map fst m')" "set m' \<subseteq> set m" by auto
  from Cons.IH [OF n(2) t(2)] t n(3) show ?case by (auto simp: all_ports_def)
qed (simp add: all_ports_def)

lemma add_to_none_ports:
  assumes "distinct (map fst nets)" "''none'' \<in> fst ` set nets"
  shows "mset (all_ports (add_to_none ps nets)) = mset (all_ports nets) + mset ps"
  using assms
proof (induction nets)
  case (Cons e nets)
  have plain: "add_to_none ps nets = nets" if "''none'' \<notin> fst ` set nets"
    using that by (induction nets) (auto simp: add_to_none_def)
  show ?case
  proof (cases "fst e = ''none''")
    case True
    with Cons.prems(1) have "''none'' \<notin> fst ` set nets" by auto
    with True plain show ?thesis by (cases e) (auto simp: all_ports_def add_to_none_def)
  next
    case False
    with Cons show ?thesis by (cases e) (auto simp: all_ports_def add_to_none_def)
  qed
qed simp

text \<open>An accepted request moves ports, a refused one changes nothing but the guide flag.\<close>

lemma mock_networks_update_keeps_ports:
  assumes "distinct (map mp_id (all_ports (mn_networks s)))" "distinct (map fst (mn_networks s))"
    and "''none'' \<in> fst ` set (mn_networks s)"
  shows "mset (all_ports (mn_networks (snd (mock_networks_update req s)))) = mset (all_ports (mn_networks s))"
proof (cases "fst (mock_networks_update req s)")
  case False
  then show ?thesis by (auto simp: mock_networks_update_def Let_def split: option.splits if_splits)
next
  case True
  let ?m = "ports_map (all_ports (mn_networks s))"
  have m: "?m = map (\<lambda>p. (mp_id p, p)) (all_ports (mn_networks s))"
    using assms(1) by (rule ports_map_distinct)
  then have d: "distinct (map fst ?m)" "map snd ?m = all_ports (mn_networks s)"
    using assms(1) by (simp_all add: comp_def)
  from True obtain nets rest where a: "assign_networks (map fst (mn_networks s)) (mq_networks req) ?m = Some (nets, rest)"
    "mn_networks (snd (mock_networks_update req s)) = add_to_none (map snd rest) nets"
    by (auto simp: mock_networks_update_def Let_def all_ports_def split: option.splits if_splits)
  from assign_networks_keeps [OF a(1) d(1)] d(2)
  have k: "mset (all_ports (mn_networks s)) = mset (all_ports nets) + mset (map snd rest)"
    "map fst nets = map fst (mn_networks s)" by auto
  have "''none'' \<in> fst ` set nets" using assms(3) k(2) by (metis list.set_map)
  moreover have "distinct (map fst nets)" using assms(2) k(2) by simp
  ultimately show ?thesis using a(2) k(1) by (simp add: add_to_none_ports)
qed

lemma mock_networks_update_refused:
  assumes "mock_networks_update req s = (False, s')"
  shows "s' = s\<lparr>mn_guide_set := True\<rparr>"
  using assms by (auto simp: mock_networks_update_def Let_def split: option.splits if_splits)

text \<open>The default ports meet the conditions.\<close>

lemma default_networks_ok:
  "distinct (map mp_id (all_ports default_networks)) \<and> distinct (map fst default_networks) \<and>
   ''none'' \<in> fst ` set default_networks"
  by (simp add: default_networks_def all_ports_def eth_port_def card_port_def)

end
