(* ===== verification/MockLan.thy ===== *)
theory MockLan
  imports MockNetworks LanSettings Guest
begin

text \<open>
  The mocked handlers of the lan and guest modules,
  \<^verbatim>\<open>foris_controller_modules/lan/handlers/mock.py\<close> and
  \<^verbatim>\<open>foris_controller_modules/guest/handlers/mock.py\<close>, which keep settings and clients in memory.
  An update writes its values one after another and the address arithmetic may raise in
  between, so it is a program over the state.
\<close>

definition change :: "('s \<Rightarrow> 's) \<Rightarrow> ('s, unit) prog" where
  "change f s = (Ret (), f s)"

definition inspect :: "('s \<Rightarrow> ('s, 'a) prog) \<Rightarrow> ('s, 'a) prog" where
  "inspect f s = f s s"

lemma change_simp [prog_simps]: "change f s = (Ret (), f s)"
  by (simp add: change_def)

lemma inspect_simp [prog_simps]: "inspect f s = f s s"
  by (simp add: inspect_def)

section \<open>State\<close>

record mock_dhcp =
  mk_enabled :: bool
  mk_start :: int
  mk_limit :: int
  mk_lease_time :: int
  mk_clients :: "client list"

record mock_lan_data =
  ml_mode :: string
  ml_router_ip :: string
  ml_netmask :: string
  ml_dhcp :: mock_dhcp
  ml_ipv6clients :: "ipv6_client list"
  ml_lan_type :: string
  ml_hostname :: "string option"
  ml_static :: static_request
  ml_qos :: qos_settings
  ml_redirect :: bool

record mock_lan = mock_lan_data +
  ml_guide_set :: bool

definition mock_lan_clients :: "client list" where
  "mock_lan_clients =
     [\<lparr>c_expires = 1539350186, c_mac = ''11:22:33:44:55:66'', c_ip = ''192.168.1.1'', c_hostname = ''prvni'',
       c_active = True, c_static = False\<rparr>,
      \<lparr>c_expires = 1539350188, c_mac = ''99:88:77:66:55:44'', c_ip = ''192.168.2.1'', c_hostname = ''*'',
       c_active = False, c_static = True\<rparr>]"

definition mock_lan_ipv6clients :: "ipv6_client list" where
  "mock_lan_ipv6clients =
     [\<lparr>v6_expires = 1539350186, v6_duid = ''00010003d8e63397f73ed8cd7cda'', v6_address = ''fd52:ad42:a6c9::64fe'',
       v6_hostname = ''prvni'', v6_active = True\<rparr>,
      \<lparr>v6_expires = 1539350186, v6_duid = ''00020000df167896750a08ce0782'', v6_address = ''fd52:ad42:a6c9::64fa'',
       v6_hostname = ''*'', v6_active = False\<rparr>]"

definition mock_lan_start :: mock_lan where
  "mock_lan_start =
     \<lparr>ml_mode = ''managed'', ml_router_ip = ''192.168.1.1'', ml_netmask = ''255.255.255.0'',
      ml_dhcp = \<lparr>mk_enabled = False, mk_start = 100, mk_limit = 150, mk_lease_time = 120,
        mk_clients = mock_lan_clients\<rparr>,
      ml_ipv6clients = mock_lan_ipv6clients, ml_lan_type = ''none'', ml_hostname = None,
      ml_static = \<lparr>sr_ip = ''192.168.1.10'', sr_netmask = ''255.255.255.0'', sr_gateway = ''192.168.1.1'',
        sr_dns1 = None, sr_dns2 = None\<rparr>,
      ml_qos = \<lparr>q_enabled = False, q_upload = 1024, q_download = 1024\<rparr>, ml_redirect = True,
      ml_guide_set = False\<rparr>"

section \<open>Settings\<close>

text \<open>A value that is \<^verbatim>\<open>None\<close> or empty is left out of the answer.\<close>

definition filled :: "string option \<Rightarrow> string option" where
  "filled v = (case v of Some s \<Rightarrow> if s = [] then None else Some s | None \<Rightarrow> None)"

definition mock_lan_settings :: "mock_networks \<Rightarrow> mock_lan \<Rightarrow> mock_lan_data \<times> nat \<times> nat" where
  "mock_lan_settings nets s =
     (mock_lan_data.truncate
        (s\<lparr>ml_hostname := filled (ml_hostname s),
           ml_static := (ml_static s)\<lparr>sr_dns1 := filled (sr_dns1 (ml_static s)),
             sr_dns2 := filled (sr_dns2 (ml_static s))\<rparr>\<rparr>),
      mock_counts ''lan'' nets)"

record mock_dhcp_request =
  mx_enabled :: bool
  mx_start :: "int option"
  mx_limit :: "int option"
  mx_lease_time :: "int option"

record mock_managed_request =
  mx_router_ip :: string
  mx_netmask :: string
  mx_dhcp :: mock_dhcp_request

datatype mock_lan_mode = MockManaged mock_managed_request | MockUnmanaged unmanaged_request

record mock_lan_request =
  mx_redirect :: "bool option"
  mx_qos :: "qos_settings option"
  mx_mode :: mock_lan_mode

definition kept :: "'a option \<Rightarrow> 'a \<Rightarrow> 'a" where
  "kept v old = (case v of Some x \<Rightarrow> x | None \<Rightarrow> old)"

definition mock_dhcp_values :: "mock_dhcp_request \<Rightarrow> mock_dhcp \<Rightarrow> mock_dhcp" where
  "mock_dhcp_values r d =
     d\<lparr>mk_enabled := mx_enabled r, mk_start := kept (mx_start r) (mk_start d),
       mk_limit := kept (mx_limit r) (mk_limit d), mk_lease_time := kept (mx_lease_time r) (mk_lease_time d)\<rparr>"

text \<open>\<^verbatim>\<open>MockLanHandler.in_network\<close>; \<^verbatim>\<open>in_range\<close> is that of the backend.\<close>

definition mock_in_network :: "string \<Rightarrow> string \<Rightarrow> string \<Rightarrow> bool res" where
  "mock_in_network ip ip_root netmask =
     bindE (bindE (ip_address ip_root) (\<lambda>a. ip_network a netmask)) (\<lambda>network.
     bindE (ip_address ip) (\<lambda>a. Inr (ip_in_net a network)))"

definition mock_in_range :: "string \<Rightarrow> string \<Rightarrow> int \<Rightarrow> int \<Rightarrow> bool res" where
  "mock_in_range ip router_ip start limit =
     bindE (ip_address router_ip) (\<lambda>root.
     bindE (ip_add root start) (\<lambda>dynamic_first.
     bindE (ip_add dynamic_first limit) (\<lambda>dynamic_last.
     bindE (ip_address ip) (\<lambda>a. andE (ip_le dynamic_first a) (ip_le a dynamic_last)))))"

definition mock_client_fits :: "mock_lan \<Rightarrow> client \<Rightarrow> bool res" where
  "mock_client_fits s e =
     (if c_ip e = ''ignore'' then Inr True
      else andE
        (bindE (mock_in_range (c_ip e) (ml_router_ip s) (mk_start (ml_dhcp s)) (mk_limit (ml_dhcp s))) (\<lambda>b. Inr (\<not> b)))
        (mock_in_network (c_ip e) (ml_router_ip s) (ml_netmask s)))"

definition set_clients :: "client list \<Rightarrow> mock_lan \<Rightarrow> mock_lan" where
  "set_clients cs s = s\<lparr>ml_dhcp := (ml_dhcp s)\<lparr>mk_clients := cs\<rparr>\<rparr>"

abbreviation mock_clients :: "mock_lan \<Rightarrow> client list" where
  "mock_clients s \<equiv> mk_clients (ml_dhcp s)"

definition mock_update_managed :: "mock_managed_request \<Rightarrow> (mock_lan, unit) prog" where
  "mock_update_managed r =
     bindP (change (\<lambda>s. s\<lparr>ml_router_ip := mx_router_ip r, ml_netmask := mx_netmask r,
       ml_dhcp := mock_dhcp_values (mx_dhcp r) (ml_dhcp s)\<rparr>)) (\<lambda>_.
     inspect (\<lambda>s. bindP (lift (filterE (mock_client_fits s) (mock_clients s))) (\<lambda>cs. change (set_clients cs))))"

text \<open>A missing or empty hostname keeps the stored one.\<close>

definition mock_update_unmanaged :: "unmanaged_request \<Rightarrow> mock_lan \<Rightarrow> mock_lan" where
  "mock_update_unmanaged r s =
     (let s1 = s\<lparr>ml_lan_type := lan_type_of r\<rparr> in case r of
        LanDhcp hostname \<Rightarrow> (case filled hostname of Some h \<Rightarrow> s1\<lparr>ml_hostname := Some h\<rparr> | None \<Rightarrow> s1)
      | LanStatic st \<Rightarrow> s1\<lparr>ml_static := st\<rparr>
      | LanNone \<Rightarrow> s1)"

definition mock_lan_update :: "mock_lan_request \<Rightarrow> (mock_lan, bool) prog" where
  "mock_lan_update r =
     bindP (block
       [change (\<lambda>s. s\<lparr>ml_redirect := kept (mx_redirect r) (ml_redirect s), ml_qos := kept (mx_qos r) (ml_qos s)\<rparr>),
        (case mx_mode r of
           MockManaged m \<Rightarrow> block [change (\<lambda>s. s\<lparr>ml_mode := ''managed''\<rparr>), mock_update_managed m]
         | MockUnmanaged u \<Rightarrow> block [change (\<lambda>s. s\<lparr>ml_mode := ''unmanaged''\<rparr>), change (mock_update_unmanaged u)]),
        change (\<lambda>s. s\<lparr>ml_guide_set := True\<rparr>)]) (\<lambda>_. ret True)"

section \<open>The registry of clients\<close>

definition mock_client_exists :: "string \<Rightarrow> mock_lan \<Rightarrow> bool" where
  "mock_client_exists mac s = list_ex (\<lambda>c. c_mac c = mac) (mock_clients s)"

definition mock_dhcp_managed :: "mock_lan \<Rightarrow> bool" where
  "mock_dhcp_managed s = (ml_mode s = ''managed'' \<and> mk_enabled (ml_dhcp s))"

definition mock_hostname_unique :: "string \<Rightarrow> mock_lan \<Rightarrow> bool" where
  "mock_hostname_unique hostname s = (\<not> list_ex (\<lambda>c. c_hostname c = hostname) (mock_clients s))"

definition mock_validate_ip :: "string \<Rightarrow> mock_lan \<Rightarrow> string option res" where
  "mock_validate_ip ip s =
     (if \<not> mock_dhcp_managed s then Inr (Some ''disabled'')
      else if ip = ''ignore'' then Inr None
      else bindE (mock_in_network ip (ml_router_ip s) (ml_netmask s)) (\<lambda>inside. Inr (
        if \<not> inside then Some ''out-of-network''
        else if list_ex (\<lambda>c. c_ip c = ip) (mock_clients s) then Some ''ip-exists'' else None)))"

text \<open>The results are \<open>None\<close> when the request is accepted, otherwise the reason of the refusal.\<close>

definition mock_set_client :: "string \<Rightarrow> string \<Rightarrow> string \<Rightarrow> (mock_lan, string option) prog" where
  "mock_set_client ip mac0 hostname = inspect (\<lambda>s.
     let mac = upper mac0 in
     if mock_client_exists mac s then ret (Some ''mac-exists'')
     else bindP (lift (mock_validate_ip ip s)) (\<lambda>err. case err of
         Some m \<Rightarrow> ret (Some m)
       | None \<Rightarrow>
           if \<not> mock_hostname_unique hostname s then ret (Some ''hostname-exists'')
           else bindP (change (set_clients (mock_clients s @
               [\<lparr>c_expires = 0, c_mac = mac, c_ip = ip, c_hostname = hostname, c_active = False, c_static = True\<rparr>])))
             (\<lambda>_. ret None)))"

text \<open>The loop over the clients keeps the last one with the address.\<close>

fun last_client :: "string \<Rightarrow> nat \<Rightarrow> client list \<Rightarrow> nat option \<Rightarrow> nat option" where
  "last_client mac i [] found = found"
| "last_client mac i (c # cs) found = last_client mac (Suc i) cs (if c_mac c = mac then Some i else found)"

definition mock_change_client :: "client \<Rightarrow> string \<Rightarrow> string \<Rightarrow> string \<Rightarrow> mock_lan \<Rightarrow> string option res" where
  "mock_change_client current ip new_mac hostname s =
     (if mock_client_exists new_mac s \<and> c_mac current \<noteq> new_mac then Inr (Some ''mac-exists'')
      else bindE (mock_validate_ip ip s) (\<lambda>err. Inr (
        if err = Some ''ip-exists'' \<and> c_ip current \<noteq> ip then err
        else if err \<noteq> None then err
        else if \<not> mock_hostname_unique hostname s \<and> c_hostname current \<noteq> hostname then Some ''hostname-exists''
        else None)))"

definition mock_update_client :: "string \<Rightarrow> string \<Rightarrow> string \<Rightarrow> string \<Rightarrow> (mock_lan, string option) prog" where
  "mock_update_client ip old_mac mac hostname = inspect (\<lambda>s.
     case last_client (upper old_mac) 0 (mock_clients s) None of
       None \<Rightarrow> ret (Some ''mac-not-exists'')
     | Some i \<Rightarrow>
         let current = mock_clients s ! i in
         bindP (lift (mock_change_client current ip (upper mac) hostname s)) (\<lambda>err. case err of
           Some m \<Rightarrow> ret (Some m)
         | None \<Rightarrow> bindP (change (set_clients ((mock_clients s)
               [i := current\<lparr>c_ip := ip, c_mac := upper mac, c_hostname := hostname\<rparr>]))) (\<lambda>_. ret None)))"

definition mock_delete_client :: "string \<Rightarrow> (mock_lan, string option) prog" where
  "mock_delete_client mac = inspect (\<lambda>s.
     if \<not> mock_dhcp_managed s then ret (Some ''disabled'')
     else if \<not> mock_client_exists mac s then ret (Some ''mac-not-exists'')
     else bindP (change (set_clients (filter (\<lambda>c. c_mac c \<noteq> mac) (mock_clients s)))) (\<lambda>_. ret None))"

section \<open>The clients never collide\<close>

definition clients_differ :: "client \<Rightarrow> client \<Rightarrow> bool" where
  "clients_differ c d \<longleftrightarrow> c_mac c \<noteq> c_mac d \<and> (c_ip c = c_ip d \<longrightarrow> c_ip c = ''ignore'') \<and> c_hostname c \<noteq> c_hostname d"

definition clients_ok :: "client list \<Rightarrow> bool" where
  "clients_ok cs \<longleftrightarrow> sorted_wrt clients_differ cs \<and> list_all (\<lambda>c. upper (c_mac c) = c_mac c) cs"

lemma clients_differ_sym: "clients_differ c d \<Longrightarrow> clients_differ d c"
  by (auto simp: clients_differ_def)

lemma clients_ok_filter: "clients_ok cs \<Longrightarrow> clients_ok (filter P cs)"
  by (auto simp: clients_ok_def list_all_iff intro: sorted_wrt_filter)

lemma clients_ok_nth: "clients_ok cs \<Longrightarrow> i < length cs \<Longrightarrow> j < length cs \<Longrightarrow> i \<noteq> j \<Longrightarrow> clients_differ (cs ! i) (cs ! j)"
  by (metis clients_differ_sym clients_ok_def linorder_neqE_nat sorted_wrt_iff_nth_less)

lemma clients_ok_list_update:
  assumes "clients_ok cs" "\<And>j. j < length cs \<Longrightarrow> j \<noteq> i \<Longrightarrow> clients_differ (cs ! j) c" "upper (c_mac c) = c_mac c"
  shows "clients_ok (cs[i := c])"
proof -
  have "clients_differ (cs[i := c] ! j) (cs[i := c] ! k)" if "j < k" "k < length cs" for j k
  proof (cases "i < length cs")
    case True
    with that show ?thesis
      using clients_ok_nth [OF assms(1), of j k] assms(2) [of j] assms(2) [of k]
      by (auto simp: nth_list_update intro: clients_differ_sym)
  next
    case False
    with that show ?thesis using clients_ok_nth [OF assms(1), of j k] by simp
  qed
  moreover have "set (cs[i := c]) \<subseteq> insert c (set cs)" by (rule set_update_subset_insert)
  ultimately show ?thesis
    using assms(1,3) by (auto simp: clients_ok_def list_all_iff sorted_wrt_iff_nth_less)
qed

lemma set_clients_simps [simp]:
  "mock_clients (set_clients cs s) = cs" "ml_mode (set_clients cs s) = ml_mode s"
  "mk_enabled (ml_dhcp (set_clients cs s)) = mk_enabled (ml_dhcp s)"
  by (simp_all add: set_clients_def)

lemma last_client_Some:
  assumes "last_client mac i cs found = Some j"
  shows "found = Some j \<or> (i \<le> j \<and> j < i + length cs \<and> c_mac (cs ! (j - i)) = mac)"
  using assms
proof (induction cs arbitrary: i found)
  case (Cons c cs)
  from Cons.prems Cons.IH show ?case
    by (fastforce simp: nth_Cons' split: if_splits)
qed simp

lemma validate_ip_fresh:
  "mock_validate_ip ip s = Inr None \<Longrightarrow> ip = ''ignore'' \<or> (\<forall>c\<in>set (mock_clients s). c_ip c \<noteq> ip)"
  by (auto simp: mock_validate_ip_def bindE_eq_Inr list_ex_iff split: if_splits)

text \<open>Each operation changes the clients only as it reports.\<close>

lemma mock_set_client_effect:
  "mock_set_client ip mac hostname s = (r, s') \<Longrightarrow>
    (if r = Ret None then s' = set_clients (mock_clients s @ [\<lparr>c_expires = 0, c_mac = upper mac, c_ip = ip,
        c_hostname = hostname, c_active = False, c_static = True\<rparr>]) s \<and>
        \<not> mock_client_exists (upper mac) s \<and> mock_validate_ip ip s = Inr None \<and> mock_hostname_unique hostname s
     else s' = s)"
  by (cases "mock_validate_ip ip s")
    (auto simp: mock_set_client_def Let_def inspect_def prog_basic bindP_def change_def split: if_splits option.splits)

lemma mock_update_client_effect:
  assumes "mock_update_client ip old_mac mac hostname s = (r, s')"
  shows "if r = Ret None then \<exists>i. last_client (upper old_mac) 0 (mock_clients s) None = Some i \<and>
        mock_change_client (mock_clients s ! i) ip (upper mac) hostname s = Inr None \<and>
        s' = set_clients ((mock_clients s)[i := (mock_clients s ! i)\<lparr>c_ip := ip, c_mac := upper mac,
          c_hostname := hostname\<rparr>]) s
     else s' = s"
proof (cases "last_client (upper old_mac) 0 (mock_clients s) None")
  case None
  with assms show ?thesis by (auto simp: mock_update_client_def inspect_def prog_basic)
next
  case (Some i)
  with assms show ?thesis
    by (cases "mock_change_client (mock_clients s ! i) ip (upper mac) hostname s")
      (auto simp: mock_update_client_def Let_def inspect_def prog_basic bindP_def change_def split: option.splits)
qed

lemma mock_delete_client_effect:
  "snd (mock_delete_client mac s) = s \<or>
   snd (mock_delete_client mac s) = set_clients (filter (\<lambda>c. c_mac c \<noteq> mac) (mock_clients s)) s"
  by (auto simp: mock_delete_client_def inspect_def prog_basic bindP_def change_def)

lemma filterE_is_filter: "filterE p xs = Inr ys \<Longrightarrow> ys = filter (\<lambda>x. p x = Inr True) xs"
  by (induction xs arbitrary: ys) (auto simp: bindE_eq_Inr)

lemma mock_lan_update_clients:
  "\<exists>P. mock_clients (snd (mock_lan_update r s)) = filter P (mock_clients s)"
proof -
  have id: "\<exists>P. cs = filter P cs" for cs :: "client list" by (rule exI [of _ "\<lambda>_. True"]) simp
  have m: "\<exists>P. mock_clients (snd (mock_update_managed m t)) = filter P (mock_clients t)" for m t
  proof -
    let ?t = "t\<lparr>ml_router_ip := mx_router_ip m, ml_netmask := mx_netmask m,
      ml_dhcp := mock_dhcp_values (mx_dhcp m) (ml_dhcp t)\<rparr>"
    have "mock_clients ?t = mock_clients t" by (simp add: mock_dhcp_values_def)
    then show ?thesis
      using filterE_is_filter [of "mock_client_fits ?t" "mock_clients ?t"] id [of "mock_clients t"]
      by (cases "filterE (mock_client_fits ?t) (mock_clients ?t)")
        (auto simp: mock_update_managed_def bindP_def change_def inspect_def prog_basic)
  qed
  show ?thesis
  proof (cases "mx_mode r")
    case (MockManaged x)
    obtain o1 t1 where t1: "mock_update_managed x
        (s\<lparr>ml_redirect := kept (mx_redirect r) (ml_redirect s), ml_qos := kept (mx_qos r) (ml_qos s), ml_mode := ''managed''\<rparr>)
        = (o1, t1)" by fastforce
    with m [of x "s\<lparr>ml_redirect := kept (mx_redirect r) (ml_redirect s), ml_qos := kept (mx_qos r) (ml_qos s),
        ml_mode := ''managed''\<rparr>"]
    have "\<exists>P. mock_clients t1 = filter P (mock_clients s)" by simp
    with MockManaged t1 show ?thesis
      by (cases o1) (simp_all add: mock_lan_update_def bindP_def change_def prog_basic)
  next
    case (MockUnmanaged u)
    then show ?thesis using id [of "mock_clients s"]
      by (cases u) (auto simp: mock_lan_update_def bindP_def change_def prog_basic mock_update_unmanaged_def Let_def
          split: option.splits)
  qed
qed

inductive mock_lan_reachable :: "mock_lan \<Rightarrow> bool" where
  Start: "mock_lan_reachable mock_lan_start"
| Update: "mock_lan_reachable s \<Longrightarrow> mock_lan_reachable (snd (mock_lan_update r s))"
| SetClient: "mock_lan_reachable s \<Longrightarrow> mock_lan_reachable (snd (mock_set_client ip mac hostname s))"
| UpdateClient: "mock_lan_reachable s \<Longrightarrow> mock_lan_reachable (snd (mock_update_client ip old_mac mac hostname s))"
| DeleteClient: "mock_lan_reachable s \<Longrightarrow> mock_lan_reachable (snd (mock_delete_client mac s))"

text \<open>The invariant, and what it means for the registry.\<close>

lemma mock_lan_clients_ok: "mock_lan_reachable s \<Longrightarrow> clients_ok (mock_clients s)"
proof (induction rule: mock_lan_reachable.induct)
  case Start
  show ?case by (simp add: mock_lan_start_def mock_lan_clients_def clients_ok_def clients_differ_def upper_def to_upper_def)
next
  case (Update s r)
  then show ?case using mock_lan_update_clients [of r s] by (auto simp: clients_ok_filter)
next
  case (SetClient s ip mac hostname)
  obtain r s' where "mock_set_client ip mac hostname s = (r, s')" by fastforce
  with mock_set_client_effect [OF this] SetClient.IH show ?case
    by (auto simp: clients_ok_def sorted_wrt_append clients_differ_def mock_client_exists_def
        mock_hostname_unique_def list_ex_iff dest!: validate_ip_fresh split: if_splits)
next
  case (UpdateClient s ip old_mac mac hostname)
  obtain r s' where u: "mock_update_client ip old_mac mac hostname s = (r, s')" by fastforce
  show ?case
  proof (cases "r = Ret None")
    case False
    then show ?thesis using mock_update_client_effect [OF u] UpdateClient.IH u by simp
  next
    case True
    let ?cs = "mock_clients s"
    from mock_update_client_effect [OF u] True obtain i where i:
      "last_client (upper old_mac) 0 ?cs None = Some i"
      "mock_change_client (?cs ! i) ip (upper mac) hostname s = Inr None"
      "s' = set_clients (?cs[i := (?cs ! i)\<lparr>c_ip := ip, c_mac := upper mac, c_hostname := hostname\<rparr>]) s"
      by auto
    from last_client_Some [OF i(1)] have len: "i < length ?cs" by simp
    have "clients_differ (?cs ! j) ((?cs ! i)\<lparr>c_ip := ip, c_mac := upper mac, c_hostname := hostname\<rparr>)"
      if j: "j < length ?cs" "j \<noteq> i" for j
    proof -
      have d: "clients_differ (?cs ! j) (?cs ! i)" by (rule clients_ok_nth [OF UpdateClient.IH j(1) len j(2)])
      have m: "?cs ! j \<in> set ?cs" using j(1) by simp
      show ?thesis using i(2) d m
        by (auto simp: mock_change_client_def bindE_eq_Inr clients_differ_def mock_client_exists_def
            mock_hostname_unique_def list_ex_iff dest!: validate_ip_fresh split: if_splits)
    qed
    then have "clients_ok (?cs[i := (?cs ! i)\<lparr>c_ip := ip, c_mac := upper mac, c_hostname := hostname\<rparr>])"
      by (intro clients_ok_list_update UpdateClient.IH) simp_all
    with i(3) u show ?thesis by simp
  qed
next
  case (DeleteClient s mac)
  then show ?case using mock_delete_client_effect [of mac s] by (auto simp: clients_ok_filter)
qed

text \<open>
  Two differences from the handler that works on the configuration: a client that should keep
  its address is always refused, and an address in small letters is not found when deleting.
\<close>

lemma mock_update_keeping_ip_refused:
  assumes "last_client (upper old_mac) 0 (mock_clients s) None = Some i" "ip = c_ip (mock_clients s ! i)"
    and "ip \<noteq> ''ignore''"
  shows "fst (mock_update_client ip old_mac mac hostname s) \<noteq> Ret None"
proof
  assume "fst (mock_update_client ip old_mac mac hostname s) = Ret None"
  then obtain s' where u: "mock_update_client ip old_mac mac hostname s = (Ret None, s')" by (metis prod.collapse)
  have "i < length (mock_clients s)" using last_client_Some [OF assms(1)] by simp
  moreover have "mock_validate_ip ip s = Inr None"
    using mock_update_client_effect [OF u] assms(1)
    by (auto simp: mock_change_client_def bindE_eq_Inr split: if_splits)
  ultimately show False using validate_ip_fresh [of ip s] assms(2,3) by (metis nth_mem)
qed

lemma mock_delete_small_letters:
  assumes "mock_lan_reachable s" "upper mac \<noteq> mac" "mock_dhcp_managed s"
  shows "mock_delete_client mac s = (Ret (Some ''mac-not-exists''), s)"
  using mock_lan_clients_ok [OF assms(1)] assms(2,3)
  by (auto simp: mock_delete_client_def inspect_def prog_basic mock_client_exists_def clients_ok_def list_all_iff list_ex_iff)

section \<open>The guest network\<close>

record mock_guest =
  mg_enabled :: bool
  mg_router_ip :: string
  mg_netmask :: string
  mg_dhcp :: mock_dhcp
  mg_qos :: qos_settings

definition mock_guest_clients :: "client list" where
  "mock_guest_clients =
     [\<lparr>c_expires = 1539350286, c_mac = ''16:25:34:43:52:61'', c_ip = ''10.10.2.1'', c_hostname = ''first'',
       c_active = True, c_static = False\<rparr>,
      \<lparr>c_expires = 1539350388, c_mac = ''94:85:76:67:58:49'', c_ip = ''10.10.1.1'', c_hostname = [],
       c_active = False, c_static = False\<rparr>]"

definition mock_guest_start :: mock_guest where
  "mock_guest_start =
     \<lparr>mg_enabled = False, mg_router_ip = ''192.168.1.1'', mg_netmask = ''255.255.255.0'',
      mg_dhcp = \<lparr>mk_enabled = False, mk_start = 100, mk_limit = 150, mk_lease_time = 12 * 60 * 60,
        mk_clients = mock_guest_clients\<rparr>,
      mg_qos = \<lparr>q_enabled = False, q_upload = 1200, q_download = 1200\<rparr>\<rparr>"

definition mock_guest_settings :: "mock_networks \<Rightarrow> mock_guest \<Rightarrow> mock_guest \<times> nat \<times> nat" where
  "mock_guest_settings nets s = (s, mock_counts ''guest'' nets)"

text \<open>A request that enables the network must hold all parts; \<open>None\<close> disables it.\<close>

record mock_guest_request =
  my_ip :: string
  my_netmask :: string
  my_dhcp :: mock_dhcp_request
  my_qos :: qos_settings

definition mock_guest_update :: "mock_guest_request option \<Rightarrow> mock_guest \<Rightarrow> mock_guest" where
  "mock_guest_update req s = (case req of
      None \<Rightarrow> s\<lparr>mg_enabled := False\<rparr>
    | Some r \<Rightarrow> s\<lparr>mg_enabled := True, mg_router_ip := my_ip r, mg_netmask := my_netmask r,
        mg_dhcp := mock_dhcp_values (my_dhcp r) (mg_dhcp s),
        mg_qos := (if q_enabled (my_qos r) then my_qos r else (mg_qos s)\<lparr>q_enabled := False\<rparr>)\<rparr>)"

lemma mock_guest_read_back:
  assumes "req = Some r" "q_enabled (my_qos r)"
  shows "fst (mock_guest_settings nets (mock_guest_update req s)) =
    \<lparr>mg_enabled = True, mg_router_ip = my_ip r, mg_netmask = my_netmask r,
     mg_dhcp = mock_dhcp_values (my_dhcp r) (mg_dhcp s), mg_qos = my_qos r\<rparr>"
  using assms by (simp add: mock_guest_settings_def mock_guest_update_def)

end
