(* ===== verification/MockUplink.thy ===== *)
theory MockUplink
  imports MockLan Wan Wifi
begin

text \<open>
  The mocked handlers of the wan and wifi modules,
  \<^verbatim>\<open>foris_controller_modules/wan/handlers/mock.py\<close> and
  \<^verbatim>\<open>foris_controller_modules/wifi/handlers/mock.py\<close>. Random identifiers are arguments.
\<close>

section \<open>Uplink\<close>

text \<open>
  Every update first resets all values to those of \<^verbatim>\<open>_cleanup\<close>, so that only the values of the
  current types differ from the reset ones: the types with their values are the state.
\<close>

record mock_wan =
  mw_wan :: wan4_request
  mw_wan6 :: wan6_request
  mw_custom_mac :: "string option"
  mw_mac_address :: string
  mw_qos :: qos_settings
  mw_vlan_enabled :: bool
  mw_vlan_id :: "int option"
  mw_guide_set :: bool
  mw_test_ids :: "string set"

definition hardware_mac :: string where
  "hardware_mac = ''de:ad:be:ef:99:99''"

definition mock_wan_start :: mock_wan where
  "mock_wan_start =
     \<lparr>mw_wan = WanNone, mw_wan6 = Wan6None, mw_custom_mac = None, mw_mac_address = hardware_mac,
      mw_qos = \<lparr>q_enabled = False, q_upload = 1024, q_download = 1024\<rparr>, mw_vlan_enabled = False,
      mw_vlan_id = None, mw_guide_set = False, mw_test_ids = {}\<rparr>"

definition mock_wan_cleanup :: "mock_wan \<Rightarrow> mock_wan" where
  "mock_wan_cleanup s =
     s\<lparr>mw_wan := WanDhcp None, mw_wan6 := Wan6None, mw_custom_mac := None, mw_mac_address := hardware_mac\<rparr>"

record mock_wan_reply =
  my_wan :: wan4_request
  my_wan6 :: wan6_request
  my_custom_mac :: "string option"
  my_mac_address :: string
  my_counts :: "nat \<times> nat"
  my_wan_qos :: qos_settings
  my_vlan :: "bool \<times> int option"

text \<open>An empty hostname is not shown; showing a custom MAC address makes it the address of the device.\<close>

definition shown_wan4 :: "wan4_request \<Rightarrow> wan4_request" where
  "shown_wan4 w = (case w of WanDhcp hostname \<Rightarrow> WanDhcp (filled hostname) | _ \<Rightarrow> w)"

definition mock_wan_settings :: "mock_networks \<Rightarrow> mock_wan \<Rightarrow> mock_wan_reply \<times> mock_wan" where
  "mock_wan_settings nets s0 =
     (let s = s0\<lparr>mw_mac_address := kept (mw_custom_mac s0) (mw_mac_address s0)\<rparr> in
      (\<lparr>my_wan = shown_wan4 (mw_wan s), my_wan6 = mw_wan6 s, my_custom_mac = mw_custom_mac s,
        my_mac_address = mw_mac_address s, my_counts = mock_counts ''wan'' nets, my_wan_qos = mw_qos s,
        my_vlan = (mw_vlan_enabled s, mw_vlan_id s)\<rparr>, s))"

text \<open>Disabling the VLAN deletes its id, which raises when there is none.\<close>

definition mock_vlan :: "int option \<Rightarrow> (mock_wan, unit) prog" where
  "mock_vlan vlan = (case vlan of
      Some i \<Rightarrow> change (\<lambda>s. s\<lparr>mw_vlan_enabled := True, mw_vlan_id := Some i\<rparr>)
    | None \<Rightarrow> bindP (change (\<lambda>s. s\<lparr>mw_vlan_enabled := False\<rparr>)) (\<lambda>_. inspect (\<lambda>s.
        if mw_vlan_id s = None then raise (KeyError ''vlan_id'')
        else change (\<lambda>s. s\<lparr>mw_vlan_id := None\<rparr>))))"

definition mock_wan_qos :: "qos_settings \<Rightarrow> mock_wan \<Rightarrow> mock_wan" where
  "mock_wan_qos q s = s\<lparr>mw_qos := (if q_enabled q then q else (mw_qos s)\<lparr>q_enabled := False\<rparr>)\<rparr>"

definition mock_wan_update :: "wan_request \<Rightarrow> (mock_wan, bool) prog" where
  "mock_wan_update r =
     bindP (block
       [change mock_wan_cleanup,
        change (\<lambda>s. s\<lparr>mw_wan := wr_wan r, mw_wan6 := wr_wan6 r, mw_custom_mac := wr_custom_mac r\<rparr>),
        (case wr_qos r of None \<Rightarrow> ret () | Some q \<Rightarrow> change (mock_wan_qos q)),
        (case wr_vlan r of None \<Rightarrow> ret () | Some vlan \<Rightarrow> mock_vlan vlan),
        change (\<lambda>s. s\<lparr>mw_guide_set := True\<rparr>)]) (\<lambda>_. ret True)"

definition mock_wan_test_trigger :: "string \<Rightarrow> mock_wan \<Rightarrow> string \<times> mock_wan" where
  "mock_wan_test_trigger new_test_id s = (new_test_id, s\<lparr>mw_test_ids := insert new_test_id (mw_test_ids s)\<rparr>)"

text \<open>\<open>None\<close> when the test is not found, otherwise the fields of the running one.\<close>

definition mock_wan_test_status :: "string \<Rightarrow> mock_wan \<Rightarrow> (string \<times> bool) list option" where
  "mock_wan_test_status test_id s =
     (if test_id \<in> mw_test_ids s then Some [(''ipv4'', True), (''ipv6'', False)] else None)"

lemma mock_wan_read_back:
  assumes "mock_wan_update r s = (Ret True, s')"
  shows "\<exists>reply. fst (mock_wan_settings nets s') = reply \<and> my_wan reply = shown_wan4 (wr_wan r) \<and>
    my_wan6 reply = wr_wan6 r \<and> my_custom_mac reply = wr_custom_mac r \<and>
    my_mac_address reply = kept (wr_custom_mac r) hardware_mac \<and>
    (case wr_vlan r of Some v \<Rightarrow> my_vlan reply = (v \<noteq> None, v)
     | None \<Rightarrow> my_vlan reply = (mw_vlan_enabled s, mw_vlan_id s))"
  using assms
  by (cases "wr_qos r"; cases "wr_vlan r")
    (auto simp: mock_wan_update_def mock_wan_settings_def bindP_def prog_basic change_def inspect_def mock_vlan_def
      mock_wan_qos_def mock_wan_cleanup_def Let_def split: option.splits if_splits)

text \<open>Disabling a VLAN that is not enabled raises after the rest was stored.\<close>

lemma mock_wan_vlan_raises:
  assumes "wr_vlan r = Some None" "mw_vlan_id s = None"
  shows "fst (mock_wan_update r s) = Raise (KeyError ''vlan_id'') \<and> mw_wan (snd (mock_wan_update r s)) = wr_wan r"
  using assms
  by (cases "wr_qos r") (simp_all add: mock_wan_update_def bindP_def prog_basic change_def inspect_def mock_vlan_def
      mock_wan_qos_def mock_wan_cleanup_def)

section \<open>Wifi\<close>

record mock_radio =
  md_id :: int
  md_enabled :: bool
  md_ssid :: string
  md_hidden :: bool
  md_channel :: int
  md_htmode :: string
  md_hwmode :: string
  md_encryption :: string
  md_ieee80211w_disabled :: "bool option"
  md_password :: string
  md_guest_enabled :: bool
  md_guest :: guest_wifi_request
  md_bands :: "wifi_band list"

record mock_wifi =
  mi_devices :: "mock_radio list"
  mi_scan_ids :: "string set"

text \<open>The channel numbers of a band; the frequencies are equidistant.\<close>

definition mock_channels :: "int \<Rightarrow> int list \<Rightarrow> wifi_channel list" where
  "mock_channels base = map (\<lambda>n. \<lparr>ch_number = JNum n, ch_frequency = JNum (base + 5 * n)\<rparr>)"

definition mock_band_11g :: "string list \<Rightarrow> wifi_band" where
  "mock_band_11g htmodes = \<lparr>wb_hwmode = ''11g'',
     wb_channels = mock_channels 2407 [1, 2, 3, 4, 5, 6, 7, 8, 9, 10, 11, 12, 13], wb_htmodes = htmodes\<rparr>"

definition mock_band_11a :: "string list \<Rightarrow> wifi_band" where
  "mock_band_11a htmodes = \<lparr>wb_hwmode = ''11a'',
     wb_channels = mock_channels 5000
       [36, 40, 44, 48, 52, 56, 60, 64, 68, 72, 76, 80, 84, 88, 92, 96, 100, 104, 108, 112, 116, 120, 124, 128,
        132, 136, 140, 144, 149, 153, 157, 161, 165, 169, 173, 177, 181], wb_htmodes = htmodes\<rparr>"

definition default_radio :: "int \<Rightarrow> int \<Rightarrow> string \<Rightarrow> string \<Rightarrow> wifi_band list \<Rightarrow> mock_radio" where
  "default_radio i channel htmode hwmode bands =
     \<lparr>md_id = i, md_enabled = False, md_ssid = ''Turris'', md_hidden = False, md_channel = channel,
      md_htmode = htmode, md_hwmode = hwmode, md_encryption = ''WPA2/3'', md_ieee80211w_disabled = Some False,
      md_password = [], md_guest_enabled = False,
      md_guest = \<lparr>gr_ssid = ''Turris-guest'', gr_password = [], gr_encryption = Some ''WPA2/3''\<rparr>,
      md_bands = bands\<rparr>"

definition default_radios :: "mock_radio list" where
  "default_radios =
     [default_radio 0 36 ''HE80'' ''11a''
        [mock_band_11g [''NOHT'', ''HT20'', ''HT40'', ''HE20'', ''HE40'', ''HE80'', ''HE160''],
         mock_band_11a [''NOHT'', ''HT20'', ''HT40'', ''VHT20'', ''VHT40'', ''VHT80'', ''VHT160'',
           ''HE20'', ''HE40'', ''HE80'', ''HE160'']],
      default_radio 1 1 ''HT20'' ''11g'' [mock_band_11g [''NOHT'', ''HT20'', ''HT40'']]]"

definition mock_wifi_start :: mock_wifi where
  "mock_wifi_start = \<lparr>mi_devices = default_radios, mi_scan_ids = {}\<rparr>"

text \<open>The values stored before the encryption is checked, and the rest.\<close>

definition mock_radio_values :: "wifi_request \<Rightarrow> mock_radio \<Rightarrow> mock_radio" where
  "mock_radio_values q d =
     d\<lparr>md_ssid := wr_ssid q, md_hidden := wr_hidden q, md_channel := wr_channel q, md_htmode := wr_htmode q,
       md_hwmode := wr_hwmode q, md_encryption := kept (wr_encryption q) ''WPA2/3''\<rparr>"

definition mock_radio_security :: "wifi_request \<Rightarrow> bool option \<Rightarrow> mock_radio \<Rightarrow> mock_radio" where
  "mock_radio_security q ieee d =
     (let d1 = d\<lparr>md_ieee80211w_disabled := ieee, md_password := wr_password q\<rparr> in
      case wr_guest q of
        Some g \<Rightarrow> d1\<lparr>md_guest_enabled := True, md_guest := g\<rparr>
      | None \<Rightarrow> d1\<lparr>md_guest_enabled := False\<rparr>)"

text \<open>One radio; the values of a refused request are partly stored.\<close>

definition mock_update_radio :: "wifi_change \<Rightarrow> mock_radio \<Rightarrow> bool \<times> mock_radio" where
  "mock_update_radio ch dev = (case ch of
      WifiOff \<Rightarrow> (True, dev\<lparr>md_enabled := False\<rparr>)
    | WifiOn q \<Rightarrow>
        let d = dev\<lparr>md_enabled := True\<rparr> in
        (case filter (\<lambda>b. wb_hwmode b = wr_hwmode q) (md_bands d) of
           [band] \<Rightarrow>
             if JNum (wr_channel q) \<notin> ch_number ` set (wb_channels band) \<and> wr_channel q \<noteq> 0 then (False, d)
             else if wr_htmode q \<notin> set (wb_htmodes band) then (False, d)
             else let d1 = mock_radio_values q d in
               if wr_encryption q \<in> {Some ''WPA2/3'', Some ''WPA3''} then
                 (True, mock_radio_security q (wr_ieee80211w_disabled q) d1)
               else if wr_encryption q = Some ''WPA2'' then (True, mock_radio_security q (Some False) d1)
               else (False, d1)
         | _ \<Rightarrow> (False, d)))"

fun last_radio :: "int \<Rightarrow> nat \<Rightarrow> mock_radio list \<Rightarrow> nat option \<Rightarrow> nat option" where
  "last_radio k i [] found = found"
| "last_radio k i (d # ds) found = last_radio k (Suc i) ds (if md_id d = k then Some i else found)"

definition mock_update_device :: "int \<times> wifi_change \<Rightarrow> mock_radio list \<Rightarrow> bool \<times> mock_radio list" where
  "mock_update_device r devices = (case last_radio (fst r) 0 devices None of
      None \<Rightarrow> (False, devices)
    | Some i \<Rightarrow> let (ok, d) = mock_update_radio (snd r) (devices ! i) in (ok, devices[i := d]))"

fun mock_update_devices :: "(int \<times> wifi_change) list \<Rightarrow> mock_radio list \<Rightarrow> bool \<times> mock_radio list" where
  "mock_update_devices [] devices = (True, devices)"
| "mock_update_devices (r # rs) devices =
     (case mock_update_device r devices of
        (False, devices') \<Rightarrow> (False, devices')
      | (True, devices') \<Rightarrow> mock_update_devices rs devices')"

text \<open>A refused request puts back the devices as they were.\<close>

definition mock_wifi_update :: "(int \<times> wifi_change) list \<Rightarrow> mock_wifi \<Rightarrow> bool \<times> mock_wifi" where
  "mock_wifi_update rs s = (case mock_update_devices rs (mi_devices s) of
      (True, devices) \<Rightarrow> (True, s\<lparr>mi_devices := devices\<rparr>)
    | (False, _) \<Rightarrow> (False, s))"

definition mock_wifi_reset :: "mock_wifi \<Rightarrow> bool \<times> mock_wifi" where
  "mock_wifi_reset s = (True, s\<lparr>mi_devices := default_radios\<rparr>)"

definition mock_scan_trigger :: "string \<Rightarrow> mock_wifi \<Rightarrow> string \<times> mock_wifi" where
  "mock_scan_trigger new_scan_id s = (new_scan_id, s\<lparr>mi_scan_ids := insert new_scan_id (mi_scan_ids s)\<rparr>)"

definition mock_network :: "string \<Rightarrow> string \<Rightarrow> int \<Rightarrow> int \<Rightarrow> int \<Rightarrow> json" where
  "mock_network ssid bssid channel signal quality =
     JObj [(''ssid'', JStr ssid), (''bssid'', JStr bssid), (''mode'', JStr ''Master''), (''channel'', JNum channel),
       (''signal'', JNum signal), (''quality'', JNum quality), (''quality_max'', JNum 70),
       (''encryption'', JObj [(''enabled'', JBool True), (''wpa'', JArr [JNum 2]),
         (''authentication'', JArr [JStr ''psk'']), (''ciphers'', JArr [JStr ''tkip'', JStr ''ccmp''])])]"

definition mock_scan_results :: json where
  "mock_scan_results = JObj [(''results'', JArr
     [mock_network ''Turris'' ''20:89:84:32:3A:6D'' 11 (- 55) 55,
      mock_network ''Turris5G'' ''BE:30:7D:31:7F:A3'' 36 (- 66) 44])]"

definition mock_scan_status :: "string \<Rightarrow> mock_wifi \<Rightarrow> json option" where
  "mock_scan_status scan_id s = (if scan_id \<in> mi_scan_ids s then Some mock_scan_results else None)"

section \<open>Radios are only set to what they support\<close>

definition radio_supported :: "mock_radio \<Rightarrow> bool" where
  "radio_supported d = list_ex (\<lambda>b. wb_hwmode b = md_hwmode d \<and> md_htmode d \<in> set (wb_htmodes b) \<and>
     (md_channel d = 0 \<or> JNum (md_channel d) \<in> ch_number ` set (wb_channels b))) (md_bands d)"

lemma filter_singleton:
  assumes "filter P xs = [x]"
  shows "x \<in> set xs \<and> P x"
  using arg_cong [OF assms, of set] by auto

lemma mock_update_radio_supported:
  assumes "mock_update_radio ch d = (True, d')" "radio_supported d"
  shows "radio_supported d'"
proof (cases ch)
  case WifiOff
  with assms show ?thesis by (auto simp: mock_update_radio_def radio_supported_def)
next
  case (WifiOn q)
  with assms(1) obtain b where b: "filter (\<lambda>b. wb_hwmode b = wr_hwmode q) (md_bands d) = [b]"
    by (auto simp: mock_update_radio_def Let_def split: list.splits if_splits)
  from assms(1) WifiOn b have d': "wr_htmode q \<in> set (wb_htmodes b)"
    "wr_channel q = 0 \<or> JNum (wr_channel q) \<in> ch_number ` set (wb_channels b)"
    "\<exists>ieee. d' = mock_radio_security q ieee (mock_radio_values q (d\<lparr>md_enabled := True\<rparr>))"
    by (auto simp: mock_update_radio_def Let_def split: if_splits)
  then show ?thesis
    using filter_singleton [OF b]
    by (cases "wr_guest q")
      (auto simp: radio_supported_def mock_radio_security_def mock_radio_values_def list_ex_iff)
qed

lemma last_radio_Some:
  assumes "last_radio k i ds found = Some j"
  shows "found = Some j \<or> (i \<le> j \<and> j < i + length ds)"
  using assms by (induction ds arbitrary: i found) (fastforce split: if_splits)+

lemma mock_update_devices_supported:
  assumes "mock_update_devices rs ds = (True, ds')" "list_all radio_supported ds"
  shows "list_all radio_supported ds'"
  using assms
proof (induction rs arbitrary: ds)
  case (Cons r rs)
  from Cons.prems(1) obtain ds1 where ds1: "mock_update_device r ds = (True, ds1)" "mock_update_devices rs ds1 = (True, ds')"
    by (auto split: prod.splits bool.splits)
  from ds1(1) obtain i d where i: "last_radio (fst r) 0 ds None = Some i" "ds1 = ds[i := d]"
    "mock_update_radio (snd r) (ds ! i) = (True, d)"
    by (auto simp: mock_update_device_def split: option.splits prod.splits)
  from last_radio_Some [OF i(1)] Cons.prems(2) have "radio_supported (ds ! i)" by (simp add: list_all_length)
  from mock_update_radio_supported [OF i(3) this] Cons.prems(2) i(2) have "list_all radio_supported ds1"
    by (auto simp: list_all_iff dest: set_update_subset_insert [THEN subsetD])
  with Cons.IH ds1(2) show ?case by blast
qed simp

inductive mock_wifi_reachable :: "mock_wifi \<Rightarrow> bool" where
  WifiStart: "mock_wifi_reachable mock_wifi_start"
| WifiUpdate: "mock_wifi_reachable s \<Longrightarrow> mock_wifi_reachable (snd (mock_wifi_update rs s))"
| WifiReset: "mock_wifi_reachable s \<Longrightarrow> mock_wifi_reachable (snd (mock_wifi_reset s))"
| WifiScan: "mock_wifi_reachable s \<Longrightarrow> mock_wifi_reachable (snd (mock_scan_trigger i s))"

lemma default_radios_supported: "list_all radio_supported default_radios"
  by (simp add: default_radios_def default_radio_def radio_supported_def mock_band_11g_def mock_band_11a_def
      mock_channels_def)

lemma mock_wifi_supported: "mock_wifi_reachable s \<Longrightarrow> list_all radio_supported (mi_devices s)"
proof (induction rule: mock_wifi_reachable.induct)
  case (WifiUpdate s rs)
  then show ?case
    by (auto simp: mock_wifi_update_def mock_update_devices_supported split: prod.splits bool.splits)
qed (auto simp: mock_wifi_start_def mock_wifi_reset_def mock_scan_trigger_def default_radios_supported)

text \<open>Unlike the handler of the device, the mock refuses a request that leaves the encryption out.\<close>

lemma mock_wifi_needs_encryption:
  assumes "wr_encryption q = None"
  shows "\<not> fst (mock_wifi_update ((k, WifiOn q) # rs) s)"
  using assms
  by (auto simp: mock_wifi_update_def mock_update_device_def mock_update_radio_def Let_def
      split: option.splits list.splits prod.splits bool.splits if_splits)

end
