(* ===== verification/MockServices.thy ===== *)
theory MockServices
  imports MockUplink Passwords Dns Clock Remote
begin

text \<open>
  The mocked handlers of the dns, time, remote and password modules,
  \<^verbatim>\<open>foris_controller_modules/*/handlers/mock.py\<close>. Each keeps its settings in memory. The current
  time and the printing of a date are arguments.
\<close>

section \<open>DNS\<close>

record mock_dns =
  mdns_forwarding :: bool
  mdns_forwarder :: string
  mdns_available :: "stored_forwarder list"
  mdns_dnssec :: bool
  mdns_from_dhcp :: bool
  mdns_domain :: "string option"
  mdns_guide_set :: bool

definition fixed_forwarder ::
  "string \<Rightarrow> string \<Rightarrow> string list \<Rightarrow> string list \<Rightarrow> string \<Rightarrow> string \<Rightarrow> string \<Rightarrow> stored_forwarder" where
  "fixed_forwarder name description ipv4 ipv6 tls_type tls_hostname tls_pin =
     \<lparr>sf_name = name, sf_editable = False, sf_data =
        \<lparr>fw_description = description, fw_ipv4 = ipv4, fw_ipv6 = ipv6, fw_tls_type = tls_type,
         fw_tls_hostname = tls_hostname, fw_tls_pin = tls_pin\<rparr>\<rparr>"

definition mock_forwarders :: "stored_forwarder list" where
  "mock_forwarders =
     [fixed_forwarder ''99_google'' ''Google'' [''8.8.8.8'', ''1.1.1.1'']
        [''2001:4860:4860::8888'', ''2001:148f:fffe::1''] ''no'' [] [],
      fixed_forwarder ''99_cloudflare'' ''Cloudflare (TLS)'' [''1.1.1.1''] [] ''pin'' []
        ''yioEpqeR4WtDwE9YxNVnCEkTxIjx6EEIwFSQW+lJsbc='',
      fixed_forwarder ''99_quad9'' ''Quad9 (TLS)'' [] [''2620:fe::10''] ''hostname'' ''dns.quad9.net'' []]"

definition mock_dns_start :: mock_dns where
  "mock_dns_start = \<lparr>mdns_forwarding = True, mdns_forwarder = [], mdns_available = mock_forwarders,
     mdns_dnssec = True, mdns_from_dhcp = False, mdns_domain = None, mdns_guide_set = False\<rparr>"

definition converted_forwarders :: "mock_dns \<Rightarrow> (string \<times> string \<times> bool) list" where
  "converted_forwarders s = ([], [], False) #
     map (\<lambda>e. (sf_name e, fw_description (sf_data e), sf_editable e)) (mdns_available s)"

definition mock_dns_settings :: "mock_dns \<Rightarrow> dns_settings \<times> (string \<times> string \<times> bool) list" where
  "mock_dns_settings s =
     (\<lparr>ds_forwarding = mdns_forwarding s, ds_forwarder = Str (mdns_forwarder s), ds_dnssec = mdns_dnssec s,
       ds_from_dhcp = mdns_from_dhcp s, ds_domain = filled (mdns_domain s)\<rparr>, converted_forwarders s)"

definition mock_dns_values :: "dns_request \<Rightarrow> mock_dns \<Rightarrow> mock_dns" where
  "mock_dns_values q s =
     s\<lparr>mdns_forwarding := dq_forwarding q, mdns_dnssec := dq_dnssec q, mdns_from_dhcp := dq_from_dhcp q,
       mdns_domain := (case dq_domain q of Some d \<Rightarrow> Some d | None \<Rightarrow> mdns_domain s), mdns_guide_set := True\<rparr>"

definition mock_dns_update :: "dns_request \<Rightarrow> mock_dns \<Rightarrow> bool \<times> mock_dns" where
  "mock_dns_update q s =
     (if dq_forwarding q then (case dq_forwarder q of
          Some f \<Rightarrow> if f \<in> fst ` set (converted_forwarders s) then (True, mock_dns_values q (s\<lparr>mdns_forwarder := f\<rparr>))
            else (False, s)
        | None \<Rightarrow> (False, s))
      else (True, mock_dns_values q s))"

text \<open>Every added forwarder gets the same name.\<close>

definition mock_add_forwarder :: "forwarder \<Rightarrow> mock_dns \<Rightarrow> bool \<times> mock_dns" where
  "mock_add_forwarder f s = (True, s\<lparr>mdns_available := mdns_available s @
     [\<lparr>sf_name = ''myforward_6842e9378ffb5c6be0b97309a48f6bc4'', sf_editable = True, sf_data = f\<rparr>]\<rparr>)"

text \<open>The first editable forwarder of that name is changed.\<close>

fun change_forwarder :: "string \<Rightarrow> forwarder \<Rightarrow> stored_forwarder list \<Rightarrow> stored_forwarder list option" where
  "change_forwarder name f [] = None"
| "change_forwarder name f (e # es) =
     (if sf_name e = name \<and> sf_editable e then Some (e\<lparr>sf_data := f, sf_editable := True\<rparr> # es)
      else (case change_forwarder name f es of None \<Rightarrow> None | Some es' \<Rightarrow> Some (e # es')))"

text \<open>The first forwarder of that name is deleted, unless it is a fixed one.\<close>

fun delete_forwarder :: "string \<Rightarrow> stored_forwarder list \<Rightarrow> stored_forwarder list option" where
  "delete_forwarder name [] = None"
| "delete_forwarder name (e # es) =
     (if sf_name e = name then (if sf_editable e then Some es else None)
      else (case delete_forwarder name es of None \<Rightarrow> None | Some es' \<Rightarrow> Some (e # es')))"

definition mock_set_forwarder :: "string \<Rightarrow> forwarder \<Rightarrow> mock_dns \<Rightarrow> bool \<times> mock_dns" where
  "mock_set_forwarder name f s = (case change_forwarder name f (mdns_available s) of
      None \<Rightarrow> (False, s) | Some es \<Rightarrow> (True, s\<lparr>mdns_available := es\<rparr>))"

definition mock_del_forwarder :: "string \<Rightarrow> mock_dns \<Rightarrow> bool \<times> mock_dns" where
  "mock_del_forwarder name s = (case delete_forwarder name (mdns_available s) of
      None \<Rightarrow> (False, s) | Some es \<Rightarrow> (True, s\<lparr>mdns_available := es\<rparr>))"

text \<open>The fixed forwarders are never touched.\<close>

definition fixed_of :: "stored_forwarder list \<Rightarrow> stored_forwarder list" where
  "fixed_of es = filter (\<lambda>e. \<not> sf_editable e) es"

lemma change_forwarder_fixed: "change_forwarder name f es = Some es' \<Longrightarrow> fixed_of es' = fixed_of es"
  by (induction es arbitrary: es') (auto simp: fixed_of_def split: if_splits option.splits)

lemma delete_forwarder_fixed: "delete_forwarder name es = Some es' \<Longrightarrow> fixed_of es' = fixed_of es"
  by (induction es arbitrary: es') (auto simp: fixed_of_def split: if_splits option.splits)

lemma mock_dns_keeps_fixed:
  "fixed_of (mdns_available (snd (mock_add_forwarder f s))) = fixed_of (mdns_available s)"
  "fixed_of (mdns_available (snd (mock_set_forwarder name f s))) = fixed_of (mdns_available s)"
  "fixed_of (mdns_available (snd (mock_del_forwarder name s))) = fixed_of (mdns_available s)"
    apply (simp add: mock_add_forwarder_def fixed_of_def)
   apply (simp add: mock_set_forwarder_def change_forwarder_fixed split: option.split)
  apply (simp add: mock_del_forwarder_def delete_forwarder_fixed split: option.split)
  done

section \<open>Time\<close>

record mock_time =
  mt_region :: string
  mt_country :: string
  mt_city :: string
  mt_timezone :: string
  mt_how :: string
  mt_time :: string
  mt_ntpdate_ids :: "string set"
  mt_extras :: "string list"
  mt_guide_set :: bool

definition mock_ntp_servers :: "string list" where
  "mock_ntp_servers =
     [''217.31.202.100'', ''195.113.144.201'', ''195.113.144.238'', ''2001:1488:ffff::100'', ''ntp.nic.cz'',
      ''0.openwrt.pool.ntp.org'', ''1.openwrt.pool.ntp.org'', ''2.openwrt.pool.ntp.org'', ''3.openwrt.pool.ntp.org'']"

definition mock_time_start :: "string \<Rightarrow> mock_time" where
  "mock_time_start now = \<lparr>mt_region = ''Europe'', mt_country = ''00'', mt_city = ''Prague'', mt_timezone = ''UTC'',
     mt_how = ''ntp'', mt_time = now, mt_ntpdate_ids = {}, mt_extras = [], mt_guide_set = False\<rparr>"

definition mock_time_settings :: "mock_time \<Rightarrow> (string \<times> string) list \<times> string \<times> string list \<times> string list" where
  "mock_time_settings s =
     ([(''region'', mt_region s), (''country'', mt_country s), (''city'', mt_city s), (''timezone'', mt_timezone s)],
      mt_how s, mock_ntp_servers, mt_extras s)"

record mock_time_request =
  tq_region :: string
  tq_country :: string
  tq_city :: string
  tq_how :: string
  tq_extras :: "string list option"
  tq_time :: "string option"

definition mock_time_update :: "(string \<Rightarrow> string option) \<Rightarrow> mock_time_request \<Rightarrow> mock_time \<Rightarrow> bool \<times> mock_time" where
  "mock_time_update tz_gnu q s =
     (True, s\<lparr>mt_region := tq_region q, mt_country := tq_country q, mt_city := tq_city q,
        mt_timezone := (case tz_gnu (tq_region q @ ''/'' @ underscored (tq_city q)) of Some z \<Rightarrow> z | None \<Rightarrow> ''UTC''),
        mt_how := tq_how q, mt_extras := (case tq_extras q of Some xs \<Rightarrow> xs | None \<Rightarrow> []),
        mt_time := kept (tq_time q) (mt_time s), mt_guide_set := True\<rparr>)"

definition mock_ntpdate_trigger :: "string \<Rightarrow> mock_time \<Rightarrow> string \<times> mock_time" where
  "mock_ntpdate_trigger new_id s = (new_id, s\<lparr>mt_ntpdate_ids := insert new_id (mt_ntpdate_ids s)\<rparr>)"

section \<open>Remote access\<close>

text \<open>\<^verbatim>\<open>"%02X"\<close>.\<close>

definition upper_hex_digit :: "nat \<Rightarrow> char" where
  "upper_hex_digit d = char_of (if d < 10 then 48 + d else 55 + d)"

fun upper_hex :: "nat \<Rightarrow> string" where
  "upper_hex n = (if n < 16 then [upper_hex_digit n] else upper_hex (n div 16) @ [upper_hex_digit (n mod 16)])"

declare upper_hex.simps [simp del]

definition hex02 :: "nat \<Rightarrow> string" where
  "hex02 n = (if n < 16 then CHR ''0'' # upper_hex n else upper_hex n)"

record mock_remote =
  mr_ca_generated :: bool
  mr_tokens :: "token list"
  mr_current_id :: nat
  mr_enabled :: bool
  mr_wan_access :: bool
  mr_port :: int

definition mock_remote_start :: mock_remote where
  "mock_remote_start = \<lparr>mr_ca_generated = False, mr_tokens = [], mr_current_id = 2, mr_enabled = False,
     mr_wan_access = False, mr_port = 11884\<rparr>"

definition mock_generate_ca :: "mock_remote \<Rightarrow> mock_remote" where
  "mock_generate_ca s = s\<lparr>mr_ca_generated := True\<rparr>"

definition mock_remote_status :: "mock_remote \<Rightarrow> string \<times> token list" where
  "mock_remote_status s = (if mr_ca_generated s then ''ready'' else ''missing'', mr_tokens s)"

definition mock_generate_token :: "string \<Rightarrow> mock_remote \<Rightarrow> mock_remote" where
  "mock_generate_token name s =
     s\<lparr>mr_tokens := mr_tokens s @ [\<lparr>tk_id = hex02 (mr_current_id s), tk_name = name, tk_status = ''valid''\<rparr>],
       mr_current_id := mr_current_id s + 1\<rparr>"

fun revoke_token :: "string \<Rightarrow> token list \<Rightarrow> token list option" where
  "revoke_token i [] = None"
| "revoke_token i (t # ts) = (if tk_id t = i then Some (t\<lparr>tk_status := ''revoked''\<rparr> # ts)
     else (case revoke_token i ts of None \<Rightarrow> None | Some ts' \<Rightarrow> Some (t # ts')))"

definition mock_revoke :: "string \<Rightarrow> mock_remote \<Rightarrow> bool \<times> mock_remote" where
  "mock_revoke cert_id s = (case revoke_token cert_id (mr_tokens s) of
      None \<Rightarrow> (False, s) | Some ts \<Rightarrow> (True, s\<lparr>mr_tokens := ts\<rparr>))"

definition mock_delete_ca :: "mock_remote \<Rightarrow> mock_remote" where
  "mock_delete_ca s = s\<lparr>mr_ca_generated := False, mr_tokens := [], mr_current_id := 2\<rparr>"

definition mock_remote_update :: "string \<Rightarrow> remote_request \<Rightarrow> mock_remote \<Rightarrow> bool \<times> mock_remote" where
  "mock_remote_update bus req s =
     (if bus \<noteq> ''mqtt'' then (False, s\<lparr>mr_enabled := False\<rparr>)
      else (True, case req of
          RemoteOff \<Rightarrow> s\<lparr>mr_enabled := False\<rparr>
        | RemoteOn wan_access port \<Rightarrow> s\<lparr>mr_enabled := True, mr_wan_access := wan_access, mr_port := port\<rparr>))"

text \<open>The status of a token; the contents of a valid one is a constant.\<close>

definition mock_get_token :: "string \<Rightarrow> mock_remote \<Rightarrow> string" where
  "mock_get_token i s = (case filter (\<lambda>e. tk_id e = i) (mr_tokens s) of
      [] \<Rightarrow> ''not_found''
    | t # _ \<Rightarrow> if tk_status t = ''revoked'' then ''revoked'' else ''valid'')"

lemma revoke_token_Some:
  assumes "revoke_token i ts = Some ts'"
  shows "\<exists>t us. filter (\<lambda>e. tk_id e = i) ts' = t # us \<and> tk_status t = ''revoked''"
  using assms by (induction ts arbitrary: ts') (auto split: if_splits option.splits)

lemma mock_revoked_token:
  "mock_revoke i s = (True, s') \<Longrightarrow> mock_get_token i s' = ''revoked''"
  using revoke_token_Some by (fastforce simp: mock_revoke_def mock_get_token_def split: option.splits)

section \<open>Passwords\<close>

record mock_password =
  mp_system :: "string option"
  mp_foris :: "string option"
  mp_guide_set :: bool

definition filter_passwords :: "(string \<times> string \<times> int) list" where
  "filter_passwords = [(''password_from_haas'', ''haas'', 101), (''password_from_other'', ''other'', 666)]"

definition mock_check_password :: "string \<Rightarrow> mock_password \<Rightarrow> string" where
  "mock_check_password password s = (case mp_foris s of
      None \<Rightarrow> ''unset'' | Some p \<Rightarrow> if p = password then ''good'' else ''bad'')"

definition mock_set_foris_password :: "string \<Rightarrow> mock_password \<Rightarrow> password_result \<times> mock_password" where
  "mock_set_foris_password password s = (case map_of filter_passwords password of
      Some (list_name, hits) \<Rightarrow> (Pawned list_name hits, s)
    | None \<Rightarrow> (PasswordSet, s\<lparr>mp_foris := Some password, mp_guide_set := True\<rparr>))"

text \<open>The system password is stored even when it is refused.\<close>

definition mock_set_system_password :: "string \<Rightarrow> mock_password \<Rightarrow> password_result \<times> mock_password" where
  "mock_set_system_password password s0 = (let s = s0\<lparr>mp_system := Some password\<rparr> in
     case map_of filter_passwords password of
       Some (list_name, hits) \<Rightarrow> (Pawned list_name hits, s)
     | None \<Rightarrow> (PasswordSet, s))"

lemma mock_password_checked:
  "mock_set_foris_password p s = (PasswordSet, s') \<Longrightarrow>
     mock_check_password q s' = (if p = q then ''good'' else ''bad'')"
  by (auto simp: mock_set_foris_password_def mock_check_password_def split: option.splits)

lemma mock_refused_system_password_stored:
  "mp_system (snd (mock_set_system_password p s)) = Some p"
  by (simp add: mock_set_system_password_def Let_def split: option.splits)

end
