(* ===== verification/MockWeb.thy ===== *)
theory MockWeb
  imports MockServices
begin

text \<open>
  The mocked handlers of the router_notifications, updater, system and web modules,
  \<^verbatim>\<open>foris_controller_modules/*/handlers/mock.py\<close>. The guide of the web handler reads and
  resets the flags of the other handlers, so its state is that of all of them.
\<close>

section \<open>Notifications\<close>

record mock_notice =
  no_displayed :: bool
  no_id :: string
  no_severity :: string
  no_messages :: "(string \<times> string) list"

record mock_notices =
  nn_counter :: nat
  nn_notices :: "mock_notice list"
  nn_reboots :: json
  nn_emails :: json

definition first_notice :: "string \<Rightarrow> string \<Rightarrow> string \<Rightarrow> mock_notice" where
  "first_notice i severity body =
     \<lparr>no_displayed = False, no_id = i, no_severity = severity,
      no_messages = [(''cs'', body @ '' CS''), (''en'', body @ '' EN''), (''nb_NO'', body @ '' nb_NO'')]\<rparr>"

definition mock_emails :: json where
  "mock_emails = JObj [(''enabled'', JBool False),
     (''common'', JObj [(''to'', JArr []), (''severity_filter'', JNum 1), (''send_news'', JBool True)]),
     (''smtp_type'', JStr ''turris''), (''smtp_turris'', JObj [(''sender_name'', JStr ''turris'')]),
     (''smtp_custom'', JObj [(''from'', JStr []), (''host'', JStr []), (''port'', JNum 25),
        (''security'', JStr ''none''), (''username'', JStr []), (''password'', JStr [])])]"

definition mock_notices_start :: mock_notices where
  "mock_notices_start =
     \<lparr>nn_counter = 0, nn_notices =
        [first_notice ''1518776436-2593'' ''restart'' ''REBOOT1'', first_notice ''1518776436-2598'' ''restart'' ''REBOOT2'',
         first_notice ''1518776436-2603'' ''news'' ''NEWS1'', first_notice ''1518776436-2608'' ''news'' ''NEWS2'',
         first_notice ''1518776436-2613'' ''error'' ''ERROR1'', first_notice ''1518776436-2618'' ''error'' ''ERROR2'',
         first_notice ''1518776436-2623'' ''update'' ''UPDATE1'', first_notice ''1518776436-2628'' ''update'' ''UPDATE2''],
      nn_reboots = JObj [(''time'', JStr ''03:00''), (''delay'', JNum 3)], nn_emails = mock_emails\<rparr>"

text \<open>The message in the language asked for, otherwise in English; an empty one counts as missing.\<close>

definition localized :: "string \<Rightarrow> (string \<times> string) list \<Rightarrow> (string \<times> string) res" where
  "localized lang messages = (case filled (map_of messages lang) of
      Some m \<Rightarrow> Inr (m, lang)
    | None \<Rightarrow> (case filled (map_of messages ''en'') of
          Some m \<Rightarrow> Inr (m, ''en'') | None \<Rightarrow> Inl (KeyError lang)))"

record shown_notice =
  so_id :: string
  so_displayed :: bool
  so_severity :: string
  so_created_at :: string
  so_msg :: string
  so_lang :: string

definition show_notice :: "(int \<Rightarrow> string) \<Rightarrow> string \<Rightarrow> mock_notice \<Rightarrow> shown_notice res" where
  "show_notice isoformat lang e =
     bindE (int_of (hd (split_on CHR ''-'' (no_id e)))) (\<lambda>t.
     bindE (localized lang (no_messages e)) (\<lambda>(msg, used).
       Inr \<lparr>so_id = no_id e, so_displayed = no_displayed e, so_severity = no_severity e,
         so_created_at = isoformat t, so_msg = msg, so_lang = used\<rparr>))"

definition mock_list_notices :: "(int \<Rightarrow> string) \<Rightarrow> string \<Rightarrow> mock_notices \<Rightarrow> shown_notice list res" where
  "mock_list_notices isoformat lang s = mapE (show_notice isoformat lang) (nn_notices s)"

definition mock_mark_displayed :: "string list \<Rightarrow> mock_notices \<Rightarrow> mock_notices" where
  "mock_mark_displayed ids s = s\<lparr>nn_notices :=
     map (\<lambda>e. if no_id e \<in> set ids then e\<lparr>no_displayed := True\<rparr> else e) (nn_notices s)\<rparr>"

definition is_dict :: "json \<Rightarrow> bool" where
  "is_dict v = (case v of JObj _ \<Rightarrow> True | _ \<Rightarrow> False)"

text \<open>\<^verbatim>\<open>update_dict\<close>: nested dicts are merged; a dict under a key that is not there is lost.\<close>

function update_dict :: "(string \<times> json) list \<Rightarrow> (string \<times> json) list \<Rightarrow> (string \<times> json) list res" where
  "update_dict d [] = Inr d"
| "update_dict d ((k, JObj w) # u) = (case map_of d k of
      None \<Rightarrow> update_dict d u
    | Some (JObj x) \<Rightarrow> bindE (update_dict x w) (\<lambda>x'. update_dict (AList.update k (JObj x') d) u)
    | Some _ \<Rightarrow> (case w of
          [] \<Rightarrow> update_dict d u
        | e # _ \<Rightarrow> Inl (if is_dict (snd e) then AttributeError else TypeError)))"
| "update_dict d ((k, JNull) # u) = update_dict (AList.update k JNull d) u"
| "update_dict d ((k, JBool b) # u) = update_dict (AList.update k (JBool b) d) u"
| "update_dict d ((k, JNum n) # u) = update_dict (AList.update k (JNum n) d) u"
| "update_dict d ((k, JStr t) # u) = update_dict (AList.update k (JStr t) d) u"
| "update_dict d ((k, JArr xs) # u) = update_dict (AList.update k (JArr xs) d) u"
  by pat_completeness auto
termination
  by (relation "measure (\<lambda>(d, u). size_list (size_prod (\<lambda>_. 0) size) u)") auto

definition mock_notices_update :: "json option \<Rightarrow> json option \<Rightarrow> mock_notices \<Rightarrow> (bool \<times> mock_notices) res" where
  "mock_notices_update emails reboots s =
     bindE (case emails of
         Some e \<Rightarrow> if json_truthy e then
             bindE (jpairs e) (\<lambda>u. bindE (jpairs (nn_emails s)) (\<lambda>d.
             bindE (update_dict d u) (\<lambda>d'. Inr (s\<lparr>nn_emails := JObj d'\<rparr>))))
           else Inr s
       | None \<Rightarrow> Inr s) (\<lambda>s1.
     Inr (True, case reboots of
         Some r \<Rightarrow> if json_truthy r then s1\<lparr>nn_reboots := r\<rparr> else s1
       | None \<Rightarrow> s1))"

definition mock_create_notice :: "int \<Rightarrow> string \<Rightarrow> string \<Rightarrow> mock_notices \<Rightarrow> mock_notices" where
  "mock_create_notice now msg severity s =
     (let k = nn_counter s + 1 in
      s\<lparr>nn_counter := k, nn_notices := nn_notices s @
        [\<lparr>no_displayed = False, no_id = show_int now @ ''-'' @ show_nat k, no_severity = severity,
          no_messages = [(''en'', msg), (''cs'', msg)]\<rparr>]\<rparr>)"

text \<open>Keys that the change does not name keep their value.\<close>

lemma update_dict_Cons:
  "update_dict d ((k, v) # u) = Inr d' \<Longrightarrow>
    \<exists>e. update_dict e u = Inr d' \<and> (\<forall>j. j \<noteq> k \<longrightarrow> map_of e j = map_of d j)"
  by (cases v) (auto simp: bindE_eq_Inr update_conv' split: option.splits json.splits list.splits)

lemma update_dict_keeps:
  "update_dict d u = Inr d' \<Longrightarrow> k \<notin> fst ` set u \<Longrightarrow> map_of d' k = map_of d k"
proof (induction u arbitrary: d)
  case (Cons e u)
  then obtain d1 where "update_dict d1 u = Inr d'" "\<forall>j. j \<noteq> fst e \<longrightarrow> map_of d1 j = map_of d j"
    using update_dict_Cons [of d "fst e" "snd e" u d'] by auto
  with Cons show ?case by auto
qed simp

section \<open>Updater\<close>

record label_info =
  lb_title :: string
  lb_description :: string
  lb_severity :: "string option"

record option_info =
  oi_title :: string
  oi_description :: string
  oi_url :: "string option"
  oi_default :: "bool option"
  oi_labels :: "string list option"
  oi_boards :: "string list option"

record list_info =
  li_title :: "(string \<times> string) list"
  li_description :: "(string \<times> string) list"
  li_url :: "string option"
  li_options :: "(string \<times> option_info) list option"
  li_labels :: "string list option"
  li_enabled :: bool

text \<open>A stored user list is enabled; of its options only the flag is ever read.\<close>

record mock_updater =
  mu_lists :: "(string \<times> (string \<times> bool) list) list"
  mu_languages :: "(string \<times> bool) list"
  mu_delay :: "int option"
  mu_status :: string
  mu_enabled :: bool
  mu_running :: bool
  mu_updater_running :: bool
  mu_guide_set :: bool

definition mock_languages :: "(string \<times> bool) list" where
  "mock_languages = [(''cs'', True), (''de'', True), (''da'', False), (''fr'', False), (''lt'', False), (''pl'', False),
     (''ru'', False), (''sk'', False), (''hu'', False), (''it'', False), (''nb_NO'', True)]"

definition mock_updater_start :: mock_updater where
  "mock_updater_start = \<lparr>mu_lists = [], mu_languages = mock_languages, mu_delay = None, mu_status = ''off'',
     mu_enabled = True, mu_running = True, mu_updater_running = False, mu_guide_set = False\<rparr>"

text \<open>Status, delay unless it is zero, and whether the updater is enabled; no user lists.\<close>

definition mock_updater_settings :: "mock_updater \<Rightarrow> string \<times> int option \<times> bool" where
  "mock_updater_settings s =
     (mu_status s, (case mu_delay s of Some d \<Rightarrow> if d = 0 then None else Some d | None \<Rightarrow> None), mu_enabled s)"

definition mock_update_languages :: "string list option \<Rightarrow> mock_updater \<Rightarrow> mock_updater" where
  "mock_update_languages languages s = (case languages of None \<Rightarrow> s
     | Some ls \<Rightarrow> s\<lparr>mu_languages := map (\<lambda>(code, _). (code, code \<in> set ls)) (mu_languages s)\<rparr>)"

definition mock_updater_update ::
  "string list option \<Rightarrow> (string \<times> int option) option \<Rightarrow> bool \<Rightarrow> mock_updater \<Rightarrow> bool \<times> mock_updater" where
  "mock_updater_update languages approvals enabled s0 =
     (let s1 = mock_update_languages languages s0;
          s2 = (case approvals of None \<Rightarrow> s1 | Some (status, delay) \<Rightarrow> s1\<lparr>mu_delay := delay, mu_status := status\<rparr>)
      in (True, s2\<lparr>mu_enabled := enabled, mu_guide_set := True\<rparr>))"

definition options_of :: "list_info \<Rightarrow> (string \<times> option_info) list" where
  "options_of l = (case li_options l of Some os \<Rightarrow> os | None \<Rightarrow> [])"

definition option_enabled :: "mock_updater \<Rightarrow> string \<Rightarrow> string \<Rightarrow> option_info \<Rightarrow> bool" where
  "option_enabled s list_name opt_name data =
     (case map_of (mu_lists s) list_name of
        Some opts \<Rightarrow> (case map_of opts opt_name of Some b \<Rightarrow> b | None \<Rightarrow> oi_default data = Some True)
      | None \<Rightarrow> oi_default data = Some True)"

text \<open>A label: name, title, description and severity.\<close>

definition labels_shown :: "(string \<times> label_info) list \<Rightarrow> string list \<Rightarrow> (string \<times> string \<times> string \<times> string) list" where
  "labels_shown known labels = concat (map (\<lambda>label. case map_of known label of
      None \<Rightarrow> []
    | Some d \<Rightarrow> [(label, lb_title d, lb_description d, kept (lb_severity d) ''primary'')]) labels)"

definition in_language :: "string \<Rightarrow> (string \<times> string) list \<Rightarrow> string res" where
  "in_language lang texts = (case map_of texts ''en'' of
      None \<Rightarrow> Inl (KeyError ''en'')
    | Some en \<Rightarrow> Inr (kept (map_of texts lang) en))"

record shown_package_list =
  sl_name :: string
  sl_enabled :: bool
  sl_description :: string
  sl_title :: string
  sl_options :: "(string \<times> string \<times> string \<times> bool \<times> (string \<times> string \<times> string \<times> string) list) list"
  sl_labels :: "(string \<times> string \<times> string \<times> string) list"
  sl_url :: "string option"

definition list_enabled :: "mock_updater \<Rightarrow> string \<Rightarrow> list_info \<Rightarrow> bool" where
  "list_enabled s name l = (map_of (mu_lists s) name \<noteq> None \<or> li_enabled l)"

definition show_package_list ::
  "(string \<times> label_info) list \<Rightarrow> string \<Rightarrow> mock_updater \<Rightarrow> string \<times> list_info \<Rightarrow> shown_package_list res" where
  "show_package_list known lang s entry = (let (list_name, l) = entry in
     bindE (in_language lang (li_description l)) (\<lambda>description.
     bindE (in_language lang (li_title l)) (\<lambda>title.
       Inr \<lparr>sl_name = list_name, sl_enabled = list_enabled s list_name l,
         sl_description = description, sl_title = title,
         sl_options = map (\<lambda>(opt_name, data). (opt_name, oi_title data, oi_description data,
           option_enabled s list_name opt_name data, labels_shown known (kept (oi_labels data) [])))
           (options_of l),
         sl_labels = labels_shown known (kept (li_labels l) []), sl_url = li_url l\<rparr>)))"

definition mock_package_lists ::
  "(string \<times> label_info) list \<Rightarrow> (string \<times> list_info) list \<Rightarrow> string \<Rightarrow> mock_updater \<Rightarrow> shown_package_list list res" where
  "mock_package_lists known defaults lang s = mapE (show_package_list known lang s) defaults"

text \<open>The options named in a request, as far as the list has them.\<close>

definition chosen_options :: "list_info \<Rightarrow> (string \<times> bool) list \<Rightarrow> (string \<times> bool) list" where
  "chosen_options l os =
     fold (\<lambda>(name, b) m. if name \<in> fst ` set (options_of l) then AList.update name b m else m) os []"

definition store_user_list ::
  "(string \<times> list_info) list \<Rightarrow> string \<times> (string \<times> bool) list option \<Rightarrow> (mock_updater, unit) prog" where
  "store_user_list defaults entry = (let (list_name, os) = entry in
     case map_of defaults list_name of
       None \<Rightarrow> raise (KeyError list_name)
     | Some l \<Rightarrow> change (\<lambda>s. s\<lparr>mu_lists :=
         AList.update list_name (chosen_options l (kept os [])) (mu_lists s)\<rparr>))"

definition mock_update_package_lists ::
  "(string \<times> list_info) list \<Rightarrow> (string \<times> (string \<times> bool) list option) list option \<Rightarrow> (mock_updater, bool) prog" where
  "mock_update_package_lists defaults package_lists = (case package_lists of
      None \<Rightarrow> ret True
    | Some ls \<Rightarrow> bindP (change (\<lambda>s. s\<lparr>mu_lists := []\<rparr>)) (\<lambda>_.
        bindP (forP ls (store_user_list defaults)) (\<lambda>_. ret True)))"

definition mock_query_installed :: "string list \<Rightarrow> string list" where
  "mock_query_installed packages = sorted_texts (remdups
     (filter (\<lambda>p. p \<in> {''foo-alternative'', ''turris-version''} \<or> p \<in> {''foo''}) packages))"

text \<open>Exactly the lists of the request are stored.\<close>

lemma store_user_list_Ret:
  "store_user_list defaults e s = (Ret (), t) \<Longrightarrow>
    \<exists>opts. mu_lists t = AList.update (fst e) opts (mu_lists s)"
  by (auto simp: store_user_list_def prog_basic change_def split: prod.splits option.splits)

lemma store_user_lists:
  "forP ls (store_user_list defaults) s = (Ret (), s') \<Longrightarrow>
    dom (map_of (mu_lists s')) = dom (map_of (mu_lists s)) \<union> fst ` set ls"
proof (induction ls arbitrary: s)
  case (Cons e ls)
  from Cons.prems obtain t where t: "store_user_list defaults e s = (Ret (), t)"
    "forP ls (store_user_list defaults) t = (Ret (), s')" by (auto elim: bindP_RetD)
  from store_user_list_Ret [OF t(1)] have "dom (map_of (mu_lists t)) = insert (fst e) (dom (map_of (mu_lists s)))"
    by (auto simp: update_conv')
  with Cons.IH [OF t(2)] show ?case by auto
qed (simp add: prog_basic)

lemma mock_list_enabled_iff:
  assumes "mock_update_package_lists defaults (Some ls) s = (Ret True, s')"
  shows "list_enabled s' name l \<longleftrightarrow> name \<in> fst ` set ls \<or> li_enabled l"
proof -
  from assms have "forP ls (store_user_list defaults) (s\<lparr>mu_lists := []\<rparr>) = (Ret (), s')"
    by (auto simp: mock_update_package_lists_def bindP_def prog_basic change_def split: prod.splits outcome.splits)
  from store_user_lists [OF this] show ?thesis by (auto simp: list_enabled_def domIff)
qed

section \<open>Web\<close>

record mock_web =
  mb_guide_set :: bool
  mb_finished_set :: bool
  mb_workflow :: string
  mb_guide_enabled :: bool
  mb_language :: string

record mock_state =
  ms_web :: mock_web
  ms_password :: mock_password
  ms_networks :: mock_networks
  ms_wan :: mock_wan
  ms_lan :: mock_lan
  ms_time :: mock_time
  ms_dns :: mock_dns
  ms_updater :: mock_updater
  ms_notices :: mock_notices
  ms_hostname :: string

definition mock_web_start :: mock_web where
  "mock_web_start = \<lparr>mb_guide_set = False, mb_finished_set = False, mb_workflow = ''unset'',
     mb_guide_enabled = True, mb_language = ''en''\<rparr>"

definition mock_start :: "string \<Rightarrow> mock_state" where
  "mock_start now =
     \<lparr>ms_web = mock_web_start, ms_password = \<lparr>mp_system = None, mp_foris = None, mp_guide_set = False\<rparr>,
      ms_networks = mock_networks_start, ms_wan = mock_wan_start, ms_lan = mock_lan_start,
      ms_time = mock_time_start now, ms_dns = mock_dns_start, ms_updater = mock_updater_start,
      ms_notices = mock_notices_start, ms_hostname = ''turris''\<rparr>"

definition mock_language_list :: "string list" where
  "mock_language_list = [''en'', ''de'', ''cs'', ''nb_NO'']"

definition mock_set_language :: "string \<Rightarrow> mock_state \<Rightarrow> bool \<times> mock_state" where
  "mock_set_language language s =
     (if language \<in> set mock_language_list then (True, s\<lparr>ms_web := (ms_web s)\<lparr>mb_language := language\<rparr>\<rparr>)
      else (False, s))"

text \<open>The attribute \<^verbatim>\<open>enabled\<close> that is set beside \<^verbatim>\<open>guide_enabled\<close> is never read.\<close>

definition mock_update_guide :: "bool \<Rightarrow> string option \<Rightarrow> mock_state \<Rightarrow> bool \<times> mock_state" where
  "mock_update_guide enabled workflow s =
     (let w0 = (if enabled then (ms_web s)\<lparr>mb_guide_set := True\<rparr> else (ms_web s)\<lparr>mb_finished_set := True\<rparr>);
          w1 = w0\<lparr>mb_guide_enabled := enabled\<rparr>;
          w2 = (case filled workflow of Some w \<Rightarrow> w1\<lparr>mb_workflow := w\<rparr> | None \<Rightarrow> w1)
      in (True, s\<lparr>ms_web := w2\<rparr>))"

definition mock_passed :: "mock_state \<Rightarrow> string list" where
  "mock_passed s =
     map fst (filter snd
       [(''password'', mp_guide_set (ms_password s)), (''profile'', mb_guide_set (ms_web s)),
        (''networks'', mn_guide_set (ms_networks s)), (''wan'', mw_guide_set (ms_wan s)),
        (''lan'', ml_guide_set (ms_lan s)), (''time'', mt_guide_set (ms_time s)),
        (''dns'', mdns_guide_set (ms_dns s)), (''updater'', mu_guide_set (ms_updater s))]) @
     (if mb_finished_set (ms_web s) then [''finished''] else [])"

text \<open>The guide, and the steps of its workflow.\<close>

definition mock_guide_data :: "mock_state \<Rightarrow> (guide \<times> string list) res" where
  "mock_guide_data s =
     (let w = ms_web s; passed = mock_passed s in
      bindE (workflow_steps (mb_workflow w)) (\<lambda>steps.
      bindE (next_step (Lst passed) (Str (mb_workflow w))) (\<lambda>next.
        Inr (\<lparr>g_enabled = mb_guide_enabled w, g_workflow = Str (mb_workflow w), g_passed = Lst passed,
          g_next_step = (if mb_guide_enabled w then next else None)\<rparr>, steps))))"

record mock_web_data =
  mh_language :: string
  mh_updater_running :: bool
  mh_notification_count :: nat
  mh_guide :: guide
  mh_password_ready :: bool

text \<open>Asking for the data ends the guide, once exactly the steps of its workflow are passed.\<close>

definition mock_get_data :: "(mock_state, mock_web_data) prog" where
  "mock_get_data = inspect (\<lambda>s.
     bindP (lift (mock_guide_data s)) (\<lambda>(guide, steps).
     bindP (whenP (set steps = set (mock_passed s))
         [change (\<lambda>t. t\<lparr>ms_web := (ms_web t)\<lparr>mb_guide_enabled := False\<rparr>\<rparr>)]) (\<lambda>_.
       ret \<lparr>mh_language = mb_language (ms_web s), mh_updater_running = mu_updater_running (ms_updater s),
         mh_notification_count = length (filter (\<lambda>e. \<not> no_displayed e) (nn_notices (ms_notices s))),
         mh_guide = guide, mh_password_ready = mp_guide_set (ms_password s)\<rparr>)))"

definition mock_get_guide :: "mock_state \<Rightarrow> string list \<times> string \<times> string" where
  "mock_get_guide s = (map fst workflows, mb_workflow (ms_web s), ''router'')"

definition mock_reset_guide :: "string \<Rightarrow> mock_state \<Rightarrow> bool \<times> mock_state" where
  "mock_reset_guide new_workflow s =
     (True, s\<lparr>ms_password := (ms_password s)\<lparr>mp_guide_set := False\<rparr>,
        ms_networks := (ms_networks s)\<lparr>mn_guide_set := False\<rparr>, ms_wan := (ms_wan s)\<lparr>mw_guide_set := False\<rparr>,
        ms_time := (ms_time s)\<lparr>mt_guide_set := False\<rparr>, ms_dns := (ms_dns s)\<lparr>mdns_guide_set := False\<rparr>,
        ms_updater := (ms_updater s)\<lparr>mu_guide_set := False\<rparr>, ms_lan := (ms_lan s)\<lparr>ml_guide_set := False\<rparr>,
        ms_web := (ms_web s)\<lparr>mb_guide_set := False, mb_finished_set := False, mb_workflow := new_workflow,
          mb_guide_enabled := True\<rparr>\<rparr>)"

definition mock_set_hostname :: "string \<Rightarrow> mock_state \<Rightarrow> bool \<times> mock_state" where
  "mock_set_hostname hostname s = (True, s\<lparr>ms_hostname := hostname\<rparr>)"

text \<open>After a reset the guide starts again with the password, whatever the workflow.\<close>

lemma mock_reset_guide_restarts:
  assumes "w \<in> fst ` set workflows"
  shows "\<exists>g steps. mock_guide_data (snd (mock_reset_guide w s)) = Inr (g, steps) \<and> g_passed g = Lst [] \<and>
    g_next_step g = Some ''password'' \<and> g_enabled g"
  using assms
  by (auto simp: mock_guide_data_def mock_reset_guide_def mock_passed_def Let_def next_step_def workflow_steps_def
      workflows_def)

text \<open>A finished guide is shown once more with its last state and is off afterwards.\<close>

lemma mock_get_data_ends_guide:
  assumes "mock_guide_data s = Inr (g, steps)" "set steps = set (mock_passed s)"
  shows "\<exists>d. mock_get_data s = (Ret d, s\<lparr>ms_web := (ms_web s)\<lparr>mb_guide_enabled := False\<rparr>\<rparr>) \<and> mh_guide d = g"
  using assms by (simp add: mock_get_data_def inspect_def bindP_def prog_basic whenP_def change_def)

end
