(* ===== verification/MockConstants.thy ===== *)
theory MockConstants
  imports MockWeb Messages
begin

text \<open>
  The mocked handlers without a state, \<^verbatim>\<open>about\<close>, \<^verbatim>\<open>maintain\<close> and \<^verbatim>\<open>introspect\<close> of
  \<^verbatim>\<open>foris_controller_modules/*/handlers/mock.py\<close>, and the constants of the mock of the updater: its
  table of package lists and their labels. What is drawn at random is an argument. The lemmas say
  that the table is complete: whatever the language, every list can be shown, with all its labels.
\<close>

section \<open>Handlers without a state\<close>

definition mock_device_info :: json where
  "mock_device_info = JObj [(''model'', JStr ''Turris Omnia''), (''kernel'', JStr ''4.4.77-967673b9d511e4292e3bcb76c9e064bc-0''),
     (''os_version'', JStr ''3.7''), (''os_branch'', JObj [(''mode'', JStr ''branch''), (''value'', JStr ''hbk'')])]"

definition mock_serial :: json where
  "mock_serial = JObj [(''serial'', JStr ''0000000B00009CD6'')]"

text \<open>\<open>hex16\<close> is \<^verbatim>\<open>"%016X"\<close>, \<open>random\<close> what \<^verbatim>\<open>random.randrange\<close> gives.\<close>

definition mock_registration_number :: "(nat \<Rightarrow> string) \<Rightarrow> nat \<Rightarrow> json" where
  "mock_registration_number hex16 random = JObj [(''registration_number'', JStr (hex16 random))]"

definition mock_customization :: json where "mock_customization = JNull"

definition mock_reboot :: bool where "mock_reboot = True"

definition mock_generate_backup :: "(string \<Rightarrow> string) \<Rightarrow> string" where
  "mock_generate_backup b64encode = b64encode ''This is backup!!!''"

definition mock_restore_backup :: "(string \<Rightarrow> string res) \<Rightarrow> string \<Rightarrow> bool res" where
  "mock_restore_backup b64decode backup = bindE (b64decode backup) (\<lambda>_. Inr True)"

definition mock_list_modules :: "string list" where
  "mock_list_modules =
     [''about'', ''diagnostics'', ''dns'', ''guest'', ''introspect'', ''lan'', ''maintain'', ''networks'', ''password'', ''remote'',
      ''router_notifications'', ''storage'', ''time'', ''updater'', ''wan'', ''web'', ''wifi'']"

section \<open>Answers of the mocked updater and of the uplink\<close>

definition mock_plan :: json where
  "mock_plan = JArr
     [JObj [(''name'', JStr ''package1''), (''op'', JStr ''install''), (''new_ver'', JStr ''1.0'')],
      JObj [(''name'', JStr ''package2''), (''op'', JStr ''remove''), (''cur_ver'', JStr ''2.0'')],
      JObj [(''name'', JStr ''package3''), (''op'', JStr ''upgrade''), (''cur_ver'', JStr ''1.0''), (''new_ver'', JStr ''1.1'')],
      JObj [(''name'', JStr ''package4''), (''op'', JStr ''downgrade''), (''cur_ver'', JStr ''2.1''), (''new_ver'', JStr ''2.0'')]]"

text \<open>\<open>pick\<close> is \<^verbatim>\<open>random.choice\<close> as an index below the number of choices: which answer, status and reboot.\<close>

definition mock_get_approval :: "nat \<times> nat \<times> nat \<Rightarrow> string \<Rightarrow> string \<Rightarrow> json" where
  "mock_get_approval pick uuid now = (case pick of (answer, status, restart) \<Rightarrow>
     [JObj [(''present'', JBool False)],
      JObj [(''present'', JBool True), (''hash'', JStr uuid),
        (''status'', JStr ([''asked'', ''granted'', ''denied''] ! status)), (''time'', JStr now), (''plan'', mock_plan),
        (''reboot'', JBool ([True, False] ! restart))]] ! answer)"

definition mock_resolve_approval :: "nat \<Rightarrow> bool" where
  "mock_resolve_approval pick = [True, False] ! pick"

definition mock_get_languages :: "mock_updater \<Rightarrow> json" where
  "mock_get_languages s = JArr (map (\<lambda>(code, enabled). JObj [(''code'', JStr code), (''enabled'', JBool enabled)]) (mu_languages s))"

definition mock_get_enabled :: "mock_updater \<Rightarrow> bool" where "mock_get_enabled s = mu_enabled s"

definition mock_get_running :: "mock_updater \<Rightarrow> bool" where "mock_get_running s = mu_running s"

definition mock_wan_status :: "nat \<times> nat \<times> nat \<Rightarrow> json" where
  "mock_wan_status pick = (case pick of (up, duid, proto) \<Rightarrow> JObj
     [(''up'', JBool ([True, False] ! up)), (''last_seen_duid'', JStr ([[], ''00030001d858d7004555''] ! duid)),
      (''proto'', JStr ([''pppoe'', ''dhcp'', ''static'', ''none''] ! proto))])"

section \<open>The table of package lists\<close>

definition first_package_lists :: "(string \<times> list_info) list" where
  "first_package_lists = [
     (''3g'', \<lparr>li_title = [(''en'', ''Extensions of network protocols for 3G/LTE'')],
       li_description = [(''en'', ''Support for Turris Omnia and Turris MOX LTE pack.'')],
       li_url = Some ''https://wiki.turris.cz/doc/en/howto/lte_modem_install'',
       li_options = None,
       li_labels = None, li_enabled = False\<rparr>),
     (''datacollect'', \<lparr>li_title = [(''en'', ''Data Collection'')],
       li_description = [(''en'', ''Software for participation in data collection and distributed adaptive firewall.'')],
       li_url = Some ''https://docs.turris.cz/basics/collect/'',
       li_options = Some [
         (''survey'', \<lparr>oi_title = ''Usage Survey'', oi_description = ''Collect data about router usage (installed packages, Internet connection type and etc.).'',
           oi_url = None, oi_default = Some True, oi_labels = None, oi_boards = None\<rparr>),
         (''dynfw'', \<lparr>oi_title = ''Dynamic Firewall'', oi_description = ''Add firewall rules to block attackers detected by Turris collection network.'',
           oi_url = None, oi_default = Some True, oi_labels = None, oi_boards = None\<rparr>),
         (''fwlogs'', \<lparr>oi_title = ''Firewall Logs'', oi_description = ''Collect logs from firewall for attempted connections.'',
           oi_url = None, oi_default = Some True, oi_labels = None, oi_boards = None\<rparr>),
         (''minipot'', \<lparr>oi_title = ''Minipots'', oi_description = ''Minimal honeypots to catch attackers for various protocols.'',
           oi_url = None, oi_default = Some True, oi_labels = None, oi_boards = None\<rparr>),
         (''haas'', \<lparr>oi_title = ''SSH Honeypot'', oi_description = ''SSH honeypot using Honeypot as a Service (haas.nic.cz).'',
           oi_url = None, oi_default = None, oi_labels = None, oi_boards = None\<rparr>)],
       li_labels = None, li_enabled = False\<rparr>),
     (''atlas'', \<lparr>li_title = [(''en'', ''RIPE Atlas SW Probe'')],
       li_description = [(''en'', ''Global platform, which measures Internet connectivity and reachability.'')],
       li_url = Some ''https://wiki.turris.cz/doc/en/howto/atlas-probe'',
       li_options = None,
       li_labels = Some [''community''], li_enabled = False\<rparr>),
     (''dvb'', \<lparr>li_title = [(''en'', ''DVB tuner'')],
       li_description = [(''en'', ''Software for sharing television received by a DVB tuner on Turris. Does not include device drivers.'')],
       li_url = Some ''https://wiki.turris.cz/doc/en/howto/dvb'',
       li_options = None,
       li_labels = Some [''community'', ''advanced''], li_enabled = False\<rparr>),
     (''hardening'', \<lparr>li_title = [(''en'', ''Hardening'')],
       li_description = [(''en'', ''Seccomp tools for system hardening.'')],
       li_url = None,
       li_options = Some [
         (''common_passwords'', \<lparr>oi_title = ''Common passwords filter'', oi_description = ''Compare new password you are about to set to access router with list of common passwords used by robots trapped in Turris honeypots.'',
           oi_url = None, oi_default = Some True, oi_labels = None, oi_boards = None\<rparr>),
         (''ujail'', \<lparr>oi_title = ''OpenWrt's process jail'', oi_description = ''ujail allows to limit processes by limiting syscalls and file-system access'',
           oi_url = None, oi_default = None, oi_labels = Some [''community'', ''experimental''], oi_boards = None\<rparr>),
         (''seccomp'', \<lparr>oi_title = ''Secure Computing Mode (seccomp)'', oi_description = ''Optional support for seccomp allowing processes to isolate from them self'',
           oi_url = None, oi_default = None, oi_labels = Some [''community'', ''experimental''], oi_boards = None\<rparr>)],
       li_labels = None, li_enabled = False\<rparr>)]"

definition second_package_lists :: "(string \<times> list_info) list" where
  "second_package_lists = [
     (''luci_controls'', \<lparr>li_title = [(''en'', ''LuCI extensions'')],
       li_description = [(''en'', ''Several additional tabs and controls for the advanced LuCI interface.'')],
       li_url = None,
       li_options = Some [
         (''adblock'', \<lparr>oi_title = ''AdBlock'', oi_description = ''Script to block ad/abuse domains.'',
           oi_url = None, oi_default = None, oi_labels = None, oi_boards = None\<rparr>),
         (''sqm'', \<lparr>oi_title = ''SQM'', oi_description = ''Active Queue Management to boost performance on heavily loaded network.'',
           oi_url = None, oi_default = None, oi_labels = None, oi_boards = None\<rparr>),
         (''tinyproxy'', \<lparr>oi_title = ''Tinyproxy'', oi_description = ''HTTP(S) proxy.'',
           oi_url = None, oi_default = None, oi_labels = None, oi_boards = None\<rparr>),
         (''upnp'', \<lparr>oi_title = ''UPnP'', oi_description = ''Universal Plug and Play service.'',
           oi_url = None, oi_default = None, oi_labels = None, oi_boards = None\<rparr>),
         (''printserver'', \<lparr>oi_title = ''Print server (p910nd)'', oi_description = ''Services allowing to connect a printer to the router and use it for remote printing.'',
           oi_url = None, oi_default = None, oi_labels = None, oi_boards = None\<rparr>),
         (''statistics'', \<lparr>oi_title = ''Statistics'', oi_description = ''Gather and render diagrams for system statistics by using collectd.'',
           oi_url = None, oi_default = None, oi_labels = None, oi_boards = None\<rparr>),
         (''wireguard'', \<lparr>oi_title = ''WireGuard'', oi_description = ''Alternative to OpenVPN, it provides fast, modern and secure VPN tunnel.'',
           oi_url = Some ''https://openwrt.org/docs/guide-user/services/vpn/wireguard/start'', oi_default = None, oi_labels = Some [''advanced''], oi_boards = None\<rparr>)],
       li_labels = Some [''community''], li_enabled = False\<rparr>),
     (''lxc'', \<lparr>li_title = [(''en'', ''LXC utilities'')],
       li_description = [(''en'', ''Set of utilities to manage Linux Containers (lightweight virtualization technology).'')],
       li_url = Some ''https://docs.turris.cz/geek/lxc/lxc/'',
       li_options = None,
       li_labels = Some [''storage'', ''high_memory'', ''advanced''], li_enabled = False\<rparr>),
     (''nas'', \<lparr>li_title = [(''en'', ''NAS'')],
       li_description = [(''en'', ''Services allowing to connect a disk to the router and use it as network data store.'')],
       li_url = Some ''https://wiki.turris.cz/doc/en/howto/nas'',
       li_options = Some [
         (''samba'', \<lparr>oi_title = ''Samba'', oi_description = ''Implementation of SMB network protocol.'',
           oi_url = None, oi_default = None, oi_labels = None, oi_boards = None\<rparr>),
         (''dlna'', \<lparr>oi_title = ''DLNA'', oi_description = ''Digital media sharing server.'',
           oi_url = None, oi_default = None, oi_labels = None, oi_boards = None\<rparr>),
         (''transmission'', \<lparr>oi_title = ''Transmission'', oi_description = ''BitTorrent client.'',
           oi_url = None, oi_default = None, oi_labels = None, oi_boards = None\<rparr>),
         (''raid'', \<lparr>oi_title = ''mdadm'', oi_description = ''Software RAID storage support using mdadm.'',
           oi_url = None, oi_default = None, oi_labels = Some [''advanced''], oi_boards = None\<rparr>),
         (''encrypt'', \<lparr>oi_title = ''Encrypted Storage'', oi_description = ''Add support to access encrypted storage devices using dm-crypt.'',
           oi_url = None, oi_default = None, oi_labels = Some [''advanced''], oi_boards = None\<rparr>)],
       li_labels = Some [''community''], li_enabled = False\<rparr>)]"

definition third_package_lists :: "(string \<times> list_info) list" where
  "third_package_lists = [
     (''net_monitoring'', \<lparr>li_title = [(''en'', ''Network monitoring and parental control'')],
       li_description = [(''en'', ''Tools to monitor local network and users on it.'')],
       li_url = None,
       li_options = Some [
         (''netmetr'', \<lparr>oi_title = ''Internet connection speed measurement'', oi_description = ''Actively measures speed of Internet connection using netmetr.cz service.'',
           oi_url = Some ''https://docs.turris.cz/basics/apps/netmetr/'', oi_default = None, oi_labels = None, oi_boards = None\<rparr>),
         (''dev_detect'', \<lparr>oi_title = ''New devices detection'', oi_description = ''Software for detecting new devices on local network.'',
           oi_url = None, oi_default = None, oi_labels = Some [''experimental''], oi_boards = None\<rparr>),
         (''pakon'', \<lparr>oi_title = ''Pakon'', oi_description = ''Software for in depth monitoring of your traffic using Suricata.'',
           oi_url = Some ''https://docs.turris.cz/basics/apps/pakon/'', oi_default = None, oi_labels = Some [''experimental'', ''netload'', ''high_memory'', ''storage''], oi_boards = None\<rparr>)],
       li_labels = None, li_enabled = False\<rparr>),
     (''netboot'', \<lparr>li_title = [(''en'', ''Turris MOX network boot'')],
       li_description = [(''en'', ''Server-side for Turris MOX without microSD card used as Wi-Fi access point.'')],
       li_url = Some ''https://docs.turris.cz/basics/apps/netboot'',
       li_options = None,
       li_labels = Some [''high_storage'', ''experimental''], li_enabled = False\<rparr>),
     (''netdata'', \<lparr>li_title = [(''en'', ''Netdata'')],
       li_description = [(''en'', ''Real-time perfomance and health monitoring options.'')],
       li_url = None,
       li_options = None,
       li_labels = Some [''community'', ''high_memory''], li_enabled = False\<rparr>),
     (''nextcloud'', \<lparr>li_title = [(''en'', ''Nextcloud'')],
       li_description = [(''en'', ''Self-hosted files hosting and productivity platform that keeps you in control. Alternative to services such as Dropbox or Google Drive.'')],
       li_url = Some ''https://docs.turris.cz/geek/nextcloud/nextcloud/'',
       li_options = None,
       li_labels = Some [''experimental'', ''storage''], li_enabled = False\<rparr>),
     (''openvpn'', \<lparr>li_title = [(''en'', ''OpenVPN'')],
       li_description = [(''en'', ''Easy setup of the OpenVPN server from Foris.'')],
       li_url = Some ''https://docs.turris.cz/basics/apps/openvpn/openvpn/'',
       li_options = None,
       li_labels = None, li_enabled = False\<rparr>),
     (''tor'', \<lparr>li_title = [(''en'', ''Tor'')],
       li_description = [(''en'', ''Service to increase anonymity on the Internet.'')],
       li_url = None,
       li_options = None,
       li_labels = Some [''advanced'', ''community''], li_enabled = False\<rparr>)]"

definition last_package_lists :: "(string \<times> list_info) list" where
  "last_package_lists = [
     (''drivers'', \<lparr>li_title = [(''en'', ''Alternative core drivers'')],
       li_description = [(''en'', ''These options allow you to use alternative drivers over those available in default installation. You can try to enable these if you encounter some problems with default ones.'')],
       li_url = None,
       li_options = Some [
         (''ath10k_ct'', \<lparr>oi_title = ''Candela Technologies Wi-Fi drivers for Qualcomm Atheros QCA988x'', oi_description = ''Alternative driver from Candela Technologies.'',
           oi_url = None, oi_default = None, oi_labels = None, oi_boards = Some [''omnia'', ''turris1x'']\<rparr>),
         (''ath10k_ct_htt'', \<lparr>oi_title = ''Candela Technologies Wi-Fi drivers for Qualcomm Atheros QCA988x with improved stability in busy networks'', oi_description = ''Alternative driver from Candela Technologies. It uses HTT TX data path for management frames, which improves stability in busy networks.'',
           oi_url = None, oi_default = None, oi_labels = None, oi_boards = None\<rparr>)],
       li_labels = Some [''advanced'', ''community''], li_enabled = False\<rparr>)]"

definition option_labels :: "(string \<times> label_info) list" where
  "option_labels = [
     (''advanced'', \<lparr>lb_title = ''Advanced users'',
        lb_description = ''This functionality is usable only for advanced users.'',
        lb_severity = Some ''secondary''\<rparr>),
     (''community'', \<lparr>lb_title = ''Community'',
        lb_description = ''This package list is not officially supported. Turris team has no responsibility for stability of software that is part of this list.'',
        lb_severity = Some ''success''\<rparr>),
     (''experimental'', \<lparr>lb_title = ''Experimental'',
        lb_description = ''Software that is part of this package list is considered experimental. Problems when using it can be expected.'',
        lb_severity = Some ''danger''\<rparr>),
     (''deprecated'', \<lparr>lb_title = ''Deprecated'',
        lb_description = ''This package list and/or software that provides are planned to be removed. It is advised to not use it.'',
        lb_severity = Some ''warning''\<rparr>),
     (''storage'', \<lparr>lb_title = ''External storage'',
        lb_description = ''External storage use is highly suggested for use of this package list'',
        lb_severity = Some ''primary''\<rparr>),
     (''high_memory'', \<lparr>lb_title = ''High memory usage'',
        lb_description = ''Software in this package list consumes possibly higher amount of memory to run. It is not suggested to use it with small memory.'',
        lb_severity = Some ''info''\<rparr>),
     (''high_storage'', \<lparr>lb_title = ''High storage usage'',
        lb_description = ''Software in this package list consumes possibly higher amount of storage space to install. It is not suggested to use it with small storages such as internal storage of Turris 1.x and SD cards with less than 1GB of storage.'',
        lb_severity = Some ''info''\<rparr>),
     (''netload'', \<lparr>lb_title = ''Network load'',
        lb_description = ''This functionality can decreases network performance. That can be felt only on faster uplinks but because of that it still can be decremental to some users.'',
        lb_severity = Some ''secondary''\<rparr>)]"

definition default_package_lists :: "(string \<times> list_info) list" where
  "default_package_lists = first_package_lists @ second_package_lists @ third_package_lists @ last_package_lists"

lemmas package_tables = default_package_lists_def first_package_lists_def second_package_lists_def third_package_lists_def
  last_package_lists_def

lemma default_package_lists_distinct: "distinct (map fst default_package_lists)"
  by (simp add: package_tables)

text \<open>Every list has an English title and description, the ones shown for a language it lacks.\<close>

lemma default_package_lists_english:
  "list_all (\<lambda>(name, l). map_of (li_title l) ''en'' \<noteq> None \<and> map_of (li_description l) ''en'' \<noteq> None) default_package_lists"
  by (simp add: package_tables)

text \<open>A label that the table of labels lacks would be dropped without notice; there is none.\<close>

lemma default_package_lists_labels:
  "list_all (\<lambda>(name, l). list_all (\<lambda>x. x \<in> fst ` set option_labels) (kept (li_labels l) []) \<and>
     list_all (\<lambda>(o', data). list_all (\<lambda>x. x \<in> fst ` set option_labels) (kept (oi_labels data) [])) (options_of l)) default_package_lists"
  by (simp add: package_tables option_labels_def options_of_def kept_def)

lemma labels_all_shown: "set labels \<subseteq> fst ` set known \<Longrightarrow> map fst (labels_shown known labels) = labels"
proof (induction labels)
  case (Cons l ls)
  then obtain d where "map_of known l = Some d" by (auto simp: image_iff) (metis map_of_eq_None_iff not_None_eq image_eqI fst_conv)
  with Cons show ?case by (simp add: labels_shown_def)
qed (simp add: labels_shown_def)

lemma default_package_lists_shown:
  "\<exists>shown. mock_package_lists option_labels default_package_lists lang s = Inr shown \<and> map sl_name shown = map fst default_package_lists"
proof -
  have "\<exists>shown. mapE (show_package_list known lang s) ls = Inr shown \<and> map sl_name shown = map fst ls"
    if "list_all (\<lambda>(name, l). map_of (li_title l) ''en'' \<noteq> None \<and> map_of (li_description l) ''en'' \<noteq> None) ls" for known ls
    using that
  proof (induction ls)
    case (Cons e ls)
    obtain name l where e: "e = (name, l)" by (cases e)
    from Cons e obtain shown where "mapE (show_package_list known lang s) ls = Inr shown" "map sl_name shown = map fst ls" by auto
    moreover from Cons.prems e obtain x where "show_package_list known lang s e = Inr x" "sl_name x = name"
      by (auto simp: show_package_list_def in_language_def)
    ultimately show ?case using e by simp
  qed simp
  from this [OF default_package_lists_english] show ?thesis by (simp add: mock_package_lists_def)
qed

end
