(* ===== verification/Spec2Isabelle.thy ===== *)
theory Spec2Isabelle
  imports UciRefinement NetworksRoundtrip WifiRoundtrip AsyncClients RwLock Sockets BusService MqttService GuestService AsyncStart Programs Dns RouterNotifications Clock Remote Updater Zconf LanService MockConstants
begin

text \<open>
  A verification library of foris-controller, the daemon of Turris routers that configures an
  OpenWrt system on behalf of its web interface.

  ARCHITECTURE. A client sends a JSON message over a bus (\<^verbatim>\<open>foris_controller/buses/*.py\<close>,
  \<^verbatim>\<open>client_socket.py\<close>). The router (\<^verbatim>\<open>message_router.py\<close>) validates it against the schemas, finds
  the module (\<^verbatim>\<open>foris_controller_modules/*/__init__.py\<close>) and performs the action; the module asks
  its handler, and the handler for devices delegates to a backend
  (\<^verbatim>\<open>foris_controller_backends/*/__init__.py\<close>). The backends keep no state of their own: they read
  and change the configuration of the router with the \<^verbatim>\<open>uci\<close> program inside of a transaction
  (\<^verbatim>\<open>with UciBackend() as backend\<close>), run commands, restart services and read files. Tasks that
  take long run in other processes, whose data are shared with the controller. Successful changes
  are announced as notifications over the bus. A second set of handlers, the mocks, keeps all
  settings in memory for tests.

  CONVENTIONS. \<open>Prelude\<close> has the vocabulary. A Python exception is a value of \<open>exn\<close>
  (\<^verbatim>\<open>UciException\<close> and its like keep the argument vector of the command, not its output); a pure
  function that may raise returns \<open>exn + 'a\<close>; a method with effects is a \<open>prog\<close>, a function
  from the state to an outcome (returned, raised, or blocked for ever on a lock) and a state.
  Everything outside of the repository is an argument: the environment \<open>'e env\<close> of
  \<open>UciBackend\<close> holds running a command, the file system, the iteration order of a Python set
  (\<open>env_set_order\<close>) and process spawning, over an abstract outside world \<open>'e\<close>; the state
  \<open>'e st\<close> adds the locks and the configs the running transaction has touched. Third-party
  libraries (\<^verbatim>\<open>svupdater\<close>, \<^verbatim>\<open>turrishw\<close>, \<^verbatim>\<open>pbkdf2\<close>, the JSON decoder and encoder, the schema
  validator, \<^verbatim>\<open>paho-mqtt\<close>, \<^verbatim>\<open>ubus\<close>, \<^verbatim>\<open>zeroconf\<close>, \<^verbatim>\<open>ifaddr\<close>, the table of time zones) are parameters,
  too. Strings are ASCII (\<open>PyStr\<close>). A parsed config is a list of sections in file order, each
  with its options as an association list. Requests that the message schemas admit are records
  and datatypes; where the code handles arbitrary JSON, the model does (\<open>json\<close> in \<open>Messages\<close>).

  THE CONFIGURATION. \<open>UciData\<close> (lookups) and \<open>UciParse\<close> (the parser of \<^verbatim>\<open>uci export\<close>) and
  \<open>UciBackend\<close> (write operations, commit and the transaction) model
  \<^verbatim>\<open>foris_controller_backends/uci/__init__.py\<close>. \<open>UciStore\<close> states what the \<^verbatim>\<open>uci\<close> program is
  documented to do: committed configs and a directory of uncommitted changes. The locale
  \<open>uci_tool\<close> of \<open>UciTool\<close> is the interface to that program: through the abstraction \<open>view\<close>
  every command behaves like the reference, and nothing is assumed where the documentation leaves
  the effect open. It is interpreted on the reference environment. Every theorem about published
  configs holds over all such tools: programs are simulated by their runs in the reference
  environment, which \<open>UciExec\<close> executes by rewriting. \<open>Transactions\<close> proves the contract
  (entering and leaving publish nothing when the body raises, stale changes never get in, a failing
  commit keeps the lock). \<open>UciWrites\<close> treats straight-line sequences of writes as data: \<open>apply_writes\<close> is
  their abstract effect, \<open>value_after\<close> what an option reads afterwards; \<open>UciRefinement\<close> proves
  that a transaction of writes implements the abstract update, all of it or nothing.

  THE BACKENDS. \<open>Services\<close> has \<^verbatim>\<open>cmdline\<close> (running commands), \<^verbatim>\<open>files\<close>, \<^verbatim>\<open>services\<close>, \<^verbatim>\<open>maintain\<close> and
  \<^verbatim>\<open>system\<close>; \<open>Utils\<close> and \<open>IpAddr\<close> the helpers of \<^verbatim>\<open>foris_controller/utils.py\<close> with the address
  arithmetic; \<open>Guide\<close> and \<open>Web\<close> \<^verbatim>\<open>profiles.py\<close>, \<^verbatim>\<open>about\<close> and \<^verbatim>\<open>web\<close>; \<open>Lan\<close> and \<open>LanSettings\<close>
  \<^verbatim>\<open>lan\<close>, with \<open>LanRegistry\<close> and \<open>LanChanges\<close> on the registry of static clients (its invariant,
  adding, changing and removing) and \<open>LanRoundtrip\<close> on the settings; \<open>Networks\<close> and
  \<open>NetworksUpdate\<close> \<^verbatim>\<open>networks\<close>, with \<open>NetworksRoundtrip\<close> on the assignment of
  ports; \<open>Guest\<close> \<^verbatim>\<open>guest\<close>; \<open>Wan\<close> and \<open>WanRoundtrip\<close> \<^verbatim>\<open>wan\<close>; \<open>Wifi\<close> and
  \<open>WifiRoundtrip\<close> \<^verbatim>\<open>wifi\<close> and \<^verbatim>\<open>ubus\<close>; \<open>Dns\<close>, \<open>RouterNotifications\<close>, \<open>Clock\<close>, \<open>Remote\<close>,
  \<open>Passwords\<close> and \<open>Updater\<close> the backends of their names. The main property of each is a round
  trip: the settings read after an update are those written, for the requests and configs that the
  text of the property names, over every uci tool, together with what else the update changes or
  must leave alone.

  TASKS AND LOCKS. \<open>AsyncCommands\<close> models \<^verbatim>\<open>AsyncCommand\<close> and \<^verbatim>\<open>AsyncMultipleCommands\<close> of \<^verbatim>\<open>cmdline\<close>:
  the bounded table of processes (the locale \<open>command_buffer\<close>, interpreted on it), the workers
  and the step relation \<open>async_step\<close> that interleaves starts, outputs and exits. \<open>AsyncClients\<close>
  has the connection test, the wireless scan, the certificate authority and \<^verbatim>\<open>ntpd\<close>. \<open>RwLock\<close> is
  the readers-writer lock of \<^verbatim>\<open>utils.py\<close> as a step relation over threads of several processes,
  with mutual exclusion of writers, progress, and its limits between processes. \<open>AsyncStart\<close> is the
  start of a command as steps of the caller, its thread and the worker: how a start can end.

  MESSAGES AND HANDLERS. \<open>Messages\<close> has the router and the reply it owes to every
  message (\<open>owed\<close>), \<open>Modules\<close> every action of every module,
  \<open>Announcements\<close> the rule when a notification is sent, \<open>JsonTools\<close> operations on JSON values.
  \<open>Handlers\<close>, \<open>HandlersNet\<close> and \<open>LanService\<close> model the handlers for devices,
  \<^verbatim>\<open>foris_controller_modules/*/handlers/openwrt.py\<close>: how Python binds the arguments of a call, what
  the backends make of JSON values and how their results are shown. They compose the layers: a
  request to add a DHCP client (\<open>LanService\<close>), to set and check a password (\<open>Handlers\<close>) and to
  enable the guest network (\<open>GuestService\<close>) is followed from the message through router,
  module, handler and transaction to the published config and the notification.

  BUSES. \<open>Sockets\<close> models the unix-socket bus and the client socket over byte streams cut anywhere
  (the locale \<open>length_codec\<close>, interpreted for both byte orders), \<open>UbusBus\<close> the requests on ubus,
  \<open>BusService\<close> the objects and workers on ubus, the listeners and the connections of the senders.
  \<open>Mqtt\<close> has topics, dispatch and the announcer; \<open>MqttService\<close> the message workers that run
  concurrently over the broker (the locale \<open>mqtt_broker\<close>, interpreted on retained topics), the
  answers they leave there, connecting and the sender.

  PROGRAMS. \<open>App\<close> is \<^verbatim>\<open>app.py\<close>: loading of modules and handlers, the generator of notifications and
  the main loop; \<open>Zconf\<close> is \<^verbatim>\<open>zconf.py\<close>. \<open>ArgParse\<close> models what the programs use of \<^verbatim>\<open>argparse\<close> of
  the standard library: options, abbreviated, joined or with a value, subparsers, how positional
  arguments share the strings, defaults. \<open>ArgRuns\<close> carries invariants through a run of it.
  \<open>Programs\<close> has the arguments of \<^verbatim>\<open>controller/__main__.py\<close> and \<^verbatim>\<open>notify/__main__.py\<close> and what
  the programs do with them, over a runtime that is a parameter.

  MOCKS. \<open>MockNetworks\<close>, \<open>MockLan\<close>, \<open>MockUplink\<close>, \<open>MockServices\<close>, \<open>MockWeb\<close> and \<open>MockConstants\<close>
  model the handlers \<^verbatim>\<open>foris_controller_modules/*/handlers/mock.py\<close>. Their lemmas say what tests
  rely on: no port is lost by an update, clients never collide, radios are set only to what they
  support, fixed forwarders stay, a reset restarts the guide, every package list can be shown.

  FUEL AND TERMINATION. The model has no fuel. Loops are structural recursion over the data they
  consume, or a terminating \<^verbatim>\<open>function\<close>. The parser of command lines recurses on the
  strings that are left. The loops of the socket handlers and of the ubus workers may run for ever
  and are \<open>partial_function (option)\<close>: that they end, or do not, is proved where they are. Concurrency is
  a step relation, so no number of steps is fixed. Bounds are those of the code: 20 processes in
  the table, 512 KiB per part of an ubus reply, four bytes of length, 32 bits of an address.

  NOT MODELLED. Logging and the decorators that only log; texts of usage and help; forking, threads
  and signals as such (where their interleaving matters they are step relations); that the locks
  \<^verbatim>\<open>file_lock\<close> and \<^verbatim>\<open>time_lock\<close> are taken around the operations of \<^verbatim>\<open>dns\<close> and \<^verbatim>\<open>time\<close>; the packages
  that only import the handlers; the schemas, which are data for the third-party validator;
  packaging, documentation, examples and tests.
\<close>

end
